(* ===== verification/Prelude.thy ===== *)
theory Prelude
  imports Complex_Main "HOL-Library.AList" "HOL-Library.Multiset" "HOL-Library.Product_Lexorder"
begin

text \<open>
  Shared vocabulary of the development.  A Python \<open>dict\<close> is an association list kept in
  insertion order: \<^const>\<open>AList.update\<close> replaces the value of a present key in place and
  appends a new one at the end, \<^const>\<open>AList.delete\<close> is \<open>dict.pop(key, None)\<close> and
  \<^const>\<open>map_of\<close> is \<open>dict.get\<close>.  Database tables are the same lists, keyed by primary key.
  Methods that mutate state and may raise are functions of type \<open>act\<close>: the state survives
  an exception, as it does in the source.
\<close>

named_theorems dict_simps \<open>reading back what a dictionary update stored\<close>
named_theorems act_simps \<open>unfolding of the state and exception combinators\<close>

section \<open>Names of the model's basic types\<close>

type_synonym uuid = nat
type_synonym time = int \<comment> \<open>microseconds since the epoch, the resolution of \<open>datetime\<close>\<close>
type_synonym ('k, 'v) dict = "('k \<times> 'v) list"

section \<open>Dictionaries\<close>

abbreviation vals :: "('k, 'v) dict \<Rightarrow> 'v list" where
  "vals m \<equiv> map snd m"

abbreviation keys :: "('k, 'v) dict \<Rightarrow> 'k list" where
  "keys m \<equiv> map fst m"

text \<open>A table whose rows carry their own key, each key once.\<close>

definition keyed :: "('v \<Rightarrow> 'k) \<Rightarrow> ('k, 'v) dict \<Rightarrow> bool" where
  "keyed f m \<longleftrightarrow> distinct (keys m) \<and> (\<forall>k v. map_of m k = Some v \<longrightarrow> f v = k)"

declare map_of_eq_Some_iff [simp del] Some_eq_map_of_iff [simp del]

lemma map_of_update [simp, dict_simps]:
  "map_of (AList.update k v m) = (map_of m)(k \<mapsto> v)"
  by (rule update_conv')

lemma map_of_delete [simp, dict_simps]:
  "map_of (AList.delete k m) = (map_of m)(k := None)"
  by (rule delete_conv')

lemma distinct_keys_update [simp]:
  "distinct (keys m) \<Longrightarrow> distinct (keys (AList.update k v m))"
  by (rule distinct_update)

lemma distinct_keys_delete [simp]:
  "distinct (keys m) \<Longrightarrow> distinct (keys (AList.delete k m))"
  by (rule distinct_delete)

lemma keyed_empty [simp]: "keyed f []"
  by (simp add: keyed_def)

lemma keyed_update [simp]:
  "keyed f m \<Longrightarrow> f v = k \<Longrightarrow> keyed f (AList.update k v m)"
  by (auto simp: keyed_def)

lemma keyed_key: "keyed f m \<Longrightarrow> map_of m k = Some v \<Longrightarrow> f v = k"
  by (auto simp: keyed_def)

lemma keyed_distinct [simp]: "keyed f m \<Longrightarrow> distinct (keys m)"
  by (auto simp: keyed_def)

lemma in_vals_iff: "distinct (keys m) \<Longrightarrow> v \<in> set (vals m) \<longleftrightarrow> (\<exists>k. map_of m k = Some v)"
  by (force simp: map_of_eq_Some_iff)

lemma in_valsI: "map_of m k = Some v \<Longrightarrow> v \<in> set (vals m)"
  by (drule map_of_SomeD) (simp add: rev_image_eqI)

lemma in_snd: "map_of m k = Some v \<Longrightarrow> v \<in> snd ` set m"
  using in_valsI [of m k v] by simp

lemma in_keys: "map_of m k = Some v \<Longrightarrow> k \<in> fst ` set m"
  by (drule map_of_SomeD) (simp add: rev_image_eqI)

lemma ball_vals:
  "distinct (keys m) \<Longrightarrow> (\<forall>x \<in> set m. P (snd x)) \<longleftrightarrow> (\<forall>k v. map_of m k = Some v \<longrightarrow> P v)"
  by (metis (no_types, lifting) map_of_SomeD map_of_is_SomeI prod.collapse snd_conv)

lemma set_keys_delete: "set (keys (AList.delete k m)) = set (keys m) - {k}"
  by (simp add: delete_keys)

lemma keys_update_set: "set (keys (AList.update k v m)) = insert k (set (keys m))"
  by (simp add: update_keys) auto

lemma keyed_vals_iff:
  "keyed f m \<Longrightarrow> v \<in> set (vals m) \<longleftrightarrow> map_of m (f v) = Some v"
  using in_vals_iff [of m v] by (metis keyed_def)

text \<open>Sums over the values of a dictionary after one of them is stored.\<close>

lemma sum_vals_update_new:
  "map_of m k = None \<Longrightarrow>
     (\<Sum>x\<leftarrow>vals (AList.update k v m). f x) = (\<Sum>x\<leftarrow>vals m. f x) + (f v :: int)"
  by (induction m) (auto split: if_splits)

lemma sum_vals_update_old:
  "map_of m k = Some u \<Longrightarrow>
     (\<Sum>x\<leftarrow>vals (AList.update k v m). f x) = (\<Sum>x\<leftarrow>vals m. f x) - f u + (f v :: int)"
  by (induction m) (auto split: if_splits)

lemma vals_update_new:
  "map_of m k = None \<Longrightarrow> vals (AList.update k v m) = vals m @ [v]"
  by (induction m) (auto split: if_splits)

lemma keys_update_old:
  "map_of m k = Some u \<Longrightarrow> keys (AList.update k v m) = keys m"
  by (induction m) (auto split: if_splits)

section \<open>Ordered selection\<close>

text \<open>\<open>list.sort(key=..., reverse=True)\<close>: descending, ties in their original order.\<close>

definition sort_desc :: "('a \<Rightarrow> 'k::linorder) \<Rightarrow> 'a list \<Rightarrow> 'a list" where
  "sort_desc f xs = rev (sort_key f (rev xs))"

definition first_of :: "'a list \<Rightarrow> 'a option" where
  "first_of xs = (case xs of [] \<Rightarrow> None | x # _ \<Rightarrow> Some x)"

lemma first_of_simps [simp]: "first_of [] = None" "first_of (x # xs) = Some x"
  by (simp_all add: first_of_def)

lemma first_of_eq_None [simp]: "first_of xs = None \<longleftrightarrow> xs = []"
  by (cases xs) simp_all

lemma first_of_in: "first_of xs = Some x \<Longrightarrow> x \<in> set xs"
  by (cases xs) simp_all

lemma set_sort_desc [simp]: "set (sort_desc f xs) = set xs"
  by (simp add: sort_desc_def)

lemma sort_desc_Nil [simp]: "sort_desc f xs = [] \<longleftrightarrow> xs = []"
  by (metis set_empty set_sort_desc)

lemma first_sort_desc_max:
  assumes "first_of (sort_desc f xs) = Some x" and "y \<in> set xs"
  shows "f y \<le> f x"
proof -
  have "sorted (map f (sort_key f (rev xs)))" by simp
  moreover obtain ys where ys: "sort_key f (rev xs) = ys @ [x]"
    using assms(1) unfolding sort_desc_def
    by (cases "sort_key f (rev xs)" rule: rev_cases) auto
  moreover have "y \<in> set (ys @ [x])"
    using assms(2) ys by (metis set_rev set_sort)
  ultimately show ?thesis
    by (auto simp: sorted_append)
qed

lemma first_sort_key_min:
  assumes "first_of (sort_key f xs) = Some x" and "y \<in> set xs"
  shows "f x \<le> f y"
proof -
  obtain ys where ys: "sort_key f xs = x # ys"
    using assms(1) by (cases "sort_key f xs") auto
  have "sorted (map f (sort_key f xs))" by simp
  then have "\<forall>z \<in> set ys. f x \<le> f z" using ys by simp
  moreover have "y \<in> set (x # ys)" using assms(2) ys by (metis set_sort)
  ultimately show ?thesis by auto
qed

lemma find_SomeD: "List.find P xs = Some x \<Longrightarrow> P x \<and> x \<in> set xs"
  by (auto simp: find_Some_iff)

text \<open>
  \<open>random.choice(xs)\<close> reads one in-range position; every position is possible, so the
  random number is any natural number taken modulo the length.
\<close>

definition choice :: "nat \<Rightarrow> 'a list \<Rightarrow> 'a" where
  "choice r xs = xs ! (r mod length xs)"

lemma choice_in [simp]: "xs \<noteq> [] \<Longrightarrow> choice r xs \<in> set xs"
  by (simp add: choice_def)

section \<open>State, exceptions\<close>

datatype py_error =
    KeyError
  | ValueError string
  | RuntimeError string
  | TypeError string
  | LookupError
  | OSError
  | AttributeError
  | TimeoutExpired
  | FileExistsError
  | OverflowError
  | JSONDecodeError
  | DatabaseError string \<comment> \<open>the constraint a write violates\<close>
  | GameError int string \<comment> \<open>status code and detail of \<open>app.game.service.GameError\<close>\<close>
  | AdminError int string \<comment> \<open>status code and detail of \<open>DeckAdminError\<close> and \<open>TuneAdminError\<close>\<close>

type_synonym ('s, 'a) act = "'s \<Rightarrow> (py_error + 'a) \<times> 's"

definition ret :: "'a \<Rightarrow> ('s, 'a) act" where
  "ret x = (\<lambda>s. (Inr x, s))"

definition throw :: "py_error \<Rightarrow> ('s, 'a) act" where
  "throw e = (\<lambda>s. (Inl e, s))"

definition bind_act :: "('s, 'a) act \<Rightarrow> ('a \<Rightarrow> ('s, 'b) act) \<Rightarrow> ('s, 'b) act" where
  "bind_act m f = (\<lambda>s. case m s of (Inl e, s') \<Rightarrow> (Inl e, s') | (Inr x, s') \<Rightarrow> f x s')"

definition gets :: "('s \<Rightarrow> 'a) \<Rightarrow> ('s, 'a) act" where
  "gets f = (\<lambda>s. (Inr (f s), s))"

abbreviation try_in :: "py_error + 'a \<Rightarrow> ('a \<Rightarrow> py_error + 'b) \<Rightarrow> py_error + 'b" where
  "try_in r f \<equiv> (case r of Inl err \<Rightarrow> Inl err | Inr x \<Rightarrow> f x)"

lemma try_in_Inr: "try_in r f = Inr y \<longleftrightarrow> (\<exists>x. r = Inr x \<and> f x = Inr y)"
  by (cases r) simp_all

text \<open>A transaction: what raised leaves the state as it was.\<close>

definition atomic :: "('s, 'a) act \<Rightarrow> ('s, 'a) act" where
  "atomic m = (\<lambda>s. case m s of (Inl e, _) \<Rightarrow> (Inl e, s) | (Inr x, s') \<Rightarrow> (Inr x, s'))"

lemma ret_apply [simp, act_simps]: "ret x s = (Inr x, s)"
  by (simp add: ret_def)

lemma throw_apply [simp, act_simps]: "throw e s = (Inl e, s)"
  by (simp add: throw_def)

lemma gets_apply [simp, act_simps]: "gets f s = (Inr (f s), s)"
  by (simp add: gets_def)

lemma bind_act_apply [act_simps]:
  "bind_act m f s = (case m s of (Inl e, s') \<Rightarrow> (Inl e, s') | (Inr x, s') \<Rightarrow> f x s')"
  by (simp add: bind_act_def)

text \<open>
  \<open>keeps I m\<close>: the action leaves the invariant true, whether it returns or raises.
\<close>

definition keeps :: "('s \<Rightarrow> bool) \<Rightarrow> ('s, 'a) act \<Rightarrow> bool" where
  "keeps I m \<longleftrightarrow> (\<forall>s. I s \<longrightarrow> I (snd (m s)))"

named_theorems keeps_rules \<open>structural rules of invariant preservation\<close>

lemma keeps_ret [keeps_rules]: "keeps I (ret x)"
  by (simp add: keeps_def)

lemma keeps_throw [keeps_rules]: "keeps I (throw e)"
  by (simp add: keeps_def)

lemma keeps_gets [keeps_rules]: "keeps I (gets f)"
  by (simp add: keeps_def)

lemma keeps_bind [keeps_rules]:
  "keeps I m \<Longrightarrow> (\<And>x. keeps I (f x)) \<Longrightarrow> keeps I (bind_act m f)"
  by (auto simp: keeps_def bind_act_def split: prod.splits sum.splits)

lemma keepsD: "keeps I m \<Longrightarrow> I s \<Longrightarrow> m s = (r, s') \<Longrightarrow> I s'"
  by (metis keeps_def snd_conv)

end
