(* ===== verification/Py_Text.thy ===== *)
theory Py_Text
  imports Prelude "HOL-Library.Char_ord" "HOL-Library.List_Lexorder" "HOL-Library.Word"
begin

unbundle bit_operations_syntax

text \<open>
  The parts of Python's \<open>str\<close>, \<open>float\<close> and JSON values the program uses.  A \<open>str\<close> is a
  list of code points below 256 (\<^typ>\<open>char\<close>), so \<open>len\<close> is the list's length and string
  comparison is the lexicographic order of the code points.  \<open>strip\<close> removes Python's
  white space of that range; \<open>casefold\<close> maps the sharp s to \<open>ss\<close> and every other letter to
  its lower case, \<open>lower\<close> leaves the sharp s alone.  (Python folds the micro sign to a Greek
  letter outside this range; no other letter of the range folds to it, so leaving it alone
  makes the same strings equal.)
\<close>

section \<open>White space\<close>

definition py_space :: "char \<Rightarrow> bool" where
  "py_space c = (let n = (of_char c :: nat) in
     (9 \<le> n \<and> n \<le> 13) \<or> (28 \<le> n \<and> n \<le> 32) \<or> n = 133 \<or> n = 160)"

definition lstrip :: "string \<Rightarrow> string" where
  "lstrip s = dropWhile py_space s"

definition rstrip :: "string \<Rightarrow> string" where
  "rstrip s = rev (dropWhile py_space (rev s))"

definition strip :: "string \<Rightarrow> string" where
  "strip s = rstrip (lstrip s)"

text \<open>A string \<open>strip\<close> leaves alone: no white space at either end.\<close>

definition stripped :: "string \<Rightarrow> bool" where
  "stripped s \<longleftrightarrow> (s \<noteq> [] \<longrightarrow> \<not> py_space (hd s) \<and> \<not> py_space (last s))"

lemma rstrip_prefix: "\<exists>ws. s = rstrip s @ ws \<and> (\<forall>c \<in> set ws. py_space c)"
proof -
  have "rev s = takeWhile py_space (rev s) @ dropWhile py_space (rev s)" by simp
  then have "s = rev (dropWhile py_space (rev s)) @ rev (takeWhile py_space (rev s))"
    by (metis rev_append rev_rev_ident)
  moreover have "\<forall>c \<in> set (rev (takeWhile py_space (rev s))). py_space c"
    by (auto dest: set_takeWhileD)
  ultimately show ?thesis unfolding rstrip_def by metis
qed

lemma rstrip_last: "rstrip s \<noteq> [] \<Longrightarrow> \<not> py_space (last (rstrip s))"
  unfolding rstrip_def by (metis hd_dropWhile last_rev rev.simps(1) rev_rev_ident)

lemma rstrip_hd: "rstrip s \<noteq> [] \<Longrightarrow> hd (rstrip s) = hd s"
  using rstrip_prefix [of s] by (metis hd_append2)

lemma length_rstrip_le: "length (rstrip s) \<le> length s"
  using rstrip_prefix [of s] by (metis le_add1 length_append)

lemma length_strip_le: "length (strip s) \<le> length s"
  unfolding strip_def lstrip_def
  by (rule le_trans [OF length_rstrip_le]) (rule length_dropWhile_le)

lemma stripped_strip [simp]: "stripped (strip s)"
proof (cases "strip s = []")
  case False
  then have l: "lstrip s \<noteq> []" by (auto simp: strip_def rstrip_def)
  then have "\<not> py_space (hd (lstrip s))" unfolding lstrip_def by (rule hd_dropWhile)
  with False show ?thesis
    by (simp add: stripped_def strip_def rstrip_last rstrip_hd)
qed (simp add: stripped_def)

lemma strip_id: "stripped s \<Longrightarrow> strip s = s"
proof (cases "s = []")
  case False
  assume "stripped s"
  with False have "lstrip s = s" and "dropWhile py_space (rev s) = rev s"
    by (auto simp: stripped_def lstrip_def dropWhile_eq_self_iff hd_rev)
  then show ?thesis by (simp add: strip_def rstrip_def)
qed (simp add: strip_def lstrip_def rstrip_def)

lemma strip_strip [simp]: "strip (strip s) = strip s"
  by (simp add: strip_id)

lemma rstrip_id: "s = [] \<or> \<not> py_space (last s) \<Longrightarrow> rstrip s = s"
  by (cases s rule: rev_cases) (auto simp: rstrip_def)

section \<open>Case\<close>

definition py_upper_code :: "nat \<Rightarrow> bool" where
  "py_upper_code n \<longleftrightarrow> (65 \<le> n \<and> n \<le> 90) \<or> (192 \<le> n \<and> n \<le> 222 \<and> n \<noteq> 215)"

definition lower_char :: "char \<Rightarrow> char" where
  "lower_char c = (if py_upper_code (of_char c) then char_of ((of_char c :: nat) + 32) else c)"

definition py_lower :: "string \<Rightarrow> string" where
  "py_lower s = map lower_char s"

definition casefold :: "string \<Rightarrow> string" where
  "casefold s = concat (map (\<lambda>c. if of_char c = (223 :: nat) then ''ss'' else [lower_char c]) s)"

lemma casefold_append [simp]: "casefold (s @ t) = casefold s @ casefold t"
  by (simp add: casefold_def)

lemma casefold_Nil [simp]: "casefold [] = []"
  by (simp add: casefold_def)

section \<open>Decimal and hexadecimal printing\<close>

definition digit_char :: "nat \<Rightarrow> char" where
  "digit_char d = char_of (48 + d)"

fun nat_str :: "nat \<Rightarrow> string" where
  "nat_str n = (if n < 10 then [digit_char n] else nat_str (n div 10) @ [digit_char (n mod 10)])"

declare nat_str.simps [simp del]

definition int_str :: "int \<Rightarrow> string" where
  "int_str i = (if i < 0 then ''-'' @ nat_str (nat (- i)) else nat_str (nat i))"

definition hex_char :: "nat \<Rightarrow> char" where
  "hex_char d = (if d < 10 then char_of (48 + d) else char_of (87 + d))"

fun hex_fixed :: "nat \<Rightarrow> nat \<Rightarrow> string" where
  "hex_fixed 0 n = []"
| "hex_fixed (Suc w) n = hex_fixed w (n div 16) @ [hex_char (n mod 16)]"

text \<open>\<open>str(uuid)\<close>: 32 lower-case hexadecimal digits in groups of 8, 4, 4, 4 and 12.\<close>

definition uuid_str :: "uuid \<Rightarrow> string" where
  "uuid_str u = (let h = hex_fixed 32 u in
     take 8 h @ ''-'' @ take 4 (drop 8 h) @ ''-'' @ take 4 (drop 12 h) @ ''-''
       @ take 4 (drop 16 h) @ ''-'' @ drop 20 h)"

fun join_with :: "string \<Rightarrow> string list \<Rightarrow> string" where
  "join_with sep [] = []"
| "join_with sep [s] = s"
| "join_with sep (s # t # ts) = s @ sep @ join_with sep (t # ts)"

definition py_replace_backslash :: "string \<Rightarrow> string" where
  "py_replace_backslash s = map (\<lambda>c. if c = CHR 0x5C then CHR 0x2F else c) s"

lemma of_char_digit: "d < 10 \<Longrightarrow> (of_char (digit_char d) :: nat) = 48 + d"
  by (simp add: digit_char_def)

text \<open>Reading a decimal numeral back: the printed form determines the number.\<close>

definition is_digit :: "char \<Rightarrow> bool" where
  "is_digit c \<longleftrightarrow> 48 \<le> (of_char c :: nat) \<and> (of_char c :: nat) \<le> 57"

definition read_nat :: "string \<Rightarrow> nat" where
  "read_nat s = foldl (\<lambda>a c. 10 * a + (of_char c - 48)) 0 s"

lemma read_nat_str: "read_nat (nat_str n) = n"
proof (induction n rule: nat_str.induct)
  case (1 n)
  show ?case
  proof (cases "n < 10")
    case True
    then show ?thesis by (simp add: nat_str.simps [of n] read_nat_def of_char_digit)
  next
    case False
    with "1.IH" have "read_nat (nat_str (n div 10)) = n div 10" by simp
    with False show ?thesis
      by (simp add: nat_str.simps [of n] read_nat_def of_char_digit)
  qed
qed

lemma nat_str_inj: "nat_str m = nat_str n \<longleftrightarrow> m = n"
  by (metis read_nat_str)

lemma nat_str_digits:
  "c \<in> set (nat_str n) \<Longrightarrow> 48 \<le> (of_char c :: nat) \<and> (of_char c :: nat) \<le> 57"
proof (induction n rule: nat_str.induct)
  case (1 n)
  then show ?case
    by (cases "n < 10") (auto simp: nat_str.simps [of n] of_char_digit)
qed

lemma nat_str_nonempty [simp]: "nat_str n \<noteq> []"
  by (simp add: nat_str.simps [of n])

lemma casefold_plain: "\<forall>c \<in> set s. (of_char c :: nat) < 65 \<Longrightarrow> casefold s = s"
  by (induction s) (simp_all add: casefold_def lower_char_def py_upper_code_def)

lemma length_nat_str_le: "n < 10 ^ k \<Longrightarrow> 0 < k \<Longrightarrow> length (nat_str n) \<le> k"
proof (induction k arbitrary: n)
  case (Suc k)
  show ?case
  proof (cases "n < 10")
    case False
    then have "0 < k" using Suc.prems by (cases k) auto
    moreover have "n div 10 < 10 ^ k" using Suc.prems by (simp add: less_mult_imp_div_less)
    ultimately have "length (nat_str (n div 10)) \<le> k" by (rule Suc.IH [rotated])
    with False show ?thesis by (simp add: nat_str.simps [of n])
  qed (simp add: nat_str.simps [of n])
qed simp

type_synonym bytes = "8 word list"

section \<open>Floats and JSON\<close>

text \<open>
  A Python \<open>float\<close> by its value: finite ones are rationals.  Comparisons with \<open>nan\<close> are
  false, as in IEEE 754.
\<close>

datatype pyfloat = Fin rat | PInf | NInf | NaN

fun py_less :: "pyfloat \<Rightarrow> pyfloat \<Rightarrow> bool" where
  "py_less NaN _ = False"
| "py_less _ NaN = False"
| "py_less (Fin x) (Fin y) = (x < y)"
| "py_less NInf b = (b \<noteq> NInf)"
| "py_less _ NInf = False"
| "py_less PInf _ = False"
| "py_less (Fin _) PInf = True"

datatype json =
    JNull
  | JBool bool
  | JInt int
  | JFloat pyfloat
  | JStr string
  | JArr "json list"
  | JObj "(string \<times> json) list"

text \<open>Python truth of a JSON value, as in \<open>bool(x)\<close> and \<open>x and y\<close>.\<close>

fun truthy :: "json \<Rightarrow> bool" where
  "truthy JNull = False"
| "truthy (JBool b) = b"
| "truthy (JInt i) = (i \<noteq> 0)"
| "truthy (JFloat f) = (f \<noteq> Fin 0)"
| "truthy (JStr s) = (s \<noteq> [])"
| "truthy (JArr xs) = (xs \<noteq> [])"
| "truthy (JObj kvs) = (kvs \<noteq> [])"

text \<open>\<open>d.get(key)\<close> on a JSON object: \<open>None\<close> reads as null.\<close>

definition jget :: "(string \<times> json) list \<Rightarrow> string \<Rightarrow> json" where
  "jget d k = (case map_of d k of None \<Rightarrow> JNull | Some v \<Rightarrow> v)"

end
