(* ===== verification/Game_Config.thy ===== *)
theory Game_Config
  imports Py_Text
begin

text \<open>
  \<open>app/game/config.py\<close>: the frozen knobs of the game core and the names of its re-record
  reasons.  Durations the code compares with clock readings are microseconds; the audio
  bounds are compared with probed floats and stay floats.
\<close>

record game_config =
  audio_min_duration_s :: pyfloat
  audio_max_duration_s :: pyfloat
  silence_mean_volume_db :: pyfloat
  max_audio_bytes :: int
  max_guess_attempts :: nat
  points_per_validation :: int
  leaderboard_default_top :: nat
  leaderboard_state_top :: nat
  result_hold_us :: time
  turn_deadline_seconds :: "int option"
  matchmaking_queue_ttl_us :: time
  preferred_common_lang :: string
  nickname_alloc_max_attempts :: nat

definition get_game_config :: game_config where
  "get_game_config =
     \<lparr> audio_min_duration_s = Fin 1,
       audio_max_duration_s = Fin 8,
       silence_mean_volume_db = Fin (- 40),
       max_audio_bytes = 5000000,
       max_guess_attempts = 2,
       points_per_validation = 10,
       leaderboard_default_top = 15,
       leaderboard_state_top = 5,
       result_hold_us = 2500000,
       turn_deadline_seconds = Some 90,
       matchmaking_queue_ttl_us = 30000000,
       preferred_common_lang = ''en'',
       nickname_alloc_max_attempts = 48 \<rparr>"

text \<open>The playful re-record reasons (their emoji are not modelled, their names are).\<close>

datatype reason =
    REASON_TOO_SHORT
  | REASON_TOO_LONG
  | REASON_TOO_QUIET
  | REASON_TOO_LARGE
  | REASON_BAD_AUDIO

lemma config_simps [simp]:
  "max_guess_attempts get_game_config = 2"
  "points_per_validation get_game_config = 10"
  "matchmaking_queue_ttl_us get_game_config = 30000000"
  "preferred_common_lang get_game_config = ''en''"
  "nickname_alloc_max_attempts get_game_config = 48"
  "result_hold_us get_game_config = 2500000"
  "turn_deadline_seconds get_game_config = Some 90"
  "max_audio_bytes get_game_config = 5000000"
  "leaderboard_state_top get_game_config = 5"
  by (simp_all add: get_game_config_def)

end
