(* ===== verification/Languages.thy ===== *)
theory Languages
  imports Game_Config
begin

text \<open>
  The language and label helpers of \<open>app/game/types.py\<close>: what a player can speak, what two
  players share, which shared language a pair uses, and the label text of a card in that
  language.  \<open>json.loads\<close> and \<open>str\<close> of a JSON value that is not a string are arguments of the
  two functions that use them.
\<close>

section \<open>Language lists\<close>

text \<open>The loop both list normalisers share: strip, drop blanks, drop repeats, keep the order.\<close>

fun dedup_strip :: "string list \<Rightarrow> string list \<Rightarrow> string list" where
  "dedup_strip seen [] = []"
| "dedup_strip seen (item # items) =
     (let text = strip item in
      if text \<noteq> [] \<and> text \<notin> set seen then text # dedup_strip (text # seen) items
      else dedup_strip seen items)"

definition normalize_common_langs ::
  "(json \<Rightarrow> string) \<Rightarrow> (string \<Rightarrow> json option) \<Rightarrow> json \<Rightarrow> string list" where
  "normalize_common_langs py_str loads raw =
     (let decoded = (case raw of
           JStr s \<Rightarrow> (case loads s of Some v \<Rightarrow> v | None \<Rightarrow> JArr [JStr s])
         | _ \<Rightarrow> raw)
      in case decoded of
           JArr items \<Rightarrow> dedup_strip [] (map py_str items)
         | _ \<Rightarrow> [])"

definition speakable_languages :: "string \<Rightarrow> string list \<Rightarrow> string list" where
  "speakable_languages native_lang common_langs = dedup_strip [] (native_lang # common_langs)"

definition shared_languages :: "string list \<Rightarrow> string list \<Rightarrow> string list" where
  "shared_languages a b = filter (\<lambda>lang. lang \<in> set b) a"

definition pick_common_lang :: "string list \<Rightarrow> string \<Rightarrow> py_error + string" where
  "pick_common_lang shared preferred =
     (if shared = [] then Inl (ValueError ''shared languages must be non-empty'')
      else let preferred_tag = strip preferred in
        if preferred_tag \<noteq> [] \<and> preferred_tag \<in> set shared then Inr preferred_tag
        else Inr (hd shared))"

lemma dedup_strip_set:
  "set (dedup_strip seen items) = strip ` set items - insert [] (set seen)"
  by (induction seen items rule: dedup_strip.induct) (auto simp: Let_def)

lemma dedup_strip_distinct: "distinct (dedup_strip seen items)"
  by (induction seen items rule: dedup_strip.induct) (auto simp: Let_def dedup_strip_set)

lemma dedup_strip_fixed:
  "distinct items \<Longrightarrow> \<forall>s \<in> set items. stripped s \<and> s \<noteq> [] \<and> s \<notin> set seen \<Longrightarrow>
     dedup_strip seen items = items"
  by (induction seen items rule: dedup_strip.induct) (auto simp: strip_id)

lemma speakable_set:
  "set (speakable_languages native common) = strip ` (insert native (set common)) - {[]}"
  unfolding speakable_languages_def dedup_strip_set by auto

lemma speakable_distinct: "distinct (speakable_languages native common)"
  unfolding speakable_languages_def by (rule dedup_strip_distinct)

lemma shared_set [simp]: "set (shared_languages a b) = set a \<inter> set b"
  by (auto simp: shared_languages_def)

lemma shared_Nil_sym: "shared_languages a b = [] \<longleftrightarrow> shared_languages b a = []"
  by (metis inf_commute set_empty shared_set)

lemma pick_common_lang_cases:
  "shared \<noteq> [] \<Longrightarrow> \<exists>l \<in> set shared. pick_common_lang shared preferred = Inr l"
  by (auto simp: pick_common_lang_def Let_def)

lemma pick_common_lang_in: "pick_common_lang shared preferred = Inr l \<Longrightarrow> l \<in> set shared"
  by (auto simp: pick_common_lang_def Let_def split: if_splits)

lemma pick_common_lang_preferred:
  "strip preferred \<in> set shared \<Longrightarrow> strip preferred \<noteq> [] \<Longrightarrow>
     pick_common_lang shared preferred = Inr (strip preferred)"
  by (auto simp: pick_common_lang_def Let_def)

section \<open>Label text\<close>

text \<open>
  \<open>card.label_common\<close> is a JSON object in every store; the function also accepts a string
  (JSON text, or the label itself) and falls back to \<open>str\<close> for anything else.
\<close>

definition nonblank_text :: "json \<Rightarrow> string option" where
  "nonblank_text v = (case v of JStr s \<Rightarrow> (if strip s = [] then None else Some (strip s)) | _ \<Rightarrow> None)"

definition label_of_dict :: "(string \<times> json) list \<Rightarrow> string \<Rightarrow> string" where
  "label_of_dict d common_lang =
     (case List.find (\<lambda>k. nonblank_text (jget d k) \<noteq> None) [common_lang, ''en'', ''text''] of
        Some k \<Rightarrow> the (nonblank_text (jget d k))
      | None \<Rightarrow>
          (case List.find (\<lambda>v. nonblank_text v \<noteq> None) (map snd d) of
             Some v \<Rightarrow> the (nonblank_text v)
           | None \<Rightarrow> []))"

definition resolve_label_text ::
  "(json \<Rightarrow> string) \<Rightarrow> (string \<Rightarrow> json option) \<Rightarrow> json \<Rightarrow> string \<Rightarrow> string" where
  "resolve_label_text py_str loads label_common common_lang =
     (case label_common of
        JStr s \<Rightarrow>
          (case loads s of
             None \<Rightarrow> s
           | Some (JObj d) \<Rightarrow> label_of_dict d common_lang
           | Some v \<Rightarrow> py_str v)
      | JObj d \<Rightarrow> label_of_dict d common_lang
      | v \<Rightarrow> py_str v)"

lemma label_of_dict_common:
  "nonblank_text (jget d lang) = Some t \<Longrightarrow> label_of_dict d lang = t"
  by (simp add: label_of_dict_def)

lemma nonblank_textD: "nonblank_text v = Some t \<Longrightarrow> t \<noteq> [] \<and> stripped t"
  by (auto simp: nonblank_text_def split: json.splits if_splits)

text \<open>The label is never blank when some value of the dictionary is a nonblank string.\<close>

lemma label_of_dict_nonblank:
  assumes "v \<in> set (map snd d)" and "nonblank_text v \<noteq> None"
  shows "label_of_dict d lang \<noteq> [] \<and> stripped (label_of_dict d lang)"
proof (cases "List.find (\<lambda>k. nonblank_text (jget d k) \<noteq> None) [lang, ''en'', ''text'']")
  case (Some k)
  then have "nonblank_text (jget d k) \<noteq> None" by (rule find_SomeD [THEN conjunct1])
  then show ?thesis using Some by (auto simp: label_of_dict_def dest: nonblank_textD)
next
  case None
  moreover have "List.find (\<lambda>v. nonblank_text v \<noteq> None) (map snd d) \<noteq> None"
    using assms unfolding find_None_iff by blast
  then obtain w where w: "List.find (\<lambda>v. nonblank_text v \<noteq> None) (map snd d) = Some w"
    by blast
  moreover from w have "nonblank_text w \<noteq> None" by (rule find_SomeD [THEN conjunct1])
  then obtain t where "nonblank_text w = Some t" by blast
  ultimately show ?thesis
    by (simp add: label_of_dict_def nonblank_textD del: List.find.simps)
qed

section \<open>Canonical language tags\<close>

definition normalize_language_tag :: "string \<Rightarrow> string" where
  "normalize_language_tag raw = py_lower (strip raw)"

definition normalize_distinct_languages :: "string list \<Rightarrow> string list" where
  "normalize_distinct_languages languages =
     sort (remdups (filter (\<lambda>text. text \<noteq> []) (map normalize_language_tag languages)))"

lemma normalize_distinct_languages_sorted:
  "sorted (normalize_distinct_languages ls) \<and> distinct (normalize_distinct_languages ls)"
  by (simp add: normalize_distinct_languages_def)

lemma normalize_distinct_languages_set:
  "set (normalize_distinct_languages ls) = normalize_language_tag ` set ls - {[]}"
  by (auto simp: normalize_distinct_languages_def)

end
