(* ===== verification/Game_Types.thy ===== *)
theory Game_Types
  imports Languages
begin

text \<open>
  The record shapes of \<open>app/game/types.py\<close>.  The text columns with a CHECK constraint in
  \<open>contracts/schema.sql\<close> (statuses, outcomes, job kinds) are datatypes of their values.
  UUID strings stored in JSON (decoys, job payloads) are kept as the UUID they print.
\<close>

record player =
  p_id :: uuid
  nickname :: string
  native_lang :: string
  common_langs :: "string list"
  session_token_hash :: string
  p_created_at :: time

datatype pair_status = Active | Completed | Abandoned

record pair =
  pr_id :: uuid
  player_a :: uuid
  player_b :: uuid
  common_lang :: string
  pr_status :: pair_status
  pr_created_at :: time

record card =
  c_id :: uuid
  c_deck_id :: uuid
  image_path :: string
  label_common :: "(string \<times> json) list"
  decoys :: "uuid list"
  verified :: bool

datatype turn_status = Awaiting_audio | Awaiting_label_confirm | Awaiting_guess | Scored

definition turn_status_str :: "turn_status \<Rightarrow> string" where
  "turn_status_str st =
     (case st of
        Awaiting_audio \<Rightarrow> ''awaiting_audio''
      | Awaiting_label_confirm \<Rightarrow> ''awaiting_label_confirm''
      | Awaiting_guess \<Rightarrow> ''awaiting_guess''
      | Scored \<Rightarrow> ''scored'')"

datatype outcome = Pending | Validated | Wrong | Unclear

record turn =
  t_id :: uuid
  t_pair_id :: uuid
  speaker_id :: uuid
  guesser_id :: uuid
  t_card_id :: uuid
  t_status :: turn_status
  audio_path :: "string option"
  audio_flac_path :: "string option"
  duration_s :: "pyfloat option"
  quality :: "(string \<times> json) list option"
  attempts :: nat
  t_outcome :: outcome
  t_created_at :: time

datatype job_kind = Triage | Package

datatype job_status = Job_pending | Job_processing | Job_complete | Job_failed

record job =
  j_id :: uuid
  j_kind :: job_kind
  j_turn_id :: uuid
  j_status :: job_status
  tries :: nat
  last_error :: "string option"
  j_created_at :: time
  available_at :: time
  claimed_at :: "time option"
  completed_at :: "time option"

datatype deck_status = Deck_draft | Deck_generating | Deck_ready | Deck_live | Deck_failed

record deck =
  d_id :: uuid
  region_tag :: string
  d_status :: deck_status

record player_stats =
  score :: int
  rounds_played :: nat
  rank :: "nat option"

record leaderboard_row =
  lb_nickname :: string
  lb_score :: int

record state_bundle =
  b_player :: player
  b_queued :: bool
  b_pair :: "pair option"
  b_partner :: "player option"
  b_turn :: "turn option"
  b_card :: "card option"
  b_previous_scored :: "turn option"
  b_stats :: player_stats
  b_leaderboard_top :: "leaderboard_row list"
  b_decoy_labels :: "(uuid, string) dict"

definition is_member :: "uuid \<Rightarrow> pair \<Rightarrow> bool" where
  "is_member i p \<longleftrightarrow> i = player_a p \<or> i = player_b p"

definition plays :: "uuid \<Rightarrow> turn \<Rightarrow> bool" where
  "plays i t \<longleftrightarrow> i = speaker_id t \<or> i = guesser_id t"

definition speaks :: "player \<Rightarrow> string list" where
  "speaks p = speakable_languages (native_lang p) (common_langs p)"

text \<open>
  The match rule: distinct mother tongues and a shared speakable language.  Both stores
  test exactly this before they pair two players.
\<close>

definition compatible :: "player \<Rightarrow> player \<Rightarrow> bool" where
  "compatible me other \<longleftrightarrow>
     native_lang other \<noteq> native_lang me \<and> shared_languages (speaks me) (speaks other) \<noteq> []"

lemma compatible_sym: "compatible a b \<longleftrightarrow> compatible b a"
  using shared_Nil_sym [of "speaks a" "speaks b"] by (auto simp: compatible_def)

lemma not_compatible_self: "\<not> compatible a a"
  by (simp add: compatible_def)

end
