(* ===== verification/Nicknames.thy ===== *)
theory Nicknames
  imports Game_Config
begin

text \<open>
  \<open>app/game/nicknames.py\<close>: candidates for a display name and the loop that takes the first
  free one.  A candidate is at most 32 code points, the limit of \<open>contracts/schema.sql\<close>.
\<close>

definition NICKNAME_MAX_LEN :: nat where
  "NICKNAME_MAX_LEN = 32"

definition allocate_nickname_candidate :: "string \<Rightarrow> nat \<Rightarrow> string" where
  "allocate_nickname_candidate requested attempt =
     (let stripped_name = strip requested;
          nonblank = (if stripped_name = [] then ''player'' else stripped_name);
          base = take NICKNAME_MAX_LEN nonblank
      in if attempt \<le> 0 then base
         else
           let suffix = ''#'' @ nat_str (attempt + 1);
               max_base_len = int NICKNAME_MAX_LEN - int (length suffix)
           in if max_base_len < 1 then drop (length suffix - NICKNAME_MAX_LEN) suffix
              else
                let trimmed = rstrip (take (nat max_base_len) base);
                    body = (if trimmed = [] then take (nat max_base_len) ''p'' else trimmed)
                in body @ suffix)"

text \<open>
  The loop \<open>for attempt in range(max_attempts)\<close> stops at the first candidate the probe does
  not hold taken, and raises when the range is exhausted.
\<close>

definition next_free_nickname ::
  "string \<Rightarrow> (string \<Rightarrow> bool) \<Rightarrow> nat \<Rightarrow> py_error + string" where
  "next_free_nickname requested is_taken max_attempts =
     (case List.find (\<lambda>candidate. \<not> is_taken candidate)
             (map (allocate_nickname_candidate requested) [0..<max_attempts]) of
        Some candidate \<Rightarrow> Inr candidate
      | None \<Rightarrow> Inl (RuntimeError ''unable to allocate a unique nickname''))"

section \<open>Bounds\<close>

lemma candidate_bounds:
  "1 \<le> length (allocate_nickname_candidate requested attempt)
   \<and> length (allocate_nickname_candidate requested attempt) \<le> NICKNAME_MAX_LEN"
proof -
  define base where
    "base = take NICKNAME_MAX_LEN (if strip requested = [] then ''player'' else strip requested)"
  define suffix where "suffix = ''#'' @ nat_str (attempt + 1)"
  have eq: "allocate_nickname_candidate requested attempt =
      (if attempt \<le> 0 then base
       else if int NICKNAME_MAX_LEN - int (length suffix) < 1
         then drop (length suffix - NICKNAME_MAX_LEN) suffix
       else (let m = nat (int NICKNAME_MAX_LEN - int (length suffix));
                 trimmed = rstrip (take m base)
             in (if trimmed = [] then take m ''p'' else trimmed) @ suffix))"
    by (simp only: allocate_nickname_candidate_def base_def suffix_def Let_def)
  have b: "1 \<le> length base" "length base \<le> 32"
    by (auto simp: base_def NICKNAME_MAX_LEN_def Suc_le_eq)
  have s: "1 \<le> length suffix" by (simp add: suffix_def)
  have t: "length (rstrip (take n base)) \<le> n" for n
    by (rule le_trans [OF length_rstrip_le]) simp
  have t': "length (let trimmed = rstrip (take n base)
              in if trimmed = [] then take n ''p'' else trimmed) \<le> n" for n
    using t [of n] by (simp add: Let_def)
  show ?thesis
    using b s t' [of "nat (int NICKNAME_MAX_LEN - int (length suffix))"]
    by (simp add: eq Let_def NICKNAME_MAX_LEN_def split: if_splits) linarith+
qed

lemma candidate_first:
  "stripped requested \<Longrightarrow> requested \<noteq> [] \<Longrightarrow> length requested \<le> NICKNAME_MAX_LEN \<Longrightarrow>
     allocate_nickname_candidate requested 0 = requested"
  by (simp add: allocate_nickname_candidate_def strip_id)

section \<open>Later candidates differ\<close>

text \<open>A candidate of a later attempt ends in the sign \<open>#\<close> and its own number.\<close>

lemma candidate_suffix:
  assumes "0 < attempt" and "attempt < 10 ^ 29"
  shows "\<exists>body. allocate_nickname_candidate requested attempt = body @ ''#'' @ nat_str (attempt + 1)"
proof -
  have "attempt + 1 < 10 ^ 30" using assms by simp
  then have "length (nat_str (attempt + 1)) \<le> 30" by (rule length_nat_str_le) simp
  then have "\<not> int 32 - int (length (''#'' @ nat_str (attempt + 1))) < 1" by simp
  then show ?thesis
    using assms by (auto simp: allocate_nickname_candidate_def Let_def NICKNAME_MAX_LEN_def)
qed

lemma suffix_chars: "c \<in> set (nat_str n) \<Longrightarrow> (of_char c :: nat) < 65 \<and> c \<noteq> CHR ''#''"
  using nat_str_digits [of c n] by auto

lemma casefold_suffix: "casefold (''#'' @ nat_str n) = ''#'' @ nat_str n"
  by (rule casefold_plain) (auto dest: suffix_chars)

lemma last_sign_unique:
  assumes "a @ ''#'' @ s = b @ ''#'' @ t" and "CHR ''#'' \<notin> set s" and "CHR ''#'' \<notin> set t"
  shows "s = t"
proof -
  have take: "takeWhile (\<lambda>c. c \<noteq> CHR ''#'') (rev (x @ ''#'' @ y)) = rev y"
    if "CHR ''#'' \<notin> set y" for x y :: string
    using that by (simp add: takeWhile_append)
  show ?thesis using take [OF assms(2), of a] take [OF assms(3), of b] assms(1)
    by (metis rev_rev_ident)
qed

lemma candidates_distinct:
  assumes "0 < i" "0 < j" "i < 10 ^ 29" "j < 10 ^ 29"
    and "casefold (allocate_nickname_candidate r i) = casefold (allocate_nickname_candidate r' j)"
  shows "i = j"
proof -
  obtain a where "allocate_nickname_candidate r i = a @ ''#'' @ nat_str (i + 1)"
    using candidate_suffix assms(1,3) by blast
  moreover obtain b where "allocate_nickname_candidate r' j = b @ ''#'' @ nat_str (j + 1)"
    using candidate_suffix assms(2,4) by blast
  ultimately have "casefold a @ ''#'' @ nat_str (i + 1) = casefold b @ ''#'' @ nat_str (j + 1)"
    using assms(5) casefold_suffix by (metis casefold_append)
  then have "nat_str (i + 1) = nat_str (j + 1)"
    by (rule last_sign_unique) (auto dest: suffix_chars)
  then show ?thesis by (simp add: nat_str_inj)
qed

section \<open>Allocation\<close>

lemma next_free_nickname_Inr:
  "next_free_nickname requested is_taken n = Inr c \<Longrightarrow>
     \<not> is_taken c \<and> (\<exists>i < n. c = allocate_nickname_candidate requested i)"
  by (auto simp: next_free_nickname_def find_Some_iff split: option.splits)

lemma next_free_nickname_Inl:
  "next_free_nickname requested is_taken n = Inl e \<longleftrightarrow>
     e = RuntimeError ''unable to allocate a unique nickname''
     \<and> (\<forall>i < n. is_taken (allocate_nickname_candidate requested i))"
proof -
  let ?xs = "map (allocate_nickname_candidate requested) [0..<n]"
  have "List.find (\<lambda>c. \<not> is_taken c) ?xs = None \<longleftrightarrow>
      (\<forall>i < n. is_taken (allocate_nickname_candidate requested i))"
    by (auto simp: find_None_iff)
  then show ?thesis
    by (auto simp: next_free_nickname_def split: option.splits)
qed

lemma next_free_nickname_exact:
  "stripped requested \<Longrightarrow> requested \<noteq> [] \<Longrightarrow> length requested \<le> NICKNAME_MAX_LEN \<Longrightarrow>
     \<not> is_taken requested \<Longrightarrow> 0 < n \<Longrightarrow> next_free_nickname requested is_taken n = Inr requested"
  by (simp add: next_free_nickname_def upt_conv_Cons candidate_first)

text \<open>
  The counting argument: names held by fewer players than there are later attempts cannot
  take every candidate.
\<close>

lemma next_free_nickname_succeeds:
  assumes taken: "\<And>c. is_taken c \<Longrightarrow> casefold c \<in> T" and fin: "finite T"
    and room: "card T < n - 1" and small: "n \<le> 10 ^ 29"
  shows "\<exists>c. next_free_nickname requested is_taken n = Inr c"
proof (rule ccontr)
  let ?cand = "\<lambda>i. casefold (allocate_nickname_candidate requested i)"
  assume "\<not> ?thesis"
  then have "\<forall>i < n. is_taken (allocate_nickname_candidate requested i)"
    using next_free_nickname_Inl [of requested is_taken n]
    by (cases "next_free_nickname requested is_taken n") auto
  then have "?cand ` {1..<n} \<subseteq> T" using taken by auto
  then have "card (?cand ` {1..<n}) \<le> card T" by (rule card_mono [OF fin])
  moreover have "inj_on ?cand {1..<n}"
    using small by (auto intro!: inj_onI candidates_distinct)
  then have "card (?cand ` {1..<n}) = n - 1" by (simp add: card_image)
  ultimately show False using room by simp
qed

end
