(* ===== verification/Metrics.thy ===== *)
theory Metrics
  imports Languages
begin

text \<open>
  The canonical \<open>/api/metrics\<close> aggregation of \<open>app/game/types.py\<close>.  Ratios and costs are
  exact rationals where the code divides floats.
\<close>

definition MICROUSD_PER_USD :: rat where
  "MICROUSD_PER_USD = 1000000"

record metrics_snapshot =
  validated_pairs :: int
  training_eligible_pairs :: int
  language_count :: nat
  languages :: "string list"
  cost_per_validated_sample_usd :: "rat option"
  gauntlet_pass_rate :: "rat option"
  deck_images_per_minute :: "rat option"
  deck_cost_per_image_usd :: "rat option"

record metrics_aggregate_row =
  ag_validated_pairs :: int
  ag_training_eligible_pairs :: int
  ag_packaged_validated_records :: int
  ag_languages :: "string list"
  ag_triage_cost_microusd_sum :: int
  ag_successful_triage_calls :: int
  ag_unpriced_triage_calls :: int
  ag_generation_metrics :: "(string \<times> json) list option"

definition pipeline_cost_instrumentation_is_complete ::
  "int \<Rightarrow> int \<Rightarrow> rat option \<Rightarrow> int \<Rightarrow> int \<Rightarrow> bool" where
  "pipeline_cost_instrumentation_is_complete validated packaged deck_total successful unpriced \<longleftrightarrow>
     validated > 0 \<and> packaged = validated \<and> deck_total \<noteq> None
     \<and> successful = packaged \<and> unpriced = 0"

definition compute_gauntlet_pass_rate :: "int \<Rightarrow> int \<Rightarrow> rat option" where
  "compute_gauntlet_pass_rate eligible packaged =
     (if packaged \<le> 0 then None else Some (of_int eligible / of_int packaged))"

definition compute_pipeline_cost_per_validated_sample_usd ::
  "int \<Rightarrow> int \<Rightarrow> rat option \<Rightarrow> int \<Rightarrow> int \<Rightarrow> int \<Rightarrow> rat option" where
  "compute_pipeline_cost_per_validated_sample_usd validated packaged deck_total cost_sum
      successful unpriced =
     (if \<not> pipeline_cost_instrumentation_is_complete validated packaged deck_total successful
            unpriced
      then None
      else case deck_total of
          None \<Rightarrow> None
        | Some total_cost \<Rightarrow>
            Some ((total_cost + of_int cost_sum / MICROUSD_PER_USD) / of_int validated))"

definition extract_deck_generation_metric ::
  "(string \<times> json) list option \<Rightarrow> string \<Rightarrow> rat option" where
  "extract_deck_generation_metric generation_metrics key =
     (case generation_metrics of
        None \<Rightarrow> None
      | Some d \<Rightarrow>
          (case jget d key of
             JInt i \<Rightarrow> Some (of_int i)
           | JFloat (Fin x) \<Rightarrow> Some x
           | _ \<Rightarrow> None))"

definition metrics_snapshot_from_aggregates :: "metrics_aggregate_row \<Rightarrow> metrics_snapshot" where
  "metrics_snapshot_from_aggregates row =
     (let langs = normalize_distinct_languages (ag_languages row) in
      \<lparr> validated_pairs = ag_validated_pairs row,
        training_eligible_pairs = ag_training_eligible_pairs row,
        language_count = length langs,
        languages = langs,
        cost_per_validated_sample_usd =
          compute_pipeline_cost_per_validated_sample_usd
            (ag_validated_pairs row) (ag_packaged_validated_records row)
            (extract_deck_generation_metric (ag_generation_metrics row) ''total_cost_usd'')
            (ag_triage_cost_microusd_sum row) (ag_successful_triage_calls row)
            (ag_unpriced_triage_calls row),
        gauntlet_pass_rate =
          compute_gauntlet_pass_rate (ag_training_eligible_pairs row)
            (ag_packaged_validated_records row),
        deck_images_per_minute =
          extract_deck_generation_metric (ag_generation_metrics row) ''images_per_minute'',
        deck_cost_per_image_usd =
          extract_deck_generation_metric (ag_generation_metrics row) ''cost_per_image_usd'' \<rparr>)"

lemma pass_rate_range:
  "0 \<le> eligible \<Longrightarrow> eligible \<le> packaged \<Longrightarrow>
     compute_gauntlet_pass_rate eligible packaged = Some r \<Longrightarrow> 0 \<le> r \<and> r \<le> 1"
  by (auto simp: compute_gauntlet_pass_rate_def divide_le_eq split: if_splits)

lemma cost_None_iff:
  "compute_pipeline_cost_per_validated_sample_usd v p dt c s u = None \<longleftrightarrow>
     \<not> pipeline_cost_instrumentation_is_complete v p dt s u"
  by (auto simp: compute_pipeline_cost_per_validated_sample_usd_def
      pipeline_cost_instrumentation_is_complete_def split: option.splits)

end
