(* ===== verification/Store.thy ===== *)
theory Store
  imports Game_Types Nicknames Metrics
begin

text \<open>
  The tables of the game (\<open>app/game/store.py\<close>, \<open>MemoryGameStore.__init__\<close> and the tables of
  \<open>contracts/schema.sql\<close> the game writes), the environment a store method reads (clock, random
  identifiers, row locks held by other transactions), the single-row writes every operation is
  made of, and the invariant of the tables with its preservation by each write.
\<close>

section \<open>Tables\<close>

record game_db =
  players :: "(uuid, player) dict"
  players_by_hash :: "(string, uuid) dict"
  queue :: "(uuid, time) dict"
  pairs :: "(uuid, pair) dict"
  decks :: "(uuid, deck) dict"
  cards :: "(uuid, card) dict"
  turns :: "(uuid, turn) dict"
  jobs :: "job list"
  metrics_counters :: "(string, int) dict"

definition empty_db :: game_db where
  "empty_db = \<lparr> players = [], players_by_hash = [], queue = [], pairs = [], decks = [], cards = [],
     turns = [], jobs = [],
     metrics_counters = [(''validated_pairs'', 0), (''training_eligible_pairs'', 0)] \<rparr>"

section \<open>Environment of an operation\<close>

text \<open>
  Every \<open>_utcnow()\<close> call of the memory store reads the clock anew, so a reading is labelled by
  its place in the source.  Inside the Postgres match transaction \<open>now()\<close> is constant: its
  single reading is \<open>At_txn\<close>.
\<close>

datatype read_site =
    At_txn | At_player | At_enqueue | At_heartbeat | At_evict | At_active uuid | At_alternate uuid uuid
  | At_pair | At_turn | At_job | At_bundle | At_poll

record env =
  clock :: "read_site \<Rightarrow> time"
  new_player :: uuid
  new_pair :: uuid
  new_turn :: uuid
  new_job :: uuid
  rnd :: nat
  row_random :: "uuid \<Rightarrow> nat" \<comment> \<open>\<open>random()\<close> of a query, row by row\<close>
  locked :: "uuid \<Rightarrow> bool" \<comment> \<open>queue rows locked by other transactions\<close>

section \<open>Row writes\<close>

definition mk_turn :: "uuid \<Rightarrow> uuid \<Rightarrow> uuid \<Rightarrow> uuid \<Rightarrow> uuid \<Rightarrow> time \<Rightarrow> turn" where
  "mk_turn i pair_id sp gu card_id tm =
     \<lparr> t_id = i, t_pair_id = pair_id, speaker_id = sp, guesser_id = gu, t_card_id = card_id,
       t_status = Awaiting_audio, audio_path = None, audio_flac_path = None, duration_s = None,
       quality = None, attempts = 0, t_outcome = Pending, t_created_at = tm \<rparr>"

definition put_player :: "player \<Rightarrow> game_db \<Rightarrow> game_db" where
  "put_player p g = g\<lparr>players := AList.update (p_id p) p (players g),
     players_by_hash := AList.update (session_token_hash p) (p_id p) (players_by_hash g)\<rparr>"

definition put_turn :: "turn \<Rightarrow> game_db \<Rightarrow> game_db" where
  "put_turn t g = g\<lparr>turns := AList.update (t_id t) t (turns g)\<rparr>"

definition put_pair :: "pair \<Rightarrow> game_db \<Rightarrow> game_db" where
  "put_pair p g = g\<lparr>pairs := AList.update (pr_id p) p (pairs g)\<rparr>"

definition add_job :: "job \<Rightarrow> game_db \<Rightarrow> game_db" where
  "add_job j g = g\<lparr>jobs := jobs g @ [j]\<rparr>"

definition counter :: "string \<Rightarrow> game_db \<Rightarrow> int" where
  "counter k g = (case map_of (metrics_counters g) k of None \<Rightarrow> 0 | Some n \<Rightarrow> n)"

definition bump_counter :: "string \<Rightarrow> game_db \<Rightarrow> game_db" where
  "bump_counter k g =
     g\<lparr>metrics_counters := AList.update k (counter k g + 1) (metrics_counters g)\<rparr>"

definition is_open :: "turn \<Rightarrow> bool" where
  "is_open t \<longleftrightarrow> t_status t \<noteq> Scored"

definition n_validated :: "game_db \<Rightarrow> int" where
  "n_validated g = (\<Sum>t\<leftarrow>vals (turns g). if t_outcome t = Validated then 1 else 0)"

lemma put_simps [simp]:
  "turns (put_turn t g) = AList.update (t_id t) t (turns g)"
  "players (put_turn t g) = players g" "pairs (put_turn t g) = pairs g"
  "cards (put_turn t g) = cards g" "queue (put_turn t g) = queue g" "jobs (put_turn t g) = jobs g"
  "decks (put_turn t g) = decks g" "metrics_counters (put_turn t g) = metrics_counters g"
  "players_by_hash (put_turn t g) = players_by_hash g"
  "pairs (put_pair p g) = AList.update (pr_id p) p (pairs g)"
  "players (put_pair p g) = players g" "turns (put_pair p g) = turns g"
  "cards (put_pair p g) = cards g" "queue (put_pair p g) = queue g" "jobs (put_pair p g) = jobs g"
  "decks (put_pair p g) = decks g" "metrics_counters (put_pair p g) = metrics_counters g"
  "players_by_hash (put_pair p g) = players_by_hash g"
  "jobs (add_job j g) = jobs g @ [j]"
  "players (add_job j g) = players g" "pairs (add_job j g) = pairs g"
  "cards (add_job j g) = cards g" "queue (add_job j g) = queue g" "turns (add_job j g) = turns g"
  "decks (add_job j g) = decks g" "metrics_counters (add_job j g) = metrics_counters g"
  "players_by_hash (add_job j g) = players_by_hash g"
  by (simp_all add: put_turn_def put_pair_def add_job_def)

lemma put_player_simps [simp]:
  "players (put_player p g) = AList.update (p_id p) p (players g)"
  "players_by_hash (put_player p g)
     = AList.update (session_token_hash p) (p_id p) (players_by_hash g)"
  "pairs (put_player p g) = pairs g" "turns (put_player p g) = turns g"
  "cards (put_player p g) = cards g" "queue (put_player p g) = queue g"
  "jobs (put_player p g) = jobs g" "decks (put_player p g) = decks g"
  "metrics_counters (put_player p g) = metrics_counters g"
  by (simp_all add: put_player_def)

lemma bump_simps [simp]:
  "players (bump_counter k g) = players g" "pairs (bump_counter k g) = pairs g"
  "turns (bump_counter k g) = turns g" "cards (bump_counter k g) = cards g"
  "queue (bump_counter k g) = queue g" "jobs (bump_counter k g) = jobs g"
  "decks (bump_counter k g) = decks g" "players_by_hash (bump_counter k g) = players_by_hash g"
  "counter k (bump_counter k g) = counter k g + 1"
  by (simp_all add: bump_counter_def counter_def)

lemma mk_turn_simps [simp]:
  "t_id (mk_turn i pr sp gu cd tm) = i" "t_pair_id (mk_turn i pr sp gu cd tm) = pr"
  "speaker_id (mk_turn i pr sp gu cd tm) = sp" "guesser_id (mk_turn i pr sp gu cd tm) = gu"
  "t_card_id (mk_turn i pr sp gu cd tm) = cd" "t_status (mk_turn i pr sp gu cd tm) = Awaiting_audio"
  "audio_path (mk_turn i pr sp gu cd tm) = None" "attempts (mk_turn i pr sp gu cd tm) = 0"
  "t_outcome (mk_turn i pr sp gu cd tm) = Pending" "quality (mk_turn i pr sp gu cd tm) = None"
  "t_created_at (mk_turn i pr sp gu cd tm) = tm"
  by (simp_all add: mk_turn_def)

section \<open>Invariant of the tables\<close>

definition rows_ok :: "game_db \<Rightarrow> bool" where
  "rows_ok g \<longleftrightarrow> keyed p_id (players g) \<and> keyed pr_id (pairs g) \<and> keyed c_id (cards g)
     \<and> keyed t_id (turns g) \<and> distinct (keys (queue g))
     \<and> (\<forall>h i. map_of (players_by_hash g) h = Some i \<longrightarrow>
          (\<exists>p. map_of (players g) i = Some p \<and> session_token_hash p = h))"

text \<open>Display names differ under the folding of the unique index and have a legal length.\<close>

definition names_ok :: "(string \<Rightarrow> string) \<Rightarrow> game_db \<Rightarrow> bool" where
  "names_ok nf g \<longleftrightarrow>
     (\<forall>i p j q. map_of (players g) i = Some p \<longrightarrow> map_of (players g) j = Some q \<longrightarrow>
        nf (nickname p) = nf (nickname q) \<longrightarrow> i = j)
     \<and> (\<forall>i p. map_of (players g) i = Some p \<longrightarrow>
        1 \<le> length (nickname p) \<and> length (nickname p) \<le> NICKNAME_MAX_LEN)"

text \<open>Paired players satisfy the match rule and the pair's language is one both speak.\<close>

definition pair_ok :: "game_db \<Rightarrow> pair \<Rightarrow> bool" where
  "pair_ok g p \<longleftrightarrow> (\<exists>a b. map_of (players g) (player_a p) = Some a \<and>
     map_of (players g) (player_b p) = Some b \<and> compatible a b \<and>
     common_lang p \<in> set (speaks a) \<inter> set (speaks b))"

definition pairs_ok :: "game_db \<Rightarrow> bool" where
  "pairs_ok g \<longleftrightarrow> (\<forall>i p. map_of (pairs g) i = Some p \<longrightarrow> pair_ok g p)"

text \<open>Status, outcome, attempts and audio of one turn agree.\<close>

definition turn_ok :: "turn \<Rightarrow> bool" where
  "turn_ok t \<longleftrightarrow> (t_status t = Scored \<longleftrightarrow> t_outcome t \<noteq> Pending) \<and> t_outcome t \<noteq> Wrong
     \<and> (audio_path t = None \<longleftrightarrow> t_status t = Awaiting_audio)
     \<and> attempts t \<le> max_guess_attempts get_game_config
     \<and> (t_status t = Awaiting_audio \<or> t_status t = Awaiting_label_confirm \<longrightarrow> attempts t = 0)
     \<and> (t_status t = Awaiting_guess \<longrightarrow> attempts t < max_guess_attempts get_game_config)
     \<and> (t_outcome t = Unclear \<longrightarrow> attempts t = max_guess_attempts get_game_config)
     \<and> (t_outcome t = Validated \<longrightarrow> 1 \<le> attempts t)"

definition roles_ok :: "pair \<Rightarrow> turn \<Rightarrow> bool" where
  "roles_ok p t \<longleftrightarrow> (speaker_id t = player_a p \<and> guesser_id t = player_b p)
     \<or> (speaker_id t = player_b p \<and> guesser_id t = player_a p)"

definition turns_ok :: "game_db \<Rightarrow> bool" where
  "turns_ok g \<longleftrightarrow> (\<forall>i t. map_of (turns g) i = Some t \<longrightarrow> turn_ok t \<and>
     (\<exists>p. map_of (pairs g) (t_pair_id t) = Some p \<and> roles_ok p t))"

definition one_open :: "game_db \<Rightarrow> bool" where
  "one_open g \<longleftrightarrow> (\<forall>i t j u. map_of (turns g) i = Some t \<longrightarrow> map_of (turns g) j = Some u \<longrightarrow>
     is_open t \<longrightarrow> is_open u \<longrightarrow> t_pair_id t = t_pair_id u \<longrightarrow> i = j)"

text \<open>
  One job per kind and turn (the unique index of \<open>jobs\<close>); triage only after audio was accepted,
  package only when the turn is scored and its machine quality is known.
\<close>

definition job_ok :: "game_db \<Rightarrow> job \<Rightarrow> bool" where
  "job_ok g j \<longleftrightarrow> (\<exists>t. map_of (turns g) (j_turn_id j) = Some t \<and>
     (case j_kind j of Triage \<Rightarrow> t_status t \<noteq> Awaiting_audio
      | Package \<Rightarrow> t_status t = Scored \<and> quality t \<noteq> None))"

definition jobs_ok :: "game_db \<Rightarrow> bool" where
  "jobs_ok g \<longleftrightarrow> distinct (map (\<lambda>j. (j_kind j, j_turn_id j)) (jobs g))
     \<and> (\<forall>j \<in> set (jobs g). job_ok g j)"

definition counters_ok :: "game_db \<Rightarrow> bool" where
  "counters_ok g \<longleftrightarrow> counter ''validated_pairs'' g = n_validated g"

definition game_inv :: "(string \<Rightarrow> string) \<Rightarrow> game_db \<Rightarrow> bool" where
  "game_inv nf g \<longleftrightarrow> rows_ok g \<and> names_ok nf g \<and> pairs_ok g \<and> turns_ok g \<and> one_open g \<and> jobs_ok g
     \<and> counters_ok g"

text \<open>
  Matchmaking: a player is in at most one active pair, and nobody waits in the queue who has
  one.  It holds between requests that run one after the other.
\<close>

definition in_active :: "game_db \<Rightarrow> uuid \<Rightarrow> bool" where
  "in_active g i \<longleftrightarrow> (\<exists>k p. map_of (pairs g) k = Some p \<and> pr_status p = Active \<and> is_member i p)"

definition matching_ok :: "game_db \<Rightarrow> bool" where
  "matching_ok g \<longleftrightarrow>
     (\<forall>i p j q x. map_of (pairs g) i = Some p \<longrightarrow> map_of (pairs g) j = Some q \<longrightarrow>
        pr_status p = Active \<longrightarrow> pr_status q = Active \<longrightarrow> is_member x p \<longrightarrow> is_member x q \<longrightarrow> i = j)
     \<and> (\<forall>x \<in> set (keys (queue g)). \<not> in_active g x \<and> x \<in> dom (map_of (players g)))"

lemmas inv_defs = game_inv_def rows_ok_def names_ok_def pairs_ok_def turns_ok_def one_open_def
  jobs_ok_def counters_ok_def

lemma game_invD:
  assumes "game_inv nf g"
  shows "rows_ok g" "names_ok nf g" "pairs_ok g" "turns_ok g" "one_open g" "jobs_ok g"
    "counters_ok g"
  using assms by (simp_all add: game_inv_def)

lemma game_inv_empty: "game_inv nf empty_db"
  by (simp add: inv_defs empty_db_def counter_def n_validated_def)

lemma matching_ok_empty: "matching_ok empty_db"
  by (simp add: matching_ok_def empty_db_def)

lemma inv_keyed:
  assumes "game_inv nf g"
  shows "keyed p_id (players g)" "keyed pr_id (pairs g)" "keyed c_id (cards g)"
    "keyed t_id (turns g)" "distinct (keys (queue g))"
  using assms by (simp_all add: game_inv_def rows_ok_def)

lemma inv_token:
  "game_inv nf g \<Longrightarrow> map_of (players_by_hash g) h = Some i \<Longrightarrow>
     \<exists>p. map_of (players g) i = Some p \<and> p_id p = i \<and> session_token_hash p = h"
  unfolding game_inv_def rows_ok_def by (meson keyed_key)

lemma inv_turn:
  assumes "game_inv nf g" and "map_of (turns g) i = Some t"
  shows "turn_ok t" and "t_id t = i"
    and "\<exists>p. map_of (pairs g) (t_pair_id t) = Some p \<and> roles_ok p t"
  using assms game_invD(4) [OF assms(1)] keyed_key [OF inv_keyed(4) [OF assms(1)]]
  by (auto simp: turns_ok_def)

lemma inv_pair:
  assumes "game_inv nf g" and "map_of (pairs g) i = Some p"
  shows "pair_ok g p" and "pr_id p = i"
  using assms game_invD(3) [OF assms(1)] keyed_key [OF inv_keyed(2) [OF assms(1)]]
  by (auto simp: pairs_ok_def)

lemma inv_turn_vals:
  "game_inv nf g \<Longrightarrow> t \<in> set (vals (turns g)) \<longleftrightarrow> map_of (turns g) (t_id t) = Some t"
  by (rule keyed_vals_iff) (rule inv_keyed)

lemma inv_pair_vals:
  "game_inv nf g \<Longrightarrow> p \<in> set (vals (pairs g)) \<longleftrightarrow> map_of (pairs g) (pr_id p) = Some p"
  by (rule keyed_vals_iff) (rule inv_keyed)

lemma pair_ok_distinct: "pair_ok g p \<Longrightarrow> player_a p \<noteq> player_b p"
  by (auto simp: pair_ok_def not_compatible_self)

lemma inv_turn_roles:
  assumes "game_inv nf g" and "map_of (turns g) i = Some t"
  shows "speaker_id t \<noteq> guesser_id t"
proof -
  obtain p where p: "map_of (pairs g) (t_pair_id t) = Some p" "roles_ok p t"
    using inv_turn(3) [OF assms] by blast
  have "player_a p \<noteq> player_b p"
    using inv_pair(1) [OF assms(1) p(1)] by (rule pair_ok_distinct)
  with p(2) show ?thesis by (auto simp: roles_ok_def)
qed

section \<open>Preservation by the row writes\<close>

text \<open>Rows of a table read back after a write to another table, and pairs under new players.\<close>

lemma pair_ok_players:
  assumes "pair_ok g p" and "\<And>i q. map_of (players g) i = Some q \<Longrightarrow> map_of (players g') i = Some q"
  shows "pair_ok g' p"
  using assms unfolding pair_ok_def by metis

lemma pair_ok_cong [simp]:
  "pair_ok (put_turn t g) p = pair_ok g p" "pair_ok (put_pair q g) p = pair_ok g p"
  "pair_ok (add_job j g) p = pair_ok g p" "pair_ok (g\<lparr>queue := qs\<rparr>) p = pair_ok g p"
  "pair_ok (bump_counter k g) p = pair_ok g p"
  by (simp_all add: pair_ok_def)

lemma job_ok_cong [simp]:
  "job_ok (put_pair q g) j = job_ok g j" "job_ok (add_job j' g) j = job_ok g j"
  "job_ok (g\<lparr>queue := qs\<rparr>) j = job_ok g j" "job_ok (put_player p g) j = job_ok g j"
  "job_ok (bump_counter k g) j = job_ok g j"
  by (simp_all add: job_ok_def)

lemma counter_cong [simp]:
  "counter k (put_pair q g) = counter k g" "counter k (add_job j g) = counter k g"
  "counter k (g\<lparr>queue := qs\<rparr>) = counter k g" "counter k (put_player p g) = counter k g"
  "counter k (put_turn t g) = counter k g"
  by (simp_all add: counter_def)

lemma n_validated_cong [simp]:
  "n_validated (put_pair q g) = n_validated g" "n_validated (add_job j g) = n_validated g"
  "n_validated (g\<lparr>queue := qs\<rparr>) = n_validated g" "n_validated (put_player p g) = n_validated g"
  "n_validated (bump_counter k g) = n_validated g"
  by (simp_all add: n_validated_def)

lemma n_validated_put_new:
  "map_of (turns g) (t_id t) = None \<Longrightarrow>
     n_validated (put_turn t g) = n_validated g + (if t_outcome t = Validated then 1 else 0)"
  by (simp only: n_validated_def put_simps sum_vals_update_new)

lemma n_validated_put_old:
  "map_of (turns g) (t_id t) = Some u \<Longrightarrow>
     n_validated (put_turn t g) = n_validated g - (if t_outcome u = Validated then 1 else 0)
       + (if t_outcome t = Validated then 1 else 0)"
  by (simp only: n_validated_def put_simps sum_vals_update_old)

lemma inv_put_player:
  assumes inv: "game_inv nf g" and fresh: "map_of (players g) (p_id p) = None"
    and name: "\<And>i q. map_of (players g) i = Some q \<Longrightarrow> nf (nickname q) \<noteq> nf (nickname p)"
    and len: "1 \<le> length (nickname p)" "length (nickname p) \<le> NICKNAME_MAX_LEN"
  shows "game_inv nf (put_player p g)"
proof -
  have "rows_ok (put_player p g)"
    using game_invD(1) [OF inv] fresh by (fastforce simp: rows_ok_def)
  moreover have "names_ok nf (put_player p g)"
    using game_invD(2) [OF inv] name len unfolding names_ok_def by (auto split: if_splits) metis+
  moreover have "pair_ok (put_player p g) q" if "map_of (pairs g) i = Some q" for i q
    using inv_pair(1) [OF inv that] fresh by (auto elim!: pair_ok_players)
  then have "pairs_ok (put_player p g)" by (simp add: pairs_ok_def)
  ultimately show ?thesis
    using inv by (simp add: game_inv_def turns_ok_def one_open_def jobs_ok_def counters_ok_def)
qed

lemma inv_queue: "game_inv nf g \<Longrightarrow> distinct (keys q) \<Longrightarrow> game_inv nf (g\<lparr>queue := q\<rparr>)"
  by (simp add: inv_defs)

lemma inv_put_pair_new:
  assumes inv: "game_inv nf g" and fresh: "map_of (pairs g) (pr_id p) = None" and ok: "pair_ok g p"
  shows "game_inv nf (put_pair p g)"
  using assms by (fastforce simp: inv_defs)

lemma inv_put_pair_status:
  assumes inv: "game_inv nf g" and old: "map_of (pairs g) i = Some p"
  shows "game_inv nf (put_pair (p\<lparr>pr_status := st\<rparr>) g)"
proof -
  have i: "pr_id p = i" and ok: "pair_ok g p" using inv_pair [OF inv old] by auto
  have ok': "pair_ok g (p\<lparr>pr_status := st\<rparr>)" using ok by (simp add: pair_ok_def)
  have roles: "roles_ok (p\<lparr>pr_status := st\<rparr>) t = roles_ok p t" for t by (simp add: roles_ok_def)
  have "turns_ok (put_pair (p\<lparr>pr_status := st\<rparr>) g)"
    using game_invD(4) [OF inv] old i roles unfolding turns_ok_def by fastforce
  then show ?thesis
    using inv ok' i by (simp add: game_inv_def rows_ok_def names_ok_def pairs_ok_def one_open_def
        jobs_ok_def counters_ok_def)
qed

lemma job_ok_put_turn:
  assumes "job_ok g j" and old: "map_of (turns g) (t_id t) = None \<or>
      (\<exists>u. map_of (turns g) (t_id t) = Some u \<and> (t_status t = Awaiting_audio \<longrightarrow> t_status u = Awaiting_audio)
        \<and> (t_status u = Scored \<longrightarrow> t_status t = Scored) \<and> (quality u \<noteq> None \<longrightarrow> quality t \<noteq> None))"
  shows "job_ok (put_turn t g) j"
  using assms by (cases "j_kind j") (auto simp: job_ok_def)

lemma inv_put_turn_new:
  assumes inv: "game_inv nf g" and fresh: "map_of (turns g) i = None"
    and pr: "map_of (pairs g) k = Some p" and roles: "roles_ok p (mk_turn i k sp gu cd tm)"
    and none: "\<And>j u. map_of (turns g) j = Some u \<Longrightarrow> t_pair_id u = k \<Longrightarrow> \<not> is_open u"
  shows "game_inv nf (put_turn (mk_turn i k sp gu cd tm) g)"
proof -
  let ?t = "mk_turn i k sp gu cd tm"
  have "turn_ok ?t" by (simp add: turn_ok_def)
  then have "turns_ok (put_turn ?t g)"
    using game_invD(4) [OF inv] pr roles by (simp add: turns_ok_def)
  moreover have "one_open (put_turn ?t g)"
    using game_invD(5) [OF inv] none unfolding one_open_def by (auto split: if_splits)
  moreover have "jobs_ok (put_turn ?t g)"
    using game_invD(6) [OF inv] fresh by (auto simp: jobs_ok_def intro: job_ok_put_turn)
  moreover have "counters_ok (put_turn ?t g)"
    using game_invD(7) [OF inv] n_validated_put_new [of g ?t] fresh by (simp add: counters_ok_def)
  ultimately show ?thesis
    using inv by (simp add: game_inv_def rows_ok_def names_ok_def pairs_ok_def)
qed

text \<open>
  A step of an existing turn: same pair and roles, never back to waiting for audio, never out of
  \<open>Scored\<close>, quality never lost.
\<close>

definition turn_step :: "turn \<Rightarrow> turn \<Rightarrow> bool" where
  "turn_step u t \<longleftrightarrow> t_id t = t_id u \<and> t_pair_id t = t_pair_id u \<and> speaker_id t = speaker_id u
     \<and> guesser_id t = guesser_id u \<and> turn_ok t
     \<and> (t_status t = Awaiting_audio \<longrightarrow> t_status u = Awaiting_audio)
     \<and> (t_status u = Scored \<longrightarrow> t_status t = Scored) \<and> (quality u \<noteq> None \<longrightarrow> quality t \<noteq> None)"

lemma inv_put_turn_frame:
  assumes inv: "game_inv nf g" and old: "map_of (turns g) (t_id t) = Some u" and step: "turn_step u t"
  shows "rows_ok (put_turn t g)" "names_ok nf (put_turn t g)" "pairs_ok (put_turn t g)"
    "turns_ok (put_turn t g)" "one_open (put_turn t g)" "jobs_ok (put_turn t g)"
proof -
  show "rows_ok (put_turn t g)" "names_ok nf (put_turn t g)" "pairs_ok (put_turn t g)"
    using inv by (simp_all add: game_inv_def rows_ok_def names_ok_def pairs_ok_def)
  obtain p where p: "map_of (pairs g) (t_pair_id u) = Some p" "roles_ok p u"
    using inv_turn(3) [OF inv old] by blast
  then have "roles_ok p t" using step by (simp add: turn_step_def roles_ok_def)
  then show "turns_ok (put_turn t g)"
    using game_invD(4) [OF inv] p step by (simp add: turns_ok_def turn_step_def)
  have op: "is_open t \<Longrightarrow> is_open u" using step by (auto simp: turn_step_def is_open_def)
  have same: "t_pair_id t = t_pair_id u" using step by (simp add: turn_step_def)
  show "one_open (put_turn t g)"
    using game_invD(5) [OF inv] old op same unfolding one_open_def by (auto split: if_splits)
  show "jobs_ok (put_turn t g)"
    using game_invD(6) [OF inv] old step
    by (auto simp: jobs_ok_def turn_step_def intro!: job_ok_put_turn)
qed

lemma inv_put_turn_step:
  assumes "game_inv nf g" and "map_of (turns g) (t_id t) = Some u" and "turn_step u t"
    and "t_outcome t = Validated \<longleftrightarrow> t_outcome u = Validated"
  shows "game_inv nf (put_turn t g)"
  using inv_put_turn_frame [OF assms(1-3)] n_validated_put_old [OF assms(2)] assms(4)
    game_invD(7) [OF assms(1)]
  by (simp add: game_inv_def counters_ok_def)

lemma inv_bump_frame [simp]:
  "rows_ok (bump_counter k g) = rows_ok g" "names_ok nf (bump_counter k g) = names_ok nf g"
  "pairs_ok (bump_counter k g) = pairs_ok g" "turns_ok (bump_counter k g) = turns_ok g"
  "one_open (bump_counter k g) = one_open g" "jobs_ok (bump_counter k g) = jobs_ok g"
  by (simp_all add: rows_ok_def names_ok_def pairs_ok_def turns_ok_def one_open_def jobs_ok_def)

lemma inv_put_turn_validated:
  assumes "game_inv nf g" and "map_of (turns g) (t_id t) = Some u" and "turn_step u t"
    and "t_outcome t = Validated" and "t_outcome u \<noteq> Validated"
  shows "game_inv nf (bump_counter ''validated_pairs'' (put_turn t g))"
  using inv_put_turn_frame [OF assms(1-3)] n_validated_put_old [OF assms(2)] assms(4,5)
    game_invD(7) [OF assms(1)]
  by (simp add: game_inv_def counters_ok_def)

lemma inv_add_job:
  assumes "game_inv nf g" and "job_ok g j"
    and "\<And>j'. j' \<in> set (jobs g) \<Longrightarrow> (j_kind j', j_turn_id j') \<noteq> (j_kind j, j_turn_id j)"
  shows "game_inv nf (add_job j g)"
  using assms by (fastforce simp: inv_defs)

end
