(* ===== verification/Fingerprint.thy ===== *)
theory Fingerprint
  imports Py_Text
begin

text \<open>
  \<open>worker/fingerprint.py\<close> and the limits of \<open>worker/config.py\<close>: the quantised loudness envelope
  of a recording, the shift-tolerant comparison that finds near duplicates, the hexadecimal form
  an envelope is stored in, and the advisory lock key.  SHA-256 (\<open>hashlib\<close>) is an argument;
  the logarithms of the quantisation are those of the reals, and a mean distance is an exact
  rational where the code divides floats.
\<close>

unbundle bit_operations_syntax

section \<open>Limits\<close>

record gauntlet_limits =
  sample_rate_hz :: nat
  lim_retry_base_us :: time
  lim_max_tries :: nat
  shard_record_limit :: nat
  lim_stale_claim_us :: time
  fingerprint_frame_ms :: nat
  fingerprint_max_shift_frames :: nat
  fingerprint_near_distance_ratio :: rat

definition default_limits :: gauntlet_limits where
  "default_limits =
     \<lparr> sample_rate_hz = 16000, lim_retry_base_us = 2000000, lim_max_tries = 3,
       shard_record_limit = 500, lim_stale_claim_us = 120000000, fingerprint_frame_ms = 50,
       fingerprint_max_shift_frames = 6, fingerprint_near_distance_ratio = 12 / 100 \<rparr>"

section \<open>Fingerprints\<close>

record fingerprint =
  content_hash :: string
  envelope :: "nat list"
  frame_ms :: nat

text \<open>
  \<open>shift\<close> slides \<open>right\<close> against \<open>left\<close>; an overlap of fewer than three frames is no evidence.
\<close>

definition aligned_mean_abs_distance :: "nat list \<Rightarrow> nat list \<Rightarrow> int \<Rightarrow> rat option" where
  "aligned_mean_abs_distance left right shift =
     (let left_start = max 0 shift;
          right_start = max 0 (- shift);
          overlap = min (int (length left) - left_start) (int (length right) - right_start)
      in if overlap < 3 then None
         else Some (of_int (\<Sum>i\<leftarrow>[0..<nat overlap].
             \<bar>int (left ! (nat left_start + i)) - int (right ! (nat right_start + i))\<bar>)
           / of_int overlap))"

definition envelopes_near_duplicate :: "nat list \<Rightarrow> nat list \<Rightarrow> nat \<Rightarrow> rat \<Rightarrow> bool" where
  "envelopes_near_duplicate left right max_shift near_distance_ratio \<longleftrightarrow>
     left \<noteq> [] \<and> right \<noteq> [] \<and>
     list_ex (\<lambda>shift. case aligned_mean_abs_distance left right shift of
         None \<Rightarrow> False | Some d \<Rightarrow> d \<le> near_distance_ratio * 15)
       [- int max_shift..int max_shift]"

definition fingerprints_match :: "fingerprint \<Rightarrow> fingerprint \<Rightarrow> nat \<Rightarrow> rat \<Rightarrow> bool" where
  "fingerprints_match left right max_shift near_distance_ratio \<longleftrightarrow>
     content_hash left = content_hash right
     \<or> envelopes_near_duplicate (envelope left) (envelope right) max_shift near_distance_ratio"

section \<open>Storage\<close>

text \<open>\<open>f"{level:x}"\<close> and \<open>int(char, 16)\<close>, which raises on any other character.\<close>

fun hex_str :: "nat \<Rightarrow> string" where
  "hex_str n = (if n < 16 then [hex_char n] else hex_str (n div 16) @ [hex_char (n mod 16)])"

declare hex_str.simps [simp del]

definition encode_envelope :: "nat list \<Rightarrow> string" where
  "encode_envelope levels = concat (map hex_str levels)"

definition hex_value :: "char \<Rightarrow> nat option" where
  "hex_value c = (let n = (of_char c :: nat) in
     if 48 \<le> n \<and> n \<le> 57 then Some (n - 48)
     else if 97 \<le> n \<and> n \<le> 102 then Some (n - 87)
     else if 65 \<le> n \<and> n \<le> 70 then Some (n - 55) else None)"

fun decode_envelope :: "string \<Rightarrow> py_error + nat list" where
  "decode_envelope [] = Inr []"
| "decode_envelope (c # cs) =
     (case hex_value c of
        None \<Rightarrow> Inl (ValueError ''invalid literal for int() with base 16'')
      | Some n \<Rightarrow> (case decode_envelope cs of Inl err \<Rightarrow> Inl err | Inr ns \<Rightarrow> Inr (n # ns)))"

section \<open>Envelope of a recording\<close>

text \<open>\<open>memoryview(pcm).cast("h")\<close>: signed little-endian 16-bit samples of an even number of bytes.\<close>

fun pcm_samples :: "8 word list \<Rightarrow> py_error + int list" where
  "pcm_samples [] = Inr []"
| "pcm_samples [b] = Inl (TypeError ''memoryview: length is not a multiple of itemsize'')"
| "pcm_samples (lo # hi # rest) =
     (case pcm_samples rest of
        Inl err \<Rightarrow> Inl err
      | Inr xs \<Rightarrow> Inr (sint (word_of_int (uint lo + 256 * uint hi) :: 16 word) # xs))"

definition mean_square :: "int list \<Rightarrow> real" where
  "mean_square xs = of_int (\<Sum>x\<leftarrow>xs. x * x) / of_nat (length xs)"

definition quantize_rms :: "real \<Rightarrow> nat" where
  "quantize_rms rms = nat (max 0 (min 15 \<lfloor>ln (1 + rms) / ln (1 + 32768) * 16\<rfloor>))"

definition frame_bytes :: "nat \<Rightarrow> nat \<Rightarrow> nat" where
  "frame_bytes rate ms = max (rate * ms div 1000) 1 * 2"

text \<open>The loop over whole frames; what remains after the last one is dropped.\<close>

function envelope_frames :: "nat \<Rightarrow> 8 word list \<Rightarrow> py_error + nat list" where
  "envelope_frames n pcm =
     (if n = 0 \<or> length pcm < n then Inr []
      else case pcm_samples (take n pcm) of
          Inl err \<Rightarrow> Inl err
        | Inr xs \<Rightarrow> (case envelope_frames n (drop n pcm) of
              Inl err \<Rightarrow> Inl err
            | Inr levels \<Rightarrow> Inr (quantize_rms (sqrt (mean_square xs)) # levels)))"
  by auto
termination by (relation "measure (\<lambda>(n, pcm). length pcm)") auto

declare envelope_frames.simps [simp del]

definition quantized_rms_envelope :: "8 word list \<Rightarrow> nat \<Rightarrow> nat \<Rightarrow> py_error + nat list" where
  "quantized_rms_envelope pcm rate ms =
     (if length pcm < frame_bytes rate ms then
        (case pcm_samples pcm of
           Inl err \<Rightarrow> Inl err
         | Inr [] \<Rightarrow> Inr []
         | Inr xs \<Rightarrow> Inr [quantize_rms (sqrt (mean_square xs))])
      else envelope_frames (frame_bytes rate ms) pcm)"

text \<open>\<open>_decode_pcm\<close> reports a missing file or a failed, late or silent ffmpeg as an error.\<close>

datatype decoder = Decoded "8 word list" | Decode_missing | Decode_timeout | Decode_failed string

definition compute_acoustic_fingerprint ::
  "(8 word list \<Rightarrow> string) \<Rightarrow> gauntlet_limits \<Rightarrow> decoder \<Rightarrow> py_error + fingerprint" where
  "compute_acoustic_fingerprint sha256_hex limits outcome =
     (case outcome of
        Decode_missing \<Rightarrow> Inl OSError
      | Decode_timeout \<Rightarrow> Inl (RuntimeError ''ffmpeg PCM decode timed out'')
      | Decode_failed why \<Rightarrow> Inl (RuntimeError (''ffmpeg PCM decode failed: '' @ take 240 why))
      | Decoded pcm \<Rightarrow>
          if pcm = [] then Inl (RuntimeError ''ffmpeg PCM decode produced empty audio'')
          else (case quantized_rms_envelope pcm (sample_rate_hz limits) (fingerprint_frame_ms limits) of
              Inl err \<Rightarrow> Inl err
            | Inr levels \<Rightarrow> Inr
                \<lparr> content_hash = sha256_hex pcm, envelope = levels,
                  frame_ms = fingerprint_frame_ms limits \<rparr>))"

text \<open>\<open>struct.unpack(">q", digest[:8])[0] & 0x7FFF_FFFF_FFFF_FFFF\<close>.\<close>

definition stable_lock_key :: "(string \<Rightarrow> 8 word list) \<Rightarrow> string list \<Rightarrow> int" where
  "stable_lock_key sha256 parts =
     (let digest = sha256 (join_with [CHR 0x00] parts);
          n = foldl (\<lambda>a b. a * 256 + uint b) 0 (take 8 digest)
      in sint (word_of_int n :: 64 word) AND 0x7FFFFFFFFFFFFFFF)"

section \<open>Comparison\<close>

text \<open>Swapping the recordings turns a shift around and keeps the distance.\<close>

lemma aligned_swap: "aligned_mean_abs_distance l r s = aligned_mean_abs_distance r l (- s)"
proof -
  have "\<bar>int (l ! a) - int (r ! b)\<bar> = \<bar>int (r ! b) - int (l ! a)\<bar>" for a b by linarith
  then show ?thesis unfolding aligned_mean_abs_distance_def Let_def by (simp add: min.commute)
qed

lemma near_duplicate_iff:
  "envelopes_near_duplicate l r m q \<longleftrightarrow> l \<noteq> [] \<and> r \<noteq> [] \<and>
     (\<exists>s. \<bar>s\<bar> \<le> int m \<and> (\<exists>d. aligned_mean_abs_distance l r s = Some d \<and> d \<le> q * 15))"
  by (auto simp: envelopes_near_duplicate_def list_ex_iff abs_le_iff split: option.splits)

lemma near_duplicate_sym: "envelopes_near_duplicate l r m q \<longleftrightarrow> envelopes_near_duplicate r l m q"
proof -
  have "envelopes_near_duplicate r l m q" if near: "envelopes_near_duplicate l r m q" for l r
  proof -
    obtain s d where "\<bar>s\<bar> \<le> int m" "aligned_mean_abs_distance l r s = Some d" "d \<le> q * 15"
      using near unfolding near_duplicate_iff by blast
    then have "\<bar>- s\<bar> \<le> int m \<and> aligned_mean_abs_distance r l (- s) = Some d \<and> d \<le> q * 15"
      using aligned_swap [of l r s] by simp
    then show ?thesis using near unfolding near_duplicate_iff by blast
  qed
  then show ?thesis by blast
qed

lemma near_duplicate_refl:
  assumes "3 \<le> length l" and "0 \<le> q"
  shows "envelopes_near_duplicate l l m q"
proof -
  have "aligned_mean_abs_distance l l 0 = Some 0"
    using assms(1) by (simp add: aligned_mean_abs_distance_def sum_list_0)
  then show ?thesis using assms unfolding near_duplicate_iff by (intro conjI exI [of _ 0]) auto
qed

lemma near_duplicate_short: "length l < 3 \<Longrightarrow> \<not> envelopes_near_duplicate l r m q"
  by (auto simp: near_duplicate_iff aligned_mean_abs_distance_def Let_def split: if_splits)

lemma near_duplicate_mono:
  "envelopes_near_duplicate l r m q \<Longrightarrow> m \<le> m' \<Longrightarrow> q \<le> q' \<Longrightarrow> envelopes_near_duplicate l r m' q'"
  unfolding near_duplicate_iff
  by (metis (no_types, lifting) mult_right_mono of_nat_mono order_trans zero_le_numeral)

section \<open>Levels and storage\<close>

lemma quantize_bound: "quantize_rms rms \<le> 15"
  by (simp add: quantize_rms_def)

lemma quantize_mono:
  assumes "0 \<le> a" and "a \<le> b"
  shows "quantize_rms a \<le> quantize_rms b"
proof -
  have "ln (1 + a) \<le> ln (1 + b)" using assms by simp
  then have "ln (1 + a) / ln (1 + 32768) * 16 \<le> ln (1 + b) / ln (1 + 32768) * 16"
    by (intro mult_right_mono divide_right_mono) simp_all
  then have "\<lfloor>ln (1 + a) / ln (1 + 32768) * 16\<rfloor> \<le> \<lfloor>ln (1 + b) / ln (1 + 32768) * 16\<rfloor>"
    by (rule floor_mono)
  then show ?thesis unfolding quantize_rms_def by (intro nat_mono) linarith
qed

lemma envelope_frames_bound:
  "envelope_frames n pcm = Inr levels \<Longrightarrow> \<forall>x \<in> set levels. x \<le> 15"
proof (induction n pcm arbitrary: levels rule: envelope_frames.induct)
  case (1 n pcm)
  show ?case
  proof (cases "n = 0 \<or> length pcm < n")
    case True
    then show ?thesis using "1.prems" by (simp add: envelope_frames.simps [of n pcm])
  next
    case False
    then obtain xs rest where "pcm_samples (take n pcm) = Inr xs" "envelope_frames n (drop n pcm) = Inr rest"
        "levels = quantize_rms (sqrt (mean_square xs)) # rest"
      using "1.prems" by (auto simp: envelope_frames.simps [of n pcm] split: sum.splits)
    then show ?thesis using "1.IH" [OF False] quantize_bound by auto
  qed
qed

lemma envelope_bound:
  "quantized_rms_envelope pcm rate ms = Inr levels \<Longrightarrow> \<forall>x \<in> set levels. x \<le> 15"
  using envelope_frames_bound quantize_bound
  by (fastforce simp: quantized_rms_envelope_def split: if_splits sum.splits list.splits)

lemma pcm_samples_even: "even (length pcm) \<Longrightarrow> \<exists>xs. pcm_samples pcm = Inr xs \<and> 2 * length xs = length pcm"
  by (induction pcm rule: pcm_samples.induct) auto

text \<open>Frames of an even size never fail, and there is one level for each.\<close>

lemma envelope_frames_length:
  "0 < n \<Longrightarrow> even n \<Longrightarrow> \<exists>levels. envelope_frames n pcm = Inr levels \<and> length levels = length pcm div n"
proof (induction n pcm rule: envelope_frames.induct)
  case (1 n pcm)
  show ?case
  proof (cases "length pcm < n")
    case True
    then show ?thesis by (simp add: envelope_frames.simps [of n pcm])
  next
    case False
    then have "length (take n pcm) = n" by simp
    then obtain xs where xs: "pcm_samples (take n pcm) = Inr xs"
      using pcm_samples_even [of "take n pcm"] "1.prems"(2) by auto
    obtain levels where "envelope_frames n (drop n pcm) = Inr levels"
        "length levels = length (drop n pcm) div n"
      using "1.IH" [OF _ xs] False "1.prems" by auto
    moreover have "Suc ((length pcm - n) div n) = length pcm div n"
      using False "1.prems"(1) by (simp add: le_div_geq)
    ultimately show ?thesis using False "1.prems" xs
      by (simp add: envelope_frames.simps [of n pcm])
  qed
qed

lemma hex_value_char: "n < 16 \<Longrightarrow> hex_value (hex_char n) = Some n"
  by (auto simp: hex_value_def hex_char_def Let_def)

lemma decode_encode: "\<forall>x \<in> set levels. x \<le> 15 \<Longrightarrow> decode_envelope (encode_envelope levels) = Inr levels"
proof (induction levels)
  case (Cons x levels)
  then have "hex_str x = [hex_char x]" by (simp add: hex_str.simps)
  then show ?case using Cons by (simp add: encode_envelope_def hex_value_char)
qed (simp add: encode_envelope_def)

lemma encode_length: "\<forall>x \<in> set levels. x \<le> 15 \<Longrightarrow> length (encode_envelope levels) = length levels"
  by (induction levels) (auto simp: encode_envelope_def hex_str.simps)

lemma lock_key_range: "0 \<le> stable_lock_key sha256 parts \<and> stable_lock_key sha256 parts < 2 ^ 63"
proof -
  define n where "n = sint (word_of_int (foldl (\<lambda>a b. a * 256 + uint b) 0
    (take 8 (sha256 (join_with [CHR 0x00] parts)))) :: 64 word)"
  have "stable_lock_key sha256 parts = n AND (2 ^ 63 - 1)"
    by (simp add: stable_lock_key_def n_def Let_def)
  also have "\<dots> = take_bit 63 n" by (simp add: take_bit_eq_mask mask_eq_exp_minus_1)
  finally show ?thesis using take_bit_int_less_exp [of 63 n] by simp
qed

end
