(* ===== verification/Jobs.thy ===== *)
theory Jobs
  imports Game_Types Fingerprint
begin

text \<open>
  The durable job queue of the worker (\<open>worker/repository.py\<close>): each operation is one statement on
  the \<open>jobs\<close> table, so it is one step; \<open>now\<close> is its transaction time and \<open>locked\<close> the rows other
  transactions hold.  The last section follows the life of one job.
\<close>

section \<open>Operations\<close>

text \<open>What a worker holds of a claimed job (\<open>worker.models.Job\<close>).\<close>

record claimed_job =
  cj_id :: uuid
  cj_kind :: job_kind
  cj_turn_id :: uuid
  cj_tries :: nat

definition update_rows :: "(job \<Rightarrow> bool) \<Rightarrow> (job \<Rightarrow> job) \<Rightarrow> job list \<Rightarrow> job list" where
  "update_rows P f js = map (\<lambda>j. if P j then f j else j) js"

definition is_stale :: "time \<Rightarrow> time \<Rightarrow> job \<Rightarrow> bool" where
  "is_stale stale_after now j \<longleftrightarrow> j_status j = Job_processing
     \<and> (case claimed_at j of None \<Rightarrow> False | Some tm \<Rightarrow> tm < now - stale_after)"

definition recover_stale_claims :: "time \<Rightarrow> time \<Rightarrow> job list \<Rightarrow> nat \<times> job list" where
  "recover_stale_claims stale_after now js =
     (length (filter (is_stale stale_after now) js),
      update_rows (is_stale stale_after now) (\<lambda>j. j\<lparr>j_status := Job_pending, claimed_at := None\<rparr>) js)"

definition is_due :: "time \<Rightarrow> job \<Rightarrow> bool" where
  "is_due now j \<longleftrightarrow> j_status j = Job_pending \<and> available_at j \<le> now"

definition next_job :: "time \<Rightarrow> (uuid \<Rightarrow> bool) \<Rightarrow> job list \<Rightarrow> job option" where
  "next_job now locked_row js =
     first_of (sort_key (\<lambda>j. (available_at j, j_created_at j))
       (filter (\<lambda>j. is_due now j \<and> \<not> locked_row (j_id j)) js))"

definition claim_next_job :: "time \<Rightarrow> (uuid \<Rightarrow> bool) \<Rightarrow> job list \<Rightarrow> claimed_job option \<times> job list" where
  "claim_next_job now locked_row js =
     (case next_job now locked_row js of
        None \<Rightarrow> (None, js)
      | Some n \<Rightarrow>
          (Some \<lparr> cj_id = j_id n, cj_kind = j_kind n, cj_turn_id = j_turn_id n, cj_tries = tries n + 1 \<rparr>,
           update_rows (\<lambda>j. j_id j = j_id n)
             (\<lambda>j. j\<lparr>j_status := Job_processing, claimed_at := Some now, tries := tries j + 1\<rparr>) js))"

definition complete_job :: "time \<Rightarrow> uuid \<Rightarrow> job list \<Rightarrow> job list" where
  "complete_job now i js =
     update_rows (\<lambda>j. j_id j = i) (\<lambda>j. j\<lparr>j_status := Job_complete, completed_at := Some now\<rparr>) js"

definition fail_job ::
  "time \<Rightarrow> claimed_job \<Rightarrow> string \<Rightarrow> time \<Rightarrow> nat \<Rightarrow> job list \<Rightarrow> bool \<times> job list" where
  "fail_job now cj err retry_delay max_tries js =
     (if max_tries \<le> cj_tries cj
      then (True, update_rows (\<lambda>j. j_id j = cj_id cj)
        (\<lambda>j. j\<lparr>j_status := Job_failed, last_error := Some (take 500 err), completed_at := Some now\<rparr>) js)
      else (False, update_rows (\<lambda>j. j_id j = cj_id cj)
        (\<lambda>j. j\<lparr>j_status := Job_pending, claimed_at := None, last_error := Some (take 500 err),
               available_at := now + retry_delay\<rparr>) js))"

text \<open>\<open>retry_base_seconds * 2 ** max(tries - 1, 0)\<close>.\<close>

definition retry_delay_us :: "gauntlet_limits \<Rightarrow> nat \<Rightarrow> time" where
  "retry_delay_us limits n = lim_retry_base_us limits * 2 ^ (n - 1)"

section \<open>Worker heartbeat\<close>

datatype worker_status = Starting | Running | Stopping

record heartbeat =
  hb_process_id :: int
  hb_status :: worker_status
  hb_started_at :: time
  hb_at :: time

definition upsert_worker_heartbeat ::
  "time \<Rightarrow> string \<Rightarrow> int \<Rightarrow> worker_status \<Rightarrow> (string, heartbeat) dict \<Rightarrow> (string, heartbeat) dict" where
  "upsert_worker_heartbeat now wid pid st hbs =
     AList.update wid
       (case map_of hbs wid of
          None \<Rightarrow> \<lparr> hb_process_id = pid, hb_status = st, hb_started_at = now, hb_at = now \<rparr>
        | Some h \<Rightarrow> \<lparr> hb_process_id = pid, hb_status = st,
            hb_started_at = (if st = Starting then now else hb_started_at h), hb_at = now \<rparr>) hbs"

definition heartbeat_healthy :: "time \<Rightarrow> string \<Rightarrow> time \<Rightarrow> (string, heartbeat) dict \<Rightarrow> bool" where
  "heartbeat_healthy now wid stale_after hbs =
     (case map_of hbs wid of
        None \<Rightarrow> False
      | Some h \<Rightarrow> hb_status h = Running \<and> now - stale_after \<le> hb_at h)"

section \<open>Laws\<close>

definition jobs_distinct :: "job list \<Rightarrow> bool" where
  "jobs_distinct js \<longleftrightarrow> distinct (map j_id js)"

lemma update_rows_ids:
  "(\<And>j. P j \<Longrightarrow> j_id (f j) = j_id j) \<Longrightarrow> map j_id (update_rows P f js) = map j_id js"
  by (induction js) (simp_all add: update_rows_def)

lemma update_rows_in:
  "j' \<in> set (update_rows P f js) \<longleftrightarrow> (\<exists>j \<in> set js. j' = (if P j then f j else j))"
  by (auto simp: update_rows_def)

lemma next_job_in:
  "next_job now locked_row js = Some n \<Longrightarrow> n \<in> set js \<and> is_due now n \<and> \<not> locked_row (j_id n)"
  unfolding next_job_def by (drule first_of_in) simp

lemma next_job_min:
  assumes "next_job now locked_row js = Some n" and "j \<in> set js" and "is_due now j"
    and "\<not> locked_row (j_id j)"
  shows "(available_at n, j_created_at n) \<le> (available_at j, j_created_at j)"
  using first_sort_key_min [OF assms(1) [unfolded next_job_def], of j] assms(2-4) by simp

lemma next_job_None:
  "next_job now locked_row js = None \<longleftrightarrow> (\<forall>j \<in> set js. is_due now j \<longrightarrow> locked_row (j_id j))"
proof -
  have "sort_key f xs = [] \<longleftrightarrow> xs = []" for f :: "job \<Rightarrow> time \<times> time" and xs
    by (metis set_empty set_sort)
  then show ?thesis by (auto simp: next_job_def filter_empty_conv)
qed

lemma claim_row:
  assumes d: "jobs_distinct js" and c: "claim_next_job now locked_row js = (Some cj, js')"
  shows "\<exists>n. next_job now locked_row js = Some n \<and> cj_id cj = j_id n \<and> cj_kind cj = j_kind n
    \<and> cj_turn_id cj = j_turn_id n \<and> cj_tries cj = tries n + 1
    \<and> js' = update_rows (\<lambda>j. j_id j = j_id n)
        (\<lambda>j. j\<lparr>j_status := Job_processing, claimed_at := Some now, tries := tries j + 1\<rparr>) js"
  using c by (auto simp: claim_next_job_def split: option.splits)

text \<open>A claimed row is processing, so no second claim returns it.\<close>

lemma claim_not_due:
  assumes d: "jobs_distinct js" and c: "claim_next_job now locked_row js = (Some cj, js')"
    and j: "j \<in> set js'" "j_id j = cj_id cj"
  shows "\<not> is_due now' j" and "claimed_at j = Some now" and "tries j = cj_tries cj"
proof -
  obtain n where n: "next_job now locked_row js = Some n" "cj_id cj = j_id n" "cj_tries cj = tries n + 1"
      "js' = update_rows (\<lambda>j. j_id j = j_id n)
        (\<lambda>j. j\<lparr>j_status := Job_processing, claimed_at := Some now, tries := tries j + 1\<rparr>) js"
    using claim_row [OF d c] by blast
  obtain j0 where j0: "j0 \<in> set js" "j = (if j_id j0 = j_id n then
      j0\<lparr>j_status := Job_processing, claimed_at := Some now, tries := tries j0 + 1\<rparr> else j0)"
    using j(1) unfolding n(4) update_rows_in by blast
  have same: "j_id j0 = j_id n" using j(2) j0(2) n(2) by (auto split: if_splits)
  have "n \<in> set js" using next_job_in [OF n(1)] by simp
  then have "j0 = n" using d j0(1) same unfolding jobs_distinct_def by (metis inj_onD distinct_map)
  then show "\<not> is_due now' j" "claimed_at j = Some now" "tries j = cj_tries cj"
    using j0(2) n(3) by (simp_all add: is_due_def)
qed

lemma jobs_distinct_ops:
  assumes "jobs_distinct js"
  shows "jobs_distinct (snd (recover_stale_claims st now js))"
    "jobs_distinct (snd (claim_next_job now locked_row js))"
    "jobs_distinct (complete_job now i js)" "jobs_distinct (snd (fail_job now cj err dl mx js))"
  using assms
  by (auto simp: jobs_distinct_def recover_stale_claims_def claim_next_job_def complete_job_def
      fail_job_def update_rows_ids split: option.splits)

lemma claim_after_claim:
  assumes d: "jobs_distinct js" and c: "claim_next_job now locked_row js = (Some cj, js')"
    and c2: "claim_next_job now2 locked_row2 js' = (Some cj2, js2)"
  shows "cj_id cj2 \<noteq> cj_id cj"
proof
  assume same: "cj_id cj2 = cj_id cj"
  have d': "jobs_distinct js'" using jobs_distinct_ops(2) [OF d, of now locked_row] c by simp
  obtain n where n: "next_job now2 locked_row2 js' = Some n" "cj_id cj2 = j_id n"
    using claim_row [OF d' c2] by blast
  then show False using claim_not_due(1) [OF d c, of n now2] next_job_in [OF n(1)] same by simp
qed

lemma retry_not_due:
  assumes "fail_job now cj err dl mx js = (False, js')" and "j \<in> set js'" and "j_id j = cj_id cj"
    and "now2 < now + dl"
  shows "\<not> is_due now2 j"
proof -
  let ?f = "\<lambda>j. j\<lparr>j_status := Job_pending, claimed_at := None, last_error := Some (take 500 err),
      available_at := now + dl\<rparr>"
  have "js' = update_rows (\<lambda>j. j_id j = cj_id cj) ?f js"
    using assms(1) by (simp add: fail_job_def split: if_splits)
  then obtain j0 where "j = (if j_id j0 = cj_id cj then ?f j0 else j0)"
    using assms(2) update_rows_in [of j "\<lambda>j. j_id j = cj_id cj" ?f js] by auto
  then have "available_at j = now + dl" using assms(3) by (cases "j_id j0 = cj_id cj") simp_all
  then show ?thesis using assms(4) by (simp add: is_due_def)
qed

lemma retry_delay_mono: "0 \<le> lim_retry_base_us l \<Longrightarrow> m \<le> n \<Longrightarrow> retry_delay_us l m \<le> retry_delay_us l n"
  by (auto simp: retry_delay_us_def intro!: mult_left_mono power_increasing)

end
