(* ===== verification/Corpus.thy ===== *)
theory Corpus
  imports Py_Text
begin

text \<open>
  \<open>CorpusWriter\<close> (\<open>worker/corpus.py\<close>): the append-only shards of the corpus directory as the text
  they hold.  \<open>json.dumps\<close> and \<open>json.loads\<close> are the arguments \<open>dumps\<close> and \<open>loads\<close>; what the
  writer relies on (a dumped record is one stripped line that loads back) is \<open>codec_on\<close>.
\<close>

section \<open>Shards\<close>

definition newline :: char where
  "newline = CHR 0x0A"

function lines_of :: "string \<Rightarrow> string list" where
  "lines_of [] = []"
| "lines_of (c # s) =
     takeWhile (\<lambda>x. x \<noteq> newline) (c # s) # lines_of (tl (dropWhile (\<lambda>x. x \<noteq> newline) (c # s)))"
  by pat_completeness auto
termination
  by (relation "measure length") (auto intro: le_less_trans [OF _ lessI] length_dropWhile_le le_trans [OF diff_le_self])

definition shard_number_name :: "nat \<Rightarrow> string" where
  "shard_number_name n =
     ''shard_'' @ replicate (4 - length (nat_str n)) (CHR ''0'') @ nat_str n @ ''.jsonl''"

text \<open>\<open>glob("shard_*.jsonl")\<close>.\<close>

definition is_shard_name :: "string \<Rightarrow> bool" where
  "is_shard_name name \<longleftrightarrow> 12 \<le> length name \<and> take 6 name = ''shard_''
     \<and> drop (length name - 6) name = ''.jsonl''"

definition shard_names :: "(string, string) dict \<Rightarrow> string list" where
  "shard_names fs = sort (filter is_shard_name (keys fs))"

fun line_matches :: "(string \<Rightarrow> json option) \<Rightarrow> string \<Rightarrow> string list \<Rightarrow> py_error + bool" where
  "line_matches loads uid [] = Inr False"
| "line_matches loads uid (line # rest) =
     (let text = strip line in
      if text = [] then line_matches loads uid rest
      else case loads text of
          None \<Rightarrow> line_matches loads uid rest
        | Some (JObj d) \<Rightarrow>
            if jget d ''utterance_id'' = JStr uid then Inr True else line_matches loads uid rest
        | Some _ \<Rightarrow> Inl AttributeError)"

definition shard_contains ::
  "(string \<Rightarrow> json option) \<Rightarrow> (string, string) dict \<Rightarrow> string \<Rightarrow> string \<Rightarrow> py_error + bool" where
  "shard_contains loads fs uid name =
     (case map_of fs name of
        None \<Rightarrow> Inl OSError
      | Some content \<Rightarrow> line_matches loads uid (lines_of content))"

fun search_shards ::
  "(string \<Rightarrow> json option) \<Rightarrow> (string, string) dict \<Rightarrow> string \<Rightarrow> string list
     \<Rightarrow> py_error + string option" where
  "search_shards loads fs uid [] = Inr None"
| "search_shards loads fs uid (name # names) =
     (case shard_contains loads fs uid name of
        Inl err \<Rightarrow> Inl err
      | Inr True \<Rightarrow> Inr (Some name)
      | Inr False \<Rightarrow> search_shards loads fs uid names)"

definition find_utterance ::
  "(string \<Rightarrow> json option) \<Rightarrow> (string, string) dict \<Rightarrow> string \<Rightarrow> py_error + string option" where
  "find_utterance loads fs uid = search_shards loads fs uid (shard_names fs)"

definition shard_stem :: "string \<Rightarrow> string" where
  "shard_stem name = drop 6 (take (length name - 6) name)"

definition line_count :: "string \<Rightarrow> nat" where
  "line_count content = length (lines_of content)"

definition current_shard :: "nat \<Rightarrow> (string, string) dict \<Rightarrow> string" where
  "current_shard limit fs =
     (let numbers = map (\<lambda>name. read_nat (shard_stem name))
            (filter (\<lambda>name. is_shard_name name \<and> shard_stem name \<noteq> []
               \<and> list_all is_digit (shard_stem name)) (keys fs));
          number = (if numbers = [] then 1 else Max (set numbers));
          candidate = shard_number_name number
      in case map_of fs candidate of
           None \<Rightarrow> candidate
         | Some content \<Rightarrow>
             if limit \<le> line_count content then shard_number_name (number + 1) else candidate)"

definition append_line :: "string \<Rightarrow> string \<Rightarrow> (string, string) dict \<Rightarrow> (string, string) dict" where
  "append_line name text fs =
     AList.update name ((case map_of fs name of None \<Rightarrow> [] | Some s \<Rightarrow> s) @ text @ [newline]) fs"

definition corpus_append ::
  "(json \<Rightarrow> string) \<Rightarrow> (string \<Rightarrow> json option) \<Rightarrow> nat \<Rightarrow> (string \<times> json) list
     \<Rightarrow> ((string, string) dict, string) act" where
  "corpus_append dumps loads limit golden fs =
     (case jget golden ''utterance_id'' of
        JStr uid \<Rightarrow>
          if uid = [] then (Inl (ValueError ''golden record requires utterance_id''), fs)
          else (case find_utterance loads fs uid of
              Inl err \<Rightarrow> (Inl err, fs)
            | Inr (Some name) \<Rightarrow> (Inr name, fs)
            | Inr None \<Rightarrow>
                (let shard = current_shard limit fs
                 in (Inr shard, append_line shard (dumps (JObj golden)) fs)))
      | _ \<Rightarrow> (Inl (ValueError ''golden record requires utterance_id''), fs))"

section \<open>Lines\<close>

lemma lines_of_unfold:
  "s \<noteq> [] \<Longrightarrow> lines_of s = takeWhile (\<lambda>x. x \<noteq> newline) s # lines_of (tl (dropWhile (\<lambda>x. x \<noteq> newline) s))"
  by (cases s) simp_all

lemma lines_of_line: "newline \<notin> set l \<Longrightarrow> lines_of (l @ newline # s) = l # lines_of s"
proof -
  assume l: "newline \<notin> set l"
  have "takeWhile (\<lambda>x. x \<noteq> newline) (l @ newline # s) = l" "dropWhile (\<lambda>x. x \<noteq> newline) (l @ newline # s) = newline # s"
    using l by (induction l) auto
  then show ?thesis by (subst lines_of_unfold) simp_all
qed

text \<open>A text that ends in a newline, as every completed append leaves it.\<close>

definition terminated :: "string \<Rightarrow> bool" where
  "terminated s \<longleftrightarrow> s = [] \<or> last s = newline"

lemma lines_of_append:
  "terminated s \<Longrightarrow> newline \<notin> set l \<Longrightarrow> lines_of (s @ l @ [newline]) = lines_of s @ [l]"
proof (induction s rule: lines_of.induct)
  case 1
  then show ?case using lines_of_line [of l "[]"] by simp
next
  case (2 c s)
  let ?d = "dropWhile (\<lambda>x. x \<noteq> newline) (c # s)" and ?t = "takeWhile (\<lambda>x. x \<noteq> newline) (c # s)"
  have "newline \<in> set (c # s)"
    using "2.prems"(1) unfolding terminated_def by (metis last_in_set list.discI)
  then have "?d \<noteq> []" by (auto simp: dropWhile_eq_Nil_conv)
  then have d: "?d = newline # tl ?d" using hd_dropWhile [of "\<lambda>x. x \<noteq> newline" "c # s"] by (cases ?d) auto
  have cs: "c # s = ?t @ newline # tl ?d" using d takeWhile_dropWhile_id [of "\<lambda>x. x \<noteq> newline" "c # s"] by metis
  have nt: "newline \<notin> set ?t" by (auto dest: set_takeWhileD)
  have tt: "terminated (tl ?d)"
    using "2.prems"(1) cs unfolding terminated_def by (metis last_ConsR last_appendR list.discI)
  have "lines_of ((c # s) @ l @ [newline]) = ?t # lines_of (tl ?d @ l @ [newline])"
    by (subst cs) (use lines_of_line [OF nt, of "tl ?d @ l @ [newline]"] in simp)
  also have "\<dots> = ?t # lines_of (tl ?d) @ [l]" using "2.IH" [OF tt "2.prems"(2)] by simp
  also have "\<dots> = lines_of (c # s) @ [l]" by (simp only: lines_of.simps(2) append_Cons)
  finally show ?case .
qed

section \<open>Appending\<close>

text \<open>What the writer relies on for the records of a set.\<close>

definition codec_on :: "(json \<Rightarrow> string) \<Rightarrow> (string \<Rightarrow> json option) \<Rightarrow> json set \<Rightarrow> bool" where
  "codec_on dumps loads S \<longleftrightarrow>
     (\<forall>j \<in> S. loads (dumps j) = Some j \<and> stripped (dumps j) \<and> dumps j \<noteq> [] \<and> newline \<notin> set (dumps j))"

definition all_terminated :: "(string, string) dict \<Rightarrow> bool" where
  "all_terminated fs \<longleftrightarrow> distinct (keys fs) \<and> (\<forall>name s. map_of fs name = Some s \<longrightarrow> terminated s)"

definition holds_utterance :: "(string \<Rightarrow> json option) \<Rightarrow> string \<Rightarrow> string \<Rightarrow> bool" where
  "holds_utterance loads uid line \<longleftrightarrow>
     strip line \<noteq> [] \<and> (\<exists>d. loads (strip line) = Some (JObj d) \<and> jget d ''utterance_id'' = JStr uid)"

text \<open>How many lines of the corpus carry an utterance.\<close>

definition copies :: "(string \<Rightarrow> json option) \<Rightarrow> string \<Rightarrow> (string, string) dict \<Rightarrow> int" where
  "copies loads uid fs =
     (\<Sum>s\<leftarrow>vals fs. int (length (filter (holds_utterance loads uid) (lines_of s))))"

lemma line_matches_False:
  "line_matches loads uid ls = Inr False \<Longrightarrow> filter (holds_utterance loads uid) ls = []"
  by (induction ls) (auto simp: holds_utterance_def Let_def split: if_splits option.splits json.splits)

lemma line_matches_True:
  "line_matches loads uid ls = Inr True \<Longrightarrow> filter (holds_utterance loads uid) ls \<noteq> []"
  by (induction ls) (auto simp: holds_utterance_def Let_def split: if_splits option.splits json.splits)

lemma line_matches_app:
  "line_matches loads uid ls = Inr False \<Longrightarrow>
     line_matches loads uid (ls @ ms) = line_matches loads uid ms"
  by (induction ls) (auto simp: Let_def split: if_splits option.splits json.splits)

lemma search_None:
  "search_shards loads fs uid names = Inr None \<Longrightarrow> name \<in> set names \<Longrightarrow>
     shard_contains loads fs uid name = Inr False"
  by (induction names) (auto split: sum.splits bool.splits)

lemma search_Some:
  "search_shards loads fs uid names = Inr (Some name) \<Longrightarrow>
     name \<in> set names \<and> shard_contains loads fs uid name = Inr True"
  by (induction names) (auto split: sum.splits bool.splits)

lemma search_single:
  "name \<in> set names \<Longrightarrow> shard_contains loads fs uid name = Inr True \<Longrightarrow>
     (\<And>other. other \<in> set names \<Longrightarrow> other \<noteq> name \<Longrightarrow> shard_contains loads fs uid other = Inr False) \<Longrightarrow>
     search_shards loads fs uid names = Inr (Some name)"
proof (induction names)
  case (Cons a names)
  then show ?case by (cases "a = name") auto
qed simp

lemma is_shard_number_name: "is_shard_name (shard_number_name n)"
  by (simp add: is_shard_name_def shard_number_name_def)

lemma current_shard_name: "is_shard_name (current_shard limit fs)"
  by (simp add: current_shard_def Let_def is_shard_number_name split: option.splits)

lemma all_terminated_append:
  "all_terminated fs \<Longrightarrow> all_terminated (append_line name text fs)"
  by (auto simp: all_terminated_def append_line_def terminated_def split: if_splits)

lemma append_line_lines:
  assumes "all_terminated fs" and "newline \<notin> set text"
  shows "\<exists>s. map_of (append_line name text fs) name = Some s \<and>
    lines_of s = (case map_of fs name of None \<Rightarrow> [] | Some s \<Rightarrow> lines_of s) @ [text]"
proof (cases "map_of fs name")
  case None
  then show ?thesis using lines_of_line [OF assms(2), of "[]"] by (simp add: append_line_def)
next
  case (Some s)
  then have "terminated s" using assms(1) by (simp add: all_terminated_def)
  then show ?thesis using Some lines_of_append [OF _ assms(2)] by (simp add: append_line_def)
qed

text \<open>
  A record the search does not find is appended once, and then the search finds it in the shard
  that received it.
\<close>

lemma find_after_append:
  assumes tt: "all_terminated fs" and codec: "codec_on dumps loads {JObj g}"
    and uid: "jget g ''utterance_id'' = JStr uid"
    and none: "find_utterance loads fs uid = Inr None" and name: "is_shard_name name"
  shows "find_utterance loads (append_line name (dumps (JObj g)) fs) uid = Inr (Some name)"
proof -
  let ?t = "dumps (JObj g)" and ?fs = "append_line name (dumps (JObj g)) fs"
  have t: "loads ?t = Some (JObj g)" "strip ?t = ?t" "?t \<noteq> []" "newline \<notin> set ?t"
    using codec strip_id by (auto simp: codec_on_def)
  have hit: "line_matches loads uid [?t] = Inr True" using t uid by (simp add: Let_def)
  have old: "shard_contains loads fs uid other = Inr False" if "other \<in> set (shard_names fs)" for other
    using search_None none that unfolding find_utterance_def by blast
  have here: "shard_contains loads ?fs uid name = Inr True"
  proof -
    obtain s where s: "map_of ?fs name = Some s"
        "lines_of s = (case map_of fs name of None \<Rightarrow> [] | Some s \<Rightarrow> lines_of s) @ [?t]"
      using append_line_lines [OF tt t(4)] by blast
    have "line_matches loads uid (lines_of s) = Inr True"
    proof (cases "map_of fs name")
      case None
      then show ?thesis using s hit by simp
    next
      case (Some s0)
      then have "name \<in> set (shard_names fs)" using name by (auto simp: shard_names_def dest: in_keys)
      then have "line_matches loads uid (lines_of s0) = Inr False"
        using old [of name] Some by (simp add: shard_contains_def)
      then show ?thesis using s Some hit line_matches_app by simp
    qed
    then show ?thesis using s by (simp add: shard_contains_def)
  qed
  have names: "set (shard_names ?fs) = insert name (set (shard_names fs))"
    using name keys_update_set unfolding shard_names_def append_line_def
    by (auto simp del: set_map simp: keys_update_set)
  have "shard_contains loads ?fs uid other = Inr False"
    if "other \<in> set (shard_names ?fs)" "other \<noteq> name" for other
    using old [of other] that names by (auto simp: shard_contains_def append_line_def)
  then show ?thesis using here names unfolding find_utterance_def
    by (intro search_single) auto
qed

lemma not_found_no_copies:
  assumes "all_terminated fs" and "find_utterance loads fs uid = Inr None"
    and "\<forall>name \<in> set (keys fs). is_shard_name name"
  shows "copies loads uid fs = 0"
proof -
  have "length (filter (holds_utterance loads uid) (lines_of s)) = 0" if s: "s \<in> set (vals fs)" for s
  proof -
    obtain name where name: "map_of fs name = Some s"
      using s in_vals_iff [of fs s] assms(1) unfolding all_terminated_def by blast
    then have "name \<in> set (shard_names fs)" using assms(3) by (auto simp: shard_names_def dest: in_keys)
    then have "line_matches loads uid (lines_of s) = Inr False"
      using search_None [OF assms(2) [unfolded find_utterance_def], of name] name by (simp add: shard_contains_def)
    then show ?thesis using line_matches_False by fastforce
  qed
  then have "map (\<lambda>s. int (length (filter (holds_utterance loads uid) (lines_of s)))) (vals fs)
      = map (\<lambda>s. 0) (vals fs)"
    by (intro map_cong refl) simp
  then show ?thesis unfolding copies_def by (simp only: sum_list_0)
qed

lemma copies_append:
  assumes "all_terminated fs" and "codec_on dumps loads {JObj g}" and "jget g ''utterance_id'' = JStr uid"
  shows "copies loads uid (append_line name (dumps (JObj g)) fs) = copies loads uid fs + 1"
proof -
  let ?t = "dumps (JObj g)"
  let ?f = "\<lambda>s. int (length (filter (holds_utterance loads uid) (lines_of s)))"
  have t: "newline \<notin> set ?t" "holds_utterance loads uid ?t"
    using assms(2,3) strip_id by (auto simp: codec_on_def holds_utterance_def)
  show ?thesis
  proof (cases "map_of fs name")
    case None
    have "?f (?t @ [newline]) = 1" using lines_of_line [OF t(1), of "[]"] t(2) by simp
    then show ?thesis unfolding copies_def append_line_def
      by (simp only: None option.case append_Nil sum_vals_update_new [OF None])
  next
    case (Some s)
    then have "terminated s" using assms(1) by (simp add: all_terminated_def)
    then have "?f (s @ ?t @ [newline]) = ?f s + 1" using lines_of_append t by simp
    then show ?thesis unfolding copies_def append_line_def
      by (simp only: Some option.case sum_vals_update_old [OF Some])
  qed
qed

section \<open>Rotation\<close>

lemma read_nat_zeros: "read_nat (replicate k (CHR ''0'') @ s) = read_nat s"
proof -
  have "foldl (\<lambda>a c. 10 * a + (of_char c - 48)) 0 (replicate k (CHR ''0'')) = (0 :: nat)"
    by (induction k) simp_all
  then show ?thesis by (simp add: read_nat_def)
qed

lemma digit_of_nat_str: "c \<in> set (nat_str n) \<Longrightarrow> is_digit c"
  using nat_str_digits [of c n] by (auto simp: is_digit_def)

lemma shard_stem_number:
  "shard_stem (shard_number_name n) = replicate (4 - length (nat_str n)) (CHR ''0'') @ nat_str n"
  by (simp add: shard_stem_def shard_number_name_def)

text \<open>The shard the writer chooses exists with room for a line, or does not exist yet.\<close>

lemma current_shard_room:
  assumes "0 < limit" and cur: "map_of fs (current_shard limit fs) = Some s"
  shows "line_count s < limit"
proof -
  define ok where "ok = (\<lambda>name. is_shard_name name \<and> shard_stem name \<noteq> [] \<and> list_all is_digit (shard_stem name))"
  define numbers where "numbers = map (\<lambda>name. read_nat (shard_stem name)) (filter ok (keys fs))"
  define number where "number = (if numbers = [] then 1 else Max (set numbers))"
  have chosen: "current_shard limit fs = (case map_of fs (shard_number_name number) of
      None \<Rightarrow> shard_number_name number
    | Some content \<Rightarrow> if limit \<le> line_count content then shard_number_name (number + 1)
        else shard_number_name number)"
    unfolding current_shard_def Let_def number_def numbers_def ok_def by (rule refl)
  have good: "ok (shard_number_name n)" for n
    using digit_of_nat_str nat_str_nonempty [of n]
    by (auto simp: ok_def is_shard_number_name shard_stem_number list_all_iff is_digit_def)
  have listed: "n \<in> set numbers" if "map_of fs (shard_number_name n) = Some c" for n c
  proof -
    have "shard_number_name n \<in> set (filter ok (keys fs))" using in_keys [OF that] good by simp
    then have "read_nat (shard_stem (shard_number_name n)) \<in> set numbers"
      unfolding numbers_def by (metis image_eqI list.set_map)
    then show ?thesis by (simp add: shard_stem_number read_nat_zeros read_nat_str)
  qed
  have fresh: "map_of fs (shard_number_name (number + 1)) = None" if "map_of fs (shard_number_name number) = Some c" for c
  proof (rule ccontr)
    assume "map_of fs (shard_number_name (number + 1)) \<noteq> None"
    then have in1: "number + 1 \<in> set numbers" using listed by blast
    then have "number = Max (set numbers)" by (auto simp: number_def)
    then show False using Max_ge [OF _ in1] by simp
  qed
  show ?thesis
  proof (cases "map_of fs (shard_number_name number)")
    case None
    then show ?thesis using cur chosen by simp
  next
    case (Some c)
    then show ?thesis using cur chosen fresh [OF Some] by (auto split: if_splits)
  qed
qed

lemma append_within_limit:
  assumes tt: "all_terminated fs" and "newline \<notin> set text" and lim: "0 < limit"
    and old: "\<And>name s. map_of fs name = Some s \<Longrightarrow> line_count s \<le> limit"
    and new: "map_of (append_line (current_shard limit fs) text fs) name = Some s"
  shows "line_count s \<le> limit"
proof (cases "name = current_shard limit fs")
  case False
  then show ?thesis using new old by (simp add: append_line_def)
next
  case True
  obtain s' where s': "map_of (append_line name text fs) name = Some s'"
      "lines_of s' = (case map_of fs name of None \<Rightarrow> [] | Some s \<Rightarrow> lines_of s) @ [text]"
    using append_line_lines [OF tt assms(2)] by blast
  show ?thesis
  proof (cases "map_of fs name")
    case None
    then show ?thesis using s' new True lim by (simp add: line_count_def)
  next
    case (Some s0)
    then have "line_count s0 < limit" using current_shard_room [OF lim] True by blast
    then show ?thesis using s' Some new True by (simp add: line_count_def)
  qed
qed

end
