(* ===== verification/Gauntlet.thy ===== *)
theory Gauntlet
  imports Store Jobs Corpus
begin

text \<open>
  The gauntlet worker (\<open>worker/service.py\<close>, \<open>worker/models.py\<close> and the triage, record and
  fingerprint statements of \<open>worker/repository.py\<close>).  ffmpeg, the model's answer, \<open>json\<close>,
  \<open>str\<close> and \<open>isoformat\<close> are arguments; a transaction that raises leaves its tables alone, and
  the advisory locks make fingerprint registration and shard export one step each.
\<close>

section \<open>State\<close>

record record_row =
  rec_golden :: "(string \<times> json) list"
  rec_eligible :: bool
  rec_shard :: "string option"

record fp_row =
  fp_speaker :: uuid
  fp_hash :: string
  fp_turn :: uuid

record gauntlet_state =
  gdb :: game_db
  fps :: "fp_row list"
  recs :: "(uuid, record_row) dict"
  shards :: "(string, string) dict"

record turn_context =
  tc_turn_id :: uuid
  tc_pair_id :: uuid
  tc_speaker_id :: uuid
  tc_guesser_id :: uuid
  tc_native_lang :: string
  tc_common_langs :: "string list"
  tc_common_lang :: string
  tc_card_id :: uuid
  tc_deck_id :: uuid
  tc_label_common :: "(string \<times> string) list"
  tc_audio_path :: "string option"
  tc_flac_path :: "string option"
  tc_duration_s :: "pyfloat option"
  tc_quality :: "(string \<times> json) list option"
  tc_status :: turn_status
  tc_outcome :: outcome
  tc_attempts :: nat
  tc_captured_at :: time

text \<open>The four-way join; a missing row on any side gives no context.\<close>

definition get_turn_context :: "(json \<Rightarrow> string) \<Rightarrow> uuid \<Rightarrow> game_db \<Rightarrow> turn_context option" where
  "get_turn_context py_str i g =
     (case map_of (turns g) i of
        None \<Rightarrow> None
      | Some t \<Rightarrow>
          (case (map_of (players g) (speaker_id t), map_of (cards g) (t_card_id t),
                 map_of (pairs g) (t_pair_id t)) of
             (Some p, Some c, Some pr) \<Rightarrow> Some
               \<lparr> tc_turn_id = t_id t, tc_pair_id = t_pair_id t, tc_speaker_id = speaker_id t,
                 tc_guesser_id = guesser_id t, tc_native_lang = native_lang p,
                 tc_common_langs = common_langs p, tc_common_lang = common_lang pr,
                 tc_card_id = c_id c, tc_deck_id = c_deck_id c,
                 tc_label_common = map (\<lambda>(k, v). (k, py_str v)) (label_common c),
                 tc_audio_path = audio_path t, tc_flac_path = audio_flac_path t,
                 tc_duration_s = duration_s t, tc_quality = quality t, tc_status = t_status t,
                 tc_outcome = t_outcome t, tc_attempts = attempts t,
                 tc_captured_at = t_created_at t \<rparr>
           | _ \<Rightarrow> None))"

section \<open>The model's answer\<close>

record triage_result =
  is_speech :: bool
  single_speaker :: bool
  audio_quality_ok :: bool
  contamination_flag :: bool
  apparent_language_note :: string
  tr_duration_s :: pyfloat
  confidence :: pyfloat
  dedup_hash :: string
  duplicate :: bool
  readout_reasoning :: string

definition as_quality_json :: "triage_result \<Rightarrow> (string \<times> json) list" where
  "as_quality_json r =
     [(''is_speech'', JBool (is_speech r)), (''single_speaker'', JBool (single_speaker r)),
      (''audio_quality_ok'', JBool (audio_quality_ok r)), (''duration_s'', JFloat (tr_duration_s r)),
      (''dedup_hash'', JStr (dedup_hash r)), (''duplicate'', JBool (duplicate r)),
      (''contamination_flag'', JBool (contamination_flag r)),
      (''apparent_language_note'', JStr (apparent_language_note r)),
      (''confidence'', JFloat (confidence r)), (''readout_reasoning'', JStr (readout_reasoning r))]"

definition triage_required :: "string list" where
  "triage_required =
     [''is_speech'', ''single_speaker'', ''audio_quality_ok'', ''is_label_readout'',
      ''readout_reasoning'', ''apparent_language_note'', ''duration_estimate_s'', ''confidence'']"

definition triage_bool :: "(string \<times> json) list \<Rightarrow> string \<Rightarrow> py_error + bool" where
  "triage_bool response key =
     (case jget response key of
        JBool b \<Rightarrow> Inr b
      | _ \<Rightarrow> Inl (ValueError (''triage field '' @ key @ '' must be boolean'')))"

definition triage_string :: "(string \<times> json) list \<Rightarrow> string \<Rightarrow> py_error + string" where
  "triage_string response key =
     (case jget response key of
        JStr s \<Rightarrow> Inr s
      | _ \<Rightarrow> Inl (ValueError (''triage field '' @ key @ '' must be string'')))"

text \<open>\<open>float(value)\<close> of a JSON value; \<open>parse\<close> reads a string.\<close>

definition json_float :: "(string \<Rightarrow> pyfloat option) \<Rightarrow> json \<Rightarrow> py_error + pyfloat" where
  "json_float parse v =
     (case v of
        JFloat x \<Rightarrow> Inr x
      | JInt i \<Rightarrow> Inr (Fin (of_int i))
      | JBool b \<Rightarrow> Inr (Fin (if b then 1 else 0))
      | JStr s \<Rightarrow> (case parse s of
            None \<Rightarrow> Inl (ValueError ''could not convert string to float'') | Some x \<Rightarrow> Inr x)
      | _ \<Rightarrow> Inl (TypeError ''float() argument must be a string or a real number''))"

definition parse_triage ::
  "(string \<Rightarrow> pyfloat option) \<Rightarrow> (string \<times> json) list \<Rightarrow> string \<Rightarrow> bool \<Rightarrow> py_error + triage_result" where
  "parse_triage parse response hash dup =
     (if \<not> set triage_required \<subseteq> set (map fst response)
      then Inl (ValueError ''triage response missing fields'')
      else
        try_in (triage_bool response ''is_speech'') (\<lambda>sp.
        try_in (triage_bool response ''single_speaker'') (\<lambda>si.
        try_in (triage_bool response ''audio_quality_ok'') (\<lambda>aq.
        try_in (triage_bool response ''is_label_readout'') (\<lambda>ro.
        try_in (triage_string response ''apparent_language_note'') (\<lambda>note.
        try_in (json_float parse (jget response ''duration_estimate_s'')) (\<lambda>d.
        try_in (json_float parse (jget response ''confidence'')) (\<lambda>cf.
        try_in (triage_string response ''readout_reasoning'') (\<lambda>why.
          Inr \<lparr> is_speech = sp, single_speaker = si, audio_quality_ok = aq,
                contamination_flag = ro, apparent_language_note = note, tr_duration_s = d,
                confidence = cf, dedup_hash = hash, duplicate = dup,
                readout_reasoning = why \<rparr>)))))))))"

section \<open>Duplicate detection\<close>

text \<open>The loop of \<open>_scan_fingerprint_unowned\<close> over the quality of the speaker's other turns.\<close>

fun scan_rows :: "gauntlet_limits \<Rightarrow> fingerprint \<Rightarrow> (string \<times> json) list list \<Rightarrow> py_error + bool" where
  "scan_rows limits fp [] = Inr True"
| "scan_rows limits fp (q # rest) =
     (let prior_hash = jget q ''dedup_hash'' in
      if prior_hash = JStr (content_hash fp) then Inr False
      else case (prior_hash, jget q ''acoustic_envelope'') of
          (JStr h, JStr encoded) \<Rightarrow>
            if encoded = [] then scan_rows limits fp rest
            else try_in (decode_envelope encoded) (\<lambda>levels.
              if fingerprints_match \<lparr> content_hash = h, envelope = levels, frame_ms = frame_ms fp \<rparr> fp
                  (fingerprint_max_shift_frames limits) (fingerprint_near_distance_ratio limits)
              then Inr False else scan_rows limits fp rest)
        | _ \<Rightarrow> scan_rows limits fp rest)"

definition prior_qualities :: "uuid \<Rightarrow> uuid \<Rightarrow> game_db \<Rightarrow> (string \<times> json) list list" where
  "prior_qualities speaker excluded g =
     List.map_filter (\<lambda>t. if speaker_id t = speaker \<and> t_id t \<noteq> excluded then quality t else None)
       (vals (turns g))"

definition scan_fingerprint_unowned ::
  "gauntlet_limits \<Rightarrow> uuid \<Rightarrow> fingerprint \<Rightarrow> uuid \<Rightarrow> game_db \<Rightarrow> py_error + bool" where
  "scan_fingerprint_unowned limits speaker fp excluded g =
     scan_rows limits fp (prior_qualities speaker excluded g)"

definition fp_owner :: "uuid \<Rightarrow> string \<Rightarrow> fp_row list \<Rightarrow> uuid option" where
  "fp_owner speaker h rows =
     map_option fp_turn (List.find (\<lambda>r. fp_speaker r = speaker \<and> fp_hash r = h) rows)"

definition speaker_has_matching_fingerprint ::
  "gauntlet_limits \<Rightarrow> uuid \<Rightarrow> fingerprint \<Rightarrow> uuid \<Rightarrow> gauntlet_state \<Rightarrow> py_error + bool" where
  "speaker_has_matching_fingerprint limits speaker fp excluded s =
     (case fp_owner speaker (content_hash fp) (fps s) of
        Some owner \<Rightarrow>
          if owner \<noteq> excluded then Inr True
          else try_in (scan_fingerprint_unowned limits speaker fp excluded (gdb s)) (\<lambda>b. Inr (\<not> b))
      | None \<Rightarrow>
          try_in (scan_fingerprint_unowned limits speaker fp excluded (gdb s)) (\<lambda>b. Inr (\<not> b)))"

text \<open>The insert conflicts on the primary key or on the unique \<open>turn_id\<close>.\<close>

definition register_fingerprint_table ::
  "uuid \<Rightarrow> fingerprint \<Rightarrow> uuid \<Rightarrow> fp_row list \<Rightarrow> bool \<times> fp_row list" where
  "register_fingerprint_table speaker fp turn_id rows =
     (if \<exists>r \<in> set rows. fp_speaker r = speaker \<and> fp_hash r = content_hash fp \<or> fp_turn r = turn_id
      then (fp_owner speaker (content_hash fp) rows = Some turn_id, rows)
      else (True, rows @ [\<lparr> fp_speaker = speaker, fp_hash = content_hash fp, fp_turn = turn_id \<rparr>]))"

definition register_speaker_fingerprint ::
  "gauntlet_limits \<Rightarrow> uuid \<Rightarrow> fingerprint \<Rightarrow> uuid \<Rightarrow> game_db \<Rightarrow> fp_row list
     \<Rightarrow> py_error + bool \<times> fp_row list" where
  "register_speaker_fingerprint limits speaker fp turn_id g rows =
     (case register_fingerprint_table speaker fp turn_id rows of
        (exact, rows1) \<Rightarrow>
          if \<not> exact then Inr (False, rows1)
          else try_in (scan_fingerprint_unowned limits speaker fp turn_id g) (\<lambda>clear.
            if clear then Inr (True, rows1)
            else Inr (False, filter (\<lambda>r. \<not> (fp_speaker r = speaker \<and> fp_hash r = content_hash fp
              \<and> fp_turn r = turn_id)) rows1)))"

section \<open>Triage\<close>

text \<open>The quality and packaging part of the transaction, once ownership is known.\<close>

definition store_quality :: "uuid \<Rightarrow> string \<Rightarrow> (string \<times> json) list \<Rightarrow> game_db \<Rightarrow> game_db" where
  "store_quality turn_id flac q g =
     (case map_of (turns g) turn_id of
        None \<Rightarrow> g
      | Some t \<Rightarrow> put_turn (t\<lparr>audio_flac_path := Some flac, quality := Some q\<rparr>) g)"

definition package_if_scored :: "time \<Rightarrow> uuid \<Rightarrow> uuid \<Rightarrow> game_db \<Rightarrow> game_db" where
  "package_if_scored now jid turn_id g =
     (case map_of (turns g) turn_id of
        None \<Rightarrow> g
      | Some t \<Rightarrow>
          if t_status t = Scored \<and> quality t \<noteq> None
             \<and> (Package, turn_id) \<notin> set (map (\<lambda>j. (j_kind j, j_turn_id j)) (jobs g))
          then add_job \<lparr> j_id = jid, j_kind = Package, j_turn_id = turn_id, j_status = Job_pending,
            tries = 0, last_error = None, j_created_at = now, available_at = now, claimed_at = None,
            completed_at = None \<rparr> g
          else g)"

definition persist_triage ::
  "gauntlet_limits \<Rightarrow> time \<Rightarrow> uuid \<Rightarrow> uuid \<Rightarrow> string \<Rightarrow> (string \<times> json) list \<Rightarrow> uuid \<Rightarrow> fingerprint
     \<Rightarrow> (gauntlet_state, (string \<times> json) list) act" where
  "persist_triage limits now jid turn_id flac q speaker fp s =
     (case register_speaker_fingerprint limits speaker fp turn_id (gdb s) (fps s) of
        Inl err \<Rightarrow> (Inl err, s)
      | Inr (owned, rows) \<Rightarrow>
          (let persisted = AList.update ''acoustic_envelope'' (JStr (encode_envelope (envelope fp)))
                 (AList.update ''dedup_hash'' (JStr (content_hash fp))
                   (AList.update ''duplicate'' (JBool (\<not> owned)) q))
           in (Inr persisted,
               s\<lparr>fps := rows,
                 gdb := package_if_scored now jid turn_id
                   (store_quality turn_id flac persisted (gdb s))\<rparr>)))"

record triage_env =
  te_now :: time
  te_job :: uuid
  te_transcode :: "string \<Rightarrow> py_error option" \<comment> \<open>raw path to failure\<close>
  te_fingerprint :: "string \<Rightarrow> py_error + fingerprint" \<comment> \<open>FLAC path\<close>
  te_model :: "turn_context \<Rightarrow> py_error + (string \<times> json) list"

definition flac_rel_path :: "uuid \<Rightarrow> string" where
  "flac_rel_path i = ''audio/'' @ uuid_str i @ ''.flac''"

definition bump_gauntlet :: "string \<Rightarrow> gauntlet_state \<Rightarrow> gauntlet_state" where
  "bump_gauntlet key s = s\<lparr>gdb := bump_counter key (gdb s)\<rparr>"

definition triage_job ::
  "(json \<Rightarrow> string) \<Rightarrow> (string \<Rightarrow> pyfloat option) \<Rightarrow> gauntlet_limits \<Rightarrow> triage_env \<Rightarrow> uuid
     \<Rightarrow> (gauntlet_state, unit) act" where
  "triage_job py_str parse limits te turn_id s =
     (case get_turn_context py_str turn_id (gdb s) of
        None \<Rightarrow> (Inl LookupError, s)
      | Some ctx \<Rightarrow>
          (case tc_audio_path ctx of
             None \<Rightarrow> (Inl (TypeError ''unsupported operand type''), s)
           | Some raw \<Rightarrow>
               (case te_transcode te raw of
                  Some err \<Rightarrow> (Inl err, s)
                | None \<Rightarrow>
                    (let outcome =
                       try_in (te_fingerprint te (flac_rel_path (tc_turn_id ctx))) (\<lambda>fp.
                       try_in (speaker_has_matching_fingerprint limits (tc_speaker_id ctx) fp
                          (tc_turn_id ctx) s) (\<lambda>soft.
                       try_in (te_model te ctx) (\<lambda>response.
                       try_in (parse_triage parse response (content_hash fp) soft) (\<lambda>result.
                         Inr (fp, result)))))
                     in case outcome of
                          Inl err \<Rightarrow> (Inl err, s)
                        | Inr (fp, result) \<Rightarrow>
                            (case persist_triage limits (te_now te) (te_job te) (tc_turn_id ctx)
                                (flac_rel_path (tc_turn_id ctx)) (as_quality_json result)
                                (tc_speaker_id ctx) fp s of
                               (Inl err, s') \<Rightarrow> (Inl err, s')
                             | (Inr _, s') \<Rightarrow> (Inr (), bump_gauntlet ''gauntlet_triaged_total'' s'))))))"

section \<open>Records\<close>

definition training_eligible :: "turn_context \<Rightarrow> bool" where
  "training_eligible ctx =
     (let q = (case tc_quality ctx of None \<Rightarrow> [] | Some d \<Rightarrow> d) in
      truthy (jget q ''is_speech'') \<and> truthy (jget q ''single_speaker'')
      \<and> truthy (jget q ''audio_quality_ok'') \<and> \<not> truthy (jget q ''contamination_flag'')
      \<and> tc_outcome ctx = Validated \<and> \<not> truthy (jget q ''duplicate''))"

definition json_text :: "string option \<Rightarrow> json" where
  "json_text s = (case s of None \<Rightarrow> JNull | Some t \<Rightarrow> JStr t)"

text \<open>
  The default arguments of \<open>dict.get\<close> are evaluated first: an empty label raises, and a coroutine
  turns the \<open>StopIteration\<close> into a \<open>RuntimeError\<close>.
\<close>

definition golden_record ::
  "(time \<Rightarrow> string) \<Rightarrow> time \<Rightarrow> turn_context \<Rightarrow> py_error + (string \<times> json) list" where
  "golden_record isoformat packaged_at ctx =
     (let q = (case tc_quality ctx of None \<Rightarrow> [] | Some d \<Rightarrow> d);
          label = tc_label_common ctx;
          in_english = (case map_of label ''en'' of Some t \<Rightarrow> t | None \<Rightarrow> snd (hd label));
          text = (case map_of label (tc_common_lang ctx) of Some t \<Rightarrow> t | None \<Rightarrow> in_english)
      in if label = [] then Inl (RuntimeError ''coroutine raised StopIteration'')
         else Inr
           [(''utterance_id'', JStr (uuid_str (tc_turn_id ctx))),
            (''audio_ref'', JObj [(''raw_webm'', json_text (tc_audio_path ctx)),
               (''clean_flac'', json_text (tc_flac_path ctx))]),
            (''native_lang_tag'', JStr (tc_native_lang ctx)),
            (''common_lang_text'', JStr text),
            (''image_id'', JStr (uuid_str (tc_card_id ctx))),
            (''deck_id'', JStr (uuid_str (tc_deck_id ctx))),
            (''validation'', JObj [(''guesser_id'', JStr (uuid_str (tc_guesser_id ctx))),
               (''correct'', JBool (tc_outcome ctx = Validated)),
               (''attempts'', JInt (int (tc_attempts ctx)))]),
            (''quality'', JObj [(''is_speech'', JBool (truthy (jget q ''is_speech''))),
               (''single_speaker'', JBool (truthy (jget q ''single_speaker''))),
               (''audio_quality_ok'', JBool (truthy (jget q ''audio_quality_ok''))),
               (''duration_s'', (case map_of q ''duration_s'' of Some v \<Rightarrow> v
                  | None \<Rightarrow> (case tc_duration_s ctx of None \<Rightarrow> JNull | Some d \<Rightarrow> JFloat d))),
               (''dedup_hash'', jget q ''dedup_hash''),
               (''duplicate'', JBool (truthy (jget q ''duplicate''))),
               (''contamination_flag'', JBool (truthy (jget q ''contamination_flag''))),
               (''apparent_language_note'', (case map_of q ''apparent_language_note'' of
                  Some v \<Rightarrow> v | None \<Rightarrow> JStr ''unsure''))]),
            (''speaker_meta'', JObj [(''player_id'', JStr (uuid_str (tc_speaker_id ctx))),
               (''declared_region'', JNull), (''session_id'', JStr (uuid_str (tc_pair_id ctx)))]),
            (''timestamps'', JObj [(''captured_at'', JStr (isoformat (tc_captured_at ctx))),
               (''packaged_at'', JStr (isoformat packaged_at))])])"

definition create_record ::
  "uuid \<Rightarrow> (string \<times> json) list \<Rightarrow> bool \<Rightarrow> (uuid, record_row) dict \<Rightarrow> bool \<times> (uuid, record_row) dict" where
  "create_record turn_id golden eligible rs =
     (if map_of rs turn_id \<noteq> None then (False, rs)
      else (True, AList.update turn_id
        \<lparr> rec_golden = golden, rec_eligible = eligible, rec_shard = None \<rparr> rs))"

definition set_record_shard ::
  "uuid \<Rightarrow> string \<Rightarrow> (uuid, record_row) dict \<Rightarrow> (uuid, record_row) dict" where
  "set_record_shard turn_id shard rs =
     (case map_of rs turn_id of
        None \<Rightarrow> rs
      | Some r \<Rightarrow>
          if rec_eligible r \<and> (rec_shard r = None \<or> rec_shard r = Some shard)
          then AList.update turn_id (r\<lparr>rec_shard := Some shard\<rparr>) rs else rs)"

section \<open>Packaging\<close>

record codec =
  cd_dumps :: "json \<Rightarrow> string"
  cd_loads :: "string \<Rightarrow> json option"

text \<open>An empty shard name is false in Python, like no name.\<close>

definition linked :: "record_row \<Rightarrow> bool" where
  "linked r \<longleftrightarrow> (case rec_shard r of None \<Rightarrow> False | Some name \<Rightarrow> name \<noteq> [])"

definition export_eligible_record ::
  "codec \<Rightarrow> gauntlet_limits \<Rightarrow> uuid \<Rightarrow> (string \<times> json) list \<Rightarrow> (gauntlet_state, unit) act" where
  "export_eligible_record cd limits turn_id golden s =
     (case map_of (recs s) turn_id of
        None \<Rightarrow> (Inl (RuntimeError ''eligible record disappeared''), s)
      | Some r \<Rightarrow>
          if \<not> rec_eligible r then (Inr (), s)
          else if linked r then (Inr (), s)
          else (case find_utterance (cd_loads cd) (shards s) (uuid_str turn_id) of
              Inl err \<Rightarrow> (Inl err, s)
            | Inr (Some found) \<Rightarrow> (Inr (), s\<lparr>recs := set_record_shard turn_id found (recs s)\<rparr>)
            | Inr None \<Rightarrow>
                (case corpus_append (cd_dumps cd) (cd_loads cd) (shard_record_limit limits) golden
                    (shards s) of
                   (Inl err, fs) \<Rightarrow> (Inl err, s\<lparr>shards := fs\<rparr>)
                 | (Inr shard, fs) \<Rightarrow>
                     (Inr (), bump_gauntlet ''gauntlet_training_eligible_total''
                       (s\<lparr>shards := fs, recs := set_record_shard turn_id shard (recs s)\<rparr>)))))"

text \<open>The export that follows once the record row is there.\<close>

definition package_existing ::
  "codec \<Rightarrow> gauntlet_limits \<Rightarrow> turn_context \<Rightarrow> (string \<times> json) list \<Rightarrow> (gauntlet_state, unit) act" where
  "package_existing cd limits ctx golden s =
     (case map_of (recs s) (tc_turn_id ctx) of
        None \<Rightarrow> (Inl (RuntimeError ''record missing after create''), s)
      | Some existing \<Rightarrow>
          if \<not> rec_eligible existing \<or> \<not> training_eligible ctx then (Inr (), s)
          else if linked existing then (Inr (), s)
          else export_eligible_record cd limits (tc_turn_id ctx)
            (if rec_golden existing = [] then golden else rec_golden existing) s)"

definition package_job ::
  "(json \<Rightarrow> string) \<Rightarrow> (time \<Rightarrow> string) \<Rightarrow> time \<Rightarrow> codec \<Rightarrow> gauntlet_limits \<Rightarrow> uuid
     \<Rightarrow> (gauntlet_state, unit) act" where
  "package_job py_str isoformat now cd limits turn_id s =
     (case get_turn_context py_str turn_id (gdb s) of
        None \<Rightarrow> (Inl LookupError, s)
      | Some ctx \<Rightarrow>
          if tc_status ctx \<noteq> Scored \<or> tc_quality ctx = None then (Inr (), s)
          else (case golden_record isoformat now ctx of
              Inl err \<Rightarrow> (Inl err, s)
            | Inr golden \<Rightarrow>
                if map_of (recs s) (tc_turn_id ctx) \<noteq> None
                then package_existing cd limits ctx golden s
                else package_existing cd limits ctx golden
                  (case create_record (tc_turn_id ctx) golden (training_eligible ctx) (recs s) of
                     (inserted, rs) \<Rightarrow>
                       (if inserted then bump_gauntlet ''gauntlet_records_total'' (s\<lparr>recs := rs\<rparr>)
                        else s\<lparr>recs := rs\<rparr>))))"

section \<open>One job\<close>

definition safe_error :: "(py_error \<Rightarrow> string) \<Rightarrow> (py_error \<Rightarrow> string) \<Rightarrow> py_error \<Rightarrow> string" where
  "safe_error type_name message err =
     type_name err @ '': '' @ take 400 (py_replace_backslash (message err))"

definition on_jobs :: "(job list \<Rightarrow> job list) \<Rightarrow> gauntlet_state \<Rightarrow> gauntlet_state" where
  "on_jobs f s = s\<lparr>gdb := (gdb s)\<lparr>jobs := f (jobs (gdb s))\<rparr>\<rparr>"

text \<open>
  \<open>process_once\<close>: \<open>handle\<close> runs the triage or the package of the claimed job; the result says
  whether a job was claimed.
\<close>

definition process_once ::
  "gauntlet_limits \<Rightarrow> time \<Rightarrow> (uuid \<Rightarrow> bool) \<Rightarrow> (claimed_job \<Rightarrow> (gauntlet_state, unit) act)
     \<Rightarrow> (py_error \<Rightarrow> string) \<Rightarrow> gauntlet_state \<Rightarrow> bool \<times> gauntlet_state" where
  "process_once limits now locked_row handle describe s =
     (case claim_next_job now locked_row (jobs (gdb s)) of
        (None, _) \<Rightarrow> (False, s)
      | (Some cj, js) \<Rightarrow>
          (case handle cj (on_jobs (\<lambda>_. js) s) of
             (Inr _, s1) \<Rightarrow> (True, on_jobs (complete_job now (cj_id cj)) s1)
           | (Inl err, s1) \<Rightarrow>
               (True, on_jobs (\<lambda>js1. snd (fail_job now cj (describe err)
                  (retry_delay_us limits (cj_tries cj)) (lim_max_tries limits) js1)) s1)))"

end
