(* ===== verification/Store_Interface.thy ===== *)
theory Store_Interface
  imports Store
begin

text \<open>
  The persistence protocol \<open>GameStore\<close> (\<open>app/game/store.py\<close>) as the service uses it: the record
  of its operations, the reference transitions they promise, and the locale \<open>game_store\<close> whose
  assumptions are those promises.  \<open>nf\<close> is the folding under which display names are unique and
  \<open>dur\<close> what the store keeps of a measured duration.
\<close>

section \<open>Operations\<close>

record store_ops =
  op_create_player :: "env \<Rightarrow> string \<Rightarrow> string \<Rightarrow> string list \<Rightarrow> string \<Rightarrow> (game_db, player) act"
  op_player_by_token_hash :: "string \<Rightarrow> game_db \<Rightarrow> py_error + player option"
  op_enqueue_player :: "env \<Rightarrow> uuid \<Rightarrow> (game_db, unit) act"
  op_try_match :: "env \<Rightarrow> uuid \<Rightarrow> (game_db, pair option) act"
  op_get_active_pair :: "uuid \<Rightarrow> game_db \<Rightarrow> pair option"
  op_create_turn :: "env \<Rightarrow> uuid \<Rightarrow> uuid \<Rightarrow> uuid \<Rightarrow> uuid \<Rightarrow> (game_db, turn) act"
  op_pick_card_for_pair :: "env \<Rightarrow> uuid \<Rightarrow> game_db \<Rightarrow> card option"
  op_get_turn :: "uuid \<Rightarrow> game_db \<Rightarrow> turn option"
  op_get_latest_turn :: "uuid \<Rightarrow> game_db \<Rightarrow> turn option"
  op_accept_audio :: "uuid \<Rightarrow> string \<Rightarrow> pyfloat \<Rightarrow> (game_db, turn) act"
  op_enqueue_job :: "env \<Rightarrow> job_kind \<Rightarrow> uuid \<Rightarrow> (game_db, bool) act"
  op_confirm_label :: "uuid \<Rightarrow> (game_db, turn) act"
  op_apply_guess :: "uuid \<Rightarrow> bool \<Rightarrow> (game_db, turn) act"
  op_complete_pair_if_capped :: "uuid \<Rightarrow> int \<Rightarrow> (game_db, bool) act"
  op_fetch_state_bundle :: "env \<Rightarrow> uuid \<Rightarrow> nat \<Rightarrow> game_db \<Rightarrow> py_error + state_bundle"
  op_player_stats :: "uuid \<Rightarrow> game_db \<Rightarrow> py_error + player_stats"
  op_leaderboard :: "nat \<Rightarrow> game_db \<Rightarrow> py_error + leaderboard_row list"

section \<open>Reference transitions\<close>

definition fresh_env :: "env \<Rightarrow> game_db \<Rightarrow> bool" where
  "fresh_env e g \<longleftrightarrow> map_of (players g) (new_player e) = None \<and> map_of (pairs g) (new_pair e) = None
     \<and> map_of (turns g) (new_turn e) = None"

definition take_audio :: "string \<Rightarrow> pyfloat \<Rightarrow> turn \<Rightarrow> turn" where
  "take_audio path d t =
     t\<lparr>audio_path := Some path, duration_s := Some d, t_status := Awaiting_label_confirm\<rparr>"

definition take_guess :: "bool \<Rightarrow> turn \<Rightarrow> turn" where
  "take_guess correct t =
     (if correct then t\<lparr>attempts := attempts t + 1, t_status := Scored, t_outcome := Validated\<rparr>
      else if max_guess_attempts get_game_config \<le> attempts t + 1
      then t\<lparr>attempts := attempts t + 1, t_status := Scored, t_outcome := Unclear\<rparr>
      else t\<lparr>attempts := attempts t + 1\<rparr>)"

definition guess_db :: "bool \<Rightarrow> turn \<Rightarrow> game_db \<Rightarrow> game_db" where
  "guess_db correct t g =
     (if correct then bump_counter ''validated_pairs'' (put_turn (take_guess correct t) g)
      else put_turn (take_guess correct t) g)"

definition rounds_of :: "uuid \<Rightarrow> game_db \<Rightarrow> nat" where
  "rounds_of i g = length (filter (\<lambda>t. plays i t \<and> t_status t = Scored) (vals (turns g)))"

definition validated_of :: "uuid \<Rightarrow> game_db \<Rightarrow> nat" where
  "validated_of i g = length (filter (\<lambda>t. plays i t \<and> t_outcome t = Validated) (vals (turns g)))"

definition points_of :: "uuid \<Rightarrow> game_db \<Rightarrow> int" where
  "points_of i g = points_per_validation get_game_config * int (validated_of i g)"

text \<open>The leaderboard before it is ordered and cut: one row per player.\<close>

definition board_rows :: "game_db \<Rightarrow> leaderboard_row list" where
  "board_rows g =
     map (\<lambda>p. \<lparr> lb_nickname = nickname p, lb_score = points_of (p_id p) g \<rparr>) (vals (players g))"

definition live_cards :: "game_db \<Rightarrow> card list" where
  "live_cards g =
     filter (\<lambda>c. verified c \<and> (case map_of (decks g) (c_deck_id c) of None \<Rightarrow> False | Some d \<Rightarrow> d_status d = Deck_live))
       (vals (cards g))"

definition capped :: "int \<Rightarrow> pair \<Rightarrow> game_db \<Rightarrow> bool" where
  "capped cap p g \<longleftrightarrow> cap \<le> int (rounds_of (player_a p) g) \<or> cap \<le> int (rounds_of (player_b p) g)"

text \<open>
  What a match attempt of player \<open>i\<close> may do: return the active pair there is, leave \<open>i\<close> waiting,
  or create one pair of \<open>i\<close> with a waiting player, with a first turn when a live card exists.
\<close>

definition first_turn :: "env \<Rightarrow> pair \<Rightarrow> game_db \<Rightarrow> game_db \<Rightarrow> bool" where
  "first_turn e p g g' \<longleftrightarrow>
     (if live_cards g = [] then g' = g
      else \<exists>c \<in> set (live_cards g). \<exists>tm.
        g' = put_turn (mk_turn (new_turn e) (pr_id p) (player_a p) (player_b p) (c_id c) tm) g)"

definition new_match :: "env \<Rightarrow> uuid \<Rightarrow> uuid \<Rightarrow> pair \<Rightarrow> (uuid, time) dict \<Rightarrow> game_db \<Rightarrow> bool" where
  "new_match e i j p q g \<longleftrightarrow> \<not> in_active g i \<and> j \<in> set (keys (queue g)) \<and> i \<noteq> j
     \<and> pr_id p = new_pair e \<and> pr_status p = Active \<and> pair_ok g p
     \<and> (player_a p = i \<and> player_b p = j \<or> player_a p = j \<and> player_b p = i)
     \<and> distinct (keys q) \<and> set (keys q) \<subseteq> set (keys (queue g)) - {i, j}"

definition match_step :: "env \<Rightarrow> uuid \<Rightarrow> game_db \<Rightarrow> py_error + pair option \<Rightarrow> game_db \<Rightarrow> bool" where
  "match_step e i g r g' \<longleftrightarrow>
     (\<exists>p. r = Inr (Some p) \<and> g' = g \<and> map_of (pairs g) (pr_id p) = Some p \<and> pr_status p = Active
        \<and> is_member i p)
   \<or> (\<exists>q. r = Inr None \<and> g' = g\<lparr>queue := q\<rparr> \<and> distinct (keys q) \<and> i \<in> set (keys q)
        \<and> set (keys q) \<subseteq> insert i (set (keys (queue g))) \<and> \<not> in_active g i)
   \<or> (\<exists>p j q. r = Inr (Some p) \<and> new_match e i j p q g
        \<and> first_turn e p (put_pair p (g\<lparr>queue := q\<rparr>)) g')"

section \<open>The reference transitions keep the invariant\<close>

lemma take_audio_simps [simp]:
  "t_id (take_audio path d t) = t_id t" "t_status (take_audio path d t) = Awaiting_label_confirm"
  "audio_path (take_audio path d t) = Some path" "t_pair_id (take_audio path d t) = t_pair_id t"
  by (simp_all add: take_audio_def)

lemma take_guess_simps [simp]:
  "t_id (take_guess c t) = t_id t" "t_pair_id (take_guess c t) = t_pair_id t"
  "speaker_id (take_guess c t) = speaker_id t" "guesser_id (take_guess c t) = guesser_id t"
  "quality (take_guess c t) = quality t" "attempts (take_guess c t) = attempts t + 1"
  "t_card_id (take_guess c t) = t_card_id t" "audio_path (take_guess c t) = audio_path t"
  by (simp_all add: take_guess_def)

lemma audio_step:
  "turn_ok t \<Longrightarrow> t_status t = Awaiting_audio \<Longrightarrow> turn_step t (take_audio path d t)"
  by (auto simp: turn_step_def turn_ok_def take_audio_def)

lemma confirm_step:
  "turn_ok t \<Longrightarrow> t_status t = Awaiting_label_confirm \<Longrightarrow> turn_step t (t\<lparr>t_status := Awaiting_guess\<rparr>)"
  by (auto simp: turn_step_def turn_ok_def)

lemma guess_step:
  "turn_ok t \<Longrightarrow> t_status t = Awaiting_guess \<Longrightarrow> turn_step t (take_guess c t)"
  by (auto simp: turn_step_def turn_ok_def take_guess_def)

lemma inv_take_audio:
  assumes "game_inv nf g" and "map_of (turns g) i = Some t" and "t_status t = Awaiting_audio"
  shows "game_inv nf (put_turn (take_audio path d t) g)"
  using assms inv_turn [OF assms(1,2)]
  by (intro inv_put_turn_step [where u = t] audio_step) (auto simp: take_audio_def)

lemma inv_confirm:
  assumes "game_inv nf g" and "map_of (turns g) i = Some t" and "t_status t = Awaiting_label_confirm"
  shows "game_inv nf (put_turn (t\<lparr>t_status := Awaiting_guess\<rparr>) g)"
  using assms inv_turn [OF assms(1,2)]
  by (intro inv_put_turn_step [where u = t] confirm_step) auto

lemma inv_guess:
  assumes "game_inv nf g" and "map_of (turns g) i = Some t" and "t_status t = Awaiting_guess"
  shows "game_inv nf (guess_db correct t g)"
proof -
  note t = inv_turn(1,2) [OF assms(1,2)]
  have out: "t_outcome t = Pending" using t(1) assms(3) by (auto simp: turn_ok_def)
  show ?thesis
  proof (cases correct)
    case True
    then show ?thesis using assms t out
      by (auto simp: guess_db_def take_guess_def
          intro!: inv_put_turn_validated [where u = t] guess_step [of t True, simplified take_guess_def, simplified])
  next
    case False
    then show ?thesis using assms t out
      by (auto simp: guess_db_def intro!: inv_put_turn_step [where u = t] guess_step)
        (auto simp: take_guess_def split: if_splits)
  qed
qed

lemma matching_ok_frame:
  assumes "matching_ok g" and "pairs g' = pairs g" and "queue g' = queue g" and "players g' = players g"
  shows "matching_ok g'"
  using assms unfolding matching_ok_def in_active_def by simp

lemma in_active_cong: "pairs g' = pairs g \<Longrightarrow> in_active g' i = in_active g i"
  by (simp add: in_active_def)

lemma guess_db_frame [simp]:
  "pairs (guess_db c t g) = pairs g" "queue (guess_db c t g) = queue g"
  "players (guess_db c t g) = players g" "jobs (guess_db c t g) = jobs g"
  "cards (guess_db c t g) = cards g" "decks (guess_db c t g) = decks g"
  "turns (guess_db c t g) = AList.update (t_id t) (take_guess c t) (turns g)"
  by (simp_all add: guess_db_def)

lemma no_turns_of_fresh_pair:
  assumes "game_inv nf g" and "map_of (pairs g) k = None" and "map_of (turns g) j = Some u"
  shows "t_pair_id u \<noteq> k"
  using inv_turn(3) [OF assms(1,3)] assms(2) by auto

lemma matching_ok_queue:
  assumes "matching_ok g"
    and "\<And>x. x \<in> set (keys q) \<Longrightarrow>
      x \<in> set (keys (queue g)) \<or> \<not> in_active g x \<and> x \<in> dom (map_of (players g))"
  shows "matching_ok (g\<lparr>queue := q\<rparr>)"
proof -
  have "\<forall>x \<in> set (keys q). \<not> in_active g x \<and> x \<in> dom (map_of (players g))"
    using assms unfolding matching_ok_def by blast
  then show ?thesis
    using assms(1) in_active_cong [of "g\<lparr>queue := q\<rparr>" g] unfolding matching_ok_def by simp
qed

lemma match_step_inv:
  assumes inv: "game_inv nf g" and m: "matching_ok g" and fresh: "fresh_env e g"
    and step: "match_step e i g r g'" and i: "map_of (players g) i \<noteq> None"
  shows "game_inv nf g'" and "matching_ok g'"
proof -
  have "game_inv nf g' \<and> matching_ok g'"
    using step unfolding match_step_def
  proof (elim disjE exE conjE)
    fix p assume "g' = g" then show ?thesis using inv m by simp
  next
    fix q assume q: "g' = g\<lparr>queue := q\<rparr>" "distinct (keys q)"
      "set (keys q) \<subseteq> insert i (set (keys (queue g)))" "\<not> in_active g i"
    have "matching_ok g'" using matching_ok_queue [OF m, of q] q i by auto
    then show ?thesis using inv_queue [OF inv q(2)] q(1) by simp
  next
    fix p j q assume nm: "new_match e i j p q g" and ft: "first_turn e p (put_pair p (g\<lparr>queue := q\<rparr>)) g'"
    let ?h = "put_pair p (g\<lparr>queue := q\<rparr>)"
    have k: "pr_id p = new_pair e" "map_of (pairs g) (new_pair e) = None"
      using nm fresh by (simp_all add: new_match_def fresh_env_def)
    have "game_inv nf (g\<lparr>queue := q\<rparr>)" using nm by (intro inv_queue [OF inv]) (simp add: new_match_def)
    then have h: "game_inv nf ?h"
      using nm k by (intro inv_put_pair_new) (simp_all add: new_match_def)
    have j: "\<not> in_active g j" using nm m by (auto simp: new_match_def matching_ok_def)
    have new: "is_member x p \<Longrightarrow> \<not> in_active g x" for x
      using nm j by (auto simp: new_match_def is_member_def)
    have others: "in_active ?h x \<Longrightarrow> in_active g x \<or> is_member x p" for x
      by (auto simp: in_active_def split: if_splits)
    have "matching_ok ?h"
      unfolding matching_ok_def
    proof (intro conjI allI impI ballI)
      fix a p1 b p2 x
      assume "map_of (pairs ?h) a = Some p1" "map_of (pairs ?h) b = Some p2"
        "pr_status p1 = Active" "pr_status p2 = Active" "is_member x p1" "is_member x p2"
      then show "a = b"
        using m new [of x] unfolding matching_ok_def in_active_def by (auto split: if_splits)
    next
      fix x assume x: "x \<in> set (keys (queue ?h))"
      then have "x \<in> set (keys (queue g))" and nx: "\<not> is_member x p"
        using nm by (auto simp: new_match_def is_member_def)
      then have "\<not> in_active g x" using m by (auto simp: matching_ok_def)
      then show "\<not> in_active ?h x" using others nx by blast
      show "x \<in> dom (map_of (players ?h))"
        using \<open>x \<in> set (keys (queue g))\<close> m by (auto simp: matching_ok_def)
    qed
    moreover have "game_inv nf (put_turn (mk_turn (new_turn e) (pr_id p) (player_a p) (player_b p) c tm) ?h)"
      for c tm
      using fresh k no_turns_of_fresh_pair [OF inv k(2)]
      by (intro inv_put_turn_new [OF h, where p = p]) (auto simp: fresh_env_def roles_ok_def)
    ultimately show ?thesis using h ft
      by (auto simp: first_turn_def intro: matching_ok_frame split: if_splits)
  qed
  then show "game_inv nf g'" "matching_ok g'" by simp_all
qed

text \<open>
  Ordering the board by a key that starts with the score and cutting it keeps the best rows.
\<close>

lemma take_board_spec:
  fixes f :: "leaderboard_row \<Rightarrow> int \<times> string"
  assumes key: "\<And>r. fst (f r) = - lb_score r"
  shows "length (take limit (sort_key f (board_rows g))) = min limit (length (players g)) \<and>
    set (take limit (sort_key f (board_rows g))) \<subseteq> set (board_rows g) \<and>
    sorted (map (\<lambda>r. - lb_score r) (take limit (sort_key f (board_rows g)))) \<and>
    (\<forall>r \<in> set (board_rows g). r \<notin> set (take limit (sort_key f (board_rows g))) \<longrightarrow>
      (\<forall>s \<in> set (take limit (sort_key f (board_rows g))). lb_score r \<le> lb_score s))"
proof -
  let ?s = "sort_key f (board_rows g)"
  have srt: "sorted (map (\<lambda>r. - lb_score r) ?s)"
    using sorted_sort_key [of f "board_rows g"] unfolding sorted_map
    by (rule sorted_wrt_mono_rel [rotated]) (metis key less_eq_prod_def order_le_less)
  have "lb_score r \<le> lb_score s" if "r \<in> set (board_rows g)" "r \<notin> set (take limit ?s)"
    "s \<in> set (take limit ?s)" for r s
  proof -
    have "set (take limit ?s) \<union> set (drop limit ?s) = set (board_rows g)"
      by (metis append_take_drop_id set_append set_sort)
    then have "r \<in> set (drop limit ?s)" using that(1,2) by blast
    moreover have "sorted (map (\<lambda>r. - lb_score r) (take limit ?s) @ map (\<lambda>r. - lb_score r) (drop limit ?s))"
      using srt by (metis append_take_drop_id map_append)
    ultimately show ?thesis using that(3) by (force simp: sorted_append)
  qed
  moreover have "set (take limit ?s) \<subseteq> set (board_rows g)" by (metis set_sort set_take_subset)
  moreover have "sorted (map (\<lambda>r. - lb_score r) (take limit ?s))" using srt by (metis sorted_wrt_take take_map)
  moreover have "length (take limit ?s) = min limit (length (players g))" by (simp add: board_rows_def min.commute)
  ultimately show ?thesis by blast
qed

section \<open>The contract\<close>

locale game_store =
  fixes ops :: store_ops and nf :: "string \<Rightarrow> string" and dur :: "pyfloat \<Rightarrow> pyfloat"
  assumes create_player:
      "game_inv nf g \<Longrightarrow> fresh_env e g \<Longrightarrow> op_create_player ops e n nl com h g = (r, g') \<Longrightarrow>
         (\<exists>err. r = Inl err \<and> g' = g) \<or>
         (\<exists>p q. r = Inr q \<and> g' = put_player p g \<and> p_id p = new_player e \<and> session_token_hash p = h \<and>
            native_lang p = nl \<and> common_langs p = com \<and>
            1 \<le> length (nickname p) \<and> length (nickname p) \<le> NICKNAME_MAX_LEN \<and>
            (\<forall>i q. map_of (players g) i = Some q \<longrightarrow> nf (nickname q) \<noteq> nf (nickname p)))"
    and player_by_token:
      "game_inv nf g \<Longrightarrow> op_player_by_token_hash ops h g = Inr (Some pl) \<Longrightarrow>
         \<exists>row. map_of (players g) (p_id pl) = Some row \<and> session_token_hash row = h"
    and enqueue_player:
      "map_of (players g) i \<noteq> None \<Longrightarrow>
         op_enqueue_player ops e i g = (Inr (), g\<lparr>queue := AList.update i (clock e At_enqueue) (queue g)\<rparr>)"
    and try_match:
      "game_inv nf g \<Longrightarrow> matching_ok g \<Longrightarrow> fresh_env e g \<Longrightarrow> map_of (players g) i \<noteq> None \<Longrightarrow>
         op_try_match ops e i g = (rm, g') \<Longrightarrow> match_step e i g rm g'"
    and active_pair_Some:
      "game_inv nf g \<Longrightarrow> op_get_active_pair ops i g = Some p \<Longrightarrow>
         map_of (pairs g) (pr_id p) = Some p \<and> pr_status p = Active \<and> is_member i p"
    and active_pair_None:
      "game_inv nf g \<Longrightarrow> op_get_active_pair ops i g = None \<longleftrightarrow> \<not> in_active g i"
    and create_turn:
      "map_of (turns g) (new_turn e) = None \<Longrightarrow> map_of (pairs g) k \<noteq> None \<Longrightarrow> sp \<noteq> gu \<Longrightarrow>
         map_of (players g) sp \<noteq> None \<Longrightarrow> map_of (players g) gu \<noteq> None \<Longrightarrow>
         map_of (cards g) cid \<noteq> None \<Longrightarrow>
         op_create_turn ops e k sp gu cid g =
           (Inr (mk_turn (new_turn e) k sp gu cid (clock e At_turn)),
            put_turn (mk_turn (new_turn e) k sp gu cid (clock e At_turn)) g)"
    and pick_card_None: "op_pick_card_for_pair ops e k g = None \<longleftrightarrow> live_cards g = []"
    and pick_card_Some:
      "op_pick_card_for_pair ops e k g = Some c \<Longrightarrow> c \<in> set (live_cards g) \<and>
         ((\<exists>c' \<in> set (live_cards g). \<forall>t \<in> set (vals (turns g)). t_pair_id t = k \<longrightarrow> t_card_id t \<noteq> c_id c')
           \<longrightarrow> (\<forall>t \<in> set (vals (turns g)). t_pair_id t = k \<longrightarrow> t_card_id t \<noteq> c_id c))"
    and get_turn: "op_get_turn ops i g = map_of (turns g) i"
    and latest_turn_Some:
      "game_inv nf g \<Longrightarrow> op_get_latest_turn ops k g = Some t \<Longrightarrow>
         map_of (turns g) (t_id t) = Some t \<and> t_pair_id t = k"
    and latest_turn_open:
      "game_inv nf g \<Longrightarrow> map_of (turns g) i = Some t \<Longrightarrow> is_open t \<Longrightarrow>
         op_get_latest_turn ops (t_pair_id t) g = Some t"
    and latest_turn_None:
      "game_inv nf g \<Longrightarrow> op_get_latest_turn ops k g = None \<longleftrightarrow>
         (\<forall>i t. map_of (turns g) i = Some t \<longrightarrow> t_pair_id t \<noteq> k)"
    and accept_audio:
      "map_of (turns g) i = Some t \<Longrightarrow> t_status t = Awaiting_audio \<Longrightarrow>
         op_accept_audio ops i path d g = (Inr (take_audio path (dur d) t), put_turn (take_audio path (dur d) t) g)"
    and confirm_label:
      "map_of (turns g) i = Some t \<Longrightarrow> t_status t = Awaiting_label_confirm \<Longrightarrow>
         op_confirm_label ops i g =
           (Inr (t\<lparr>t_status := Awaiting_guess\<rparr>), put_turn (t\<lparr>t_status := Awaiting_guess\<rparr>) g)"
    and apply_guess:
      "game_inv nf g \<Longrightarrow> map_of (turns g) i = Some t \<Longrightarrow> t_status t = Awaiting_guess \<Longrightarrow>
         op_apply_guess ops i correct g = (Inr (take_guess correct t), guess_db correct t g)"
    and enqueue_job_old:
      "j \<in> set (jobs g) \<Longrightarrow> op_enqueue_job ops e (j_kind j) (j_turn_id j) g = (Inr False, g)"
    and enqueue_job_new:
      "(\<And>j. j \<in> set (jobs g) \<Longrightarrow> (j_kind j, j_turn_id j) \<noteq> (kind, i)) \<Longrightarrow>
         \<exists>j. op_enqueue_job ops e kind i g = (Inr True, add_job j g) \<and>
           j_kind j = kind \<and> j_turn_id j = i \<and> j_status j = Job_pending \<and> tries j = 0"
    and complete_pair:
      "game_inv nf g \<Longrightarrow> map_of (pairs g) k = Some p \<Longrightarrow> pr_status p = Active \<Longrightarrow>
         op_complete_pair_if_capped ops k cap g =
           (Inr (capped cap p g), if capped cap p g then put_pair (p\<lparr>pr_status := Completed\<rparr>) g else g)"
    and player_stats:
      "game_inv nf g \<Longrightarrow> map_of (players g) i \<noteq> None \<Longrightarrow>
         \<exists>st. op_player_stats ops i g = Inr st \<and> rounds_played st = rounds_of i g \<and>
           score st = points_of i g"
    and leaderboard:
      "game_inv nf g \<Longrightarrow> \<exists>rows. op_leaderboard ops limit g = Inr rows \<and>
         length rows = min limit (length (players g)) \<and> set rows \<subseteq> set (board_rows g) \<and>
         sorted (map (\<lambda>r. - lb_score r) rows) \<and>
         (\<forall>r \<in> set (board_rows g). r \<notin> set rows \<longrightarrow> (\<forall>s \<in> set rows. lb_score r \<le> lb_score s))"

end
