(* ===== verification/Gauntlet_Laws.thy ===== *)
theory Gauntlet_Laws
  imports Gauntlet Store_Interface
begin

text \<open>
  What the worker guarantees: triage keeps the invariant of the tables and never loses a package
  job, the answer of the model is checked field by field, a golden record shows why it is
  eligible, and the corpus holds each eligible utterance at most once, whatever is retried.
\<close>

section \<open>Triage and the tables\<close>

lemma store_quality_inv:
  assumes inv: "game_inv nf g"
  shows "game_inv nf (store_quality i flac q g)"
proof (cases "map_of (turns g) i")
  case None
  then show ?thesis using inv by (simp add: store_quality_def)
next
  case (Some t)
  note t = inv_turn(1,2) [OF inv Some]
  have "turn_step t (t\<lparr>audio_flac_path := Some flac, quality := Some q\<rparr>)"
    using t(1) by (simp add: turn_step_def turn_ok_def)
  then show ?thesis using Some t(2)
    by (auto simp: store_quality_def intro!: inv_put_turn_step [OF inv, where u = t])
qed

lemma package_if_scored_inv:
  assumes inv: "game_inv nf g"
  shows "game_inv nf (package_if_scored now jid i g)"
proof (cases "\<exists>t. map_of (turns g) i = Some t \<and> t_status t = Scored \<and> quality t \<noteq> None
    \<and> (Package, i) \<notin> set (map (\<lambda>j. (j_kind j, j_turn_id j)) (jobs g))")
  case True
  then obtain t where t: "map_of (turns g) i = Some t" "t_status t = Scored" "quality t \<noteq> None"
      "(Package, i) \<notin> set (map (\<lambda>j. (j_kind j, j_turn_id j)) (jobs g))" by blast
  then show ?thesis
    by (force simp: package_if_scored_def job_ok_def intro!: inv_add_job [OF inv])
next
  case False
  then show ?thesis using inv by (auto simp: package_if_scored_def split: option.splits)
qed

lemma triage_frame [simp]:
  "pairs (store_quality i flac q g) = pairs g" "queue (store_quality i flac q g) = queue g"
  "players (store_quality i flac q g) = players g" "jobs (store_quality i flac q g) = jobs g"
  "pairs (package_if_scored now jid i g) = pairs g" "queue (package_if_scored now jid i g) = queue g"
  "players (package_if_scored now jid i g) = players g" "turns (package_if_scored now jid i g) = turns g"
  by (auto simp: store_quality_def package_if_scored_def split: option.splits)

lemma persist_triage_inv:
  assumes "game_inv nf (gdb s)" and "matching_ok (gdb s)"
    and "persist_triage limits now jid i flac q sp fp s = (r, s')"
  shows "game_inv nf (gdb s') \<and> matching_ok (gdb s')"
proof (cases "register_speaker_fingerprint limits sp fp i (gdb s) (fps s)")
  case (Inl err)
  then show ?thesis using assms by (simp add: persist_triage_def)
next
  case (Inr x)
  obtain owned rows where x: "x = (owned, rows)" by (cases x)
  let ?q = "AList.update ''acoustic_envelope'' (JStr (encode_envelope (envelope fp)))
                 (AList.update ''dedup_hash'' (JStr (content_hash fp))
                   (AList.update ''duplicate'' (JBool (\<not> owned)) q))"
  have g: "gdb s' = package_if_scored now jid i (store_quality i flac ?q (gdb s))"
    using assms(3) Inr x by (auto simp: persist_triage_def Let_def)
  have "game_inv nf (gdb s')" unfolding g
    by (intro package_if_scored_inv store_quality_inv assms(1))
  moreover have "matching_ok (gdb s')" unfolding g by (rule matching_ok_frame [OF assms(2)]) simp_all
  ultimately show ?thesis by simp
qed

section \<open>A scored turn with quality has its package job\<close>

definition has_job :: "job_kind \<Rightarrow> uuid \<Rightarrow> game_db \<Rightarrow> bool" where
  "has_job kind i g \<longleftrightarrow> (kind, i) \<in> set (map (\<lambda>j. (j_kind j, j_turn_id j)) (jobs g))"

definition packaged_ok :: "game_db \<Rightarrow> bool" where
  "packaged_ok g \<longleftrightarrow> (\<forall>i t. map_of (turns g) i = Some t \<longrightarrow> t_status t = Scored \<longrightarrow> quality t \<noteq> None
     \<longrightarrow> has_job Package i g)"

lemma package_if_scored_has:
  "map_of (turns g) i = Some t \<Longrightarrow> t_status t = Scored \<Longrightarrow> quality t \<noteq> None \<Longrightarrow>
     has_job Package i (package_if_scored now jid i g)"
  by (auto simp: package_if_scored_def has_job_def)

lemma package_if_scored_keeps: "has_job k j g \<Longrightarrow> has_job k j (package_if_scored now jid i g)"
  by (auto simp: package_if_scored_def has_job_def split: option.splits)

lemma store_quality_has_job [simp]: "has_job k j (store_quality i flac q g) = has_job k j g"
  by (simp add: has_job_def)

lemma store_quality_turn:
  "map_of (turns g) i = Some t \<Longrightarrow> game_inv nf g \<Longrightarrow>
     map_of (turns (store_quality i flac q g)) j =
       (if j = i then Some (t\<lparr>audio_flac_path := Some flac, quality := Some q\<rparr>) else map_of (turns g) j)"
  using inv_turn(2) by (auto simp: store_quality_def)

lemma persist_packaged:
  assumes inv: "game_inv nf g" and ok: "packaged_ok g"
  shows "packaged_ok (package_if_scored now jid i (store_quality i flac q g))"
proof (cases "map_of (turns g) i")
  case None
  then show ?thesis using ok by (simp add: store_quality_def package_if_scored_def)
next
  case (Some t)
  let ?h = "store_quality i flac q g"
  show ?thesis
    unfolding packaged_ok_def triage_frame
  proof (intro allI impI)
    fix j u assume u: "map_of (turns ?h) j = Some u" "t_status u = Scored" "quality u \<noteq> None"
    show "has_job Package j (package_if_scored now jid i ?h)"
    proof (cases "j = i")
      case True
      then show ?thesis using u package_if_scored_has by blast
    next
      case False
      then have "map_of (turns g) j = Some u" using u store_quality_turn [OF Some inv] by simp
      then have "has_job Package j ?h" using ok u unfolding packaged_ok_def by simp
      then show ?thesis by (rule package_if_scored_keeps)
    qed
  qed
qed

section \<open>The model's answer\<close>

lemma triage_bool_Inr [simp]: "triage_bool response key = Inr b \<longleftrightarrow> jget response key = JBool b"
  by (simp add: triage_bool_def split: json.split)

lemma triage_string_Inr [simp]: "triage_string response key = Inr s \<longleftrightarrow> jget response key = JStr s"
  by (simp add: triage_string_def split: json.split)

lemma parse_triage_spec:
  assumes "parse_triage parse response hash dup = Inr r"
  shows "set triage_required \<subseteq> set (map fst response)"
    and "jget response ''is_speech'' = JBool (is_speech r)"
    and "jget response ''single_speaker'' = JBool (single_speaker r)"
    and "jget response ''audio_quality_ok'' = JBool (audio_quality_ok r)"
    and "jget response ''is_label_readout'' = JBool (contamination_flag r)"
    and "jget response ''apparent_language_note'' = JStr (apparent_language_note r)"
    and "jget response ''readout_reasoning'' = JStr (readout_reasoning r)"
    and "dedup_hash r = hash" and "duplicate r = dup"
  using assms by (auto simp: parse_triage_def try_in_Inr simp del: set_map split: if_splits)

lemma jget_Cons [simp]: "jget ((k, v) # d) k' = (if k' = k then v else jget d k')"
  by (simp add: jget_def)

lemma jget_update [simp]: "jget (AList.update k v d) k' = (if k' = k then v else jget d k')"
  by (simp add: jget_def)

text \<open>Eligibility of a turn whose quality is a parsed answer with the ownership flag.\<close>

lemma eligible_of_triage:
  assumes "tc_quality ctx = Some (AList.update ''acoustic_envelope'' env_text
      (AList.update ''dedup_hash'' h (AList.update ''duplicate'' (JBool dup) (as_quality_json r))))"
  shows "training_eligible ctx \<longleftrightarrow> is_speech r \<and> single_speaker r \<and> audio_quality_ok r
    \<and> \<not> contamination_flag r \<and> tc_outcome ctx = Validated \<and> \<not> dup"
  using assms by (simp add: training_eligible_def as_quality_json_def)

section \<open>Golden records\<close>

definition golden_eligible :: "(string \<times> json) list \<Rightarrow> bool" where
  "golden_eligible golden \<longleftrightarrow>
     (case (jget golden ''validation'', jget golden ''quality'') of
        (JObj v, JObj q) \<Rightarrow> jget v ''correct'' = JBool True \<and> jget q ''is_speech'' = JBool True
          \<and> jget q ''single_speaker'' = JBool True \<and> jget q ''audio_quality_ok'' = JBool True
          \<and> jget q ''contamination_flag'' = JBool False \<and> jget q ''duplicate'' = JBool False
      | _ \<Rightarrow> False)"

lemma golden_eligible_iff:
  "golden_record isoformat now ctx = Inr golden \<Longrightarrow> golden_eligible golden \<longleftrightarrow> training_eligible ctx"
  by (auto simp: golden_record_def golden_eligible_def training_eligible_def Let_def split: if_splits)

lemma golden_utterance:
  "golden_record isoformat now ctx = Inr golden \<Longrightarrow> jget golden ''utterance_id'' = JStr (uuid_str (tc_turn_id ctx))"
  by (auto simp: golden_record_def Let_def split: if_splits)

lemma context_turn:
  "get_turn_context py_str i g = Some ctx \<Longrightarrow> \<exists>t. map_of (turns g) i = Some t \<and> tc_turn_id ctx = t_id t
     \<and> tc_quality ctx = quality t \<and> tc_status ctx = t_status t \<and> tc_outcome ctx = t_outcome t"
  by (auto simp: get_turn_context_def split: option.splits)

lemma uuid_str_nonempty: "uuid_str i \<noteq> []"
  by (simp add: uuid_str_def Let_def)

section \<open>The corpus\<close>

definition corpus_ok :: "codec \<Rightarrow> json set \<Rightarrow> gauntlet_state \<Rightarrow> bool" where
  "corpus_ok cd S s \<longleftrightarrow> all_terminated (shards s) \<and> (\<forall>name \<in> set (keys (shards s)). is_shard_name name)
     \<and> (\<forall>uid. copies (cd_loads cd) uid (shards s) \<le> 1 \<and> (copies (cd_loads cd) uid (shards s) \<noteq> 0 \<longrightarrow>
          (\<exists>i r. map_of (recs s) i = Some r \<and> rec_eligible r \<and> uuid_str i = uid)))
     \<and> (\<forall>i r. map_of (recs s) i = Some r \<longrightarrow> JObj (rec_golden r) \<in> S \<and> rec_golden r \<noteq> []
          \<and> jget (rec_golden r) ''utterance_id'' = JStr (uuid_str i)
          \<and> rec_shard r \<noteq> Some [] \<and> (linked r \<longrightarrow> copies (cd_loads cd) (uuid_str i) (shards s) = 1))"

lemma sum_list_ge_member:
  "x \<in> set xs \<Longrightarrow> (\<And>y. 0 \<le> (f y :: int)) \<Longrightarrow> f x \<le> (\<Sum>y\<leftarrow>xs. f y)"
proof (induction xs)
  case (Cons a xs)
  have "0 \<le> (\<Sum>y\<leftarrow>xs. f y)" using Cons.prems(2) by (intro sum_list_nonneg) auto
  then show ?case using Cons by (auto intro: order_trans)
qed simp

lemma found_copies:
  assumes "find_utterance loads fs uid = Inr (Some name)"
  shows "1 \<le> copies loads uid fs" and "is_shard_name name"
proof -
  have n: "name \<in> set (shard_names fs)" "shard_contains loads fs uid name = Inr True"
    using search_Some [OF assms [unfolded find_utterance_def]] by auto
  then show "is_shard_name name" by (simp add: shard_names_def)
  obtain s where s: "map_of fs name = Some s" "line_matches loads uid (lines_of s) = Inr True"
    using n(2) by (auto simp: shard_contains_def split: option.splits)
  have "1 \<le> length (filter (holds_utterance loads uid) (lines_of s))"
    using line_matches_True [OF s(2)] by (cases "filter (holds_utterance loads uid) (lines_of s)") auto
  then have "1 \<le> int (length (filter (holds_utterance loads uid) (lines_of s)))" by linarith
  also have "\<dots> \<le> copies loads uid fs"
    unfolding copies_def by (rule sum_list_ge_member [OF in_valsI [OF s(1)]]) simp
  finally show "1 \<le> copies loads uid fs" .
qed

lemma copies_append_other:
  assumes "all_terminated fs" and "codec_on dumps loads {JObj g}" and "jget g ''utterance_id'' = JStr uid"
    and "uid' \<noteq> uid"
  shows "copies loads uid' (append_line name (dumps (JObj g)) fs) = copies loads uid' fs"
proof -
  let ?t = "dumps (JObj g)"
  let ?f = "\<lambda>s. int (length (filter (holds_utterance loads uid') (lines_of s)))"
  have t: "newline \<notin> set ?t" "\<not> holds_utterance loads uid' ?t"
    using assms(2-4) strip_id by (auto simp: codec_on_def holds_utterance_def)
  show ?thesis
  proof (cases "map_of fs name")
    case None
    have "?f (?t @ [newline]) = 0" using lines_of_line [OF t(1), of "[]"] t(2) by simp
    then show ?thesis unfolding copies_def append_line_def
      by (simp only: None option.case append_Nil sum_vals_update_new [OF None])
  next
    case (Some s)
    then have "terminated s" using assms(1) by (simp add: all_terminated_def)
    then have "?f (s @ ?t @ [newline]) = ?f s" using lines_of_append t by simp
    then show ?thesis unfolding copies_def append_line_def
      by (simp only: Some option.case sum_vals_update_old [OF Some])
  qed
qed

text \<open>Appending an eligible record that is not there yet, before it is linked: the crash window.\<close>

lemma corpus_ok_append:
  assumes ok: "corpus_ok cd S s" and codec: "codec_on (cd_dumps cd) (cd_loads cd) S"
    and r: "map_of (recs s) i = Some r" "rec_eligible r" "\<not> linked r"
    and none: "find_utterance (cd_loads cd) (shards s) (uuid_str i) = Inr None"
    and fs: "fs = append_line name (cd_dumps cd (JObj (rec_golden r))) (shards s)" and name: "is_shard_name name"
  shows "corpus_ok cd S (s\<lparr>shards := fs\<rparr>)" and "copies (cd_loads cd) (uuid_str i) fs = 1"
proof -
  have tt: "all_terminated (shards s)" and names: "\<forall>name \<in> set (keys (shards s)). is_shard_name name"
    using ok by (auto simp: corpus_ok_def)
  have g: "codec_on (cd_dumps cd) (cd_loads cd) {JObj (rec_golden r)}"
      "jget (rec_golden r) ''utterance_id'' = JStr (uuid_str i)"
    using ok r codec by (auto simp: corpus_ok_def codec_on_def)
  have zero: "copies (cd_loads cd) (uuid_str i) (shards s) = 0" by (rule not_found_no_copies [OF tt none names])
  have one: "copies (cd_loads cd) (uuid_str i) fs = 1"
    unfolding fs using copies_append [OF tt g] zero by simp
  have other: "copies (cd_loads cd) uid fs = copies (cd_loads cd) uid (shards s)" if "uid \<noteq> uuid_str i" for uid
    unfolding fs by (rule copies_append_other [OF tt g that])
  have fsn: "\<forall>name \<in> set (keys fs). is_shard_name name"
    unfolding fs append_line_def keys_update_set using names name by blast
  have fst: "all_terminated fs" unfolding fs by (rule all_terminated_append [OF tt])
  have c: "copies (cd_loads cd) uid fs \<le> 1 \<and> (copies (cd_loads cd) uid fs \<noteq> 0 \<longrightarrow>
          (\<exists>i r. map_of (recs s) i = Some r \<and> rec_eligible r \<and> uuid_str i = uid))" for uid
  proof (cases "uid = uuid_str i")
    case True
    then show ?thesis using one r by auto
  next
    case False
    then show ?thesis using other ok unfolding corpus_ok_def by simp
  qed
  have rows: "JObj (rec_golden q) \<in> S \<and> rec_golden q \<noteq> [] \<and> jget (rec_golden q) ''utterance_id'' = JStr (uuid_str j)
          \<and> rec_shard q \<noteq> Some [] \<and> (linked q \<longrightarrow> copies (cd_loads cd) (uuid_str j) fs = 1)"
    if "map_of (recs s) j = Some q" for j q
    using ok that other [of "uuid_str j"] one unfolding corpus_ok_def by (cases "uuid_str j = uuid_str i") auto
  show "corpus_ok cd S (s\<lparr>shards := fs\<rparr>)"
    unfolding corpus_ok_def using fst fsn c rows by simp
  show "copies (cd_loads cd) (uuid_str i) fs = 1" by (rule one)
qed

lemma corpus_ok_link:
  assumes ok: "corpus_ok cd S s" and one: "copies (cd_loads cd) (uuid_str i) (shards s) = 1" and "name \<noteq> []"
  shows "corpus_ok cd S (s\<lparr>recs := set_record_shard i name (recs s)\<rparr>)"
proof (cases "set_record_shard i name (recs s) = recs s")
  case True
  then show ?thesis using ok by simp
next
  case False
  then obtain r where r: "map_of (recs s) i = Some r" "rec_eligible r"
      "set_record_shard i name (recs s) = AList.update i (r\<lparr>rec_shard := Some name\<rparr>) (recs s)"
    by (auto simp: set_record_shard_def split: option.splits if_splits)
  have c: "copies (cd_loads cd) uid (shards s) \<le> 1 \<and> (copies (cd_loads cd) uid (shards s) \<noteq> 0 \<longrightarrow>
          (\<exists>j q. ((map_of (recs s))(i \<mapsto> r\<lparr>rec_shard := Some name\<rparr>)) j = Some q \<and> rec_eligible q \<and> uuid_str j = uid))"
    for uid
  proof -
    have "copies (cd_loads cd) uid (shards s) \<noteq> 0 \<Longrightarrow>
        \<exists>j q. map_of (recs s) j = Some q \<and> rec_eligible q \<and> uuid_str j = uid"
      using ok unfolding corpus_ok_def by blast
    moreover have "\<exists>j q. ((map_of (recs s))(i \<mapsto> r\<lparr>rec_shard := Some name\<rparr>)) j = Some q \<and> rec_eligible q
        \<and> uuid_str j = uid"
      if "map_of (recs s) j = Some q" "rec_eligible q" "uuid_str j = uid" for j q
      using that r(1,2) by (cases "j = i") auto
    ultimately show ?thesis using ok unfolding corpus_ok_def by blast
  qed
  show ?thesis
    unfolding corpus_ok_def using ok c r one assms(3) by (auto simp: corpus_ok_def)
qed

lemma corpus_ok_bump [simp]: "corpus_ok cd S (bump_gauntlet k s) = corpus_ok cd S s"
  by (simp add: corpus_ok_def bump_gauntlet_def)

lemma shard_name_nonempty: "is_shard_name name \<Longrightarrow> name \<noteq> []"
  by (auto simp: is_shard_name_def)

lemma export_corpus_ok:
  assumes ok: "corpus_ok cd S s" and codec: "codec_on (cd_dumps cd) (cd_loads cd) S"
    and r: "map_of (recs s) i = Some r"
    and run: "export_eligible_record cd limits i (rec_golden r) s = (res, s')"
  shows "corpus_ok cd S s'"
    and "res = Inr () \<Longrightarrow> rec_eligible r \<Longrightarrow> \<exists>r'. map_of (recs s') i = Some r' \<and> linked r'"
proof -
  have "corpus_ok cd S s' \<and> (res = Inr () \<longrightarrow> rec_eligible r \<longrightarrow>
      (\<exists>r'. map_of (recs s') i = Some r' \<and> linked r'))"
  proof (cases "rec_eligible r \<and> \<not> linked r")
    case False
    then show ?thesis using run r ok by (auto simp: export_eligible_record_def split: if_splits)
  next
    case el: True
    have noshard: "rec_shard r = None"
      using el ok r by (auto simp: corpus_ok_def linked_def split: option.splits)
    have link: "map_of (set_record_shard i name (recs s)) i = Some (r\<lparr>rec_shard := Some name\<rparr>)" for name
      using el r noshard by (simp add: set_record_shard_def)
    show ?thesis
    proof (cases "find_utterance (cd_loads cd) (shards s) (uuid_str i)")
      case (Inl err)
      then show ?thesis using run r el ok by (auto simp: export_eligible_record_def)
    next
      case (Inr found)
      show ?thesis
      proof (cases found)
        case (Some name)
        have f: "1 \<le> copies (cd_loads cd) (uuid_str i) (shards s)" "is_shard_name name"
          using found_copies Inr Some by auto
        then have one: "copies (cd_loads cd) (uuid_str i) (shards s) = 1"
          using ok by (auto simp: corpus_ok_def intro: antisym)
        have "s' = s\<lparr>recs := set_record_shard i name (recs s)\<rparr>"
          using run r el Inr Some by (simp add: export_eligible_record_def)
        then show ?thesis using corpus_ok_link [OF ok one shard_name_nonempty [OF f(2)]] link [of name]
            shard_name_nonempty [OF f(2)] by (simp add: linked_def)
      next
        case None
        let ?shard = "current_shard (shard_record_limit limits) (shards s)"
        let ?fs = "append_line ?shard (cd_dumps cd (JObj (rec_golden r))) (shards s)"
        have ap: "corpus_append (cd_dumps cd) (cd_loads cd) (shard_record_limit limits) (rec_golden r) (shards s)
            = (Inr ?shard, ?fs)"
          using ok r Inr None uuid_str_nonempty by (auto simp: corpus_append_def corpus_ok_def Let_def)
        have s': "s' = bump_gauntlet ''gauntlet_training_eligible_total''
            (s\<lparr>shards := ?fs, recs := set_record_shard i ?shard (recs s)\<rparr>)"
          using run r el Inr None ap by (simp add: export_eligible_record_def)
        have name: "is_shard_name ?shard" by (rule current_shard_name)
        note a = corpus_ok_append [OF ok codec r _ _ Inr [unfolded None] refl name]
        have "corpus_ok cd S (s\<lparr>shards := ?fs\<rparr>)" "copies (cd_loads cd) (uuid_str i) ?fs = 1"
          using a el by auto
        then have "corpus_ok cd S (s\<lparr>shards := ?fs, recs := set_record_shard i ?shard (recs s)\<rparr>)"
          using corpus_ok_link [of cd S "s\<lparr>shards := ?fs\<rparr>" i ?shard] shard_name_nonempty [OF name] by simp
        then show ?thesis using s' link [of ?shard] shard_name_nonempty [OF name]
          by (simp add: linked_def bump_gauntlet_def [of _ "s\<lparr>shards := _, recs := _\<rparr>"] corpus_ok_def bump_gauntlet_def)
      qed
    qed
  qed
  then show "corpus_ok cd S s'"
    and "res = Inr () \<Longrightarrow> rec_eligible r \<Longrightarrow> \<exists>r'. map_of (recs s') i = Some r' \<and> linked r'" by simp_all
qed

lemma corpus_ok_create:
  assumes ok: "corpus_ok cd S s" and new: "map_of (recs s) i = None"
    and g: "JObj golden \<in> S" "golden \<noteq> []" "jget golden ''utterance_id'' = JStr (uuid_str i)"
    and cr: "create_record i golden el (recs s) = (ins, rs)"
  shows "corpus_ok cd S (s\<lparr>recs := rs\<rparr>)"
proof -
  let ?row = "\<lparr> rec_golden = golden, rec_eligible = el, rec_shard = None \<rparr>"
  have rs: "map_of rs = (map_of (recs s))(i \<mapsto> ?row)" using cr new by (auto simp: create_record_def)
  have c: "copies (cd_loads cd) uid (shards s) \<noteq> 0 \<Longrightarrow>
      \<exists>j q. map_of rs j = Some q \<and> rec_eligible q \<and> uuid_str j = uid" for uid
  proof -
    assume "copies (cd_loads cd) uid (shards s) \<noteq> 0"
    then obtain j q where "map_of (recs s) j = Some q" "rec_eligible q" "uuid_str j = uid"
      using ok unfolding corpus_ok_def by blast
    then show ?thesis unfolding rs using new by (intro exI [of _ j] exI [of _ q]) auto
  qed
  have "\<not> linked ?row" by (simp add: linked_def)
  then show ?thesis
    using ok c g unfolding corpus_ok_def by (auto simp: rs)
qed

lemma package_existing_ok:
  assumes ok: "corpus_ok cd S s" and codec: "codec_on (cd_dumps cd) (cd_loads cd) S"
    and run: "package_existing cd limits ctx golden s = (res, s')"
  shows "corpus_ok cd S s'"
    and "res = Inr () \<Longrightarrow> \<exists>r. map_of (recs s') (tc_turn_id ctx) = Some r \<and>
      (rec_eligible r \<and> training_eligible ctx \<longrightarrow> linked r)"
proof -
  have "corpus_ok cd S s' \<and> (res = Inr () \<longrightarrow> (\<exists>r. map_of (recs s') (tc_turn_id ctx) = Some r \<and>
      (rec_eligible r \<and> training_eligible ctx \<longrightarrow> linked r)))"
  proof (cases "map_of (recs s) (tc_turn_id ctx)")
    case None
    then show ?thesis using run ok by (auto simp: package_existing_def)
  next
    case (Some r)
    have ne: "rec_golden r \<noteq> []" using ok Some by (auto simp: corpus_ok_def)
    show ?thesis
    proof (cases "rec_eligible r \<and> training_eligible ctx \<and> \<not> linked r")
      case False
      then show ?thesis using run Some ok by (auto simp: package_existing_def split: if_splits)
    next
      case True
      then have "export_eligible_record cd limits (tc_turn_id ctx) (rec_golden r) s = (res, s')"
        using run Some ne by (simp add: package_existing_def)
      from export_corpus_ok [OF ok codec Some this] show ?thesis using True by auto
    qed
  qed
  then show "corpus_ok cd S s'"
    and "res = Inr () \<Longrightarrow> \<exists>r. map_of (recs s') (tc_turn_id ctx) = Some r \<and>
      (rec_eligible r \<and> training_eligible ctx \<longrightarrow> linked r)" by simp_all
qed

lemma golden_nonempty: "golden_record isoformat now ctx = Inr golden \<Longrightarrow> golden \<noteq> []"
  by (auto simp: golden_record_def Let_def split: if_splits)

text \<open>The context of a packaged turn, and what its golden record is checked against.\<close>

definition golden_covered ::
  "(json \<Rightarrow> string) \<Rightarrow> (time \<Rightarrow> string) \<Rightarrow> time \<Rightarrow> json set \<Rightarrow> uuid \<Rightarrow> gauntlet_state \<Rightarrow> bool" where
  "golden_covered py_str isoformat now S i s \<longleftrightarrow>
     (case get_turn_context py_str i (gdb s) of
        None \<Rightarrow> True
      | Some ctx \<Rightarrow> (case golden_record isoformat now ctx of Inl _ \<Rightarrow> True | Inr g \<Rightarrow> JObj g \<in> S))"

lemma package_job_ok:
  assumes ok: "corpus_ok cd S s" and codec: "codec_on (cd_dumps cd) (cd_loads cd) S"
    and cov: "golden_covered py_str isoformat now S i s"
    and run: "package_job py_str isoformat now cd limits i s = (res, s')"
  shows "corpus_ok cd S s'"
    and "res = Inr () \<Longrightarrow> \<exists>ctx. get_turn_context py_str i (gdb s) = Some ctx \<and>
      (tc_status ctx = Scored \<longrightarrow> tc_quality ctx \<noteq> None \<longrightarrow>
        (\<exists>r. map_of (recs s') (tc_turn_id ctx) = Some r \<and> (rec_eligible r \<and> training_eligible ctx \<longrightarrow> linked r)))"
proof -
  have "corpus_ok cd S s' \<and> (res = Inr () \<longrightarrow> (\<exists>ctx. get_turn_context py_str i (gdb s) = Some ctx \<and>
      (tc_status ctx = Scored \<longrightarrow> tc_quality ctx \<noteq> None \<longrightarrow>
        (\<exists>r. map_of (recs s') (tc_turn_id ctx) = Some r \<and> (rec_eligible r \<and> training_eligible ctx \<longrightarrow> linked r)))))"
  proof (cases "get_turn_context py_str i (gdb s)")
    case None
    then show ?thesis using run ok by (auto simp: package_job_def)
  next
    case (Some ctx)
    show ?thesis
    proof (cases "tc_status ctx \<noteq> Scored \<or> tc_quality ctx = None")
      case True
      then show ?thesis using run ok Some by (auto simp: package_job_def)
    next
      case ready: False
      show ?thesis
      proof (cases "golden_record isoformat now ctx")
        case (Inl err)
        then show ?thesis using run ok Some ready by (auto simp: package_job_def)
      next
        case (Inr golden)
        have gS: "JObj golden \<in> S" using cov Some Inr by (simp add: golden_covered_def)
        obtain s1 where s1: "corpus_ok cd S s1" "package_existing cd limits ctx golden s1 = (res, s')"
        proof (cases "map_of (recs s) (tc_turn_id ctx)")
          case None
          obtain ins rs where cr: "create_record (tc_turn_id ctx) golden (training_eligible ctx) (recs s) = (ins, rs)"
            by (cases "create_record (tc_turn_id ctx) golden (training_eligible ctx) (recs s)")
          have "corpus_ok cd S (s\<lparr>recs := rs\<rparr>)"
            by (rule corpus_ok_create [OF ok None gS golden_nonempty [OF Inr] golden_utterance [OF Inr] cr])
          moreover have "package_existing cd limits ctx golden
              (if ins then bump_gauntlet ''gauntlet_records_total'' (s\<lparr>recs := rs\<rparr>) else s\<lparr>recs := rs\<rparr>) = (res, s')"
            using run Some ready Inr None cr by (auto simp: package_job_def split: if_splits)
          ultimately show thesis by (intro that) (auto split: if_splits)
        next
          case row: (Some r)
          then have "package_existing cd limits ctx golden s = (res, s')"
            using run Some ready Inr row by (auto simp: package_job_def split: if_splits)
          then show thesis by (rule that [OF ok])
        qed
        show ?thesis using package_existing_ok [OF s1(1) codec s1(2)] Some by auto
      qed
    qed
  qed
  then show "corpus_ok cd S s'"
    and "res = Inr () \<Longrightarrow> \<exists>ctx. get_turn_context py_str i (gdb s) = Some ctx \<and>
      (tc_status ctx = Scored \<longrightarrow> tc_quality ctx \<noteq> None \<longrightarrow>
        (\<exists>r. map_of (recs s') (tc_turn_id ctx) = Some r \<and> (rec_eligible r \<and> training_eligible ctx \<longrightarrow> linked r)))"
    by simp_all
qed

end
