(* ===== verification/Memory_Store.thy ===== *)
theory Memory_Store
  imports Store
begin

text \<open>
  \<open>MemoryGameStore\<close> (\<open>app/game/memory_store.py\<close>), one definition per method.  A dictionary
  lookup \<open>d[k]\<close> of a missing key is the error \<open>KeyError\<close>, with the state as the method left it.
  Logging is not modelled; the nickname lock makes \<open>create_player\<close> one step.
\<close>

section \<open>Players\<close>

definition mem_nickname_taken :: "game_db \<Rightarrow> string \<Rightarrow> bool" where
  "mem_nickname_taken g candidate \<longleftrightarrow>
     (\<exists>p \<in> set (vals (players g)). casefold (nickname p) = casefold candidate)"

definition mem_create_player ::
  "env \<Rightarrow> string \<Rightarrow> string \<Rightarrow> string list \<Rightarrow> string \<Rightarrow> (game_db, player) act" where
  "mem_create_player e nick native common token_hash g =
     (case next_free_nickname nick (mem_nickname_taken g)
         (nickname_alloc_max_attempts get_game_config) of
        Inl err \<Rightarrow> (Inl err, g)
      | Inr reserved \<Rightarrow>
          (let p = \<lparr> p_id = new_player e, nickname = reserved, native_lang = native,
                     common_langs = common, session_token_hash = token_hash,
                     p_created_at = clock e At_player \<rparr>
           in (Inr p, put_player p g)))"

definition mem_get_player_by_token_hash :: "string \<Rightarrow> game_db \<Rightarrow> py_error + player option" where
  "mem_get_player_by_token_hash token_hash g =
     (case map_of (players_by_hash g) token_hash of
        None \<Rightarrow> Inr None
      | Some i \<Rightarrow> (case map_of (players g) i of None \<Rightarrow> Inl KeyError | Some p \<Rightarrow> Inr (Some p)))"

definition mem_get_player :: "uuid \<Rightarrow> game_db \<Rightarrow> player option" where
  "mem_get_player i g = map_of (players g) i"

section \<open>Queue\<close>

definition mem_enqueue_player :: "env \<Rightarrow> uuid \<Rightarrow> (game_db, unit) act" where
  "mem_enqueue_player e i g = (Inr (), g\<lparr>queue := AList.update i (clock e At_enqueue) (queue g)\<rparr>)"

definition mem_stale :: "env \<Rightarrow> uuid option \<Rightarrow> game_db \<Rightarrow> uuid list" where
  "mem_stale e keep g =
     (let cutoff = clock e At_evict - matchmaking_queue_ttl_us get_game_config in
      map fst (filter (\<lambda>(i, tm). tm < cutoff \<and> Some i \<noteq> keep) (queue g)))"

definition mem_evict_stale_queue :: "env \<Rightarrow> uuid option \<Rightarrow> game_db \<Rightarrow> nat \<times> game_db" where
  "mem_evict_stale_queue e keep g =
     (let stale = mem_stale e keep g in
      (length stale, g\<lparr>queue := fold AList.delete stale (queue g)\<rparr>))"

definition mem_is_actively_queued :: "time \<Rightarrow> uuid \<Rightarrow> game_db \<Rightarrow> bool" where
  "mem_is_actively_queued tm i g =
     (case map_of (queue g) i of
        None \<Rightarrow> False
      | Some enqueued_at \<Rightarrow> tm - matchmaking_queue_ttl_us get_game_config \<le> enqueued_at)"

section \<open>Cards and turns\<close>

definition mem_create_turn ::
  "env \<Rightarrow> uuid \<Rightarrow> uuid \<Rightarrow> uuid \<Rightarrow> uuid \<Rightarrow> (game_db, turn) act" where
  "mem_create_turn e pair_id sp gu card_id g =
     (let t = mk_turn (new_turn e) pair_id sp gu card_id (clock e At_turn)
      in (Inr t, put_turn t g))"

definition mem_live_cards :: "game_db \<Rightarrow> card list" where
  "mem_live_cards g =
     filter (\<lambda>c. verified c \<and> (case map_of (decks g) (c_deck_id c) of None \<Rightarrow> False | Some d \<Rightarrow> d_status d = Deck_live))
       (vals (cards g))"

definition mem_pick_card_for_pair :: "env \<Rightarrow> uuid \<Rightarrow> game_db \<Rightarrow> card option" where
  "mem_pick_card_for_pair e pair_id g =
     (let used = map t_card_id (filter (\<lambda>t. t_pair_id t = pair_id) (vals (turns g)));
          candidates = mem_live_cards g;
          unused = filter (\<lambda>c. c_id c \<notin> set used) candidates
      in if candidates = [] then None
         else Some (choice (rnd e) (if unused = [] then candidates else unused)))"

definition mem_get_turn :: "uuid \<Rightarrow> game_db \<Rightarrow> turn option" where
  "mem_get_turn i g = map_of (turns g) i"

definition mem_get_latest_turn :: "uuid \<Rightarrow> game_db \<Rightarrow> turn option" where
  "mem_get_latest_turn pair_id g =
     first_of (sort_desc (\<lambda>t. (t_status t \<noteq> Scored, t_created_at t, t_id t))
       (filter (\<lambda>t. t_pair_id t = pair_id) (vals (turns g))))"

definition mem_get_card :: "uuid \<Rightarrow> game_db \<Rightarrow> card option" where
  "mem_get_card i g = map_of (cards g) i"

definition mem_get_cards :: "uuid list \<Rightarrow> game_db \<Rightarrow> card list" where
  "mem_get_cards ids g = List.map_filter (\<lambda>i. map_of (cards g) i) ids"

section \<open>Matchmaking\<close>

definition mem_get_active_pair :: "uuid \<Rightarrow> game_db \<Rightarrow> pair option" where
  "mem_get_active_pair i g =
     first_of (sort_desc pr_created_at
       (filter (\<lambda>p. pr_status p = Active \<and> is_member i p) (vals (pairs g))))"

definition mem_previously_paired :: "uuid \<Rightarrow> uuid \<Rightarrow> game_db \<Rightarrow> bool" where
  "mem_previously_paired a b g \<longleftrightarrow> (\<exists>p \<in> set (vals (pairs g)). is_member a p \<and> is_member b p)"

text \<open>The loop over the queue; \<open>excl\<close> is the one candidate the caller excludes.\<close>

fun mem_has_alternate ::
  "env \<Rightarrow> game_db \<Rightarrow> uuid \<Rightarrow> player \<Rightarrow> uuid \<Rightarrow> uuid list \<Rightarrow> py_error + bool" where
  "mem_has_alternate e g i me excl [] = Inr False"
| "mem_has_alternate e g i me excl (other_id # rest) =
     (if other_id = i \<or> other_id = excl then mem_has_alternate e g i me excl rest
      else if \<not> mem_is_actively_queued (clock e (At_alternate excl other_id)) other_id g
      then mem_has_alternate e g i me excl rest
      else case map_of (players g) other_id of
          None \<Rightarrow> Inl KeyError
        | Some other \<Rightarrow>
            if native_lang other = native_lang me then mem_has_alternate e g i me excl rest
            else if shared_languages (speaks me) (speaks other) \<noteq> [] then Inr True
            else mem_has_alternate e g i me excl rest)"

text \<open>The candidate loop: the chosen partner and the languages shared with them.\<close>

fun mem_scan ::
  "env \<Rightarrow> game_db \<Rightarrow> uuid \<Rightarrow> player \<Rightarrow> uuid list \<Rightarrow> py_error + (uuid \<times> string list) option" where
  "mem_scan e g i me [] = Inr None"
| "mem_scan e g i me (other_id # rest) =
     (case map_of (players g) other_id of
        None \<Rightarrow> Inl KeyError
      | Some other \<Rightarrow>
          if native_lang other = native_lang me then mem_scan e g i me rest
          else let shared = shared_languages (speaks me) (speaks other) in
            if shared = [] then mem_scan e g i me rest
            else case (if mem_previously_paired i other_id g
                       then mem_has_alternate e g i me other_id (keys (queue g)) else Inr False) of
                Inl err \<Rightarrow> Inl err
              | Inr True \<Rightarrow> mem_scan e g i me rest
              | Inr False \<Rightarrow> Inr (Some (other_id, shared)))"

definition mem_candidates :: "env \<Rightarrow> uuid \<Rightarrow> game_db \<Rightarrow> uuid list" where
  "mem_candidates e i g =
     sort_key (\<lambda>j. the (map_of (queue g) j))
       (filter (\<lambda>j. j \<noteq> i \<and> mem_is_actively_queued (clock e (At_active j)) j g) (keys (queue g)))"

text \<open>
  What happens once a partner is chosen: the earlier enqueued player is \<open>player_a\<close> and speaks
  first, both leave the queue, and the first turn is created when a live card exists.
\<close>

definition mem_new_pair :: "env \<Rightarrow> uuid \<Rightarrow> uuid \<Rightarrow> string \<Rightarrow> game_db \<Rightarrow> pair" where
  "mem_new_pair e i other_id lang g =
     (let (a, b) = (if the (map_of (queue g) i) \<le> the (map_of (queue g) other_id)
                    then (i, other_id) else (other_id, i))
      in \<lparr> pr_id = new_pair e, player_a = a, player_b = b, common_lang = lang,
           pr_status = Active, pr_created_at = clock e At_pair \<rparr>)"

definition mem_open_pair :: "env \<Rightarrow> pair \<Rightarrow> uuid \<Rightarrow> uuid \<Rightarrow> game_db \<Rightarrow> game_db" where
  "mem_open_pair e p i other_id g =
     (let g' = put_pair p (g\<lparr>queue := AList.delete other_id (AList.delete i (queue g))\<rparr>)
      in case mem_pick_card_for_pair e (pr_id p) g' of
           None \<Rightarrow> g'
         | Some c \<Rightarrow>
             snd (mem_create_turn e (pr_id p) (player_a p) (player_b p) (c_id c) g'))"

definition mem_try_match :: "env \<Rightarrow> uuid \<Rightarrow> (game_db, pair option) act" where
  "mem_try_match e i g =
     (case mem_get_active_pair i g of
        Some p \<Rightarrow> (Inr (Some p), g)
      | None \<Rightarrow>
          (case map_of (players g) i of
             None \<Rightarrow> (Inl KeyError, g)
           | Some me \<Rightarrow>
               (let g1 = g\<lparr>queue := AList.update i (clock e At_heartbeat) (queue g)\<rparr>;
                    g2 = snd (mem_evict_stale_queue e (Some i) g1)
                in case mem_scan e g2 i me (mem_candidates e i g2) of
                     Inl err \<Rightarrow> (Inl err, g2)
                   | Inr None \<Rightarrow> (Inr None, g2)
                   | Inr (Some (other_id, shared)) \<Rightarrow>
                       (case pick_common_lang shared (preferred_common_lang get_game_config) of
                          Inl err \<Rightarrow> (Inl err, g2)
                        | Inr lang \<Rightarrow>
                            (let p = mem_new_pair e i other_id lang g2
                             in (Inr (Some p), mem_open_pair e p i other_id g2))))))"

section \<open>Turn transitions and jobs\<close>

definition mem_accept_audio :: "uuid \<Rightarrow> string \<Rightarrow> pyfloat \<Rightarrow> (game_db, turn) act" where
  "mem_accept_audio i path dur g =
     (case map_of (turns g) i of
        None \<Rightarrow> (Inl KeyError, g)
      | Some t \<Rightarrow>
          if t_status t \<noteq> Awaiting_audio then (Inl (ValueError ''turn not awaiting audio''), g)
          else let t' = t\<lparr>audio_path := Some path, duration_s := Some dur,
                           t_status := Awaiting_label_confirm\<rparr>
               in (Inr t', put_turn t' g))"

definition mem_enqueue_job :: "env \<Rightarrow> job_kind \<Rightarrow> uuid \<Rightarrow> (game_db, bool) act" where
  "mem_enqueue_job e kind i g =
     (if \<exists>j \<in> set (jobs g). j_kind j = kind \<and> j_turn_id j = i then (Inr False, g)
      else (Inr True, add_job
        \<lparr> j_id = new_job e, j_kind = kind, j_turn_id = i, j_status = Job_pending, tries = 0,
          last_error = None, j_created_at = clock e At_job, available_at = clock e At_job,
          claimed_at = None, completed_at = None \<rparr> g))"

definition mem_confirm_label :: "uuid \<Rightarrow> (game_db, turn) act" where
  "mem_confirm_label i g =
     (case map_of (turns g) i of
        None \<Rightarrow> (Inl KeyError, g)
      | Some t \<Rightarrow>
          if t_status t \<noteq> Awaiting_label_confirm
          then (Inl (ValueError ''turn not awaiting label confirm''), g)
          else let t' = t\<lparr>t_status := Awaiting_guess\<rparr> in (Inr t', put_turn t' g))"

definition mem_apply_guess :: "uuid \<Rightarrow> bool \<Rightarrow> (game_db, turn) act" where
  "mem_apply_guess i correct g =
     (case map_of (turns g) i of
        None \<Rightarrow> (Inl KeyError, g)
      | Some t \<Rightarrow>
          if t_status t \<noteq> Awaiting_guess then (Inl (ValueError ''turn not awaiting guess''), g)
          else let t1 = t\<lparr>attempts := attempts t + 1\<rparr> in
            if correct then
              let t2 = t1\<lparr>t_status := Scored, t_outcome := Validated\<rparr>
              in (Inr t2, bump_counter ''validated_pairs'' (put_turn t2 g))
            else if max_guess_attempts get_game_config \<le> attempts t1 then
              let t2 = t1\<lparr>t_status := Scored, t_outcome := Unclear\<rparr> in (Inr t2, put_turn t2 g)
            else (Inr t1, put_turn t1 g))"

definition mem_set_turn_quality :: "uuid \<Rightarrow> (string \<times> json) list \<Rightarrow> (game_db, turn) act" where
  "mem_set_turn_quality i q g =
     (case map_of (turns g) i of
        None \<Rightarrow> (Inl KeyError, g)
      | Some t \<Rightarrow> let t' = t\<lparr>quality := Some q\<rparr> in (Inr t', put_turn t' g))"

section \<open>Scores\<close>

definition mem_scores :: "game_db \<Rightarrow> (uuid, int) dict" where
  "mem_scores g =
     (let points = points_per_validation get_game_config;
          credit = (\<lambda>i m. AList.update i ((case map_of m i of None \<Rightarrow> 0 | Some s \<Rightarrow> s) + points) m)
      in fold (\<lambda>t m. if t_outcome t \<noteq> Validated then m
                     else credit (guesser_id t) (credit (speaker_id t) m))
           (vals (turns g)) (map (\<lambda>i. (i, 0)) (keys (players g))))"

definition mem_board_rows :: "game_db \<Rightarrow> py_error + leaderboard_row list" where
  "mem_board_rows g =
     (if \<forall>i \<in> set (keys (mem_scores g)). map_of (players g) i \<noteq> None
      then Inr (map (\<lambda>(i, s). \<lparr> lb_nickname = nickname (the (map_of (players g) i)), lb_score = s \<rparr>)
        (mem_scores g))
      else Inl KeyError)"

definition mem_leaderboard :: "nat \<Rightarrow> game_db \<Rightarrow> py_error + leaderboard_row list" where
  "mem_leaderboard limit g =
     (case mem_board_rows g of
        Inl err \<Rightarrow> Inl err
      | Inr rows \<Rightarrow> Inr (take limit (sort_key (\<lambda>r. (- lb_score r, lb_nickname r)) rows)))"

text \<open>\<open>enumerate(board, start=1)\<close> with \<open>break\<close>: the first row that shows the player's name and score.\<close>

fun mem_rank_from :: "nat \<Rightarrow> string \<Rightarrow> int \<Rightarrow> leaderboard_row list \<Rightarrow> nat option" where
  "mem_rank_from n name s [] = None"
| "mem_rank_from n name s (r # rows) =
     (if lb_nickname r = name \<and> lb_score r = s then Some n else mem_rank_from (n + 1) name s rows)"

definition mem_player_stats :: "uuid \<Rightarrow> game_db \<Rightarrow> py_error + player_stats" where
  "mem_player_stats i g =
     (let mine = filter (plays i) (vals (turns g));
          rounds = length (filter (\<lambda>t. t_status t = Scored) mine);
          validated = length (filter (\<lambda>t. t_outcome t = Validated) mine);
          total_score = int validated * points_per_validation get_game_config
      in case mem_leaderboard 10000 g of
           Inl err \<Rightarrow> Inl err
         | Inr board \<Rightarrow>
             (case map_of (players g) i of
                None \<Rightarrow> Inl KeyError
              | Some me \<Rightarrow> Inr \<lparr> score = total_score, rounds_played = rounds,
                  rank = mem_rank_from 1 (nickname me) total_score board \<rparr>))"

definition mem_complete_pair_if_capped :: "uuid \<Rightarrow> int \<Rightarrow> (game_db, bool) act" where
  "mem_complete_pair_if_capped pair_id rounds_cap g =
     (case map_of (pairs g) pair_id of
        None \<Rightarrow> (Inl KeyError, g)
      | Some p \<Rightarrow>
          (let completed = put_pair (p\<lparr>pr_status := Completed\<rparr>) g in
           case mem_player_stats (player_a p) g of
             Inl err \<Rightarrow> (Inl err, g)
           | Inr a \<Rightarrow>
               if rounds_cap \<le> int (rounds_played a) then (Inr True, completed)
               else (case mem_player_stats (player_b p) g of
                       Inl err \<Rightarrow> (Inl err, g)
                     | Inr b \<Rightarrow>
                         if rounds_cap \<le> int (rounds_played b) then (Inr True, completed)
                         else (Inr False, g))))"

section \<open>State bundle, metrics, seeding\<close>

definition mem_fetch_state_bundle :: "env \<Rightarrow> uuid \<Rightarrow> nat \<Rightarrow> game_db \<Rightarrow> py_error + state_bundle" where
  "mem_fetch_state_bundle e i limit g =
     (case map_of (players g) i of
        None \<Rightarrow> Inl KeyError
      | Some me \<Rightarrow>
          (let bundle = (\<lambda>pr partner t c prev labels.
                 case mem_player_stats i g of
                   Inl err \<Rightarrow> Inl err
                 | Inr stats \<Rightarrow>
                     (case mem_leaderboard limit g of
                        Inl err \<Rightarrow> Inl err
                      | Inr board \<Rightarrow> Inr
                          \<lparr> b_player = me,
                            b_queued = mem_is_actively_queued (clock e At_bundle) i g,
                            b_pair = pr, b_partner = partner, b_turn = t, b_card = c,
                            b_previous_scored = prev, b_stats = stats,
                            b_leaderboard_top = board, b_decoy_labels = labels \<rparr>))
           in case mem_get_active_pair i g of
                None \<Rightarrow> bundle None None None None None []
              | Some p \<Rightarrow>
                  (case map_of (players g) (if player_a p = i then player_b p else player_a p) of
                     None \<Rightarrow> Inl KeyError
                   | Some partner \<Rightarrow>
                       (let t = mem_get_latest_turn (pr_id p) g;
                            c = (case t of None \<Rightarrow> None | Some t' \<Rightarrow> mem_get_card (t_card_id t') g);
                            labels = (case c of
                                None \<Rightarrow> []
                              | Some c' \<Rightarrow> fold (\<lambda>d m. AList.update (c_id d)
                                    (label_of_dict (label_common d) (common_lang p)) m)
                                  (mem_get_cards (decoys c') g) []);
                            prev = first_of (sort_desc (\<lambda>u. (t_created_at u, t_id u))
                              (filter (\<lambda>u. t_pair_id u = pr_id p \<and> t_status u = Scored)
                                (vals (turns g))))
                        in bundle (Some p) (Some partner) t c prev labels))))"

definition mem_metrics :: "game_db \<Rightarrow> metrics_snapshot" where
  "mem_metrics g =
     (let spoken = concat (map (\<lambda>p. native_lang p # common_langs p) (vals (players g))) in
      \<lparr> validated_pairs = int (length (filter (\<lambda>t. t_outcome t = Validated) (vals (turns g)))),
        training_eligible_pairs = counter ''training_eligible_pairs'' g,
        language_count = length (remdups spoken),
        languages = sort (remdups spoken),
        cost_per_validated_sample_usd = None,
        gauntlet_pass_rate = None,
        deck_images_per_minute = None,
        deck_cost_per_image_usd = None \<rparr>)"

definition mem_count_jobs :: "job_kind \<Rightarrow> uuid \<Rightarrow> game_db \<Rightarrow> nat" where
  "mem_count_jobs kind i g = length (filter (\<lambda>j. j_kind j = kind \<and> j_turn_id j = i) (jobs g))"

text \<open>
  \<open>seed_deck\<close>: one raw card is its image path, its label object and its decoys, if it names any.
  The fresh identifiers are the deck's and one per card.
\<close>

definition mem_seed_deck ::
  "uuid \<Rightarrow> uuid list \<Rightarrow> string \<Rightarrow> (string \<times> (string \<times> json) list \<times> uuid list option) list
     \<Rightarrow> game_db \<Rightarrow> uuid \<times> game_db" where
  "mem_seed_deck deck_id created region raws g =
     (let card_of = (\<lambda>(card_id, (path, label, ds)).
            \<lparr> c_id = card_id, c_deck_id = deck_id, image_path = path, label_common = label,
              decoys = (case ds of
                  None \<Rightarrow> take 5 (filter (\<lambda>i. i \<noteq> card_id) created)
                | Some given \<Rightarrow> given),
              verified = True \<rparr>);
          new_deck = \<lparr> d_id = deck_id, region_tag = region, d_status = Deck_live \<rparr>
      in (deck_id,
          g\<lparr>decks := AList.update deck_id new_deck (decks g),
            cards := fold (\<lambda>raw m. AList.update (fst raw) (card_of raw) m) (zip created raws)
              (cards g)\<rparr>))"

end
