(* ===== verification/Memory_Laws.thy ===== *)
theory Memory_Laws
  imports Memory_Store Store_Interface
begin

text \<open>
  The in-memory store keeps the promises of the protocol: its operations read the tables the
  reference definitions read, never raise on well-formed tables, and instantiate the locale
  \<open>game_store\<close> with Python's \<open>casefold\<close> as the folding of display names.
\<close>

section \<open>Players and queue\<close>

lemma mem_create_player_spec:
  assumes inv: "game_inv casefold g" and r: "mem_create_player e n nl com h g = (r, g')"
  shows "(\<exists>err. r = Inl err \<and> g' = g) \<or>
         (\<exists>p. r = Inr p \<and> g' = put_player p g \<and> p_id p = new_player e \<and> session_token_hash p = h \<and>
            native_lang p = nl \<and> common_langs p = com \<and>
            1 \<le> length (nickname p) \<and> length (nickname p) \<le> NICKNAME_MAX_LEN \<and>
            (\<forall>i q. map_of (players g) i = Some q \<longrightarrow> casefold (nickname q) \<noteq> casefold (nickname p)))"
proof (cases "next_free_nickname n (mem_nickname_taken g) (nickname_alloc_max_attempts get_game_config)")
  case (Inl err)
  then show ?thesis using r by (auto simp: mem_create_player_def)
next
  case (Inr c)
  have free: "\<not> mem_nickname_taken g c" and c: "\<exists>i. c = allocate_nickname_candidate n i"
    using next_free_nickname_Inr [OF Inr] by auto
  have "casefold (nickname q) \<noteq> casefold c" if "map_of (players g) i = Some q" for i q
    using free in_valsI [OF that] unfolding mem_nickname_taken_def by blast
  then show ?thesis
    using r Inr c candidate_bounds by (auto simp: mem_create_player_def Let_def)
qed

lemma keys_fold_delete: "set (keys (fold AList.delete xs m)) = set (keys m) - set xs"
proof (induction xs arbitrary: m)
  case (Cons x xs)
  then show ?case using set_keys_delete [of x m] by auto
qed simp

lemma map_of_fold_delete:
  "map_of (fold AList.delete xs m) = (map_of m) |` (- set xs)"
  by (induction xs arbitrary: m) (auto simp: restrict_map_def fun_eq_iff)

lemma distinct_fold_delete: "distinct (keys m) \<Longrightarrow> distinct (keys (fold AList.delete xs m))"
  by (induction xs arbitrary: m) auto

lemma mem_stale_not_kept: "i \<notin> set (mem_stale e (Some i) g)"
  by (auto simp: mem_stale_def Let_def)

lemma evict_simps [simp]:
  "players (snd (mem_evict_stale_queue e keep g)) = players g"
  "pairs (snd (mem_evict_stale_queue e keep g)) = pairs g"
  "queue (snd (mem_evict_stale_queue e keep g)) = fold AList.delete (mem_stale e keep g) (queue g)"
  by (simp_all add: mem_evict_stale_queue_def Let_def)

section \<open>Pairs and turns\<close>

lemma mem_active_pair_Some:
  assumes "game_inv nf g" and "mem_get_active_pair i g = Some p"
  shows "map_of (pairs g) (pr_id p) = Some p \<and> pr_status p = Active \<and> is_member i p"
  using first_of_in [OF assms(2) [unfolded mem_get_active_pair_def]] inv_pair_vals [OF assms(1)]
  by auto

lemma mem_active_pair_None:
  assumes "game_inv nf g"
  shows "mem_get_active_pair i g = None \<longleftrightarrow> \<not> in_active g i"
  using ball_vals [OF keyed_distinct [OF inv_keyed(2) [OF assms]],
      of "\<lambda>p. pr_status p = Active \<longrightarrow> \<not> is_member i p"]
  by (auto simp: mem_get_active_pair_def in_active_def filter_empty_conv)

lemma mem_latest_turn_Some:
  assumes "game_inv nf g" and "mem_get_latest_turn k g = Some t"
  shows "map_of (turns g) (t_id t) = Some t \<and> t_pair_id t = k"
  using first_of_in [OF assms(2) [unfolded mem_get_latest_turn_def]] inv_turn_vals [OF assms(1)]
  by auto

lemma mem_latest_turn_None:
  assumes "game_inv nf g"
  shows "mem_get_latest_turn k g = None \<longleftrightarrow> (\<forall>i t. map_of (turns g) i = Some t \<longrightarrow> t_pair_id t \<noteq> k)"
  using ball_vals [OF keyed_distinct [OF inv_keyed(4) [OF assms]], of "\<lambda>t. t_pair_id t \<noteq> k"]
  by (auto simp: mem_get_latest_turn_def filter_empty_conv)

lemma mem_latest_turn_open:
  assumes inv: "game_inv nf g" and t: "map_of (turns g) i = Some t" and op: "is_open t"
  shows "mem_get_latest_turn (t_pair_id t) g = Some t"
proof (cases "mem_get_latest_turn (t_pair_id t) g")
  case None
  then show ?thesis using mem_latest_turn_None [OF inv] t by auto
next
  case (Some u)
  note u = mem_latest_turn_Some [OF inv Some]
  have "t \<in> set (filter (\<lambda>v. t_pair_id v = t_pair_id t) (vals (turns g)))"
    using in_valsI [OF t] by simp
  from first_sort_desc_max [OF Some [unfolded mem_get_latest_turn_def] this]
  have "is_open u" using op by (auto simp: is_open_def less_eq_prod_def)
  then have "i = t_id u"
    using game_invD(5) [OF inv] t u op unfolding one_open_def by metis
  then show ?thesis using t u Some by simp
qed

lemma mem_live_cards_eq [simp]: "mem_live_cards g = live_cards g"
  by (simp add: mem_live_cards_def live_cards_def)

lemma mem_pick_card_None: "mem_pick_card_for_pair e k g = None \<longleftrightarrow> live_cards g = []"
  by (simp add: mem_pick_card_for_pair_def Let_def)

lemma mem_pick_card_Some:
  assumes "mem_pick_card_for_pair e k g = Some c"
  shows "c \<in> set (live_cards g) \<and>
    ((\<exists>c' \<in> set (live_cards g). \<forall>t \<in> set (vals (turns g)). t_pair_id t = k \<longrightarrow> t_card_id t \<noteq> c_id c')
      \<longrightarrow> (\<forall>t \<in> set (vals (turns g)). t_pair_id t = k \<longrightarrow> t_card_id t \<noteq> c_id c))"
proof -
  let ?used = "set (map t_card_id (filter (\<lambda>t. t_pair_id t = k) (vals (turns g))))"
  let ?unused = "filter (\<lambda>c. c_id c \<notin> ?used) (live_cards g)"
  have c: "c = choice (rnd e) (if ?unused = [] then live_cards g else ?unused)" "live_cards g \<noteq> []"
    using assms by (auto simp: mem_pick_card_for_pair_def Let_def split: if_splits)
  show ?thesis
  proof (cases "?unused = []")
    case True
    then show ?thesis using c choice_in [OF c(2)] by (fastforce simp: filter_empty_conv)
  next
    case False
    then have "c \<in> set ?unused" using c(1) choice_in [OF False, of "rnd e"] by (simp only: if_False)
    then have "c \<in> set (live_cards g)" and "c_id c \<notin> ?used" by auto
    moreover have "\<forall>t \<in> set (vals (turns g)). t_pair_id t = k \<longrightarrow> t_card_id t \<noteq> c_id c"
    proof (intro ballI impI notI)
      fix t assume "t \<in> set (vals (turns g))" "t_pair_id t = k" "t_card_id t = c_id c"
      then have "t \<in> set (filter (\<lambda>t. t_pair_id t = k) (vals (turns g)))" by simp
      then have "c_id c \<in> ?used" using \<open>t_card_id t = c_id c\<close> by (metis image_eqI list.set_map)
      then show False using \<open>c_id c \<notin> ?used\<close> by blast
    qed
    ultimately show ?thesis by blast
  qed
qed

section \<open>Matchmaking\<close>

lemma queued_player:
  "set (keys q) \<subseteq> dom f \<Longrightarrow> map_of q j = Some x \<Longrightarrow> \<exists>y. f j = Some y"
  by (drule in_keys) auto

lemma mem_has_alternate_total:
  assumes "set (keys (queue g)) \<subseteq> dom (map_of (players g))"
  shows "\<exists>b. mem_has_alternate e g i me excl others = Inr b"
  using assms
proof (induction others)
  case (Cons other_id rest)
  have "mem_is_actively_queued (clock e (At_alternate excl other_id)) other_id g \<Longrightarrow>
      map_of (players g) other_id \<noteq> None"
    using queued_player [OF Cons.prems] by (fastforce simp: mem_is_actively_queued_def split: option.splits)
  then show ?case using Cons by (auto split: option.splits)
qed auto

lemma mem_scan_total:
  assumes "set (keys (queue g)) \<subseteq> dom (map_of (players g))" and "set others \<subseteq> dom (map_of (players g))"
  shows "\<exists>b. mem_scan e g i me others = Inr b"
  using assms(2)
proof (induction others)
  case (Cons other_id rest)
  then obtain b where "mem_scan e g i me rest = Inr b" by auto
  then show ?case
    using Cons.prems mem_has_alternate_total [OF assms(1), of e i me other_id "keys (queue g)"]
    by (auto simp: Let_def split: option.splits sum.splits bool.splits)
qed simp

lemma mem_scan_Some:
  "mem_scan e g i me others = Inr (Some (j, shared)) \<Longrightarrow>
     j \<in> set others \<and> (\<exists>other. map_of (players g) j = Some other \<and> compatible me other \<and>
       shared = shared_languages (speaks me) (speaks other))"
proof (induction others)
  case (Cons other_id rest)
  then show ?case
    by (auto simp: Let_def compatible_def split: option.splits sum.splits bool.splits if_splits)
qed simp


lemma mem_candidates_set:
  "set (mem_candidates e i g) \<subseteq> set (keys (queue g)) - {i}"
  by (auto simp: mem_candidates_def)

lemma mem_new_pair_simps [simp]:
  "pr_id (mem_new_pair e i j lang g) = new_pair e" "pr_status (mem_new_pair e i j lang g) = Active"
  "common_lang (mem_new_pair e i j lang g) = lang"
  by (simp_all add: mem_new_pair_def Let_def split: prod.splits)

lemma mem_new_pair_players:
  "player_a (mem_new_pair e i j lang g) = i \<and> player_b (mem_new_pair e i j lang g) = j
   \<or> player_a (mem_new_pair e i j lang g) = j \<and> player_b (mem_new_pair e i j lang g) = i"
  by (simp add: mem_new_pair_def)

lemma mem_open_pair_first_turn:
  "first_turn e p (put_pair p (g\<lparr>queue := AList.delete j (AList.delete i (queue g))\<rparr>))
     (mem_open_pair e p i j g)"
proof -
  let ?h = "put_pair p (g\<lparr>queue := AList.delete j (AList.delete i (queue g))\<rparr>)"
  show ?thesis
  proof (cases "mem_pick_card_for_pair e (pr_id p) ?h")
    case None
    then show ?thesis using mem_pick_card_None [of e "pr_id p" ?h]
      by (simp add: first_turn_def mem_open_pair_def)
  next
    case (Some c)
    then have "c \<in> set (live_cards ?h)" using mem_pick_card_Some by blast
    then show ?thesis using Some
      by (auto simp: first_turn_def mem_open_pair_def mem_create_turn_def Let_def)
  qed
qed

text \<open>The queue the scan reads: the requester refreshed, stale waiters gone.\<close>

definition mem_match_queue :: "env \<Rightarrow> uuid \<Rightarrow> game_db \<Rightarrow> (uuid, time) dict" where
  "mem_match_queue e i g =
     queue (snd (mem_evict_stale_queue e (Some i)
       (g\<lparr>queue := AList.update i (clock e At_heartbeat) (queue g)\<rparr>)))"

lemma mem_match_queue_keys:
  "i \<in> set (keys (mem_match_queue e i g))"
  "set (keys (mem_match_queue e i g)) \<subseteq> insert i (set (keys (queue g)))"
  "distinct (keys (queue g)) \<Longrightarrow> distinct (keys (mem_match_queue e i g))"
proof -
  let ?q = "AList.update i (clock e At_heartbeat) (queue g)"
  have k: "set (keys (mem_match_queue e i g))
      = set (keys ?q) - set (mem_stale e (Some i) (g\<lparr>queue := ?q\<rparr>))"
    by (simp only: mem_match_queue_def evict_simps keys_fold_delete) simp
  have u: "set (keys ?q) = insert i (set (keys (queue g)))" by (rule keys_update_set)
  show "i \<in> set (keys (mem_match_queue e i g))"
    unfolding k u using mem_stale_not_kept [of i e] by blast
  show "set (keys (mem_match_queue e i g)) \<subseteq> insert i (set (keys (queue g)))"
    unfolding k u by blast
  show "distinct (keys (queue g)) \<Longrightarrow> distinct (keys (mem_match_queue e i g))"
    by (simp add: mem_match_queue_def distinct_fold_delete)
qed

lemma mem_try_match_spec:
  assumes inv: "game_inv nf g" and m: "matching_ok g" and i: "map_of (players g) i \<noteq> None"
    and run: "mem_try_match e i g = (r, g')"
  shows "match_step e i g r g'"
proof (cases "mem_get_active_pair i g")
  case (Some p)
  then show ?thesis using run mem_active_pair_Some [OF inv Some]
    by (auto simp: mem_try_match_def match_step_def)
next
  case None
  then have idle: "\<not> in_active g i" using mem_active_pair_None [OF inv] by simp
  obtain me where me: "map_of (players g) i = Some me" using i by auto
  define q where "q = mem_match_queue e i g"
  define h where "h = g\<lparr>queue := q\<rparr>"
  have h: "h = snd (mem_evict_stale_queue e (Some i)
        (g\<lparr>queue := AList.update i (clock e At_heartbeat) (queue g)\<rparr>))"
    by (simp add: h_def q_def mem_match_queue_def mem_evict_stale_queue_def Let_def)
  note keys = mem_match_queue_keys [where e = e and i = i and g = g, folded q_def]
  have dq: "distinct (keys q)" using keys(3) inv_keyed(5) [OF inv] by blast
  have qp: "set (keys (queue h)) \<subseteq> dom (map_of (players h))"
  proof
    fix x assume "x \<in> set (keys (queue h))"
    then have "x = i \<or> x \<in> set (keys (queue g))" using keys(2) unfolding h_def by auto
    then show "x \<in> dom (map_of (players h))" using m me unfolding h_def matching_ok_def by auto
  qed
  have cand: "set (mem_candidates e i h) \<subseteq> set (keys q) - {i}"
    using mem_candidates_set [of e i h] by (simp add: h_def)
  have run': "(r, g') = (case mem_scan e h i me (mem_candidates e i h) of
        Inl err \<Rightarrow> (Inl err, h) | Inr None \<Rightarrow> (Inr None, h)
      | Inr (Some (j, shared)) \<Rightarrow>
          (case pick_common_lang shared (preferred_common_lang get_game_config) of
             Inl err \<Rightarrow> (Inl err, h)
           | Inr lang \<Rightarrow> (let p = mem_new_pair e i j lang h
                          in (Inr (Some p), mem_open_pair e p i j h))))"
    using run None me by (simp only: mem_try_match_def h Let_def option.case)
  obtain b where b: "mem_scan e h i me (mem_candidates e i h) = Inr b"
    using mem_scan_total [OF qp, of "mem_candidates e i h"] cand qp unfolding h_def by fastforce
  show ?thesis
  proof (cases b)
    case None
    then have "r = Inr None \<and> g' = g\<lparr>queue := q\<rparr>" using run' b by (simp add: h_def)
    then show ?thesis using keys dq idle unfolding match_step_def by blast
  next
    case (Some c)
    obtain j shared where js: "c = (j, shared)" by (cases c)
    from mem_scan_Some [of e h i me _ j shared] b Some js obtain other where
      j: "j \<in> set (mem_candidates e i h)" and other: "map_of (players g) j = Some other"
        "compatible me other" "shared = shared_languages (speaks me) (speaks other)"
      by (auto simp: h_def)
    have "shared \<noteq> []" using other by (simp add: compatible_def)
    then obtain lang where lang: "lang \<in> set shared"
        "pick_common_lang shared (preferred_common_lang get_game_config) = Inr lang"
      using pick_common_lang_cases by blast
    define p where "p = mem_new_pair e i j lang h"
    have rg: "r = Inr (Some p)" "g' = mem_open_pair e p i j h"
      using run' b Some js lang by (simp_all add: p_def Let_def)
    have ij: "i \<noteq> j" "j \<in> set (keys q)" using j cand by auto
    let ?q = "AList.delete j (AList.delete i q)"
    have "pair_ok g p"
      using mem_new_pair_players [of e i j lang h] me other lang(1) compatible_sym
      by (auto simp: pair_ok_def p_def)
    then have "new_match e i j p ?q g"
      using ij keys(2) idle dq mem_new_pair_players [of e i j lang h]
      by (auto simp: new_match_def p_def set_keys_delete simp del: set_map)
    moreover have "first_turn e p (put_pair p (g\<lparr>queue := ?q\<rparr>)) g'"
      using mem_open_pair_first_turn [where e = e and p = p and g = h and i = i and j = j] rg by (simp add: h_def)
    ultimately show ?thesis using rg unfolding match_step_def by blast
  qed
qed

section \<open>Scores\<close>

text \<open>What one turn adds to a player's score, and the sum over a list of turns.\<close>

definition turn_points :: "uuid \<Rightarrow> turn \<Rightarrow> int" where
  "turn_points i t =
     (if t_outcome t = Validated then
        (if i = speaker_id t then points_per_validation get_game_config else 0)
        + (if i = guesser_id t then points_per_validation get_game_config else 0)
      else 0)"

definition credit_turn :: "turn \<Rightarrow> (uuid, int) dict \<Rightarrow> (uuid, int) dict" where
  "credit_turn t m =
     (let credit = (\<lambda>i m. AList.update i ((case map_of m i of None \<Rightarrow> 0 | Some s \<Rightarrow> s)
            + points_per_validation get_game_config) m)
      in if t_outcome t \<noteq> Validated then m else credit (guesser_id t) (credit (speaker_id t) m))"

lemma mem_scores_alt:
  "mem_scores g = fold credit_turn (vals (turns g)) (map (\<lambda>i. (i, 0)) (keys (players g)))"
  unfolding mem_scores_def credit_turn_def Let_def by (rule refl)

lemma keys_credit_turn:
  assumes "{speaker_id t, guesser_id t} \<subseteq> set (keys m)"
  shows "keys (credit_turn t m) = keys m"
proof -
  have upd: "keys (AList.update k v n) = keys n" if "k \<in> set (keys n)" for k v and n :: "(uuid, int) dict"
  proof -
    obtain u where "map_of n k = Some u" using \<open>k \<in> set (keys n)\<close> by (metis map_of_eq_None_iff option.exhaust set_map)
    then show ?thesis by (rule keys_update_old)
  qed
  show ?thesis using assms by (simp add: credit_turn_def Let_def upd del: set_map)
qed

lemma map_of_credit_turn:
  "i \<in> dom (map_of m) \<Longrightarrow> map_of (credit_turn t m) i = Some (the (map_of m i) + turn_points i t)"
  by (auto simp: credit_turn_def turn_points_def Let_def)

lemma fold_credit_turn:
  assumes "\<forall>t \<in> set ts. {speaker_id t, guesser_id t} \<subseteq> set (keys m)"
  shows "keys (fold credit_turn ts m) = keys m \<and>
    (i \<in> set (keys m) \<longrightarrow>
       map_of (fold credit_turn ts m) i = Some (the (map_of m i) + (\<Sum>t\<leftarrow>ts. turn_points i t)))"
  using assms
proof (induction ts arbitrary: m)
  case Nil
  then show ?case by (auto simp: dom_map_of_conv_image_fst dest: in_keys)
      (metis domD dom_map_of_conv_image_fst fst_conv image_eqI option.sel)
next
  case (Cons t ts)
  have k: "keys (credit_turn t m) = keys m" using Cons.prems by (intro keys_credit_turn) simp
  have "i \<in> set (keys m) \<Longrightarrow> map_of (credit_turn t m) i = Some (the (map_of m i) + turn_points i t)"
    by (rule map_of_credit_turn) (simp add: dom_map_of_conv_image_fst)
  then show ?case using Cons.IH [of "credit_turn t m"] Cons.prems k
    by (simp del: set_map)
qed

lemma sum_turn_points:
  assumes "\<forall>t \<in> set ts. speaker_id t \<noteq> guesser_id t"
  shows "(\<Sum>t\<leftarrow>ts. turn_points i t) =
    points_per_validation get_game_config * int (length (filter (\<lambda>t. plays i t \<and> t_outcome t = Validated) ts))"
  using assms by (induction ts) (auto simp: turn_points_def plays_def)

lemma inv_turn_players:
  assumes "game_inv nf g" and "t \<in> set (vals (turns g))"
  shows "{speaker_id t, guesser_id t} \<subseteq> set (keys (players g))" and "speaker_id t \<noteq> guesser_id t"
proof -
  have t: "map_of (turns g) (t_id t) = Some t" using assms inv_turn_vals by blast
  then obtain p where p: "map_of (pairs g) (t_pair_id t) = Some p" "roles_ok p t"
    using inv_turn(3) [OF assms(1)] by blast
  have "pair_ok g p" using inv_pair(1) [OF assms(1) p(1)] .
  then show "{speaker_id t, guesser_id t} \<subseteq> set (keys (players g))"
    using p(2) by (auto simp: pair_ok_def roles_ok_def dest: in_keys)
  show "speaker_id t \<noteq> guesser_id t" using inv_turn_roles [OF assms(1) t] .
qed

lemma map_of_const: "i \<in> set ks \<Longrightarrow> map_of (map (\<lambda>i. (i, v)) ks) i = Some v"
  by (induction ks) auto

lemma dict_from_keys: "distinct (keys m) \<Longrightarrow> m = map (\<lambda>k. (k, the (map_of m k))) (keys m)"
proof (induction m)
  case (Cons kv m)
  let ?F = "\<lambda>k. (k, the (map_of (kv # m) k))"
  have d: "distinct (keys m)" "fst kv \<notin> set (keys m)" using Cons.prems by simp_all
  have "map ?F (keys m) = map (\<lambda>k. (k, the (map_of m k))) (keys m)"
    using d(2) by (intro map_cong refl) (auto simp del: set_map)
  also have "\<dots> = m" using Cons.IH [OF d(1)] by (rule sym)
  finally show ?case by (simp only: list.map) (simp del: map_map)
qed simp

lemma mem_scores_spec:
  assumes inv: "game_inv nf g"
  shows "keys (mem_scores g) = keys (players g)"
    and "i \<in> set (keys (players g)) \<Longrightarrow> map_of (mem_scores g) i = Some (points_of i g)"
proof -
  let ?m = "map (\<lambda>i. (i, 0 :: int)) (keys (players g))"
  have k: "keys ?m = keys (players g)" by (simp add: comp_def)
  have z: "i \<in> set (keys (players g)) \<Longrightarrow> map_of ?m i = Some 0" by (rule map_of_const)
  have all: "\<forall>t \<in> set (vals (turns g)). {speaker_id t, guesser_id t} \<subseteq> set (keys ?m)"
    using inv_turn_players(1) [OF inv] unfolding k by blast
  note f = fold_credit_turn [OF all, folded mem_scores_alt, unfolded k]
  show "keys (mem_scores g) = keys (players g)" using f by blast
  assume i: "i \<in> set (keys (players g))"
  have "(\<Sum>t\<leftarrow>vals (turns g). turn_points i t) = points_of i g"
    unfolding points_of_def validated_of_def
    by (rule sum_turn_points) (use inv_turn_players(2) [OF inv] in blast)
  then show "map_of (mem_scores g) i = Some (points_of i g)" using f i z by (simp del: set_map)
qed

lemma mem_board_rows_spec:
  assumes inv: "game_inv nf g"
  shows "mem_board_rows g = Inr (board_rows g)"
proof -
  note sc = mem_scores_spec [OF inv]
  have d: "distinct (keys (players g))" using inv_keyed(1) [OF inv] by (rule keyed_distinct)
  have "mem_scores g = map (\<lambda>k. (k, the (map_of (mem_scores g) k))) (keys (players g))"
    using dict_from_keys [of "mem_scores g"] d sc(1) by simp
  also have "\<dots> = map (\<lambda>k. (k, points_of k g)) (keys (players g))"
    using sc(2) by (intro map_cong refl) simp
  finally have eq: "mem_scores g = map (\<lambda>k. (k, points_of k g)) (keys (players g))" .
  have row: "map_of (players g) i = Some p \<and> p_id p = i" if "(i, p) \<in> set (players g)" for i p
    using map_of_is_SomeI [OF d that] keyed_key [OF inv_keyed(1) [OF inv]] by blast
  have all: "\<forall>i \<in> set (keys (players g)). map_of (players g) i \<noteq> None" using row by force
  have "map (\<lambda>(i, s). \<lparr> lb_nickname = nickname (the (map_of (players g) i)), lb_score = s \<rparr>) (mem_scores g)
      = board_rows g"
    unfolding eq board_rows_def map_map by (intro map_cong refl) (use row in force)
  moreover have "\<forall>i \<in> set (keys (mem_scores g)). map_of (players g) i \<noteq> None"
    unfolding sc(1) by (rule all)
  ultimately show ?thesis by (simp only: mem_board_rows_def if_P)
qed

lemma mem_leaderboard_spec:
  assumes inv: "game_inv nf g"
  shows "\<exists>rows. mem_leaderboard limit g = Inr rows \<and>
    length rows = min limit (length (players g)) \<and> set rows \<subseteq> set (board_rows g) \<and>
    sorted (map (\<lambda>r. - lb_score r) rows) \<and>
    (\<forall>r \<in> set (board_rows g). r \<notin> set rows \<longrightarrow> (\<forall>s \<in> set rows. lb_score r \<le> lb_score s))"
  using take_board_spec [where f = "\<lambda>r. (- lb_score r, lb_nickname r)" and g = g and limit = limit] mem_board_rows_spec [OF inv]
  by (simp add: mem_leaderboard_def)

lemma mem_player_stats_spec:
  assumes inv: "game_inv nf g" and i: "map_of (players g) i \<noteq> None"
  shows "\<exists>st. mem_player_stats i g = Inr st \<and> rounds_played st = rounds_of i g \<and> score st = points_of i g"
proof -
  obtain rows where "mem_leaderboard 10000 g = Inr rows" using mem_leaderboard_spec [OF inv] by blast
  moreover obtain me where "map_of (players g) i = Some me" using i by blast
  ultimately show ?thesis
    by (simp add: mem_player_stats_def Let_def rounds_of_def points_of_def validated_of_def)
qed

lemma mem_complete_pair_spec:
  assumes inv: "game_inv nf g" and p: "map_of (pairs g) k = Some p"
  shows "mem_complete_pair_if_capped k cap g =
    (Inr (capped cap p g), if capped cap p g then put_pair (p\<lparr>pr_status := Completed\<rparr>) g else g)"
proof -
  have "pair_ok g p" using inv_pair(1) [OF inv p] .
  then obtain a b where "map_of (players g) (player_a p) = Some a" "map_of (players g) (player_b p) = Some b"
    by (auto simp: pair_ok_def)
  then show ?thesis
    using p mem_player_stats_spec [OF inv, of "player_a p"] mem_player_stats_spec [OF inv, of "player_b p"]
    by (auto simp: mem_complete_pair_if_capped_def capped_def Let_def)
qed

section \<open>The contract\<close>

definition memory_ops :: store_ops where
  "memory_ops = \<lparr>
     op_create_player = mem_create_player,
     op_player_by_token_hash = mem_get_player_by_token_hash,
     op_enqueue_player = mem_enqueue_player,
     op_try_match = mem_try_match,
     op_get_active_pair = mem_get_active_pair,
     op_create_turn = mem_create_turn,
     op_pick_card_for_pair = mem_pick_card_for_pair,
     op_get_turn = mem_get_turn,
     op_get_latest_turn = mem_get_latest_turn,
     op_accept_audio = mem_accept_audio,
     op_enqueue_job = mem_enqueue_job,
     op_confirm_label = mem_confirm_label,
     op_apply_guess = mem_apply_guess,
     op_complete_pair_if_capped = mem_complete_pair_if_capped,
     op_fetch_state_bundle = mem_fetch_state_bundle,
     op_player_stats = mem_player_stats,
     op_leaderboard = mem_leaderboard \<rparr>"

interpretation mem: game_store memory_ops casefold "\<lambda>d. d"
proof (unfold_locales, unfold memory_ops_def store_ops.simps, goal_cases)
  case (1 g e n nl com h r g')
  then show ?case using mem_create_player_spec [OF 1(1,3)] by blast
next
  case 2 then show ?case using inv_token
    by (fastforce simp: mem_get_player_by_token_hash_def split: option.splits)
next
  case 3 show ?case by (simp add: mem_enqueue_player_def)
next
  case 4 then show ?case by (intro mem_try_match_spec)
next
  case 5 then show ?case by (rule mem_active_pair_Some)
next
  case 6 then show ?case by (rule mem_active_pair_None)
next
  case 7 show ?case by (simp add: mem_create_turn_def Let_def)
next
  case 8 show ?case by (rule mem_pick_card_None)
next
  case 9 then show ?case by (rule mem_pick_card_Some)
next
  case 10 show ?case by (simp add: mem_get_turn_def)
next
  case 11 then show ?case by (rule mem_latest_turn_Some)
next
  case 12 then show ?case by (rule mem_latest_turn_open)
next
  case 13 then show ?case by (rule mem_latest_turn_None)
next
  case 14 then show ?case by (simp add: mem_accept_audio_def take_audio_def Let_def)
next
  case 15 then show ?case by (simp add: mem_confirm_label_def Let_def)
next
  case 16 then show ?case by (simp add: mem_apply_guess_def take_guess_def guess_db_def Let_def)
next
  case 17 then show ?case by (auto simp: mem_enqueue_job_def)
next
  case 18 then show ?case by (auto simp: mem_enqueue_job_def)
next
  case 19 then show ?case by (intro mem_complete_pair_spec)
next
  case 20 then show ?case by (rule mem_player_stats_spec)
next
  case 21 then show ?case by (rule mem_leaderboard_spec)
qed

end
