(* ===== verification/Pg_Store.thy ===== *)
theory Pg_Store
  imports Store_Interface
begin

text \<open>
  \<open>PostgresGameStore\<close> (\<open>app/game/pg_store.py\<close>), one definition per method over the same tables.
  A statement reads and writes the rows its \<open>WHERE\<close> clause selects; a transaction that raises
  leaves the tables as they were.  \<open>lower\<close> and the collation of \<open>ORDER BY nickname\<close> are the
  database's and stay arguments, like the rounding of a \<open>NUMERIC(5,2)\<close> column.  Rows locked by
  concurrent transactions are those \<open>locked\<close> holds of.
\<close>

section \<open>Players\<close>

text \<open>\<open>normalize_common_langs\<close> of a JSON array of strings, as \<open>_parse_player\<close> applies it.\<close>

definition pg_parse_player :: "player \<Rightarrow> player" where
  "pg_parse_player p = p\<lparr>common_langs := dedup_strip [] (common_langs p)\<rparr>"

definition nickname_unique_index :: string where
  "nickname_unique_index = ''players_nickname_lower_uidx''"

text \<open>One \<open>INSERT INTO players\<close>: the violated constraint, or the new row.\<close>

definition pg_insert_player ::
  "(string \<Rightarrow> string) \<Rightarrow> env \<Rightarrow> string \<Rightarrow> string \<Rightarrow> string list \<Rightarrow> string \<Rightarrow> game_db
     \<Rightarrow> string + player" where
  "pg_insert_player lower e nick native common token_hash g =
     (if length nick < 1 \<or> NICKNAME_MAX_LEN < length nick then Inl ''players_nickname_check''
      else if \<exists>p \<in> set (vals (players g)). session_token_hash p = token_hash
      then Inl ''players_session_token_hash_key''
      else if \<exists>p \<in> set (vals (players g)). lower (nickname p) = lower nick
      then Inl nickname_unique_index
      else Inr \<lparr> p_id = new_player e, nickname = nick, native_lang = native, common_langs = common,
                 session_token_hash = token_hash, p_created_at = clock e At_player \<rparr>)"

text \<open>The retry loop: only a collision of the display name tries the next candidate.\<close>

fun pg_create_player_from ::
  "(string \<Rightarrow> string) \<Rightarrow> env \<Rightarrow> string \<Rightarrow> string \<Rightarrow> string list \<Rightarrow> string \<Rightarrow> nat list
     \<Rightarrow> (game_db, player) act" where
  "pg_create_player_from lower e nick native common token_hash [] g =
     (Inl (RuntimeError ''unable to allocate a unique nickname''), g)"
| "pg_create_player_from lower e nick native common token_hash (attempt # later) g =
     (case pg_insert_player lower e (allocate_nickname_candidate nick attempt) native common
         token_hash g of
        Inr p \<Rightarrow> (Inr (pg_parse_player p), put_player p g)
      | Inl violated \<Rightarrow>
          if violated \<noteq> nickname_unique_index then (Inl (DatabaseError violated), g)
          else pg_create_player_from lower e nick native common token_hash later g)"

definition pg_create_player ::
  "(string \<Rightarrow> string) \<Rightarrow> env \<Rightarrow> string \<Rightarrow> string \<Rightarrow> string list \<Rightarrow> string \<Rightarrow> (game_db, player) act" where
  "pg_create_player lower e nick native common token_hash =
     pg_create_player_from lower e nick native common token_hash
       [0..<nickname_alloc_max_attempts get_game_config]"

definition pg_get_player_by_token_hash :: "string \<Rightarrow> game_db \<Rightarrow> py_error + player option" where
  "pg_get_player_by_token_hash token_hash g =
     Inr (map_option pg_parse_player
       (List.find (\<lambda>p. session_token_hash p = token_hash) (vals (players g))))"

definition pg_get_player :: "uuid \<Rightarrow> game_db \<Rightarrow> player option" where
  "pg_get_player i g = map_option pg_parse_player (map_of (players g) i)"

definition pg_upsert_queue :: "uuid \<Rightarrow> time \<Rightarrow> (game_db, unit) act" where
  "pg_upsert_queue i now g =
     (if map_of (players g) i = None then (Inl (DatabaseError ''matchmaking_queue_player_id_fkey''), g)
      else (Inr (), g\<lparr>queue := AList.update i now (queue g)\<rparr>))"

definition pg_enqueue_player :: "env \<Rightarrow> uuid \<Rightarrow> (game_db, unit) act" where
  "pg_enqueue_player e i = pg_upsert_queue i (clock e At_enqueue)"

section \<open>Cards and turns\<close>

definition pg_live :: "game_db \<Rightarrow> card list" where
  "pg_live g =
     filter (\<lambda>c. verified c \<and> (case map_of (decks g) (c_deck_id c) of None \<Rightarrow> False | Some d \<Rightarrow> d_status d = Deck_live))
       (vals (cards g))"

definition pg_pick_card :: "env \<Rightarrow> uuid \<Rightarrow> game_db \<Rightarrow> card option" where
  "pg_pick_card e pair_id g =
     (let used = map t_card_id (filter (\<lambda>t. t_pair_id t = pair_id) (vals (turns g)))
      in first_of (sort_key (\<lambda>c. (c_id c \<in> set used, row_random e (c_id c))) (pg_live g)))"

definition pg_create_turn ::
  "env \<Rightarrow> uuid \<Rightarrow> uuid \<Rightarrow> uuid \<Rightarrow> uuid \<Rightarrow> (game_db, turn) act" where
  "pg_create_turn e pair_id sp gu card_id g =
     (if sp = gu then (Inl (DatabaseError ''turns_check''), g)
      else if map_of (pairs g) pair_id = None \<or> map_of (players g) sp = None
              \<or> map_of (players g) gu = None \<or> map_of (cards g) card_id = None
      then (Inl (DatabaseError ''turns_fkey''), g)
      else let t = mk_turn (new_turn e) pair_id sp gu card_id (clock e At_turn)
           in (Inr t, put_turn t g))"

definition pg_get_turn :: "uuid \<Rightarrow> game_db \<Rightarrow> turn option" where
  "pg_get_turn i g = map_of (turns g) i"

definition pg_get_latest_turn :: "uuid \<Rightarrow> game_db \<Rightarrow> turn option" where
  "pg_get_latest_turn pair_id g =
     first_of (sort_desc (\<lambda>t. (t_status t \<noteq> Scored, t_created_at t, t_id t))
       (filter (\<lambda>t. t_pair_id t = pair_id) (vals (turns g))))"

definition pg_get_card :: "uuid \<Rightarrow> game_db \<Rightarrow> card option" where
  "pg_get_card i g = map_of (cards g) i"

text \<open>\<open>WHERE id = ANY($1)\<close>: the rows of the table, in the table's order.\<close>

definition pg_get_cards :: "uuid list \<Rightarrow> game_db \<Rightarrow> card list" where
  "pg_get_cards ids g = filter (\<lambda>c. c_id c \<in> set ids) (vals (cards g))"

section \<open>Matchmaking\<close>

definition pg_get_active_pair :: "uuid \<Rightarrow> game_db \<Rightarrow> pair option" where
  "pg_get_active_pair i g =
     first_of (sort_desc pr_created_at
       (filter (\<lambda>p. pr_status p = Active \<and> (player_a p = i \<or> player_b p = i)) (vals (pairs g))))"

definition pg_previously_paired :: "uuid \<Rightarrow> uuid \<Rightarrow> game_db \<Rightarrow> bool" where
  "pg_previously_paired i j g \<longleftrightarrow>
     (\<exists>p \<in> set (vals (pairs g)). player_a p = i \<and> player_b p = j \<or> player_b p = i \<and> player_a p = j)"

definition pg_evict :: "time \<Rightarrow> uuid \<Rightarrow> (uuid, time) dict \<Rightarrow> (uuid, time) dict" where
  "pg_evict now i q =
     filter (\<lambda>(j, tm). \<not> (tm < now - matchmaking_queue_ttl_us get_game_config \<and> j \<noteq> i)) q"

text \<open>The common table expression \<open>candidates\<close>, without its ordering.\<close>

definition pg_is_candidate :: "env \<Rightarrow> uuid \<Rightarrow> player \<Rightarrow> game_db \<Rightarrow> uuid \<times> time \<Rightarrow> bool" where
  "pg_is_candidate e i me g = (\<lambda>(j, tm).
     j \<noteq> i \<and> clock e At_txn - matchmaking_queue_ttl_us get_game_config \<le> tm \<and> \<not> locked e j
     \<and> (case map_of (players g) j of
          None \<Rightarrow> False
        | Some p \<Rightarrow> native_lang p \<noteq> native_lang me
            \<and> (\<exists>lang \<in> set (common_langs p @ [native_lang p]).
                 lang \<in> set (speakable_languages (native_lang me) (dedup_strip [] (common_langs me))))))"

definition pg_partner :: "env \<Rightarrow> uuid \<Rightarrow> player \<Rightarrow> game_db \<Rightarrow> (uuid \<times> time) option" where
  "pg_partner e i me g =
     first_of (sort_key (\<lambda>(j, tm). (pg_previously_paired i j g, tm))
       (sort_key snd (filter (pg_is_candidate e i me g) (queue g))))"

definition pg_new_pair :: "env \<Rightarrow> uuid \<Rightarrow> uuid \<Rightarrow> time \<Rightarrow> string \<Rightarrow> pair" where
  "pg_new_pair e i j partner_at lang =
     (let first = clock e At_txn \<le> partner_at in
      \<lparr> pr_id = new_pair e, player_a = (if first then i else j), player_b = (if first then j else i),
        common_lang = lang, pr_status = Active, pr_created_at = clock e At_txn \<rparr>)"

definition pg_open_pair :: "env \<Rightarrow> pair \<Rightarrow> uuid \<Rightarrow> uuid \<Rightarrow> game_db \<Rightarrow> game_db" where
  "pg_open_pair e p i j g =
     (let g' = put_pair p (g\<lparr>queue := filter (\<lambda>(k, tm). k \<noteq> i \<and> k \<noteq> j) (queue g)\<rparr>)
      in case pg_pick_card e (pr_id p) g' of
           None \<Rightarrow> g'
         | Some c \<Rightarrow> put_turn
             (mk_turn (new_turn e) (pr_id p) (player_a p) (player_b p) (c_id c) (clock e At_txn)) g')"

text \<open>
  The transaction after the eviction, on the tables \<open>g2\<close>; \<open>g\<close> are those before the transaction,
  which a raised error restores.
\<close>

definition pg_claim :: "env \<Rightarrow> uuid \<Rightarrow> player \<Rightarrow> game_db \<Rightarrow> (game_db, pair option) act" where
  "pg_claim e i me g g2 =
     (case pg_partner e i me g2 of
        None \<Rightarrow> (Inr None, g2)
      | Some (j, partner_at) \<Rightarrow>
          (let partner = the (map_of (players g2) j);
               shared = shared_languages
                 (speakable_languages (native_lang me) (dedup_strip [] (common_langs me)))
                 (speakable_languages (native_lang partner) (dedup_strip [] (common_langs partner)))
           in if shared = [] then (Inr None, g2)
              else case pick_common_lang shared (preferred_common_lang get_game_config) of
                  Inl err \<Rightarrow> (Inl err, g)
                | Inr lang \<Rightarrow>
                    (let p = pg_new_pair e i j partner_at lang
                     in (Inr (Some p), pg_open_pair e p i j g2))))"

definition pg_try_match :: "env \<Rightarrow> uuid \<Rightarrow> (game_db, pair option) act" where
  "pg_try_match e i g =
     (case pg_get_active_pair i g of
        Some p \<Rightarrow> (Inr (Some p), g)
      | None \<Rightarrow>
          (case pg_upsert_queue i (clock e At_txn) g of
             (Inl err, _) \<Rightarrow> (Inl err, g)
           | (Inr _, g1) \<Rightarrow>
               (let g2 = g1\<lparr>queue := pg_evict (clock e At_txn) i (queue g1)\<rparr> in
                case map_of (players g2) i of
                  None \<Rightarrow> (Inr None, g2)
                | Some me \<Rightarrow> pg_claim e i me g g2)))"

section \<open>Turn transitions and jobs\<close>

definition pg_accept_audio ::
  "(pyfloat \<Rightarrow> pyfloat) \<Rightarrow> uuid \<Rightarrow> string \<Rightarrow> pyfloat \<Rightarrow> (game_db, turn) act" where
  "pg_accept_audio numeric i path dur g =
     (case map_of (turns g) i of
        Some t \<Rightarrow>
          if t_status t = Awaiting_audio then
            let t' = t\<lparr>audio_path := Some path, duration_s := Some (numeric dur),
                       t_status := Awaiting_label_confirm\<rparr>
            in (Inr t', put_turn t' g)
          else (Inl (ValueError ''turn not awaiting audio''), g)
      | None \<Rightarrow> (Inl (ValueError ''turn not awaiting audio''), g))"

definition pg_enqueue_job :: "env \<Rightarrow> job_kind \<Rightarrow> uuid \<Rightarrow> (game_db, bool) act" where
  "pg_enqueue_job e kind i g =
     (if (kind, i) \<in> set (map (\<lambda>j. (j_kind j, j_turn_id j)) (jobs g)) then (Inr False, g)
      else (Inr True, add_job
        \<lparr> j_id = new_job e, j_kind = kind, j_turn_id = i, j_status = Job_pending, tries = 0,
          last_error = None, j_created_at = clock e At_job, available_at = clock e At_job,
          claimed_at = None, completed_at = None \<rparr> g))"

definition pg_confirm_label :: "uuid \<Rightarrow> (game_db, turn) act" where
  "pg_confirm_label i g =
     (case map_of (turns g) i of
        Some t \<Rightarrow>
          if t_status t = Awaiting_label_confirm then
            let t' = t\<lparr>t_status := Awaiting_guess\<rparr> in (Inr t', put_turn t' g)
          else (Inl (ValueError ''turn not awaiting label confirm''), g)
      | None \<Rightarrow> (Inl (ValueError ''turn not awaiting label confirm''), g))"

definition pg_apply_guess :: "uuid \<Rightarrow> bool \<Rightarrow> (game_db, turn) act" where
  "pg_apply_guess i correct g =
     (case map_of (turns g) i of
        None \<Rightarrow> (Inl (ValueError ''turn not awaiting guess''), g)
      | Some t \<Rightarrow>
          if t_status t \<noteq> Awaiting_guess then (Inl (ValueError ''turn not awaiting guess''), g)
          else
            let n = attempts t + 1;
                g1 = (if correct then bump_counter ''validated_pairs'' g else g);
                (st, oc) = (if correct then (Scored, Validated)
                            else if max_guess_attempts get_game_config \<le> n then (Scored, Unclear)
                            else (Awaiting_guess, Pending));
                t' = t\<lparr>attempts := n, t_status := st, t_outcome := oc\<rparr>
            in (Inr t', put_turn t' g1))"

definition pg_set_turn_quality :: "uuid \<Rightarrow> (string \<times> json) list \<Rightarrow> (game_db, turn) act" where
  "pg_set_turn_quality i q g =
     (case map_of (turns g) i of
        None \<Rightarrow> (Inl (ValueError ''turn not found''), g)
      | Some t \<Rightarrow> let t' = t\<lparr>quality := Some q\<rparr> in (Inr t', put_turn t' g))"

definition pg_complete_pair_if_capped :: "uuid \<Rightarrow> int \<Rightarrow> (game_db, bool) act" where
  "pg_complete_pair_if_capped pair_id rounds_cap g =
     (case map_of (pairs g) pair_id of
        None \<Rightarrow> (Inr False, g)
      | Some p \<Rightarrow>
          if pr_status p = Active
             \<and> (\<exists>pl \<in> set (vals (players g)). p_id pl \<in> {player_a p, player_b p} \<and>
                  rounds_cap \<le> int (length (filter (\<lambda>t. t_status t = Scored
                    \<and> (speaker_id t = p_id pl \<or> guesser_id t = p_id pl)) (vals (turns g)))))
          then (Inr True, put_pair (p\<lparr>pr_status := Completed\<rparr>) g)
          else (Inr False, g))"

section \<open>Scores\<close>

text \<open>\<open>LEFT JOIN turns\<close> and \<open>SUM(CASE ...)\<close>, grouped by player.\<close>

definition pg_joined :: "uuid \<Rightarrow> game_db \<Rightarrow> turn list" where
  "pg_joined i g = filter (\<lambda>t. speaker_id t = i \<or> guesser_id t = i) (vals (turns g))"

definition pg_score :: "uuid \<Rightarrow> game_db \<Rightarrow> int" where
  "pg_score i g = (\<Sum>t\<leftarrow>pg_joined i g.
     if t_outcome t = Validated then points_per_validation get_game_config else 0)"

definition pg_rounds :: "uuid \<Rightarrow> game_db \<Rightarrow> nat" where
  "pg_rounds i g = (\<Sum>t\<leftarrow>pg_joined i g. if t_status t = Scored then 1 else 0)"

definition pg_score_rows :: "game_db \<Rightarrow> leaderboard_row list" where
  "pg_score_rows g =
     map (\<lambda>p. \<lparr> lb_nickname = nickname p, lb_score = pg_score (p_id p) g \<rparr>) (vals (players g))"

definition pg_board_key :: "(string \<Rightarrow> string) \<Rightarrow> leaderboard_row \<Rightarrow> int \<times> string" where
  "pg_board_key collate r = (- lb_score r, collate (lb_nickname r))"

definition pg_leaderboard ::
  "(string \<Rightarrow> string) \<Rightarrow> nat \<Rightarrow> game_db \<Rightarrow> py_error + leaderboard_row list" where
  "pg_leaderboard collate limit g = Inr (take limit (sort_key (pg_board_key collate) (pg_score_rows g)))"

text \<open>\<open>RANK() OVER (ORDER BY score DESC, nickname ASC)\<close>.\<close>

definition pg_rank :: "(string \<Rightarrow> string) \<Rightarrow> leaderboard_row \<Rightarrow> game_db \<Rightarrow> nat" where
  "pg_rank collate r g =
     1 + length (filter (\<lambda>s. pg_board_key collate s < pg_board_key collate r) (pg_score_rows g))"

definition pg_player_stats ::
  "(string \<Rightarrow> string) \<Rightarrow> uuid \<Rightarrow> game_db \<Rightarrow> py_error + player_stats" where
  "pg_player_stats collate i g =
     (case map_of (players g) i of
        None \<Rightarrow> Inr \<lparr> score = 0, rounds_played = 0, rank = None \<rparr>
      | Some p \<Rightarrow> Inr
          \<lparr> score = pg_score i g, rounds_played = pg_rounds i g,
            rank = Some (pg_rank collate
              \<lparr> lb_nickname = nickname p, lb_score = pg_score i g \<rparr> g) \<rparr>)"

section \<open>State bundle\<close>

definition pg_fetch_state_bundle ::
  "(string \<Rightarrow> string) \<Rightarrow> env \<Rightarrow> uuid \<Rightarrow> nat \<Rightarrow> game_db \<Rightarrow> py_error + state_bundle" where
  "pg_fetch_state_bundle collate e i limit g =
     (case map_of (players g) i of
        None \<Rightarrow> Inl (TypeError ''NoneType object is not subscriptable'')
      | Some me \<Rightarrow>
          (let pr = pg_get_active_pair i g;
               partner = (case pr of None \<Rightarrow> None
                 | Some p \<Rightarrow> pg_get_player (if player_a p = i then player_b p else player_a p) g);
               t = (case pr of None \<Rightarrow> None | Some p \<Rightarrow> pg_get_latest_turn (pr_id p) g);
               prev = (case pr of None \<Rightarrow> None
                 | Some p \<Rightarrow> first_of (sort_desc (\<lambda>u. (t_created_at u, t_id u))
                     (filter (\<lambda>u. t_pair_id u = pr_id p \<and> t_status u = Scored) (vals (turns g)))));
               c = (case t of None \<Rightarrow> None | Some t' \<Rightarrow> pg_get_card (t_card_id t') g);
               labels = (case (c, pr) of
                   (Some c', Some p) \<Rightarrow> fold (\<lambda>d m. AList.update (c_id d)
                       (label_of_dict (label_common d) (common_lang p)) m)
                     (pg_get_cards (decoys c') g) []
                 | _ \<Rightarrow> []);
               board = take limit (sort_key (pg_board_key collate) (pg_score_rows g))
           in Inr
             \<lparr> b_player = pg_parse_player me,
               b_queued = (case map_of (queue g) i of None \<Rightarrow> False
                 | Some tm \<Rightarrow> clock e At_bundle - matchmaking_queue_ttl_us get_game_config \<le> tm),
               b_pair = pr, b_partner = partner, b_turn = t, b_card = c, b_previous_scored = prev,
               b_stats = \<lparr> score = pg_score i g, rounds_played = pg_rounds i g,
                 rank = Some (pg_rank collate
                   \<lparr> lb_nickname = nickname me, lb_score = pg_score i g \<rparr> g) \<rparr>,
               b_leaderboard_top = sort_key (\<lambda>r. - lb_score r) board,
               b_decoy_labels = labels \<rparr>))"

definition pg_count_jobs :: "job_kind \<Rightarrow> uuid \<Rightarrow> game_db \<Rightarrow> nat" where
  "pg_count_jobs kind i g = length (filter (\<lambda>j. j_kind j = kind \<and> j_turn_id j = i) (jobs g))"

section \<open>Metrics and seeding\<close>

text \<open>
  The tables only the metrics query reads: packaged records, API calls, and what a deck row
  holds beyond its status.
\<close>

record metrics_tables =
  mt_records :: "(uuid \<times> bool) list" \<comment> \<open>turn, training eligible\<close>
  mt_api_calls :: "(string \<times> string \<times> int option) list" \<comment> \<open>operation, status, cost\<close>
  mt_decks :: "(uuid, (string \<times> json) list option \<times> time option \<times> time) dict"
    \<comment> \<open>generation metrics, activated at, created at\<close>

definition sql_trim :: "string \<Rightarrow> string" where
  "sql_trim s = rev (dropWhile (\<lambda>c. c = CHR '' '') (rev (dropWhile (\<lambda>c. c = CHR '' '') s)))"

definition pg_speaker_langs :: "(string \<Rightarrow> string) \<Rightarrow> game_db \<Rightarrow> string list" where
  "pg_speaker_langs lower g =
     sort (remdups (List.map_filter (\<lambda>t.
       if t_outcome t \<noteq> Validated then None
       else case map_of (players g) (speaker_id t) of
           None \<Rightarrow> None
         | Some p \<Rightarrow> if sql_trim (native_lang p) = [] then None
                     else Some (lower (sql_trim (native_lang p)))) (vals (turns g))))"

text \<open>\<open>ORDER BY activated_at DESC NULLS LAST, created_at DESC LIMIT 1\<close> over the live decks.\<close>

definition pg_live_generation_metrics ::
  "game_db \<Rightarrow> metrics_tables \<Rightarrow> (string \<times> json) list option" where
  "pg_live_generation_metrics g mt =
     (let live = filter (\<lambda>(i, _). case map_of (decks g) i of None \<Rightarrow> False | Some d \<Rightarrow> d_status d = Deck_live)
         (mt_decks mt);
          recency = (\<lambda>(i, m, activated, created).
            (activated \<noteq> None, (case activated of None \<Rightarrow> 0 | Some tm \<Rightarrow> tm), created))
      in case first_of (sort_desc recency live) of None \<Rightarrow> None | Some (i, m, _) \<Rightarrow> m)"

definition pg_metrics ::
  "(string \<Rightarrow> string) \<Rightarrow> game_db \<Rightarrow> metrics_tables \<Rightarrow> metrics_snapshot" where
  "pg_metrics lower g mt =
     (let validated = filter (\<lambda>t. t_outcome t = Validated) (vals (turns g));
          triage = filter (\<lambda>(oper, st, _). oper = ''gauntlet_triage'' \<and> st = ''success'')
            (mt_api_calls mt)
      in metrics_snapshot_from_aggregates
        \<lparr> ag_validated_pairs = int (length validated),
          ag_training_eligible_pairs = int (length (filter snd (mt_records mt))),
          ag_packaged_validated_records = int (length (filter
            (\<lambda>(i, _). case map_of (turns g) i of None \<Rightarrow> False | Some t \<Rightarrow> t_outcome t = Validated)
             (mt_records mt))),
          ag_languages = pg_speaker_langs lower g,
          ag_triage_cost_microusd_sum =
            (\<Sum>(oper, st, cost)\<leftarrow>triage. case cost of None \<Rightarrow> 0 | Some n \<Rightarrow> n),
          ag_successful_triage_calls = int (length triage),
          ag_unpriced_triage_calls = int (length (filter (\<lambda>(oper, st, cost). cost = None) triage)),
          ag_generation_metrics = pg_live_generation_metrics g mt \<rparr>)"

definition pg_seed_deck ::
  "uuid \<Rightarrow> uuid list \<Rightarrow> string \<Rightarrow> (string \<times> (string \<times> json) list \<times> uuid list option) list
     \<Rightarrow> game_db \<Rightarrow> uuid \<times> game_db" where
  "pg_seed_deck deck_id created region raws g =
     (let new_deck = \<lparr> d_id = deck_id, region_tag = region, d_status = Deck_live \<rparr>;
          inserted = fold (\<lambda>(card_id, (path, label, _)) m. AList.update card_id
            \<lparr> c_id = card_id, c_deck_id = deck_id, image_path = path, label_common = label,
              decoys = [], verified = True \<rparr> m) (zip created raws) (cards g);
          decoys_of = (\<lambda>card_id ds. case ds of
              None \<Rightarrow> take 5 (filter (\<lambda>i. i \<noteq> card_id) created) | Some given \<Rightarrow> given);
          linked = fold (\<lambda>(card_id, (_, _, ds)) m. case map_of m card_id of
              None \<Rightarrow> m
            | Some c \<Rightarrow> AList.update card_id (c\<lparr>decoys := decoys_of card_id ds\<rparr>) m)
            (zip created raws) inserted
      in (deck_id, g\<lparr>decks := AList.update deck_id new_deck (decks g), cards := linked\<rparr>))"

end
