(* ===== verification/Pg_Laws.thy ===== *)
theory Pg_Laws
  imports Pg_Store
begin

text \<open>
  The Postgres store keeps the same promises: the statements of its transactions read what the
  reference definitions read, and it instantiates \<open>game_store\<close> for every folding \<open>lower\<close>,
  collation and column rounding of the database.
\<close>

section \<open>Players and queue\<close>

lemma pg_create_player_from_spec:
  "pg_create_player_from lower e n nl com h later g = (r, g') \<Longrightarrow>
     (\<exists>err. r = Inl err \<and> g' = g) \<or>
     (\<exists>p q. r = Inr q \<and> g' = put_player p g \<and> p_id p = new_player e \<and> session_token_hash p = h \<and>
        native_lang p = nl \<and> common_langs p = com \<and>
        1 \<le> length (nickname p) \<and> length (nickname p) \<le> NICKNAME_MAX_LEN \<and>
        (\<forall>i q. map_of (players g) i = Some q \<longrightarrow> lower (nickname q) \<noteq> lower (nickname p)))"
proof (induction later)
  case (Cons attempt later)
  show ?case
  proof (cases "pg_insert_player lower e (allocate_nickname_candidate n attempt) nl com h g")
    case (Inl violated)
    then show ?thesis using Cons by (auto split: if_splits)
  next
    case (Inr p)
    have "lower (nickname q) \<noteq> lower (nickname p)" if "map_of (players g) i = Some q" for i q
      using Inr in_valsI [OF that] by (auto simp: pg_insert_player_def split: if_splits)
    moreover have "p_id p = new_player e" "session_token_hash p = h" "native_lang p = nl" "common_langs p = com"
        "nickname p = allocate_nickname_candidate n attempt"
      using Inr by (auto simp: pg_insert_player_def split: if_splits)
    moreover have "r = Inr (pg_parse_player p)" "g' = put_player p g" using Cons.prems Inr by auto
    ultimately show ?thesis using candidate_bounds by auto
  qed
qed auto

lemma pg_token_spec:
  assumes "game_inv nf g" and "pg_get_player_by_token_hash h g = Inr (Some p)"
  shows "\<exists>row. map_of (players g) (p_id p) = Some row \<and> session_token_hash row = h"
proof -
  obtain row where "List.find (\<lambda>q. session_token_hash q = h) (vals (players g)) = Some row"
      "p = pg_parse_player row"
    using assms(2) by (auto simp: pg_get_player_by_token_hash_def)
  then show ?thesis
    using find_SomeD [of "\<lambda>q. session_token_hash q = h"] keyed_vals_iff [OF inv_keyed(1) [OF assms(1)]]
    by (fastforce simp: pg_parse_player_def)
qed

lemma speakable_dedup [simp]: "speakable_languages native (dedup_strip [] common) = speakable_languages native common"
proof -
  have strip_strip: "strip (strip s) = strip s" for s by (rule strip_id) (rule stripped_strip)
  have mono: "dedup_strip seen (dedup_strip acc items) = dedup_strip seen items"
    if "set acc \<subseteq> set seen" for seen acc items
    using that
  proof (induction items arbitrary: seen acc)
    case (Cons x items)
    show ?case
    proof (cases "strip x \<noteq> [] \<and> strip x \<notin> set acc")
      case True
      then show ?thesis using Cons.IH [of "strip x # acc" "strip x # seen"]
          Cons.IH [of "strip x # acc" seen] Cons.prems
        by (auto simp: Let_def strip_strip)
    next
      case False
      then show ?thesis using Cons.IH [of acc seen] Cons.prems by (auto simp: Let_def)
    qed
  qed simp
  show ?thesis using mono [of "[]" "[]"] mono [of "[]" "[strip native]"]
    by (simp add: speakable_languages_def Let_def)
qed

section \<open>Pairs and turns\<close>

lemma pg_active_pair_Some:
  assumes "game_inv nf g" and "pg_get_active_pair i g = Some p"
  shows "map_of (pairs g) (pr_id p) = Some p \<and> pr_status p = Active \<and> is_member i p"
  using first_of_in [OF assms(2) [unfolded pg_get_active_pair_def]] inv_pair_vals [OF assms(1)]
  by (auto simp: is_member_def)

lemma pg_active_pair_None:
  assumes "game_inv nf g"
  shows "pg_get_active_pair i g = None \<longleftrightarrow> \<not> in_active g i"
  using ball_vals [OF keyed_distinct [OF inv_keyed(2) [OF assms]],
      of "\<lambda>p. pr_status p = Active \<longrightarrow> \<not> is_member i p"]
  by (auto simp: pg_get_active_pair_def in_active_def filter_empty_conv is_member_def)

lemma pg_latest_turn_Some:
  assumes "game_inv nf g" and "pg_get_latest_turn k g = Some t"
  shows "map_of (turns g) (t_id t) = Some t \<and> t_pair_id t = k"
  using first_of_in [OF assms(2) [unfolded pg_get_latest_turn_def]] inv_turn_vals [OF assms(1)]
  by auto

lemma pg_latest_turn_None:
  assumes "game_inv nf g"
  shows "pg_get_latest_turn k g = None \<longleftrightarrow> (\<forall>i t. map_of (turns g) i = Some t \<longrightarrow> t_pair_id t \<noteq> k)"
  using ball_vals [OF keyed_distinct [OF inv_keyed(4) [OF assms]], of "\<lambda>t. t_pair_id t \<noteq> k"]
  by (auto simp: pg_get_latest_turn_def filter_empty_conv)

lemma pg_latest_turn_open:
  assumes inv: "game_inv nf g" and t: "map_of (turns g) i = Some t" and op: "is_open t"
  shows "pg_get_latest_turn (t_pair_id t) g = Some t"
proof (cases "pg_get_latest_turn (t_pair_id t) g")
  case None
  then show ?thesis using pg_latest_turn_None [OF inv] t by auto
next
  case (Some u)
  note u = pg_latest_turn_Some [OF inv Some]
  have "t \<in> set (filter (\<lambda>v. t_pair_id v = t_pair_id t) (vals (turns g)))"
    using in_valsI [OF t] by simp
  from first_sort_desc_max [OF Some [unfolded pg_get_latest_turn_def] this]
  have "is_open u" using op by (auto simp: is_open_def less_eq_prod_def)
  then have "i = t_id u"
    using game_invD(5) [OF inv] t u op unfolding one_open_def by metis
  then show ?thesis using t u Some by simp
qed

lemma pg_live_eq [simp]: "pg_live g = live_cards g"
  by (simp add: pg_live_def live_cards_def)

lemma first_sort_key_None [simp]: "first_of (sort_key f xs) = None \<longleftrightarrow> xs = []"
  by (metis first_of_eq_None set_empty set_sort)

lemma pg_pick_card_None: "pg_pick_card e k g = None \<longleftrightarrow> live_cards g = []"
  by (simp add: pg_pick_card_def Let_def del: first_of_eq_None)

lemma pg_pick_card_Some:
  assumes "pg_pick_card e k g = Some c"
  shows "c \<in> set (live_cards g) \<and>
    ((\<exists>c' \<in> set (live_cards g). \<forall>t \<in> set (vals (turns g)). t_pair_id t = k \<longrightarrow> t_card_id t \<noteq> c_id c')
      \<longrightarrow> (\<forall>t \<in> set (vals (turns g)). t_pair_id t = k \<longrightarrow> t_card_id t \<noteq> c_id c))"
proof -
  let ?used = "set (map t_card_id (filter (\<lambda>t. t_pair_id t = k) (vals (turns g))))"
  have first: "first_of (sort_key (\<lambda>c. (c_id c \<in> ?used, row_random e (c_id c))) (live_cards g)) = Some c"
    using assms by (simp only: pg_pick_card_def Let_def pg_live_eq)
  have used: "c_id d \<notin> ?used \<longleftrightarrow> (\<forall>t \<in> set (vals (turns g)). t_pair_id t = k \<longrightarrow> t_card_id t \<noteq> c_id d)" for d
    by force
  have "c_id c \<notin> ?used" if "c' \<in> set (live_cards g)" "c_id c' \<notin> ?used" for c'
    using first_sort_key_min [OF first that(1)] that(2) by (auto simp: less_eq_prod_def)
  then show ?thesis using first_of_in [OF first] unfolding used [symmetric] by auto
qed

section \<open>Matchmaking\<close>

lemma pg_partner_spec:
  assumes "pg_partner e i me g = Some (j, tm)"
  shows "(j, tm) \<in> set (queue g) \<and> j \<noteq> i \<and> (\<exists>p. map_of (players g) j = Some p \<and> native_lang p \<noteq> native_lang me)"
  using first_of_in [OF assms [unfolded pg_partner_def]]
  by (auto simp: pg_is_candidate_def split: option.splits)

lemma pg_open_pair_first_turn:
  "first_turn e p (put_pair p (g\<lparr>queue := filter (\<lambda>(k, tm). k \<noteq> i \<and> k \<noteq> j) (queue g)\<rparr>))
     (pg_open_pair e p i j g)"
proof -
  let ?h = "put_pair p (g\<lparr>queue := filter (\<lambda>(k, tm). k \<noteq> i \<and> k \<noteq> j) (queue g)\<rparr>)"
  show ?thesis
  proof (cases "pg_pick_card e (pr_id p) ?h")
    case None
    then show ?thesis using pg_pick_card_None [of e "pr_id p" ?h]
      by (simp add: first_turn_def pg_open_pair_def)
  next
    case (Some c)
    then have "c \<in> set (live_cards ?h)" using pg_pick_card_Some by blast
    then show ?thesis using Some by (auto simp: first_turn_def pg_open_pair_def Let_def)
  qed
qed

lemma distinct_keys_filter: "distinct (keys m) \<Longrightarrow> distinct (keys (filter P m))"
  by (rule distinct_map_filter)

lemma pg_evict_keys:
  "distinct (keys q) \<Longrightarrow> distinct (keys (pg_evict now i q))"
  "set (keys (pg_evict now i q)) \<subseteq> set (keys q)"
  "i \<in> set (keys q) \<Longrightarrow> i \<in> set (keys (pg_evict now i q))"
  by (auto simp: pg_evict_def distinct_map_filter intro: rev_image_eqI)

lemma pg_try_match_spec:
  assumes inv: "game_inv nf g" and i: "map_of (players g) i \<noteq> None"
    and run: "pg_try_match e i g = (r, g')"
  shows "match_step e i g r g'"
proof (cases "pg_get_active_pair i g")
  case (Some p)
  then show ?thesis using run pg_active_pair_Some [OF inv Some]
    by (auto simp: pg_try_match_def match_step_def)
next
  case None
  then have idle: "\<not> in_active g i" using pg_active_pair_None [OF inv] by simp
  obtain me where me: "map_of (players g) i = Some me" using i by auto
  define q where "q = pg_evict (clock e At_txn) i (AList.update i (clock e At_txn) (queue g))"
  let ?h = "g\<lparr>queue := q\<rparr>"
  have dq: "distinct (keys q)" unfolding q_def using inv_keyed(5) [OF inv] by (intro pg_evict_keys(1)) simp
  have iq: "i \<in> set (keys q)" unfolding q_def
    using keys_update_set [of i "clock e At_txn" "queue g"] by (intro pg_evict_keys(3)) simp
  have sq: "set (keys q) \<subseteq> insert i (set (keys (queue g)))" unfolding q_def
    using pg_evict_keys(2) [of "clock e At_txn" i "AList.update i (clock e At_txn) (queue g)"]
      keys_update_set [of i "clock e At_txn" "queue g"] by blast
  have wait: ?thesis if "r = Inr None" "g' = ?h"
    using that dq iq sq idle unfolding match_step_def by blast
  have run': "(r, g') = pg_claim e i me g ?h"
    using run None me by (simp add: pg_try_match_def pg_upsert_queue_def q_def Let_def)
  show ?thesis
  proof (cases "pg_partner e i me ?h")
    case None
    then show ?thesis using run' wait by (simp add: pg_claim_def)
  next
    case (Some jt)
    obtain j tm where jt: "jt = (j, tm)" by (cases jt)
    note sp = pg_partner_spec [OF Some [unfolded jt]]
    then obtain other where other: "map_of (players g) j = Some other" "native_lang other \<noteq> native_lang me"
      by auto
    let ?shared = "shared_languages (speaks me) (speaks other)"
    show ?thesis
    proof (cases "?shared = []")
      case True
      then show ?thesis using run' Some jt other wait by (simp add: pg_claim_def Let_def speaks_def)
    next
      case False
      then obtain lang where lang: "lang \<in> set ?shared"
          "pick_common_lang ?shared (preferred_common_lang get_game_config) = Inr lang"
        using pick_common_lang_cases by blast
      define p where "p = pg_new_pair e i j tm lang"
      have rg: "r = Inr (Some p)" "g' = pg_open_pair e p i j ?h"
        using run' Some jt other False lang by (simp_all add: pg_claim_def p_def Let_def speaks_def)
      have p: "pr_id p = new_pair e" "pr_status p = Active" "common_lang p = lang"
          "player_a p = i \<and> player_b p = j \<or> player_a p = j \<and> player_b p = i"
        by (simp_all add: p_def pg_new_pair_def Let_def)
      have comp: "compatible me other" "compatible other me"
        using other False compatible_sym by (auto simp: compatible_def)
      have "pair_ok g p" using p(3,4) me other(1) comp lang(1) by (auto simp: pair_ok_def)
      have jq: "j \<in> set (keys q)" using sp by (auto intro: rev_image_eqI)
      let ?q = "filter (\<lambda>(k, tm). k \<noteq> i \<and> k \<noteq> j) q"
      have "set (keys ?q) \<subseteq> set (keys q) - {i, j}" by auto
      then have "new_match e i j p ?q g"
        using \<open>pair_ok g p\<close> p(1,2,4) sp jq sq idle dq distinct_map_filter [of fst q]
        by (auto simp: new_match_def simp del: set_map)
      moreover have "first_turn e p (put_pair p (g\<lparr>queue := ?q\<rparr>)) g'"
        using pg_open_pair_first_turn [where e = e and p = p and g = ?h and i = i and j = j] rg by simp
      ultimately show ?thesis using rg unfolding match_step_def by blast
    qed
  qed
qed

section \<open>Scores\<close>

lemma sum_list_if: "(\<Sum>t\<leftarrow>ts. if P t then (c :: int) else 0) = c * int (length (filter P ts))"
  by (induction ts) (simp_all add: distrib_left)

lemma sum_list_count: "(\<Sum>t\<leftarrow>ts. if P t then (1 :: nat) else 0) = length (filter P ts)"
  by (induction ts) simp_all

lemma pg_score_eq: "pg_score i g = points_of i g"
  by (simp add: pg_score_def sum_list_if points_of_def validated_of_def pg_joined_def plays_def eq_commute)

lemma pg_rounds_eq: "pg_rounds i g = rounds_of i g"
  by (simp add: pg_rounds_def sum_list_count rounds_of_def pg_joined_def plays_def eq_commute)

lemma pg_score_rows_eq: "pg_score_rows g = board_rows g"
  by (simp add: pg_score_rows_def board_rows_def pg_score_eq)

lemma pg_player_stats_spec:
  assumes "map_of (players g) i \<noteq> None"
  shows "\<exists>st. pg_player_stats collate i g = Inr st \<and> rounds_played st = rounds_of i g \<and> score st = points_of i g"
  using assms by (auto simp: pg_player_stats_def pg_rounds_eq pg_score_eq)

lemma pg_leaderboard_spec:
  "\<exists>rows. pg_leaderboard collate limit g = Inr rows \<and>
    length rows = min limit (length (players g)) \<and> set rows \<subseteq> set (board_rows g) \<and>
    sorted (map (\<lambda>r. - lb_score r) rows) \<and>
    (\<forall>r \<in> set (board_rows g). r \<notin> set rows \<longrightarrow> (\<forall>s \<in> set rows. lb_score r \<le> lb_score s))"
  using take_board_spec [where f = "pg_board_key collate" and g = g and limit = limit]
  by (simp add: pg_leaderboard_def pg_score_rows_eq pg_board_key_def)

lemma pg_complete_pair_spec:
  assumes inv: "game_inv nf g" and p: "map_of (pairs g) k = Some p" "pr_status p = Active"
  shows "pg_complete_pair_if_capped k cap g =
    (Inr (capped cap p g), if capped cap p g then put_pair (p\<lparr>pr_status := Completed\<rparr>) g else g)"
proof -
  have n: "length (filter (\<lambda>t. t_status t = Scored \<and> (speaker_id t = i \<or> guesser_id t = i)) (vals (turns g)))
      = rounds_of i g" for i
    unfolding rounds_of_def by (intro arg_cong [where f = length] filter_cong) (auto simp: plays_def)
  obtain a b where ab: "map_of (players g) (player_a p) = Some a" "map_of (players g) (player_b p) = Some b"
    using inv_pair(1) [OF inv p(1)] by (auto simp: pair_ok_def)
  have ids: "p_id a = player_a p" "p_id b = player_b p"
    using keyed_key [OF inv_keyed(1) [OF inv]] ab by auto
  have "(\<exists>pl \<in> set (vals (players g)). p_id pl \<in> {player_a p, player_b p} \<and> cap \<le> int (rounds_of (p_id pl) g))
      \<longleftrightarrow> capped cap p g"
    unfolding capped_def using in_valsI [OF ab(1)] in_valsI [OF ab(2)] ids by force
  then show ?thesis unfolding pg_complete_pair_if_capped_def n p(1) option.case
    using p(2) by (simp del: set_map)
qed

section \<open>The contract\<close>

definition postgres_ops ::
  "(string \<Rightarrow> string) \<Rightarrow> (pyfloat \<Rightarrow> pyfloat) \<Rightarrow> (string \<Rightarrow> string) \<Rightarrow> store_ops" where
  "postgres_ops lower numeric collate = \<lparr>
     op_create_player = pg_create_player lower,
     op_player_by_token_hash = pg_get_player_by_token_hash,
     op_enqueue_player = pg_enqueue_player,
     op_try_match = pg_try_match,
     op_get_active_pair = pg_get_active_pair,
     op_create_turn = pg_create_turn,
     op_pick_card_for_pair = pg_pick_card,
     op_get_turn = pg_get_turn,
     op_get_latest_turn = pg_get_latest_turn,
     op_accept_audio = pg_accept_audio numeric,
     op_enqueue_job = pg_enqueue_job,
     op_confirm_label = pg_confirm_label,
     op_apply_guess = pg_apply_guess,
     op_complete_pair_if_capped = pg_complete_pair_if_capped,
     op_fetch_state_bundle = pg_fetch_state_bundle collate,
     op_player_stats = pg_player_stats collate,
     op_leaderboard = pg_leaderboard collate \<rparr>"

lemma bump_put_turn: "put_turn t (bump_counter k g) = bump_counter k (put_turn t g)"
  by (simp add: put_turn_def bump_counter_def counter_def)

lemma pg_apply_guess_spec:
  assumes "game_inv nf g" and t: "map_of (turns g) i = Some t" "t_status t = Awaiting_guess"
  shows "pg_apply_guess i correct g = (Inr (take_guess correct t), guess_db correct t g)"
proof -
  have "t_outcome t = Pending" using inv_turn(1) [OF assms(1) t(1)] t(2) by (auto simp: turn_ok_def)
  then have "t\<lparr>attempts := n, t_status := Awaiting_guess, t_outcome := Pending\<rparr> = t\<lparr>attempts := n\<rparr>" for n
    using t(2) by (cases t) simp
  then show ?thesis using t
    by (auto simp: pg_apply_guess_def take_guess_def guess_db_def Let_def bump_put_turn)
qed

interpretation pg: game_store "postgres_ops lower numeric collate" lower numeric
  for lower numeric collate
proof (unfold_locales, unfold postgres_ops_def store_ops.simps, goal_cases)
  case (1 g e n nl com h r g')
  then show ?case unfolding pg_create_player_def by (intro pg_create_player_from_spec)
next
  case 2 then show ?case by (rule pg_token_spec)
next
  case 3 then show ?case by (simp add: pg_enqueue_player_def pg_upsert_queue_def)
next
  case 4 then show ?case by (intro pg_try_match_spec)
next
  case 5 then show ?case by (rule pg_active_pair_Some)
next
  case 6 then show ?case by (rule pg_active_pair_None)
next
  case 7 then show ?case by (simp add: pg_create_turn_def Let_def)
next
  case 8 show ?case by (rule pg_pick_card_None)
next
  case 9 then show ?case by (rule pg_pick_card_Some)
next
  case 10 show ?case by (simp add: pg_get_turn_def)
next
  case 11 then show ?case by (rule pg_latest_turn_Some)
next
  case 12 then show ?case by (rule pg_latest_turn_open)
next
  case 13 then show ?case by (rule pg_latest_turn_None)
next
  case 14 then show ?case by (simp add: pg_accept_audio_def take_audio_def Let_def)
next
  case 15 then show ?case by (simp add: pg_confirm_label_def Let_def)
next
  case 16 then show ?case by (rule pg_apply_guess_spec)
next
  case 17 then show ?case by (force simp: pg_enqueue_job_def)
next
  case 18 then show ?case by (auto simp: pg_enqueue_job_def)
next
  case 19 then show ?case by (intro pg_complete_pair_spec)
next
  case 20 then show ?case by (intro pg_player_stats_spec)
next
  case 21 show ?case by (rule pg_leaderboard_spec)
qed

end
