(* ===== verification/Audio_Checks.thy ===== *)
theory Audio_Checks
  imports Game_Config
begin

text \<open>
  \<open>app/game/audio_checks.py\<close>: what the two subprocesses report is an argument (\<open>ffprobe\<close> and
  \<open>ffmpeg\<close> are not in the repository); how the code reads their output, which errors it turns
  into a rejection and in which order it tests the bounds is the model.  A parsed float is an
  exact rational: rounding and overflow of the double format are not modelled.
\<close>

section \<open>Reading numbers from text\<close>

fun parse_exponent :: "string \<Rightarrow> int option" where
  "parse_exponent (CHR ''-'' # ds) =
     (if ds \<noteq> [] \<and> list_all is_digit ds then Some (- int (read_nat ds)) else None)"
| "parse_exponent (CHR ''+'' # ds) =
     (if ds \<noteq> [] \<and> list_all is_digit ds then Some (int (read_nat ds)) else None)"
| "parse_exponent ds = (if ds \<noteq> [] \<and> list_all is_digit ds then Some (int (read_nat ds)) else None)"

definition scale10 :: "int \<Rightarrow> rat \<Rightarrow> rat" where
  "scale10 n x = (if 0 \<le> n then x * 10 ^ nat n else x / 10 ^ nat (- n))"

definition parse_decimal :: "string \<Rightarrow> rat option" where
  "parse_decimal s =
     (let ip = takeWhile is_digit s;
          r = dropWhile is_digit s;
          dotted = (r \<noteq> [] \<and> hd r = CHR ''.'');
          fp = (if dotted then takeWhile is_digit (tl r) else []);
          rest = (if dotted then dropWhile is_digit (tl r) else r);
          mant = of_nat (read_nat (ip @ fp)) / 10 ^ length fp
      in if ip = [] \<and> fp = [] then None
         else if rest = [] then Some mant
         else if hd rest \<in> {CHR ''e'', CHR ''E''}
         then map_option (\<lambda>n. scale10 n mant) (parse_exponent (tl rest)) else None)"

definition parse_unsigned :: "bool \<Rightarrow> string \<Rightarrow> pyfloat option" where
  "parse_unsigned neg s =
     (if py_lower s \<in> {''inf'', ''infinity''} then Some (if neg then NInf else PInf)
      else if py_lower s = ''nan'' then Some NaN
      else map_option (\<lambda>x. Fin (if neg then - x else x)) (parse_decimal s))"

definition py_float :: "string \<Rightarrow> pyfloat option" where
  "py_float text =
     (let s = strip text in
      if s \<noteq> [] \<and> hd s = CHR ''-'' then parse_unsigned True (tl s)
      else if s \<noteq> [] \<and> hd s = CHR ''+'' then parse_unsigned False (tl s)
      else parse_unsigned False s)"

text \<open>
  \<open>mean_volume:\s*([-\d.]+)\s*dB\<close>: the group's characters are neither spaces nor a \<open>d\<close>, so its
  greedy match is the only one that can succeed at a position; \<open>search\<close> takes the first position.
\<close>

definition volume_char :: "char \<Rightarrow> bool" where
  "volume_char c \<longleftrightarrow> is_digit c \<or> c = CHR ''-'' \<or> c = CHR ''.''"

definition match_volume_at :: "string \<Rightarrow> string option" where
  "match_volume_at s =
     (let key = ''mean_volume:'' in
      if take (length key) s \<noteq> key then None
      else let r = dropWhile py_space (drop (length key) s);
               matched = takeWhile volume_char r;
               after = dropWhile py_space (dropWhile volume_char r)
           in if matched \<noteq> [] \<and> take 2 after = ''dB'' then Some matched else None)"

fun search_volume :: "string \<Rightarrow> string option" where
  "search_volume [] = None"
| "search_volume (c # s) =
     (case match_volume_at (c # s) of Some matched \<Rightarrow> Some matched | None \<Rightarrow> search_volume s)"

section \<open>Probes\<close>

datatype proc =
    Finished int string string \<comment> \<open>return code, standard output, standard error\<close>
  | Proc_timeout
  | Proc_missing \<comment> \<open>the executable cannot be started\<close>

definition probe_duration_seconds :: "proc \<Rightarrow> py_error + pyfloat" where
  "probe_duration_seconds p =
     (case p of
        Proc_timeout \<Rightarrow> Inl TimeoutExpired
      | Proc_missing \<Rightarrow> Inl OSError
      | Finished rc out err \<Rightarrow>
          if rc \<noteq> 0 then Inl (RuntimeError ''ffprobe duration failed'')
          else case py_float (strip out) of
              None \<Rightarrow> Inl (ValueError ''could not convert string to float'')
            | Some d \<Rightarrow> Inr d)"

definition probe_mean_volume_db :: "proc \<Rightarrow> py_error + pyfloat" where
  "probe_mean_volume_db p =
     (case p of
        Proc_timeout \<Rightarrow> Inl TimeoutExpired
      | Proc_missing \<Rightarrow> Inl OSError
      | Finished rc out err \<Rightarrow>
          (case search_volume err of
             None \<Rightarrow> Inl (RuntimeError ''ffmpeg volumedetect failed'')
           | Some matched \<Rightarrow>
               (case py_float matched of
                  None \<Rightarrow> Inl (ValueError ''could not convert string to float'')
                | Some d \<Rightarrow> Inr d)))"

section \<open>The check\<close>

record audio_check_result =
  accepted :: bool
  ac_duration_s :: "pyfloat option"
  ac_mean_volume_db :: "pyfloat option"
  ac_reason :: "reason option"

definition rejected :: "pyfloat option \<Rightarrow> pyfloat option \<Rightarrow> reason \<Rightarrow> audio_check_result" where
  "rejected d v why =
     \<lparr> accepted = False, ac_duration_s = d, ac_mean_volume_db = v, ac_reason = Some why \<rparr>"

text \<open>\<open>except (RuntimeError, ValueError, subprocess.TimeoutExpired)\<close>.\<close>

fun probe_error_caught :: "py_error \<Rightarrow> bool" where
  "probe_error_caught (RuntimeError _) = True"
| "probe_error_caught (ValueError _) = True"
| "probe_error_caught TimeoutExpired = True"
| "probe_error_caught _ = False"

definition check_audio_file :: "proc \<Rightarrow> proc \<Rightarrow> py_error + audio_check_result" where
  "check_audio_file ffprobe ffmpeg =
     (case probe_duration_seconds ffprobe of
        Inl err \<Rightarrow>
          if probe_error_caught err then Inr (rejected None None REASON_BAD_AUDIO) else Inl err
      | Inr d \<Rightarrow>
          if py_less d (audio_min_duration_s get_game_config)
          then Inr (rejected (Some d) None REASON_TOO_SHORT)
          else if py_less (audio_max_duration_s get_game_config) d
          then Inr (rejected (Some d) None REASON_TOO_LONG)
          else case probe_mean_volume_db ffmpeg of
              Inl err \<Rightarrow>
                if probe_error_caught err then Inr (rejected (Some d) None REASON_BAD_AUDIO)
                else Inl err
            | Inr v \<Rightarrow>
                if py_less v (silence_mean_volume_db get_game_config)
                then Inr (rejected (Some d) (Some v) REASON_TOO_QUIET)
                else Inr \<lparr> accepted = True, ac_duration_s = Some d, ac_mean_volume_db = Some v,
                           ac_reason = None \<rparr>)"

section \<open>What acceptance means\<close>

lemma accepted_bounds:
  assumes "check_audio_file ffprobe ffmpeg = Inr r"
  shows "accepted r \<longleftrightarrow> (\<exists>d v. probe_duration_seconds ffprobe = Inr d \<and>
      probe_mean_volume_db ffmpeg = Inr v \<and> r = \<lparr> accepted = True, ac_duration_s = Some d,
        ac_mean_volume_db = Some v, ac_reason = None \<rparr> \<and>
      \<not> py_less d (Fin 1) \<and> \<not> py_less (Fin 8) d \<and> \<not> py_less v (Fin (- 40)))"
  using assms
  by (auto simp: check_audio_file_def rejected_def get_game_config_def split: sum.splits if_splits)

lemma rejection_has_reason:
  "check_audio_file ffprobe ffmpeg = Inr r \<Longrightarrow> accepted r \<longleftrightarrow> ac_reason r = None"
  by (auto simp: check_audio_file_def rejected_def split: sum.splits if_splits)

lemma probe_duration_errors:
  "probe_duration_seconds p = Inl err \<Longrightarrow> probe_error_caught err \<or> (err = OSError \<and> p = Proc_missing)"
  by (auto simp: probe_duration_seconds_def split: proc.splits if_splits option.splits)

lemma probe_volume_errors:
  "probe_mean_volume_db p = Inl err \<Longrightarrow> probe_error_caught err \<or> (err = OSError \<and> p = Proc_missing)"
  by (auto simp: probe_mean_volume_db_def split: proc.splits if_splits option.splits)

text \<open>The check raises exactly when a tool it needs cannot be started.\<close>

lemma check_audio_raises:
  "check_audio_file ffprobe ffmpeg = Inl err \<Longrightarrow>
     err = OSError \<and> (ffprobe = Proc_missing \<or> ffmpeg = Proc_missing)"
  by (auto simp: check_audio_file_def split: sum.splits if_splits
      dest: probe_duration_errors probe_volume_errors)

end
