(* ===== verification/Service.thy ===== *)
theory Service
  imports Store_Interface Audio_Checks "HOL-Library.Word"
begin

text \<open>
  \<open>GameService\<close> (\<open>app/game/service.py\<close>) over the operations of a store: the tables and the audio
  files are its state, a \<open>GameError\<close> is an error value, and an action that raises keeps what it
  wrote before.  Token generation and hashing are arguments (\<open>app/game/tokens.py\<close> calls the
  operating system and SHA-256), and so is the audio checker, as in the constructor.
\<close>

section \<open>State\<close>

record service_state =
  db :: game_db
  files :: "(string, bytes) dict"

definition on_db :: "(game_db, 'a) act \<Rightarrow> (service_state, 'a) act" where
  "on_db m = (\<lambda>s. case m (db s) of (r, g) \<Rightarrow> (r, s\<lparr>db := g\<rparr>))"

definition read_db :: "(game_db \<Rightarrow> 'a) \<Rightarrow> (service_state, 'a) act" where
  "read_db f = (\<lambda>s. (Inr (f (db s)), s))"

definition try_db :: "(game_db \<Rightarrow> py_error + 'a) \<Rightarrow> (service_state, 'a) act" where
  "try_db f = (\<lambda>s. (f (db s), s))"

definition write_file :: "string \<Rightarrow> bytes \<Rightarrow> (service_state, unit) act" where
  "write_file path payload = (\<lambda>s. (Inr (), s\<lparr>files := AList.update path payload (files s)\<rparr>))"

definition unlink_file :: "string \<Rightarrow> (service_state, unit) act" where
  "unlink_file path = (\<lambda>s. (Inr (), s\<lparr>files := AList.delete path (files s)\<rparr>))"

section \<open>Operations\<close>

definition svc_join ::
  "store_ops \<Rightarrow> env \<Rightarrow> (string \<Rightarrow> string) \<Rightarrow> string \<Rightarrow> string \<Rightarrow> string \<Rightarrow> string list
     \<Rightarrow> (service_state, string) act" where
  "svc_join ops e hash_token token nick native common =
     (let cleaned = filter (\<lambda>lang. lang \<noteq> []) (map strip common) in
      if cleaned = [] then throw (GameError 400 ''common_langs must contain at least one language'')
      else bind_act
        (on_db (op_create_player ops e (strip nick) (strip native) cleaned (hash_token token)))
        (\<lambda>_. ret token))"

definition svc_resolve_player ::
  "store_ops \<Rightarrow> (string \<Rightarrow> string) \<Rightarrow> string \<Rightarrow> (service_state, player) act" where
  "svc_resolve_player ops hash_token token =
     (if token = [] then throw (GameError 401 ''missing bearer token'')
      else bind_act (try_db (op_player_by_token_hash ops (hash_token token)))
        (\<lambda>found. case found of
            None \<Rightarrow> throw (GameError 401 ''invalid session token'')
          | Some me \<Rightarrow> ret me))"

definition svc_request_pair :: "store_ops \<Rightarrow> int \<Rightarrow> env \<Rightarrow> player \<Rightarrow> (service_state, string) act" where
  "svc_request_pair ops rounds_cap e me =
     bind_act (try_db (op_player_stats ops (p_id me))) (\<lambda>stats.
     if rounds_cap \<le> int (rounds_played stats)
     then throw (GameError 409 ''session round cap reached'')
     else bind_act (read_db (op_get_active_pair ops (p_id me))) (\<lambda>existing.
     if existing \<noteq> None then ret ''matched''
     else bind_act (on_db (op_enqueue_player ops e (p_id me))) (\<lambda>_.
     bind_act (on_db (op_try_match ops e (p_id me))) (\<lambda>p.
     ret (if p \<noteq> None then ''matched'' else ''queued'')))))"

definition svc_require_speaker_turn ::
  "store_ops \<Rightarrow> player \<Rightarrow> turn_status \<Rightarrow> (service_state, turn) act" where
  "svc_require_speaker_turn ops me expected_status =
     bind_act (read_db (op_get_active_pair ops (p_id me))) (\<lambda>found.
     case found of
       None \<Rightarrow> throw (GameError 409 ''not paired'')
     | Some p \<Rightarrow>
         bind_act (read_db (op_get_latest_turn ops (pr_id p))) (\<lambda>latest.
         case latest of
           None \<Rightarrow> throw (GameError 409 ''no active turn'')
         | Some t \<Rightarrow>
             if speaker_id t \<noteq> p_id me then throw (GameError 409 ''not the speaker for this turn'')
             else if t_status t \<noteq> expected_status
             then throw (GameError 409 (''turn is not '' @ turn_status_str expected_status))
             else ret t))"

text \<open>
  \<open>upload_audio\<close>: the reply is the reason to record again, or \<open>None\<close> for \<open>ok\<close>.  The checker
  reads the file just written.
\<close>

definition audio_rel_path :: "uuid \<Rightarrow> string" where
  "audio_rel_path i = ''audio/'' @ uuid_str i @ ''.webm''"

definition svc_upload_audio ::
  "store_ops \<Rightarrow> env \<Rightarrow> (bytes \<Rightarrow> py_error + audio_check_result) \<Rightarrow> player \<Rightarrow> bytes
     \<Rightarrow> (service_state, reason option) act" where
  "svc_upload_audio ops e checker me payload =
     (if max_audio_bytes get_game_config < int (length payload) then ret (Some REASON_TOO_LARGE)
      else bind_act (svc_require_speaker_turn ops me Awaiting_audio) (\<lambda>t.
      let rel_path = audio_rel_path (t_id t) in
      bind_act (write_file rel_path payload) (\<lambda>_.
      bind_act (try_db (\<lambda>_. checker payload)) (\<lambda>result.
      if \<not> accepted result
      then bind_act (unlink_file rel_path) (\<lambda>_. ret (ac_reason result))
      else bind_act (on_db (op_accept_audio ops (t_id t) (py_replace_backslash rel_path)
             (case ac_duration_s result of None \<Rightarrow> Fin 0 | Some d \<Rightarrow> d))) (\<lambda>_.
      bind_act (on_db (op_enqueue_job ops e Triage (t_id t))) (\<lambda>_.
      ret None))))))"

definition svc_confirm_label :: "store_ops \<Rightarrow> player \<Rightarrow> (service_state, string) act" where
  "svc_confirm_label ops me =
     bind_act (svc_require_speaker_turn ops me Awaiting_label_confirm) (\<lambda>t.
     bind_act (on_db (op_confirm_label ops (t_id t))) (\<lambda>_. ret ''ok''))"

text \<open>
  \<open>_after_scored\<close>: the turn is read again for its quality and the package job inserted when there
  is one; then the pair is completed at the cap, or the roles swap on a new card.
\<close>

definition svc_enqueue_package :: "store_ops \<Rightarrow> env \<Rightarrow> turn \<Rightarrow> (service_state, unit) act" where
  "svc_enqueue_package ops e t =
     bind_act (read_db (op_get_turn ops (t_id t))) (\<lambda>fresh.
     case fresh of
       None \<Rightarrow> ret ()
     | Some u \<Rightarrow>
         if quality u = None then ret ()
         else bind_act (on_db (op_enqueue_job ops e Package (t_id t))) (\<lambda>_. ret ()))"

definition svc_advance :: "store_ops \<Rightarrow> int \<Rightarrow> env \<Rightarrow> turn \<Rightarrow> (service_state, unit) act" where
  "svc_advance ops rounds_cap e t =
     bind_act (on_db (op_complete_pair_if_capped ops (t_pair_id t) rounds_cap)) (\<lambda>done_playing.
     if done_playing then ret ()
     else bind_act (read_db (op_pick_card_for_pair ops e (t_pair_id t))) (\<lambda>picked.
     case picked of
       None \<Rightarrow> ret ()
     | Some c \<Rightarrow>
         bind_act (on_db (op_create_turn ops e (t_pair_id t) (guesser_id t) (speaker_id t) (c_id c)))
           (\<lambda>_. ret ())))"

definition svc_after_scored :: "store_ops \<Rightarrow> int \<Rightarrow> env \<Rightarrow> turn \<Rightarrow> (service_state, unit) act" where
  "svc_after_scored ops rounds_cap e t =
     bind_act (svc_enqueue_package ops e t) (\<lambda>_. svc_advance ops rounds_cap e t)"

definition svc_guess ::
  "store_ops \<Rightarrow> int \<Rightarrow> env \<Rightarrow> player \<Rightarrow> uuid \<Rightarrow> (service_state, string) act" where
  "svc_guess ops rounds_cap e me option_id =
     bind_act (read_db (op_get_active_pair ops (p_id me))) (\<lambda>found.
     case found of
       None \<Rightarrow> throw (GameError 409 ''not paired'')
     | Some p \<Rightarrow>
         bind_act (read_db (op_get_latest_turn ops (pr_id p))) (\<lambda>latest.
         case latest of
           None \<Rightarrow> throw (GameError 409 ''not the guesser for this turn'')
         | Some t \<Rightarrow>
             if guesser_id t \<noteq> p_id me then throw (GameError 409 ''not the guesser for this turn'')
             else if t_status t \<noteq> Awaiting_guess
             then throw (GameError 409 ''turn is not awaiting a guess'')
             else bind_act (on_db (op_apply_guess ops (t_id t) (option_id = t_card_id t))) (\<lambda>updated.
               bind_act (if t_status updated = Scored then svc_after_scored ops rounds_cap e updated
                         else ret ()) (\<lambda>_. ret ''ok''))))"

text \<open>\<open>limit = top or default\<close>: zero asks for the default.\<close>

definition svc_leaderboard ::
  "store_ops \<Rightarrow> nat option \<Rightarrow> (service_state, leaderboard_row list) act" where
  "svc_leaderboard ops wanted =
     try_db (op_leaderboard ops
       (case wanted of None \<Rightarrow> leaderboard_default_top get_game_config
        | Some n \<Rightarrow> if n = 0 then leaderboard_default_top get_game_config else n))"

lemmas svc_unfold = bind_act_def on_db_def read_db_def try_db_def write_file_def unlink_file_def

end
