(* ===== verification/Service_Laws.thy ===== *)
theory Service_Laws
  imports Service
begin

text \<open>
  What the service guarantees over any store that keeps the protocol: every request preserves
  the invariants of the tables, whether it succeeds or raises, and the effect of each request
  is the reference transition of the turn it is about.
\<close>

section \<open>Effects of the requests\<close>

definition svc_inv :: "(string \<Rightarrow> string) \<Rightarrow> service_state \<Rightarrow> bool" where
  "svc_inv nf s \<longleftrightarrow> game_inv nf (db s) \<and> matching_ok (db s)"

text \<open>A pending job of a kind and turn, added unless there is one already.\<close>

definition ensure_job :: "job_kind \<Rightarrow> uuid \<Rightarrow> game_db \<Rightarrow> game_db \<Rightarrow> bool" where
  "ensure_job kind i g g' \<longleftrightarrow>
     (if \<exists>j \<in> set (jobs g). j_kind j = kind \<and> j_turn_id j = i then g' = g
      else \<exists>j. g' = add_job j g \<and> j_kind j = kind \<and> j_turn_id j = i \<and> j_status j = Job_pending
        \<and> tries j = 0)"

text \<open>After a turn is scored: package job, then the end of the session or the next turn.\<close>

definition next_round :: "int \<Rightarrow> env \<Rightarrow> turn \<Rightarrow> pair \<Rightarrow> game_db \<Rightarrow> game_db \<Rightarrow> bool" where
  "next_round cap e t p g g' \<longleftrightarrow>
     (if capped cap p g then g' = put_pair (p\<lparr>pr_status := Completed\<rparr>) g
      else if live_cards g = [] then g' = g
      else \<exists>c \<in> set (live_cards g). g' = put_turn
        (mk_turn (new_turn e) (pr_id p) (guesser_id t) (speaker_id t) (c_id c) (clock e At_turn)) g)"

definition scored_round :: "int \<Rightarrow> env \<Rightarrow> turn \<Rightarrow> pair \<Rightarrow> game_db \<Rightarrow> game_db \<Rightarrow> bool" where
  "scored_round cap e t p g g' \<longleftrightarrow>
     (\<exists>g1. (if quality t = None then g1 = g else ensure_job Package (t_id t) g g1)
        \<and> next_round cap e t p g1 g')"

lemma ensure_job_frame:
  assumes "ensure_job kind i g g'"
  shows "turns g' = turns g" "pairs g' = pairs g" "players g' = players g" "cards g' = cards g"
    "decks g' = decks g" "queue g' = queue g"
    "\<exists>j \<in> set (jobs g'). j_kind j = kind \<and> j_turn_id j = i"
  using assms by (auto simp: ensure_job_def split: if_splits)

lemma ensure_job_inv:
  assumes "game_inv nf g" and "ensure_job kind i g g'" and "\<And>j. j_kind j = kind \<Longrightarrow> j_turn_id j = i \<Longrightarrow> job_ok g j"
  shows "game_inv nf g'"
  using assms by (auto simp: ensure_job_def intro!: inv_add_job split: if_splits)

lemma matching_ok_complete:
  assumes m: "matching_ok g" and p: "map_of (pairs g) (pr_id p) = Some p"
  shows "matching_ok (put_pair (p\<lparr>pr_status := Completed\<rparr>) g)"
proof -
  let ?h = "put_pair (p\<lparr>pr_status := Completed\<rparr>) g"
  have act: "map_of (pairs ?h) k = Some q \<and> pr_status q = Active \<Longrightarrow> map_of (pairs g) k = Some q" for k q
    by (auto split: if_splits)
  have "in_active ?h x \<Longrightarrow> in_active g x" for x unfolding in_active_def using act by blast
  then have "\<forall>x \<in> set (keys (queue ?h)). \<not> in_active ?h x \<and> x \<in> dom (map_of (players ?h))"
    using m unfolding matching_ok_def put_simps by blast
  moreover have "\<forall>i q j r x. map_of (pairs ?h) i = Some q \<longrightarrow> map_of (pairs ?h) j = Some r \<longrightarrow>
      pr_status q = Active \<longrightarrow> pr_status r = Active \<longrightarrow> is_member x q \<longrightarrow> is_member x r \<longrightarrow> i = j"
    using m act unfolding matching_ok_def by blast
  ultimately show ?thesis unfolding matching_ok_def by blast
qed

lemma live_card_stored:
  assumes "game_inv nf g" and "c \<in> set (live_cards g)"
  shows "map_of (cards g) (c_id c) = Some c"
  using assms keyed_vals_iff [OF inv_keyed(3) [OF assms(1)]] by (auto simp: live_cards_def)

lemma next_round_inv:
  assumes inv: "game_inv nf g" and m: "matching_ok g" and step: "next_round cap e t p g g'"
    and p: "map_of (pairs g) (pr_id p) = Some p" and t: "roles_ok p t"
    and fresh: "map_of (turns g) (new_turn e) = None"
    and none: "\<And>j u. map_of (turns g) j = Some u \<Longrightarrow> t_pair_id u = pr_id p \<Longrightarrow> \<not> is_open u"
  shows "game_inv nf g' \<and> matching_ok g'"
proof -
  have new: "game_inv nf (put_turn (mk_turn (new_turn e) (pr_id p) (guesser_id t) (speaker_id t) c tm) g)" for c tm
    using t by (intro inv_put_turn_new [OF inv fresh p]) (auto simp: roles_ok_def none)
  show ?thesis
    using step inv m new inv_put_pair_status [OF inv p] matching_ok_complete [OF m p]
    by (auto simp: next_round_def intro: matching_ok_frame split: if_splits)
qed

section \<open>Requests over a store\<close>

context game_store
begin

lemma require_speaker_turn:
  assumes inv: "game_inv nf (db s)" and run: "svc_require_speaker_turn ops me st s = (r, s')"
  shows "s' = s" and "r = Inr t \<Longrightarrow> map_of (turns (db s)) (t_id t) = Some t \<and> t_status t = st
    \<and> speaker_id t = p_id me \<and> (\<exists>p. map_of (pairs (db s)) (t_pair_id t) = Some p \<and> pr_status p = Active)"
proof -
  show "s' = s"
    using run by (auto simp: svc_require_speaker_turn_def svc_unfold split: option.splits if_splits)
  assume r: "r = Inr t"
  then obtain p where p: "op_get_active_pair ops (p_id me) (db s) = Some p"
      "op_get_latest_turn ops (pr_id p) (db s) = Some t" "speaker_id t = p_id me" "t_status t = st"
    using run by (auto simp: svc_require_speaker_turn_def svc_unfold split: option.splits if_splits)
  then show "map_of (turns (db s)) (t_id t) = Some t \<and> t_status t = st
    \<and> speaker_id t = p_id me \<and> (\<exists>p. map_of (pairs (db s)) (t_pair_id t) = Some p \<and> pr_status p = Active)"
    using active_pair_Some [OF inv p(1)] latest_turn_Some [OF inv p(2)] by auto
qed

lemma ensure_job_op:
  "\<exists>b g'. op_enqueue_job ops e kind i g = (Inr b, g') \<and> ensure_job kind i g g'"
proof (cases "\<exists>j \<in> set (jobs g). j_kind j = kind \<and> j_turn_id j = i")
  case True
  then show ?thesis using enqueue_job_old by (auto simp: ensure_job_def)
next
  case False
  then have "(j_kind j, j_turn_id j) \<noteq> (kind, i)" if "j \<in> set (jobs g)" for j using that by auto
  from enqueue_job_new [OF this] obtain j where
    "op_enqueue_job ops e kind i g = (Inr True, add_job j g)" "j_kind j = kind" "j_turn_id j = i"
    "j_status j = Job_pending" "tries j = 0" by blast
  then show ?thesis using False by (auto simp: ensure_job_def)
qed

lemma join_spec:
  assumes inv: "svc_inv nf s" and fresh: "fresh_env e (db s)"
    and run: "svc_join ops e hash_token token nick native common s = (r, s')"
  shows "svc_inv nf s'" and "r = Inl err \<Longrightarrow> s' = s"
    and "r = Inr tok \<Longrightarrow> tok = token \<and> (\<exists>p. s' = s\<lparr>db := put_player p (db s)\<rparr> \<and> p_id p = new_player e
      \<and> session_token_hash p = hash_token token \<and> native_lang p = strip native
      \<and> common_langs p = filter (\<lambda>l. l \<noteq> []) (map strip common))"
proof -
  have i: "game_inv nf (db s)" "matching_ok (db s)" using inv by (simp_all add: svc_inv_def)
  let ?com = "filter (\<lambda>l. l \<noteq> []) (map strip common)"
  have "svc_inv nf s' \<and> (r = Inl err \<longrightarrow> s' = s) \<and> (r = Inr tok \<longrightarrow> tok = token \<and>
      (\<exists>p. s' = s\<lparr>db := put_player p (db s)\<rparr> \<and> p_id p = new_player e
      \<and> session_token_hash p = hash_token token \<and> native_lang p = strip native \<and> common_langs p = ?com))"
  proof (cases "?com = []")
    case True
    then show ?thesis using run inv by (auto simp: svc_join_def)
  next
    case False
    obtain r1 g1 where op: "op_create_player ops e (strip nick) (strip native) ?com (hash_token token) (db s) = (r1, g1)"
      by (cases "op_create_player ops e (strip nick) (strip native) ?com (hash_token token) (db s)")
    have run': "(r, s') = (case r1 of Inl err \<Rightarrow> (Inl err, s\<lparr>db := g1\<rparr>) | Inr _ \<Rightarrow> (Inr token, s\<lparr>db := g1\<rparr>))"
      using run False op by (simp add: svc_join_def svc_unfold Let_def split: sum.splits)
    consider err' where "r1 = Inl err'" "g1 = db s"
      | p q where "r1 = Inr q" "g1 = put_player p (db s)" "p_id p = new_player e"
        "session_token_hash p = hash_token token" "native_lang p = strip native" "common_langs p = ?com"
        "1 \<le> length (nickname p)" "length (nickname p) \<le> NICKNAME_MAX_LEN"
        "\<And>i q. map_of (players (db s)) i = Some q \<Longrightarrow> nf (nickname q) \<noteq> nf (nickname p)"
      using create_player [OF i(1) fresh op] by blast
    then show ?thesis
    proof cases
      case 1
      then show ?thesis using run' inv by simp
    next
      case 2
      have "game_inv nf g1"
        unfolding 2(2) using 2 fresh by (intro inv_put_player [OF i(1)]) (auto simp: fresh_env_def)
      moreover have "matching_ok g1"
        using i(2) 2(2) unfolding matching_ok_def in_active_def by auto
      ultimately show ?thesis using run' 2 by (auto simp: svc_inv_def)
    qed
  qed
  then show "svc_inv nf s'" "r = Inl err \<Longrightarrow> s' = s"
    "r = Inr tok \<Longrightarrow> tok = token \<and> (\<exists>p. s' = s\<lparr>db := put_player p (db s)\<rparr> \<and> p_id p = new_player e
      \<and> session_token_hash p = hash_token token \<and> native_lang p = strip native
      \<and> common_langs p = filter (\<lambda>l. l \<noteq> []) (map strip common))" by simp_all
qed

lemma resolve_player_spec:
  assumes inv: "svc_inv nf s" and run: "svc_resolve_player ops hash_token token s = (r, s')"
  shows "s' = s" and "r = Inr me \<Longrightarrow> \<exists>row. map_of (players (db s)) (p_id me) = Some row
    \<and> session_token_hash row = hash_token token"
proof -
  show "s' = s"
    using run by (auto simp: svc_resolve_player_def svc_unfold split: if_splits sum.splits option.splits)
  assume "r = Inr me"
  then have "op_player_by_token_hash ops (hash_token token) (db s) = Inr (Some me)"
    using run by (auto simp: svc_resolve_player_def svc_unfold split: if_splits sum.splits option.splits)
  then show "\<exists>row. map_of (players (db s)) (p_id me) = Some row \<and> session_token_hash row = hash_token token"
    using player_by_token inv unfolding svc_inv_def by blast
qed

text \<open>Enqueueing a player who has no active pair keeps the matchmaking invariant.\<close>

lemma enqueue_inv:
  assumes "game_inv nf g" and "matching_ok g" and "map_of (players g) i \<noteq> None" and "\<not> in_active g i"
  shows "game_inv nf (g\<lparr>queue := AList.update i tm (queue g)\<rparr>)
    \<and> matching_ok (g\<lparr>queue := AList.update i tm (queue g)\<rparr>)"
proof
  show "game_inv nf (g\<lparr>queue := AList.update i tm (queue g)\<rparr>)"
    using inv_keyed(5) [OF assms(1)] by (intro inv_queue [OF assms(1)]) simp
  show "matching_ok (g\<lparr>queue := AList.update i tm (queue g)\<rparr>)"
    using keys_update_set [of i tm "queue g"] assms(3,4)
    by (intro matching_ok_queue [OF assms(2)]) auto
qed

lemma request_pair_spec:
  assumes inv: "svc_inv nf s" and fresh: "fresh_env e (db s)"
    and me: "map_of (players (db s)) (p_id me) \<noteq> None"
    and run: "svc_request_pair ops cap e me s = (r, s')"
  shows "svc_inv nf s' \<and>
    (if cap \<le> int (rounds_of (p_id me) (db s))
     then s' = s \<and> r = Inl (GameError 409 ''session round cap reached'')
     else if in_active (db s) (p_id me) then s' = s \<and> r = Inr ''matched''
     else \<exists>found g'. s' = s\<lparr>db := g'\<rparr> \<and> r = Inr (if found \<noteq> None then ''matched'' else ''queued'')
       \<and> match_step e (p_id me)
           (db s\<lparr>queue := AList.update (p_id me) (clock e At_enqueue) (queue (db s))\<rparr>) (Inr found) g')"
proof -
  let ?i = "p_id me"
  let ?g = "db s\<lparr>queue := AList.update ?i (clock e At_enqueue) (queue (db s))\<rparr>"
  have i: "game_inv nf (db s)" "matching_ok (db s)" using inv by (simp_all add: svc_inv_def)
  obtain st where st: "op_player_stats ops ?i (db s) = Inr st" "rounds_played st = rounds_of ?i (db s)"
    using player_stats [OF i(1) me] by blast
  consider (cap) "cap \<le> int (rounds_of ?i (db s))"
    | (old) p where "\<not> cap \<le> int (rounds_of ?i (db s))" "op_get_active_pair ops ?i (db s) = Some p"
    | (idle) "\<not> cap \<le> int (rounds_of ?i (db s))" "op_get_active_pair ops ?i (db s) = None"
    by (cases "op_get_active_pair ops ?i (db s)") auto
  then show ?thesis
  proof cases
    case cap
    then show ?thesis using run st inv by (simp add: svc_request_pair_def svc_unfold throw_def)
  next
    case old
    then have "in_active (db s) ?i" using active_pair_None [OF i(1), of ?i] by simp
    then show ?thesis using run st inv old by (simp add: svc_request_pair_def svc_unfold ret_def)
  next
    case idle
    then have free: "\<not> in_active (db s) ?i" using active_pair_None [OF i(1)] by simp
    obtain rm g' where tm: "op_try_match ops e ?i ?g = (rm, g')" by (cases "op_try_match ops e ?i ?g")
    have g: "game_inv nf ?g" "matching_ok ?g" using enqueue_inv [OF i me free] by auto
    have f: "fresh_env e ?g" "map_of (players ?g) ?i \<noteq> None"
      using fresh me by (simp_all add: fresh_env_def)
    have step: "match_step e ?i ?g rm g'" by (rule try_match [OF g f tm])
    obtain found where found: "rm = Inr found" using step by (auto simp: match_step_def)
    have run': "r = Inr (if found \<noteq> None then ''matched'' else ''queued'')" "s' = s\<lparr>db := g'\<rparr>"
      using run st idle tm found enqueue_player [OF me] by (auto simp: svc_request_pair_def svc_unfold ret_def)
    have "svc_inv nf s'" using match_step_inv [OF g f(1) step f(2)] run' by (simp add: svc_inv_def)
    then show ?thesis using run' step found idle(1) free by auto
  qed
qed

lemma confirm_label_spec:
  assumes inv: "svc_inv nf s" and run: "svc_confirm_label ops me s = (r, s')"
  shows "(\<exists>err. r = Inl err \<and> s' = s) \<or>
    (\<exists>t. r = Inr ''ok'' \<and> map_of (turns (db s)) (t_id t) = Some t \<and> speaker_id t = p_id me
       \<and> t_status t = Awaiting_label_confirm
       \<and> s' = s\<lparr>db := put_turn (t\<lparr>t_status := Awaiting_guess\<rparr>) (db s)\<rparr>)"
    and "svc_inv nf s'"
proof -
  have i: "game_inv nf (db s)" "matching_ok (db s)" using inv by (simp_all add: svc_inv_def)
  obtain r1 s1 where req: "svc_require_speaker_turn ops me Awaiting_label_confirm s = (r1, s1)"
    by (cases "svc_require_speaker_turn ops me Awaiting_label_confirm s")
  have s1: "s1 = s" by (rule require_speaker_turn(1) [OF i(1) req])
  have "((\<exists>err. r = Inl err \<and> s' = s) \<or>
    (\<exists>t. r = Inr ''ok'' \<and> map_of (turns (db s)) (t_id t) = Some t \<and> speaker_id t = p_id me
       \<and> t_status t = Awaiting_label_confirm
       \<and> s' = s\<lparr>db := put_turn (t\<lparr>t_status := Awaiting_guess\<rparr>) (db s)\<rparr>)) \<and> svc_inv nf s'"
  proof (cases r1)
    case (Inl err)
    then show ?thesis using run req s1 inv by (auto simp: svc_confirm_label_def bind_act_def)
  next
    case (Inr t)
    note t = require_speaker_turn(2) [OF i(1) req Inr]
    have op: "op_confirm_label ops (t_id t) (db s) =
        (Inr (t\<lparr>t_status := Awaiting_guess\<rparr>), put_turn (t\<lparr>t_status := Awaiting_guess\<rparr>) (db s))"
      using confirm_label t by blast
    have "r = Inr ''ok''" "s' = s\<lparr>db := put_turn (t\<lparr>t_status := Awaiting_guess\<rparr>) (db s)\<rparr>"
      using run req s1 Inr op by (simp_all add: svc_confirm_label_def svc_unfold)
    moreover have "game_inv nf (put_turn (t\<lparr>t_status := Awaiting_guess\<rparr>) (db s))"
      using inv_confirm [OF i(1)] t by blast
    ultimately show ?thesis using t i(2) by (auto simp: svc_inv_def intro: matching_ok_frame)
  qed
  then show "(\<exists>err. r = Inl err \<and> s' = s) \<or>
    (\<exists>t. r = Inr ''ok'' \<and> map_of (turns (db s)) (t_id t) = Some t \<and> speaker_id t = p_id me
       \<and> t_status t = Awaiting_label_confirm
       \<and> s' = s\<lparr>db := put_turn (t\<lparr>t_status := Awaiting_guess\<rparr>) (db s)\<rparr>)"
    and "svc_inv nf s'" by simp_all
qed

text \<open>An accepted upload: the audio is stored, the turn advanced, a triage job waits.\<close>

lemma upload_audio_spec:
  assumes inv: "svc_inv nf s" and run: "svc_upload_audio ops e checker me payload s = (r, s')"
  shows "(db s' = db s \<and> r \<noteq> Inr None) \<or>
    (\<exists>t res d. r = Inr None \<and> map_of (turns (db s)) (t_id t) = Some t \<and> speaker_id t = p_id me
       \<and> t_status t = Awaiting_audio \<and> checker payload = Inr res \<and> accepted res
       \<and> int (length payload) \<le> max_audio_bytes get_game_config
       \<and> map_of (files s') (audio_rel_path (t_id t)) = Some payload
       \<and> ensure_job Triage (t_id t)
           (put_turn (take_audio (py_replace_backslash (audio_rel_path (t_id t))) d t) (db s)) (db s'))
    \<or> (\<exists>res. checker payload = Inr res \<and> \<not> accepted res \<and> ac_reason res = None)"
    and "svc_inv nf s'"
proof -
  have i: "game_inv nf (db s)" "matching_ok (db s)" using inv by (simp_all add: svc_inv_def)
  let ?res = "(db s' = db s \<and> r \<noteq> Inr None) \<or>
    (\<exists>t res d. r = Inr None \<and> map_of (turns (db s)) (t_id t) = Some t \<and> speaker_id t = p_id me
       \<and> t_status t = Awaiting_audio \<and> checker payload = Inr res \<and> accepted res
       \<and> int (length payload) \<le> max_audio_bytes get_game_config
       \<and> map_of (files s') (audio_rel_path (t_id t)) = Some payload
       \<and> ensure_job Triage (t_id t)
           (put_turn (take_audio (py_replace_backslash (audio_rel_path (t_id t))) d t) (db s)) (db s'))
    \<or> (\<exists>res. checker payload = Inr res \<and> \<not> accepted res \<and> ac_reason res = None)"
  have "?res \<and> svc_inv nf s'"
  proof (cases "max_audio_bytes get_game_config < int (length payload)")
    case True
    then show ?thesis using run inv by (auto simp: svc_upload_audio_def)
  next
    case small: False
    obtain r1 s1 where req: "svc_require_speaker_turn ops me Awaiting_audio s = (r1, s1)"
      by (cases "svc_require_speaker_turn ops me Awaiting_audio s")
    have s1: "s1 = s" by (rule require_speaker_turn(1) [OF i(1) req])
    show ?thesis
    proof (cases r1)
      case (Inl err)
      then show ?thesis using run req s1 inv small by (auto simp: svc_upload_audio_def bind_act_def)
    next
      case (Inr t)
      note t = require_speaker_turn(2) [OF i(1) req Inr]
      let ?path = "audio_rel_path (t_id t)"
      let ?s2 = "s\<lparr>files := AList.update ?path payload (files s)\<rparr>"
      show ?thesis
      proof (cases "checker payload")
        case (Inl err)
        then show ?thesis using run req s1 Inr small inv
          by (auto simp: svc_upload_audio_def svc_unfold Let_def svc_inv_def)
      next
        case res: (Inr res)
        show ?thesis
        proof (cases "accepted res")
          case False
          then have "r = Inr (ac_reason res)" "db s' = db s"
            using run req s1 Inr res small by (auto simp: svc_upload_audio_def svc_unfold Let_def)
          then show ?thesis using res False inv by (auto simp: svc_inv_def)
        next
          case True
          define d where "d = dur (case ac_duration_s res of None \<Rightarrow> Fin 0 | Some d \<Rightarrow> d)"
          let ?g = "put_turn (take_audio (py_replace_backslash ?path) d t) (db s)"
          have op: "op_accept_audio ops (t_id t) (py_replace_backslash ?path)
              (case ac_duration_s res of None \<Rightarrow> Fin 0 | Some d \<Rightarrow> d) (db s)
              = (Inr (take_audio (py_replace_backslash ?path) d t), ?g)"
            using accept_audio t unfolding d_def by blast
          obtain b g' where job: "op_enqueue_job ops e Triage (t_id t) ?g = (Inr b, g')"
              "ensure_job Triage (t_id t) ?g g'"
            using ensure_job_op by blast
          have rs: "r = Inr None" "s' = ?s2\<lparr>db := g'\<rparr>"
            using run req s1 Inr res small True op job
            by (simp_all add: svc_upload_audio_def svc_unfold Let_def)
          have "game_inv nf ?g" using inv_take_audio [OF i(1)] t by blast
          then have "game_inv nf g'"
            by (rule ensure_job_inv [OF _ job(2)]) (simp add: job_ok_def)
          moreover have "matching_ok g'"
            using i(2) ensure_job_frame [OF job(2)] by (auto intro: matching_ok_frame)
          moreover have "map_of (files s') ?path = Some payload" using rs by simp
          ultimately show ?thesis using rs job t res True small
            by (auto simp: svc_inv_def not_less)
        qed
      qed
    qed
  qed
  then show "?res" "svc_inv nf s'" by simp_all
qed

lemma enqueue_package_spec:
  assumes inv: "game_inv nf (db s)" and t: "map_of (turns (db s)) (t_id t) = Some t" "t_status t = Scored"
  shows "\<exists>g1. svc_enqueue_package ops e t s = (Inr (), s\<lparr>db := g1\<rparr>) \<and> game_inv nf g1
    \<and> (if quality t = None then g1 = db s else ensure_job Package (t_id t) (db s) g1)"
proof (cases "quality t = None")
  case True
  then show ?thesis using inv t get_turn by (auto simp: svc_enqueue_package_def svc_unfold)
next
  case False
  obtain b g1 where job: "op_enqueue_job ops e Package (t_id t) (db s) = (Inr b, g1)"
      "ensure_job Package (t_id t) (db s) g1"
    using ensure_job_op by blast
  have "game_inv nf g1" by (rule ensure_job_inv [OF inv job(2)]) (use t False in \<open>simp add: job_ok_def\<close>)
  then show ?thesis using job False t get_turn by (auto simp: svc_enqueue_package_def svc_unfold)
qed

lemma advance_spec:
  assumes inv: "game_inv nf (db s)"
    and p: "map_of (pairs (db s)) (t_pair_id t) = Some p" "pr_status p = Active" and roles: "roles_ok p t"
    and fresh: "map_of (turns (db s)) (new_turn e) = None"
  shows "\<exists>g'. svc_advance ops cap e t s = (Inr (), s\<lparr>db := g'\<rparr>) \<and> next_round cap e t p (db s) g'"
proof -
  have pid: "pr_id p = t_pair_id t" by (rule inv_pair(2) [OF inv p(1)])
  note cp = complete_pair [OF inv p, of cap]
  show ?thesis
  proof (cases "capped cap p (db s)")
    case True
    then show ?thesis using cp by (auto simp: svc_advance_def svc_unfold next_round_def)
  next
    case uncapped: False
    show ?thesis
    proof (cases "op_pick_card_for_pair ops e (t_pair_id t) (db s)")
      case None
      then have "live_cards (db s) = []" using pick_card_None by blast
      then show ?thesis using cp uncapped None
        by (auto simp: svc_advance_def svc_unfold next_round_def)
    next
      case (Some c)
      note c = pick_card_Some [OF Some]
      have stored: "map_of (cards (db s)) (c_id c) \<noteq> None" using live_card_stored [OF inv] c by auto
      obtain a b where ab: "map_of (players (db s)) (player_a p) = Some a"
          "map_of (players (db s)) (player_b p) = Some b"
        using inv_pair(1) [OF inv p(1)] by (auto simp: pair_ok_def)
      have "player_a p \<noteq> player_b p" by (rule pair_ok_distinct [OF inv_pair(1) [OF inv p(1)]])
      then have pl: "guesser_id t \<noteq> speaker_id t" "map_of (players (db s)) (speaker_id t) \<noteq> None"
          "map_of (players (db s)) (guesser_id t) \<noteq> None"
        using roles ab by (auto simp: roles_ok_def)
      have "map_of (pairs (db s)) (t_pair_id t) \<noteq> None" using p by simp
      from create_turn [OF fresh this pl(1,3,2) stored]
      have "svc_advance ops cap e t s = (Inr (), s\<lparr>db := put_turn (mk_turn (new_turn e) (t_pair_id t)
          (guesser_id t) (speaker_id t) (c_id c) (clock e At_turn)) (db s)\<rparr>)"
        using cp uncapped Some by (simp add: svc_advance_def svc_unfold)
      then show ?thesis using c uncapped pid by (auto simp: next_round_def)
    qed
  qed
qed

lemma after_scored_spec:
  assumes inv: "game_inv nf (db s)" and m: "matching_ok (db s)"
    and t: "map_of (turns (db s)) (t_id t) = Some t" "t_status t = Scored"
    and p: "map_of (pairs (db s)) (t_pair_id t) = Some p" "pr_status p = Active"
    and fresh: "map_of (turns (db s)) (new_turn e) = None"
    and none: "\<And>j u. map_of (turns (db s)) j = Some u \<Longrightarrow> t_pair_id u = t_pair_id t \<Longrightarrow> \<not> is_open u"
  shows "\<exists>g'. svc_after_scored ops cap e t s = (Inr (), s\<lparr>db := g'\<rparr>)
    \<and> scored_round cap e t p (db s) g' \<and> game_inv nf g' \<and> matching_ok g'"
proof -
  have pid: "pr_id p = t_pair_id t" by (rule inv_pair(2) [OF inv p(1)])
  have roles: "roles_ok p t" using inv_turn(3) [OF inv t(1)] p(1) by auto
  obtain g1 where g1: "svc_enqueue_package ops e t s = (Inr (), s\<lparr>db := g1\<rparr>)" "game_inv nf g1"
      "if quality t = None then g1 = db s else ensure_job Package (t_id t) (db s) g1"
    using enqueue_package_spec [OF inv t] by blast
  have fr: "turns g1 = turns (db s)" "pairs g1 = pairs (db s)" "players g1 = players (db s)"
      "queue g1 = queue (db s)"
    using g1(3) by (auto dest: ensure_job_frame split: if_splits)
  have m1: "matching_ok g1" by (rule matching_ok_frame [OF m]) (simp_all add: fr)
  obtain g' where g': "svc_advance ops cap e t (s\<lparr>db := g1\<rparr>) = (Inr (), s\<lparr>db := g'\<rparr>)"
      "next_round cap e t p g1 g'"
    using advance_spec [of "s\<lparr>db := g1\<rparr>" t p e cap] g1(2) p roles fresh fr by auto
  have "game_inv nf g' \<and> matching_ok g'"
    using p pid fr fresh none
    by (intro next_round_inv [OF g1(2) m1 g'(2) _ roles]) auto
  moreover have "scored_round cap e t p (db s) g'" unfolding scored_round_def using g1(3) g'(2) by blast
  ultimately show ?thesis using g1(1) g'(1) by (auto simp: svc_after_scored_def bind_act_def)
qed

text \<open>
  A guess is refused, or it is the current guesser's on the turn waiting for it: one attempt is
  counted, and when that scores the turn the round ends.
\<close>

lemma guess_runs:
  assumes inv: "svc_inv nf s" and fresh: "map_of (turns (db s)) (new_turn e) = None"
    and pt: "op_get_active_pair ops (p_id me) (db s) = Some p"
      "op_get_latest_turn ops (pr_id p) (db s) = Some t" "guesser_id t = p_id me" "t_status t = Awaiting_guess"
  shows "\<exists>g'. svc_guess ops cap e me option_id s = (Inr ''ok'', s\<lparr>db := g'\<rparr>)
    \<and> map_of (turns (db s)) (t_id t) = Some t \<and> map_of (pairs (db s)) (t_pair_id t) = Some p
    \<and> pr_status p = Active \<and> svc_inv nf (s\<lparr>db := g'\<rparr>)
    \<and> (if t_status (take_guess (option_id = t_card_id t) t) = Scored
       then scored_round cap e (take_guess (option_id = t_card_id t) t) p
              (guess_db (option_id = t_card_id t) t (db s)) g'
       else g' = guess_db (option_id = t_card_id t) t (db s))"
proof -
  have i: "game_inv nf (db s)" "matching_ok (db s)" using inv by (simp_all add: svc_inv_def)
  have p: "map_of (pairs (db s)) (t_pair_id t) = Some p" "pr_status p = Active"
    and t: "map_of (turns (db s)) (t_id t) = Some t"
    using active_pair_Some [OF i(1) pt(1)] latest_turn_Some [OF i(1) pt(2)] by auto
  let ?c = "option_id = t_card_id t"
  let ?u = "take_guess ?c t" and ?g = "guess_db ?c t (db s)"
  have op: "op_apply_guess ops (t_id t) ?c (db s) = (Inr ?u, ?g)" by (rule apply_guess [OF i(1) t pt(4)])
  have ginv: "game_inv nf ?g" by (rule inv_guess [OF i(1) t pt(4)])
  have gm: "matching_ok ?g" by (rule matching_ok_frame [OF i(2)]) simp_all
  show ?thesis
  proof (cases "t_status ?u = Scored")
    case False
    then have "svc_guess ops cap e me option_id s = (Inr ''ok'', s\<lparr>db := ?g\<rparr>)"
      using pt op by (simp add: svc_guess_def svc_unfold ret_def)
    then show ?thesis using False t p pt ginv gm by (auto simp: svc_inv_def)
  next
    case True
    have none: "\<not> is_open u" if "map_of (turns ?g) j = Some u" "t_pair_id u = t_pair_id ?u" for j u
    proof (cases "j = t_id t")
      case True
      then show ?thesis using that \<open>t_status ?u = Scored\<close> by (simp add: is_open_def)
    next
      case False
      then have "map_of (turns (db s)) j = Some u" using that(1) by simp
      then show ?thesis
        using game_invD(5) [OF i(1), unfolded one_open_def, rule_format, OF t, of j u] that(2) pt(4) False
        by (auto simp: is_open_def)
    qed
    have new: "new_turn e \<noteq> t_id t" using t fresh by auto
    obtain g' where g': "svc_after_scored ops cap e ?u (s\<lparr>db := ?g\<rparr>) = (Inr (), s\<lparr>db := g'\<rparr>)"
        "scored_round cap e ?u p ?g g'" "game_inv nf g'" "matching_ok g'"
      using after_scored_spec [of "s\<lparr>db := ?g\<rparr>" ?u p e cap] ginv gm True p fresh none new by auto
    have "svc_guess ops cap e me option_id s = (Inr ''ok'', s\<lparr>db := g'\<rparr>)"
      using pt op True g'(1) by (simp add: svc_guess_def svc_unfold ret_def)
    then show ?thesis using True t p pt g' by (auto simp: svc_inv_def)
  qed
qed

lemma guess_spec:
  assumes inv: "svc_inv nf s" and fresh: "map_of (turns (db s)) (new_turn e) = None"
    and run: "svc_guess ops cap e me option_id s = (r, s')"
  shows "(\<exists>err. r = Inl err \<and> s' = s) \<or>
    (\<exists>t p g'. r = Inr ''ok'' \<and> map_of (turns (db s)) (t_id t) = Some t \<and> guesser_id t = p_id me
       \<and> t_status t = Awaiting_guess \<and> map_of (pairs (db s)) (t_pair_id t) = Some p
       \<and> pr_status p = Active \<and> s' = s\<lparr>db := g'\<rparr>
       \<and> (if t_status (take_guess (option_id = t_card_id t) t) = Scored
          then scored_round cap e (take_guess (option_id = t_card_id t) t) p
                 (guess_db (option_id = t_card_id t) t (db s)) g'
          else g' = guess_db (option_id = t_card_id t) t (db s)))" (is ?res)
    and "svc_inv nf s'"
proof -
  have "?res \<and> svc_inv nf s'"
  proof (cases "\<exists>p t. op_get_active_pair ops (p_id me) (db s) = Some p
      \<and> op_get_latest_turn ops (pr_id p) (db s) = Some t \<and> guesser_id t = p_id me
      \<and> t_status t = Awaiting_guess")
    case False
    then have "\<exists>err. r = Inl err \<and> s' = s"
      using run by (auto simp: svc_guess_def svc_unfold throw_def split: option.splits if_splits)
    then show ?thesis using inv by auto
  next
    case True
    then obtain p t where pt: "op_get_active_pair ops (p_id me) (db s) = Some p"
      "op_get_latest_turn ops (pr_id p) (db s) = Some t" "guesser_id t = p_id me" "t_status t = Awaiting_guess"
      by blast
    from guess_runs [OF inv fresh pt, of cap option_id] run pt(3,4) show ?thesis by force
  qed
  then show ?res "svc_inv nf s'" by simp_all
qed

end

end
