(* ===== verification/State_View.thy ===== *)
theory State_View
  imports Store_Interface
begin

text \<open>
  \<open>app/game/state.py\<close>: the view of the game one player polls, composed from a state bundle.  The
  version is the CRC-32 of the joined fingerprint (\<open>zlib.crc32\<close> over UTF-8 bytes) without its top
  bit.  \<open>random.Random(seed).shuffle\<close> is Fisher and Yates' shuffle over an arbitrary seeded
  source of indices, the argument \<open>draw\<close>.
\<close>

unbundle bit_operations_syntax

section \<open>Phases and the response\<close>

datatype phase =
    ONBOARDING | QUEUED | SPEAKING_VIEW_IMAGE | SPEAKING_CONFIRM_LABEL | WAITING_PARTNER | GUESSING
  | ROUND_RESULT | SESSION_DONE

definition phase_str :: "phase \<Rightarrow> string" where
  "phase_str ph =
     (case ph of
        ONBOARDING \<Rightarrow> ''onboarding''
      | QUEUED \<Rightarrow> ''queued''
      | SPEAKING_VIEW_IMAGE \<Rightarrow> ''speaking_view_image''
      | SPEAKING_CONFIRM_LABEL \<Rightarrow> ''speaking_confirm_label''
      | WAITING_PARTNER \<Rightarrow> ''waiting_partner''
      | GUESSING \<Rightarrow> ''guessing''
      | ROUND_RESULT \<Rightarrow> ''round_result''
      | SESSION_DONE \<Rightarrow> ''session_done'')"

datatype role = Speaker | Guesser

record turn_state =
  ts_role :: "role option"
  ts_card_image_url :: "string option"
  ts_label :: "string option"
  ts_options :: "(uuid \<times> string) list option"
  ts_audio_url :: "string option"
  ts_attempts_left :: "nat option"
  ts_deadline :: "int option"

record round_result =
  rr_outcome :: outcome
  rr_points_delta :: int
  rr_message :: string

record player_state =
  ps_nickname :: string
  ps_score :: int
  ps_rank :: "nat option"
  ps_rounds_played :: nat
  ps_rounds_cap :: int

record pair_state =
  pst_partner_nickname :: string
  pst_common_lang :: string

record state_response =
  sr_state_version :: int
  sr_phase :: phase
  sr_player :: player_state
  sr_pair :: "pair_state option"
  sr_turn :: "turn_state option"
  sr_last_result :: "round_result option"
  sr_leaderboard_top :: "leaderboard_row list"

section \<open>State version\<close>

definition utf8_char :: "char \<Rightarrow> 8 word list" where
  "utf8_char c = (let n = (of_char c :: nat) in
     if n < 128 then [word_of_nat n] else [word_of_nat (192 + n div 64), word_of_nat (128 + n mod 64)])"

definition utf8 :: "string \<Rightarrow> 8 word list" where
  "utf8 s = concat (map utf8_char s)"

definition crc_bit :: "32 word \<Rightarrow> 32 word" where
  "crc_bit c = (if c AND 1 = 1 then drop_bit 1 c XOR 0xEDB88320 else drop_bit 1 c)"

definition crc_byte :: "32 word \<Rightarrow> 8 word \<Rightarrow> 32 word" where
  "crc_byte c b = (crc_bit ^^ 8) (c XOR ucast b)"

definition crc32 :: "8 word list \<Rightarrow> 32 word" where
  "crc32 bs = NOT (foldl crc_byte 0xFFFFFFFF bs)"

definition version_payload ::
  "phase \<Rightarrow> uuid \<Rightarrow> uuid option \<Rightarrow> uuid option \<Rightarrow> turn_status option \<Rightarrow> nat \<Rightarrow> int \<Rightarrow> nat option
     \<Rightarrow> nat \<Rightarrow> leaderboard_row list \<Rightarrow> bool \<Rightarrow> string" where
  "version_payload ph me pair_id turn_id st n_attempts points rk rounds board waiting =
     join_with ''|''
       [phase_str ph, uuid_str me,
        (case pair_id of None \<Rightarrow> [] | Some i \<Rightarrow> uuid_str i),
        (case turn_id of None \<Rightarrow> [] | Some i \<Rightarrow> uuid_str i),
        (case st of None \<Rightarrow> [] | Some s \<Rightarrow> turn_status_str s),
        nat_str n_attempts, int_str points,
        (case rk of None \<Rightarrow> [] | Some n \<Rightarrow> if n = 0 then [] else nat_str n),
        nat_str rounds,
        join_with '','' (map (\<lambda>row. lb_nickname row @ '':'' @ int_str (lb_score row)) board),
        (if waiting then ''1'' else ''0'')]"

definition compute_state_version ::
  "phase \<Rightarrow> uuid \<Rightarrow> uuid option \<Rightarrow> uuid option \<Rightarrow> turn_status option \<Rightarrow> nat \<Rightarrow> int \<Rightarrow> nat option
     \<Rightarrow> nat \<Rightarrow> leaderboard_row list \<Rightarrow> bool \<Rightarrow> int" where
  "compute_state_version ph me pair_id turn_id st n_attempts points rk rounds board waiting =
     uint (crc32 (utf8 (version_payload ph me pair_id turn_id st n_attempts points rk rounds board
       waiting)) AND 0x7FFFFFFF)"

section \<open>Seeded shuffle\<close>

definition swap_at :: "nat \<Rightarrow> nat \<Rightarrow> 'a list \<Rightarrow> 'a list" where
  "swap_at i j xs = xs[i := xs ! j, j := xs ! i]"

text \<open>\<open>for i in reversed(range(1, len(x))): j = randbelow(i + 1); x[i], x[j] = x[j], x[i]\<close>.\<close>

fun shuffle_down :: "(nat \<Rightarrow> nat) \<Rightarrow> nat \<Rightarrow> 'a list \<Rightarrow> 'a list" where
  "shuffle_down draw 0 xs = xs"
| "shuffle_down draw (Suc i) xs =
     shuffle_down draw i (swap_at (Suc i) (draw (Suc i) mod (Suc (Suc i))) xs)"

definition py_shuffle :: "(nat \<Rightarrow> nat) \<Rightarrow> 'a list \<Rightarrow> 'a list" where
  "py_shuffle draw xs = shuffle_down draw (length xs - 1) xs"

lemma shuffle_down_mset: "i < length xs \<Longrightarrow> mset (shuffle_down draw i xs) = mset xs"
proof (induction i arbitrary: xs)
  case (Suc i)
  let ?j = "draw (Suc i) mod (Suc (Suc i))"
  have "?j < Suc (Suc i)" by (rule mod_less_divisor) simp
  then have "?j < length xs" using Suc.prems by linarith
  then have "mset (swap_at (Suc i) ?j xs) = mset xs"
    using Suc.prems unfolding swap_at_def by (intro mset_swap)
  then show ?case using Suc by (simp add: swap_at_def)
qed simp

lemma py_shuffle_mset: "mset (py_shuffle draw xs) = mset xs"
  by (cases xs) (simp_all add: py_shuffle_def shuffle_down_mset)

section \<open>Composition\<close>

definition pair_state_of :: "state_bundle \<Rightarrow> pair_state option" where
  "pair_state_of b =
     (case b_pair b of
        None \<Rightarrow> None
      | Some p \<Rightarrow>
          (case b_partner b of
             None \<Rightarrow> None
           | Some partner \<Rightarrow>
               Some \<lparr> pst_partner_nickname = nickname partner, pst_common_lang = common_lang p \<rparr>))"

definition board_of :: "state_bundle \<Rightarrow> leaderboard_row list" where
  "board_of b =
     map (\<lambda>row. \<lparr> lb_nickname = lb_nickname row, lb_score = lb_score row \<rparr>) (b_leaderboard_top b)"

text \<open>The dash of the message for an unclear round is written as a hyphen.\<close>

definition last_result_of :: "state_bundle \<Rightarrow> round_result option" where
  "last_result_of b =
     (case b_previous_scored b of
        None \<Rightarrow> None
      | Some t \<Rightarrow>
          if t_outcome t = Validated then Some
            \<lparr> rr_outcome = Validated, rr_points_delta = points_per_validation get_game_config,
              rr_message = ''Nice! That pair is validated.'' \<rparr>
          else if t_outcome t = Unclear then Some
            \<lparr> rr_outcome = Unclear, rr_points_delta = 0,
              rr_message = ''No points this round - still useful for research.'' \<rparr>
          else Some
            \<lparr> rr_outcome = t_outcome t, rr_points_delta = 0, rr_message = ''Round complete.'' \<rparr>)"

definition role_of :: "state_bundle \<Rightarrow> role option" where
  "role_of b =
     (case b_turn b of
        None \<Rightarrow> None
      | Some t \<Rightarrow>
          if speaker_id t = p_id (b_player b) then Some Speaker
          else if guesser_id t = p_id (b_player b) then Some Guesser else None)"

definition phase_for_turn :: "time \<Rightarrow> state_bundle \<Rightarrow> role option \<Rightarrow> phase" where
  "phase_for_turn now b rl =
     (case b_turn b of
        None \<Rightarrow> WAITING_PARTNER
      | Some t \<Rightarrow>
          if t_status t = Awaiting_audio
             \<and> (case b_previous_scored b of None \<Rightarrow> False | Some u \<Rightarrow> t_id u \<noteq> t_id t)
             \<and> now - t_created_at t < result_hold_us get_game_config
          then ROUND_RESULT
          else (case t_status t of
              Scored \<Rightarrow> ROUND_RESULT
            | Awaiting_audio \<Rightarrow> if rl = Some Speaker then SPEAKING_VIEW_IMAGE else WAITING_PARTNER
            | Awaiting_label_confirm \<Rightarrow>
                if rl = Some Speaker then SPEAKING_CONFIRM_LABEL else WAITING_PARTNER
            | Awaiting_guess \<Rightarrow> if rl = Some Guesser then GUESSING else WAITING_PARTNER))"

definition whole_seconds :: "time \<Rightarrow> int" where
  "whole_seconds tm = (if 0 \<le> tm then tm div 1000000 else - ((- tm) div 1000000))"

definition media_url :: "string \<Rightarrow> string" where
  "media_url path = ''/media/'' @ py_replace_backslash path"

definition option_items :: "card \<Rightarrow> pair \<Rightarrow> state_bundle \<Rightarrow> (uuid \<times> string) list" where
  "option_items c p b = (c_id c, label_of_dict (label_common c) (common_lang p)) # b_decoy_labels b"

definition turn_state_of ::
  "(string \<Rightarrow> nat \<Rightarrow> nat) \<Rightarrow> state_bundle \<Rightarrow> role option \<Rightarrow> phase \<Rightarrow> turn_state option" where
  "turn_state_of draw b rl ph =
     (case (b_turn b, b_pair b) of
        (Some t, Some p) \<Rightarrow>
          (let deadline = map_option (\<lambda>n. whole_seconds (t_created_at t) + n)
                 (turn_deadline_seconds get_game_config);
               empty = \<lparr> ts_role = rl, ts_card_image_url = None, ts_label = None, ts_options = None,
                         ts_audio_url = None, ts_attempts_left = None, ts_deadline = deadline \<rparr>
           in if ph = ROUND_RESULT then Some empty
              else
                let s1 = (case b_card b of
                      Some c \<Rightarrow>
                        if rl = Some Speaker then
                          empty\<lparr>ts_card_image_url := Some (media_url (image_path c)),
                            ts_label := (if ph = SPEAKING_CONFIRM_LABEL
                              then Some (label_of_dict (label_common c) (common_lang p)) else None)\<rparr>
                        else empty
                    | None \<Rightarrow> empty);
                    s2 = (case b_card b of
                      Some c \<Rightarrow>
                        if rl = Some Guesser \<and> t_status t = Awaiting_guess then
                          s1\<lparr>ts_audio_url := (case audio_path t of
                                 Some path \<Rightarrow> if path \<noteq> [] then Some (media_url path) else None
                               | None \<Rightarrow> None),
                             ts_options := Some (py_shuffle (draw (uuid_str (t_id t)))
                               (option_items c p b)),
                             ts_attempts_left :=
                               Some (max_guess_attempts get_game_config - attempts t)\<rparr>
                        else s1
                    | None \<Rightarrow> s1)
                in if rl = Some Guesser \<and> t_status t \<noteq> Awaiting_guess then Some empty else Some s2)
      | _ \<Rightarrow> None)"

definition response_version :: "phase \<Rightarrow> state_bundle \<Rightarrow> bool \<Rightarrow> int" where
  "response_version ph b waiting =
     compute_state_version ph (p_id (b_player b)) (map_option pr_id (b_pair b))
       (map_option t_id (b_turn b)) (map_option t_status (b_turn b))
       (case b_turn b of None \<Rightarrow> 0 | Some t \<Rightarrow> attempts t) (score (b_stats b)) (rank (b_stats b))
       (rounds_played (b_stats b)) (b_leaderboard_top b) waiting"

definition compose_state_response ::
  "(string \<Rightarrow> nat \<Rightarrow> nat) \<Rightarrow> time \<Rightarrow> int \<Rightarrow> state_bundle \<Rightarrow> state_response" where
  "compose_state_response draw now rounds_cap b =
     (let stats = b_stats b;
          shown_player = \<lparr> ps_nickname = nickname (b_player b), ps_score = score stats,
            ps_rank = rank stats, ps_rounds_played = rounds_played stats,
            ps_rounds_cap = rounds_cap \<rparr>
      in if rounds_cap \<le> int (rounds_played stats)
            \<or> (case b_pair b of None \<Rightarrow> False | Some p \<Rightarrow> pr_status p = Completed)
         then \<lparr> sr_state_version = response_version SESSION_DONE b False, sr_phase = SESSION_DONE,
                sr_player = shown_player, sr_pair = pair_state_of b, sr_turn = None,
                sr_last_result = last_result_of b, sr_leaderboard_top = board_of b \<rparr>
         else if b_pair b = None then
           (let ph = (if b_queued b then QUEUED else ONBOARDING) in
            \<lparr> sr_state_version = compute_state_version ph (p_id (b_player b)) None None None 0
                (score stats) (rank stats) (rounds_played stats) (b_leaderboard_top b) (b_queued b),
              sr_phase = ph, sr_player = shown_player, sr_pair = None, sr_turn = None,
              sr_last_result = None, sr_leaderboard_top = board_of b \<rparr>)
         else
           (let rl = role_of b;
                ph = phase_for_turn now b rl;
                ts = turn_state_of draw b rl ph;
                guarded = (if ph = SPEAKING_VIEW_IMAGE
                  then map_option (\<lambda>t. t\<lparr>ts_label := None\<rparr>) ts else ts)
            in \<lparr> sr_state_version = response_version ph b False, sr_phase = ph,
                 sr_player = shown_player, sr_pair = pair_state_of b, sr_turn = guarded,
                 sr_last_result = (if ph = ROUND_RESULT then last_result_of b else None),
                 sr_leaderboard_top = board_of b \<rparr>))"

section \<open>Visibility\<close>

text \<open>What a response shows of a card, and to whom.\<close>

lemma turn_state_label:
  assumes "turn_state_of draw b rl ph = Some ts" and "ts_label ts = Some text"
  shows "rl = Some Speaker \<and> ph = SPEAKING_CONFIRM_LABEL \<and>
    (\<exists>c p. b_card b = Some c \<and> b_pair b = Some p \<and> text = label_of_dict (label_common c) (common_lang p))"
  using assms by (auto simp: turn_state_of_def Let_def split: option.splits if_splits)

lemma turn_state_image:
  assumes "turn_state_of draw b rl ph = Some ts" and "ts_card_image_url ts = Some url"
  shows "rl = Some Speaker \<and> ph \<noteq> ROUND_RESULT"
  using assms by (auto simp: turn_state_of_def Let_def split: option.splits if_splits)

lemma turn_state_options:
  assumes "turn_state_of draw b rl ph = Some ts" and "ts_options ts = Some opts"
  shows "rl = Some Guesser \<and> (\<exists>t c p. b_turn b = Some t \<and> b_card b = Some c \<and> b_pair b = Some p \<and>
    t_status t = Awaiting_guess \<and> mset opts = mset (option_items c p b) \<and>
    ts_attempts_left ts = Some (max_guess_attempts get_game_config - attempts t))"
  using assms by (auto simp: turn_state_of_def Let_def py_shuffle_mset split: option.splits if_splits)

lemma phase_for_turn_cases:
  "phase_for_turn now b rl = SPEAKING_CONFIRM_LABEL \<Longrightarrow>
     \<exists>t. b_turn b = Some t \<and> t_status t = Awaiting_label_confirm \<and> rl = Some Speaker"
  "phase_for_turn now b rl = GUESSING \<longleftrightarrow>
     (\<exists>t. b_turn b = Some t \<and> t_status t = Awaiting_guess \<and> rl = Some Guesser)"
  by (auto simp: phase_for_turn_def split: option.splits if_splits turn_status.splits)

lemma version_range:
  "0 \<le> compute_state_version ph me pair_id turn_id st n_attempts points rk rounds board waiting
   \<and> compute_state_version ph me pair_id turn_id st n_attempts points rk rounds board waiting < 2 ^ 31"
proof -
  define c where "c = crc32 (utf8 (version_payload ph me pair_id turn_id st n_attempts points rk rounds board waiting))"
  have "uint (c AND 0x7FFFFFFF) = uint c AND (2 ^ 31 - 1)" by (simp add: uint_and)
  also have "\<dots> = take_bit 31 (uint c)" by (simp add: take_bit_eq_mask mask_eq_exp_minus_1)
  finally have "uint (c AND 0x7FFFFFFF) = take_bit 31 (uint c)" .
  then show ?thesis
    unfolding compute_state_version_def c_def [symmetric] using take_bit_int_less_exp [of 31 "uint c"]
    by simp
qed

end
