(* ===== verification/Views.thy ===== *)
theory Views
  imports Memory_Laws Pg_Laws Service_Laws State_View
begin

text \<open>
  \<open>GameService.get_state\<close>: the polled view over a store.  The contract of a store is extended by
  what its state bundle holds; inside it, polling never fails for a registered player, the phase
  shown is determined by the open turn, and the request a phase invites is one the service
  accepts.  Both stores provide the extended contract.
\<close>

section \<open>Polling\<close>

definition svc_get_state ::
  "store_ops \<Rightarrow> (string \<Rightarrow> nat \<Rightarrow> nat) \<Rightarrow> int \<Rightarrow> env \<Rightarrow> player \<Rightarrow> (service_state, state_response) act" where
  "svc_get_state ops draw rounds_cap e me =
     bind_act (try_db (op_fetch_state_bundle ops e (p_id me) (leaderboard_state_top get_game_config)))
       (\<lambda>b. ret (compose_state_response draw (clock e At_poll) rounds_cap b))"

text \<open>What a bundle says of the tables.\<close>

definition bundle_of :: "store_ops \<Rightarrow> uuid \<Rightarrow> nat \<Rightarrow> game_db \<Rightarrow> state_bundle \<Rightarrow> bool" where
  "bundle_of ops i limit g b \<longleftrightarrow>
     p_id (b_player b) = i \<and> b_pair b = op_get_active_pair ops i g
     \<and> b_turn b = (case b_pair b of None \<Rightarrow> None | Some p \<Rightarrow> op_get_latest_turn ops (pr_id p) g)
     \<and> b_card b = (case b_turn b of None \<Rightarrow> None | Some t \<Rightarrow> map_of (cards g) (t_card_id t))
     \<and> (b_queued b \<longrightarrow> i \<in> set (keys (queue g)))
     \<and> (b_partner b = None \<longleftrightarrow> b_pair b = None)
     \<and> (\<forall>u. b_previous_scored b = Some u \<longrightarrow> map_of (turns g) (t_id u) = Some u \<and> t_status u = Scored)
     \<and> score (b_stats b) = points_of i g \<and> rounds_played (b_stats b) = rounds_of i g
     \<and> length (b_leaderboard_top b) = min limit (length (players g))"

locale bundle_store = game_store +
  assumes fetch_state_bundle:
    "game_inv nf g \<Longrightarrow> map_of (players g) i \<noteq> None \<Longrightarrow>
       \<exists>b. op_fetch_state_bundle ops e i limit g = Inr b \<and> bundle_of ops i limit g b"

section \<open>The view of a well-formed state\<close>

text \<open>A turn of the active pair of a player.\<close>

definition playing :: "game_db \<Rightarrow> uuid \<Rightarrow> turn \<Rightarrow> bool" where
  "playing g i t \<longleftrightarrow> map_of (turns g) (t_id t) = Some t \<and>
     (\<exists>p. map_of (pairs g) (t_pair_id t) = Some p \<and> pr_status p = Active \<and> is_member i p)"

text \<open>The phase a player is shown, read off the tables.\<close>

definition shows_phase :: "int \<Rightarrow> uuid \<Rightarrow> game_db \<Rightarrow> phase \<Rightarrow> bool" where
  "shows_phase cap i g ph \<longleftrightarrow> (ph = SESSION_DONE \<longleftrightarrow> cap \<le> int (rounds_of i g)) \<and>
     (case ph of
        SESSION_DONE \<Rightarrow> True
      | QUEUED \<Rightarrow> \<not> in_active g i \<and> i \<in> set (keys (queue g))
      | ONBOARDING \<Rightarrow> \<not> in_active g i
      | SPEAKING_VIEW_IMAGE \<Rightarrow> 
          (\<exists>t. playing g i t \<and> speaker_id t = i \<and> t_status t = Awaiting_audio)
      | SPEAKING_CONFIRM_LABEL \<Rightarrow> 
          (\<exists>t. playing g i t \<and> speaker_id t = i \<and> t_status t = Awaiting_label_confirm)
      | GUESSING \<Rightarrow> 
          (\<exists>t. playing g i t \<and> guesser_id t = i \<and> t_status t = Awaiting_guess)
      | WAITING_PARTNER \<Rightarrow> in_active g i
      | ROUND_RESULT \<Rightarrow> in_active g i)"

lemma compose_phase:
  assumes "b_pair b = Some p" and "sr_phase (compose_state_response draw now cap b) = ph"
    and "ph \<noteq> SESSION_DONE"
  shows "ph = phase_for_turn now b (role_of b)"
  using assms by (auto simp: compose_state_response_def Let_def split: if_splits)

lemma compose_no_pair:
  assumes "b_pair b = None"
  shows "sr_turn (compose_state_response draw now cap b) = None"
    and "sr_phase (compose_state_response draw now cap b) =
      (if cap \<le> int (rounds_played (b_stats b)) then SESSION_DONE
       else if b_queued b then QUEUED else ONBOARDING)"
  using assms by (simp_all add: compose_state_response_def Let_def)

lemma compose_done:
  assumes "\<And>p. b_pair b = Some p \<Longrightarrow> pr_status p = Active"
  shows "sr_phase (compose_state_response draw now cap b) = SESSION_DONE \<longleftrightarrow> cap \<le> int (rounds_played (b_stats b))"
proof -
  have "phase_for_turn now b rl \<noteq> SESSION_DONE" for rl
    by (auto simp: phase_for_turn_def split: option.splits if_splits turn_status.splits)
  then show ?thesis using assms
    by (cases "b_pair b") (auto simp: compose_state_response_def Let_def)
qed

lemma compose_version:
  "0 \<le> sr_state_version (compose_state_response draw now cap b)
   \<and> sr_state_version (compose_state_response draw now cap b) < 2 ^ 31"
  using version_range by (simp add: compose_state_response_def response_version_def Let_def)

lemma compose_turn:
  assumes "sr_turn (compose_state_response draw now cap b) = Some ts"
  shows "\<exists>ts'. turn_state_of draw b (role_of b) (sr_phase (compose_state_response draw now cap b)) = Some ts'
    \<and> (ts = ts' \<or> sr_phase (compose_state_response draw now cap b) = SPEAKING_VIEW_IMAGE
          \<and> ts = ts'\<lparr>ts_label := None\<rparr>)"
  using assms by (auto simp: compose_state_response_def Let_def split: if_splits option.splits)

lemma phase_turn_pair:
  "phase_for_turn now b rl = ph \<Longrightarrow> ph \<notin> {ONBOARDING, QUEUED, SESSION_DONE}"
  by (auto simp: phase_for_turn_def split: option.splits if_splits turn_status.splits)

lemma phase_for_turn_image:
  "phase_for_turn now b rl = SPEAKING_VIEW_IMAGE \<Longrightarrow>
     \<exists>t. b_turn b = Some t \<and> t_status t = Awaiting_audio \<and> rl = Some Speaker"
  by (auto simp: phase_for_turn_def split: option.splits if_splits turn_status.splits)

lemma role_of_iff:
  "role_of b = Some Speaker \<longleftrightarrow> (\<exists>t. b_turn b = Some t \<and> speaker_id t = p_id (b_player b))"
  "role_of b = Some Guesser \<Longrightarrow> \<exists>t. b_turn b = Some t \<and> guesser_id t = p_id (b_player b)"
  by (auto simp: role_of_def split: option.splits if_splits)

context bundle_store
begin

lemma get_state_spec:
  assumes inv: "svc_inv nf s" and me: "map_of (players (db s)) (p_id me) \<noteq> None"
  shows "\<exists>b. svc_get_state ops draw cap e me s = (Inr (compose_state_response draw (clock e At_poll) cap b), s)
    \<and> bundle_of ops (p_id me) (leaderboard_state_top get_game_config) (db s) b"
proof -
  have "game_inv nf (db s)" using inv by (simp add: svc_inv_def)
  from fetch_state_bundle [OF this me, of e "leaderboard_state_top get_game_config"] obtain b where
    "op_fetch_state_bundle ops e (p_id me) (leaderboard_state_top get_game_config) (db s) = Inr b"
    "bundle_of ops (p_id me) (leaderboard_state_top get_game_config) (db s) b" by blast
  then show ?thesis
    by (intro exI [of _ b]) (simp add: svc_get_state_def svc_unfold ret_def)
qed

text \<open>The turn of a bundle is the player's, and the request handlers find it too.\<close>

lemma bundle_turn:
  assumes inv: "game_inv nf g" and b: "bundle_of ops i limit g b" and t: "b_turn b = Some t"
  shows "\<exists>p. op_get_active_pair ops i g = Some p \<and> op_get_latest_turn ops (pr_id p) g = Some t
    \<and> playing g i t \<and> t_pair_id t = pr_id p"
proof -
  obtain p where p: "op_get_active_pair ops i g = Some p" "op_get_latest_turn ops (pr_id p) g = Some t"
    using b t by (auto simp: bundle_of_def split: option.splits)
  then show ?thesis
    using active_pair_Some [OF inv p(1)] latest_turn_Some [OF inv p(2)] by (auto simp: playing_def)
qed

lemma get_state_phase:
  assumes inv: "svc_inv nf s" and me: "map_of (players (db s)) (p_id me) \<noteq> None"
  shows "\<exists>v. svc_get_state ops draw cap e me s = (Inr v, s) \<and> shows_phase cap (p_id me) (db s) (sr_phase v)"
proof -
  let ?i = "p_id me" and ?g = "db s"
  have gi: "game_inv nf ?g" using inv by (simp add: svc_inv_def)
  obtain b where b: "svc_get_state ops draw cap e me s
        = (Inr (compose_state_response draw (clock e At_poll) cap b), s)"
      "bundle_of ops ?i (leaderboard_state_top get_game_config) ?g b"
    using get_state_spec [OF inv me] by blast
  let ?v = "compose_state_response draw (clock e At_poll) cap b"
  have stats: "rounds_played (b_stats b) = rounds_of ?i ?g" and pid: "p_id (b_player b) = ?i"
    using b(2) by (simp_all add: bundle_of_def)
  have pr: "b_pair b = op_get_active_pair ops ?i ?g" using b(2) by (simp add: bundle_of_def)
  have "\<And>p. b_pair b = Some p \<Longrightarrow> pr_status p = Active" using pr active_pair_Some [OF gi] by force
  then have fin: "sr_phase ?v = SESSION_DONE \<longleftrightarrow> cap \<le> int (rounds_of ?i ?g)"
    using compose_done [of b draw "clock e At_poll" cap] stats by simp
  have "shows_phase cap ?i ?g (sr_phase ?v)"
  proof (cases "b_pair b")
    case None
    then have "\<not> in_active ?g ?i" using pr active_pair_None [OF gi] by simp
    then show ?thesis using None b(2) stats
      by (auto simp: compose_no_pair shows_phase_def bundle_of_def)
  next
    case (Some p)
    have act: "in_active ?g ?i" using Some pr active_pair_None [OF gi, of ?i] by auto
    show ?thesis
    proof (cases "sr_phase ?v = SESSION_DONE")
      case True
      then show ?thesis using fin by (simp add: shows_phase_def)
    next
      case False
      define ph where "ph = sr_phase ?v"
      have ph: "ph = phase_for_turn (clock e At_poll) b (role_of b)"
        unfolding ph_def by (rule compose_phase [OF Some refl False])
      have open_ph: "ph = SESSION_DONE \<longleftrightarrow> cap \<le> int (rounds_of ?i ?g)" using fin by (simp add: ph_def)
      have turn: "playing ?g ?i t" if "b_turn b = Some t" for t
        using bundle_turn [OF gi b(2) that] by blast
      have "shows_phase cap ?i ?g ph"
      proof (cases ph)
        case SPEAKING_VIEW_IMAGE
        then obtain t where "b_turn b = Some t" "t_status t = Awaiting_audio" "speaker_id t = p_id me"
          using phase_for_turn_image [OF ph [symmetric, unfolded SPEAKING_VIEW_IMAGE]] pid role_of_iff(1) [of b]
          by auto
        then show ?thesis using SPEAKING_VIEW_IMAGE turn [of t] open_ph by (auto simp: shows_phase_def)
      next
        case SPEAKING_CONFIRM_LABEL
        then obtain t where "b_turn b = Some t" "t_status t = Awaiting_label_confirm" "speaker_id t = p_id me"
          using phase_for_turn_cases(1) [OF ph [symmetric, unfolded SPEAKING_CONFIRM_LABEL]] pid role_of_iff(1) [of b]
          by auto
        then show ?thesis using SPEAKING_CONFIRM_LABEL turn [of t] open_ph by (auto simp: shows_phase_def)
      next
        case GUESSING
        then obtain t where "b_turn b = Some t" "t_status t = Awaiting_guess" "guesser_id t = p_id me"
          using ph [symmetric, unfolded GUESSING phase_for_turn_cases(2)] pid role_of_iff(2) [of b]
          by auto
        then show ?thesis using GUESSING turn [of t] open_ph by (auto simp: shows_phase_def)
      qed (use phase_turn_pair [OF ph [symmetric]] act open_ph in \<open>auto simp: shows_phase_def\<close>)
      then show ?thesis by (simp add: ph_def)
    qed
  qed
  then show ?thesis using b(1) by blast
qed

lemma get_state_version:
  assumes inv: "svc_inv nf s" and me: "map_of (players (db s)) (p_id me) \<noteq> None"
    and run: "svc_get_state ops draw cap e me s = (Inr v, s')"
  shows "0 \<le> sr_state_version v \<and> sr_state_version v < 2 ^ 31"
  using get_state_spec [OF inv me, of draw cap e] run compose_version by auto

text \<open>What the view shows of a card, and to whom.\<close>

lemma get_state_secrets:
  assumes inv: "svc_inv nf s" and me: "map_of (players (db s)) (p_id me) \<noteq> None"
    and run: "svc_get_state ops draw cap e me s = (Inr v, s')" and ts: "sr_turn v = Some ts"
  shows "\<exists>t p. playing (db s) (p_id me) t \<and> map_of (pairs (db s)) (t_pair_id t) = Some p \<and>
    (\<forall>lab. ts_label ts = Some lab \<longrightarrow> speaker_id t = p_id me \<and> t_status t = Awaiting_label_confirm \<and>
      (\<exists>c. map_of (cards (db s)) (t_card_id t) = Some c \<and> lab = label_of_dict (label_common c) (common_lang p))) \<and>
    (ts_card_image_url ts \<noteq> None \<longrightarrow> speaker_id t = p_id me) \<and>
    (\<forall>opts. ts_options ts = Some opts \<longrightarrow> guesser_id t = p_id me \<and> t_status t = Awaiting_guess \<and>
      t_card_id t \<in> fst ` set opts)"
proof -
  let ?i = "p_id me" and ?g = "db s"
  have gi: "game_inv nf ?g" using inv by (simp add: svc_inv_def)
  obtain b where b: "v = compose_state_response draw (clock e At_poll) cap b"
      "bundle_of ops ?i (leaderboard_state_top get_game_config) ?g b"
    using get_state_spec [OF inv me, of draw cap e] run by auto
  have pid: "p_id (b_player b) = ?i" using b(2) by (simp add: bundle_of_def)
  obtain ts' where ts': "turn_state_of draw b (role_of b) (sr_phase v) = Some ts'"
      "ts = ts' \<or> sr_phase v = SPEAKING_VIEW_IMAGE \<and> ts = ts'\<lparr>ts_label := None\<rparr>"
    using compose_turn ts unfolding b(1) by blast
  have same: "ts_card_image_url ts = ts_card_image_url ts'" "ts_options ts = ts_options ts'"
      "ts_label ts = Some lab \<Longrightarrow> ts_label ts' = Some lab" for lab using ts'(2) by auto
  obtain t q where tq: "b_turn b = Some t" "b_pair b = Some q"
    using ts'(1) by (auto simp: turn_state_of_def split: option.splits)
  obtain p where p: "op_get_active_pair ops ?i ?g = Some p" "playing ?g ?i t" "t_pair_id t = pr_id p"
    using bundle_turn [OF gi b(2) tq(1)] by blast
  have q: "q = p" "map_of (pairs ?g) (t_pair_id t) = Some p"
    using b(2) tq(2) p(1,3) active_pair_Some [OF gi p(1)] by (simp_all add: bundle_of_def)
  have c: "b_card b = map_of (cards ?g) (t_card_id t)" using b(2) tq(1) by (simp add: bundle_of_def)
  have "\<forall>lab. ts_label ts = Some lab \<longrightarrow> speaker_id t = ?i \<and> t_status t = Awaiting_label_confirm \<and>
      (\<exists>c. map_of (cards ?g) (t_card_id t) = Some c \<and> lab = label_of_dict (label_common c) (common_lang p))"
  proof (intro allI impI)
    fix lab assume "ts_label ts = Some lab"
    from turn_state_label [OF ts'(1) same(3) [OF this]]
    have l: "role_of b = Some Speaker" "sr_phase v = SPEAKING_CONFIRM_LABEL"
      "\<exists>c. map_of (cards ?g) (t_card_id t) = Some c \<and> lab = label_of_dict (label_common c) (common_lang p)"
      using c tq(2) q(1) by auto
    have "sr_phase v = phase_for_turn (clock e At_poll) b (role_of b)"
      by (rule compose_phase [OF tq(2)]) (use b(1) l(2) in simp_all)
    then have "t_status t = Awaiting_label_confirm"
      using phase_for_turn_cases(1) [of "clock e At_poll" b "role_of b"] l(2) tq(1) by auto
    then show "speaker_id t = ?i \<and> t_status t = Awaiting_label_confirm \<and>
      (\<exists>c. map_of (cards ?g) (t_card_id t) = Some c \<and> lab = label_of_dict (label_common c) (common_lang p))"
      using l role_of_iff(1) [of b] tq(1) pid by auto
  qed
  moreover have "speaker_id t = ?i" if "ts_card_image_url ts \<noteq> None"
    using that same(1) turn_state_image [OF ts'(1)] role_of_iff(1) [of b] tq(1) pid by auto
  moreover have "guesser_id t = ?i \<and> t_status t = Awaiting_guess \<and> t_card_id t \<in> fst ` set opts"
    if o: "ts_options ts = Some opts" for opts
  proof -
    obtain c' where o': "role_of b = Some Guesser" "t_status t = Awaiting_guess" "b_card b = Some c'"
        "mset opts = mset (option_items c' p b)"
      using turn_state_options [OF ts'(1), of opts] o same(2) tq q(1) by auto
    have "(c_id c', label_of_dict (label_common c') (common_lang p)) \<in> set opts"
      using o'(4) by (metis option_items_def list.set_intros(1) set_mset_mset)
    moreover have "c_id c' = t_card_id t"
      using o'(3) c keyed_key [OF inv_keyed(3) [OF gi]] by simp
    ultimately show ?thesis using o' role_of_iff(2) [of b] tq(1) pid by (auto simp: rev_image_eqI)
  qed
  ultimately show ?thesis using p(2) q(2) by blast
qed

section \<open>The requests a phase invites are accepted\<close>

end

lemma next_round_turn:
  assumes "next_round cap e t p g g'" and "new_turn e \<noteq> i"
  shows "map_of (turns g') i = map_of (turns g) i"
  using assms by (auto simp: next_round_def split: if_splits)

lemma guess_keeps_turn:
  assumes res: "if t_status (take_guess c t) = Scored then scored_round cap e (take_guess c t) p (guess_db c t g) g'
      else g' = guess_db c t g" and new: "new_turn e \<noteq> t_id t"
  shows "map_of (turns g') (t_id t) = Some (take_guess c t)"
proof (cases "t_status (take_guess c t) = Scored")
  case False
  then show ?thesis using res by simp
next
  case True
  then obtain g1 where g1: "if quality t = None then g1 = guess_db c t g
      else ensure_job Package (t_id (take_guess c t)) (guess_db c t g) g1"
      "next_round cap e (take_guess c t) p g1 g'"
    using res by (auto simp: scored_round_def)
  have "turns g1 = turns (guess_db c t g)" using g1(1) ensure_job_frame(1) by (auto split: if_splits)
  then show ?thesis using next_round_turn [OF g1(2) new] by simp
qed

lemma guess_counter:
  assumes res: "if t_status (take_guess c t) = Scored then scored_round cap e (take_guess c t) p (guess_db c t g) g'
      else g' = guess_db c t g"
  shows "counter ''validated_pairs'' g' = counter ''validated_pairs'' g + (if c then 1 else 0)"
proof -
  have base: "counter ''validated_pairs'' (guess_db c t g) = counter ''validated_pairs'' g + (if c then 1 else 0)"
    by (simp add: guess_db_def)
  have next_eq: "next_round cap e u p h h' \<Longrightarrow> counter k h' = counter k h" for u h h' k
    by (auto simp: next_round_def split: if_splits)
  have job_eq: "ensure_job kind i h h' \<Longrightarrow> counter k h' = counter k h" for kind i h h' k
    by (auto simp: ensure_job_def split: if_splits)
  show ?thesis using res base next_eq job_eq by (auto simp: scored_round_def split: if_splits)
qed

lemma take_guess_result:
  assumes "turn_ok t" and "t_status t = Awaiting_guess"
  shows "(t_outcome (take_guess c t), t_status (take_guess c t)) = (if c then (Validated, Scored)
    else if attempts t + 1 = max_guess_attempts get_game_config then (Unclear, Scored) else (Pending, Awaiting_guess))"
  using assms by (auto simp: take_guess_def turn_ok_def)

context bundle_store
begin

lemma playing_found:
  assumes inv: "svc_inv nf s" and t: "playing (db s) i t" and op: "is_open t"
  shows "\<exists>p. op_get_active_pair ops i (db s) = Some p \<and> op_get_latest_turn ops (pr_id p) (db s) = Some t
    \<and> map_of (pairs (db s)) (t_pair_id t) = Some p \<and> pr_status p = Active"
proof -
  have gi: "game_inv nf (db s)" "matching_ok (db s)" using inv by (simp_all add: svc_inv_def)
  obtain q where q: "map_of (pairs (db s)) (t_pair_id t) = Some q" "pr_status q = Active" "is_member i q"
    and tt: "map_of (turns (db s)) (t_id t) = Some t" using t by (auto simp: playing_def)
  have "in_active (db s) i" using q by (auto simp: in_active_def)
  then obtain p where p: "op_get_active_pair ops i (db s) = Some p" using active_pair_None [OF gi(1), of i] by auto
  note ps = active_pair_Some [OF gi(1) p]
  have "pr_id p = t_pair_id t" using gi(2) ps q unfolding matching_ok_def by blast
  then show ?thesis using p ps q latest_turn_open [OF gi(1) tt op] by auto
qed

lemma confirm_accepted:
  assumes inv: "svc_inv nf s" and t: "playing (db s) (p_id me) t" and st: "t_status t = Awaiting_label_confirm"
    and me: "speaker_id t = p_id me"
  shows "svc_confirm_label ops me s = (Inr ''ok'', s\<lparr>db := put_turn (t\<lparr>t_status := Awaiting_guess\<rparr>) (db s)\<rparr>)"
proof -
  obtain p where p: "op_get_active_pair ops (p_id me) (db s) = Some p"
      "op_get_latest_turn ops (pr_id p) (db s) = Some t"
    using playing_found [OF inv t] st by (auto simp: is_open_def)
  have "map_of (turns (db s)) (t_id t) = Some t" using t by (simp add: playing_def)
  then show ?thesis using p st me confirm_label
    by (simp add: svc_confirm_label_def svc_require_speaker_turn_def svc_unfold ret_def)
qed

lemma upload_accepted:
  assumes inv: "svc_inv nf s" and t: "playing (db s) (p_id me) t" and st: "t_status t = Awaiting_audio"
    and me: "speaker_id t = p_id me" and size: "int (length payload) \<le> max_audio_bytes get_game_config"
    and ok: "checker payload = Inr res" "accepted res"
  shows "\<exists>s'. svc_upload_audio ops e checker me payload s = (Inr None, s')"
proof -
  obtain p where p: "op_get_active_pair ops (p_id me) (db s) = Some p"
      "op_get_latest_turn ops (pr_id p) (db s) = Some t"
    using playing_found [OF inv t] st by (auto simp: is_open_def)
  have tt: "map_of (turns (db s)) (t_id t) = Some t" using t by (simp add: playing_def)
  obtain b g' where "op_enqueue_job ops e Triage (t_id t)
      (put_turn (take_audio (py_replace_backslash (audio_rel_path (t_id t)))
         (dur (case ac_duration_s res of None \<Rightarrow> Fin 0 | Some d \<Rightarrow> d)) t) (db s)) = (Inr b, g')"
    using ensure_job_op by blast
  then show ?thesis using p st me size ok accept_audio [OF tt st]
    by (simp add: svc_upload_audio_def svc_require_speaker_turn_def svc_unfold ret_def Let_def)
qed

lemma guess_accepted:
  assumes inv: "svc_inv nf s" and t: "playing (db s) (p_id me) t" and st: "t_status t = Awaiting_guess"
    and me: "guesser_id t = p_id me" and fresh: "map_of (turns (db s)) (new_turn e) = None"
  shows "\<exists>s'. svc_guess ops cap e me option_id s = (Inr ''ok'', s')
    \<and> map_of (turns (db s')) (t_id t) = Some (take_guess (option_id = t_card_id t) t)"
proof -
  obtain p where p: "op_get_active_pair ops (p_id me) (db s) = Some p"
      "op_get_latest_turn ops (pr_id p) (db s) = Some t"
    using playing_found [OF inv t] st by (auto simp: is_open_def)
  have new: "new_turn e \<noteq> t_id t" using t fresh by (auto simp: playing_def)
  let ?u = "take_guess (option_id = t_card_id t) t"
  obtain g' where g': "svc_guess ops cap e me option_id s = (Inr ''ok'', s\<lparr>db := g'\<rparr>)"
      "if t_status ?u = Scored then scored_round cap e ?u p (guess_db (option_id = t_card_id t) t (db s)) g'
       else g' = guess_db (option_id = t_card_id t) t (db s)"
    using guess_runs [OF inv fresh p me st] by blast
  have "map_of (turns g') (t_id t) = Some ?u"
    using g'(2) new by (rule guess_keeps_turn)
  then show ?thesis using g'(1) by simp
qed

lemma guess_summary:
  assumes inv: "svc_inv nf s" and fresh: "map_of (turns (db s)) (new_turn e) = None"
    and run: "svc_guess ops cap e me option_id s = (r, s')"
  shows "svc_inv nf s' \<and>
    (case r of
       Inl err \<Rightarrow> s' = s \<and> \<not> (\<exists>t. playing (db s) (p_id me) t \<and> guesser_id t = p_id me \<and> t_status t = Awaiting_guess)
     | Inr _ \<Rightarrow> \<exists>t u. map_of (turns (db s)) (t_id t) = Some t \<and> guesser_id t = p_id me \<and> t_status t = Awaiting_guess
         \<and> map_of (turns (db s')) (t_id t) = Some u \<and> attempts u = attempts t + 1
         \<and> (t_outcome u, t_status u) = (if option_id = t_card_id t then (Validated, Scored)
              else if attempts t + 1 = max_guess_attempts get_game_config then (Unclear, Scored)
              else (Pending, Awaiting_guess))
         \<and> counter ''validated_pairs'' (db s') = counter ''validated_pairs'' (db s) + (if option_id = t_card_id t then 1 else 0))"
proof -
  note spec = guess_spec [OF inv fresh run]
  have refused: "\<not> (\<exists>t. playing (db s) (p_id me) t \<and> guesser_id t = p_id me \<and> t_status t = Awaiting_guess)"
    if "r = Inl err" for err
    using guess_accepted [OF inv, of me _ e cap option_id] fresh that run by fastforce
  show ?thesis
  proof (cases r)
    case (Inl err)
    then show ?thesis using spec refused by auto
  next
    case (Inr x)
    then obtain t p g' where t: "map_of (turns (db s)) (t_id t) = Some t" "guesser_id t = p_id me"
        "t_status t = Awaiting_guess" "s' = s\<lparr>db := g'\<rparr>"
        "if t_status (take_guess (option_id = t_card_id t) t) = Scored
          then scored_round cap e (take_guess (option_id = t_card_id t) t) p
                 (guess_db (option_id = t_card_id t) t (db s)) g'
          else g' = guess_db (option_id = t_card_id t) t (db s)"
      using spec(1) by auto
    have ok: "turn_ok t" using inv_turn(1) t(1) inv by (auto simp: svc_inv_def)
    have "new_turn e \<noteq> t_id t" using t(1) fresh by auto
    then have u: "map_of (turns g') (t_id t) = Some (take_guess (option_id = t_card_id t) t)"
      by (rule guess_keeps_turn [OF t(5)])
    have s': "db s' = g'" using t(4) by simp
    note facts = t(1-3) u [folded s'] take_guess_simps(6) take_guess_result [OF ok t(3)] guess_counter [OF t(5), folded s']
    show ?thesis unfolding Inr sum.case
      by (intro conjI exI [of _ t] exI [of _ "take_guess (option_id = t_card_id t) t"] facts spec(2))
  qed
qed

text \<open>The request a phase asks for is one the service accepts.\<close>

lemma invited_accepted:
  assumes inv: "svc_inv nf s" and ph: "shows_phase cap (p_id me) (db s) ph" and fresh: "fresh_env e (db s)"
    and me: "map_of (players (db s)) (p_id me) \<noteq> None"
  shows "ph = SPEAKING_CONFIRM_LABEL \<Longrightarrow> \<exists>s'. svc_confirm_label ops me s = (Inr ''ok'', s')"
    and "ph = GUESSING \<Longrightarrow> \<exists>s'. svc_guess ops cap e me option_id s = (Inr ''ok'', s')"
    and "ph = SPEAKING_VIEW_IMAGE \<Longrightarrow> int (length payload) \<le> max_audio_bytes get_game_config \<Longrightarrow>
      checker payload = Inr res \<Longrightarrow> accepted res \<Longrightarrow> \<exists>s'. svc_upload_audio ops e checker me payload s = (Inr None, s')"
    and "ph = ONBOARDING \<or> ph = QUEUED \<Longrightarrow> \<exists>a s'. svc_request_pair ops cap e me s = (Inr a, s')"
proof -
  assume "ph = SPEAKING_CONFIRM_LABEL"
  then show "\<exists>s'. svc_confirm_label ops me s = (Inr ''ok'', s')"
    using ph confirm_accepted [OF inv] by (auto simp: shows_phase_def)
next
  have new: "map_of (turns (db s)) (new_turn e) = None" using fresh by (simp add: fresh_env_def)
  assume "ph = GUESSING"
  then show "\<exists>s'. svc_guess ops cap e me option_id s = (Inr ''ok'', s')"
    using ph guess_accepted [OF inv _ _ _ new] by (fastforce simp: shows_phase_def)
next
  assume "ph = SPEAKING_VIEW_IMAGE" "int (length payload) \<le> max_audio_bytes get_game_config"
    "checker payload = Inr res" "accepted res"
  then show "\<exists>s'. svc_upload_audio ops e checker me payload s = (Inr None, s')"
    using ph upload_accepted [OF inv] by (auto simp: shows_phase_def)
next
  assume "ph = ONBOARDING \<or> ph = QUEUED"
  then have free: "\<not> cap \<le> int (rounds_of (p_id me) (db s))" "\<not> in_active (db s) (p_id me)"
    using ph by (auto simp: shows_phase_def)
  obtain r s' where run: "svc_request_pair ops cap e me s = (r, s')" by (cases "svc_request_pair ops cap e me s")
  from request_pair_spec [OF inv fresh me run] free run
  show "\<exists>a s'. svc_request_pair ops cap e me s = (Inr a, s')" by auto
qed

end

section \<open>Both stores provide the bundle\<close>

lemma scored_in_bundle:
  assumes inv: "game_inv nf g"
    and u: "first_of (sort_desc f (filter (\<lambda>u. t_pair_id u = k \<and> t_status u = Scored) (vals (turns g)))) = Some u"
  shows "map_of (turns g) (t_id u) = Some u \<and> t_status u = Scored"
proof -
  have "u \<in> set (vals (turns g))" "t_status u = Scored" using first_of_in [OF u] by (auto simp: sort_desc_def)
  then show ?thesis using inv_turn_vals [OF inv, of u] by blast
qed

lemma partner_known:
  assumes inv: "game_inv nf g" and p: "map_of (pairs g) (pr_id p) = Some p"
  shows "\<exists>q. map_of (players g) (if player_a p = i then player_b p else player_a p) = Some q"
  using inv_pair(1) [OF inv p] by (auto simp: pair_ok_def)

lemma mem_bundle:
  assumes inv: "game_inv nf g" and i: "map_of (players g) i \<noteq> None"
  shows "\<exists>b. mem_fetch_state_bundle e i limit g = Inr b \<and> bundle_of memory_ops i limit g b"
proof -
  obtain me where me: "map_of (players g) i = Some me" using i by auto
  then have pid: "p_id me = i" using keyed_key [OF inv_keyed(1) [OF inv]] by blast
  obtain st where st: "mem_player_stats i g = Inr st" "rounds_played st = rounds_of i g" "score st = points_of i g"
    using mem_player_stats_spec [OF inv i] by blast
  obtain rows where rows: "mem_leaderboard limit g = Inr rows" "length rows = min limit (length (players g))"
    using mem_leaderboard_spec [OF inv] by blast
  have q: "mem_is_actively_queued tm i g \<Longrightarrow> i \<in> set (keys (queue g))" for tm
    by (auto simp: mem_is_actively_queued_def in_keys split: option.splits)
  show ?thesis
  proof (cases "mem_get_active_pair i g")
    case None
    then show ?thesis using me st rows q pid
      by (simp add: mem_fetch_state_bundle_def bundle_of_def memory_ops_def)
  next
    case (Some p)
    then have p: "map_of (pairs g) (pr_id p) = Some p" using mem_active_pair_Some [OF inv] by blast
    obtain partner where "map_of (players g) (if player_a p = i then player_b p else player_a p) = Some partner"
      using partner_known [OF inv p] by blast
    then show ?thesis using Some me st rows q pid
      by (simp add: mem_fetch_state_bundle_def bundle_of_def memory_ops_def mem_get_card_def Let_def
          split: option.splits) (use scored_in_bundle [OF inv] in blast)
  qed
qed

lemma pg_bundle:
  assumes inv: "game_inv nf g" and i: "map_of (players g) i \<noteq> None"
  shows "\<exists>b. pg_fetch_state_bundle collate e i limit g = Inr b
    \<and> bundle_of (postgres_ops lower numeric collate) i limit g b"
proof -
  obtain me where me: "map_of (players g) i = Some me" using i by auto
  then have pid: "p_id me = i" using keyed_key [OF inv_keyed(1) [OF inv]] by blast
  have len: "length (take limit (sort_key f (pg_score_rows g))) = min limit (length (players g))"
    for f :: "leaderboard_row \<Rightarrow> int \<times> string"
    by (simp add: pg_score_rows_eq board_rows_def min.commute)
  have partner: "pg_get_player (if player_a p = i then player_b p else player_a p) g \<noteq> None"
    if "pg_get_active_pair i g = Some p" for p
    using partner_known [OF inv, of p i] pg_active_pair_Some [OF inv that] by (auto simp: pg_get_player_def)
  show ?thesis using me pid len partner scored_in_bundle [OF inv]
    by (auto simp: pg_fetch_state_bundle_def bundle_of_def postgres_ops_def pg_get_card_def Let_def
        pg_parse_player_def pg_score_eq pg_rounds_eq in_keys split: option.splits)
qed

interpretation mem_view: bundle_store memory_ops casefold "\<lambda>d. d"
  by unfold_locales (use mem_bundle in \<open>simp add: memory_ops_def\<close>)

interpretation pg_view: bundle_store "postgres_ops lower numeric collate" lower numeric
  for lower numeric collate
  by unfold_locales (use pg_bundle in \<open>simp add: postgres_ops_def\<close>)

end
