(* ===== verification/System.thy ===== *)
theory System
  imports Gauntlet_Laws Views
begin

text \<open>
  The whole game as a transition system: every request of the API over a store, the worker's
  triage transaction and its moves of the job rows, and changes of decks.  One request is one
  step here; the invariants hold in every reachable state, for every store that keeps the
  protocol.
\<close>

section \<open>The two stores\<close>

text \<open>The stores the application can be built with, each with its folding of names.\<close>

definition backend :: "store_ops \<Rightarrow> (string \<Rightarrow> string) \<Rightarrow> (pyfloat \<Rightarrow> pyfloat) \<Rightarrow> bool" where
  "backend ops nf dur \<longleftrightarrow>
     ops = memory_ops \<and> nf = casefold \<and> dur = (\<lambda>d. d) \<or> (\<exists>collate. ops = postgres_ops nf dur collate)"

lemma backend_view: "backend ops nf dur \<Longrightarrow> bundle_store ops nf dur"
  using mem_view.bundle_store_axioms pg_view.bundle_store_axioms by (auto simp: backend_def)

lemmas backend_store = backend_view [THEN bundle_store.axioms(1)]

lemma backend_memory: "backend memory_ops casefold (\<lambda>d. d)"
  by (simp add: backend_def)

lemma backend_postgres: "backend (postgres_ops lower numeric collate) lower numeric"
  by (auto simp: backend_def)

section \<open>Jobs follow turns\<close>

text \<open>
  Every turn whose audio was accepted has its triage job, and every scored turn with quality its
  package job.
\<close>

definition triaged_ok :: "game_db \<Rightarrow> bool" where
  "triaged_ok g \<longleftrightarrow> (\<forall>i t. map_of (turns g) i = Some t \<longrightarrow> t_status t \<noteq> Awaiting_audio \<longrightarrow> has_job Triage i g)"

definition jobs_follow :: "game_db \<Rightarrow> bool" where
  "jobs_follow g \<longleftrightarrow> triaged_ok g \<and> packaged_ok g"

definition settled :: "turn \<Rightarrow> bool" where
  "settled t \<longleftrightarrow> t_status t = Scored \<and> quality t \<noteq> None"

lemma jobs_follow_iff:
  "jobs_follow g \<longleftrightarrow> (\<forall>i t. map_of (turns g) i = Some t \<longrightarrow>
     (t_status t \<noteq> Awaiting_audio \<longrightarrow> has_job Triage i g) \<and> (settled t \<longrightarrow> has_job Package i g))"
  by (auto simp: jobs_follow_def triaged_ok_def packaged_ok_def settled_def)

lemma jobs_follow_step:
  assumes ok: "jobs_follow g" and mono: "\<And>k j. has_job k j g \<Longrightarrow> has_job k j g'"
    and turn: "\<And>i t. map_of (turns g') i = Some t \<Longrightarrow>
      (\<exists>u. map_of (turns g) i = Some u \<and> (t_status u = Awaiting_audio \<longrightarrow> t_status t = Awaiting_audio)
         \<and> (settled t \<longrightarrow> settled u))
      \<or> (t_status t \<noteq> Awaiting_audio \<longrightarrow> has_job Triage i g') \<and> (settled t \<longrightarrow> has_job Package i g')"
  shows "jobs_follow g'"
  unfolding jobs_follow_iff
proof (intro allI impI)
  fix i t assume t: "map_of (turns g') i = Some t"
  from turn [OF this]
  show "(t_status t \<noteq> Awaiting_audio \<longrightarrow> has_job Triage i g') \<and> (settled t \<longrightarrow> has_job Package i g')"
  proof
    assume "\<exists>u. map_of (turns g) i = Some u \<and> (t_status u = Awaiting_audio \<longrightarrow> t_status t = Awaiting_audio)
         \<and> (settled t \<longrightarrow> settled u)"
    then obtain u where u: "map_of (turns g) i = Some u" "t_status u = Awaiting_audio \<longrightarrow> t_status t = Awaiting_audio"
      "settled t \<longrightarrow> settled u" by blast
    from ok u(1) have "(t_status u \<noteq> Awaiting_audio \<longrightarrow> has_job Triage i g) \<and> (settled u \<longrightarrow> has_job Package i g)"
      unfolding jobs_follow_iff by blast
    then show ?thesis using u mono by blast
  qed
qed

lemma jobs_follow_same:
  "jobs_follow g \<Longrightarrow> turns g' = turns g \<Longrightarrow> jobs g' = jobs g \<Longrightarrow> jobs_follow g'"
  by (simp add: jobs_follow_iff has_job_def)

lemma jobs_follow_new_turn:
  assumes "jobs_follow g"
  shows "jobs_follow (put_turn (mk_turn i k sp gu c tm) g)"
  by (rule jobs_follow_step [OF assms]) (auto simp: has_job_def settled_def split: if_splits)

lemma has_job_ensure: "ensure_job kind i g g' \<Longrightarrow> has_job kind i g'"
  by (force simp: ensure_job_def has_job_def split: if_splits)

lemma ensure_mono: "ensure_job kind i g g' \<Longrightarrow> has_job k j g \<Longrightarrow> has_job k j g'"
  by (auto simp: ensure_job_def has_job_def split: if_splits)

lemma jobs_follow_match:
  assumes ok: "jobs_follow g" and step: "match_step e i g r g'"
  shows "jobs_follow g'"
  using step unfolding match_step_def
proof (elim disjE exE conjE)
  fix p j q assume ft: "first_turn e p (put_pair p (g\<lparr>queue := q\<rparr>)) g'"
  have "jobs_follow (put_pair p (g\<lparr>queue := q\<rparr>))" by (rule jobs_follow_same [OF ok]) simp_all
  then show ?thesis using ft jobs_follow_new_turn by (auto simp: first_turn_def split: if_splits)
qed (use ok in \<open>auto intro: jobs_follow_same\<close>)

lemma jobs_follow_audio:
  assumes ok: "jobs_follow g" and t: "map_of (turns g) (t_id t) = Some t" "t_status t = Awaiting_audio"
    and job: "ensure_job Triage (t_id t) (put_turn (take_audio path d t) g) g'"
  shows "jobs_follow g'"
proof (rule jobs_follow_step [OF ok])
  fix k j assume "has_job k j g"
  then show "has_job k j g'" using ensure_mono [OF job] by (simp add: has_job_def)
next
  fix i u assume "map_of (turns g') i = Some u"
  then show "(\<exists>v. map_of (turns g) i = Some v \<and> (t_status v = Awaiting_audio \<longrightarrow> t_status u = Awaiting_audio)
         \<and> (settled u \<longrightarrow> settled v))
      \<or> (t_status u \<noteq> Awaiting_audio \<longrightarrow> has_job Triage i g') \<and> (settled u \<longrightarrow> has_job Package i g')"
    using has_job_ensure [OF job] ensure_job_frame(1) [OF job]
    by (auto simp: settled_def split: if_splits)
qed

lemma jobs_follow_confirm:
  assumes ok: "jobs_follow g" and t: "map_of (turns g) (t_id t) = Some t" "t_status t = Awaiting_label_confirm"
  shows "jobs_follow (put_turn (t\<lparr>t_status := Awaiting_guess\<rparr>) g)"
  by (rule jobs_follow_step [OF ok]) (use t in \<open>auto simp: has_job_def settled_def split: if_splits\<close>)

lemma jobs_follow_next_round:
  "jobs_follow g \<Longrightarrow> next_round cap e t p g g' \<Longrightarrow> jobs_follow g'"
  by (auto simp: next_round_def intro: jobs_follow_new_turn jobs_follow_same split: if_splits)

lemma guess_db_jobs [simp]: "has_job k j (guess_db c t g) = has_job k j g"
  by (simp add: has_job_def)

lemma jobs_follow_guess:
  assumes ok: "jobs_follow g" and t: "map_of (turns g) (t_id t) = Some t" "t_status t = Awaiting_guess"
    and res: "if t_status (take_guess c t) = Scored then scored_round cap e (take_guess c t) p (guess_db c t g) g'
      else g' = guess_db c t g"
  shows "jobs_follow g'"
proof -
  have tri: "has_job Triage (t_id t) g" using ok t unfolding jobs_follow_iff by auto
  have other: "map_of (turns (guess_db c t g)) i = Some u \<Longrightarrow> i \<noteq> t_id t \<Longrightarrow> map_of (turns g) i = Some u" for i u
    by simp
  have one: "jobs_follow h" if mono: "\<And>k j. has_job k j g \<Longrightarrow> has_job k j h"
      and tu: "turns h = turns (guess_db c t g)" and pk: "settled (take_guess c t) \<longrightarrow> has_job Package (t_id t) h" for h
  proof (rule jobs_follow_step [OF ok mono])
    fix i u assume u: "map_of (turns h) i = Some u"
    show "(\<exists>v. map_of (turns g) i = Some v \<and> (t_status v = Awaiting_audio \<longrightarrow> t_status u = Awaiting_audio)
         \<and> (settled u \<longrightarrow> settled v))
      \<or> (t_status u \<noteq> Awaiting_audio \<longrightarrow> has_job Triage i h) \<and> (settled u \<longrightarrow> has_job Package i h)"
    proof (cases "i = t_id t")
      case True
      have "u = take_guess c t" using u tu True by simp
      then show ?thesis using pk mono [OF tri] True by blast
    next
      case False
      have "map_of (turns g) i = Some u" using u False unfolding tu by (rule other)
      then show ?thesis by blast
    qed
  qed
  show ?thesis
  proof (cases "t_status (take_guess c t) = Scored")
    case False
    then show ?thesis using res one [of "guess_db c t g"] by (auto simp: settled_def)
  next
    case True
    then obtain g1 where g1: "if quality t = None then g1 = guess_db c t g
        else ensure_job Package (t_id (take_guess c t)) (guess_db c t g) g1" "next_round cap e (take_guess c t) p g1 g'"
      using res by (auto simp: scored_round_def)
    have "jobs_follow g1"
    proof (rule one)
      fix k j assume "has_job k j g"
      then show "has_job k j g1" using g1(1) ensure_mono by (auto split: if_splits)
    next
      show "turns g1 = turns (guess_db c t g)" using g1(1) ensure_job_frame(1) by (auto split: if_splits)
      show "settled (take_guess c t) \<longrightarrow> has_job Package (t_id t) g1"
        using g1(1) has_job_ensure by (auto simp: settled_def split: if_splits)
    qed
    then show ?thesis using jobs_follow_next_round g1(2) by blast
  qed
qed

lemma jobs_follow_triage:
  assumes inv: "game_inv nf g" and ok: "jobs_follow g"
  shows "jobs_follow (package_if_scored now jid i (store_quality i flac q g))"
proof -
  have "triaged_ok (package_if_scored now jid i (store_quality i flac q g))"
    unfolding triaged_ok_def triage_frame
  proof (intro allI impI)
    fix j u assume u: "map_of (turns (store_quality i flac q g)) j = Some u" "t_status u \<noteq> Awaiting_audio"
    have "\<exists>v. map_of (turns g) j = Some v \<and> t_status v = t_status u"
      using u(1) inv_turn(2) [OF inv] by (auto simp: store_quality_def split: option.splits if_splits)
    then have "has_job Triage j g" using ok u(2) unfolding jobs_follow_iff by metis
    then show "has_job Triage j (package_if_scored now jid i (store_quality i flac q g))"
      by (intro package_if_scored_keeps) simp
  qed
  moreover have "packaged_ok g" using ok by (simp add: jobs_follow_def)
  ultimately show ?thesis using persist_packaged [OF inv] by (simp add: jobs_follow_def)
qed

section \<open>Steps\<close>

inductive system_step ::
  "store_ops \<Rightarrow> int \<Rightarrow> (string \<Rightarrow> string) \<Rightarrow> (bytes \<Rightarrow> py_error + audio_check_result)
     \<Rightarrow> service_state \<Rightarrow> service_state \<Rightarrow> bool"
  for ops :: store_ops and cap :: int and hash_token :: "string \<Rightarrow> string"
    and checker :: "bytes \<Rightarrow> py_error + audio_check_result" where
  join: "fresh_env e (db s) \<Longrightarrow> svc_join ops e hash_token token nick native common s = (r, s') \<Longrightarrow>
    system_step ops cap hash_token checker s s'"
| request_pair: "fresh_env e (db s) \<Longrightarrow> svc_resolve_player ops hash_token token s = (Inr me, s1) \<Longrightarrow>
    svc_request_pair ops cap e me s1 = (r, s') \<Longrightarrow> system_step ops cap hash_token checker s s'"
| upload: "svc_resolve_player ops hash_token token s = (Inr me, s1) \<Longrightarrow>
    svc_upload_audio ops e checker me payload s1 = (r', s') \<Longrightarrow> system_step ops cap hash_token checker s s'"
| confirm: "svc_resolve_player ops hash_token token s = (Inr me, s1) \<Longrightarrow>
    svc_confirm_label ops me s1 = (r, s') \<Longrightarrow> system_step ops cap hash_token checker s s'"
| guess: "fresh_env e (db s) \<Longrightarrow> svc_resolve_player ops hash_token token s = (Inr me, s1) \<Longrightarrow>
    svc_guess ops cap e me option_id s1 = (r, s') \<Longrightarrow> system_step ops cap hash_token checker s s'"
| triage: "system_step ops cap hash_token checker s
    (s\<lparr>db := package_if_scored now jid i (store_quality i flac q (db s))\<rparr>)"
| move_jobs: "map (\<lambda>j. (j_kind j, j_turn_id j)) js = map (\<lambda>j. (j_kind j, j_turn_id j)) (jobs (db s)) \<Longrightarrow>
    system_step ops cap hash_token checker s (s\<lparr>db := (db s)\<lparr>jobs := js\<rparr>\<rparr>)"
| change_decks: "keyed c_id cs \<Longrightarrow>
    system_step ops cap hash_token checker s (s\<lparr>db := (db s)\<lparr>decks := ds, cards := cs\<rparr>\<rparr>)"

definition start :: service_state where
  "start = \<lparr> db = empty_db, files = [] \<rparr>"

definition reachable ::
  "store_ops \<Rightarrow> int \<Rightarrow> (string \<Rightarrow> string) \<Rightarrow> (bytes \<Rightarrow> py_error + audio_check_result)
     \<Rightarrow> service_state \<Rightarrow> bool" where
  "reachable ops cap hash_token checker s \<longleftrightarrow> (system_step ops cap hash_token checker)\<^sup>*\<^sup>* start s"

definition system_inv :: "(string \<Rightarrow> string) \<Rightarrow> service_state \<Rightarrow> bool" where
  "system_inv nf s \<longleftrightarrow> svc_inv nf s \<and> jobs_follow (db s)"

lemma inv_jobs_moved:
  assumes inv: "game_inv nf g" and same: "map (\<lambda>j. (j_kind j, j_turn_id j)) js = map (\<lambda>j. (j_kind j, j_turn_id j)) (jobs g)"
  shows "game_inv nf (g\<lparr>jobs := js\<rparr>)"
proof -
  have "job_ok g j" if "j \<in> set js" for j
  proof -
    have "(j_kind j, j_turn_id j) \<in> set (map (\<lambda>j. (j_kind j, j_turn_id j)) (jobs g))"
      using that unfolding same [symmetric] by auto
    then obtain j' where "j' \<in> set (jobs g)" "j_kind j' = j_kind j" "j_turn_id j' = j_turn_id j" by auto
    then show ?thesis using game_invD(6) [OF inv] by (auto simp: jobs_ok_def job_ok_def)
  qed
  then have "jobs_ok (g\<lparr>jobs := js\<rparr>)"
    using game_invD(6) [OF inv] same by (simp add: jobs_ok_def job_ok_def)
  then show ?thesis using inv
    by (simp add: game_inv_def rows_ok_def names_ok_def pairs_ok_def pair_ok_def turns_ok_def one_open_def
        counters_ok_def counter_def n_validated_def)
qed

lemma inv_decks_changed:
  "game_inv nf g \<Longrightarrow> keyed c_id cs \<Longrightarrow> game_inv nf (g\<lparr>decks := ds, cards := cs\<rparr>)"
  by (simp add: game_inv_def rows_ok_def names_ok_def pairs_ok_def pair_ok_def turns_ok_def one_open_def
      jobs_ok_def job_ok_def counters_ok_def counter_def n_validated_def)

context game_store
begin

lemma system_step_inv:
  assumes checker: "\<And>b res. checker b = Inr res \<Longrightarrow> accepted res \<longleftrightarrow> ac_reason res = None"
    and inv: "system_inv nf s" and step: "system_step ops cap hash_token checker s s'"
  shows "system_inv nf s'"
proof -
  have si: "svc_inv nf s" and gi: "game_inv nf (db s)" and mi: "matching_ok (db s)" and jf: "jobs_follow (db s)"
    using inv by (simp_all add: system_inv_def svc_inv_def)
  show ?thesis
    using step
  proof cases
    case (join e token nick native common r)
    have "jobs_follow (db s')"
    proof (cases r)
      case (Inl err)
      then show ?thesis using join_spec(2) [OF si join(1,2)] jf by simp
    next
      case (Inr tok)
      then obtain p where "db s' = put_player p (db s)" using join_spec(3) [OF si join(1,2)] by auto
      then show ?thesis by (intro jobs_follow_same [OF jf]) simp_all
    qed
    then show ?thesis using join_spec(1) [OF si join(1,2)] by (simp add: system_inv_def)
  next
    case (request_pair e token me s1 r)
    have s1: "s1 = s" by (rule resolve_player_spec(1) [OF si request_pair(2)])
    have me: "map_of (players (db s)) (p_id me) \<noteq> None"
      using resolve_player_spec(2) [OF si request_pair(2)] by auto
    note rp = request_pair_spec [OF si request_pair(1) me request_pair(3) [unfolded s1]]
    have "jobs_follow ((db s)\<lparr>queue := AList.update (p_id me) (clock e At_enqueue) (queue (db s))\<rparr>)"
      by (rule jobs_follow_same [OF jf]) simp_all
    then have "jobs_follow (db s')" using rp jf jobs_follow_match by (auto split: if_splits)
    then show ?thesis using rp by (simp add: system_inv_def)
  next
    case (upload token me s1 e payload r')
    have s1: "s1 = s" by (rule resolve_player_spec(1) [OF si upload(1)])
    note ua = upload_audio_spec [OF si upload(2) [unfolded s1]]
    have "jobs_follow (db s')"
      using ua(1) jf checker by (auto intro: jobs_follow_audio)
    then show ?thesis using ua(2) by (simp add: system_inv_def)
  next
    case (confirm token me s1 r)
    have s1: "s1 = s" by (rule resolve_player_spec(1) [OF si confirm(1)])
    note cl = confirm_label_spec [OF si confirm(2) [unfolded s1]]
    have "jobs_follow (db s')" using cl(1) jf by (auto intro: jobs_follow_confirm)
    then show ?thesis using cl(2) by (simp add: system_inv_def)
  next
    case (guess e token me s1 option_id r)
    have s1: "s1 = s" by (rule resolve_player_spec(1) [OF si guess(2)])
    have fr: "map_of (turns (db s)) (new_turn e) = None" using guess(1) by (simp add: fresh_env_def)
    note gs = guess_spec [OF si fr guess(3) [unfolded s1]]
    from gs(1) have "jobs_follow (db s')"
    proof (elim disjE exE conjE)
      fix t p g' assume t: "map_of (turns (db s)) (t_id t) = Some t" "t_status t = Awaiting_guess"
        and s': "s' = s\<lparr>db := g'\<rparr>" and res: "if t_status (take_guess (option_id = t_card_id t) t) = Scored
          then scored_round cap e (take_guess (option_id = t_card_id t) t) p
                 (guess_db (option_id = t_card_id t) t (db s)) g'
          else g' = guess_db (option_id = t_card_id t) t (db s)"
      show ?thesis using jobs_follow_guess [OF jf t res] s' by simp
    qed (use jf in simp)
    then show ?thesis using gs(2) by (simp add: system_inv_def)
  next
    case (triage now jid i flac q)
    have "game_inv nf (db s')" unfolding triage service_state.simps
      by (simp add: package_if_scored_inv store_quality_inv gi)
    moreover have "matching_ok (db s')" unfolding triage by (rule matching_ok_frame [OF mi]) simp_all
    moreover have "jobs_follow (db s')" unfolding triage using jobs_follow_triage [OF gi jf] by simp
    ultimately show ?thesis by (simp add: system_inv_def svc_inv_def)
  next
    case (move_jobs js)
    have "matching_ok (db s')" unfolding move_jobs(1) by (rule matching_ok_frame [OF mi]) simp_all
    moreover have "jobs_follow (db s')" using jf move_jobs unfolding jobs_follow_iff has_job_def by simp
    ultimately show ?thesis using inv_jobs_moved [OF gi move_jobs(2)] move_jobs(1)
      by (simp add: system_inv_def svc_inv_def)
  next
    case (change_decks cs ds)
    have "matching_ok (db s')" unfolding change_decks(1) by (rule matching_ok_frame [OF mi]) simp_all
    moreover have "jobs_follow (db s')" unfolding change_decks(1) by (rule jobs_follow_same [OF jf]) simp_all
    ultimately show ?thesis using inv_decks_changed [OF gi change_decks(2)] change_decks(1)
      by (simp add: system_inv_def svc_inv_def)
  qed
qed

lemma reachable_inv:
  assumes checker: "\<And>b res. checker b = Inr res \<Longrightarrow> accepted res \<longleftrightarrow> ac_reason res = None"
    and reach: "reachable ops cap hash_token checker s"
  shows "system_inv nf s"
  using reach unfolding reachable_def
proof (induction rule: rtranclp_induct)
  case base
  show ?case using game_inv_empty matching_ok_empty
    by (simp add: start_def system_inv_def svc_inv_def jobs_follow_iff) (simp add: empty_db_def)
next
  case (step s s')
  show ?case by (rule system_step_inv [OF checker step(3) step(2)])
qed

end

section \<open>After a round\<close>

context game_store
begin

text \<open>What a guess that scores a turn leaves behind.\<close>

lemma scored_summary:
  assumes inv: "svc_inv nf s" and fresh: "map_of (turns (db s)) (new_turn e) = None"
    and run: "svc_guess ops cap e me option_id s = (r, s')"
    and t: "map_of (turns (db s)) i = Some t" "t_status t = Awaiting_guess"
    and u: "map_of (turns (db s')) i = Some u" "t_status u = Scored"
  shows "\<exists>p g1. map_of (pairs (db s)) (t_pair_id t) = Some p \<and> turns g1 = AList.update i u (turns (db s))
    \<and> (quality t \<noteq> None \<longrightarrow> has_job Package i (db s'))
    \<and> (if capped cap p g1 then map_of (pairs (db s')) (pr_id p) = Some (p\<lparr>pr_status := Completed\<rparr>)
         \<and> turns (db s') = turns g1
       else if live_cards (db s) = [] then turns (db s') = turns g1 \<and> pairs (db s') = pairs (db s)
       else \<exists>c \<in> set (live_cards (db s)). turns (db s') = AList.update (new_turn e)
         (mk_turn (new_turn e) (pr_id p) (guesser_id t) (speaker_id t) (c_id c) (clock e At_turn)) (turns g1))"
proof -
  have "s' \<noteq> s" using t u by auto
  then obtain v p g' where v: "map_of (turns (db s)) (t_id v) = Some v" "map_of (pairs (db s)) (t_pair_id v) = Some p"
      "s' = s\<lparr>db := g'\<rparr>"
    and res: "if t_status (take_guess (option_id = t_card_id v) v) = Scored
          then scored_round cap e (take_guess (option_id = t_card_id v) v) p
                 (guess_db (option_id = t_card_id v) v (db s)) g'
          else g' = guess_db (option_id = t_card_id v) v (db s)"
    using guess_spec(1) [OF inv fresh run] by blast
  define w where "w = take_guess (option_id = t_card_id v) v"
  define h where "h = guess_db (option_id = t_card_id v) v (db s)"
  have new: "new_turn e \<noteq> t_id v" "new_turn e \<noteq> i" using v(1) t(1) fresh by auto
  have th: "turns h = AList.update (t_id v) w (turns (db s))" by (simp add: h_def w_def)
  have ids: "t_id w = t_id v" "guesser_id w = guesser_id v" "speaker_id w = speaker_id v" "quality w = quality v"
    by (simp_all add: w_def)
  have w: "map_of (turns g') (t_id v) = Some w" unfolding w_def by (rule guess_keeps_turn [OF res new(1)])
  have u': "map_of (turns g') i = Some u" using u(1) v(3) by simp
  show ?thesis
  proof (cases "t_status w = Scored")
    case False
    then have "g' = h" using res by (simp add: w_def h_def)
    then have "u = t \<or> u = w" using u' th t(1) by (auto split: if_splits)
    then show ?thesis using False t(2) u(2) by auto
  next
    case True
    then obtain g1 where g1: "if quality w = None then g1 = h else ensure_job Package (t_id w) h g1"
        "next_round cap e w p g1 g'"
      using res True unfolding scored_round_def w_def [symmetric] h_def [symmetric] by auto
    have same: "turns g1 = turns h" "pairs g1 = pairs (db s)" "live_cards g1 = live_cards (db s)"
      using g1(1) ensure_job_frame [of Package "t_id w" h g1] by (auto simp: h_def live_cards_def split: if_splits)
    have "i = t_id v"
    proof (rule ccontr)
      assume "i \<noteq> t_id v"
      then have "map_of (turns g') i = map_of (turns (db s)) i"
        using next_round_turn [OF g1(2) new(2)] same(1) th by simp
      then show False using t u' u(2) by simp
    qed
    then have i: "i = t_id v" "v = t" "w = u" using v(1) t(1) w u' by auto
    have job: "has_job Package i g'" if "quality t \<noteq> None"
    proof -
      have "has_job Package i g1" using that g1(1) has_job_ensure ids i by auto
      moreover have "jobs g' = jobs g1" using g1(2) by (auto simp: next_round_def split: if_splits)
      ultimately show ?thesis by (simp add: has_job_def)
    qed
    have next_eq: "if capped cap p g1 then g' = put_pair (p\<lparr>pr_status := Completed\<rparr>) g1
       else if live_cards (db s) = [] then g' = g1
       else \<exists>c \<in> set (live_cards (db s)). g' = put_turn
         (mk_turn (new_turn e) (pr_id p) (guesser_id t) (speaker_id t) (c_id c) (clock e At_turn)) g1"
      using g1(2) unfolding next_round_def same(3) ids i(2) .
    have g1t: "turns g1 = AList.update i u (turns (db s))" using same(1) th i by simp
    show ?thesis
    proof (intro exI conjI)
      show "map_of (pairs (db s)) (t_pair_id t) = Some p" using v(2) i(2) by simp
      show "turns g1 = AList.update i u (turns (db s))" by (rule g1t)
      show "quality t \<noteq> None \<longrightarrow> has_job Package i (db s')" using job v(3) by simp
      show "if capped cap p g1 then map_of (pairs (db s')) (pr_id p) = Some (p\<lparr>pr_status := Completed\<rparr>)
         \<and> turns (db s') = turns g1
       else if live_cards (db s) = [] then turns (db s') = turns g1 \<and> pairs (db s') = pairs (db s)
       else \<exists>c \<in> set (live_cards (db s)). turns (db s') = AList.update (new_turn e)
         (mk_turn (new_turn e) (pr_id p) (guesser_id t) (speaker_id t) (c_id c) (clock e At_turn)) (turns g1)"
        using next_eq v(3) same(2) by (auto split: if_splits)
    qed
  qed
qed

end

end
