(* ===== verification/Races.thy ===== *)
theory Races
  imports Gauntlet_Laws Pg_Laws Service
begin

text \<open>
  Requests and jobs are several transactions each, and the transactions of different processes
  interleave.  Two places depend on it: the package job of a turn, inserted by whichever of the
  last guess and the triage comes second, and the queue row of a player who is matched while
  their own request is under way.
\<close>

section \<open>The last guess against the triage\<close>

text \<open>
  \<open>guess\<close> is three transactions for the package job: \<open>apply_guess\<close>, the second read of the turn,
  and the insertion when that read saw a quality; \<open>persist_triage\<close> is one.
\<close>

datatype race_step = Apply_guess | Reread_turn | Enqueue_package | Persist_triage

record race_state =
  r_db :: game_db
  r_seen :: bool

fun race_apply ::
  "env \<Rightarrow> uuid \<Rightarrow> bool \<Rightarrow> string \<Rightarrow> (string \<times> json) list \<Rightarrow> race_step \<Rightarrow> race_state \<Rightarrow> race_state" where
  "race_apply e i correct flac q Apply_guess s = s\<lparr>r_db := snd (pg_apply_guess i correct (r_db s))\<rparr>"
| "race_apply e i correct flac q Reread_turn s =
     s\<lparr>r_seen := (case pg_get_turn i (r_db s) of None \<Rightarrow> False | Some t \<Rightarrow> quality t \<noteq> None)\<rparr>"
| "race_apply e i correct flac q Enqueue_package s =
     (if r_seen s then s\<lparr>r_db := snd (pg_enqueue_job e Package i (r_db s))\<rparr> else s)"
| "race_apply e i correct flac q Persist_triage s =
     s\<lparr>r_db := package_if_scored (clock e At_job) (new_job e) i (store_quality i flac q (r_db s))\<rparr>"

definition race_run ::
  "env \<Rightarrow> uuid \<Rightarrow> bool \<Rightarrow> string \<Rightarrow> (string \<times> json) list \<Rightarrow> race_step list \<Rightarrow> game_db \<Rightarrow> game_db" where
  "race_run e i correct flac q steps g =
     r_db (fold (race_apply e i correct flac q) steps \<lparr> r_db = g, r_seen = False \<rparr>)"

lemma race_orders:
  assumes "steps \<in> shuffles [Apply_guess, Reread_turn, Enqueue_package] [Persist_triage]"
  obtains "steps = [Persist_triage, Apply_guess, Reread_turn, Enqueue_package]"
  | "steps = [Apply_guess, Persist_triage, Reread_turn, Enqueue_package]"
  | "steps = [Apply_guess, Reread_turn, Persist_triage, Enqueue_package]"
  | "steps = [Apply_guess, Reread_turn, Enqueue_package, Persist_triage]"
  using assms by auto

definition n_packages :: "uuid \<Rightarrow> game_db \<Rightarrow> nat" where
  "n_packages i g = length (filter (\<lambda>j. j_kind j = Package \<and> j_turn_id j = i) (jobs g))"

lemma n_packages_0: "n_packages i g = 0 \<longleftrightarrow> \<not> has_job Package i g"
  by (force simp: n_packages_def has_job_def filter_empty_conv)

lemma n_packages_cong: "jobs g = jobs h \<Longrightarrow> n_packages i g = n_packages i h"
  by (simp add: n_packages_def)

lemma n_packages_enqueue:
  "n_packages i (snd (pg_enqueue_job e Package i g)) = max 1 (n_packages i g)"
proof (cases "has_job Package i g")
  case True
  then show ?thesis using n_packages_0 [of i g] by (simp add: pg_enqueue_job_def has_job_def max_def)
next
  case False
  then have "snd (pg_enqueue_job e Package i g) = add_job
      \<lparr> j_id = new_job e, j_kind = Package, j_turn_id = i, j_status = Job_pending, tries = 0,
        last_error = None, j_created_at = clock e At_job, available_at = clock e At_job,
        claimed_at = None, completed_at = None \<rparr> g" by (simp add: pg_enqueue_job_def has_job_def)
  then show ?thesis using False n_packages_0 [of i g] by (simp add: n_packages_def)
qed

lemma n_packages_persist:
  assumes t: "map_of (turns g) i = Some t" and st: "t_status t = Scored" "quality t \<noteq> None"
  shows "n_packages i (package_if_scored now jid i g) = max 1 (n_packages i g)"
proof (cases "has_job Package i g")
  case True
  then show ?thesis using n_packages_0 [of i g] t by (simp add: package_if_scored_def has_job_def max_def)
next
  case False
  then have "package_if_scored now jid i g = add_job \<lparr> j_id = jid, j_kind = Package, j_turn_id = i,
      j_status = Job_pending, tries = 0, last_error = None, j_created_at = now, available_at = now,
      claimed_at = None, completed_at = None \<rparr> g" using t st by (simp add: package_if_scored_def has_job_def)
  then show ?thesis using False n_packages_0 [of i g] by (simp add: n_packages_def)
qed

text \<open>The turn and the job count after each transaction.\<close>

lemma race_guess:
  assumes inv: "game_inv nf g" and t: "map_of (turns g) i = Some t" "t_status t = Awaiting_guess"
  shows "map_of (turns (snd (pg_apply_guess i c g))) i = Some (take_guess c t)"
    and "jobs (snd (pg_apply_guess i c g)) = jobs g"
  using pg_apply_guess_spec [OF inv t] inv_turn(2) [OF inv t(1)] by simp_all

lemma race_quality:
  assumes "game_inv nf g" and "map_of (turns g) i = Some t"
  shows "map_of (turns (store_quality i flac q g)) i = Some (t\<lparr>audio_flac_path := Some flac, quality := Some q\<rparr>)"
  using store_quality_turn [OF assms(2,1)] by simp


lemma race_package:
  assumes inv: "game_inv nf g" and t: "map_of (turns g) i = Some t" "t_status t = Awaiting_guess"
    and scored: "t_status (take_guess c t) = Scored"
    and steps: "steps \<in> shuffles [Apply_guess, Reread_turn, Enqueue_package] [Persist_triage]"
  shows "n_packages i (race_run e i c flac q steps g) = 1"
proof -
  have none: "n_packages i g = 0"
    using game_invD(6) [OF inv] t unfolding n_packages_0 has_job_def jobs_ok_def job_ok_def by fastforce
  let ?g1 = "snd (pg_apply_guess i c g)" and ?Q = "store_quality i flac q"
  let ?P = "package_if_scored (clock e At_job) (new_job e) i"
  note g1 = race_guess [OF inv t, of c]
  have inv1: "game_inv nf ?g1"
    using pg_apply_guess_spec [OF inv t, of c] inv_guess [OF inv t, of c] by simp
  have n1: "n_packages i ?g1 = 0" using none n_packages_cong [OF g1(2), of i] by simp
  have s1: "t_status (take_guess c t) = Scored" "quality (take_guess c t) = quality t" using scored by simp_all
  have late: "n_packages i (?P (?Q h)) = max 1 (n_packages i h)"
    if h: "game_inv nf h" "map_of (turns h) i = Some (take_guess c t)" for h
    using n_packages_persist [OF race_quality [OF h, where flac = flac and q = q]] s1 n_packages_cong [of "?Q h" h i] by simp
  from steps show ?thesis
  proof (cases rule: race_orders)
    case 1
    have "t_status (t\<lparr>audio_flac_path := Some flac, quality := Some q\<rparr>) \<noteq> Scored" using t(2) by simp
    then have P: "?P (?Q g) = ?Q g" using race_quality [OF inv t(1), where flac = flac and q = q] by (simp add: package_if_scored_def)
    have st: "t_status (t\<lparr>audio_flac_path := Some flac, quality := Some q\<rparr>) = Awaiting_guess" using t(2) by simp
    note g2 = race_guess [OF store_quality_inv [OF inv] race_quality [OF inv t(1)] st, of c]
    have "n_packages i (snd (pg_apply_guess i c (?Q g))) = 0"
      using none n_packages_cong [OF g2(2)] n_packages_cong [of "?Q g" g i] t(2) by simp
    then show ?thesis using 1 P g2(1) t(2)
      by (simp add: race_run_def pg_get_turn_def n_packages_enqueue)
  next
    case 2
    have g2: "map_of (turns (?P (?Q ?g1))) i = Some ((take_guess c t)\<lparr>audio_flac_path := Some flac, quality := Some q\<rparr>)"
      using race_quality [OF inv1 g1(1)] by simp
    show ?thesis using 2 g2 late [OF inv1 g1(1)] n1
      by (simp add: race_run_def pg_get_turn_def n_packages_enqueue)
  next
    case 3
    then show ?thesis using g1(1) late [OF inv1 g1(1)] n1
      by (simp add: race_run_def pg_get_turn_def n_packages_enqueue)
  next
    case 4
    let ?g2 = "snd (pg_enqueue_job e Package i ?g1)"
    show ?thesis
    proof (cases "quality t = None")
      case True
      then show ?thesis using 4 g1(1) late [OF inv1 g1(1)] n1
        by (simp add: race_run_def pg_get_turn_def n_packages_enqueue)
    next
      case False
      have turns2: "turns ?g2 = turns ?g1" by (simp add: pg_enqueue_job_def)
      have q2: "map_of (turns (?Q ?g2)) i = Some ((take_guess c t)\<lparr>audio_flac_path := Some flac, quality := Some q\<rparr>)"
        using g1(1) turns2 inv_turn(2) [OF inv t(1)] by (simp add: store_quality_def)
      have "n_packages i (?P (?Q ?g2)) = 1"
        using n_packages_persist [OF q2] s1 n1 n_packages_cong [of "?Q ?g2" ?g2 i] by (simp add: n_packages_enqueue)
      then show ?thesis using 4 False g1(1) by (simp add: race_run_def pg_get_turn_def)
    qed
  qed
qed

end
