(* ===== verification/Demo.thy ===== *)
theory Demo
  imports System Races
begin

text \<open>
  A concrete game: two players join, are paired, record, confirm and guess.  The states are
  written out, each request is evaluated on the model of both stores, and the states are
  reachable and well-formed.  The properties are applied here.
\<close>

section \<open>Environment and rows\<close>

definition demo_env :: "nat \<Rightarrow> env" where
  "demo_env n = \<lparr> clock = (\<lambda>_. int n * 1000000), new_player = 10 + n, new_pair = 20 + n,
     new_turn = 30 + n, new_job = 40 + n, rnd = 0, row_random = (\<lambda>i. i), locked = (\<lambda>_. False) \<rparr>"

definition demo_card :: card where
  "demo_card = \<lparr> c_id = 7, c_deck_id = 5, image_path = ''well.png'',
     label_common = [(''en'', JStr ''well'')], decoys = [8], verified = True \<rparr>"

definition demo_decoy :: card where
  "demo_decoy = \<lparr> c_id = 8, c_deck_id = 5, image_path = ''hut.png'',
     label_common = [(''en'', JStr ''hut'')], decoys = [7], verified = True \<rparr>"

definition demo_deck :: deck where
  "demo_deck = \<lparr> d_id = 5, region_tag = ''south'', d_status = Deck_live \<rparr>"

text \<open>A token hash and an audio probe for the demonstration.\<close>

definition demo_hash :: "string \<Rightarrow> string" where
  "demo_hash token = CHR ''h'' # token"

definition demo_ffprobe :: "bytes \<Rightarrow> proc" where
  "demo_ffprobe payload = (if payload = [] then Finished 1 [] [] else Finished 0 ''3.5'' [])"

definition demo_ffmpeg :: "bytes \<Rightarrow> proc" where
  "demo_ffmpeg payload = Finished 0 [] ''mean_volume: -20.5 dB''"

definition demo_checker :: "bytes \<Rightarrow> py_error + audio_check_result" where
  "demo_checker payload = check_audio_file (demo_ffprobe payload) (demo_ffmpeg payload)"

definition demo_pg :: store_ops where
  "demo_pg = postgres_ops py_lower (\<lambda>d. d) (\<lambda>s. s)"

definition ana :: player where
  "ana = \<lparr> p_id = 11, nickname = ''ana'', native_lang = ''bn'', common_langs = [''en''],
     session_token_hash = ''ht1'', p_created_at = 1000000 \<rparr>"

definition ravi :: player where
  "ravi = \<lparr> p_id = 12, nickname = ''ravi'', native_lang = ''hi'', common_langs = [''en''],
     session_token_hash = ''ht2'', p_created_at = 2000000 \<rparr>"

definition demo_pair :: pair where
  "demo_pair = \<lparr> pr_id = 24, player_a = 11, player_b = 12, common_lang = ''en'', pr_status = Active,
     pr_created_at = 4000000 \<rparr>"

definition turn_new :: turn where
  "turn_new = mk_turn 34 24 11 12 7 4000000"

definition turn_recorded :: turn where
  "turn_recorded = take_audio ''audio/00000000-0000-0000-0000-000000000022.webm'' (Fin (7 / 2)) turn_new"

definition turn_confirmed :: turn where
  "turn_confirmed = turn_recorded\<lparr>t_status := Awaiting_guess\<rparr>"

definition turn_scored :: turn where
  "turn_scored = turn_confirmed\<lparr>attempts := 1, t_status := Scored, t_outcome := Validated\<rparr>"

definition turn_next :: turn where
  "turn_next = mk_turn 38 24 12 11 8 8000000"

definition triage_job_row :: job where
  "triage_job_row = \<lparr> j_id = 45, j_kind = Triage, j_turn_id = 34, j_status = Job_pending, tries = 0,
     last_error = None, j_created_at = 5000000, available_at = 5000000, claimed_at = None,
     completed_at = None \<rparr>"

section \<open>States\<close>

definition demo_db ::
  "int \<Rightarrow> (uuid, player) dict \<Rightarrow> (uuid, time) dict \<Rightarrow> (uuid, pair) dict \<Rightarrow> (uuid, turn) dict \<Rightarrow> job list
     \<Rightarrow> game_db" where
  "demo_db n ps q prs ts js =
     \<lparr> players = ps, players_by_hash = map (\<lambda>(i, p). (session_token_hash p, i)) ps,
       queue = q, pairs = prs, decks = [(5, demo_deck)], cards = [(7, demo_card), (8, demo_decoy)],
       turns = ts, jobs = js,
       metrics_counters = [(''validated_pairs'', n), (''training_eligible_pairs'', 0)] \<rparr>"

definition demo_files :: "(string, bytes) dict" where
  "demo_files = [(''audio/00000000-0000-0000-0000-000000000022.webm'', [1, 2, 3])]"

definition both :: "(uuid, player) dict" where
  "both = [(11, ana), (12, ravi)]"

definition s_decks :: service_state where
  "s_decks = \<lparr> db = demo_db 0 [] [] [] [] [], files = [] \<rparr>"

definition s_one :: service_state where
  "s_one = \<lparr> db = demo_db 0 [(11, ana)] [] [] [] [], files = [] \<rparr>"

definition s_two :: service_state where
  "s_two = \<lparr> db = demo_db 0 both [] [] [] [], files = [] \<rparr>"

definition s_queued :: service_state where
  "s_queued = \<lparr> db = demo_db 0 both [(11, 3000000)] [] [] [], files = [] \<rparr>"

definition s_paired :: service_state where
  "s_paired = \<lparr> db = demo_db 0 both [] [(24, demo_pair)] [(34, turn_new)] [], files = [] \<rparr>"

definition s_recorded :: service_state where
  "s_recorded = \<lparr> db = demo_db 0 both [] [(24, demo_pair)] [(34, turn_recorded)] [triage_job_row],
     files = demo_files \<rparr>"

definition s_confirmed :: service_state where
  "s_confirmed = \<lparr> db = demo_db 0 both [] [(24, demo_pair)] [(34, turn_confirmed)] [triage_job_row],
     files = demo_files \<rparr>"

definition s_scored :: service_state where
  "s_scored = \<lparr> db = demo_db 1 both [] [(24, demo_pair)] [(34, turn_scored), (38, turn_next)] [triage_job_row],
     files = demo_files \<rparr>"

section \<open>Recording\<close>

lemma demo_path:
  "audio_rel_path 34 = ''audio/00000000-0000-0000-0000-000000000022.webm''"
  "py_replace_backslash ''audio/00000000-0000-0000-0000-000000000022.webm''
     = ''audio/00000000-0000-0000-0000-000000000022.webm''"
  by code_simp+

lemma demo_check: "demo_checker [1, 2, 3] = Inr \<lparr>accepted = True, ac_duration_s = Some (Fin (7 / 2)),
    ac_mean_volume_db = Some (Fin (- (41 / 2))), ac_reason = None\<rparr>" by code_simp

lemma demo_upload:
  assumes turn: "svc_require_speaker_turn ops ana Awaiting_audio s_paired = (Inr turn_new, s_paired)"
    and accept: "op_accept_audio ops 34 ''audio/00000000-0000-0000-0000-000000000022.webm'' (Fin (7 / 2)) (db s_paired)
      = (Inr turn_recorded, demo_db 0 both [] [(24, demo_pair)] [(34, turn_recorded)] [])"
    and job: "op_enqueue_job ops (demo_env 5) Triage 34 (demo_db 0 both [] [(24, demo_pair)] [(34, turn_recorded)] [])
      = (Inr True, db s_recorded)"
  shows "svc_upload_audio ops (demo_env 5) demo_checker ana [1, 2, 3] s_paired = (Inr None, s_recorded)"
proof -
  have i: "t_id turn_new = 34" by (simp add: turn_new_def)
  have fs: "files s_paired = []" "\<lparr> db = db s_recorded, files = demo_files \<rparr> = s_recorded"
    by (simp_all add: s_recorded_def s_paired_def)
  have stored: "s_paired\<lparr>files := [(''audio/00000000-0000-0000-0000-000000000022.webm'', [1, 2, 3])], db := g\<rparr>
      = \<lparr> db = g, files = demo_files \<rparr>" for g
    by (simp add: s_paired_def demo_files_def)
  show ?thesis
    using turn accept job demo_check
    by (simp add: svc_upload_audio_def svc_unfold ret_def Let_def demo_path i fs stored)
qed

section \<open>The run on the memory store\<close>

lemma mem_join:
  "svc_join memory_ops (demo_env 1) demo_hash ''t1'' ''ana'' ''bn'' [''en''] s_decks = (Inr ''t1'', s_one)"
  by code_simp

lemma mem_join_second:
  "svc_join memory_ops (demo_env 2) demo_hash ''t2'' '' ravi'' ''hi'' [''en'', '' ''] s_one = (Inr ''t2'', s_two)"
  by code_simp

lemma mem_queued:
  "svc_request_pair memory_ops 10 (demo_env 3) ana s_two = (Inr ''queued'', s_queued)"
  by code_simp

lemma mem_paired:
  "svc_request_pair memory_ops 10 (demo_env 4) ravi s_queued = (Inr ''matched'', s_paired)"
  by code_simp

lemma mem_recorded:
  "svc_upload_audio memory_ops (demo_env 5) demo_checker ana [1, 2, 3] s_paired = (Inr None, s_recorded)"
  by (rule demo_upload; code_simp)

lemma mem_confirmed:
  "svc_confirm_label memory_ops ana s_recorded = (Inr ''ok'', s_confirmed)"
  by code_simp

lemma mem_scored:
  "svc_guess memory_ops 10 (demo_env 8) ravi 7 s_confirmed = (Inr ''ok'', s_scored)"
  by code_simp


text \<open>What the guesser then polls.\<close>

definition ravi_bundle :: state_bundle where
  "ravi_bundle = \<lparr> b_player = ravi, b_queued = False, b_pair = Some demo_pair, b_partner = Some ana,
     b_turn = Some turn_confirmed, b_card = Some demo_card, b_previous_scored = None,
     b_stats = \<lparr> score = 0, rounds_played = 0, rank = Some 2 \<rparr>,
     b_leaderboard_top = [\<lparr> lb_nickname = ''ana'', lb_score = 0 \<rparr>, \<lparr> lb_nickname = ''ravi'', lb_score = 0 \<rparr>],
     b_decoy_labels = [(8, ''hut'')] \<rparr>"

definition ravi_view :: state_response where
  "ravi_view = compose_state_response (\<lambda>_ n. n) 6000000 10 ravi_bundle"

lemma mem_bundle_ravi: "mem_fetch_state_bundle (demo_env 6) 12 5 (db s_confirmed) = Inr ravi_bundle"
  by code_simp

lemma mem_poll:
  "svc_get_state memory_ops (\<lambda>_ n. n) 10 (demo_env 6) ravi s_confirmed = (Inr ravi_view, s_confirmed)"
  "sr_turn ravi_view = Some
     \<lparr> ts_role = Some Guesser, ts_card_image_url = None, ts_label = None,
       ts_options = Some [(7, ''well''), (8, ''hut'')],
       ts_audio_url = Some ''/media/audio/00000000-0000-0000-0000-000000000022.webm'',
       ts_attempts_left = Some 2, ts_deadline = Some 94 \<rparr>"
  "sr_phase ravi_view = GUESSING"
proof -
  show "svc_get_state memory_ops (\<lambda>_ n. n) 10 (demo_env 6) ravi s_confirmed = (Inr ravi_view, s_confirmed)"
    using mem_bundle_ravi
    by (simp add: svc_get_state_def svc_unfold ret_def memory_ops_def ravi_def ravi_view_def demo_env_def)
  have rl: "role_of ravi_bundle = Some Guesser" by code_simp
  have ph: "phase_for_turn 6000000 ravi_bundle (Some Guesser) = GUESSING" by code_simp
  have b: "b_pair ravi_bundle = Some demo_pair" "rounds_played (b_stats ravi_bundle) = 0" "pr_status demo_pair = Active"
    by (simp_all add: ravi_bundle_def demo_pair_def)
  show "sr_phase ravi_view = GUESSING"
    using rl ph b by (simp add: ravi_view_def compose_state_response_def Let_def)
  have "sr_turn ravi_view = turn_state_of (\<lambda>_ n. n) ravi_bundle (Some Guesser) GUESSING"
    using rl ph b by (simp add: ravi_view_def compose_state_response_def Let_def)
  moreover have "turn_state_of (\<lambda>_ n. n) ravi_bundle (Some Guesser) GUESSING = Some
     \<lparr> ts_role = Some Guesser, ts_card_image_url = None, ts_label = None,
       ts_options = Some [(7, ''well''), (8, ''hut'')],
       ts_audio_url = Some ''/media/audio/00000000-0000-0000-0000-000000000022.webm'',
       ts_attempts_left = Some 2, ts_deadline = Some 94 \<rparr>"
    by code_simp
  ultimately show "sr_turn ravi_view = Some
     \<lparr> ts_role = Some Guesser, ts_card_image_url = None, ts_label = None,
       ts_options = Some [(7, ''well''), (8, ''hut'')],
       ts_audio_url = Some ''/media/audio/00000000-0000-0000-0000-000000000022.webm'',
       ts_attempts_left = Some 2, ts_deadline = Some 94 \<rparr>" by simp
qed

section \<open>The same run on the Postgres store\<close>

lemma pg_join:
  "svc_join demo_pg (demo_env 1) demo_hash ''t1'' ''ana'' ''bn'' [''en''] s_decks = (Inr ''t1'', s_one)"
  by code_simp

lemma pg_join_second:
  "svc_join demo_pg (demo_env 2) demo_hash ''t2'' '' ravi'' ''hi'' [''en'', '' ''] s_one = (Inr ''t2'', s_two)"
  by code_simp

lemma pg_queued:
  "svc_request_pair demo_pg 10 (demo_env 3) ana s_two = (Inr ''queued'', s_queued)"
  by code_simp

lemma pg_paired:
  "svc_request_pair demo_pg 10 (demo_env 4) ravi s_queued = (Inr ''matched'', s_paired)"
  by code_simp

lemma pg_recorded:
  "svc_upload_audio demo_pg (demo_env 5) demo_checker ana [1, 2, 3] s_paired = (Inr None, s_recorded)"
  by (rule demo_upload; code_simp)

lemma pg_confirmed:
  "svc_confirm_label demo_pg ana s_recorded = (Inr ''ok'', s_confirmed)"
  by code_simp

lemma pg_scored:
  "svc_guess demo_pg 10 (demo_env 8) ravi 7 s_confirmed = (Inr ''ok'', s_scored)"
  by code_simp


section \<open>The states are reachable\<close>

lemma demo_fresh:
  "fresh_env (demo_env 1) (db s_decks)" "fresh_env (demo_env 2) (db s_one)" "fresh_env (demo_env 3) (db s_two)"
  "fresh_env (demo_env 4) (db s_queued)" "fresh_env (demo_env 8) (db s_confirmed)" "fresh_env (demo_env 9) (db s_scored)"
  by code_simp+

lemma reachable_start: "reachable ops cap h ch start"
  by (simp add: reachable_def)

lemma reachable_step: "reachable ops cap h ch s \<Longrightarrow> system_step ops cap h ch s s' \<Longrightarrow> reachable ops cap h ch s'"
  unfolding reachable_def by (rule rtranclp.rtrancl_into_rtrancl)

lemma demo_decks_reachable: "reachable ops cap h ch s_decks"
proof (rule reachable_step [OF reachable_start])
  have "keyed c_id [(7, demo_card), (8, demo_decoy)]" by (simp add: keyed_def demo_card_def demo_decoy_def)
  then have "system_step ops cap h ch start
      (start\<lparr>db := (db start)\<lparr>decks := [(5, demo_deck)], cards := [(7, demo_card), (8, demo_decoy)]\<rparr>\<rparr>)"
    by (rule system_step.change_decks)
  moreover have "start\<lparr>db := (db start)\<lparr>decks := [(5, demo_deck)], cards := [(7, demo_card), (8, demo_decoy)]\<rparr>\<rparr> = s_decks"
    by (simp add: start_def s_decks_def demo_db_def empty_db_def)
  ultimately show "system_step ops cap h ch start s_decks" by simp
qed

lemma mem_resolve:
  "svc_resolve_player memory_ops demo_hash ''t1'' s_two = (Inr ana, s_two)"
  "svc_resolve_player memory_ops demo_hash ''t2'' s_queued = (Inr ravi, s_queued)"
  "svc_resolve_player memory_ops demo_hash ''t1'' s_paired = (Inr ana, s_paired)"
  "svc_resolve_player memory_ops demo_hash ''t1'' s_recorded = (Inr ana, s_recorded)"
  "svc_resolve_player memory_ops demo_hash ''t2'' s_confirmed = (Inr ravi, s_confirmed)"
  by code_simp+

lemma pg_resolve:
  "svc_resolve_player demo_pg demo_hash ''t1'' s_two = (Inr ana, s_two)"
  "svc_resolve_player demo_pg demo_hash ''t2'' s_queued = (Inr ravi, s_queued)"
  "svc_resolve_player demo_pg demo_hash ''t1'' s_paired = (Inr ana, s_paired)"
  "svc_resolve_player demo_pg demo_hash ''t1'' s_recorded = (Inr ana, s_recorded)"
  "svc_resolve_player demo_pg demo_hash ''t2'' s_confirmed = (Inr ravi, s_confirmed)"
  by code_simp+

lemma mem_one_reachable: "reachable memory_ops 10 demo_hash demo_checker s_one"
  by (rule reachable_step [OF demo_decks_reachable system_step.join [OF demo_fresh(1) mem_join]])

lemma mem_reachable:
  "reachable memory_ops 10 demo_hash demo_checker s_two"
  "reachable memory_ops 10 demo_hash demo_checker s_queued"
  "reachable memory_ops 10 demo_hash demo_checker s_paired"
  "reachable memory_ops 10 demo_hash demo_checker s_recorded"
  "reachable memory_ops 10 demo_hash demo_checker s_confirmed"
  "reachable memory_ops 10 demo_hash demo_checker s_scored"
proof -
  let ?R = "reachable memory_ops 10 demo_hash demo_checker"
  note step = reachable_step [where ops = memory_ops and cap = 10 and h = demo_hash and ch = demo_checker]
  note mem_one_reachable
  then show "?R s_two" by (rule step [OF _ system_step.join [OF demo_fresh(2) mem_join_second]])
  then show "?R s_queued" by (rule step [OF _ system_step.request_pair [OF demo_fresh(3) mem_resolve(1) mem_queued]])
  then show "?R s_paired" by (rule step [OF _ system_step.request_pair [OF demo_fresh(4) mem_resolve(2) mem_paired]])
  then show "?R s_recorded" by (rule step [OF _ system_step.upload [OF mem_resolve(3) mem_recorded]])
  then show "?R s_confirmed" by (rule step [OF _ system_step.confirm [OF mem_resolve(4) mem_confirmed]])
  then show "?R s_scored" by (rule step [OF _ system_step.guess [OF demo_fresh(5) mem_resolve(5) mem_scored]])
qed

lemma pg_reachable:
  "reachable demo_pg 10 demo_hash demo_checker s_two"
  "reachable demo_pg 10 demo_hash demo_checker s_queued"
  "reachable demo_pg 10 demo_hash demo_checker s_paired"
  "reachable demo_pg 10 demo_hash demo_checker s_recorded"
  "reachable demo_pg 10 demo_hash demo_checker s_confirmed"
  "reachable demo_pg 10 demo_hash demo_checker s_scored"
proof -
  let ?R = "reachable demo_pg 10 demo_hash demo_checker"
  note step = reachable_step [where ops = demo_pg and cap = 10 and h = demo_hash and ch = demo_checker]
  have "?R s_one" by (rule step [OF demo_decks_reachable system_step.join [OF demo_fresh(1) pg_join]])
  then show "?R s_two" by (rule step [OF _ system_step.join [OF demo_fresh(2) pg_join_second]])
  then show "?R s_queued" by (rule step [OF _ system_step.request_pair [OF demo_fresh(3) pg_resolve(1) pg_queued]])
  then show "?R s_paired" by (rule step [OF _ system_step.request_pair [OF demo_fresh(4) pg_resolve(2) pg_paired]])
  then show "?R s_recorded" by (rule step [OF _ system_step.upload [OF pg_resolve(3) pg_recorded]])
  then show "?R s_confirmed" by (rule step [OF _ system_step.confirm [OF pg_resolve(4) pg_confirmed]])
  then show "?R s_scored" by (rule step [OF _ system_step.guess [OF demo_fresh(5) pg_resolve(5) pg_scored]])
qed

section \<open>The states are well-formed\<close>

lemma demo_checker_law: "demo_checker b = Inr res \<Longrightarrow> accepted res \<longleftrightarrow> ac_reason res = None"
  unfolding demo_checker_def by (rule rejection_has_reason)

lemma mem_svc_inv: "reachable memory_ops 10 demo_hash demo_checker s \<Longrightarrow> svc_inv casefold s"
  using mem.reachable_inv [OF demo_checker_law] by (simp add: system_inv_def)

lemma pg_svc_inv: "reachable demo_pg 10 demo_hash demo_checker s \<Longrightarrow> svc_inv py_lower s"
  unfolding demo_pg_def using pg.reachable_inv [OF demo_checker_law] by (simp add: system_inv_def)

lemmas demo_inv = mem_reachable [THEN mem_svc_inv]
lemmas demo_pg_inv = pg_reachable [THEN pg_svc_inv]

end
