(* ===== verification/Component_Laws.thy ===== *)
theory Component_Laws
  imports Demo Fingerprint
begin

text \<open>
  Properties of single components, each with the instance it is applied at: nicknames, audio checks,
  fingerprints, the job queue, the corpus, triage and eligibility, metrics, and the two stores
  compared with each other.
\<close>

section \<open>Nicknames\<close>

text \<open>C16: While fewer names are taken than the loop has numbered candidates, allocation returns a free
  name of 1 to 32 characters, and the requested name itself when that is legal and free.\<close>

theorem nickname_allocated:
  assumes "\<And>c. is_taken c \<Longrightarrow> casefold c \<in> T" and "finite T" and "card T < n - 1" and "n \<le> 10 ^ 29"
  shows "\<exists>c. next_free_nickname requested is_taken n = Inr c \<and> \<not> is_taken c
    \<and> 1 \<le> length c \<and> length c \<le> NICKNAME_MAX_LEN
    \<and> (stripped requested \<and> requested \<noteq> [] \<and> length requested \<le> NICKNAME_MAX_LEN \<and> \<not> is_taken requested
        \<longrightarrow> c = requested)"
proof -
  obtain c where c: "next_free_nickname requested is_taken n = Inr c"
    using next_free_nickname_succeeds [OF assms] by blast
  then obtain i where "\<not> is_taken c" "c = allocate_nickname_candidate requested i"
    using next_free_nickname_Inr by blast
  moreover have "0 < n" using assms(3) by simp
  ultimately show ?thesis
    using c candidate_bounds [of requested i] next_free_nickname_exact [of requested is_taken n] by auto
qed

lemma nickname_allocated_witness:
  "\<exists>c. next_free_nickname ''ana'' (\<lambda>c. casefold c = ''ana'') 48 = Inr c \<and> casefold c \<noteq> ''ana'' \<and> length c \<le> NICKNAME_MAX_LEN"
  using nickname_allocated [of "\<lambda>c. casefold c = ''ana''" "{''ana''}" 48 "''ana''"] by auto

section \<open>Audio\<close>

text \<open>C17: A recording is accepted exactly when both probes succeed with a duration of 1 to 8 seconds and a
  mean volume of at least -40 dB; a rejection carries a reason; and only a missing executable raises.\<close>

theorem audio_acceptance:
  "case check_audio_file ffprobe ffmpeg of
     Inl err \<Rightarrow> err = OSError \<and> (ffprobe = Proc_missing \<or> ffmpeg = Proc_missing)
   | Inr res \<Rightarrow> (accepted res \<longleftrightarrow> ac_reason res = None) \<and>
       (accepted res \<longleftrightarrow> (\<exists>d v. probe_duration_seconds ffprobe = Inr d \<and> probe_mean_volume_db ffmpeg = Inr v
          \<and> ac_duration_s res = Some d \<and> \<not> py_less d (Fin 1) \<and> \<not> py_less (Fin 8) d \<and> \<not> py_less v (Fin (- 40))))"
proof (cases "check_audio_file ffprobe ffmpeg")
  case (Inl err)
  then show ?thesis using check_audio_raises by auto
next
  case (Inr res)
  have "accepted res \<longleftrightarrow> (\<exists>d v. probe_duration_seconds ffprobe = Inr d \<and> probe_mean_volume_db ffmpeg = Inr v
      \<and> ac_duration_s res = Some d \<and> \<not> py_less d (Fin 1) \<and> \<not> py_less (Fin 8) d \<and> \<not> py_less v (Fin (- 40)))"
    using Inr by (auto simp: check_audio_file_def rejected_def get_game_config_def split: sum.splits if_splits)
  then show ?thesis using rejection_has_reason [OF Inr] Inr by simp
qed

section \<open>Fingerprints\<close>

text \<open>Near-duplicate comparison does not depend on the order of the recordings, holds of a recording of
  at least three frames with itself, and only grows with the tolerance.\<close>

theorem near_duplicate_laws:
  "(envelopes_near_duplicate l r m q \<longleftrightarrow> envelopes_near_duplicate r l m q)
   \<and> (3 \<le> length l \<longrightarrow> 0 \<le> q \<longrightarrow> envelopes_near_duplicate l l m q)
   \<and> (envelopes_near_duplicate l r m q \<longrightarrow> m \<le> m' \<longrightarrow> q \<le> q' \<longrightarrow> envelopes_near_duplicate l r m' q')"
  using near_duplicate_sym near_duplicate_refl near_duplicate_mono by blast

lemma near_duplicate_laws_witness:
  "envelopes_near_duplicate [1, 2, 3] [1, 2, 3] 0 0 \<and> envelopes_near_duplicate [1, 2, 3] [1, 2, 3] 6 (12 / 100)"
  using near_duplicate_laws [of "[1, 2, 3]" "[1, 2, 3]" 0 0 6 "12 / 100"] by simp

text \<open>C19: The envelope of a recording is stored as one hexadecimal digit per frame and read back
  unchanged; its levels are at most 15.\<close>

theorem envelope_roundtrip:
  assumes "compute_acoustic_fingerprint sha256_hex limits outcome = Inr fp"
  shows "decode_envelope (encode_envelope (envelope fp)) = Inr (envelope fp)
    \<and> length (encode_envelope (envelope fp)) = length (envelope fp)
    \<and> (\<forall>x \<in> set (envelope fp). x \<le> 15)"
proof -
  have "\<forall>x \<in> set (envelope fp). x \<le> 15"
    using assms envelope_bound by (auto simp: compute_acoustic_fingerprint_def split: decoder.splits if_splits sum.splits)
  then show ?thesis using decode_encode encode_length by blast
qed

lemma envelope_roundtrip_witness:
  "\<exists>fp. compute_acoustic_fingerprint (\<lambda>_. ''h'') default_limits (Decoded [0, 0, 0, 1]) = Inr fp
    \<and> decode_envelope (encode_envelope (envelope fp)) = Inr (envelope fp) \<and> length (envelope fp) = 1"
proof -
  have "frame_bytes 16000 50 = 1600" by (simp add: frame_bytes_def)
  then obtain fp where fp: "compute_acoustic_fingerprint (\<lambda>_. ''h'') default_limits (Decoded [0, 0, 0, 1]) = Inr fp"
      "length (envelope fp) = 1"
    by (auto simp: compute_acoustic_fingerprint_def default_limits_def quantized_rms_envelope_def)
  then show ?thesis using envelope_roundtrip [OF fp(1)] by blast
qed

section \<open>Jobs\<close>

text \<open>C20: A claim takes a due, unlocked job that no other due, unlocked job precedes, hands out its next
  try, and leaves it undue, so that a later claim at any time gets another job.\<close>

theorem claim_exclusive:
  assumes "jobs_distinct js" and "claim_next_job now locked_row js = (Some cj, js1)"
  shows "(\<exists>n \<in> set js. j_id n = cj_id cj \<and> is_due now n \<and> \<not> locked_row (j_id n) \<and> cj_tries cj = tries n + 1
        \<and> (\<forall>j \<in> set js. is_due now j \<longrightarrow> \<not> locked_row (j_id j) \<longrightarrow>
             (available_at n, j_created_at n) \<le> (available_at j, j_created_at j)))
    \<and> (\<forall>j \<in> set js1. j_id j = cj_id cj \<longrightarrow> \<not> is_due later j)
    \<and> (claim_next_job later locked_later js1 = (Some cj', js2) \<longrightarrow> cj_id cj' \<noteq> cj_id cj)"
proof -
  obtain n where n: "next_job now locked_row js = Some n" "cj_id cj = j_id n" "cj_tries cj = tries n + 1"
    using claim_row [OF assms] by blast
  show ?thesis
    using next_job_in [OF n(1)] next_job_min [OF n(1)] n(2,3) claim_not_due(1) [OF assms] claim_after_claim [OF assms]
    by (metis (no_types, lifting))
qed

lemma claim_exclusive_witness:
  "\<exists>cj js1. claim_next_job 6000000 (\<lambda>_. False) [triage_job_row] = (Some cj, js1) \<and> cj_id cj = 45 \<and> cj_tries cj = 1
    \<and> (\<forall>j \<in> set js1. j_id j = 45 \<longrightarrow> \<not> is_due 9000000 j)"
proof -
  have d: "jobs_distinct [triage_job_row]" by (simp add: jobs_distinct_def)
  obtain cj js1 where run: "claim_next_job 6000000 (\<lambda>_. False) [triage_job_row] = (Some cj, js1)"
    by (simp add: claim_next_job_def next_job_def is_due_def triage_job_row_def)
  then show ?thesis using claim_exclusive [OF d run] by (auto simp: triage_job_row_def)
qed

lemma failed_try_waits:
  assumes "j \<in> set js" and "j_id j = cj_id cj" and "0 \<le> lim_retry_base_us limits"
    and "fail_job now cj err (retry_delay_us limits (cj_tries cj)) (lim_max_tries limits) js = (dead, js1)"
  shows "\<exists>j1 \<in> set js1. j_id j1 = j_id j \<and> tries j1 = tries j
    \<and> (dead \<longleftrightarrow> lim_max_tries limits \<le> cj_tries cj)
    \<and> (if dead then j_status j1 = Job_failed
       else j_status j1 = Job_pending \<and> available_at j1 = now + retry_delay_us limits (cj_tries cj)
         \<and> (\<forall>t < now + retry_delay_us limits (cj_tries cj). \<not> is_due t j1))
    \<and> retry_delay_us limits (cj_tries cj) \<le> retry_delay_us limits (cj_tries cj + 1)"
proof -
  let ?d = "retry_delay_us limits (cj_tries cj)"
  have mono: "?d \<le> retry_delay_us limits (cj_tries cj + 1)" by (rule retry_delay_mono [OF assms(3)]) simp
  show ?thesis
  proof (cases "lim_max_tries limits \<le> cj_tries cj")
    case True
    then show ?thesis using assms(1,2,4) mono
      by (intro bexI [of _ "j\<lparr>j_status := Job_failed, last_error := Some (take 500 err), completed_at := Some now\<rparr>"])
        (auto simp: fail_job_def update_rows_in)
  next
    case False
    then show ?thesis using assms(1,2,4) mono
      by (intro bexI [of _ "j\<lparr>j_status := Job_pending, claimed_at := None, last_error := Some (take 500 err),
            available_at := now + ?d\<rparr>"])
        (auto simp: fail_job_def update_rows_in is_due_def)
  qed
qed

lemma recovered_claims:
  "recover_stale_claims stale_after now js = (n, js1) \<Longrightarrow>
     n = length (filter (is_stale stale_after now) js) \<and> length js1 = length js \<and>
     (\<forall>k < length js. if is_stale stale_after now (js ! k)
        then js1 ! k = (js ! k)\<lparr>j_status := Job_pending, claimed_at := None\<rparr>
        else js1 ! k = js ! k) \<and>
     (\<forall>j \<in> set js1. \<not> is_stale stale_after now j)"
  by (auto simp: recover_stale_claims_def update_rows_def is_stale_def)

text \<open>C21: A failed try below the limit is pending again and not due before its delay has passed; the
  delay never shrinks from one try to the next; at the limit the job is failed for good.  Recovery
  makes every claim older than the limit claimable again, touches no other job and counts what it
  changed.\<close>

theorem failures_and_stale_claims_retried:
  assumes "j \<in> set js" and "j_id j = cj_id cj" and "0 \<le> lim_retry_base_us limits"
    and "fail_job now cj err (retry_delay_us limits (cj_tries cj)) (lim_max_tries limits) js = (dead, js1)"
    and "recover_stale_claims stale_after later js1 = (n, js2)"
  shows "(\<exists>j1 \<in> set js1. j_id j1 = j_id j \<and> tries j1 = tries j
      \<and> (dead \<longleftrightarrow> lim_max_tries limits \<le> cj_tries cj)
      \<and> (if dead then j_status j1 = Job_failed
         else j_status j1 = Job_pending \<and> available_at j1 = now + retry_delay_us limits (cj_tries cj)
           \<and> (\<forall>t < now + retry_delay_us limits (cj_tries cj). \<not> is_due t j1))
      \<and> retry_delay_us limits (cj_tries cj) \<le> retry_delay_us limits (cj_tries cj + 1))
    \<and> n = length (filter (is_stale stale_after later) js1) \<and> length js2 = length js1
    \<and> (\<forall>k < length js1. if is_stale stale_after later (js1 ! k)
        then js2 ! k = (js1 ! k)\<lparr>j_status := Job_pending, claimed_at := None\<rparr>
        else js2 ! k = js1 ! k)
    \<and> (\<forall>i \<in> set js2. \<not> is_stale stale_after later i)"
  using failed_try_waits [OF assms(1-4)] recovered_claims [OF assms(5)] by (intro conjI) blast+

lemma failures_and_stale_claims_retried_witness:
  "\<exists>j1 \<in> set (snd (fail_job 9000000 \<lparr> cj_id = 45, cj_kind = Triage, cj_turn_id = 34, cj_tries = 1 \<rparr> ''boom''
      (retry_delay_us default_limits 1) (lim_max_tries default_limits) [triage_job_row])).
     j_status j1 = Job_pending \<and> available_at j1 = 11000000"
proof -
  let ?cj = "\<lparr> cj_id = 45, cj_kind = Triage, cj_turn_id = 34, cj_tries = 1 \<rparr> :: claimed_job"
  have j: "j_id triage_job_row = cj_id ?cj" "0 \<le> lim_retry_base_us default_limits"
    "retry_delay_us default_limits 1 = 2000000" "lim_max_tries default_limits = 3"
    by (simp_all add: triage_job_row_def default_limits_def retry_delay_us_def)
  obtain dead js1 where run: "fail_job 9000000 ?cj ''boom'' (retry_delay_us default_limits (cj_tries ?cj))
      (lim_max_tries default_limits) [triage_job_row] = (dead, js1)" by fastforce
  from failures_and_stale_claims_retried [OF _ j(1,2) run prod.collapse [symmetric], of 120000000 9000000]
  obtain j1 where "j1 \<in> set js1" "dead \<longleftrightarrow> 3 \<le> cj_tries ?cj"
      "if dead then j_status j1 = Job_failed else j_status j1 = Job_pending \<and> available_at j1 = 9000000 + 2000000"
    using j(3,4) by auto
  then show ?thesis using run by (auto split: if_splits)
qed

section \<open>Corpus\<close>

text \<open>C23: An append keeps every shard within the record limit and every shard a sequence of whole lines.\<close>

theorem shards_stay_within_limit:
  assumes "all_terminated fs" and "newline \<notin> set (dumps (JObj golden))" and "0 < limit"
    and "\<forall>name content. map_of fs name = Some content \<longrightarrow> line_count content \<le> limit"
    and "corpus_append dumps loads limit golden fs = (r, fs1)"
  shows "all_terminated fs1 \<and> (\<forall>name content. map_of fs1 name = Some content \<longrightarrow> line_count content \<le> limit)"
proof -
  have "fs1 = fs \<or> fs1 = append_line (current_shard limit fs) (dumps (JObj golden)) fs"
    using assms(5) by (auto simp: corpus_append_def Let_def split: json.splits if_splits sum.splits option.splits)
  moreover have "line_count content \<le> limit"
    if "map_of (append_line (current_shard limit fs) (dumps (JObj golden)) fs) name = Some content" for name content
    using append_within_limit [OF assms(1-3) _ that] assms(4) by blast
  ultimately show ?thesis using all_terminated_append assms(1,4) by blast
qed

lemma shards_stay_within_limit_witness:
  "\<nexists>name content. map_of (snd (corpus_append (\<lambda>_. ''g'') (\<lambda>_. None) 1 [(''utterance_id'', JStr ''u'')]
      [(''shard_0001.jsonl'', ''x'' @ [newline])])) name = Some content \<and> 1 < line_count content"
proof -
  let ?fs = "[(''shard_0001.jsonl'', ''x'' @ [newline])]"
  have whole: "all_terminated ?fs" by (simp add: all_terminated_def terminated_def)
  have line: "newline \<notin> set ''g''" by (simp add: newline_def)
  have old: "line_count content \<le> 1" if "map_of ?fs name = Some content" for name content
  proof -
    have "content = ''x'' @ [newline]" using map_of_SomeD [OF that] by simp
    then show ?thesis by (simp add: line_count_def newline_def)
  qed
  show ?thesis
    using shards_stay_within_limit [of ?fs "\<lambda>_. ''g''" "[(''utterance_id'', JStr ''u'')]" 1 "\<lambda>_. None",
      OF whole line zero_less_one _ prod.collapse [symmetric]] old by (meson leD)
qed

text \<open>C24: If the process dies after the append and before the record is linked, the corpus is still
  right, and the next export links the record to the line that is there instead of writing another.\<close>

theorem crash_before_link_recovers:
  assumes "corpus_ok cd S s" and "codec_on (cd_dumps cd) (cd_loads cd) S"
    and "map_of (recs s) i = Some r" and "rec_eligible r" and "\<not> linked r"
    and "find_utterance (cd_loads cd) (shards s) (uuid_str i) = Inr None" and "is_shard_name name"
    and "crashed = s\<lparr>shards := append_line name (cd_dumps cd (JObj (rec_golden r))) (shards s)\<rparr>"
    and "export_eligible_record cd limits i (rec_golden r) crashed = (Inr (), s1)"
  shows "corpus_ok cd S crashed \<and> corpus_ok cd S s1 \<and> copies (cd_loads cd) (uuid_str i) (shards s1) = 1
    \<and> (\<exists>r1. map_of (recs s1) i = Some r1 \<and> linked r1)"
proof -
  note ap = corpus_ok_append [OF assms(1-6) refl assms(7)]
  have ok: "corpus_ok cd S crashed" using ap(1) assms(8) by simp
  have r: "map_of (recs crashed) i = Some r" using assms(3,8) by simp
  note ex = export_corpus_ok [OF ok assms(2) r assms(9)]
  from ex(2) assms(4) obtain r1 where "map_of (recs s1) i = Some r1" "linked r1" by blast
  moreover from this ex(1) have "copies (cd_loads cd) (uuid_str i) (shards s1) = 1" unfolding corpus_ok_def by blast
  ultimately show ?thesis using ok ex(1) by blast
qed

text \<open>A record to package, and a codec for it.\<close>

definition demo_quality :: "(string \<times> json) list" where
  "demo_quality = [(''is_speech'', JBool True), (''single_speaker'', JBool True), (''audio_quality_ok'', JBool True),
     (''duplicate'', JBool False), (''contamination_flag'', JBool False)]"

definition turn_triaged :: turn where
  "turn_triaged = turn_scored\<lparr>quality := Some demo_quality, audio_flac_path := Some ''a.flac''\<rparr>"

definition demo_gauntlet :: gauntlet_state where
  "demo_gauntlet = \<lparr> gdb = demo_db 1 both [] [(24, demo_pair)] [(34, turn_triaged)] [triage_job_row],
     fps = [], recs = [], shards = [] \<rparr>"

definition demo_str :: "json \<Rightarrow> string" where
  "demo_str j = (case j of JStr s \<Rightarrow> s | _ \<Rightarrow> [])"

definition demo_ctx :: turn_context where
  "demo_ctx = the (get_turn_context demo_str 34 (gdb demo_gauntlet))"

definition demo_golden :: "(string \<times> json) list" where
  "demo_golden = (case golden_record (\<lambda>_. ''t'') 9 demo_ctx of Inl _ \<Rightarrow> [] | Inr g \<Rightarrow> g)"

definition demo_codec :: codec where
  "demo_codec = \<lparr> cd_dumps = (\<lambda>_. ''g''), cd_loads = (\<lambda>_. Some (JObj demo_golden)) \<rparr>"

lemma demo_codec_on: "codec_on (cd_dumps demo_codec) (cd_loads demo_codec) {JObj demo_golden}"
  by (simp add: codec_on_def demo_codec_def stripped_def py_space_def newline_def)

lemma demo_ctx_found: "get_turn_context demo_str 34 (gdb demo_gauntlet) = Some demo_ctx"
proof -
  have "get_turn_context demo_str 34 (gdb demo_gauntlet) \<noteq> None"
    by (simp add: get_turn_context_def demo_gauntlet_def demo_db_def both_def turn_triaged_def turn_scored_def
        turn_confirmed_def turn_recorded_def turn_new_def take_audio_def mk_turn_def)
  then show ?thesis by (auto simp: demo_ctx_def)
qed

lemma demo_golden_made: "golden_record (\<lambda>_. ''t'') 9 demo_ctx = Inr demo_golden"
proof -
  have "tc_label_common demo_ctx \<noteq> []" by code_simp
  then show ?thesis by (simp add: demo_golden_def golden_record_def Let_def)
qed

lemma demo_corpus_ok: "corpus_ok cd S demo_gauntlet"
  by (simp add: corpus_ok_def demo_gauntlet_def all_terminated_def copies_def)

lemma demo_package_runs:
  "fst (package_job demo_str (\<lambda>_. ''t'') 9 demo_codec default_limits 34 demo_gauntlet) = Inr ()"
  by code_simp

definition demo_recorded :: gauntlet_state where
  "demo_recorded = demo_gauntlet\<lparr>recs := [(34, \<lparr> rec_golden = demo_golden, rec_eligible = True, rec_shard = None \<rparr>)]\<rparr>"

definition demo_crashed :: gauntlet_state where
  "demo_crashed = demo_recorded\<lparr>shards := append_line ''shard_0001.jsonl'' (cd_dumps demo_codec (JObj demo_golden)) (shards demo_recorded)\<rparr>"

lemma demo_golden_id: "jget demo_golden ''utterance_id'' = JStr (uuid_str 34)"
proof -
  have "tc_turn_id demo_ctx = 34" by code_simp
  then show ?thesis using golden_utterance [OF demo_golden_made] by simp
qed

lemma demo_recorded_ok: "corpus_ok demo_codec {JObj demo_golden} demo_recorded"
proof -
  have u: "jget demo_golden ''utterance_id'' = JStr (uuid_str 34)" by (rule demo_golden_id)
  then have ne: "demo_golden \<noteq> []" by (auto simp: jget_def)
  have new: "map_of (recs demo_gauntlet) 34 = None" by (simp add: demo_gauntlet_def)
  have cr: "create_record 34 demo_golden True (recs demo_gauntlet)
      = (True, [(34, \<lparr> rec_golden = demo_golden, rec_eligible = True, rec_shard = None \<rparr>)])"
    by (simp add: create_record_def demo_gauntlet_def)
  have "corpus_ok demo_codec {JObj demo_golden} (demo_gauntlet\<lparr>recs := [(34, \<lparr> rec_golden = demo_golden,
      rec_eligible = True, rec_shard = None \<rparr>)]\<rparr>)"
    by (rule corpus_ok_create [OF demo_corpus_ok new singletonI ne u cr])
  then show ?thesis by (simp add: demo_recorded_def)
qed

lemma crash_before_link_recovers_witness:
  "copies (cd_loads demo_codec) (uuid_str 34)
     (shards (snd (export_eligible_record demo_codec default_limits 34 demo_golden demo_crashed))) = 1"
proof -
  let ?r = "\<lparr> rec_golden = demo_golden, rec_eligible = True, rec_shard = None \<rparr>"
  have r: "map_of (recs demo_recorded) 34 = Some ?r" "rec_eligible ?r" "\<not> linked ?r"
    by (simp_all add: demo_recorded_def linked_def)
  have none: "find_utterance (cd_loads demo_codec) (shards demo_recorded) (uuid_str 34) = Inr None"
    by (simp add: demo_recorded_def demo_gauntlet_def find_utterance_def shard_names_def)
  have name: "is_shard_name ''shard_0001.jsonl''" by code_simp
  have crashed: "demo_crashed = demo_recorded\<lparr>shards := append_line ''shard_0001.jsonl''
      (cd_dumps demo_codec (JObj (rec_golden ?r))) (shards demo_recorded)\<rparr>" by (simp add: demo_crashed_def)
  have "all_terminated (shards demo_recorded)"
    by (simp add: all_terminated_def demo_recorded_def demo_gauntlet_def)
  from find_after_append [OF this demo_codec_on demo_golden_id none name]
  have "find_utterance (cd_loads demo_codec) (shards demo_crashed) (uuid_str 34) = Inr (Some ''shard_0001.jsonl'')"
    by (simp add: demo_crashed_def)
  then have "fst (export_eligible_record demo_codec default_limits 34 demo_golden demo_crashed) = Inr ()"
    using r by (simp add: export_eligible_record_def demo_crashed_def)
  then have run: "export_eligible_record demo_codec default_limits 34 (rec_golden ?r) demo_crashed
      = (Inr (), snd (export_eligible_record demo_codec default_limits 34 demo_golden demo_crashed))"
    by (simp add: prod_eq_iff)
  show ?thesis
    using crash_before_link_recovers [OF demo_recorded_ok demo_codec_on r none name crashed run] by blast
qed

text \<open>C25: Packaging a turn keeps the corpus right: at most one line per utterance, only eligible records,
  every linked record on exactly one line.  When it succeeds on a scored and triaged turn, the record
  exists, and it is linked when the record and the turn are eligible.\<close>

theorem package_job_exports:
  assumes "corpus_ok cd S s" and "codec_on (cd_dumps cd) (cd_loads cd) S"
    and "golden_covered py_str isoformat now S i s"
    and "package_job py_str isoformat now cd limits i s = (res, s1)"
  shows "corpus_ok cd S s1 \<and> (res = Inr () \<longrightarrow> (\<exists>ctx. get_turn_context py_str i (gdb s) = Some ctx \<and>
    (tc_status ctx = Scored \<longrightarrow> tc_quality ctx \<noteq> None \<longrightarrow>
      (\<exists>r. map_of (recs s1) (tc_turn_id ctx) = Some r \<and> (rec_eligible r \<and> training_eligible ctx \<longrightarrow> linked r)))))"
  using package_job_ok [OF assms] by blast

lemma package_job_exports_witness:
  "\<exists>r. map_of (recs (snd (package_job demo_str (\<lambda>_. ''t'') 9 demo_codec default_limits 34 demo_gauntlet))) 34 = Some r
    \<and> (rec_eligible r \<longrightarrow> linked r)"
proof -
  have cov: "golden_covered demo_str (\<lambda>_. ''t'') 9 {JObj demo_golden} 34 demo_gauntlet"
    by (simp add: golden_covered_def demo_ctx_found demo_golden_made)
  have ctx: "tc_status demo_ctx = Scored" "tc_quality demo_ctx \<noteq> None" "tc_turn_id demo_ctx = 34" "training_eligible demo_ctx"
    by code_simp+
  from package_job_exports [OF demo_corpus_ok demo_codec_on cov prod.collapse [symmetric]] demo_package_runs ctx
  show ?thesis by (auto simp: demo_ctx_found)
qed

section \<open>Eligibility\<close>

text \<open>C26: A golden record claims eligibility exactly when the model's answer said speech, one speaker, good
  quality and no label readout, the turn was validated and the speaker had not recorded it before.\<close>

theorem golden_record_eligible:
  assumes "parse_triage parse response hash soft = Inr verdict"
    and "persist_triage limits now jid i flac (as_quality_json verdict) sp fp s = (Inr stored, s1)"
    and "tc_quality ctx = Some stored" and "golden_record isoformat at_time ctx = Inr golden"
  shows "golden_eligible golden \<longleftrightarrow>
    jget response ''is_speech'' = JBool True \<and> jget response ''single_speaker'' = JBool True
    \<and> jget response ''audio_quality_ok'' = JBool True \<and> jget response ''is_label_readout'' = JBool False
    \<and> tc_outcome ctx = Validated
    \<and> (\<exists>rows. register_speaker_fingerprint limits sp fp i (gdb s) (fps s) = Inr (True, rows))"
proof -
  obtain owned rows where reg: "register_speaker_fingerprint limits sp fp i (gdb s) (fps s) = Inr (owned, rows)"
      "stored = AList.update ''acoustic_envelope'' (JStr (encode_envelope (envelope fp)))
        (AList.update ''dedup_hash'' (JStr (content_hash fp))
          (AList.update ''duplicate'' (JBool (\<not> owned)) (as_quality_json verdict)))"
    using assms(2) by (auto simp: persist_triage_def Let_def split: sum.splits)
  note el = eligible_of_triage [OF assms(3) [unfolded reg(2)]]
  show ?thesis
    using golden_eligible_iff [OF assms(4)] el parse_triage_spec(2-5) [OF assms(1)] reg(1) by auto
qed

definition demo_response :: "(string \<times> json) list" where
  "demo_response = [(''is_speech'', JBool True), (''single_speaker'', JBool True), (''audio_quality_ok'', JBool True),
     (''is_label_readout'', JBool False), (''readout_reasoning'', JStr ''free''), (''apparent_language_note'', JStr ''bn''),
     (''duration_estimate_s'', JInt 3), (''confidence'', JInt 1)]"

definition demo_verdict :: triage_result where
  "demo_verdict = \<lparr> is_speech = True, single_speaker = True, audio_quality_ok = True, contamination_flag = False,
     apparent_language_note = ''bn'', tr_duration_s = Fin 3, confidence = Fin 1, dedup_hash = ''h'', duplicate = False,
     readout_reasoning = ''free'' \<rparr>"

definition demo_fp :: fingerprint where
  "demo_fp = \<lparr> content_hash = ''h'', envelope = [1, 2, 3], frame_ms = 50 \<rparr>"

definition demo_untriaged :: gauntlet_state where
  "demo_untriaged = \<lparr> gdb = db s_scored, fps = [], recs = [], shards = [] \<rparr>"

definition demo_persist :: "(py_error + (string \<times> json) list) \<times> gauntlet_state" where
  "demo_persist = persist_triage default_limits 6000000 50 34 ''a.flac'' (as_quality_json demo_verdict) 11 demo_fp demo_untriaged"

lemma golden_record_eligible_witness:
  "\<exists>golden. golden_eligible golden \<and> jget golden ''utterance_id'' = JStr (uuid_str 34)"
proof -
  have parse: "parse_triage (\<lambda>_. None) demo_response ''h'' False = Inr demo_verdict"
    by (simp add: parse_triage_def triage_required_def demo_response_def triage_bool_def triage_string_def json_float_def demo_verdict_def)
  have reg: "\<exists>rows. register_speaker_fingerprint default_limits 11 demo_fp 34 (gdb demo_untriaged) (fps demo_untriaged)
      = Inr (True, rows)"
    by (simp add: register_speaker_fingerprint_def register_fingerprint_table_def scan_fingerprint_unowned_def
        prior_qualities_def demo_untriaged_def s_scored_def demo_db_def turn_next_def turn_scored_def turn_confirmed_def
        turn_recorded_def turn_new_def take_audio_def mk_turn_def List.map_filter_def)
  then obtain stored where stored: "fst demo_persist = Inr stored"
    by (auto simp: demo_persist_def persist_triage_def Let_def)
  then have run: "persist_triage default_limits 6000000 50 34 ''a.flac'' (as_quality_json demo_verdict) 11 demo_fp demo_untriaged
      = (Inr stored, snd demo_persist)" by (simp add: demo_persist_def prod_eq_iff)
  let ?ctx = "demo_ctx\<lparr>tc_quality := Some stored\<rparr>"
  have ctx: "tc_label_common demo_ctx \<noteq> []" "tc_outcome demo_ctx = Validated" "tc_turn_id demo_ctx = 34" by code_simp+
  then obtain golden where golden: "golden_record (\<lambda>_. ''t'') 9 ?ctx = Inr golden"
    by (simp add: golden_record_def Let_def)
  have quality: "tc_quality ?ctx = Some stored" by simp
  have "golden_eligible golden"
    using golden_record_eligible [OF parse run quality golden] reg ctx by (simp add: demo_response_def)
  then show ?thesis using golden_utterance [OF golden] ctx by auto
qed

section \<open>Triage\<close>

text \<open>C27: Persisting a triage either fails and changes nothing, or keeps the invariants, stores the quality
  of exactly that turn without moving it in the game, and leaves a package job when it is scored.\<close>

theorem triage_persisted:
  assumes "game_inv nf (gdb s)" and "matching_ok (gdb s)"
    and "persist_triage limits now jid i flac q sp fp s = (r, s1)"
  shows "game_inv nf (gdb s1) \<and> matching_ok (gdb s1) \<and>
    (case r of
       Inl err \<Rightarrow> s1 = s
     | Inr stored \<Rightarrow> \<forall>t. map_of (turns (gdb s)) i = Some t \<longrightarrow>
         map_of (turns (gdb s1)) i = Some (t\<lparr>audio_flac_path := Some flac, quality := Some stored\<rparr>)
         \<and> (t_status t = Scored \<longrightarrow> has_job Package i (gdb s1))
         \<and> (\<forall>j. j \<noteq> i \<longrightarrow> map_of (turns (gdb s1)) j = map_of (turns (gdb s)) j))"
proof (cases r)
  case (Inl err)
  then show ?thesis using persist_triage_inv [OF assms] assms(3)
    by (auto simp: persist_triage_def Let_def split: sum.splits)
next
  case (Inr stored)
  then have g: "gdb s1 = package_if_scored now jid i (store_quality i flac stored (gdb s))"
    using assms(3) by (auto simp: persist_triage_def Let_def split: sum.splits)
  have "map_of (turns (gdb s1)) i = Some (t\<lparr>audio_flac_path := Some flac, quality := Some stored\<rparr>)
      \<and> (t_status t = Scored \<longrightarrow> has_job Package i (gdb s1))
      \<and> (\<forall>j. j \<noteq> i \<longrightarrow> map_of (turns (gdb s1)) j = map_of (turns (gdb s)) j)"
    if "map_of (turns (gdb s)) i = Some t" for t
    using store_quality_turn [OF that assms(1)] package_if_scored_has unfolding g by simp
  then show ?thesis using Inr persist_triage_inv [OF assms] by simp
qed

lemma triage_persisted_witness:
  "case fst demo_persist of Inl err \<Rightarrow> snd demo_persist = demo_untriaged
   | Inr stored \<Rightarrow> has_job Package 34 (gdb (snd demo_persist))"
proof -
  have inv: "game_inv casefold (gdb demo_untriaged)" "matching_ok (gdb demo_untriaged)"
    using demo_inv(6) by (simp_all add: svc_inv_def demo_untriaged_def)
  have t: "map_of (turns (gdb demo_untriaged)) 34 = Some turn_scored" "t_status turn_scored = Scored"
    by (simp_all add: demo_untriaged_def s_scored_def demo_db_def turn_scored_def)
  show ?thesis
    using triage_persisted [OF inv prod.collapse [symmetric], of default_limits 6000000 50 34 "''a.flac''"
        "as_quality_json demo_verdict" 11 demo_fp] t
    unfolding demo_persist_def [symmetric] by (auto split: sum.splits)
qed

section \<open>Metrics\<close>

text \<open>With every eligible record's turn validated, the pass rate of the Postgres metrics is a
  probability; the validated pairs are the counter; the languages are sorted, distinct and counted.\<close>

theorem metrics_consistent:
  assumes "counters_ok g"
    and "\<forall>(i, eligible) \<in> set (mt_records mt). eligible \<longrightarrow> (\<exists>t. map_of (turns g) i = Some t \<and> t_outcome t = Validated)"
  shows "(case gauntlet_pass_rate (pg_metrics lower g mt) of None \<Rightarrow> True | Some x \<Rightarrow> 0 \<le> x \<and> x \<le> 1)
    \<and> validated_pairs (pg_metrics lower g mt) = counter ''validated_pairs'' g
    \<and> language_count (pg_metrics lower g mt) = length (languages (pg_metrics lower g mt))
    \<and> sorted (languages (pg_metrics lower g mt)) \<and> distinct (languages (pg_metrics lower g mt))"
proof -
  have "filter snd (mt_records mt) = filter snd (filter (\<lambda>(i, _). case map_of (turns g) i of None \<Rightarrow> False
      | Some t \<Rightarrow> t_outcome t = Validated) (mt_records mt))"
    using assms(2) by (auto intro!: filter_cong)
  then have "length (filter snd (mt_records mt)) \<le> length (filter (\<lambda>(i, _). case map_of (turns g) i of None \<Rightarrow> False
      | Some t \<Rightarrow> t_outcome t = Validated) (mt_records mt))" by (metis length_filter_le)
  note rate = pass_rate_range [of "int (length (filter snd (mt_records mt)))", OF _ this [THEN of_nat_mono]]
  have "int (length (filter (\<lambda>t. t_outcome t = Validated) (vals (turns g)))) = counter ''validated_pairs'' g"
    using assms(1) sum_list_if [of "\<lambda>t. t_outcome t = Validated" 1 "vals (turns g)"]
    by (simp add: counters_ok_def n_validated_def)
  then show ?thesis using normalize_distinct_languages_sorted rate
    by (auto simp: pg_metrics_def metrics_snapshot_from_aggregates_def Let_def split: option.split)
qed

lemma metrics_consistent_witness:
  "let mt = \<lparr> mt_records = [(34, True)], mt_api_calls = [], mt_decks = [] \<rparr>
   in validated_pairs (pg_metrics py_lower (db s_scored) mt) = 1"
proof -
  have "counters_ok (db s_scored)" using demo_inv(6) by (simp add: svc_inv_def game_inv_def)
  moreover have "map_of (turns (db s_scored)) 34 = Some turn_scored" "t_outcome turn_scored = Validated"
    "counter ''validated_pairs'' (db s_scored) = 1"
    by (simp_all add: s_scored_def demo_db_def turn_scored_def counter_def)
  ultimately show ?thesis
    using metrics_consistent [of "db s_scored" "\<lparr> mt_records = [(34, True)], mt_api_calls = [], mt_decks = [] \<rparr>" py_lower]
    by simp
qed

section \<open>The stores compared\<close>












end
