(* ===== verification/Deck_Concepts.thy ===== *)
theory Deck_Concepts
  imports State_View
begin

text \<open>
  The inputs of deck generation: concepts, regions and the validation of operator and model supplied
  rows (\<open>deckgen/concepts.py\<close>, \<open>deckgen/config.py\<close>, \<open>deckgen/concept_gen.py\<close>, the \<open>AdminConceptInput\<close>
  contract of \<open>contracts/api_types.py\<close>), and the counters of a run (\<open>deckgen/metrics.py\<close>).  The curated
  table of concepts is data in other scripts than Latin-1 and is an argument.  Error messages name
  the failed rule, not the row.
\<close>

section \<open>Concepts\<close>

record concept =
  co_id :: string
  co_phrase :: string
  co_noun :: string
  co_labels :: "(string, string) dict"
  co_category :: string
  co_locale :: "string option"
  co_hint :: "string option"

definition label_en :: "(string, string) dict \<Rightarrow> py_error + string" where
  "label_en labels = (case map_of labels ''en'' of None \<Rightarrow> Inl KeyError | Some t \<Rightarrow> Inr t)"

definition region_contexts :: "(string, string) dict" where
  "region_contexts =
     [(''andhra-pradesh'', ''Andhra Pradesh coastal town and temple-town streets''),
      (''arunachal-pradesh'', ''Arunachal Pradesh mountain village and hillside paths''),
      (''assam'', ''Assamese village and Brahmaputra riverside''),
      (''bihar'', ''Bihar village courtyard and riverside ghat''),
      (''chhattisgarh'', ''Chhattisgarh forest-edge village and tribal market''),
      (''goa'', ''Goan coastal village and spice-market lanes''),
      (''gujarat'', ''Gujarati town market and courtyard''),
      (''haryana'', ''Haryana village farmyard and dusty market lane''),
      (''himachal-pradesh'', ''Himachal Pradesh mountain village and apple-orchard paths''),
      (''jharkhand'', ''Jharkhand forest village and tribal market''),
      (''karnataka'', ''Karnataka town street and temple-town lanes''),
      (''kerala'', ''Kerala coastal town and backwater village''),
      (''madhya-pradesh'', ''Madhya Pradesh town market and fort-town streets''),
      (''maharashtra'', ''Maharashtra village courtyard and busy town lane''),
      (''manipur'', ''Manipur valley town and riverside market''),
      (''meghalaya'', ''Meghalaya hill village and misty market path''),
      (''mizoram'', ''Mizoram hill town and bamboo-lined village street''),
      (''nagaland'', ''Nagaland hill village and market courtyard''),
      (''odisha'', ''Odisha coastal town and temple-town street''),
      (''punjab'', ''Punjabi village courtyard and mustard-field edge''),
      (''rajasthan'', ''Rajasthan desert-town market and courtyard''),
      (''sikkim'', ''Sikkim mountain village and monastery-town path''),
      (''tamil-nadu'', ''Tamil Nadu temple-town street and coastal village''),
      (''telangana'', ''Telangana town market and Deccan village lane''),
      (''tripura'', ''Tripura hill-town market and bamboo courtyard''),
      (''uttar-pradesh'', ''Uttar Pradesh town ghat and village courtyard''),
      (''uttarakhand'', ''Uttarakhand mountain village and hill-town path''),
      (''west-bengal'', ''West Bengal town market and riverside lane''),
      (''bengal'', ''Bengali town market''),
      (''bangalore'', ''Bengaluru urban street''),
      (''north'', ''North Indian market''),
      (''northeast'', ''rural Northeast Indian riverside''),
      (''tamil'', ''Tamil Nadu temple-town street'')]"

definition resolve_region_context :: "string \<Rightarrow> py_error + string" where
  "resolve_region_context region =
     (case map_of region_contexts (py_lower (strip region)) of
        None \<Rightarrow> Inl (ValueError ''Unknown region'')
      | Some ctx \<Rightarrow> Inr ctx)"

text \<open>\<open>random.Random(seed).shuffle\<close> over the curated pool; \<open>draw\<close> is the seeded generator.\<close>

definition select_concepts :: "concept list \<Rightarrow> (nat \<Rightarrow> nat) \<Rightarrow> nat \<Rightarrow> py_error + concept list" where
  "select_concepts pool draw n =
     (if length pool < n then Inl (ValueError ''more cards requested than concepts curated'')
      else Inr (take n (py_shuffle draw pool)))"

section \<open>Operator rows\<close>

definition ascii_lower :: "char \<Rightarrow> bool" where
  "ascii_lower c \<longleftrightarrow> (let n = (of_char c :: nat) in 97 \<le> n \<and> n \<le> 122)"

definition ascii_upper :: "char \<Rightarrow> bool" where
  "ascii_upper c \<longleftrightarrow> (let n = (of_char c :: nat) in 65 \<le> n \<and> n \<le> 90)"

definition slug_char :: "char \<Rightarrow> bool" where
  "slug_char c \<longleftrightarrow> is_digit c \<or> c = CHR ''_'' \<or> c = CHR ''-''"

text \<open>\<open>[A-Za-z0-9][A-Za-z0-9_-]{0,63}\<close>, matched in full.\<close>

definition operator_id_ok :: "string \<Rightarrow> bool" where
  "operator_id_ok s \<longleftrightarrow> s \<noteq> [] \<and> length s \<le> 64
     \<and> (ascii_lower (hd s) \<or> ascii_upper (hd s) \<or> is_digit (hd s))
     \<and> list_all (\<lambda>c. ascii_lower c \<or> ascii_upper c \<or> slug_char c) (tl s)"

definition operator_fields :: "string list" where
  "operator_fields = [''concept_id'', ''cultural_hint'', ''label_en'', ''locale'']"

definition operator_max_text :: nat where
  "operator_max_text = 500"

definition operator_field :: "(string \<times> json) list \<Rightarrow> string \<Rightarrow> py_error + string" where
  "operator_field row name =
     (case jget row name of
        JStr raw \<Rightarrow>
          (let v = strip raw in
           if v = [] then Inl (ValueError ''field must not be blank'')
           else if operator_max_text < length v then Inl (ValueError ''field exceeds maximum length'')
           else Inr v)
      | _ \<Rightarrow> Inl (TypeError ''field must be a string''))"

definition operator_concept :: "string list \<Rightarrow> json \<Rightarrow> py_error + concept" where
  "operator_concept seen row =
     (case row of
        JObj d \<Rightarrow>
          if \<not> set operator_fields \<subseteq> fst ` set d then Inl (ValueError ''operator concept is missing fields'')
          else if \<not> fst ` set d \<subseteq> set operator_fields then Inl (ValueError ''operator concept has unknown fields'')
          else
            try_in (operator_field d ''concept_id'') (\<lambda>i.
            try_in (operator_field d ''cultural_hint'') (\<lambda>hint.
            try_in (operator_field d ''label_en'') (\<lambda>label.
            try_in (operator_field d ''locale'') (\<lambda>loc.
              if \<not> operator_id_ok i then Inl (ValueError ''operator concept has invalid concept_id'')
              else if i \<in> set seen then Inl (ValueError ''duplicate operator concept_id'')
              else Inr \<lparr> co_id = i, co_phrase = hint, co_noun = label, co_labels = [(''en'', label)],
                         co_category = ''operator'', co_locale = Some loc, co_hint = Some hint \<rparr>))))
      | _ \<Rightarrow> Inl (TypeError ''operator concept must be an object''))"

fun operator_concepts_from :: "string list \<Rightarrow> json list \<Rightarrow> py_error + concept list" where
  "operator_concepts_from seen [] = Inr []"
| "operator_concepts_from seen (row # rows) =
     try_in (operator_concept seen row) (\<lambda>c.
     try_in (operator_concepts_from (co_id c # seen) rows) (\<lambda>cs. Inr (c # cs)))"

definition concepts_from_operator_mappings :: "json \<Rightarrow> py_error + concept list" where
  "concepts_from_operator_mappings rows =
     (case rows of
        JArr xs \<Rightarrow> operator_concepts_from [] xs
      | _ \<Rightarrow> Inl (TypeError ''operator concepts must be a list of mappings''))"

section \<open>The API contract of a concept\<close>

record admin_concept =
  ac_id :: string
  ac_label :: string
  ac_locale :: string
  ac_hint :: string

definition admin_slug :: "string \<Rightarrow> bool" where
  "admin_slug s \<longleftrightarrow> s \<noteq> [] \<and> length s \<le> 80 \<and> (ascii_lower (hd s) \<or> is_digit (hd s))
     \<and> list_all (\<lambda>c. ascii_lower c \<or> slug_char c) (tl s)"

definition constrained_text :: "nat \<Rightarrow> json \<Rightarrow> string option" where
  "constrained_text n v = (case v of JStr s \<Rightarrow> if s \<noteq> [] \<and> length s \<le> n then Some s else None | _ \<Rightarrow> None)"

text \<open>\<open>AdminConceptInput.model_validate\<close>: a \<open>ValidationError\<close> is a \<open>ValueError\<close>; other fields are ignored.\<close>

definition validate_admin_concept :: "json \<Rightarrow> py_error + admin_concept" where
  "validate_admin_concept v =
     (case v of
        JObj d \<Rightarrow>
          (case (constrained_text 80 (jget d ''concept_id''), constrained_text 120 (jget d ''label_en''),
               constrained_text 120 (jget d ''locale''), constrained_text 500 (jget d ''cultural_hint'')) of
             (Some i, Some label, Some loc, Some hint) \<Rightarrow>
               if admin_slug i then Inr \<lparr> ac_id = i, ac_label = label, ac_locale = loc, ac_hint = hint \<rparr>
               else Inl (ValueError ''validation error'')
           | _ \<Rightarrow> Inl (ValueError ''validation error''))
      | _ \<Rightarrow> Inl (ValueError ''validation error''))"

text \<open>\<open>model_dump\<close>.\<close>

definition dump_concept :: "admin_concept \<Rightarrow> json" where
  "dump_concept a = JObj [(''concept_id'', JStr (ac_id a)), (''label_en'', JStr (ac_label a)),
     (''locale'', JStr (ac_locale a)), (''cultural_hint'', JStr (ac_hint a))]"

fun map_err :: "('a \<Rightarrow> py_error + 'b) \<Rightarrow> 'a list \<Rightarrow> py_error + 'b list" where
  "map_err f [] = Inr []"
| "map_err f (x # xs) = try_in (f x) (\<lambda>y. try_in (map_err f xs) (\<lambda>ys. Inr (y # ys)))"

definition operator_rows_from_payload :: "nat \<Rightarrow> json \<Rightarrow> py_error + json list" where
  "operator_rows_from_payload expected payload =
     (case payload of
        JObj d \<Rightarrow>
          (case jget d ''concepts'' of
             JArr raw \<Rightarrow>
               if length raw \<noteq> expected then Inl (ValueError ''invent_concepts returned another count'')
               else try_in (map_err validate_admin_concept raw) (\<lambda>as.
                 if \<not> distinct (map ac_id as) then Inl (ValueError ''invent_concepts returned duplicate concept_id values'')
                 else Inr (map dump_concept as))
           | _ \<Rightarrow> Inl (TypeError ''invent_concepts.concepts must be an array''))
      | _ \<Rightarrow> Inl (TypeError ''invent_concepts expected a JSON object''))"

section \<open>Counters\<close>

record deck_metrics =
  images_attempted :: nat
  images_accepted :: nat
  images_rejected :: nat
  flash_calls :: nat

definition zero_metrics :: deck_metrics where
  "zero_metrics = \<lparr> images_attempted = 0, images_accepted = 0, images_rejected = 0, flash_calls = 0 \<rparr>"

definition record_image_attempt :: "deck_metrics \<Rightarrow> deck_metrics" where
  "record_image_attempt m = m\<lparr>images_attempted := images_attempted m + 1\<rparr>"

definition record_accept :: "deck_metrics \<Rightarrow> deck_metrics" where
  "record_accept m = m\<lparr>images_accepted := images_accepted m + 1\<rparr>"

definition record_reject :: "deck_metrics \<Rightarrow> deck_metrics" where
  "record_reject m = m\<lparr>images_rejected := images_rejected m + 1\<rparr>"

definition record_flash_call :: "deck_metrics \<Rightarrow> deck_metrics" where
  "record_flash_call m = m\<lparr>flash_calls := flash_calls m + 1\<rparr>"

definition COST_PER_IMAGE_USD :: rat where
  "COST_PER_IMAGE_USD = 336 / 10000"

definition COST_PER_FLASH_CALL_USD :: rat where
  "COST_PER_FLASH_CALL_USD = 4 / 10000"

definition elapsed_seconds :: "rat \<Rightarrow> rat \<Rightarrow> rat" where
  "elapsed_seconds started ended = max (ended - started) (1 / 1000)"

definition images_per_minute :: "rat \<Rightarrow> deck_metrics \<Rightarrow> rat" where
  "images_per_minute elapsed m = of_nat (images_accepted m) / elapsed * 60"

definition reject_rate :: "deck_metrics \<Rightarrow> rat" where
  "reject_rate m = (if images_attempted m = 0 then 0 else of_nat (images_rejected m) / of_nat (images_attempted m))"

definition total_cost_usd :: "deck_metrics \<Rightarrow> rat" where
  "total_cost_usd m = of_nat (images_attempted m) * COST_PER_IMAGE_USD + of_nat (flash_calls m) * COST_PER_FLASH_CALL_USD"

definition cost_per_image_effective :: "deck_metrics \<Rightarrow> rat" where
  "cost_per_image_effective m =
     (if images_accepted m = 0 then 0 else total_cost_usd m / of_nat (images_accepted m))"

text \<open>\<open>as_dict\<close>; \<open>round_to n\<close> is Python's \<open>round(x, n)\<close>, \<open>elapsed\<close> the seconds since the start.\<close>

definition metrics_dict :: "(nat \<Rightarrow> rat \<Rightarrow> rat) \<Rightarrow> rat \<Rightarrow> deck_metrics \<Rightarrow> (string \<times> json) list" where
  "metrics_dict round_to elapsed m =
     [(''images_attempted'', JInt (int (images_attempted m))),
      (''images_accepted'', JInt (int (images_accepted m))),
      (''images_rejected'', JInt (int (images_rejected m))),
      (''flash_calls'', JInt (int (flash_calls m))),
      (''elapsed_seconds'', JFloat (Fin (round_to 3 elapsed))),
      (''images_per_minute'', JFloat (Fin (round_to 3 (images_per_minute elapsed m)))),
      (''cost_per_image_usd'', JFloat (Fin (round_to 6 (cost_per_image_effective m)))),
      (''reject_rate'', JFloat (Fin (round_to 4 (reject_rate m)))),
      (''total_cost_usd'', JFloat (Fin (round_to 6 (total_cost_usd m)))),
      (''nb2_unit_cost_usd'', JFloat (Fin COST_PER_IMAGE_USD))]"

lemmas record_defs = record_image_attempt_def record_accept_def record_reject_def record_flash_call_def

section \<open>Laws\<close>

lemma operator_field_Inr:
  "operator_field row name = Inr v \<Longrightarrow> v \<noteq> [] \<and> length v \<le> 500 \<and> stripped v"
  by (auto simp: operator_field_def operator_max_text_def Let_def stripped_strip split: json.splits if_splits)

lemma operator_concept_Inr:
  assumes "operator_concept seen row = Inr c"
  shows "operator_id_ok (co_id c) \<and> co_id c \<notin> set seen \<and> label_en (co_labels c) = Inr (co_noun c)
    \<and> co_noun c \<noteq> [] \<and> co_phrase c \<noteq> [] \<and> co_hint c = Some (co_phrase c)
    \<and> (\<exists>loc. co_locale c = Some loc \<and> loc \<noteq> [])"
  using assms
  by (auto simp: operator_concept_def label_en_def dest!: operator_field_Inr split: json.splits if_splits sum.splits)

lemma operator_concepts_from_Inr:
  "operator_concepts_from seen rows = Inr cs \<Longrightarrow>
     length cs = length rows \<and> distinct (map co_id cs) \<and> set (map co_id cs) \<inter> set seen = {} \<and>
     (\<forall>c \<in> set cs. operator_id_ok (co_id c) \<and> label_en (co_labels c) = Inr (co_noun c))"
proof (induction seen rows arbitrary: cs rule: operator_concepts_from.induct)
  case (2 seen row rows)
  then obtain c cs' where c: "operator_concept seen row = Inr c" and cs: "cs = c # cs'"
      and r: "operator_concepts_from (co_id c # seen) rows = Inr cs'"
    by (auto split: sum.splits)
  show ?case using 2(1) [OF c r] operator_concept_Inr [OF c] cs by auto
qed simp

text \<open>What the generator's operator form is called with has passed the API contract.\<close>

lemma operator_id_of_admin: "admin_slug i \<Longrightarrow> length i \<le> 64 \<Longrightarrow> operator_id_ok i"
  by (auto simp: admin_slug_def operator_id_ok_def list_all_iff)

lemma metrics_dict_keys [simp]: "map fst (metrics_dict round_to elapsed m) =
  [''images_attempted'', ''images_accepted'', ''images_rejected'', ''flash_calls'', ''elapsed_seconds'',
   ''images_per_minute'', ''cost_per_image_usd'', ''reject_rate'', ''total_cost_usd'', ''nb2_unit_cost_usd'']"
  by (simp add: metrics_dict_def)

end
