(* ===== verification/Deck_Tables.thy ===== *)
theory Deck_Tables
  imports Game_Types
begin

text \<open>
  Deck administration on the tables (\<open>app/deck_admin/repository.py\<close>): full deck and card rows, the
  image directory of each deck, and one definition per repository method.  A method is one
  statement or one transaction, so it is one step.  JSONB columns are JSON objects.
\<close>

section \<open>Rows\<close>

record deck_row =
  dk_region :: string
  dk_status :: deck_status
  dk_input :: "(string \<times> json) list"
  dk_metrics :: "(string \<times> json) list option"
  dk_failure :: "string option"
  dk_activated :: "time option"
  dk_created :: time

record card_row =
  ck_deck :: uuid
  ck_concept :: "string option"
  ck_path :: string
  ck_labels :: "(string \<times> json) list"
  ck_decoys :: "string list"
  ck_verified :: bool
  ck_created :: time

text \<open>\<open>dt_dirs\<close> holds the files of \<open>data_dir/decks/<deck id>/\<close>.\<close>

record deck_db =
  dt_decks :: "(uuid, deck_row) dict"
  dt_cards :: "(uuid, card_row) dict"
  dt_dirs :: "(uuid, (string, bytes) dict) dict"

definition put_deck :: "uuid \<Rightarrow> deck_row \<Rightarrow> deck_db \<Rightarrow> deck_db" where
  "put_deck d r g = g\<lparr>dt_decks := AList.update d r (dt_decks g)\<rparr>"

definition deck_status_of :: "deck_db \<Rightarrow> uuid \<Rightarrow> deck_status option" where
  "deck_status_of g d = map_option dk_status (map_of (dt_decks g) d)"

text \<open>\<open>SELECT ... FROM cards WHERE deck_id = $1 ORDER BY created_at ASC, id ASC\<close>.\<close>

definition deck_cards :: "deck_db \<Rightarrow> uuid \<Rightarrow> (uuid \<times> card_row) list" where
  "deck_cards g d = sort_key (\<lambda>(i, c). (ck_created c, i)) (filter (\<lambda>(i, c). ck_deck c = d) (dt_cards g))"

definition card_count :: "deck_db \<Rightarrow> uuid \<Rightarrow> nat" where
  "card_count g d = length (filter (\<lambda>(i, c). ck_deck c = d) (dt_cards g))"

lemma put_deck_simps [simp]:
  "dt_decks (put_deck d r g) = AList.update d r (dt_decks g)"
  "dt_cards (put_deck d r g) = dt_cards g"
  "dt_dirs (put_deck d r g) = dt_dirs g"
  by (simp_all add: put_deck_def)

lemma deck_status_of_put [simp]:
  "deck_status_of (put_deck d r g) i = (if i = d then Some (dk_status r) else deck_status_of g i)"
  by (simp add: deck_status_of_def)

lemma deck_cards_put [simp]: "deck_cards (put_deck d r g) i = deck_cards g i"
  by (simp add: deck_cards_def)

lemma deck_status_of_cong: "dt_decks g' = dt_decks g \<Longrightarrow> deck_status_of g' = deck_status_of g"
  by (simp add: deck_status_of_def fun_eq_iff)

lemma set_deck_cards: "set (deck_cards g d) = {(i, c). (i, c) \<in> set (dt_cards g) \<and> ck_deck c = d}"
  by (auto simp: deck_cards_def)

section \<open>Repository\<close>

definition deck_list_limit :: nat where
  "deck_list_limit = 100"

definition create_generating :: "uuid \<Rightarrow> time \<Rightarrow> string \<Rightarrow> (string \<times> json) list \<Rightarrow> (deck_db, uuid) act" where
  "create_generating d now region generation_input g =
     (Inr d, put_deck d
        \<lparr> dk_region = region, dk_status = Deck_generating, dk_input = generation_input, dk_metrics = None,
          dk_failure = None, dk_activated = None, dk_created = now \<rparr> g)"

definition update_generation_input :: "uuid \<Rightarrow> (string \<times> json) list \<Rightarrow> (deck_db, unit) act" where
  "update_generation_input d generation_input g =
     (Inr (), case map_of (dt_decks g) d of
        None \<Rightarrow> g
      | Some r \<Rightarrow> if dk_status r = Deck_generating then put_deck d (r\<lparr>dk_input := generation_input\<rparr>) g else g)"

definition repo_list_decks :: "deck_db \<Rightarrow> (uuid \<times> deck_row \<times> nat) list" where
  "repo_list_decks g =
     map (\<lambda>(i, r). (i, r, card_count g i))
       (take deck_list_limit (sort_desc (\<lambda>(i, r). (dk_created r, i)) (dt_decks g)))"

definition repo_get_deck :: "uuid \<Rightarrow> deck_db \<Rightarrow> (deck_row \<times> nat \<times> (uuid \<times> card_row) list) option" where
  "repo_get_deck d g =
     (case map_of (dt_decks g) d of
        None \<Rightarrow> None
      | Some r \<Rightarrow> Some (r, card_count g d, deck_cards g d))"

definition repo_mark_failed :: "uuid \<Rightarrow> string \<Rightarrow> (deck_db, unit) act" where
  "repo_mark_failed d reason g =
     (Inr (), case map_of (dt_decks g) d of
        None \<Rightarrow> g
      | Some r \<Rightarrow> if dk_status r \<noteq> Deck_live
          then put_deck d (r\<lparr>dk_status := Deck_failed, dk_failure := Some reason\<rparr>) g else g)"

definition demote_others :: "uuid \<Rightarrow> (uuid, deck_row) dict \<Rightarrow> (uuid, deck_row) dict" where
  "demote_others d rows =
     map (\<lambda>(i, r). (i, if dk_status r = Deck_live \<and> i \<noteq> d
        then r\<lparr>dk_status := Deck_ready, dk_activated := None\<rparr> else r)) rows"

text \<open>
  The whole transaction runs under the advisory lock.  The result is \<open>None\<close> for an unknown deck,
  else the original status and, when it may be activated, the new row.
\<close>

definition repo_activate :: "time \<Rightarrow> uuid \<Rightarrow> (deck_db, (deck_status \<times> deck_row option) option) act" where
  "repo_activate now d g =
     (case map_of (dt_decks g) d of
        None \<Rightarrow> (Inr None, g)
      | Some r \<Rightarrow>
          if dk_status r \<noteq> Deck_ready \<and> dk_status r \<noteq> Deck_live then (Inr (Some (dk_status r, None)), g)
          else let r' = r\<lparr>dk_status := Deck_live,
                 dk_activated := (case dk_activated r of None \<Rightarrow> Some now | Some tm \<Rightarrow> Some tm),
                 dk_failure := None\<rparr>
            in (Inr (Some (dk_status r, Some r')),
                put_deck d r' (g\<lparr>dt_decks := demote_others d (dt_decks g)\<rparr>)))"

section \<open>Activation\<close>

lemma map_of_demote:
  "map_of (demote_others d rows) i = map_option (\<lambda>r. if dk_status r = Deck_live \<and> i \<noteq> d
     then r\<lparr>dk_status := Deck_ready, dk_activated := None\<rparr> else r) (map_of rows i)"
proof (induction rows)
  case (Cons row rows)
  then show ?case by (cases row) (simp add: demote_others_def)
qed (simp add: demote_others_def)

lemma status_demote:
  "map_option dk_status (map_of (demote_others d rows) i) =
     (if i \<noteq> d \<and> map_option dk_status (map_of rows i) = Some Deck_live then Some Deck_ready
      else map_option dk_status (map_of rows i))"
  by (cases "map_of rows i") (simp_all add: map_of_demote)

lemma repo_activate_spec:
  assumes "repo_activate now d g = (res, g')"
  shows "case res of
      Inl err \<Rightarrow> False
    | Inr None \<Rightarrow> g' = g \<and> deck_status_of g d = None
    | Inr (Some (st, None)) \<Rightarrow> g' = g \<and> deck_status_of g d = Some st \<and> st \<noteq> Deck_ready \<and> st \<noteq> Deck_live
    | Inr (Some (st, Some r)) \<Rightarrow> deck_status_of g d = Some st \<and> (st = Deck_ready \<or> st = Deck_live) \<and>
        map_of (dt_decks g') d = Some r \<and> dk_status r = Deck_live \<and> dk_activated r \<noteq> None \<and>
        dt_cards g' = dt_cards g \<and> dt_dirs g' = dt_dirs g \<and>
        (\<forall>i. i \<noteq> d \<longrightarrow> deck_status_of g' i = (if deck_status_of g i = Some Deck_live then Some Deck_ready
            else deck_status_of g i))"
proof (cases "map_of (dt_decks g) d")
  case None
  then show ?thesis using assms by (auto simp: repo_activate_def deck_status_of_def)
next
  case (Some r)
  show ?thesis
  proof (cases "dk_status r = Deck_ready \<or> dk_status r = Deck_live")
    case True
    then show ?thesis using assms Some
      by (auto simp: repo_activate_def Let_def deck_status_of_def status_demote split: option.split)
  next
    case False
    then show ?thesis using assms Some by (auto simp: repo_activate_def deck_status_of_def)
  qed
qed

end
