(* ===== verification/Deck_Publish.thy ===== *)
theory Deck_Publish
  imports Deck_Tables
begin

text \<open>
  Deck publication (\<open>deckgen/publish.py\<close>): the publisher protocol as a record of operations and its
  two implementations, \<open>PostgresPublisher\<close> and \<open>InMemoryPublisher\<close>.  Connecting, an insert, the
  directory rename, the commit and the failure mark may fail: the environment says where.
\<close>

section \<open>Helpers\<close>

definition png_magic :: bytes where
  "png_magic = [0x89, 0x50, 0x4E, 0x47, 0x0D, 0x0A, 0x1A, 0x0A]"

definition riff_tag :: bytes where
  "riff_tag = [0x52, 0x49, 0x46, 0x46]"

definition webp_tag :: bytes where
  "webp_tag = [0x57, 0x45, 0x42, 0x50]"

definition image_file_extension :: "bytes \<Rightarrow> py_error + string" where
  "image_file_extension img =
     (if take 8 img = png_magic then Inr ''.png''
      else if take 3 img = [0xFF, 0xD8, 0xFF] then Inr ''.jpg''
      else if 12 \<le> length img \<and> take 4 img = riff_tag \<and> take 4 (drop 8 img) = webp_tag
      then Inr ''.webp''
      else Inl (ValueError ''unsupported generated image encoding''))"

text \<open>\<open>str.split()\<close>: the words of a text; the accumulator is the current word, reversed.\<close>

fun words_from :: "string \<Rightarrow> string \<Rightarrow> string list" where
  "words_from acc [] = (if acc = [] then [] else [rev acc])"
| "words_from acc (c # cs) =
     (if py_space c then (if acc = [] then words_from [] cs else rev acc # words_from [] cs)
      else words_from (c # acc) cs)"

definition max_failure_reason_length :: nat where
  "max_failure_reason_length = 1000"

definition safe_failure_reason :: "string \<Rightarrow> string" where
  "safe_failure_reason reason =
     (let normalized = join_with '' '' (words_from [] reason)
      in take max_failure_reason_length
        (if normalized = [] then ''deck generation failed'' else normalized))"

lemma safe_failure_reason_bounds:
  "safe_failure_reason reason \<noteq> [] \<and> length (safe_failure_reason reason) \<le> 1000"
  by (simp add: safe_failure_reason_def max_failure_reason_length_def Let_def)

section \<open>Cards and results\<close>

record card_record =
  cr_id :: uuid
  cr_concept :: string
  cr_image :: bytes
  cr_labels :: "(string \<times> string) list"
  cr_decoys :: "string list"
  cr_verified :: bool

record publish_result =
  pb_deck :: uuid
  pb_status :: deck_status
  pb_card_ids :: "string list"
  pb_paths :: "string list"
  pb_dry_run :: bool

definition final_status_ok :: "deck_status \<Rightarrow> bool" where
  "final_status_ok st \<longleftrightarrow> st = Deck_ready \<or> st = Deck_live"

definition final_status_error :: py_error where
  "final_status_error = ValueError ''final_status must be ready or live''"

definition card_filename :: "card_record \<Rightarrow> string \<Rightarrow> string" where
  "card_filename c ext = uuid_str (cr_id c) @ ext"

definition card_rel_path :: "uuid \<Rightarrow> string \<Rightarrow> string" where
  "card_rel_path d filename = ''decks/'' @ uuid_str d @ ''/'' @ filename"

definition label_json :: "(string \<times> string) list \<Rightarrow> (string \<times> json) list" where
  "label_json labels = map (\<lambda>(k, v). (k, JStr v)) labels"

definition card_row_of :: "uuid \<Rightarrow> time \<Rightarrow> card_record \<Rightarrow> string \<Rightarrow> card_row" where
  "card_row_of d now c rel =
     \<lparr> ck_deck = d, ck_concept = Some (cr_concept c), ck_path = rel, ck_labels = label_json (cr_labels c),
       ck_decoys = cr_decoys c, ck_verified = cr_verified c, ck_created = now \<rparr>"

text \<open>The publisher protocol.  A deck that is not given an id gets the fresh one.\<close>

record 's publisher_ops =
  po_publish :: "uuid \<Rightarrow> uuid option \<Rightarrow> string \<Rightarrow> card_record list \<Rightarrow> deck_status
    \<Rightarrow> (string \<times> json) list \<Rightarrow> (string \<times> json) list \<Rightarrow> ('s, publish_result) act"
  po_mark_failed :: "uuid \<Rightarrow> string \<Rightarrow> ('s, unit) act"
  po_update_state :: "uuid \<Rightarrow> (string \<times> json) list option \<Rightarrow> (string \<times> json) list option \<Rightarrow> ('s, unit) act"
  po_persist_card :: "uuid \<Rightarrow> card_record \<Rightarrow> (string \<times> json) list option \<Rightarrow> ('s, string) act"
  po_finalize :: "uuid \<Rightarrow> (string \<times> string list) list \<Rightarrow> (string \<times> json) list option \<Rightarrow> deck_status
    \<Rightarrow> ('s, publish_result) act"

section \<open>Postgres\<close>

datatype pub_site = At_connect | At_insert uuid | At_rename | At_finish | At_mark | At_state_update

record pub_env =
  pe_fault :: "pub_site \<Rightarrow> py_error option"
  pe_card_time :: "uuid \<Rightarrow> time" \<comment> \<open>transaction time of the insert of a card on its own\<close>
  pe_now :: time

definition failing :: "pub_env \<Rightarrow> pub_site \<Rightarrow> ('s, unit) act" where
  "failing e site = (case pe_fault e site of None \<Rightarrow> ret () | Some err \<Rightarrow> throw err)"

fun stage_images :: "card_record list \<Rightarrow> py_error + (string \<times> bytes) list" where
  "stage_images [] = Inr []"
| "stage_images (c # cs) =
     try_in (image_file_extension (cr_image c)) (\<lambda>ext.
     try_in (stage_images cs) (\<lambda>rest. Inr ((card_filename c ext, cr_image c) # rest)))"

fun insert_cards :: "pub_env \<Rightarrow> uuid \<Rightarrow> (card_record \<times> string) list \<Rightarrow> (deck_db, unit) act" where
  "insert_cards e d [] g = (Inr (), g)"
| "insert_cards e d ((c, rel) # rest) g =
     (case pe_fault e (At_insert (cr_id c)) of
        Some err \<Rightarrow> (Inl err, g)
      | None \<Rightarrow>
          if map_of (dt_cards g) (cr_id c) \<noteq> None then (Inl (DatabaseError ''cards_pkey''), g)
          else insert_cards e d rest
            (g\<lparr>dt_cards := AList.update (cr_id c) (card_row_of d (pe_now e) c rel) (dt_cards g)\<rparr>))"

text \<open>The row lock and check shared by the three writers of a generating deck.\<close>

definition require_generating :: "uuid \<Rightarrow> deck_db \<Rightarrow> py_error + deck_row" where
  "require_generating d g =
     (case map_of (dt_decks g) d of
        None \<Rightarrow> Inl LookupError
      | Some r \<Rightarrow> if dk_status r = Deck_generating then Inr r
          else Inl (ValueError ''provided deck_id must be generating''))"

definition claim_deck ::
  "pub_env \<Rightarrow> uuid \<Rightarrow> bool \<Rightarrow> string \<Rightarrow> (string \<times> json) list \<Rightarrow> (deck_db, unit) act" where
  "claim_deck e d provided region generation_input g =
     (if provided then
        (case require_generating d g of
           Inl err \<Rightarrow> (Inl err, g)
         | Inr r \<Rightarrow> (Inr (), put_deck d
             (r\<lparr>dk_region := region, dk_input := generation_input, dk_failure := None\<rparr>) g))
      else (Inr (), put_deck d
        \<lparr> dk_region = region, dk_status = Deck_generating, dk_input = generation_input, dk_metrics = None,
          dk_failure = None, dk_activated = None, dk_created = pe_now e \<rparr> g))"

definition promote_deck :: "pub_env \<Rightarrow> uuid \<Rightarrow> deck_status \<Rightarrow> (string \<times> json) list \<Rightarrow> (deck_db, unit) act" where
  "promote_deck e d final metrics g =
     (Inr (), case map_of (dt_decks g) d of
        None \<Rightarrow> g
      | Some r \<Rightarrow> put_deck d (r\<lparr>dk_status := final, dk_metrics := Some metrics, dk_failure := None,
          dk_activated := (if final = Deck_live then Some (pe_now e) else None)\<rparr>) g)"

text \<open>
  The transaction of \<open>publish\<close>.  The rename of the staging directory happens inside it; a later
  error removes the directory again, like the rollback the rows.
\<close>

definition publish_txn ::
  "pub_env \<Rightarrow> uuid \<Rightarrow> bool \<Rightarrow> string \<Rightarrow> card_record list \<Rightarrow> (string \<times> bytes) list \<Rightarrow> deck_status
     \<Rightarrow> (string \<times> json) list \<Rightarrow> (string \<times> json) list \<Rightarrow> (deck_db, unit) act" where
  "publish_txn e d provided region cards files final generation_input metrics =
     bind_act (claim_deck e d provided region generation_input) (\<lambda>_.
     bind_act (insert_cards e d (zip cards (map (card_rel_path d \<circ> fst) files))) (\<lambda>_.
     bind_act (failing e At_rename) (\<lambda>_.
     bind_act (\<lambda>g. (Inr (), g\<lparr>dt_dirs := AList.update d files (dt_dirs g)\<rparr>)) (\<lambda>_.
     bind_act (promote_deck e d final metrics) (\<lambda>_. failing e At_finish)))))"

definition pg_mark_failed :: "pub_env \<Rightarrow> uuid \<Rightarrow> string \<Rightarrow> (deck_db, unit) act" where
  "pg_mark_failed e d reason =
     bind_act (failing e At_mark) (\<lambda>_ g.
       (Inr (), case map_of (dt_decks g) d of
          None \<Rightarrow> g
        | Some r \<Rightarrow> if dk_status r = Deck_generating
            then put_deck d (r\<lparr>dk_status := Deck_failed, dk_failure := Some (safe_failure_reason reason)\<rparr>) g
            else g))"

text \<open>What the handler of \<open>publish\<close> writes for a deck that was not provided: a failed row.\<close>

definition insert_failed :: "pub_env \<Rightarrow> uuid \<Rightarrow> string \<Rightarrow> (string \<times> json) list \<Rightarrow> string \<Rightarrow> (deck_db, unit) act" where
  "insert_failed e d region generation_input reason =
     bind_act (failing e At_mark) (\<lambda>_ g.
       (Inr (), put_deck d
          (case map_of (dt_decks g) d of
             None \<Rightarrow> \<lparr> dk_region = region, dk_status = Deck_failed, dk_input = generation_input, dk_metrics = None,
               dk_failure = Some (safe_failure_reason reason), dk_activated = None, dk_created = pe_now e \<rparr>
           | Some r \<Rightarrow> r\<lparr>dk_status := Deck_failed, dk_failure := Some (safe_failure_reason reason)\<rparr>) g))"

definition publication_failed :: "(py_error \<Rightarrow> string) \<Rightarrow> py_error \<Rightarrow> string" where
  "publication_failed type_name err = ''publication failed: '' @ type_name err"

text \<open>An error before the connection marks only a provided deck; the error is raised again.\<close>

definition pg_publish ::
  "(py_error \<Rightarrow> string) \<Rightarrow> pub_env \<Rightarrow> uuid \<Rightarrow> uuid option \<Rightarrow> string \<Rightarrow> card_record list \<Rightarrow> deck_status
     \<Rightarrow> (string \<times> json) list \<Rightarrow> (string \<times> json) list \<Rightarrow> (deck_db, publish_result) act" where
  "pg_publish type_name e fresh deck_id region cards final generation_input metrics g =
     (if \<not> final_status_ok final then (Inl final_status_error, g)
      else
        let d = (case deck_id of None \<Rightarrow> fresh | Some i \<Rightarrow> i);
            provided = (deck_id \<noteq> None);
            unconnected = (\<lambda>err. (Inl err, if provided
              then snd (pg_mark_failed e d (publication_failed type_name err) g) else g))
        in if map_of (dt_dirs g) d \<noteq> None then unconnected OSError
           else case stage_images cards of
               Inl err \<Rightarrow> unconnected err
             | Inr files \<Rightarrow>
                 (case pe_fault e At_connect of
                    Some err \<Rightarrow> unconnected err
                  | None \<Rightarrow>
                      (case atomic (publish_txn e d provided region cards files final generation_input metrics) g of
                         (Inr _, g') \<Rightarrow> (Inr
                           \<lparr> pb_deck = d, pb_status = final, pb_card_ids = map (uuid_str \<circ> cr_id) cards,
                             pb_paths = map (card_rel_path d \<circ> fst) files, pb_dry_run = False \<rparr>, g')
                       | (Inl err, _) \<Rightarrow> (Inl err, snd ((if provided
                           then pg_mark_failed e d (publication_failed type_name err)
                           else insert_failed e d region generation_input (publication_failed type_name err)) g)))))"

definition pg_update_state ::
  "pub_env \<Rightarrow> uuid \<Rightarrow> (string \<times> json) list option \<Rightarrow> (string \<times> json) list option \<Rightarrow> (deck_db, unit) act" where
  "pg_update_state e d generation_input metrics =
     (if generation_input = None \<and> metrics = None then ret ()
      else bind_act (failing e At_state_update) (\<lambda>_ g.
        (Inr (), case map_of (dt_decks g) d of
           None \<Rightarrow> g
         | Some r \<Rightarrow> if dk_status r \<noteq> Deck_generating then g
             else put_deck d
               (r\<lparr>dk_input := (case generation_input of None \<Rightarrow> dk_input r | Some v \<Rightarrow> v),
                 dk_metrics := (case metrics of None \<Rightarrow> dk_metrics r | Some m \<Rightarrow> Some m)\<rparr>) g)))"

text \<open>
  \<open>persist_card\<close> creates the directory before it connects, and writes the image inside the
  transaction; neither is undone when the transaction fails.
\<close>

definition deck_dir :: "uuid \<Rightarrow> deck_db \<Rightarrow> (string, bytes) dict" where
  "deck_dir d g = (case map_of (dt_dirs g) d of None \<Rightarrow> [] | Some fs \<Rightarrow> fs)"

definition make_dir :: "uuid \<Rightarrow> deck_db \<Rightarrow> deck_db" where
  "make_dir d g = g\<lparr>dt_dirs := AList.update d (deck_dir d g) (dt_dirs g)\<rparr>"

definition write_image :: "uuid \<Rightarrow> string \<Rightarrow> bytes \<Rightarrow> deck_db \<Rightarrow> deck_db" where
  "write_image d filename img g =
     (if map_of (deck_dir d g) filename \<noteq> None then g
      else g\<lparr>dt_dirs := AList.update d (AList.update filename img (deck_dir d g)) (dt_dirs g)\<rparr>)"

definition existing_card :: "uuid \<Rightarrow> string \<Rightarrow> deck_db \<Rightarrow> (uuid \<times> card_row) option" where
  "existing_card d concept g =
     first_of (filter (\<lambda>(i, c). ck_deck c = d \<and> ck_concept c = Some concept) (dt_cards g))"

definition set_metrics :: "uuid \<Rightarrow> (string \<times> json) list option \<Rightarrow> deck_db \<Rightarrow> deck_db" where
  "set_metrics d metrics g =
     (case (metrics, map_of (dt_decks g) d) of
        (Some m, Some r) \<Rightarrow> if dk_status r = Deck_generating then put_deck d (r\<lparr>dk_metrics := Some m\<rparr>) g else g
      | _ \<Rightarrow> g)"

definition pg_persist_card ::
  "pub_env \<Rightarrow> uuid \<Rightarrow> card_record \<Rightarrow> (string \<times> json) list option \<Rightarrow> (deck_db, string) act" where
  "pg_persist_card e d c metrics g =
     (case image_file_extension (cr_image c) of
        Inl err \<Rightarrow> (Inl err, g)
      | Inr ext \<Rightarrow>
          let filename = card_filename c ext; rel = card_rel_path d filename; g0 = make_dir d g in
          (case pe_fault e At_connect of
             Some err \<Rightarrow> (Inl err, g0)
           | None \<Rightarrow>
               (case require_generating d g0 of
                  Inl err \<Rightarrow> (Inl err, g0)
                | Inr _ \<Rightarrow>
                    (case existing_card d (cr_concept c) g0 of
                       Some (_, old) \<Rightarrow> (Inr (ck_path old), set_metrics d metrics g0)
                     | None \<Rightarrow>
                         let g1 = write_image d filename (cr_image c) g0 in
                         (case pe_fault e (At_insert (cr_id c)) of
                            Some err \<Rightarrow> (Inl err, g1)
                          | None \<Rightarrow>
                              if map_of (dt_cards g1) (cr_id c) \<noteq> None
                              then (Inl (DatabaseError ''cards_pkey''), g1)
                              else (Inr rel, set_metrics d metrics
                                (g1\<lparr>dt_cards := AList.update (cr_id c)
                                  (card_row_of d (pe_card_time e (cr_id c)) c rel) (dt_cards g1)\<rparr>)))))))"

definition decoys_for :: "(string \<times> string list) list \<Rightarrow> uuid \<Rightarrow> string list" where
  "decoys_for decoy_map i = (case map_of decoy_map (uuid_str i) of None \<Rightarrow> [] | Some ds \<Rightarrow> ds)"

definition pg_finalize ::
  "pub_env \<Rightarrow> uuid \<Rightarrow> (string \<times> string list) list \<Rightarrow> (string \<times> json) list option \<Rightarrow> deck_status
     \<Rightarrow> (deck_db, publish_result) act" where
  "pg_finalize e d decoy_map metrics final g =
     (if \<not> final_status_ok final then (Inl final_status_error, g)
      else case pe_fault e At_connect of
          Some err \<Rightarrow> (Inl err, g)
        | None \<Rightarrow>
            (case require_generating d g of
               Inl err \<Rightarrow> (Inl err, g)
             | Inr _ \<Rightarrow>
                 let cards = deck_cards g d;
                     g1 = g\<lparr>dt_cards := map (\<lambda>(i, c). (i, if ck_deck c = d
                       then c\<lparr>ck_decoys := decoys_for decoy_map i\<rparr> else c)) (dt_cards g)\<rparr>;
                     g2 = snd (promote_deck e d final (case metrics of None \<Rightarrow> [] | Some m \<Rightarrow> m) g1)
                 in (case pe_fault e At_finish of
                       Some err \<Rightarrow> (Inl err, g)
                     | None \<Rightarrow> (Inr
                         \<lparr> pb_deck = d, pb_status = final, pb_card_ids = map (uuid_str \<circ> fst) cards,
                           pb_paths = map (ck_path \<circ> snd) cards, pb_dry_run = False \<rparr>, g2))))"

definition postgres_publisher :: "(py_error \<Rightarrow> string) \<Rightarrow> pub_env \<Rightarrow> deck_db publisher_ops" where
  "postgres_publisher type_name e =
     \<lparr> po_publish = pg_publish type_name e, po_mark_failed = pg_mark_failed e,
       po_update_state = pg_update_state e, po_persist_card = pg_persist_card e, po_finalize = pg_finalize e \<rparr>"

section \<open>In memory\<close>

text \<open>A card as a review sees it, and the row the in-memory publisher keeps.\<close>

record card_view =
  cv_id :: string
  cv_concept :: "string option"
  cv_path :: string
  cv_labels :: "(string \<times> json) list"
  cv_decoys :: "string list"
  cv_verified :: bool

datatype published =
    Published_atomic uuid string "card_record list" deck_status "(string \<times> json) list" "(string \<times> json) list" bool
      \<comment> \<open>deck, region, cards, final status, input, metrics, whether the id was given\<close>
  | Published_progressive uuid "string list" "(string \<times> string list) list" deck_status "(string \<times> json) list"

record mem_generation =
  mg_input :: "(string \<times> json) list option"
  mg_metrics :: "(string \<times> json) list option"

record mem_pub =
  mp_fail :: bool
  mp_published :: "published list"
  mp_live :: "uuid list"
  mp_ready :: "uuid list"
  mp_failed :: "uuid list"
  mp_cards :: "(uuid, card_view list) dict"
  mp_states :: "(uuid, mem_generation) dict"
  mp_statuses :: "(uuid, deck_status) dict"

definition mem_deck :: "uuid \<Rightarrow> mem_pub \<Rightarrow> card_view list" where
  "mem_deck d s = (case map_of (mp_cards s) d of None \<Rightarrow> [] | Some cs \<Rightarrow> cs)"

definition mem_finish :: "uuid \<Rightarrow> deck_status \<Rightarrow> mem_pub \<Rightarrow> mem_pub" where
  "mem_finish d final s =
     (let s1 = (if final = Deck_live then s\<lparr>mp_live := mp_live s @ [d]\<rparr> else s\<lparr>mp_ready := mp_ready s @ [d]\<rparr>)
      in s1\<lparr>mp_statuses := AList.update d final (mp_statuses s1)\<rparr>)"

fun mem_paths :: "uuid \<Rightarrow> card_record list \<Rightarrow> py_error + string list" where
  "mem_paths d [] = Inr []"
| "mem_paths d (c # cs) =
     try_in (image_file_extension (cr_image c)) (\<lambda>ext.
     try_in (mem_paths d cs) (\<lambda>rest. Inr (card_rel_path d (card_filename c ext) # rest)))"

definition mem_publish ::
  "uuid \<Rightarrow> uuid option \<Rightarrow> string \<Rightarrow> card_record list \<Rightarrow> deck_status
     \<Rightarrow> (string \<times> json) list \<Rightarrow> (string \<times> json) list \<Rightarrow> (mem_pub, publish_result) act" where
  "mem_publish fresh deck_id region cards final generation_input metrics s =
     (if \<not> final_status_ok final then (Inl final_status_error, s)
      else
        let d = (case deck_id of None \<Rightarrow> fresh | Some i \<Rightarrow> i);
            s1 = s\<lparr>mp_published := mp_published s
              @ [Published_atomic d region cards final generation_input metrics (deck_id \<noteq> None)]\<rparr>
        in if mp_fail s then (Inl (RuntimeError ''simulated publish failure''), s1)
           else (case mem_paths d cards of
               Inl err \<Rightarrow> (Inl err, mem_finish d final s1)
             | Inr paths \<Rightarrow> (Inr
                 \<lparr> pb_deck = d, pb_status = final, pb_card_ids = map (uuid_str \<circ> cr_id) cards,
                   pb_paths = paths, pb_dry_run = True \<rparr>, mem_finish d final s1)))"

definition mem_mark_failed :: "uuid \<Rightarrow> string \<Rightarrow> (mem_pub, unit) act" where
  "mem_mark_failed d reason s =
     (Inr (), s\<lparr>mp_failed := mp_failed s @ [d], mp_statuses := AList.update d Deck_failed (mp_statuses s)\<rparr>)"

definition mem_update_state ::
  "uuid \<Rightarrow> (string \<times> json) list option \<Rightarrow> (string \<times> json) list option \<Rightarrow> (mem_pub, unit) act" where
  "mem_update_state d generation_input metrics s =
     (let old = (case map_of (mp_states s) d of None \<Rightarrow> \<lparr> mg_input = None, mg_metrics = None \<rparr> | Some st \<Rightarrow> st);
          new = \<lparr> mg_input = (if generation_input = None then mg_input old else generation_input),
                  mg_metrics = (if metrics = None then mg_metrics old else metrics) \<rparr>
      in (Inr (), s\<lparr>mp_states := AList.update d new (mp_states s),
            mp_statuses := (if map_of (mp_statuses s) d = None
              then AList.update d Deck_generating (mp_statuses s) else mp_statuses s)\<rparr>))"

definition mem_persist_card ::
  "uuid \<Rightarrow> card_record \<Rightarrow> (string \<times> json) list option \<Rightarrow> (mem_pub, string) act" where
  "mem_persist_card d c metrics s =
     (let s0 = s\<lparr>mp_cards := AList.update d (mem_deck d s) (mp_cards s)\<rparr>;
          after = (\<lambda>s1. let s2 = (if metrics = None then s1 else snd (mem_update_state d None metrics s1))
            in s2\<lparr>mp_statuses := AList.update d Deck_generating (mp_statuses s2)\<rparr>)
      in case first_of (filter (\<lambda>v. cv_concept v = Some (cr_concept c)) (mem_deck d s)) of
           Some old \<Rightarrow> (Inr (cv_path old), after s0)
         | None \<Rightarrow>
             (case image_file_extension (cr_image c) of
                Inl err \<Rightarrow> (Inl err, s0)
              | Inr ext \<Rightarrow>
                  let path = card_rel_path d (card_filename c ext) in
                  (Inr path, after (s0\<lparr>mp_cards := AList.update d (mem_deck d s @
                     [\<lparr> cv_id = uuid_str (cr_id c), cv_concept = Some (cr_concept c), cv_path = path,
                        cv_labels = label_json (cr_labels c), cv_decoys = cr_decoys c,
                        cv_verified = cr_verified c \<rparr>]) (mp_cards s0)\<rparr>))))"

definition redecoy :: "(string \<times> string list) list \<Rightarrow> card_view \<Rightarrow> card_view" where
  "redecoy decoy_map v =
     v\<lparr>cv_decoys := (case map_of decoy_map (cv_id v) of None \<Rightarrow> [] | Some ds \<Rightarrow> ds)\<rparr>"

definition mem_finalize ::
  "uuid \<Rightarrow> (string \<times> string list) list \<Rightarrow> (string \<times> json) list option \<Rightarrow> deck_status
     \<Rightarrow> (mem_pub, publish_result) act" where
  "mem_finalize d decoy_map metrics final s =
     (if \<not> final_status_ok final then (Inl final_status_error, s)
      else
        let rows = map (redecoy decoy_map) (mem_deck d s);
            s1 = s\<lparr>mp_cards := AList.update d rows (mp_cards s)\<rparr>;
            s2 = (if metrics = None then s1 else snd (mem_update_state d None metrics s1));
            s3 = mem_finish d final s2;
            s4 = s3\<lparr>mp_published := mp_published s3 @ [Published_progressive d (map cv_id rows) decoy_map final
              (case metrics of None \<Rightarrow> [] | Some m \<Rightarrow> m)]\<rparr>
        in (Inr \<lparr> pb_deck = d, pb_status = final, pb_card_ids = map cv_id rows, pb_paths = map cv_path rows,
              pb_dry_run = True \<rparr>, s4))"

definition memory_publisher :: "mem_pub publisher_ops" where
  "memory_publisher =
     \<lparr> po_publish = mem_publish, po_mark_failed = mem_mark_failed, po_update_state = mem_update_state,
       po_persist_card = mem_persist_card, po_finalize = mem_finalize \<rparr>"

end
