(* ===== verification/Deck_Gen.thy ===== *)
theory Deck_Gen
  imports Deck_Concepts Deck_Publish
begin

text \<open>
  The generation pipeline (\<open>deckgen/pipeline.py\<close>, \<open>deckgen/concept_gen.py\<close>) over any publisher.  The
  model client is an argument that answers each request or raises; prompt templates are arguments.
  The cards of a deck are generated concurrently: \<open>ge_order\<close> is the order in which the tasks reach
  persistence or fail, and \<open>ge_counters\<close> what the shared counters show at that moment.
\<close>

section \<open>Client and prompts\<close>

record gen_client =
  gc_image :: "string \<Rightarrow> nat \<Rightarrow> string \<Rightarrow> py_error + bytes" \<comment> \<open>concept, attempt, prompt\<close>
  gc_verify :: "string \<Rightarrow> nat \<Rightarrow> bytes \<Rightarrow> py_error + json" \<comment> \<open>concept, attempt, image\<close>
  gc_translate :: "(string \<times> string) list \<Rightarrow> py_error + json" \<comment> \<open>concepts with English labels\<close>
  gc_decoys :: "(string \<times> string \<times> string) list \<Rightarrow> py_error + json" \<comment> \<open>card, concept, English label\<close>
  gc_invent :: "nat \<Rightarrow> py_error + json" \<comment> \<open>attempt\<close>

record prompt_texts =
  pt_image :: "string \<Rightarrow> string \<Rightarrow> string \<Rightarrow> string \<Rightarrow> string" \<comment> \<open>phrase, noun, region, emphasis\<close>
  pt_emphasis :: "string \<Rightarrow> string"

definition max_image_retries :: nat where "max_image_retries = 2"
definition prompt_max_image_retries :: nat where "prompt_max_image_retries = 4"
definition max_concept_gen_retries :: nat where "max_concept_gen_retries = 2"
definition n_decoys :: nat where "n_decoys = 5"
definition default_card_count :: nat where "default_card_count = 30"
definition prompt_min_card_count :: nat where "prompt_min_card_count = 6"
definition prompt_max_card_count :: nat where "prompt_max_card_count = 20"

text \<open>\<open>str(x)\<close> of a JSON value; \<open>py_str\<close> prints what is not a string.\<close>

definition text_of :: "(json \<Rightarrow> string) \<Rightarrow> json \<Rightarrow> string" where
  "text_of py_str v = (case v of JStr s \<Rightarrow> s | _ \<Rightarrow> py_str v)"

text \<open>\<open>row[key]\<close> of a JSON value.\<close>

definition item_of :: "json \<Rightarrow> string \<Rightarrow> py_error + json" where
  "item_of v key =
     (case v of
        JObj d \<Rightarrow> (case map_of d key of None \<Rightarrow> Inl KeyError | Some x \<Rightarrow> Inr x)
      | _ \<Rightarrow> Inl (TypeError ''value is not subscriptable by a string''))"

section \<open>Images\<close>

definition verification_accepted :: "(string \<times> json) list \<Rightarrow> bool" where
  "verification_accepted r \<longleftrightarrow> jget r ''verdict'' = JStr ''pass'' \<and> truthy (jget r ''depicts_label'')
     \<and> \<not> truthy (jget r ''has_text'')
     \<and> (case map_of r ''cultural_ok'' of None \<Rightarrow> True | Some v \<Rightarrow> truthy v)"

definition needs_region_emphasis :: "(string \<times> json) list \<Rightarrow> bool" where
  "needs_region_emphasis r \<longleftrightarrow> jget r ''cultural_ok'' = JBool False"

definition format_image_prompt :: "prompt_texts \<Rightarrow> concept \<Rightarrow> string \<Rightarrow> bool \<Rightarrow> string" where
  "format_image_prompt pt c region strengthen =
     pt_image pt (co_phrase c) (co_noun c) region (if strengthen then pt_emphasis pt region else [])"

definition reject_reason :: "(json \<Rightarrow> string) \<Rightarrow> (string \<times> json) list \<Rightarrow> string" where
  "reject_reason py_str r = (case map_of r ''reason'' of None \<Rightarrow> ''rejected'' | Some v \<Rightarrow> text_of py_str v)"

text \<open>The loop of \<open>generate_verified_image\<close>, with the number of attempts left.\<close>

fun verified_image ::
  "(json \<Rightarrow> string) \<Rightarrow> prompt_texts \<Rightarrow> gen_client \<Rightarrow> concept \<Rightarrow> string \<Rightarrow> nat \<Rightarrow> nat \<Rightarrow> bool \<Rightarrow> string
     \<Rightarrow> (deck_metrics, bytes) act" where
  "verified_image py_str pt cl c region attempt 0 strengthen why m =
     (Inl (RuntimeError (''Image verification failed: '' @ why)), m)"
| "verified_image py_str pt cl c region attempt (Suc left) strengthen why m =
     (case gc_image cl (co_id c) attempt (format_image_prompt pt c region strengthen) of
        Inl err \<Rightarrow> (Inl err, m)
      | Inr img \<Rightarrow>
          let m1 = record_image_attempt m in
          (case try_in (label_en (co_labels c)) (\<lambda>_. gc_verify cl (co_id c) attempt img) of
             Inl err \<Rightarrow> (Inl err, m1)
           | Inr answer \<Rightarrow>
               let m2 = record_flash_call m1 in
               (case answer of
                  JObj verdict \<Rightarrow>
                    if verification_accepted verdict then (Inr img, record_accept m2)
                    else verified_image py_str pt cl c region (attempt + 1) left True (reject_reason py_str verdict)
                      (record_reject m2)
                | _ \<Rightarrow> (Inl (TypeError ''verify_image expected dict''), m2))))"

definition generate_verified_image ::
  "(json \<Rightarrow> string) \<Rightarrow> prompt_texts \<Rightarrow> gen_client \<Rightarrow> concept \<Rightarrow> string \<Rightarrow> nat \<Rightarrow> (deck_metrics, bytes) act" where
  "generate_verified_image py_str pt cl c region max_retries =
     verified_image py_str pt cl c region 0 (max_retries + 1) False ''unknown''"

section \<open>Labels\<close>

text \<open>\<open>dict(x)\<close> of a JSON value: an object, or an iterable of pairs.\<close>

definition pair_of :: "(json \<Rightarrow> string) \<Rightarrow> json \<Rightarrow> py_error + string \<times> json" where
  "pair_of py_str v =
     (case v of
        JArr [k, x] \<Rightarrow> Inr (text_of py_str k, x)
      | JStr [a, b] \<Rightarrow> Inr ([a], JStr [b])
      | _ \<Rightarrow> Inl (ValueError ''dictionary update sequence element has another length''))"

definition dict_of :: "(json \<Rightarrow> string) \<Rightarrow> json \<Rightarrow> py_error + (string \<times> json) list" where
  "dict_of py_str v =
     (case v of
        JObj d \<Rightarrow> Inr d
      | JArr xs \<Rightarrow> map_err (pair_of py_str) xs
      | JStr [] \<Rightarrow> Inr []
      | JStr _ \<Rightarrow> Inl (ValueError ''dictionary update sequence element has another length'')
      | _ \<Rightarrow> Inl (TypeError ''object is not iterable''))"

definition str_dict :: "(json \<Rightarrow> string) \<Rightarrow> (string \<times> json) list \<Rightarrow> (string, string) dict" where
  "str_dict py_str d = fold (\<lambda>(k, v) m. AList.update k (text_of py_str v) m) d []"

type_synonym label_table = "(string, (string, string) dict) dict"

definition translate_row :: "(json \<Rightarrow> string) \<Rightarrow> json \<Rightarrow> label_table \<Rightarrow> py_error + label_table" where
  "translate_row py_str row by_id =
     try_in (item_of row ''id'') (\<lambda>i.
     try_in (item_of row ''labels'') (\<lambda>raw.
     try_in (dict_of py_str raw) (\<lambda>d.
       let cid = text_of py_str i; labels = str_dict py_str d in
       if map_of labels ''en'' \<noteq> None then Inr (AList.update cid labels by_id)
       else (case map_of by_id cid of
           None \<Rightarrow> Inl KeyError
         | Some old \<Rightarrow> try_in (label_en old) (\<lambda>t. Inr (AList.update cid (labels @ [(''en'', t)]) by_id))))))"

fun translate_rows :: "(json \<Rightarrow> string) \<Rightarrow> json list \<Rightarrow> label_table \<Rightarrow> py_error + label_table" where
  "translate_rows py_str [] by_id = Inr by_id"
| "translate_rows py_str (row # rows) by_id =
     try_in (translate_row py_str row by_id) (\<lambda>by_id'. translate_rows py_str rows by_id')"

definition seed_labels :: "concept list \<Rightarrow> label_table" where
  "seed_labels cs = fold (\<lambda>c m. AList.update (co_id c) (co_labels c) m) cs []"

definition translate_labels_batch ::
  "(json \<Rightarrow> string) \<Rightarrow> gen_client \<Rightarrow> concept list \<Rightarrow> (deck_metrics, label_table) act" where
  "translate_labels_batch py_str cl cs m =
     (case map_err (\<lambda>c. try_in (label_en (co_labels c)) (\<lambda>t. Inr (co_id c, t))) cs of
        Inl err \<Rightarrow> (Inl err, m)
      | Inr payload \<Rightarrow>
          (case gc_translate cl payload of
             Inl err \<Rightarrow> (Inl err, m)
           | Inr raw \<Rightarrow>
               ((case raw of
                   JArr rows \<Rightarrow> translate_rows py_str rows (seed_labels cs)
                 | _ \<Rightarrow> Inl (TypeError ''translate_labels expected a JSON array'')), record_flash_call m)))"

section \<open>Decoys\<close>

record built_card =
  bc_id :: uuid
  bc_concept :: concept
  bc_image :: bytes
  bc_labels :: "(string, string) dict"
  bc_decoys :: "string list" \<comment> \<open>concept ids\<close>

text \<open>\<open>[str(x) for x in value]\<close>.\<close>

definition str_list :: "(json \<Rightarrow> string) \<Rightarrow> json \<Rightarrow> py_error + string list" where
  "str_list py_str v =
     (case v of
        JArr xs \<Rightarrow> Inr (map (text_of py_str) xs)
      | JStr s \<Rightarrow> Inr (map (\<lambda>c. [c]) s)
      | JObj d \<Rightarrow> Inr (map fst d)
      | _ \<Rightarrow> Inl (TypeError ''object is not iterable''))"

definition concept_of_card :: "built_card list \<Rightarrow> (string, string) dict" where
  "concept_of_card built = fold (\<lambda>b m. AList.update (uuid_str (bc_id b)) (co_id (bc_concept b)) m) built []"

definition decoy_row ::
  "(json \<Rightarrow> string) \<Rightarrow> nat \<Rightarrow> built_card list \<Rightarrow> json \<Rightarrow> py_error + string \<times> string list" where
  "decoy_row py_str n built row =
     try_in (item_of row ''card_id'') (\<lambda>i.
       let card_id = text_of py_str i in
       (case map_of (concept_of_card built) card_id of
          None \<Rightarrow> Inl (ValueError ''decoy response references unknown card_id'')
        | Some own \<Rightarrow>
            try_in (item_of row ''decoy_concept_ids'') (\<lambda>raw.
            try_in (str_list py_str raw) (\<lambda>ds.
              if length ds \<noteq> n then Inl (ValueError ''card has another number of decoys'')
              else if own \<in> set ds then Inl (ValueError ''decoys include the own concept'')
              else if \<not> set ds \<subseteq> (\<lambda>b. co_id (bc_concept b)) ` set built then Inl (ValueError ''decoys outside pool'')
              else if \<not> distinct ds then Inl (ValueError ''duplicate decoy concept ids'')
              else Inr (card_id, ds)))))"

fun decoy_rows ::
  "(json \<Rightarrow> string) \<Rightarrow> nat \<Rightarrow> built_card list \<Rightarrow> json list \<Rightarrow> (string, string list) dict
     \<Rightarrow> py_error + (string, string list) dict" where
  "decoy_rows py_str n built [] mapping = Inr mapping"
| "decoy_rows py_str n built (row # rows) mapping =
     try_in (decoy_row py_str n built row) (\<lambda>(i, ds). decoy_rows py_str n built rows (AList.update i ds mapping))"

definition check_decoys ::
  "(json \<Rightarrow> string) \<Rightarrow> nat \<Rightarrow> built_card list \<Rightarrow> json \<Rightarrow> py_error + (string, string list) dict" where
  "check_decoys py_str n built raw =
     (case raw of
        JArr rows \<Rightarrow>
          try_in (decoy_rows py_str n built rows []) (\<lambda>mapping.
            if \<not> (\<lambda>b. uuid_str (bc_id b)) ` set built \<subseteq> set (keys mapping)
            then Inl (ValueError ''decoy response missing cards'') else Inr mapping)
      | _ \<Rightarrow> Inl (TypeError ''select_decoys expected a JSON array''))"

definition select_decoys_batch ::
  "(json \<Rightarrow> string) \<Rightarrow> gen_client \<Rightarrow> built_card list \<Rightarrow> nat \<Rightarrow> (deck_metrics, (string, string list) dict) act" where
  "select_decoys_batch py_str cl built n m =
     (case map_err (\<lambda>b. try_in (label_en (bc_labels b)) (\<lambda>t. Inr (uuid_str (bc_id b), co_id (bc_concept b), t))) built of
        Inl err \<Rightarrow> (Inl err, m)
      | Inr block \<Rightarrow>
          (case gc_decoys cl block of
             Inl err \<Rightarrow> (Inl err, m)
           | Inr raw \<Rightarrow> (check_decoys py_str n built raw, record_flash_call m)))"

definition card_of_concept :: "built_card list \<Rightarrow> (string, string) dict" where
  "card_of_concept built = fold (\<lambda>b m. AList.update (co_id (bc_concept b)) (uuid_str (bc_id b)) m) built []"

definition map_decoy_concepts_to_card_uuids ::
  "built_card list \<Rightarrow> (string, string list) dict \<Rightarrow> py_error + (string, string list) dict" where
  "map_decoy_concepts_to_card_uuids built by_card =
     map_err (\<lambda>(i, ds). try_in
       (map_err (\<lambda>x. case map_of (card_of_concept built) x of None \<Rightarrow> Inl KeyError | Some s \<Rightarrow> Inr s) ds)
       (\<lambda>ss. Inr (i, ss))) by_card"

section \<open>Building a deck\<close>

record gen_env =
  ge_pool :: "concept list"
  ge_draw :: "nat \<Rightarrow> nat"
  ge_client :: gen_client
  ge_texts :: prompt_texts
  ge_py_str :: "json \<Rightarrow> string"
  ge_type_name :: "py_error \<Rightarrow> string"
  ge_round :: "nat \<Rightarrow> rat \<Rightarrow> rat"
  ge_order :: "concept list \<Rightarrow> concept list"
  ge_card_id :: "string \<Rightarrow> uuid" \<comment> \<open>the fresh id of the card of a concept\<close>
  ge_fresh :: uuid \<comment> \<open>a fresh deck id\<close>
  ge_counters :: "nat \<Rightarrow> deck_metrics" \<comment> \<open>when so many cards are ready\<close>
  ge_elapsed :: "nat \<Rightarrow> rat"
  ge_total :: rat

record build_request =
  br_region :: string
  br_cards :: "nat option"
  br_concepts :: "concept list option"
  br_deck :: "uuid option"
  br_final :: deck_status
  br_progressive :: bool
  br_source :: "string option"
  br_theme :: "string option"
  br_seed :: "int option"

definition on_fst :: "('a, 'r) act \<Rightarrow> ('a \<times> 's, 'r) act" where
  "on_fst f = (\<lambda>(a, s). case f a of (r, a') \<Rightarrow> (r, (a', s)))"

definition on_snd :: "('s, 'r) act \<Rightarrow> ('a \<times> 's, 'r) act" where
  "on_snd f = (\<lambda>(a, s). case f s of (r, s') \<Rightarrow> (r, (a, s')))"

definition pure_err :: "py_error + 'r \<Rightarrow> ('s, 'r) act" where
  "pure_err r = (\<lambda>s. (r, s))"

definition progress_metrics ::
  "(nat \<Rightarrow> rat \<Rightarrow> rat) \<Rightarrow> deck_metrics \<Rightarrow> rat \<Rightarrow> string \<Rightarrow> nat \<Rightarrow> nat \<Rightarrow> (string \<times> json) list" where
  "progress_metrics round_to m elapsed stage target ready =
     metrics_dict round_to (max elapsed (1 / 1000)) m
       @ [(''progress_stage'', JStr stage), (''cards_target'', JInt (int target)), (''cards_ready'', JInt (int ready))]"

text \<open>\<open>label_en\<close> of a concept without an English label raises.\<close>

definition generation_input ::
  "string \<Rightarrow> concept list \<Rightarrow> int option \<Rightarrow> bool \<Rightarrow> string option \<Rightarrow> string option
     \<Rightarrow> py_error + (string \<times> json) list" where
  "generation_input region cs seed operator_supplied source theme =
     try_in (map_err (\<lambda>c. try_in (label_en (co_labels c)) (\<lambda>t.
         Inr (JObj [(''concept_id'', JStr (co_id c)), (''label_en'', JStr t),
           (''locale'', (case co_locale c of None \<Rightarrow> JNull | Some l \<Rightarrow> JStr l)),
           (''cultural_hint'', (case co_hint c of None \<Rightarrow> JNull | Some h \<Rightarrow> JStr h))]))) cs) (\<lambda>rows.
       Inr ([(''region'', JStr region), (''card_count'', JInt (int (length cs))),
         (''seed'', (case seed of None \<Rightarrow> JNull | Some i \<Rightarrow> JInt i)),
         (''source'', JStr (case source of
            Some src \<Rightarrow> if src \<noteq> [] then src else if operator_supplied then ''operator'' else ''curated''
          | None \<Rightarrow> if operator_supplied then ''operator'' else ''curated'')),
         (''concepts'', JArr rows)]
         @ (case theme of None \<Rightarrow> [] | Some t \<Rightarrow> [(''prompt'', JStr t)])))"

definition chosen_concepts :: "gen_env \<Rightarrow> build_request \<Rightarrow> py_error + concept list" where
  "chosen_concepts ge br =
     (case br_concepts br of
        None \<Rightarrow> select_concepts (ge_pool ge) (ge_draw ge)
          (case br_cards br of None \<Rightarrow> default_card_count | Some n \<Rightarrow> n)
      | Some cs \<Rightarrow>
          if (case br_cards br of None \<Rightarrow> False | Some n \<Rightarrow> n \<noteq> length cs)
          then Inl (ValueError ''cards does not match explicit concept count'')
          else if \<not> distinct (map co_id cs) then Inl (ValueError ''explicit concepts contain duplicate ids'')
          else Inr cs)"

definition image_retries :: "build_request \<Rightarrow> nat" where
  "image_retries br = (if br_source br = Some ''prompt'' then prompt_max_image_retries else max_image_retries)"

text \<open>\<open>_build_one\<close> up to the persistence of the card.\<close>

definition build_card ::
  "gen_env \<Rightarrow> build_request \<Rightarrow> string \<Rightarrow> label_table \<Rightarrow> concept \<Rightarrow> (deck_metrics, built_card) act" where
  "build_card ge br region_context translated c =
     bind_act (generate_verified_image (ge_py_str ge) (ge_texts ge) (ge_client ge) c
        (case co_locale c of Some l \<Rightarrow> if l \<noteq> [] then l else region_context | None \<Rightarrow> region_context)
        (image_retries br)) (\<lambda>img.
     (case map_of translated (co_id c) of
        None \<Rightarrow> throw KeyError
      | Some labels \<Rightarrow> ret \<lparr> bc_id = ge_card_id ge (co_id c), bc_concept = c, bc_image = img, bc_labels = labels,
          bc_decoys = [] \<rparr>))"

definition record_of :: "built_card \<Rightarrow> string list \<Rightarrow> card_record" where
  "record_of b ds =
     \<lparr> cr_id = bc_id b, cr_concept = co_id (bc_concept b), cr_image = bc_image b, cr_labels = bc_labels b,
       cr_decoys = ds, cr_verified = True \<rparr>"

text \<open>The tasks, in the order in which they finish; the first error stops the run.\<close>

fun build_cards ::
  "'s publisher_ops \<Rightarrow> gen_env \<Rightarrow> build_request \<Rightarrow> string \<Rightarrow> label_table \<Rightarrow> nat \<Rightarrow> nat \<Rightarrow> concept list
     \<Rightarrow> (deck_metrics \<times> 's, built_card list) act" where
  "build_cards ops ge br region_context translated target ready [] = ret []"
| "build_cards ops ge br region_context translated target ready (c # cs) =
     bind_act (on_fst (build_card ge br region_context translated c)) (\<lambda>b.
     bind_act (case br_deck br of
         Some d \<Rightarrow> if br_progressive br then
             bind_act (on_snd (po_persist_card ops d (record_of b [])
               (Some (progress_metrics (ge_round ge) (ge_counters ge (ready + 1)) (ge_elapsed ge (ready + 1))
                  ''generating_images'' target (ready + 1))))) (\<lambda>_. ret ())
           else ret ()
       | None \<Rightarrow> ret ()) (\<lambda>_.
     bind_act (build_cards ops ge br region_context translated target (ready + 1) cs) (\<lambda>bs. ret (b # bs))))"

text \<open>\<open>asyncio.gather\<close> returns the cards in the order of the concepts.\<close>

definition in_order :: "concept list \<Rightarrow> built_card list \<Rightarrow> built_card list" where
  "in_order cs bs = List.map_filter (\<lambda>c. List.find (\<lambda>b. co_id (bc_concept b) = co_id c) bs) cs"

record deck_build =
  db_cards :: "built_card list"
  db_metrics :: deck_metrics
  db_publish :: publish_result

definition when_progressive ::
  "build_request \<Rightarrow> (uuid \<Rightarrow> ('s, unit) act) \<Rightarrow> (deck_metrics \<times> 's, unit) act" where
  "when_progressive br f =
     (case br_deck br of Some d \<Rightarrow> if br_progressive br then on_snd (f d) else ret () | None \<Rightarrow> ret ())"

definition decoys_of_card :: "(string, string list) dict \<Rightarrow> built_card \<Rightarrow> string list" where
  "decoys_of_card by_card b = (case map_of by_card (uuid_str (bc_id b)) of None \<Rightarrow> [] | Some ds \<Rightarrow> ds)"

definition publish_built ::
  "'s publisher_ops \<Rightarrow> gen_env \<Rightarrow> build_request \<Rightarrow> string \<Rightarrow> (string \<times> json) list \<Rightarrow> (string \<times> json) list
     \<Rightarrow> built_card list \<Rightarrow> (string, string list) dict \<Rightarrow> ('s, publish_result) act" where
  "publish_built ops ge br region gi payload built uuids =
     (case (br_progressive br, br_deck br) of
        (True, Some d) \<Rightarrow> po_finalize ops d uuids (Some payload) (br_final br)
      | _ \<Rightarrow> po_publish ops (ge_fresh ge) (br_deck br) region
          (map (\<lambda>b. record_of b (decoys_of_card uuids b)) built) (br_final br) gi payload)"

definition build_body ::
  "'s publisher_ops \<Rightarrow> gen_env \<Rightarrow> build_request \<Rightarrow> string \<Rightarrow> string \<Rightarrow> (deck_metrics \<times> 's, deck_build) act" where
  "build_body ops ge br region region_context =
     bind_act (pure_err (chosen_concepts ge br)) (\<lambda>cs.
     bind_act (pure_err (generation_input region cs (br_seed br) (br_concepts br \<noteq> None) (br_source br) (br_theme br))) (\<lambda>gi.
     bind_act (gets fst) (\<lambda>m0.
     bind_act (when_progressive br (\<lambda>d. po_update_state ops d (Some gi)
        (Some (progress_metrics (ge_round ge) m0 (ge_elapsed ge 0) ''generating_images'' (length cs) 0)))) (\<lambda>_.
     bind_act (on_fst (translate_labels_batch (ge_py_str ge) (ge_client ge) cs)) (\<lambda>translated.
     bind_act (build_cards ops ge br region_context translated (length cs) 0 (ge_order ge cs)) (\<lambda>finished.
     let built = in_order cs finished in
     bind_act (gets fst) (\<lambda>m1.
     bind_act (when_progressive br (\<lambda>d. po_update_state ops d None
        (Some (progress_metrics (ge_round ge) m1 (ge_elapsed ge (length cs + 1)) ''finalizing_decoys'' (length cs)
           (length built))))) (\<lambda>_.
     bind_act (on_fst (select_decoys_batch (ge_py_str ge) (ge_client ge) built n_decoys)) (\<lambda>by_concept.
     bind_act (pure_err (map_decoy_concepts_to_card_uuids built by_concept)) (\<lambda>uuids.
     bind_act (gets fst) (\<lambda>m2.
     bind_act (on_snd (publish_built ops ge br region gi
        (progress_metrics (ge_round ge) m2 (ge_total ge) ''ready'' (length cs) (length built)) built uuids)) (\<lambda>res.
     ret \<lparr> db_cards = map (\<lambda>b. b\<lparr>bc_decoys := decoys_of_card by_concept b\<rparr>) built, db_metrics = m2, db_publish = res \<rparr>))))))))))))"

definition generation_failed :: "gen_env \<Rightarrow> py_error \<Rightarrow> string" where
  "generation_failed ge err = ''generation failed: '' @ ge_type_name ge err"

definition build_deck :: "'s publisher_ops \<Rightarrow> gen_env \<Rightarrow> build_request \<Rightarrow> deck_metrics \<Rightarrow> ('s, deck_build) act" where
  "build_deck ops ge br m0 s =
     (if \<not> final_status_ok (br_final br) then (Inl final_status_error, s)
      else if br_progressive br \<and> br_deck br = None
      then (Inl (ValueError ''progressive mode requires an existing deck_id''), s)
      else case resolve_region_context (py_lower (strip (br_region br))) of
          Inl err \<Rightarrow> (Inl err, s)
        | Inr ctx \<Rightarrow>
            (case build_body ops ge br (py_lower (strip (br_region br))) ctx (m0, s) of
               (Inr res, (_, s')) \<Rightarrow> (Inr res, s')
             | (Inl err, (_, s')) \<Rightarrow> (Inl err, case br_deck br of
                   None \<Rightarrow> s'
                 | Some d \<Rightarrow> snd (po_mark_failed ops d (generation_failed ge err) s'))))"

section \<open>From a prompt\<close>

text \<open>
  The attempts of \<open>invent_concepts_from_prompt\<close>.  The count that is logged is taken with \<open>len\<close> before
  the answer is validated, so a value without a length raises there, outside the retry.
\<close>

definition sized :: "json \<Rightarrow> bool" where
  "sized v \<longleftrightarrow> (case v of JArr _ \<Rightarrow> True | JStr _ \<Rightarrow> True | JObj _ \<Rightarrow> True | _ \<Rightarrow> False)"

definition loggable :: "json \<Rightarrow> bool" where
  "loggable raw \<longleftrightarrow> (case raw of JObj d \<Rightarrow> (case map_of d ''concepts'' of None \<Rightarrow> True | Some v \<Rightarrow> sized v) | _ \<Rightarrow> True)"

definition invented :: "nat \<Rightarrow> json \<Rightarrow> py_error + concept list" where
  "invented n raw = try_in (operator_rows_from_payload n raw) (\<lambda>rows. concepts_from_operator_mappings (JArr rows))"

definition retried :: "py_error \<Rightarrow> bool" where
  "retried err \<longleftrightarrow> (case err of TypeError _ \<Rightarrow> True | ValueError _ \<Rightarrow> True | _ \<Rightarrow> False)"

fun invent_from :: "(py_error \<Rightarrow> string) \<Rightarrow> gen_client \<Rightarrow> nat \<Rightarrow> nat \<Rightarrow> nat \<Rightarrow> string \<Rightarrow> (deck_metrics, concept list) act" where
  "invent_from type_name cl n attempt 0 why m =
     (Inl (RuntimeError (''Concept invention failed: '' @ why)), m)"
| "invent_from type_name cl n attempt (Suc left) why m =
     (case gc_invent cl attempt of
        Inl err \<Rightarrow> (Inl err, m)
      | Inr raw \<Rightarrow>
          let m1 = record_flash_call m in
          if \<not> loggable raw then (Inl (TypeError ''object has no len()''), m1)
          else (case invented n raw of
              Inr cs \<Rightarrow> (Inr cs, m1)
            | Inl err \<Rightarrow>
                if retried err then invent_from type_name cl n (attempt + 1) left (type_name err) m1
                else (Inl err, m1)))"

definition invent_concepts_from_prompt ::
  "(py_error \<Rightarrow> string) \<Rightarrow> gen_client \<Rightarrow> string \<Rightarrow> nat \<Rightarrow> (deck_metrics, concept list) act" where
  "invent_concepts_from_prompt type_name cl region n m =
     (if n < prompt_min_card_count \<or> prompt_max_card_count < n
      then (Inl (ValueError ''card_count out of range''), m)
      else case resolve_region_context (py_lower (strip region)) of
          Inl err \<Rightarrow> (Inl err, m)
        | Inr _ \<Rightarrow> invent_from type_name cl n 0 (max_concept_gen_retries + 1) ''unknown'' m)"

definition prompt_request :: "string \<Rightarrow> string \<Rightarrow> concept list \<Rightarrow> uuid \<Rightarrow> deck_status \<Rightarrow> build_request" where
  "prompt_request region theme cs d final =
     \<lparr> br_region = region, br_cards = None, br_concepts = Some cs, br_deck = Some d, br_final = final,
       br_progressive = True, br_source = Some ''prompt'', br_theme = Some theme, br_seed = None \<rparr>"

definition build_deck_from_prompt ::
  "'s publisher_ops \<Rightarrow> gen_env \<Rightarrow> string \<Rightarrow> string \<Rightarrow> nat \<Rightarrow> uuid \<Rightarrow> deck_status \<Rightarrow> ('s, deck_build) act" where
  "build_deck_from_prompt ops ge region theme n d final s =
     (case bind_act (on_snd (po_update_state ops d
           (Some [(''region'', JStr (py_lower (strip region))), (''prompt'', JStr theme),
              (''card_count'', JInt (int n)), (''source'', JStr ''prompt''), (''concepts'', JArr [])])
           (Some (progress_metrics (ge_round ge) zero_metrics (ge_elapsed ge 0) ''inventing_concepts'' n 0))))
         (\<lambda>_. on_fst (invent_concepts_from_prompt (ge_type_name ge) (ge_client ge) region n)) (zero_metrics, s) of
        (Inl err, (_, s')) \<Rightarrow> (Inl err, snd (po_mark_failed ops d (generation_failed ge err) s'))
      | (Inr cs, (m, s')) \<Rightarrow> build_deck ops ge (prompt_request region theme cs d final) m s')"

end
