(* ===== verification/Deck_Admin.thy ===== *)
theory Deck_Admin
  imports Deck_Gen
begin

text \<open>
  The deck control service (\<open>app/deck_admin/service.py\<close>, \<open>generation.py\<close>) over the tables and the
  generation pipeline: the request contracts, scheduling, the two background runs, listing, review
  with safe media URLs, and activation.  Requests are the models pydantic built from the body.
\<close>

section \<open>Requests\<close>

record generate_request =
  gr_region :: string
  gr_concepts :: "admin_concept list"

record prompt_generate_request =
  pg_region :: string
  pg_prompt :: string
  pg_card_count :: nat

text \<open>What \<open>AdminDeckGenerateRequest\<close> and its concepts accept.\<close>

definition admin_concept_ok :: "admin_concept \<Rightarrow> bool" where
  "admin_concept_ok a \<longleftrightarrow> admin_slug (ac_id a) \<and> 1 \<le> length (ac_label a) \<and> length (ac_label a) \<le> 120
     \<and> 1 \<le> length (ac_locale a) \<and> length (ac_locale a) \<le> 120
     \<and> 1 \<le> length (ac_hint a) \<and> length (ac_hint a) \<le> 500"

definition generate_request_ok :: "generate_request \<Rightarrow> bool" where
  "generate_request_ok r \<longleftrightarrow> admin_slug (gr_region r) \<and> 6 \<le> length (gr_concepts r) \<and> length (gr_concepts r) \<le> 60
     \<and> list_all admin_concept_ok (gr_concepts r) \<and> distinct (map ac_id (gr_concepts r))"

text \<open>\<open>AdminDeckPromptGenerateRequest\<close> stores the stripped prompt.\<close>

definition prompt_generate_request :: "prompt_generate_request \<Rightarrow> py_error + prompt_generate_request" where
  "prompt_generate_request r =
     (if \<not> admin_slug (pg_region r) \<or> pg_prompt r = [] \<or> 240 < length (pg_prompt r)
         \<or> pg_card_count r < 6 \<or> 20 < pg_card_count r then Inl (ValueError ''validation error'')
      else if CHR 0x0A \<in> set (pg_prompt r) \<or> CHR 0x0D \<in> set (pg_prompt r)
      then Inl (ValueError ''prompt must be a single line'')
      else if strip (pg_prompt r) = [] then Inl (ValueError ''prompt must not be blank'')
      else Inr (r\<lparr>pg_prompt := strip (pg_prompt r)\<rparr>))"

section \<open>Scheduling\<close>

definition dump_request :: "generate_request \<Rightarrow> (string \<times> json) list" where
  "dump_request r = [(''region_tag'', JStr (gr_region r)), (''concepts'', JArr (map dump_concept (gr_concepts r)))]"

definition start_generation :: "uuid \<Rightarrow> time \<Rightarrow> generate_request \<Rightarrow> (deck_db, uuid \<times> deck_status) act" where
  "start_generation fresh now r =
     bind_act (create_generating fresh now (gr_region r) (dump_request r)) (\<lambda>i. ret (i, Deck_generating))"

definition start_prompt_generation ::
  "uuid \<Rightarrow> time \<Rightarrow> prompt_generate_request \<Rightarrow> (deck_db, uuid \<times> deck_status) act" where
  "start_prompt_generation fresh now r =
     bind_act (create_generating fresh now (pg_region r)
        [(''region_tag'', JStr (pg_region r)), (''prompt'', JStr (pg_prompt r)),
         (''card_count'', JInt (int (pg_card_count r))), (''source'', JStr ''prompt''), (''concepts'', JArr [])])
       (\<lambda>i. ret (i, Deck_generating))"

section \<open>Background runs\<close>

definition failure_reason_max_chars :: nat where
  "failure_reason_max_chars = 500"

text \<open>\<open>DeckgenGateway\<close>: the advanced path publishes at once, the prompt path card by card.\<close>

definition operator_request :: "string \<Rightarrow> concept list \<Rightarrow> uuid \<Rightarrow> build_request" where
  "operator_request region cs d =
     \<lparr> br_region = region, br_cards = None, br_concepts = Some cs, br_deck = Some d, br_final = Deck_ready,
       br_progressive = False, br_source = None, br_theme = None, br_seed = None \<rparr>"

definition gateway_generate ::
  "'s publisher_ops \<Rightarrow> gen_env \<Rightarrow> string \<Rightarrow> json list \<Rightarrow> uuid \<Rightarrow> ('s, unit) act" where
  "gateway_generate ops ge region rows d =
     bind_act (pure_err (concepts_from_operator_mappings (JArr rows))) (\<lambda>cs.
     bind_act (build_deck ops ge (operator_request region cs d) zero_metrics) (\<lambda>_. ret ()))"

definition gateway_from_prompt ::
  "'s publisher_ops \<Rightarrow> gen_env \<Rightarrow> string \<Rightarrow> string \<Rightarrow> nat \<Rightarrow> uuid \<Rightarrow> ('s, unit) act" where
  "gateway_from_prompt ops ge region prompt n d =
     bind_act (build_deck_from_prompt ops ge region prompt n d Deck_ready) (\<lambda>_. ret ())"

text \<open>The database may refuse the mark too; the background task then dies with that error.\<close>

definition recorded :: "gen_env \<Rightarrow> py_error option \<Rightarrow> uuid \<Rightarrow> (deck_db, unit) act \<Rightarrow> (deck_db, unit) act" where
  "recorded ge mark_fault d run g =
     (case run g of
        (Inr _, g') \<Rightarrow> (Inr (), g')
      | (Inl err, g') \<Rightarrow>
          (case mark_fault of
             Some db_err \<Rightarrow> (Inl db_err, g')
           | None \<Rightarrow> repo_mark_failed d
               (take failure_reason_max_chars (''Generation failed ('' @ ge_type_name ge err @ '')'')) g'))"

definition run_generation ::
  "pub_env \<Rightarrow> gen_env \<Rightarrow> py_error option \<Rightarrow> uuid \<Rightarrow> generate_request \<Rightarrow> (deck_db, unit) act" where
  "run_generation e ge mark_fault d r =
     recorded ge mark_fault d
       (gateway_generate (postgres_publisher (ge_type_name ge) e) ge (gr_region r) (map dump_concept (gr_concepts r)) d)"

definition run_prompt_generation ::
  "pub_env \<Rightarrow> gen_env \<Rightarrow> py_error option \<Rightarrow> uuid \<Rightarrow> prompt_generate_request \<Rightarrow> (deck_db, unit) act" where
  "run_prompt_generation e ge mark_fault d r =
     recorded ge mark_fault d
       (gateway_from_prompt (postgres_publisher (ge_type_name ge) e) ge (pg_region r) (pg_prompt r) (pg_card_count r) d)"

section \<open>Listing\<close>

definition json_mapping :: "(string \<times> json) list option \<Rightarrow> (string \<times> json) list" where
  "json_mapping v = (case v of None \<Rightarrow> [] | Some d \<Rightarrow> d)"

definition scalar :: "json \<Rightarrow> bool" where
  "scalar v \<longleftrightarrow> (case v of JBool _ \<Rightarrow> True | JInt _ \<Rightarrow> True | JFloat _ \<Rightarrow> True | JStr _ \<Rightarrow> True | _ \<Rightarrow> False)"

definition generation_metrics_for_api :: "(string \<times> json) list option \<Rightarrow> (string \<times> json) list option" where
  "generation_metrics_for_api v =
     (case v of
        None \<Rightarrow> None
      | Some _ \<Rightarrow> let cleaned = filter (\<lambda>(k, x). scalar x) (json_mapping v)
          in if cleaned = [] then None else Some cleaned)"

record deck_summary =
  ds_id :: uuid
  ds_region :: string
  ds_status :: deck_status
  ds_cards :: nat
  ds_metrics :: "(string \<times> json) list option"
  ds_failure :: "string option"
  ds_activated :: "time option"
  ds_created :: time

definition summary_of :: "uuid \<Rightarrow> deck_row \<Rightarrow> nat \<Rightarrow> deck_summary" where
  "summary_of i r n =
     \<lparr> ds_id = i, ds_region = dk_region r, ds_status = dk_status r, ds_cards = n,
       ds_metrics = generation_metrics_for_api (dk_metrics r), ds_failure = dk_failure r,
       ds_activated = dk_activated r, ds_created = dk_created r \<rparr>"

definition list_decks :: "deck_db \<Rightarrow> deck_summary list" where
  "list_decks g = map (\<lambda>(i, r, n). summary_of i r n) (repo_list_decks g)"

section \<open>Media URLs\<close>

text \<open>The parts pathlib keeps of a path: the pieces between slashes but for empty ones and dots.\<close>

fun split_slash :: "string \<Rightarrow> string \<Rightarrow> string list" where
  "split_slash acc [] = [rev acc]"
| "split_slash acc (c # cs) = (if c = CHR ''/'' then rev acc # split_slash [] cs else split_slash (c # acc) cs)"

definition path_parts :: "string \<Rightarrow> string list" where
  "path_parts s = filter (\<lambda>p. p \<noteq> [] \<and> p \<noteq> ''.'') (split_slash [] s)"

definition path_absolute :: "string \<Rightarrow> bool" where
  "path_absolute s \<longleftrightarrow> (case s of c # _ \<Rightarrow> c = CHR ''/'' | [] \<Rightarrow> False)"

text \<open>\<open>str(Path(s))\<close> of a relative path.\<close>

definition path_text :: "string \<Rightarrow> string" where
  "path_text s = (if path_parts s = [] then ''.'' else join_with ''/'' (path_parts s))"

text \<open>\<open>urllib.parse.quote(part, safe="")\<close>: UTF-8 bytes, all but the unreserved ones escaped.\<close>

definition unreserved :: "char \<Rightarrow> bool" where
  "unreserved c \<longleftrightarrow> ascii_lower c \<or> ascii_upper c \<or> is_digit c \<or> c \<in> set ''_.-~''"

definition utf8_bytes :: "char \<Rightarrow> nat list" where
  "utf8_bytes c = (let n = of_char c in if n < 128 then [n] else [192 + n div 64, 128 + n mod 64])"

definition upper_hex :: "nat \<Rightarrow> char" where
  "upper_hex d = (if d < 10 then char_of (48 + d) else char_of (55 + d))"

definition quote_char :: "char \<Rightarrow> string" where
  "quote_char c =
     (if unreserved c then [c]
      else concat (map (\<lambda>b. [CHR ''%'', upper_hex (b div 16), upper_hex (b mod 16)]) (utf8_bytes c)))"

definition quote_part :: "string \<Rightarrow> string" where
  "quote_part s = concat (map quote_char s)"

definition media_url_prefix :: string where
  "media_url_prefix = ''/media''"

definition invalid_image_path :: py_error where
  "invalid_image_path = AdminError 500 ''Deck contains an invalid image path''"

text \<open>\<open>relative\<close> resolves an absolute path against the media root, on the file system.\<close>

definition safe_image_url :: "(string \<Rightarrow> string option) \<Rightarrow> string \<Rightarrow> py_error + string" where
  "safe_image_url relative stored =
     (case (if path_absolute stored then relative stored else Some stored) of
        None \<Rightarrow> Inl invalid_image_path
      | Some candidate \<Rightarrow>
          let normalized = py_replace_backslash (path_text candidate); parts = path_parts normalized in
          if parts = [] \<or> ''..'' \<in> set parts \<or> path_absolute normalized \<or> CHR '':'' \<in> set (hd parts)
          then Inl invalid_image_path
          else Inr (media_url_prefix @ ''/'' @ join_with ''/'' (map quote_part parts)))"

section \<open>Review\<close>

record card_review =
  rv_id :: uuid
  rv_concept :: "string option"
  rv_url :: string
  rv_label_en :: string
  rv_labels :: "(string, string) dict"
  rv_verified :: bool

record deck_detail =
  dd_summary :: deck_summary
  dd_concepts :: "admin_concept list"
  dd_cards :: "card_review list"

definition review_card ::
  "(json \<Rightarrow> string) \<Rightarrow> (string \<Rightarrow> string option) \<Rightarrow> uuid \<times> card_row \<Rightarrow> py_error + card_review" where
  "review_card py_str relative = (\<lambda>(i, c).
     let labels = str_dict py_str (ck_labels c) in
     try_in (safe_image_url relative (ck_path c)) (\<lambda>url. Inr
       \<lparr> rv_id = i, rv_concept = ck_concept c, rv_url = url,
         rv_label_en = (case map_of labels ''en'' of None \<Rightarrow> [] | Some t \<Rightarrow> t), rv_labels = labels,
         rv_verified = ck_verified c \<rparr>))"

text \<open>Iterating \<open>generation_input.get("concepts", [])\<close>.\<close>

definition stored_concepts :: "(string \<times> json) list \<Rightarrow> py_error + json list" where
  "stored_concepts inp =
     (case map_of inp ''concepts'' of
        None \<Rightarrow> Inr []
      | Some (JArr xs) \<Rightarrow> Inr xs
      | Some (JStr s) \<Rightarrow> Inr (map (\<lambda>c. JStr [c]) s)
      | Some (JObj d) \<Rightarrow> Inr (map (JStr \<circ> fst) d)
      | Some _ \<Rightarrow> Inl (TypeError ''object is not iterable''))"

definition review_deck ::
  "(json \<Rightarrow> string) \<Rightarrow> (string \<Rightarrow> string option) \<Rightarrow> uuid \<Rightarrow> deck_db \<Rightarrow> py_error + deck_detail" where
  "review_deck py_str relative d g =
     (case repo_get_deck d g of
        None \<Rightarrow> Inl (AdminError 404 ''Deck not found'')
      | Some (r, n, rows) \<Rightarrow>
          try_in (if dk_status r = Deck_generating then Inr []
            else try_in (stored_concepts (dk_input r)) (map_err validate_admin_concept)) (\<lambda>concepts.
          try_in (map_err (review_card py_str relative) rows) (\<lambda>reviews. Inr
            \<lparr> dd_summary = summary_of d r n, dd_concepts = concepts, dd_cards = reviews \<rparr>)))"

section \<open>Activation\<close>

fun deck_status_text :: "deck_status \<Rightarrow> string" where
  "deck_status_text Deck_draft = ''draft''"
| "deck_status_text Deck_generating = ''generating''"
| "deck_status_text Deck_ready = ''ready''"
| "deck_status_text Deck_live = ''live''"
| "deck_status_text Deck_failed = ''failed''"

definition activate :: "time \<Rightarrow> uuid \<Rightarrow> (deck_db, uuid \<times> deck_status) act" where
  "activate now d =
     bind_act (repo_activate now d) (\<lambda>result.
       (case result of
          None \<Rightarrow> throw (AdminError 404 ''Deck not found'')
        | Some (original, None) \<Rightarrow> throw (AdminError 409
            (''Deck must be ready before activation (current: '' @ deck_status_text original @ '')''))
        | Some (_, Some r) \<Rightarrow> ret (d, Deck_live)))"

end
