(* ===== verification/Deck_Publish_Laws.thy ===== *)
theory Deck_Publish_Laws
  imports Deck_Publish
begin

text \<open>
  What deck generation relies on: the contract of a publisher as the locale \<open>deck_publisher\<close>, over the
  status of a deck and the set of its cards as a review shows them, and its interpretation by both
  publishers.  The last section is about the Postgres publisher alone: atomic publication.
\<close>

section \<open>Views\<close>

definition view_of :: "card_record \<Rightarrow> string \<Rightarrow> card_view" where
  "view_of c path =
     \<lparr> cv_id = uuid_str (cr_id c), cv_concept = Some (cr_concept c), cv_path = path,
       cv_labels = label_json (cr_labels c), cv_decoys = cr_decoys c, cv_verified = cr_verified c \<rparr>"

definition row_view :: "uuid \<times> card_row \<Rightarrow> card_view" where
  "row_view = (\<lambda>(i, c). \<lparr> cv_id = uuid_str i, cv_concept = ck_concept c, cv_path = ck_path c,
     cv_labels = ck_labels c, cv_decoys = ck_decoys c, cv_verified = ck_verified c \<rparr>)"

definition pg_deck :: "deck_db \<Rightarrow> uuid \<Rightarrow> card_view set" where
  "pg_deck g d = row_view ` {x \<in> set (dt_cards g). ck_deck (snd x) = d}"

lemma pg_deck_cards: "pg_deck g d = set (map row_view (deck_cards g d))"
proof -
  have "{(i, c). (i, c) \<in> set (dt_cards g) \<and> ck_deck c = d} = {x \<in> set (dt_cards g). ck_deck (snd x) = d}" by auto
  then show ?thesis by (simp add: pg_deck_def set_deck_cards)
qed

lemma pg_deck_cong [simp]:
  "pg_deck (put_deck d r g) = pg_deck g"
  "pg_deck (g\<lparr>dt_dirs := dirs\<rparr>) = pg_deck g"
  "pg_deck (g\<lparr>dt_decks := rows\<rparr>) = pg_deck g"
  by (simp_all add: pg_deck_def fun_eq_iff)

lemma deck_status_of_dirs [simp]:
  "deck_status_of (g\<lparr>dt_dirs := dirs\<rparr>) = deck_status_of g"
  "deck_status_of (g\<lparr>dt_cards := rows\<rparr>) = deck_status_of g"
  by (simp_all add: deck_status_of_def fun_eq_iff)

lemma update_new: "map_of m k = None \<Longrightarrow> AList.update k v m = m @ [(k, v)]"
  by (induction m) (auto split: if_splits)

lemma row_view_of [simp]: "row_view (cr_id c, card_row_of d now c path) = view_of c path"
  by (simp add: row_view_def card_row_of_def view_of_def)

lemma pg_deck_insert:
  "map_of (dt_cards g) (cr_id c) = None \<Longrightarrow>
     pg_deck (g\<lparr>dt_cards := AList.update (cr_id c) (card_row_of d now c path) (dt_cards g)\<rparr>) i =
       (if i = d then insert (view_of c path) (pg_deck g d) else pg_deck g i)"
proof -
  assume "map_of (dt_cards g) (cr_id c) = None"
  note new = update_new [OF this]
  have "{x \<in> set (dt_cards g @ [(cr_id c, card_row_of d now c path)]). ck_deck (snd x) = i}
      = (if i = d then {(cr_id c, card_row_of d now c path)} else {}) \<union> {x \<in> set (dt_cards g). ck_deck (snd x) = i}"
    by (auto simp: card_row_of_def)
  then show ?thesis by (simp add: pg_deck_def new)
qed

lemma existing_card_iff:
  "existing_card d concept g = None \<longleftrightarrow> (\<forall>v \<in> pg_deck g d. cv_concept v \<noteq> Some concept)"
  by (auto simp: existing_card_def pg_deck_def row_view_def filter_empty_conv)

lemma image_filter: "(\<And>x. P (f x) = P x) \<Longrightarrow> {x \<in> f ` S. P x} = f ` {x \<in> S. P x}"
  by auto

lemma image_id_on: "(\<And>x. x \<in> S \<Longrightarrow> f x = x) \<Longrightarrow> f ` S = S"
  by simp

section \<open>The contract\<close>

locale deck_publisher =
  fixes ops :: "'s publisher_ops"
    and status :: "'s \<Rightarrow> uuid \<Rightarrow> deck_status option"
    and deck_of :: "'s \<Rightarrow> uuid \<Rightarrow> card_view set"
  assumes publish_done:
      "po_publish ops fresh i region cs final inp m s = (Inr r, s') \<Longrightarrow>
         final_status_ok final \<and> pb_deck r = (case i of None \<Rightarrow> fresh | Some d \<Rightarrow> d) \<and> pb_status r = final \<and>
         status s' (pb_deck r) = Some final \<and> pb_card_ids r = map (uuid_str \<circ> cr_id) cs"
    and mark_status:
      "po_mark_failed ops d reason s = (res, s') \<Longrightarrow>
         deck_of s' = deck_of s \<and> (\<forall>j. j \<noteq> d \<longrightarrow> status s' j = status s j) \<and>
         (status s' d = status s d \<or> status s' d = Some Deck_failed) \<and>
         (res = Inr () \<longrightarrow> status s d = Some Deck_generating \<longrightarrow> status s' d = Some Deck_failed)"
    and update_keeps:
      "po_update_state ops d upd_in upd_m s = (ures, s') \<Longrightarrow> status s d \<noteq> None \<Longrightarrow>
         deck_of s' = deck_of s \<and> status s' = status s"
    and persist_done:
      "po_persist_card ops d c upd_m s = (Inr path, s') \<Longrightarrow> status s d = Some Deck_generating \<Longrightarrow>
         status s' = status s \<and> (\<forall>j. j \<noteq> d \<longrightarrow> deck_of s' j = deck_of s j) \<and>
         deck_of s' d = (if \<exists>v \<in> deck_of s d. cv_concept v = Some (cr_concept c) then deck_of s d
           else insert (view_of c path) (deck_of s d))"
    and persist_failed:
      "po_persist_card ops d c upd_m s = (Inl err, s') \<Longrightarrow> status s' = status s \<and> deck_of s' = deck_of s"
    and finalize_done:
      "po_finalize ops d decoy_map upd_m final s = (Inr r, s') \<Longrightarrow>
         final_status_ok final \<and> pb_status r = final \<and> status s' d = Some final \<and>
         (\<forall>j. j \<noteq> d \<longrightarrow> status s' j = status s j \<and> deck_of s' j = deck_of s j) \<and>
         deck_of s' d = redecoy decoy_map ` deck_of s d \<and> set (pb_card_ids r) = cv_id ` deck_of s d"
    and finalize_failed:
      "po_finalize ops d decoy_map upd_m final s = (Inl err, s') \<Longrightarrow> s' = s"

section \<open>Postgres\<close>

lemma failing_cases: "failing e site g = (case pe_fault e site of None \<Rightarrow> (Inr (), g) | Some err \<Rightarrow> (Inl err, g))"
  by (simp add: failing_def split: option.split)

lemma require_generating_iff:
  "require_generating d g = Inr r \<longleftrightarrow> map_of (dt_decks g) d = Some r \<and> dk_status r = Deck_generating"
  by (auto simp: require_generating_def split: option.split)

lemma insert_cards_frame:
  "insert_cards e d xs g = (res, g') \<Longrightarrow> dt_decks g' = dt_decks g \<and> dt_dirs g' = dt_dirs g"
proof (induction e d xs g rule: insert_cards.induct)
  case (2 e d c rel rest g)
  show ?case
  proof (cases "pe_fault e (At_insert (cr_id c)) = None \<and> map_of (dt_cards g) (cr_id c) = None")
    case True
    then show ?thesis using 2(1) [of] 2(2) by simp
  next
    case False
    then show ?thesis using 2(2) by (auto split: option.splits if_splits)
  qed
qed simp

lemma pg_mark_failed_spec:
  assumes "pg_mark_failed e d reason g = (res, g')"
  shows "dt_cards g' = dt_cards g \<and> dt_dirs g' = dt_dirs g
    \<and> (\<forall>j. deck_status_of g' j = (if j = d \<and> res = Inr () \<and> deck_status_of g d = Some Deck_generating
         then Some Deck_failed else deck_status_of g j))"
proof (cases "pe_fault e At_mark")
  case None
  show ?thesis
  proof (cases "map_of (dt_decks g) d")
    case None
    then show ?thesis using assms \<open>pe_fault e At_mark = None\<close>
      by (auto simp: pg_mark_failed_def bind_act_def failing_cases deck_status_of_def)
  next
    case (Some r)
    then show ?thesis using assms None
      by (cases "dk_status r = Deck_generating")
        (auto simp: pg_mark_failed_def bind_act_def failing_cases deck_status_of_def)
  qed
next
  case (Some err)
  then show ?thesis using assms by (auto simp: pg_mark_failed_def bind_act_def failing_cases)
qed

lemma insert_cards_deck:
  "insert_cards e d xs g = (Inr (), g') \<Longrightarrow>
     pg_deck g' i = (if i = d then (\<lambda>(c, rel). view_of c rel) ` set xs \<union> pg_deck g d else pg_deck g i)"
proof (induction e d xs g rule: insert_cards.induct)
  case (2 e d c rel rest g)
  then have "pe_fault e (At_insert (cr_id c)) = None" "map_of (dt_cards g) (cr_id c) = None"
    by (auto split: option.splits if_splits)
  then show ?case using 2 by (simp add: pg_deck_insert)
qed simp

lemma promote_deck_spec:
  assumes "promote_deck e d final m g = (res, g')"
  shows "res = Inr () \<and> dt_cards g' = dt_cards g \<and> dt_dirs g' = dt_dirs g \<and>
    (\<forall>j. deck_status_of g' j = (if j = d \<and> deck_status_of g d \<noteq> None then Some final else deck_status_of g j))"
  using assms by (auto simp: promote_deck_def deck_status_of_def split: option.splits)

lemma claim_deck_spec:
  assumes "claim_deck e d provided region inp g = (res, g')"
  shows "dt_cards g' = dt_cards g \<and> dt_dirs g' = dt_dirs g \<and> (\<forall>j. j \<noteq> d \<longrightarrow> map_of (dt_decks g') j = map_of (dt_decks g) j)
    \<and> (res = Inr () \<longrightarrow> deck_status_of g' d = Some Deck_generating \<and>
        (provided \<longrightarrow> deck_status_of g d = Some Deck_generating))"
proof (cases provided)
  case True
  then show ?thesis using assms
    by (auto simp: claim_deck_def require_generating_def deck_status_of_def split: option.splits if_splits)
next
  case False
  then show ?thesis using assms by (auto simp: claim_deck_def deck_status_of_def)
qed

text \<open>What a committed publication wrote.\<close>

lemma publish_txn_done:
  assumes "publish_txn e d provided region cs files final inp m g = (Inr (), g')"
  shows "deck_status_of g' d = Some final \<and> (\<forall>j. j \<noteq> d \<longrightarrow> deck_status_of g' j = deck_status_of g j)
    \<and> pg_deck g' d = (\<lambda>(c, rel). view_of c rel) ` set (zip cs (map (card_rel_path d \<circ> fst) files)) \<union> pg_deck g d
    \<and> (\<forall>j. j \<noteq> d \<longrightarrow> pg_deck g' j = pg_deck g j)
    \<and> dt_dirs g' = AList.update d files (dt_dirs g)
    \<and> (provided \<longrightarrow> deck_status_of g d = Some Deck_generating)"
proof -
  let ?xs = "zip cs (map (card_rel_path d \<circ> fst) files)"
  from assms obtain g1 g2 where c: "claim_deck e d provided region inp g = (Inr (), g1)"
      and ins: "insert_cards e d ?xs g1 = (Inr (), g2)"
      and f: "pe_fault e At_rename = None" "pe_fault e At_finish = None"
      and g': "g' = snd (promote_deck e d final m (g2\<lparr>dt_dirs := AList.update d files (dt_dirs g2)\<rparr>))"
    by (auto simp: publish_txn_def bind_act_def failing_cases promote_deck_def split: prod.splits sum.splits option.splits)
  let ?g3 = "g2\<lparr>dt_dirs := AList.update d files (dt_dirs g2)\<rparr>"
  obtain res where p: "promote_deck e d final m ?g3 = (res, g')" using g' by (metis prod.collapse)
  note cs = claim_deck_spec [OF c] and ifr = insert_cards_frame [OF ins] and ps = promote_deck_spec [OF p]
  have same: "pg_deck g1 = pg_deck g" using cs by (simp add: pg_deck_def fun_eq_iff)
  have st: "deck_status_of g2 j = deck_status_of g1 j" for j using ifr by (simp add: deck_status_of_def)
  have "pg_deck g' j = pg_deck g2 j" for j using ps by (simp add: pg_deck_def)
  then have deck: "pg_deck g' j = (if j = d then (\<lambda>(c, rel). view_of c rel) ` set ?xs \<union> pg_deck g d else pg_deck g j)" for j
    using insert_cards_deck [OF ins] same by simp
  have "deck_status_of g2 d = Some Deck_generating" using st [of d] cs by simp
  then have "deck_status_of g' d = Some final" using ps by simp
  moreover have "deck_status_of g' j = deck_status_of g j" if "j \<noteq> d" for j
  proof -
    have "deck_status_of g1 j = deck_status_of g j" using cs that by (simp add: deck_status_of_def)
    then show ?thesis using ps st [of j] that by simp
  qed
  moreover have "dt_dirs g' = AList.update d files (dt_dirs g)" using ps ifr cs by simp
  ultimately show ?thesis using deck cs by simp
qed

lemma insert_failed_spec:
  assumes "insert_failed e d region inp reason g = (res, g')"
  shows "dt_cards g' = dt_cards g \<and> dt_dirs g' = dt_dirs g
    \<and> (\<forall>j. deck_status_of g' j = (if j = d \<and> res = Inr () then Some Deck_failed else deck_status_of g j))"
  using assms
  by (auto simp: insert_failed_def bind_act_def failing_cases deck_status_of_def split: option.splits)

lemma pg_publish_done:
  assumes "pg_publish type_name e fresh i region cs final inp m g = (Inr r, g')"
  shows "final_status_ok final \<and> pb_deck r = (case i of None \<Rightarrow> fresh | Some d \<Rightarrow> d) \<and> pb_status r = final
    \<and> pb_card_ids r = map (uuid_str \<circ> cr_id) cs \<and> map_of (dt_dirs g) (pb_deck r) = None
    \<and> (\<exists>files. stage_images cs = Inr files \<and> pb_paths r = map (card_rel_path (pb_deck r) \<circ> fst) files
        \<and> publish_txn e (pb_deck r) (i \<noteq> None) region cs files final inp m g = (Inr (), g'))"
  using assms
  by (auto simp: pg_publish_def Let_def atomic_def split: if_splits sum.splits option.splits prod.splits)

text \<open>A publication that raises leaves no card and no file, and marks the deck failed if it can.\<close>

lemma pg_publish_failed:
  assumes "pg_publish type_name e fresh i region cs final inp m g = (Inl err, g')"
    and d: "d = (case i of None \<Rightarrow> fresh | Some j \<Rightarrow> j)"
  shows "dt_cards g' = dt_cards g \<and> dt_dirs g' = dt_dirs g \<and> (\<forall>j. j \<noteq> d \<longrightarrow> deck_status_of g' j = deck_status_of g j)
    \<and> (deck_status_of g' d = deck_status_of g d \<or> deck_status_of g' d = Some Deck_failed)
    \<and> (final_status_ok final \<longrightarrow> pe_fault e At_mark = None \<longrightarrow> i \<noteq> None \<longrightarrow>
         deck_status_of g d = Some Deck_generating \<longrightarrow> deck_status_of g' d = Some Deck_failed)"
proof -
  let ?reason = "publication_failed type_name err"
  have "g' = g \<and> (i = None \<or> \<not> final_status_ok final)
      \<or> (\<exists>res. pg_mark_failed e d ?reason g = (res, g')) \<and> i \<noteq> None
      \<or> (\<exists>res. insert_failed e d region inp ?reason g = (res, g')) \<and> i = None"
    using assms(1) unfolding pg_publish_def Let_def d
    by (auto split: if_splits sum.splits option.splits prod.splits simp: prod_eq_iff)
  then consider (same) "g' = g" "i = None \<or> \<not> final_status_ok final"
    | (mark) res where "pg_mark_failed e d ?reason g = (res, g')"
    | (ins) res where "insert_failed e d region inp ?reason g = (res, g')" "i = None"
    by (elim disjE exE conjE) simp_all
  then show ?thesis
  proof cases
    case mark
    have "res = Inr ()" if "pe_fault e At_mark = None"
      using mark that by (auto simp: pg_mark_failed_def bind_act_def failing_cases)
    then show ?thesis using pg_mark_failed_spec [OF mark] by auto
  next
    case ins
    then show ?thesis using insert_failed_spec [OF ins(1)] by auto
  qed auto
qed

lemma stage_images_files:
  "stage_images cs = Inr files \<Longrightarrow> map snd files = map cr_image cs"
proof (induction cs arbitrary: files)
  case (Cons c cs)
  then show ?case by (auto split: sum.splits)
qed simp

lemma require_generating_Inl: "require_generating d g = Inl err \<Longrightarrow> deck_status_of g d \<noteq> Some Deck_generating"
  by (auto simp: require_generating_def deck_status_of_def split: option.splits if_splits)

lemma deck_status_of_Some: "deck_status_of g d = Some st \<longleftrightarrow> (\<exists>r. map_of (dt_decks g) d = Some r \<and> dk_status r = st)"
  by (auto simp: deck_status_of_def)

lemma make_dir_simps [simp]:
  "deck_status_of (make_dir d g) = deck_status_of g" "pg_deck (make_dir d g) = pg_deck g"
  "dt_decks (make_dir d g) = dt_decks g" "dt_cards (make_dir d g) = dt_cards g"
  by (simp_all add: make_dir_def)

lemma write_image_simps [simp]:
  "deck_status_of (write_image d f img g) = deck_status_of g" "pg_deck (write_image d f img g) = pg_deck g"
  "dt_decks (write_image d f img g) = dt_decks g" "dt_cards (write_image d f img g) = dt_cards g"
  by (simp_all add: write_image_def)

lemma set_metrics_simps [simp]:
  "deck_status_of (set_metrics d m g) = deck_status_of g" "pg_deck (set_metrics d m g) = pg_deck g"
proof -
  show "deck_status_of (set_metrics d m g) = deck_status_of g"
    by (rule ext) (auto simp: set_metrics_def deck_status_of_def split: option.split)
  show "pg_deck (set_metrics d m g) = pg_deck g"
    by (auto simp: set_metrics_def split: option.split)
qed

lemma pg_persist_card_spec:
  assumes "pg_persist_card e d c m g = (res, g')"
  shows "deck_status_of g' = deck_status_of g \<and>
    (case res of
       Inl err \<Rightarrow> pg_deck g' = pg_deck g
     | Inr path \<Rightarrow> (\<forall>j. j \<noteq> d \<longrightarrow> pg_deck g' j = pg_deck g j) \<and>
         pg_deck g' d = (if \<exists>v \<in> pg_deck g d. cv_concept v = Some (cr_concept c) then pg_deck g d
           else insert (view_of c path) (pg_deck g d)))"
proof (cases "image_file_extension (cr_image c)")
  case (Inr ext)
  let ?f = "card_filename c ext"
  show ?thesis
  proof (cases "existing_card d (cr_concept c) (make_dir d g)")
    case None
    then have "\<forall>v \<in> pg_deck g d. cv_concept v \<noteq> Some (cr_concept c)"
      using existing_card_iff [of d "cr_concept c" "make_dir d g"] by auto
    then show ?thesis
      using assms Inr None pg_deck_insert [of "write_image d ?f (cr_image c) (make_dir d g)" c]
      by (auto simp: pg_persist_card_def Let_def split: option.splits sum.splits if_splits)
  next
    case (Some old)
    then have "\<exists>v \<in> pg_deck g d. cv_concept v = Some (cr_concept c)"
      using existing_card_iff [of d "cr_concept c" "make_dir d g"] by auto
    then show ?thesis
      using assms Inr Some by (auto simp: pg_persist_card_def Let_def split: option.splits sum.splits prod.splits)
  qed
next
  case (Inl err)
  then have "res = Inl err" "g' = g" using assms by (simp_all add: pg_persist_card_def)
  then show ?thesis by simp
qed

lemma pg_update_state_spec:
  "pg_update_state e d inp m g = (res, g') \<Longrightarrow> deck_status_of g' = deck_status_of g \<and> pg_deck g' = pg_deck g"
proof -
  assume run: "pg_update_state e d inp m g = (res, g')"
  have "deck_status_of g' = deck_status_of g"
    using run by (intro ext) (auto simp: pg_update_state_def bind_act_def failing_cases deck_status_of_def
        split: if_splits option.splits)
  moreover have "pg_deck g' = pg_deck g"
    using run by (auto simp: pg_update_state_def bind_act_def failing_cases split: if_splits option.splits)
  ultimately show ?thesis by simp
qed

lemma pg_finalize_spec:
  assumes "pg_finalize e d decoy_map m final g = (res, g')"
  shows "case res of
      Inl err \<Rightarrow> g' = g
    | Inr r \<Rightarrow> final_status_ok final \<and> pb_status r = final \<and> deck_status_of g d = Some Deck_generating \<and>
        deck_status_of g' d = Some final \<and>
        (\<forall>j. j \<noteq> d \<longrightarrow> deck_status_of g' j = deck_status_of g j \<and> pg_deck g' j = pg_deck g j) \<and>
        pg_deck g' d = redecoy decoy_map ` pg_deck g d \<and> set (pb_card_ids r) = cv_id ` pg_deck g d"
proof (cases res)
  case (Inl err)
  then show ?thesis using assms
    by (auto simp: pg_finalize_def Let_def split: if_splits option.splits sum.splits)
next
  case (Inr r)
  let ?redo = "\<lambda>(i, c). (i, if ck_deck c = d then c\<lparr>ck_decoys := decoys_for decoy_map i\<rparr> else c)"
  let ?g1 = "g\<lparr>dt_cards := map ?redo (dt_cards g)\<rparr>"
  obtain r0 where req: "require_generating d g = Inr r0" and ok: "final_status_ok final"
      and g': "g' = snd (promote_deck e d final (case m of None \<Rightarrow> [] | Some x \<Rightarrow> x) ?g1)"
      and r: "pb_status r = final" "pb_card_ids r = map (uuid_str \<circ> fst) (deck_cards g d)"
  proof (cases "final_status_ok final \<and> pe_fault e At_connect = None \<and> pe_fault e At_finish = None")
    case True
    then show ?thesis using assms Inr that
      by (cases "require_generating d g") (auto simp: pg_finalize_def Let_def)
  next
    case False
    then show ?thesis using assms Inr by (auto simp: pg_finalize_def Let_def split: if_splits option.splits sum.splits)
  qed
  note ps = promote_deck_spec [OF prod.collapse [symmetric], of e d final "case m of None \<Rightarrow> [] | Some x \<Rightarrow> x" ?g1,
      folded g']
  have st: "deck_status_of g d = Some Deck_generating"
    using req by (auto simp: require_generating_iff deck_status_of_def)
  have sel: "{x \<in> set (dt_cards g'). ck_deck (snd x) = j} = ?redo ` {x \<in> set (dt_cards g). ck_deck (snd x) = j}" for j
    using ps image_filter [of "\<lambda>x. ck_deck (snd x) = j" ?redo "set (dt_cards g)"] by (simp split: prod.split)
  have "?redo ` {x \<in> set (dt_cards g). ck_deck (snd x) = j} = {x \<in> set (dt_cards g). ck_deck (snd x) = j}" if "j \<noteq> d" for j
    using that by (intro image_id_on) (auto split: prod.split)
  then have "pg_deck g' j = pg_deck g j" if "j \<noteq> d" for j using sel [of j] that by (simp add: pg_deck_def)
  moreover have "pg_deck g' d = redecoy decoy_map ` pg_deck g d"
    unfolding pg_deck_def sel [of d] image_image
    by (rule image_cong) (auto simp: row_view_def redecoy_def decoys_for_def split: prod.split)
  moreover have "set (pb_card_ids r) = cv_id ` pg_deck g d"
    by (auto simp: r pg_deck_cards row_view_def image_image split: prod.splits intro!: image_cong)
  moreover have "deck_status_of g' d = Some final" "\<And>j. j \<noteq> d \<Longrightarrow> deck_status_of g' j = deck_status_of g j"
    using ps st by auto
  ultimately show ?thesis using Inr ok r(1) st by simp
qed

interpretation pg_pub: deck_publisher "postgres_publisher type_name e" deck_status_of pg_deck
proof (unfold_locales, goal_cases)
  case (1 fresh i region cs final inp m s r s')
  then have run: "pg_publish type_name e fresh i region cs final inp m s = (Inr r, s')"
    by (simp add: postgres_publisher_def)
  then show ?case using pg_publish_done [OF run] publish_txn_done by blast
next
  case (2 d reason s res s')
  then have "pg_mark_failed e d reason s = (res, s')" by (simp add: postgres_publisher_def)
  from pg_mark_failed_spec [OF this] show ?case by (auto simp: pg_deck_def fun_eq_iff)
next
  case (3 d inp m s res s')
  then have "pg_update_state e d inp m s = (res, s')" by (simp add: postgres_publisher_def)
  from pg_update_state_spec [OF this] show ?case by simp
next
  case (4 d c m s path s')
  then have "pg_persist_card e d c m s = (Inr path, s')" by (simp add: postgres_publisher_def)
  from pg_persist_card_spec [OF this] show ?case by simp
next
  case (5 d c m s err s')
  then have "pg_persist_card e d c m s = (Inl err, s')" by (simp add: postgres_publisher_def)
  from pg_persist_card_spec [OF this] show ?case by simp
next
  case (6 d decoy_map m final s r s')
  then have "pg_finalize e d decoy_map m final s = (Inr r, s')" by (simp add: postgres_publisher_def)
  from pg_finalize_spec [OF this] show ?case by simp
next
  case (7 d decoy_map m final s err s')
  then have "pg_finalize e d decoy_map m final s = (Inl err, s')" by (simp add: postgres_publisher_def)
  from pg_finalize_spec [OF this] show ?case by simp
qed

section \<open>In memory\<close>

definition mem_status :: "mem_pub \<Rightarrow> uuid \<Rightarrow> deck_status option" where
  "mem_status s d = map_of (mp_statuses s) d"

definition mem_deck_set :: "mem_pub \<Rightarrow> uuid \<Rightarrow> card_view set" where
  "mem_deck_set s d = set (mem_deck d s)"

lemma mem_deck_cong: "mp_cards s' = mp_cards s \<Longrightarrow> mem_deck_set s' = mem_deck_set s"
  by (simp add: mem_deck_set_def mem_deck_def fun_eq_iff)

lemma mem_finish_simps [simp]:
  "mp_cards (mem_finish d final s) = mp_cards s"
  "mp_statuses (mem_finish d final s) = AList.update d final (mp_statuses s)"
  by (simp_all add: mem_finish_def Let_def)

lemma mem_update_state_simps:
  "mp_cards (snd (mem_update_state d inp m s)) = mp_cards s"
  "j \<noteq> d \<or> map_of (mp_statuses s) d \<noteq> None \<Longrightarrow>
     map_of (mp_statuses (snd (mem_update_state d inp m s))) j = map_of (mp_statuses s) j"
  by (auto simp: mem_update_state_def Let_def)

lemma mem_deck_upd:
  "mp_cards s' = AList.update d cs (mp_cards s) \<Longrightarrow> mem_deck_set s' j = (if j = d then set cs else mem_deck_set s j)"
  by (simp add: mem_deck_set_def mem_deck_def)

lemma mem_status_upd:
  "mp_statuses s' = AList.update d st (mp_statuses s) \<Longrightarrow> mem_status s' j = (if j = d then Some st else mem_status s j)"
  by (simp add: mem_status_def)

lemma mem_existing_iff:
  "first_of (filter (\<lambda>v. cv_concept v = Some x) (mem_deck d s)) = None \<longleftrightarrow>
     (\<forall>v \<in> mem_deck_set s d. cv_concept v \<noteq> Some x)"
  by (auto simp: mem_deck_set_def filter_empty_conv)

text \<open>What follows the card in \<open>persist_card\<close>: the metrics, then the status.\<close>

definition mem_touch :: "uuid \<Rightarrow> (string \<times> json) list option \<Rightarrow> mem_pub \<Rightarrow> mem_pub" where
  "mem_touch d m s = (let s1 = (if m = None then s else snd (mem_update_state d None m s))
     in s1\<lparr>mp_statuses := AList.update d Deck_generating (mp_statuses s1)\<rparr>)"

lemma mem_touch_simps:
  "mem_deck_set (mem_touch d m s) = mem_deck_set s"
  "mem_status (mem_touch d m s) j = (if j = d then Some Deck_generating else mem_status s j)"
  by (auto simp: mem_touch_def Let_def mem_status_def mem_update_state_simps intro!: mem_deck_cong)

lemma mem_persist_card_touch:
  "mem_persist_card d c m s =
     (let s0 = s\<lparr>mp_cards := AList.update d (mem_deck d s) (mp_cards s)\<rparr>
      in case first_of (filter (\<lambda>v. cv_concept v = Some (cr_concept c)) (mem_deck d s)) of
           Some old \<Rightarrow> (Inr (cv_path old), mem_touch d m s0)
         | None \<Rightarrow>
             (case image_file_extension (cr_image c) of
                Inl err \<Rightarrow> (Inl err, s0)
              | Inr ext \<Rightarrow>
                  let path = card_rel_path d (card_filename c ext) in
                  (Inr path, mem_touch d m (s0\<lparr>mp_cards :=
                     AList.update d (mem_deck d s @ [view_of c path]) (mp_cards s0)\<rparr>))))"
  by (cases m) (simp_all add: mem_persist_card_def mem_touch_def Let_def view_of_def split: option.split sum.split)

lemma mem_persist_card_spec:
  assumes "mem_persist_card d c m s = (res, s')"
  shows "(\<forall>j. j \<noteq> d \<longrightarrow> mem_status s' j = mem_status s j \<and> mem_deck_set s' j = mem_deck_set s j) \<and>
    (case res of
       Inl err \<Rightarrow> mem_status s' d = mem_status s d \<and> mem_deck_set s' d = mem_deck_set s d
     | Inr path \<Rightarrow> mem_status s' d = Some Deck_generating \<and>
         mem_deck_set s' d = (if \<exists>v \<in> mem_deck_set s d. cv_concept v = Some (cr_concept c) then mem_deck_set s d
           else insert (view_of c path) (mem_deck_set s d)))"
proof -
  let ?s0 = "s\<lparr>mp_cards := AList.update d (mem_deck d s) (mp_cards s)\<rparr>"
  have s0: "mem_deck_set ?s0 j = mem_deck_set s j" "mem_status ?s0 j = mem_status s j" for j
    using mem_deck_upd [of ?s0 d "mem_deck d s" s j] by (simp_all add: mem_deck_set_def mem_status_def)
  show ?thesis
  proof (cases "first_of (filter (\<lambda>v. cv_concept v = Some (cr_concept c)) (mem_deck d s))")
    case None
    then have new: "\<not> (\<exists>v \<in> mem_deck_set s d. cv_concept v = Some (cr_concept c))" using mem_existing_iff by fastforce
    show ?thesis
    proof (cases "image_file_extension (cr_image c)")
      case (Inl err)
      then have "res = Inl err" "s' = ?s0" using assms None by (simp_all add: mem_persist_card_touch Let_def)
      then show ?thesis using s0 by simp
    next
      case (Inr ext)
      let ?path = "card_rel_path d (card_filename c ext)"
      let ?s1 = "?s0\<lparr>mp_cards := AList.update d (mem_deck d s @ [view_of c ?path]) (mp_cards ?s0)\<rparr>"
      have s1: "mem_deck_set ?s1 j = (if j = d then insert (view_of c ?path) (mem_deck_set s d) else mem_deck_set s j)"
        "mem_status ?s1 j = mem_status s j" for j
        using mem_deck_upd [of ?s1 d "mem_deck d s @ [view_of c ?path]" ?s0] s0 by (simp_all add: mem_deck_set_def mem_status_def)
      have "res = Inr ?path" "s' = mem_touch d m ?s1" using assms None Inr by (simp_all add: mem_persist_card_touch Let_def)
      then show ?thesis using s1 new by (simp add: mem_touch_simps)
    qed
  next
    case (Some old)
    then have "\<exists>v \<in> mem_deck_set s d. cv_concept v = Some (cr_concept c)"
      using mem_existing_iff [of "cr_concept c" d s] by auto
    moreover have "res = Inr (cv_path old)" "s' = mem_touch d m ?s0"
      using assms Some by (simp_all add: mem_persist_card_touch Let_def)
    ultimately show ?thesis using s0 by (simp add: mem_touch_simps)
  qed
qed

lemma mem_finalize_spec:
  assumes "mem_finalize d decoy_map m final s = (Inr r, s')"
  shows "final_status_ok final \<and> pb_status r = final \<and> mem_status s' d = Some final \<and>
    (\<forall>j. j \<noteq> d \<longrightarrow> mem_status s' j = mem_status s j \<and> mem_deck_set s' j = mem_deck_set s j) \<and>
    mem_deck_set s' d = redecoy decoy_map ` mem_deck_set s d \<and> set (pb_card_ids r) = cv_id ` mem_deck_set s d"
proof -
  have ok: "final_status_ok final" using assms by (auto simp: mem_finalize_def split: if_splits)
  have r: "pb_status r = final" "pb_card_ids r = map (cv_id \<circ> redecoy decoy_map) (mem_deck d s)"
    using assms ok by (auto simp: mem_finalize_def Let_def)
  have "mp_cards s' = AList.update d (map (redecoy decoy_map) (mem_deck d s)) (mp_cards s)"
    using assms ok by (auto simp: mem_finalize_def Let_def mem_update_state_simps)
  note deck = mem_deck_upd [OF this]
  have "mem_status s' j = (if j = d then Some final else mem_status s j)" for j
    using assms ok by (auto simp: mem_finalize_def Let_def mem_status_def mem_update_state_simps)
  moreover have "cv_id ` redecoy decoy_map ` mem_deck_set s d = cv_id ` mem_deck_set s d"
    by (simp add: image_image redecoy_def)
  ultimately show ?thesis using ok r deck by (simp add: mem_deck_set_def image_comp)
qed

interpretation mem_pub: deck_publisher memory_publisher mem_status mem_deck_set
proof (unfold_locales, goal_cases)
  case (1 fresh i region cs final inp m s r s')
  then show ?case
    by (auto simp: memory_publisher_def mem_publish_def Let_def mem_status_def split: if_splits sum.splits)
next
  case (2 d reason s res s')
  then show ?case
    by (auto simp: memory_publisher_def mem_mark_failed_def mem_status_def mem_deck_set_def mem_deck_def)
next
  case (3 d inp m s res s')
  then have s': "s' = snd (mem_update_state d inp m s)" by (simp add: memory_publisher_def)
  then show ?case using 3(2) mem_deck_cong [of s' s]
    by (auto simp: mem_status_def mem_update_state_simps fun_eq_iff)
next
  case (4 d c m s path s')
  then have "mem_persist_card d c m s = (Inr path, s')" by (simp add: memory_publisher_def)
  note spec = mem_persist_card_spec [OF this]
  have "mem_status s' j = mem_status s j" for j using spec 4(2) by (cases "j = d") simp_all
  then show ?case using spec by (simp add: fun_eq_iff)
next
  case (5 d c m s err s')
  then have "mem_persist_card d c m s = (Inl err, s')" by (simp add: memory_publisher_def)
  note spec = mem_persist_card_spec [OF this]
  have "mem_status s' j = mem_status s j \<and> mem_deck_set s' j = mem_deck_set s j" for j
    using spec by (cases "j = d") simp_all
  then show ?case by (simp add: fun_eq_iff)
next
  case (6 d decoy_map m final s r s')
  then have "mem_finalize d decoy_map m final s = (Inr r, s')" by (simp add: memory_publisher_def)
  from mem_finalize_spec [OF this] show ?case by simp
next
  case (7 d decoy_map m final s err s')
  then show ?case
    by (auto simp: memory_publisher_def mem_finalize_def Let_def split: if_splits)
qed

end
