(* ===== verification/Deck_Gen_Laws.thy ===== *)
theory Deck_Gen_Laws
  imports Deck_Gen Deck_Publish_Laws
begin

text \<open>
  What the pipeline guarantees: accepted images were verified within the retry budget, decoys are
  other cards of the same deck, and, over any publisher, a progressive run leaves either a complete
  deck in its final status or one that is still not playable.
\<close>

section \<open>Images\<close>

definition image_accepted :: "gen_client \<Rightarrow> concept \<Rightarrow> bytes \<Rightarrow> bool" where
  "image_accepted cl c img \<longleftrightarrow> (\<exists>k prompt verdict. gc_image cl (co_id c) k prompt = Inr img
     \<and> gc_verify cl (co_id c) k img = Inr (JObj verdict) \<and> verification_accepted verdict)"

lemma verified_image_spec:
  "verified_image py_str pt cl c region attempt left strengthen why m = (res, m') \<Longrightarrow>
     (case res of
        Inr img \<Rightarrow> image_accepted cl c img \<and> (\<exists>k < left. images_attempted m' = images_attempted m + k + 1
          \<and> images_accepted m' = images_accepted m + 1 \<and> images_rejected m' = images_rejected m + k
          \<and> flash_calls m' = flash_calls m + k + 1)
      | Inl err \<Rightarrow> images_accepted m' = images_accepted m \<and> images_attempted m' \<le> images_attempted m + left
          \<and> images_rejected m' + images_attempted m \<le> images_attempted m' + images_rejected m)"
proof (induction left arbitrary: attempt strengthen why m)
  case 0
  then show ?case by auto
next
  case (Suc left)
  show ?case
  proof (cases "gc_image cl (co_id c) attempt (format_image_prompt pt c region strengthen)")
    case (Inl err)
    then have "res = Inl err" "m' = m" using Suc.prems by simp_all
    then show ?thesis by simp
  next
    case (Inr img)
    note image = Inr
    let ?m1 = "record_image_attempt m"
    show ?thesis
    proof (cases "try_in (label_en (co_labels c)) (\<lambda>_. gc_verify cl (co_id c) attempt img)")
      case (Inl err)
      then have "res = Inl err" "m' = ?m1" using Suc.prems image by (simp_all add: Let_def)
      then show ?thesis by (simp add: record_defs)
    next
      case (Inr answer)
      then have verify: "gc_verify cl (co_id c) attempt img = Inr answer" by (auto split: sum.splits)
      show ?thesis
      proof (cases "\<exists>verdict. answer = JObj verdict")
        case True
        then obtain verdict where answer: "answer = JObj verdict" by blast
        show ?thesis
        proof (cases "verification_accepted verdict")
          case True
          then have "image_accepted cl c img" using image verify answer unfolding image_accepted_def by blast
          moreover have "res = Inr img" "m' = record_accept (record_flash_call ?m1)"
            using Suc.prems image Inr answer True by (simp_all add: Let_def)
          ultimately show ?thesis by (simp add: record_defs)
        next
          case False
          let ?m2 = "record_reject (record_flash_call ?m1)"
          have "verified_image py_str pt cl c region (attempt + 1) left True (reject_reason py_str verdict) ?m2 = (res, m')"
            using Suc.prems image Inr answer False by (simp add: Let_def)
          from Suc.IH [OF this] show ?thesis
          proof (cases res)
            case (Inr img')
            with Suc.IH [OF \<open>verified_image _ _ _ _ _ _ _ _ _ ?m2 = _\<close>] obtain k where
              "image_accepted cl c img'" "k < left" "images_attempted m' = images_attempted m + (k + 1) + 1"
              "images_accepted m' = images_accepted m + 1" "images_rejected m' = images_rejected m + (k + 1)"
              "flash_calls m' = flash_calls m + (k + 1) + 1" by (auto simp: record_defs)
            then show ?thesis using Inr by (auto intro!: exI [of _ "k + 1"])
          qed (auto simp: record_defs)
        qed
      next
        case False
        then have "res = Inl (TypeError ''verify_image expected dict'')" "m' = record_flash_call ?m1"
          using Suc.prems image Inr by (cases answer; simp add: Let_def)+
        then show ?thesis by (simp add: record_defs)
      qed
    qed
  qed
qed

lemma generate_verified_image_spec:
  assumes "generate_verified_image py_str pt cl c region retries m = (Inr img, m')"
  shows "image_accepted cl c img \<and> (\<exists>k \<le> retries. images_attempted m' = images_attempted m + k + 1
    \<and> images_accepted m' = images_accepted m + 1 \<and> images_rejected m' = images_rejected m + k
    \<and> flash_calls m' = flash_calls m + k + 1)"
  using verified_image_spec [OF assms [unfolded generate_verified_image_def]] by (auto simp: less_Suc_eq_le)

section \<open>Decoys\<close>

lemma map_of_fold_update:
  "map_of (fold (\<lambda>b m. AList.update (f b) (g b) m) bs m0) k =
     (case List.find (\<lambda>b. f b = k) (rev bs) of Some b \<Rightarrow> Some (g b) | None \<Rightarrow> map_of m0 k)"
proof (induction bs arbitrary: m0 rule: rev_induct)
  case (snoc b bs)
  then show ?case by (simp split: option.split)
qed simp

lemma find_distinct:
  "distinct (map f bs) \<Longrightarrow> b \<in> set bs \<Longrightarrow> List.find (\<lambda>x. f x = f b) (rev bs) = Some b"
proof (induction bs rule: rev_induct)
  case (snoc x bs)
  show ?case
  proof (cases "b = x")
    case False
    then have "f x \<noteq> f b" using snoc.prems by (auto simp: image_iff)
    then show ?thesis using snoc False by auto
  qed simp
qed simp

lemma map_of_fold_distinct:
  "distinct (map f bs) \<Longrightarrow> b \<in> set bs \<Longrightarrow> map_of (fold (\<lambda>b m. AList.update (f b) (g b) m) bs []) (f b) = Some (g b)"
  by (simp add: map_of_fold_update find_distinct)

lemma map_of_fold_Some:
  "map_of (fold (\<lambda>b m. AList.update (f b) (g b) m) bs []) k = Some v \<Longrightarrow> \<exists>b \<in> set bs. f b = k \<and> v = g b"
  by (auto simp: map_of_fold_update dest!: find_SomeD split: option.splits)

text \<open>The strings of the cards of a deck and of their concepts.\<close>

definition card_str :: "built_card \<Rightarrow> string" where
  "card_str b = uuid_str (bc_id b)"

definition concept_str :: "built_card \<Rightarrow> string" where
  "concept_str b = co_id (bc_concept b)"

definition decoys_ok :: "nat \<Rightarrow> built_card list \<Rightarrow> built_card \<Rightarrow> string list \<Rightarrow> bool" where
  "decoys_ok n built b ds \<longleftrightarrow> length ds = n \<and> distinct ds \<and> set ds \<subseteq> concept_str ` set built - {concept_str b}"

lemma decoy_row_Inr:
  assumes "decoy_row py_str n built row = Inr (i, ds)"
  shows "\<exists>b \<in> set built. card_str b = i \<and> decoys_ok n built b ds"
proof -
  from assms obtain v where v: "item_of row ''card_id'' = Inr v"
    by (auto simp: decoy_row_def split: sum.splits)
  with assms obtain own where own: "map_of (concept_of_card built) (text_of py_str v) = Some own"
    by (cases "map_of (concept_of_card built) (text_of py_str v)") (simp_all add: decoy_row_def Let_def)
  with assms v obtain raw es where raw: "item_of row ''decoy_concept_ids'' = Inr raw" "str_list py_str raw = Inr es"
    by (cases "item_of row ''decoy_concept_ids''"; cases "str_list py_str (projr (item_of row ''decoy_concept_ids''))")
      (simp_all add: decoy_row_def Let_def)
  with assms v own have own: "map_of (concept_of_card built) i = Some own"
      and ds: "length ds = n" "own \<notin> set ds" "set ds \<subseteq> concept_str ` set built" "distinct ds"
    by (simp_all add: decoy_row_def Let_def concept_str_def split: if_splits)
  obtain b where "b \<in> set built" "uuid_str (bc_id b) = i" "own = co_id (bc_concept b)"
    using map_of_fold_Some [OF own [unfolded concept_of_card_def]] by blast
  then show ?thesis using ds by (auto simp: card_str_def concept_str_def decoys_ok_def intro!: bexI [of _ b])
qed

lemma decoy_rows_Inr:
  "decoy_rows py_str n built rows mapping = Inr mapping' \<Longrightarrow>
     (\<forall>i ds. map_of mapping i = Some ds \<longrightarrow> (\<exists>b \<in> set built. card_str b = i \<and> decoys_ok n built b ds)) \<Longrightarrow>
     (\<forall>i ds. map_of mapping' i = Some ds \<longrightarrow> (\<exists>b \<in> set built. card_str b = i \<and> decoys_ok n built b ds))"
proof (induction rows arbitrary: mapping)
  case (Cons row rows)
  from Cons.prems(1) obtain i ds where row: "decoy_row py_str n built row = Inr (i, ds)"
      and rest: "decoy_rows py_str n built rows (AList.update i ds mapping) = Inr mapping'"
    by (cases "decoy_row py_str n built row") auto
  show ?case
  proof (rule Cons.IH [OF rest])
    show "\<forall>j es. map_of (AList.update i ds mapping) j = Some es \<longrightarrow> (\<exists>b \<in> set built. card_str b = j \<and> decoys_ok n built b es)"
      using Cons.prems(2) decoy_row_Inr [OF row] by simp
  qed
qed simp

lemma check_decoys_Inr:
  assumes "check_decoys py_str n built raw = Inr mapping" and "distinct (map card_str built)" and "b \<in> set built"
  shows "\<exists>ds. map_of mapping (card_str b) = Some ds \<and> decoys_ok n built b ds"
proof -
  from assms(1) obtain rows where rows: "decoy_rows py_str n built rows [] = Inr mapping"
      and all: "card_str ` set built \<subseteq> set (keys mapping)"
    by (auto simp: check_decoys_def card_str_def split: json.splits sum.splits if_splits)
  then have "card_str b \<in> fst ` set mapping" using assms(3) by auto
  then obtain ds where ds: "map_of mapping (card_str b) = Some ds"
    by (cases "map_of mapping (card_str b)") (auto simp: map_of_eq_None_iff)
  then obtain b' where "b' \<in> set built" "card_str b' = card_str b" "decoys_ok n built b' ds"
    using decoy_rows_Inr [OF rows] by fastforce
  moreover have "b' = b" using calculation assms(2,3) by (auto simp: distinct_map inj_on_def)
  ultimately show ?thesis using ds by blast
qed

text \<open>Decoys of a published card: other cards of the deck, each once.\<close>

definition decoy_cards_ok :: "nat \<Rightarrow> built_card list \<Rightarrow> built_card \<Rightarrow> string list \<Rightarrow> bool" where
  "decoy_cards_ok n built b ss \<longleftrightarrow> length ss = n \<and> distinct ss \<and> set ss \<subseteq> card_str ` set built - {card_str b}"

lemma map_err_Inr: "map_err f xs = Inr ys \<longleftrightarrow> list_all2 (\<lambda>x y. f x = Inr y) xs ys"
proof (induction xs arbitrary: ys)
  case (Cons x xs)
  then show ?case by (cases "f x"; cases "map_err f xs") (auto simp: list_all2_Cons1)
qed auto

lemma card_of_concept_Some:
  "map_of (card_of_concept built) x = Some s \<Longrightarrow> \<exists>b \<in> set built. concept_str b = x \<and> card_str b = s"
  unfolding card_of_concept_def using map_of_fold_Some [where f = "\<lambda>b. co_id (bc_concept b)"]
  by (fastforce simp: concept_str_def card_str_def)

lemma map_of_map_err:
  "map_err (\<lambda>(i, ds). try_in (g ds) (\<lambda>ss. Inr (i, ss))) by_card = Inr uuids \<Longrightarrow> map_of by_card k = Some ds \<Longrightarrow>
     \<exists>ss. map_of uuids k = Some ss \<and> g ds = Inr ss"
proof (induction by_card arbitrary: uuids)
  case (Cons row by_card)
  obtain i es where row: "row = (i, es)" by (cases row)
  from Cons.prems(1) row obtain ss us where "g es = Inr ss" "uuids = (i, ss) # us"
      "map_err (\<lambda>(i, ds). try_in (g ds) (\<lambda>ss. Inr (i, ss))) by_card = Inr us"
    by (cases "g es"; cases "map_err (\<lambda>(i, ds). try_in (g ds) (\<lambda>ss. Inr (i, ss))) by_card") auto
  then show ?case using Cons.IH Cons.prems(2) row by (cases "i = k") auto
qed simp

lemma list_all2_cards:
  assumes "list_all2 (\<lambda>x s. \<exists>b \<in> S. f b = x \<and> h b = s) ds ss" and "inj_on h S"
  shows "length ss = length ds \<and> (distinct ds \<longrightarrow> distinct ss) \<and> (\<forall>s \<in> set ss. \<exists>b \<in> S. f b \<in> set ds \<and> h b = s)"
  using assms(1)
proof (induction rule: list_all2_induct)
  case (Cons x xs y ys)
  then obtain b where b: "b \<in> S" "f b = x" "h b = y" by blast
  have "y \<notin> set ys" if "x \<notin> set xs"
  proof
    assume "y \<in> set ys"
    then obtain b' where "b' \<in> S" "f b' \<in> set xs" "h b' = y" using Cons by blast
    then show False using assms(2) b that by (auto simp: inj_on_def)
  qed
  then show ?case using Cons b by auto
qed simp

lemma decoy_uuids:
  assumes m: "map_decoy_concepts_to_card_uuids built by_card = Inr uuids"
    and ds: "map_of by_card (card_str b) = Some ds" "decoys_ok n built b ds"
    and cards: "distinct (map card_str built)" and concepts: "distinct (map concept_str built)" and b: "b \<in> set built"
  shows "\<exists>ss. map_of uuids (card_str b) = Some ss \<and> decoy_cards_ok n built b ss"
proof -
  let ?g = "map_err (\<lambda>x. case map_of (card_of_concept built) x of None \<Rightarrow> Inl KeyError | Some s \<Rightarrow> Inr s)"
  obtain ss where ss: "map_of uuids (card_str b) = Some ss" "?g ds = Inr ss"
    using map_of_map_err [OF m [unfolded map_decoy_concepts_to_card_uuids_def] ds(1)] by blast
  have "list_all2 (\<lambda>x s. \<exists>b \<in> set built. concept_str b = x \<and> card_str b = s) ds ss"
    using ss(2) unfolding map_err_Inr
    by (rule list_all2_mono) (auto dest: card_of_concept_Some split: option.splits)
  note all = list_all2_cards [OF this, OF cards [unfolded distinct_map, THEN conjunct2]]
  have "card_str b \<notin> set ss"
  proof
    assume "card_str b \<in> set ss"
    then obtain b' where b': "b' \<in> set built" "concept_str b' \<in> set ds" "card_str b' = card_str b" using all by blast
    then have "b' = b" using cards b by (auto simp: distinct_map inj_on_def)
    then show False using b' ds(2) by (auto simp: decoys_ok_def)
  qed
  then show ?thesis using ss all ds(2) unfolding decoy_cards_ok_def decoys_ok_def by fastforce
qed

section \<open>Labels\<close>

definition all_english :: "label_table \<Rightarrow> bool" where
  "all_english t \<longleftrightarrow> (\<forall>k labels. map_of t k = Some labels \<longrightarrow> map_of labels ''en'' \<noteq> None)"

lemma all_english_update:
  "all_english t \<Longrightarrow> map_of labels ''en'' \<noteq> None \<Longrightarrow> all_english (AList.update k labels t)"
  by (auto simp: all_english_def update_conv')

lemma translate_row_english:
  assumes "translate_row py_str row t = Inr t'" and "all_english t"
  shows "all_english t' \<and> (\<forall>k. map_of t k \<noteq> None \<longrightarrow> map_of t' k \<noteq> None)"
proof -
  from assms(1) obtain i raw d where 1: "item_of row ''id'' = Inr i" "item_of row ''labels'' = Inr raw" "dict_of py_str raw = Inr d"
    unfolding translate_row_def try_in_Inr by blast
  let ?labels = "str_dict py_str d" and ?k = "text_of py_str i"
  obtain labels where "t' = AList.update ?k labels t" "map_of labels ''en'' \<noteq> None"
  proof (cases "map_of ?labels ''en''")
    case (Some v)
    then show ?thesis using assms(1) 1 that [of ?labels] by (simp add: translate_row_def Let_def)
  next
    case None
    then obtain old e where "map_of t ?k = Some old" "label_en old = Inr e" "t' = AList.update ?k (?labels @ [(''en'', e)]) t"
      using assms(1) 1
      by (cases "map_of t ?k"; cases "label_en (the (map_of t ?k))") (simp_all add: translate_row_def Let_def)
    then show ?thesis using that [of "?labels @ [(''en'', e)]"] by (simp add: map_add_def split: option.split)
  qed
  then show ?thesis using assms(2) all_english_update by (simp add: update_conv')
qed

lemma translate_rows_english:
  "translate_rows py_str rows t = Inr t' \<Longrightarrow> all_english t \<Longrightarrow>
     all_english t' \<and> (\<forall>k. map_of t k \<noteq> None \<longrightarrow> map_of t' k \<noteq> None)"
proof (induction rows arbitrary: t)
  case (Cons row rows)
  from Cons.prems(1) obtain t1 where row: "translate_row py_str row t = Inr t1" and rest: "translate_rows py_str rows t1 = Inr t'"
    by (cases "translate_row py_str row t") auto
  from translate_row_english [OF row Cons.prems(2)] Cons.IH [OF rest] show ?case by blast
qed simp

lemma seed_labels_english:
  "list_all (\<lambda>c. map_of (co_labels c) ''en'' \<noteq> None) cs \<Longrightarrow>
     all_english (seed_labels cs) \<and> (\<forall>c \<in> set cs. map_of (seed_labels cs) (co_id c) \<noteq> None)"
proof (induction cs rule: rev_induct)
  case (snoc c cs)
  then show ?case by (auto simp: seed_labels_def all_english_update update_conv')
qed (simp add: seed_labels_def all_english_def)

text \<open>Every concept has a translated entry, and every entry an English label.\<close>

lemma translate_labels_batch_Inr:
  assumes "translate_labels_batch py_str cl cs m = (Inr t, m')"
  shows "all_english t \<and> (\<forall>c \<in> set cs. map_of t (co_id c) \<noteq> None) \<and> m' = record_flash_call m"
proof -
  let ?ask = "map_err (\<lambda>c. try_in (label_en (co_labels c)) (\<lambda>t. Inr (co_id c, t))) cs"
  obtain payload where p: "?ask = Inr payload"
    using assms by (cases ?ask) (simp_all add: translate_labels_batch_def)
  obtain raw where raw: "gc_translate cl payload = Inr raw"
    using assms p by (cases "gc_translate cl payload") (simp_all add: translate_labels_batch_def)
  obtain rows where rows: "translate_rows py_str rows (seed_labels cs) = Inr t" "m' = record_flash_call m"
    using assms p raw by (cases raw) (auto simp: translate_labels_batch_def)
  have "list_all2 (\<lambda>c y. \<exists>e. map_of (co_labels c) ''en'' = Some e) cs payload"
    using p unfolding map_err_Inr by (rule list_all2_mono) (auto simp: label_en_def split: option.splits)
  then have "list_all (\<lambda>c. map_of (co_labels c) ''en'' \<noteq> None) cs"
    by (induction rule: list_all2_induct) auto
  note seed = seed_labels_english [OF this]
  show ?thesis using translate_rows_english [OF rows(1)] seed rows(2) by blast
qed

section \<open>Sequencing\<close>

lemma bind_act_Inr: "bind_act m f s = (Inr y, s') \<longleftrightarrow> (\<exists>x s1. m s = (Inr x, s1) \<and> f x s1 = (Inr y, s'))"
  by (auto simp: bind_act_def split: prod.splits sum.splits)

lemma bind_act_Inl:
  "bind_act m f s = (Inl e, s') \<longleftrightarrow> m s = (Inl e, s') \<or> (\<exists>x s1. m s = (Inr x, s1) \<and> f x s1 = (Inl e, s'))"
  by (auto simp: bind_act_def split: prod.splits sum.splits)

lemma on_fst_eq: "on_fst f p = (r, p') \<longleftrightarrow> f (fst p) = (r, fst p') \<and> snd p' = snd p"
  by (cases p; cases p') (auto simp: on_fst_def split: prod.splits)

lemma on_snd_eq: "on_snd f p = (r, p') \<longleftrightarrow> f (snd p) = (r, snd p') \<and> fst p' = fst p"
  by (cases p; cases p') (auto simp: on_snd_def split: prod.splits)

lemma pure_err_eq [simp]: "pure_err x s = (r, s') \<longleftrightarrow> x = r \<and> s' = s"
  by (auto simp: pure_err_def)

lemma ret_eq [simp]: "ret x s = (r, s') \<longleftrightarrow> r = Inr x \<and> s' = s"
  by (auto simp: ret_def)

lemma gets_eq [simp]: "gets f s = (r, s') \<longleftrightarrow> r = Inr (f s) \<and> s' = s"
  by (auto simp: gets_def)

lemmas seq_eqs = bind_act_Inr bind_act_Inl on_fst_eq on_snd_eq

section \<open>Cards\<close>

definition card_sound :: "gen_env \<Rightarrow> label_table \<Rightarrow> built_card \<Rightarrow> bool" where
  "card_sound ge translated b \<longleftrightarrow> bc_id b = ge_card_id ge (co_id (bc_concept b))
     \<and> image_accepted (ge_client ge) (bc_concept b) (bc_image b)
     \<and> map_of translated (co_id (bc_concept b)) = Some (bc_labels b)"

text \<open>The counters agree: attempts are acceptances and rejections.\<close>

definition grew :: "nat \<Rightarrow> deck_metrics \<Rightarrow> deck_metrics \<Rightarrow> bool" where
  "grew n m m' \<longleftrightarrow> images_accepted m' = images_accepted m + n \<and> images_rejected m \<le> images_rejected m'
     \<and> images_attempted m' = images_attempted m + n + (images_rejected m' - images_rejected m)"

lemma build_card_Inr:
  assumes "build_card ge br ctx translated c m = (Inr b, m')"
  shows "bc_concept b = c \<and> card_sound ge translated b \<and> grew 1 m m'"
proof -
  let ?region = "case co_locale c of Some l \<Rightarrow> if l \<noteq> [] then l else ctx | None \<Rightarrow> ctx"
  let ?k = "map_of translated (co_id c)"
  obtain img where img: "generate_verified_image (ge_py_str ge) (ge_texts ge) (ge_client ge) c ?region (image_retries br) m = (Inr img, m')"
      and b: "?k \<noteq> None" "b = \<lparr> bc_id = ge_card_id ge (co_id c), bc_concept = c, bc_image = img,
        bc_labels = the ?k, bc_decoys = [] \<rparr>"
    using assms by (cases ?k) (auto simp: build_card_def bind_act_Inr throw_def)
  from generate_verified_image_spec [OF img] b show ?thesis by (auto simp: card_sound_def grew_def)
qed

lemma in_order_spec:
  assumes "distinct (map co_id cs)" and "distinct (map co_id (map bc_concept bs))" and "set (map bc_concept bs) = set cs"
  shows "map bc_concept (in_order cs bs) = cs \<and> set (in_order cs bs) = set bs"
proof -
  have found: "\<exists>b \<in> set bs. List.find (\<lambda>b. co_id (bc_concept b) = co_id c) bs = Some b \<and> bc_concept b = c" if "c \<in> set cs" for c
  proof -
    have "c \<in> bc_concept ` set bs" using that assms(3) by simp
    then obtain b where b: "b \<in> set bs" "bc_concept b = c" by blast
    then obtain b' where "List.find (\<lambda>b. co_id (bc_concept b) = co_id c) bs = Some b'"
      by (cases "List.find (\<lambda>b. co_id (bc_concept b) = co_id c) bs") (auto simp: find_None_iff)
    moreover from find_SomeD [OF this] have "b' \<in> set bs" "co_id (bc_concept b') = co_id c" by auto
    moreover from this have "bc_concept b' \<in> set cs" using assms(3) by auto
    then have "bc_concept b' = c" using that assms(1) calculation by (auto simp: distinct_map inj_on_def)
    ultimately show ?thesis by blast
  qed
  define g where "g c = the (List.find (\<lambda>b. co_id (bc_concept b) = co_id c) bs)" for c :: concept
  have g: "List.find (\<lambda>b. co_id (bc_concept b) = co_id c) bs = Some (g c) \<and> g c \<in> set bs \<and> bc_concept (g c) = c"
    if "c \<in> set cs" for c using found [OF that] by (auto simp: g_def)
  have "in_order ds bs = map g ds" if "set ds \<subseteq> set cs" for ds
    using that by (induction ds) (auto simp: in_order_def map_filter_simps g)
  then have order: "in_order cs bs = map g cs" by simp
  have "b \<in> g ` set cs" if "b \<in> set bs" for b
  proof -
    have "bc_concept b \<in> set cs" using that assms(3) by auto
    moreover from g [OF this] have "g (bc_concept b) = b"
      using that assms(2) by (auto simp: distinct_map inj_on_def)
    ultimately show ?thesis by force
  qed
  then show ?thesis using order g by (auto intro!: map_idI simp: comp_def)
qed

section \<open>Over any publisher\<close>

definition card_views :: "built_card list \<Rightarrow> string list \<Rightarrow> card_view set" where
  "card_views bs paths = (\<lambda>(b, p). view_of (record_of b []) p) ` set (zip bs paths)"

lemma card_views_Cons [simp]:
  "card_views [] paths = {}"
  "card_views (b # bs) (p # paths) = insert (view_of (record_of b []) p) (card_views bs paths)"
  by (simp_all add: card_views_def)

lemma cv_concept_record [simp]: "cv_concept (view_of (record_of b ds) p) = Some (concept_str b)"
  by (simp add: view_of_def record_of_def concept_str_def)

context deck_publisher
begin

abbreviation clean :: "'s \<Rightarrow> uuid \<Rightarrow> concept list \<Rightarrow> bool" where
  "clean s d cs \<equiv> status s d = Some Deck_generating \<and> (\<forall>v \<in> deck_of s d. cv_concept v \<notin> (Some \<circ> co_id) ` set cs)"

lemma persist_new:
  assumes "po_persist_card ops d (record_of b []) upd s = (Inr path, s')" and "status s d = Some Deck_generating"
    and "\<forall>v \<in> deck_of s d. cv_concept v \<noteq> Some (concept_str b)"
  shows "status s' = status s \<and> (\<forall>j. j \<noteq> d \<longrightarrow> deck_of s' j = deck_of s j) \<and>
    deck_of s' d = insert (view_of (record_of b []) path) (deck_of s d)"
  using persist_done [OF assms(1,2)] assms(3) by (auto simp: record_of_def concept_str_def)

text \<open>The tasks of a progressive run, in any order.\<close>

lemma build_cards_done:
  "build_cards ops ge br ctx translated target ready cs (m, s) = (Inr bs, (m', s')) \<Longrightarrow>
     br_deck br = Some d \<Longrightarrow> br_progressive br \<Longrightarrow> clean s d cs \<Longrightarrow> distinct (map co_id cs) \<Longrightarrow>
     status s' = status s \<and> map bc_concept bs = cs \<and> (\<forall>b \<in> set bs. card_sound ge translated b)
       \<and> grew (length cs) m m'
       \<and> (\<exists>paths. length paths = length bs \<and> deck_of s' d = card_views bs paths \<union> deck_of s d)"
proof (induction cs arbitrary: ready m s bs)
  case Nil
  then show ?case by (auto simp: grew_def)
next
  case (Cons c cs)
  let ?upd = "Some (progress_metrics (ge_round ge) (ge_counters ge (ready + 1)) (ge_elapsed ge (ready + 1))
    ''generating_images'' target (ready + 1))"
  from Cons.prems(1-3) obtain b m1 path s1 bs' where
      card: "build_card ge br ctx translated c m = (Inr b, m1)"
      and persist: "po_persist_card ops d (record_of b []) ?upd s = (Inr path, s1)"
      and rest: "build_cards ops ge br ctx translated target (ready + 1) cs (m1, s1) = (Inr bs', (m', s'))"
      and bs: "bs = b # bs'"
    by (auto simp: seq_eqs)
  note b = build_card_Inr [OF card]
  have new: "\<forall>v \<in> deck_of s d. cv_concept v \<noteq> Some (concept_str b)"
    using Cons.prems(4) b by (auto simp: concept_str_def)
  note p = persist_new [OF persist conjunct1 [OF Cons.prems(4)] new]
  have "clean s1 d cs" using p Cons.prems(4,5) b by (auto simp: concept_str_def)
  with Cons.IH [OF rest] Cons.prems(2,3,5) obtain paths where
      ih: "status s' = status s1" "map bc_concept bs' = cs" "\<forall>b \<in> set bs'. card_sound ge translated b"
        "grew (length cs) m1 m'" "length paths = length bs'" "deck_of s' d = card_views bs' paths \<union> deck_of s1 d"
    by auto
  have "grew (length (c # cs)) m m'" using b ih(4) by (auto simp: grew_def)
  moreover have "deck_of s' d = card_views bs (path # paths) \<union> deck_of s d" using ih(6) p bs by auto
  ultimately show ?case using ih b p bs by (auto intro!: exI [of _ "path # paths"])
qed

text \<open>Whether the run ends well or not, no status changes while cards are built.\<close>

lemma build_cards_status:
  "build_cards ops ge br ctx translated target ready cs (m, s) = (res, (m', s')) \<Longrightarrow>
     br_deck br = Some d \<Longrightarrow> status s d = Some Deck_generating \<Longrightarrow> status s' = status s"
proof (induction cs arbitrary: ready m s res)
  case (Cons c cs)
  obtain r1 m1 where card: "build_card ge br ctx translated c m = (r1, m1)" by force
  let ?upd = "Some (progress_metrics (ge_round ge) (ge_counters ge (ready + 1)) (ge_elapsed ge (ready + 1))
    ''generating_images'' target (ready + 1))"
  show ?case
  proof (cases r1)
    case (Inl err)
    then show ?thesis using Cons.prems(1) card by (simp add: bind_act_def on_fst_def)
  next
    case (Inr b)
    define r2 s1 where "r2 = fst (if br_progressive br then po_persist_card ops d (record_of b []) ?upd s else (Inr [], s))"
      and "s1 = snd (if br_progressive br then po_persist_card ops d (record_of b []) ?upd s else (Inr [], s))"
    have same: "status s1 = status s"
    proof (cases "br_progressive br")
      case True
      then have "po_persist_card ops d (record_of b []) ?upd s = (r2, s1)" by (simp add: r2_def s1_def)
      then show ?thesis using Cons.prems(3) persist_done persist_failed by (cases r2) auto
    qed (simp add: s1_def)
    consider "s' = s1" | res' where "build_cards ops ge br ctx translated target (ready + 1) cs (m1, s1) = (res', (m', s'))"
      using Cons.prems(1,2) card Inr
      by (auto simp: bind_act_def on_fst_def on_snd_def r2_def s1_def split: if_splits prod.splits sum.splits)
    then show ?thesis using Cons.IH Cons.prems(2,3) same by cases auto
  qed
qed simp

end

section \<open>The whole run\<close>

definition shows_card :: "nat \<Rightarrow> built_card list \<Rightarrow> card_view \<Rightarrow> built_card \<Rightarrow> bool" where
  "shows_card n built v b \<longleftrightarrow> cv_id v = card_str b \<and> cv_concept v = Some (concept_str b) \<and> cv_verified v
     \<and> cv_labels v = label_json (bc_labels b) \<and> decoy_cards_ok n built b (cv_decoys v)"

text \<open>The views of a deck are exactly its cards, each with \<open>n\<close> decoys among the others.\<close>

definition complete_deck :: "nat \<Rightarrow> built_card list \<Rightarrow> card_view set \<Rightarrow> bool" where
  "complete_deck n built V \<longleftrightarrow> (\<forall>v \<in> V. \<exists>b \<in> set built. shows_card n built v b)
     \<and> (\<forall>b \<in> set built. \<exists>v \<in> V. shows_card n built v b)"

lemma card_str_decoys [simp]: "card_str (b\<lparr>bc_decoys := ds\<rparr>) = card_str b" "concept_str (b\<lparr>bc_decoys := ds\<rparr>) = concept_str b"
  by (simp_all add: card_str_def concept_str_def)

lemma complete_deck_decoys:
  "complete_deck n (map (\<lambda>b. b\<lparr>bc_decoys := f b\<rparr>) built) V \<longleftrightarrow> complete_deck n built V"
  by (simp add: complete_deck_def shows_card_def decoy_cards_ok_def image_image)

lemma complete_deck_views:
  assumes len: "length paths = length bs" and set: "set bs = set built"
    and decoys: "\<And>b. b \<in> set built \<Longrightarrow> \<exists>ss. map_of uuids (card_str b) = Some ss \<and> decoy_cards_ok n built b ss"
  shows "complete_deck n built (redecoy uuids ` card_views bs paths)"
proof -
  have sh: "shows_card n built (redecoy uuids (view_of (record_of b []) p)) b" if "b \<in> set built" for b p
    using decoys [OF that] by (auto simp: shows_card_def redecoy_def view_of_def record_of_def card_str_def concept_str_def)
  have "\<exists>p. (b, p) \<in> set (zip bs paths)" if "b \<in> set bs" for b
    using that len by (metis in_set_impl_in_set_zip1)
  then have all: "\<forall>b \<in> set built. \<exists>v \<in> card_views bs paths. shows_card n built (redecoy uuids v) b"
    using sh set unfolding card_views_def by force
  have "\<exists>b \<in> set built. shows_card n built (redecoy uuids v) b" if v: "v \<in> card_views bs paths" for v
  proof -
    from v obtain b p where "(b, p) \<in> set (zip bs paths)" "v = view_of (record_of b []) p" by (auto simp: card_views_def)
    moreover from this have "b \<in> set built" using set by (metis set_zip_leftD)
    ultimately show ?thesis using sh by blast
  qed
  then show ?thesis using all unfolding complete_deck_def by blast
qed

lemma select_decoys_batch_Inr:
  assumes "select_decoys_batch py_str cl built n m = (Inr by_card, m')"
  shows "\<exists>raw. check_decoys py_str n built raw = Inr by_card \<and> m' = record_flash_call m"
proof -
  let ?ask = "map_err (\<lambda>b. try_in (label_en (bc_labels b)) (\<lambda>t. Inr (uuid_str (bc_id b), co_id (bc_concept b), t))) built"
  obtain block where b: "?ask = Inr block" using assms by (cases ?ask) (simp_all add: select_decoys_batch_def)
  then show ?thesis using assms by (cases "gc_decoys cl block") (auto simp: select_decoys_batch_def)
qed

text \<open>
  The tasks all finish, each once, and the cards they make get different ids: \<open>asyncio.gather\<close> and
  \<open>uuid4\<close> for the concepts of one run.
\<close>

definition env_fits :: "gen_env \<Rightarrow> concept list \<Rightarrow> bool" where
  "env_fits ge cs \<longleftrightarrow> distinct (map co_id cs) \<and> mset (ge_order ge cs) = mset cs
     \<and> distinct (map (\<lambda>c. uuid_str (ge_card_id ge (co_id c))) cs)"

lemma env_fits_order:
  assumes "env_fits ge cs"
  shows "set (ge_order ge cs) = set cs" "length (ge_order ge cs) = length cs" "distinct (map co_id (ge_order ge cs))"
  using assms mset_eq_imp_distinct_iff [of "map co_id (ge_order ge cs)" "map co_id cs"]
  by (auto simp: env_fits_def dest: mset_eq_setD mset_eq_length)

lemma gathered:
  assumes bs: "map bc_concept finished = ge_order ge cs" "\<forall>b \<in> set finished. card_sound ge translated b"
    and fits: "env_fits ge cs"
  shows "map bc_concept (in_order cs finished) = cs" "set (in_order cs finished) = set finished"
    "distinct (map card_str (in_order cs finished))" "distinct (map concept_str (in_order cs finished))"
proof -
  let ?built = "in_order cs finished"
  show c: "map bc_concept ?built = cs" and s: "set ?built = set finished"
    using in_order_spec [of cs finished] bs(1) env_fits_order [OF fits] fits by (simp_all add: env_fits_def)
  have "map card_str ?built = map (\<lambda>c. uuid_str (ge_card_id ge (co_id c))) (map bc_concept ?built)"
    using bs(2) s by (simp add: card_sound_def card_str_def)
  then show "distinct (map card_str ?built)" using fits c by (simp add: env_fits_def)
  have "map concept_str ?built = map co_id (map bc_concept ?built)" by (simp add: concept_str_def)
  then show "distinct (map concept_str ?built)" using fits c by (simp add: env_fits_def)
qed

lemma chosen_decoys:
  assumes sel: "select_decoys_batch py_str cl built n m = (Inr by_card, m')"
    and m: "map_decoy_concepts_to_card_uuids built by_card = Inr uuids"
    and cards: "distinct (map card_str built)" and concepts: "distinct (map concept_str built)" and b: "b \<in> set built"
  shows "\<exists>ss. map_of uuids (card_str b) = Some ss \<and> decoy_cards_ok n built b ss"
proof -
  obtain raw where "check_decoys py_str n built raw = Inr by_card" using select_decoys_batch_Inr [OF sel] by blast
  from check_decoys_Inr [OF this cards b] show ?thesis using decoy_uuids [OF m _ _ cards concepts b] by blast
qed

text \<open>What a build returns: a verified, labelled card for every concept, and consistent counters.\<close>

definition result_sound :: "gen_env \<Rightarrow> concept list \<Rightarrow> deck_metrics \<Rightarrow> deck_build \<Rightarrow> bool" where
  "result_sound ge cs m0 r \<longleftrightarrow> map bc_concept (db_cards r) = cs
     \<and> (\<forall>b \<in> set (db_cards r). image_accepted (ge_client ge) (bc_concept b) (bc_image b) \<and> map_of (bc_labels b) ''en'' \<noteq> None)
     \<and> grew (length cs) m0 (db_metrics r)"

lemma result_soundI:
  assumes t: "translate_labels_batch (ge_py_str ge) (ge_client ge) cs m0 = (Inr translated, m1)"
    and bs: "map bc_concept finished = ge_order ge cs" "\<forall>b \<in> set finished. card_sound ge translated b"
      "grew (length cs) m1 m2" and fits: "env_fits ge cs"
    and sel: "select_decoys_batch (ge_py_str ge) (ge_client ge) (in_order cs finished) n_decoys m2 = (Inr by_card, m')"
    and r: "db_cards r = map (\<lambda>b. b\<lparr>bc_decoys := decoys_of_card by_card b\<rparr>) (in_order cs finished)" "db_metrics r = m'"
  shows "result_sound ge cs m0 r"
proof -
  note built = gathered [OF bs(1,2) fits] and english = translate_labels_batch_Inr [OF t]
  have "m' = record_flash_call m2" using select_decoys_batch_Inr [OF sel] by blast
  then have "grew (length cs) m0 m'" using english bs(3) by (auto simp: grew_def record_flash_call_def)
  moreover have "image_accepted (ge_client ge) (bc_concept b) (bc_image b) \<and> map_of (bc_labels b) ''en'' \<noteq> None"
    if "b \<in> set (in_order cs finished)" for b
    using that bs(2) built(2) english by (auto simp: card_sound_def all_english_def)
  ultimately show ?thesis using r built(1) by (auto simp: result_sound_def comp_def)
qed

context deck_publisher
begin

lemma build_body_parts:
  assumes "build_body ops ge br region ctx (m0, s) = (Inr r, (m', s'))" and d: "br_deck br = Some d" "br_progressive br"
    and st: "status s d = Some Deck_generating" and cs: "chosen_concepts ge br = Inr cs"
  obtains translated finished m1 m2 s1 s2 s3 by_card uuids upd where
    "status s1 = status s" "deck_of s1 = deck_of s"
    "translate_labels_batch (ge_py_str ge) (ge_client ge) cs m0 = (Inr translated, m1)"
    "build_cards ops ge br ctx translated (length cs) 0 (ge_order ge cs) (m1, s1) = (Inr finished, (m2, s2))"
    "status s3 = status s2" "deck_of s3 = deck_of s2"
    "select_decoys_batch (ge_py_str ge) (ge_client ge) (in_order cs finished) n_decoys m2 = (Inr by_card, m')"
    "map_decoy_concepts_to_card_uuids (in_order cs finished) by_card = Inr uuids"
    "po_finalize ops d uuids upd (br_final br) s3 = (Inr (db_publish r), s')"
    "db_cards r = map (\<lambda>b. b\<lparr>bc_decoys := decoys_of_card by_card b\<rparr>) (in_order cs finished)" "db_metrics r = m'"
proof -
  from assms(1) d cs obtain gi s1 translated m1 finished m2 s2 s3 by_card uuids res upd1 upd2 upd3 where
    1: "po_update_state ops d (Some gi) upd1 s = (Inr (), s1)"
    "translate_labels_batch (ge_py_str ge) (ge_client ge) cs m0 = (Inr translated, m1)"
    "build_cards ops ge br ctx translated (length cs) 0 (ge_order ge cs) (m1, s1) = (Inr finished, (m2, s2))"
    "po_update_state ops d None upd2 s2 = (Inr (), s3)"
    "select_decoys_batch (ge_py_str ge) (ge_client ge) (in_order cs finished) n_decoys m2 = (Inr by_card, m')"
    "map_decoy_concepts_to_card_uuids (in_order cs finished) by_card = Inr uuids"
    "po_finalize ops d uuids upd3 (br_final br) s3 = (Inr res, s')"
    "r = \<lparr> db_cards = map (\<lambda>b. b\<lparr>bc_decoys := decoys_of_card by_card b\<rparr>) (in_order cs finished), db_metrics = m',
       db_publish = res \<rparr>"
    by (auto simp: build_body_def seq_eqs when_progressive_def publish_built_def Let_def)
  have s1: "status s1 = status s" "deck_of s1 = deck_of s" using update_keeps [OF 1(1)] st by auto
  have "status s2 = status s1" using build_cards_status [OF 1(3) d(1)] st s1 by simp
  then have "status s3 = status s2" "deck_of s3 = deck_of s2" using update_keeps [OF 1(4)] st s1 by auto
  then show ?thesis using that 1 s1 by auto
qed

lemma build_body_done:
  assumes run: "build_body ops ge br region ctx (m0, s) = (Inr r, (m', s'))"
    and d: "br_deck br = Some d" "br_progressive br" and st: "status s d = Some Deck_generating" "deck_of s d = {}"
    and cs: "chosen_concepts ge br = Inr cs" and fits: "env_fits ge cs"
  shows "status s' d = Some (br_final br) \<and> final_status_ok (br_final br)
    \<and> complete_deck n_decoys (db_cards r) (deck_of s' d) \<and> result_sound ge cs m0 r"
proof -
  obtain translated finished m1 m2 s1 s2 s3 by_card uuids upd where
    p: "status s1 = status s" "deck_of s1 = deck_of s"
    "translate_labels_batch (ge_py_str ge) (ge_client ge) cs m0 = (Inr translated, m1)"
    "build_cards ops ge br ctx translated (length cs) 0 (ge_order ge cs) (m1, s1) = (Inr finished, (m2, s2))"
    "status s3 = status s2" "deck_of s3 = deck_of s2"
    "select_decoys_batch (ge_py_str ge) (ge_client ge) (in_order cs finished) n_decoys m2 = (Inr by_card, m')"
    "map_decoy_concepts_to_card_uuids (in_order cs finished) by_card = Inr uuids"
    "po_finalize ops d uuids upd (br_final br) s3 = (Inr (db_publish r), s')"
    and r: "db_cards r = map (\<lambda>b. b\<lparr>bc_decoys := decoys_of_card by_card b\<rparr>) (in_order cs finished)" "db_metrics r = m'"
    by (rule build_body_parts [OF run d st(1) cs])
  note order = env_fits_order [OF fits]
  have "clean s1 d (ge_order ge cs)" using st p(1,2) by simp
  then obtain paths where b: "map bc_concept finished = ge_order ge cs" "\<forall>b \<in> set finished. card_sound ge translated b"
      "grew (length cs) m1 m2" "length paths = length finished" "deck_of s2 d = card_views finished paths"
    using build_cards_done [OF p(4) d] st p(2) order by auto
  note built = gathered [OF b(1,2) fits]
  note decoys = chosen_decoys [OF p(7,8) built(3,4)]
  note fin = finalize_done [OF p(9)]
  have "complete_deck n_decoys (in_order cs finished) (deck_of s' d)"
    using complete_deck_views [OF b(4) built(2) [symmetric]] decoys fin p(6) b(5) by simp
  then show ?thesis using fin r(1) result_soundI [OF p(3) b(1-3) fits p(7) r] by (simp add: complete_deck_decoys)
qed

end

text \<open>An action that raises leaves the invariant true.\<close>

definition errs_keep :: "('s \<Rightarrow> bool) \<Rightarrow> ('s, 'a) act \<Rightarrow> bool" where
  "errs_keep I m \<longleftrightarrow> (\<forall>s e s'. I s \<longrightarrow> m s = (Inl e, s') \<longrightarrow> I s')"

lemma errs_keep_bind: "keeps I m \<Longrightarrow> (\<And>x. errs_keep I (f x)) \<Longrightarrow> errs_keep I (bind_act m f)"
  unfolding errs_keep_def bind_act_Inl using keepsD by metis

lemma errs_keep_last: "errs_keep I m \<Longrightarrow> errs_keep I (bind_act m (\<lambda>x. ret (f x)))"
  by (auto simp: errs_keep_def bind_act_Inl)

lemma keeps_pure [keeps_rules]: "keeps I (pure_err r)"
  by (simp add: keeps_def pure_err_def)

lemma keeps_on_fst [keeps_rules]: "keeps (\<lambda>p. I (snd p)) (on_fst f)"
  by (auto simp: keeps_def on_fst_def split: prod.splits)

lemma keeps_on_snd: "keeps I f \<Longrightarrow> keeps (\<lambda>p. I (snd p)) (on_snd f)"
  by (auto simp: keeps_def on_snd_def split: prod.splits)

context deck_publisher
begin

abbreviation generating :: "uuid \<Rightarrow> 's \<Rightarrow> bool" where
  "generating d s \<equiv> status s d = Some Deck_generating"

lemma update_generating: "keeps (generating d) (po_update_state ops d upd_in upd_m)"
  unfolding keeps_def
proof (intro allI impI)
  fix s
  assume "generating d s"
  then show "generating d (snd (po_update_state ops d upd_in upd_m s))"
    using update_keeps [of d upd_in upd_m s] by (metis option.distinct(1) prod.collapse)
qed

lemma when_progressive_generating:
  "br_deck br = Some d \<Longrightarrow> keeps (\<lambda>p. generating d (snd p)) (when_progressive br (\<lambda>d. po_update_state ops d upd_in upd_m))"
  using update_generating by (auto simp: when_progressive_def intro!: keeps_rules keeps_on_snd)

lemma build_cards_generating:
  "br_deck br = Some d \<Longrightarrow> keeps (\<lambda>p. generating d (snd p)) (build_cards ops ge br ctx translated target ready cs)"
  unfolding keeps_def
proof (intro allI impI)
  fix p :: "deck_metrics \<times> 's"
  assume d: "br_deck br = Some d" and g: "generating d (snd p)"
  obtain m s res m' s' where p: "p = (m, s)" "build_cards ops ge br ctx translated target ready cs p = (res, (m', s'))"
    by (metis surj_pair)
  then show "generating d (snd (snd (build_cards ops ge br ctx translated target ready cs p)))"
    using build_cards_status [OF _ d] g by simp
qed

lemma publish_built_errs:
  assumes "br_deck br = Some d" and "br_progressive br"
  shows "errs_keep (\<lambda>p. generating d (snd p)) (on_snd (publish_built ops ge br region gi payload built uuids))"
  using assms by (auto simp: errs_keep_def on_snd_eq publish_built_def dest!: finalize_failed)

lemma build_body_errs:
  assumes d: "br_deck br = Some d" and p: "br_progressive br"
  shows "errs_keep (\<lambda>p. generating d (snd p)) (build_body ops ge br region ctx)"
  unfolding build_body_def Let_def
  by (intro errs_keep_bind errs_keep_last keeps_pure keeps_gets keeps_on_fst when_progressive_generating [OF d]
      build_cards_generating [OF d] publish_built_errs [OF d p])

text \<open>A run that fails leaves the deck not playable; marking it failed is the last step.\<close>

lemma build_deck_failed:
  assumes run: "build_deck ops ge br m0 s = (Inl err, s')" and d: "br_deck br = Some d" and p: "br_progressive br"
    and st: "generating d s"
  shows "(status s' d = Some Deck_generating \<or> status s' d = Some Deck_failed)
    \<and> (final_status_ok (br_final br) \<longrightarrow> (\<exists>ctx. resolve_region_context (py_lower (strip (br_region br))) = Inr ctx) \<longrightarrow>
        (\<forall>s0. fst (po_mark_failed ops d (generation_failed ge err) s0) = Inr ()) \<longrightarrow> status s' d = Some Deck_failed)"
proof (cases "final_status_ok (br_final br) \<and> (\<exists>ctx. resolve_region_context (py_lower (strip (br_region br))) = Inr ctx)")
  case False
  then have "s' = s" using run d p
    by (cases "resolve_region_context (py_lower (strip (br_region br)))") (auto simp: build_deck_def split: if_splits)
  then show ?thesis using st False by auto
next
  case True
  then obtain ctx where ctx: "resolve_region_context (py_lower (strip (br_region br))) = Inr ctx" by blast
  obtain res m1 s1 where body: "build_body ops ge br (py_lower (strip (br_region br))) ctx (m0, s) = (res, (m1, s1))"
    by (metis surj_pair)
  then have 1: "res = Inl err" "s' = snd (po_mark_failed ops d (generation_failed ge err) s1)"
    using run d p True ctx by (cases res; simp add: build_deck_def)+
  have g: "generating d s1" using build_body_errs [OF d p] body 1(1) st unfolding errs_keep_def by fastforce
  obtain r2 where mark: "po_mark_failed ops d (generation_failed ge err) s1 = (r2, s')" using 1(2) by (metis prod.collapse)
  from mark_status [OF mark] g show ?thesis by (metis fst_conv mark)
qed

lemma build_deck_done:
  assumes run: "build_deck ops ge br m0 s = (Inr r, s')"
    and d: "br_deck br = Some d" "br_progressive br" and st: "generating d s" "deck_of s d = {}"
    and cs: "chosen_concepts ge br = Inr cs" and fits: "env_fits ge cs"
  shows "status s' d = Some (br_final br) \<and> final_status_ok (br_final br)
    \<and> complete_deck n_decoys (db_cards r) (deck_of s' d) \<and> result_sound ge cs m0 r"
proof -
  let ?region = "py_lower (strip (br_region br))"
  have ok: "final_status_ok (br_final br)" using run by (auto simp: build_deck_def split: if_splits)
  obtain ctx where ctx: "resolve_region_context ?region = Inr ctx"
    using run ok d by (cases "resolve_region_context ?region") (auto simp: build_deck_def split: if_splits)
  obtain res m1 s1 where body: "build_body ops ge br ?region ctx (m0, s) = (res, (m1, s1))" by (metis surj_pair)
  then have "res = Inr r" "s1 = s'" using run d ok ctx by (cases res; simp add: build_deck_def)+
  with body have "build_body ops ge br ?region ctx (m0, s) = (Inr r, (m1, s'))" by simp
  from build_body_done [OF this d st cs fits] show ?thesis .
qed

end

end
