(* ===== verification/Deck_Admin_Laws.thy ===== *)
theory Deck_Admin_Laws
  imports Deck_Admin Deck_Gen_Laws
begin

text \<open>
  What the deck control service guarantees over Postgres: a background run touches no other deck and
  ends in a playable ready deck or in one that is not playable; the lifecycle of decks under all
  service operations keeps at most one deck live and every ready or live deck playable; review URLs
  stay below the media root.
\<close>

section \<open>Frames\<close>

text \<open>A build keeps whatever its publisher operations on the deck keep.\<close>

lemma build_cards_keeps:
  assumes d: "br_deck br = Some d" and persist: "\<And>c upd. keeps I (po_persist_card ops d c upd)"
  shows "keeps (\<lambda>p. I (snd p)) (build_cards ops ge br ctx translated target ready cs)"
proof (induction cs arbitrary: ready)
  case (Cons c cs)
  then show ?case using d persist by (auto intro!: keeps_rules keeps_on_snd)
qed (auto intro!: keeps_rules)

lemma build_body_keeps:
  assumes d: "br_deck br = Some d" and persist: "\<And>c upd. keeps I (po_persist_card ops d c upd)"
    and upd: "\<And>x y. keeps I (po_update_state ops d x y)" and fin: "\<And>x y z. keeps I (po_finalize ops d x y z)"
    and pub: "\<And>f r cs st x y. keeps I (po_publish ops f (Some d) r cs st x y)"
  shows "keeps (\<lambda>p. I (snd p)) (build_body ops ge br region ctx)"
proof -
  have "keeps I (publish_built ops ge br region gi payload built uuids)" for gi payload built uuids
    using d fin pub by (cases "br_progressive br") (simp_all add: publish_built_def)
  then show ?thesis
    unfolding build_body_def Let_def when_progressive_def using d upd
    by (auto intro!: keeps_bind keeps_pure keeps_gets keeps_ret keeps_on_fst keeps_on_snd build_cards_keeps [OF d persist])
qed

lemma build_deck_keeps:
  assumes d: "br_deck br = Some d" and persist: "\<And>c upd. keeps I (po_persist_card ops d c upd)"
    and upd: "\<And>x y. keeps I (po_update_state ops d x y)" and fin: "\<And>x y z. keeps I (po_finalize ops d x y z)"
    and pub: "\<And>f r cs st x y. keeps I (po_publish ops f (Some d) r cs st x y)"
    and mark: "\<And>x. keeps I (po_mark_failed ops d x)"
  shows "keeps I (build_deck ops ge br m0)"
  unfolding keeps_def
proof (intro allI impI)
  fix s
  assume s: "I s"
  have body: "I s'" if "build_body ops ge br region ctx (m0, s) = (res, (m', s'))" for region ctx res m' s'
    using keepsD [OF build_body_keeps [OF d persist upd fin pub] _ that] s by simp
  have "I (snd (po_mark_failed ops d x s'))" if "I s'" for s' x using mark that by (simp add: keeps_def)
  then show "I (snd (build_deck ops ge br m0 s))"
    using s d by (auto simp: build_deck_def split: sum.split prod.split dest!: body)
qed

definition same_deck :: "uuid \<Rightarrow> deck_db \<Rightarrow> deck_db \<Rightarrow> bool" where
  "same_deck j g g' \<longleftrightarrow> deck_status_of g' j = deck_status_of g j \<and> pg_deck g' j = pg_deck g j"

lemma keeps_run: "(\<And>g r g'. I g \<Longrightarrow> m g = (r, g') \<Longrightarrow> I g') \<Longrightarrow> keeps I m"
  unfolding keeps_def by (metis prod.collapse)

lemma pg_publish_same:
  assumes "pg_publish type_name e f (Some d) region cs final inp m g = (res, g')" and "j \<noteq> d"
  shows "same_deck j g g'"
proof (cases res)
  case (Inl err)
  then show ?thesis using pg_publish_failed [of type_name e f "Some d" region cs final inp m g err g' d] assms
    by (simp add: same_deck_def pg_deck_def)
next
  case (Inr r)
  then have run: "pg_publish type_name e f (Some d) region cs final inp m g = (Inr r, g')" using assms by simp
  from pg_publish_done [OF run] obtain files where d: "pb_deck r = d"
      and txn: "publish_txn e (pb_deck r) True region cs files final inp m g = (Inr (), g')" by auto
  from publish_txn_done [OF txn] assms(2) d show ?thesis by (simp add: same_deck_def)
qed

lemma keeps_same:
  assumes "\<And>g r g'. m g = (r, g') \<Longrightarrow> same_deck j g g'"
  shows "keeps (same_deck j g0) m"
proof (rule keeps_run)
  fix g r g'
  assume "same_deck j g0 g" and "m g = (r, g')"
  then show "same_deck j g0 g'" using assms [of g r g'] by (simp add: same_deck_def)
qed

lemma pg_persist_same: "pg_persist_card e d c upd g = (res, g') \<Longrightarrow> j \<noteq> d \<Longrightarrow> same_deck j g g'"
  using pg_persist_card_spec [of e d c upd g res g'] by (cases res) (simp_all add: same_deck_def)

lemma pg_finalize_same: "pg_finalize e d dm md final g = (res, g') \<Longrightarrow> j \<noteq> d \<Longrightarrow> same_deck j g g'"
  using pg_finalize_spec [of e d dm md final g res g'] by (cases res) (simp_all add: same_deck_def)

lemma pg_mark_same: "pg_mark_failed e d reason g = (res, g') \<Longrightarrow> j \<noteq> d \<Longrightarrow> same_deck j g g'"
  using pg_mark_failed_spec [of e d reason g res g'] by (simp add: same_deck_def pg_deck_def)

lemma repo_mark_failed_spec:
  assumes "repo_mark_failed d reason g = (res, g')"
  shows "res = Inr () \<and> pg_deck g' = pg_deck g \<and>
    (\<forall>j. deck_status_of g' j = (if j = d \<and> deck_status_of g d \<noteq> None \<and> deck_status_of g d \<noteq> Some Deck_live
      then Some Deck_failed else deck_status_of g j))"
  using assms
  by (cases "map_of (dt_decks g) d") (auto simp: repo_mark_failed_def deck_status_of_Some deck_status_of_def)

lemma pg_operations_same:
  assumes "j \<noteq> d"
  shows "keeps (same_deck j g0) (pg_persist_card e d c upd)"
    and "keeps (same_deck j g0) (pg_update_state e d x y)"
    and "keeps (same_deck j g0) (pg_finalize e d dm md final)"
    and "keeps (same_deck j g0) (pg_publish type_name e f (Some d) region cs final inp m)"
    and "keeps (same_deck j g0) (pg_mark_failed e d reason)"
    and "keeps (same_deck j g0) (repo_mark_failed d reason)"
proof -
  have "same_deck j g g'" if "pg_update_state e d x y g = (r, g')" for g r g'
    using pg_update_state_spec [OF that] by (simp add: same_deck_def)
  moreover have "same_deck j g g'" if "repo_mark_failed d reason g = (r, g')" for g r g'
    using repo_mark_failed_spec [OF that] assms by (simp add: same_deck_def)
  ultimately show "keeps (same_deck j g0) (pg_update_state e d x y)" "keeps (same_deck j g0) (repo_mark_failed d reason)"
    by (blast intro: keeps_same)+
qed (rule keeps_same; erule pg_persist_same pg_finalize_same pg_publish_same pg_mark_same; rule assms)+

lemma same_deck_refl [simp]: "same_deck j g g"
  by (simp add: same_deck_def)

lemma build_deck_same:
  assumes "br_deck br = Some d" and "j \<noteq> d"
  shows "keeps (same_deck j g0) (build_deck (postgres_publisher type_name e) ge br m0)"
  by (rule build_deck_keeps [OF assms(1)])
    (simp_all add: postgres_publisher_def pg_operations_same [OF assms(2)])

section \<open>The atomic path\<close>

lemma build_cards_atomic:
  "build_cards ops ge br ctx translated target ready cs (m, s) = (Inr bs, (m', s')) \<Longrightarrow> \<not> br_progressive br \<Longrightarrow>
     s' = s \<and> map bc_concept bs = cs \<and> (\<forall>b \<in> set bs. card_sound ge translated b) \<and> grew (length cs) m m'"
proof (induction cs arbitrary: ready m bs)
  case Nil
  then show ?case by (auto simp: grew_def)
next
  case (Cons c cs)
  from Cons.prems obtain b m1 bs' where card: "build_card ge br ctx translated c m = (Inr b, m1)"
      and rest: "build_cards ops ge br ctx translated target (ready + 1) cs (m1, s) = (Inr bs', (m', s'))" and bs: "bs = b # bs'"
    by (auto simp: seq_eqs split: option.splits)
  from Cons.IH [OF rest Cons.prems(2)] build_card_Inr [OF card] bs show ?case by (auto simp: grew_def)
qed

lemma build_cards_atomic_state:
  "build_cards ops ge br ctx translated target ready cs p = (res, p') \<Longrightarrow> \<not> br_progressive br \<Longrightarrow> snd p' = snd p"
proof -
  assume run: "build_cards ops ge br ctx translated target ready cs p = (res, p')" and np: "\<not> br_progressive br"
  have "keeps (\<lambda>q. snd q = snd p) (build_cards ops ge br ctx translated target ready cs)"
  proof (induction cs arbitrary: ready)
    case (Cons c cs)
    have "keeps (\<lambda>q. snd q = snd p) (on_fst f)" for f :: "(deck_metrics, 'b) act"
      by (rule keeps_on_fst [where I = "\<lambda>x. x = snd p"])
    then show ?case using Cons np by (auto intro!: keeps_rules split: option.split)
  qed (auto intro!: keeps_rules)
  from keepsD [OF this _ run] show ?thesis by simp
qed

text \<open>Cards published at once: the rows carry the decoys.\<close>

definition atomic_records :: "(string, string list) dict \<Rightarrow> built_card list \<Rightarrow> card_record list" where
  "atomic_records uuids built = map (\<lambda>b. record_of b (decoys_of_card uuids b)) built"

lemma complete_deck_atomic:
  assumes len: "length paths = length built"
    and decoys: "\<And>b. b \<in> set built \<Longrightarrow> \<exists>ss. map_of uuids (card_str b) = Some ss \<and> decoy_cards_ok n built b ss"
  shows "complete_deck n built ((\<lambda>(c, rel). view_of c rel) ` set (zip (atomic_records uuids built) paths))"
proof -
  let ?rec = "\<lambda>b. record_of b (decoys_of_card uuids b)"
  have sh: "shows_card n built (view_of (?rec b) p) b" if "b \<in> set built" for b p
    using decoys [OF that]
    by (auto simp: shows_card_def view_of_def record_of_def card_str_def concept_str_def decoys_of_card_def)
  have zip: "set (zip (atomic_records uuids built) paths) = (\<lambda>(b, p). (?rec b, p)) ` set (zip built paths)"
    by (simp add: atomic_records_def zip_map1 case_prod_beta')
  have all: "\<exists>p. (b, p) \<in> set (zip built paths)" if "b \<in> set built" for b
    using that len by (metis in_set_impl_in_set_zip1)
  show ?thesis unfolding complete_deck_def zip
  proof (intro conjI ballI)
    fix v
    assume "v \<in> (\<lambda>(c, rel). view_of c rel) ` (\<lambda>(b, p). (?rec b, p)) ` set (zip built paths)"
    then obtain b p where "(b, p) \<in> set (zip built paths)" "v = view_of (?rec b) p" by auto
    moreover from this have "b \<in> set built" by (metis set_zip_leftD)
    ultimately show "\<exists>b \<in> set built. shows_card n built v b" using sh by blast
  next
    fix b
    assume b: "b \<in> set built"
    then obtain p where "(b, p) \<in> set (zip built paths)" using all by blast
    then show "\<exists>v \<in> (\<lambda>(c, rel). view_of c rel) ` (\<lambda>(b, p). (?rec b, p)) ` set (zip built paths). shows_card n built v b"
      using sh [OF b] by force
  qed
qed

lemma atomic_body_done:
  assumes run: "build_body (postgres_publisher type_name e) ge br region ctx (m0, g) = (Inr r, (m', g'))"
    and d: "br_deck br = Some d" "\<not> br_progressive br" and st: "pg_deck g d = {}"
    and cs: "chosen_concepts ge br = Inr cs" and fits: "env_fits ge cs"
  shows "deck_status_of g' d = Some (br_final br) \<and> final_status_ok (br_final br)
    \<and> complete_deck n_decoys (db_cards r) (pg_deck g' d) \<and> result_sound ge cs m0 r"
proof -
  from run d cs obtain gi translated m1 finished m2 g2 by_card uuids res upd where
    p: "translate_labels_batch (ge_py_str ge) (ge_client ge) cs m0 = (Inr translated, m1)"
    "build_cards (postgres_publisher type_name e) ge br ctx translated (length cs) 0 (ge_order ge cs) (m1, g)
       = (Inr finished, (m2, g2))"
    "select_decoys_batch (ge_py_str ge) (ge_client ge) (in_order cs finished) n_decoys m2 = (Inr by_card, m')"
    "map_decoy_concepts_to_card_uuids (in_order cs finished) by_card = Inr uuids"
    "pg_publish type_name e (ge_fresh ge) (Some d) region (atomic_records uuids (in_order cs finished)) (br_final br) gi upd g2
       = (Inr res, g')"
    and r: "db_cards r = map (\<lambda>b. b\<lparr>bc_decoys := decoys_of_card by_card b\<rparr>) (in_order cs finished)" "db_metrics r = m'"
    by (auto simp: build_body_def seq_eqs when_progressive_def publish_built_def postgres_publisher_def atomic_records_def Let_def)
  let ?built = "in_order cs finished"
  from build_cards_atomic [OF p(2) d(2)] have b: "g2 = g" "map bc_concept finished = ge_order ge cs"
    "\<forall>b \<in> set finished. card_sound ge translated b" "grew (length cs) m1 m2"
    using env_fits_order(2) [OF fits] by auto
  note built = gathered [OF b(2,3) fits]
  note decoys = chosen_decoys [OF p(3,4) built(3,4)]
  from pg_publish_done [OF p(5)] obtain files where ok: "final_status_ok (br_final br)" and res: "pb_deck res = d"
      and files: "stage_images (atomic_records uuids ?built) = Inr files"
      and txn: "publish_txn e d True region (atomic_records uuids ?built) files (br_final br) gi upd g2 = (Inr (), g')" by auto
  have "length files = length ?built"
    using arg_cong [OF stage_images_files [OF files], of length] by (simp add: atomic_records_def)
  from complete_deck_atomic [OF _ decoys, of "map (card_rel_path d \<circ> fst) files"] this
  have "complete_deck n_decoys ?built (pg_deck g' d)" using publish_txn_done [OF txn] st b(1) by simp
  then show ?thesis using publish_txn_done [OF txn] ok r(1) result_soundI [OF p(1) b(2-4) fits p(3) r]
    by (simp add: complete_deck_decoys)
qed

lemma errs_keepD: "errs_keep I m \<Longrightarrow> I s \<Longrightarrow> m s = (Inl e, s') \<Longrightarrow> I s'"
  unfolding errs_keep_def by blast

text \<open>A failed atomic build leaves no card and, if the mark can be written, a failed deck.\<close>

lemma atomic_body_failed:
  assumes run: "build_body (postgres_publisher type_name e) ge br region ctx (m0, g) = (Inl err, (m', g'))"
    and d: "br_deck br = Some d" "\<not> br_progressive br" and st: "deck_status_of g d = Some Deck_generating"
  shows "pg_deck g' d = pg_deck g d \<and> (deck_status_of g' d = Some Deck_generating \<or> deck_status_of g' d = Some Deck_failed)"
proof -
  let ?I = "\<lambda>g'. pg_deck g' d = pg_deck g d \<and> (deck_status_of g' d = Some Deck_generating \<or> deck_status_of g' d = Some Deck_failed)"
  let ?ops = "postgres_publisher type_name e"
  have same: "keeps (\<lambda>p. ?I (snd p)) (build_cards ?ops ge br ctx translated target ready cs)" for translated target ready cs
    by (rule keeps_run) (use build_cards_atomic_state d(2) in fastforce)
  have prog: "keeps (\<lambda>p. ?I (snd p)) (when_progressive br f)" for f :: "uuid \<Rightarrow> (deck_db, unit) act"
    using d by (simp add: when_progressive_def keeps_ret)
  have pub: "errs_keep (\<lambda>p. ?I (snd p)) (on_snd (publish_built ?ops ge br region gi payload built uuids) :: ('c \<times> deck_db, publish_result) act)" for gi payload built uuids
    unfolding errs_keep_def on_snd_eq
  proof (intro allI impI)
    fix p p' :: "'c \<times> deck_db" and err
    assume I: "?I (snd p)"
      and "publish_built ?ops ge br region gi payload built uuids (snd p) = (Inl err, snd p') \<and> fst p' = fst p"
    then obtain cs where "pg_publish type_name e (ge_fresh ge) (Some d) region cs (br_final br) gi payload (snd p) = (Inl err, snd p')"
      using d by (auto simp: publish_built_def postgres_publisher_def)
    from pg_publish_failed [OF this, of d] I show "?I (snd p')" by (auto simp: pg_deck_def)
  qed
  have "errs_keep (\<lambda>p. ?I (snd p)) (build_body ?ops ge br region ctx)"
    unfolding build_body_def Let_def
    by (intro errs_keep_bind errs_keep_last keeps_pure keeps_gets prog same pub) (rule keeps_on_fst)+
  from errs_keepD [OF this _ run] st show ?thesis by simp
qed

section \<open>Runs\<close>

text \<open>What the game needs of a deck it deals from.\<close>

definition playable_view :: "card_view set \<Rightarrow> card_view \<Rightarrow> bool" where
  "playable_view V v \<longleftrightarrow> cv_verified v \<and> (\<exists>t. map_of (cv_labels v) ''en'' = Some (JStr t))
     \<and> length (cv_decoys v) = n_decoys \<and> distinct (cv_decoys v) \<and> set (cv_decoys v) \<subseteq> cv_id ` V - {cv_id v}"

definition playable_deck :: "card_view set \<Rightarrow> bool" where
  "playable_deck V \<longleftrightarrow> V \<noteq> {} \<and> (\<forall>v \<in> V. playable_view V v)"

lemma map_of_label_json: "map_of (label_json labels) k = map_option JStr (map_of labels k)"
  by (induction labels) (auto simp: label_json_def)

lemma complete_playable:
  assumes c: "complete_deck n_decoys built V" and ne: "built \<noteq> []"
    and en: "\<forall>b \<in> set built. map_of (bc_labels b) ''en'' \<noteq> None"
  shows "playable_deck V"
proof -
  have "cv_id v \<in> card_str ` set built" if "v \<in> V" for v
    using c that unfolding complete_deck_def shows_card_def by blast
  moreover have "card_str b \<in> cv_id ` V" if b: "b \<in> set built" for b
  proof -
    obtain v where "v \<in> V" "cv_id v = card_str b" using c b unfolding complete_deck_def shows_card_def by blast
    then show ?thesis by force
  qed
  ultimately have ids: "cv_id ` V = card_str ` set built" by blast
  have "playable_view V v" if v: "v \<in> V" for v
  proof -
    obtain b where b: "b \<in> set built" "shows_card n_decoys built v b" using c v by (auto simp: complete_deck_def)
    moreover obtain t where "map_of (bc_labels b) ''en'' = Some t" using en b(1) by blast
    ultimately show ?thesis using ids
      by (auto simp: playable_view_def shows_card_def decoy_cards_ok_def map_of_label_json)
  qed
  moreover have "V \<noteq> {}" using c ne by (cases built) (auto simp: complete_deck_def)
  ultimately show ?thesis by (simp add: playable_deck_def)
qed

lemma result_playable:
  assumes "complete_deck n_decoys (db_cards r) V" and "result_sound ge cs m0 r" and "cs \<noteq> []"
  shows "playable_deck V"
  using assms by (intro complete_playable [OF assms(1)]) (auto simp: result_sound_def)

abbreviation unfinished :: "deck_db \<Rightarrow> uuid \<Rightarrow> bool" where
  "unfinished g d \<equiv> deck_status_of g d = Some Deck_generating \<or> deck_status_of g d = Some Deck_failed"

lemma build_deck_cases:
  assumes "build_deck ops ge br m0 s = (res, s')" and "br_deck br = Some d"
  obtains "\<exists>err. res = Inl err" "s' = s"
    | ctx r m' where "res = Inr r" "build_body ops ge br (py_lower (strip (br_region br))) ctx (m0, s) = (Inr r, (m', s'))"
    | ctx err m' s1 where "res = Inl err" "s' = snd (po_mark_failed ops d (generation_failed ge err) s1)"
        "build_body ops ge br (py_lower (strip (br_region br))) ctx (m0, s) = (Inl err, (m', s1))"
  using assms by (auto simp: build_deck_def split: if_splits sum.splits prod.splits)

lemma atomic_build:
  assumes run: "build_deck (postgres_publisher type_name e) ge br m0 g = (res, g')"
    and d: "br_deck br = Some d" "\<not> br_progressive br" and st: "deck_status_of g d = Some Deck_generating" "pg_deck g d = {}"
    and fits: "\<And>cs. chosen_concepts ge br = Inr cs \<Longrightarrow> env_fits ge cs"
  shows "case res of
      Inr r \<Rightarrow> deck_status_of g' d = Some (br_final br) \<and> complete_deck n_decoys (db_cards r) (pg_deck g' d)
        \<and> (\<exists>cs. chosen_concepts ge br = Inr cs \<and> result_sound ge cs m0 r)
    | Inl err \<Rightarrow> pg_deck g' d = {} \<and> unfinished g' d"
  using run d(1)
proof (cases rule: build_deck_cases)
  case 1
  then show ?thesis using st by auto
next
  case (2 ctx r m')
  then obtain cs where cs: "chosen_concepts ge br = Inr cs" by (auto simp: build_body_def seq_eqs)
  from atomic_body_done [OF 2(2) d st(2) cs fits [OF cs]] 2(1) cs show ?thesis by auto
next
  case (3 ctx err m' g1)
  from atomic_body_failed [OF 3(3) d st(1)] st(2) have g1: "pg_deck g1 d = {}" "unfinished g1 d" by auto
  obtain r2 where "pg_mark_failed e d (generation_failed ge err) g1 = (r2, g')"
    using 3(2) by (cases "pg_mark_failed e d (generation_failed ge err) g1") (simp add: postgres_publisher_def)
  from pg_mark_failed_spec [OF this] g1 3(1) show ?thesis by (auto simp: pg_deck_def)
qed

lemma progressive_build:
  assumes run: "build_deck (postgres_publisher type_name e) ge br m0 g = (res, g')"
    and d: "br_deck br = Some d" "br_progressive br" and st: "deck_status_of g d = Some Deck_generating" "pg_deck g d = {}"
    and fits: "\<And>cs. chosen_concepts ge br = Inr cs \<Longrightarrow> env_fits ge cs"
  shows "case res of
      Inr r \<Rightarrow> deck_status_of g' d = Some (br_final br) \<and> complete_deck n_decoys (db_cards r) (pg_deck g' d)
        \<and> (\<exists>cs. chosen_concepts ge br = Inr cs \<and> result_sound ge cs m0 r)
    | Inl err \<Rightarrow> unfinished g' d"
proof (cases res)
  case (Inl err)
  then show ?thesis using pg_pub.build_deck_failed [OF _ d st(1)] run by auto
next
  case (Inr r)
  with run have run: "build_deck (postgres_publisher type_name e) ge br m0 g = (Inr r, g')" by simp
  from run d(1) obtain cs where cs: "chosen_concepts ge br = Inr cs"
    by (cases rule: build_deck_cases) (auto simp: build_body_def seq_eqs)
  from pg_pub.build_deck_done [OF run d st cs fits [OF cs]] Inr cs show ?thesis by auto
qed

lemma recorded_cases:
  assumes "recorded ge mf d m g = (res, g')" and "m g = (r1, g1)"
  shows "(case r1 of Inr _ \<Rightarrow> g' = g1 | Inl _ \<Rightarrow> g' = g1 \<or> (\<exists>why. repo_mark_failed d why g1 = (Inr (), g')))"
  using assms by (auto simp: recorded_def repo_mark_failed_def split: sum.splits option.splits)

text \<open>A run that ends well leaves a playable ready deck, any other run a generating or failed one.\<close>

definition run_outcome :: "deck_db \<Rightarrow> uuid \<Rightarrow> bool" where
  "run_outcome g d \<longleftrightarrow> deck_status_of g d = Some Deck_ready \<and> playable_deck (pg_deck g d) \<or> unfinished g d"

lemma recorded_outcome:
  assumes "recorded ge mf d m g = (res, g')" and "m g = (r1, g1)"
    and "case r1 of Inr _ \<Rightarrow> run_outcome g1 d | Inl _ \<Rightarrow> unfinished g1 d"
  shows "run_outcome g' d"
proof (cases r1)
  case (Inl err)
  then consider "g' = g1" | why where "repo_mark_failed d why g1 = (Inr (), g')"
    using recorded_cases [OF assms(1,2)] by auto
  then show ?thesis using assms(3) Inl by cases (auto simp: run_outcome_def dest!: repo_mark_failed_spec)
next
  case (Inr r)
  then show ?thesis using recorded_cases [OF assms(1,2)] assms(3) by simp
qed

lemma chosen_operator: "chosen_concepts ge (operator_request region cs d) = Inr cs' \<Longrightarrow> cs' = cs \<and> distinct (map co_id cs)"
  by (auto simp: chosen_concepts_def operator_request_def split: if_splits)

lemma chosen_prompt: "chosen_concepts ge (prompt_request region theme cs d st) = Inr cs' \<Longrightarrow> cs' = cs \<and> distinct (map co_id cs)"
  by (auto simp: chosen_concepts_def prompt_request_def split: if_splits)

lemma operator_concepts_length:
  "concepts_from_operator_mappings (JArr rows) = Inr cs \<Longrightarrow> length cs = length rows"
  by (auto simp: concepts_from_operator_mappings_def dest: operator_concepts_from_Inr)

lemma run_generation_outcome:
  assumes run: "run_generation e ge mf d r g = (res, g')"
    and st: "deck_status_of g d = Some Deck_generating" "pg_deck g d = {}" and req: "generate_request_ok r"
    and fits: "\<And>cs. concepts_from_operator_mappings (JArr (map dump_concept (gr_concepts r))) = Inr cs \<Longrightarrow> env_fits ge cs"
  shows "run_outcome g' d"
proof -
  let ?rows = "map dump_concept (gr_concepts r)" and ?ops = "postgres_publisher (ge_type_name ge) e"
  let ?m = "gateway_generate ?ops ge (gr_region r) ?rows d"
  obtain r1 g1 where m: "?m g = (r1, g1)" by force
  have "case r1 of Inr _ \<Rightarrow> run_outcome g1 d | Inl _ \<Rightarrow> unfinished g1 d"
  proof (cases "concepts_from_operator_mappings (JArr ?rows)")
    case (Inl err)
    then have "r1 = Inl err" "g1 = g" using m by (simp_all add: gateway_generate_def bind_act_def pure_err_def)
    then show ?thesis using st by simp
  next
    case (Inr cs)
    let ?br = "operator_request (gr_region r) cs d"
    obtain r2 g2 where b: "build_deck ?ops ge ?br zero_metrics g = (r2, g2)" by force
    have d: "br_deck ?br = Some d" "\<not> br_progressive ?br" by (simp_all add: operator_request_def)
    have "case r2 of
        Inr res \<Rightarrow> deck_status_of g2 d = Some (br_final ?br) \<and> complete_deck n_decoys (db_cards res) (pg_deck g2 d)
          \<and> (\<exists>cs'. chosen_concepts ge ?br = Inr cs' \<and> result_sound ge cs' zero_metrics res)
      | Inl err \<Rightarrow> pg_deck g2 d = {} \<and> unfinished g2 d"
      by (rule atomic_build [OF b d st]) (use fits [OF Inr] in \<open>auto dest: chosen_operator\<close>)
    moreover have "cs \<noteq> []" using operator_concepts_length [OF Inr] req by (auto simp: generate_request_ok_def)
    moreover have "g1 = g2" "r1 = (case r2 of Inr _ \<Rightarrow> Inr () | Inl err \<Rightarrow> Inl err)"
      using m b Inr by (auto simp: gateway_generate_def bind_act_def pure_err_def split: sum.splits)
    ultimately show ?thesis
      by (cases r2) (auto simp: run_outcome_def operator_request_def dest: chosen_operator [unfolded operator_request_def] intro: result_playable)
  qed
  from recorded_outcome [OF run [unfolded run_generation_def] m this] show ?thesis .
qed

lemma map_err_length: "map_err f xs = Inr ys \<Longrightarrow> length ys = length xs"
  by (auto simp: map_err_Inr dest: list_all2_lengthD)

lemma operator_rows_length: "operator_rows_from_payload n raw = Inr rows \<Longrightarrow> length rows = n"
  by (auto simp: operator_rows_from_payload_def dest: map_err_length split: json.splits if_splits sum.splits)

lemma invented_Inr: "invented n raw = Inr cs \<Longrightarrow> length cs = n \<and> distinct (map co_id cs)"
  by (auto simp: invented_def concepts_from_operator_mappings_def
      dest!: operator_rows_length operator_concepts_from_Inr split: sum.splits)

lemma invent_from_Inr:
  "invent_from type_name cl n attempt left why m = (Inr cs, m') \<Longrightarrow> length cs = n \<and> distinct (map co_id cs)"
proof (induction left arbitrary: attempt why m)
  case (Suc left)
  obtain raw where raw: "gc_invent cl attempt = Inr raw" using Suc.prems by (cases "gc_invent cl attempt") simp_all
  show ?case
  proof (cases "invented n raw")
    case (Inl err)
    then show ?thesis using Suc raw by (auto simp: Let_def split: if_splits)
  next
    case (Inr cs')
    then have "cs' = cs" using Suc.prems raw by (simp add: Let_def split: if_splits)
    then show ?thesis using invented_Inr Inr by blast
  qed
qed simp

lemma invent_concepts_Inr:
  assumes "invent_concepts_from_prompt type_name cl region n m = (Inr cs, m')"
  shows "length cs = n \<and> distinct (map co_id cs) \<and> prompt_min_card_count \<le> n \<and> n \<le> prompt_max_card_count"
proof -
  have n: "prompt_min_card_count \<le> n \<and> n \<le> prompt_max_card_count"
    using assms by (auto simp: invent_concepts_from_prompt_def split: if_splits)
  obtain ctx where "resolve_region_context (py_lower (strip region)) = Inr ctx"
    using assms n by (cases "resolve_region_context (py_lower (strip region))") (auto simp: invent_concepts_from_prompt_def)
  then have "invent_from type_name cl n 0 (max_concept_gen_retries + 1) ''unknown'' m = (Inr cs, m')"
    using assms n by (simp add: invent_concepts_from_prompt_def)
  from invent_from_Inr [OF this] n show ?thesis by simp
qed

lemma prompt_build:
  assumes run: "build_deck_from_prompt (postgres_publisher (ge_type_name ge) e) ge region theme n d Deck_ready g = (res, g')"
    and st: "deck_status_of g d = Some Deck_generating" "pg_deck g d = {}"
    and fits: "\<And>cs m. invent_concepts_from_prompt (ge_type_name ge) (ge_client ge) region n zero_metrics = (Inr cs, m) \<Longrightarrow> env_fits ge cs"
  shows "case res of Inr _ \<Rightarrow> run_outcome g' d | Inl _ \<Rightarrow> unfinished g' d"
proof -
  let ?ops = "postgres_publisher (ge_type_name ge) e"
  define first where "first = bind_act (on_snd (po_update_state ?ops d
           (Some [(''region'', JStr (py_lower (strip region))), (''prompt'', JStr theme),
              (''card_count'', JInt (int n)), (''source'', JStr ''prompt''), (''concepts'', JArr [])])
           (Some (progress_metrics (ge_round ge) zero_metrics (ge_elapsed ge 0) ''inventing_concepts'' n 0))))
         (\<lambda>_. on_fst (invent_concepts_from_prompt (ge_type_name ge) (ge_client ge) region n))"
  obtain r1 m1 g1 where f: "first (zero_metrics, g) = (r1, (m1, g1))" by (metis surj_pair)
  have "keeps (\<lambda>p. deck_status_of (snd p) d = Some Deck_generating \<and> pg_deck (snd p) d = {}) first"
    unfolding first_def
    by (intro keeps_bind keeps_on_snd keeps_run) (auto simp: postgres_publisher_def on_fst_eq dest!: pg_update_state_spec)
  from keepsD [OF this _ f] st have g1: "deck_status_of g1 d = Some Deck_generating" "pg_deck g1 d = {}" by simp_all
  have run: "(case (r1, (m1, g1)) of
        (Inl err, (_, s')) \<Rightarrow> (Inl err, snd (po_mark_failed ?ops d (generation_failed ge err) s'))
      | (Inr cs, (m, s')) \<Rightarrow> build_deck ?ops ge (prompt_request region theme cs d Deck_ready) m s') = (res, g')"
    using run f unfolding build_deck_from_prompt_def first_def by simp
  show ?thesis
  proof (cases r1)
    case (Inl err)
    obtain r2 where "pg_mark_failed e d (generation_failed ge err) g1 = (r2, g')" and res: "res = Inl err"
      using run Inl by (cases "pg_mark_failed e d (generation_failed ge err) g1") (auto simp: postgres_publisher_def)
    from pg_mark_failed_spec [OF this(1)] g1 res show ?thesis by auto
  next
    case (Inr cs)
    let ?br = "prompt_request region theme cs d Deck_ready"
    have d: "br_deck ?br = Some d" "br_progressive ?br" by (simp_all add: prompt_request_def)
    have inv: "invent_concepts_from_prompt (ge_type_name ge) (ge_client ge) region n zero_metrics = (Inr cs, m1)"
      using f Inr by (auto simp: first_def seq_eqs)
    have b: "build_deck ?ops ge ?br m1 g1 = (res, g')" using run Inr by simp
    have "case res of
        Inr res \<Rightarrow> deck_status_of g' d = Some (br_final ?br) \<and> complete_deck n_decoys (db_cards res) (pg_deck g' d)
          \<and> (\<exists>cs'. chosen_concepts ge ?br = Inr cs' \<and> result_sound ge cs' m1 res)
      | Inl err \<Rightarrow> unfinished g' d"
      by (rule progressive_build [OF b d g1]) (use fits [OF inv] in \<open>auto dest: chosen_prompt\<close>)
    moreover have "cs \<noteq> []" using invent_concepts_Inr [OF inv] by (auto simp: prompt_min_card_count_def)
    ultimately show ?thesis
      by (cases res) (auto simp: run_outcome_def prompt_request_def dest: chosen_prompt [unfolded prompt_request_def] intro: result_playable)
  qed
qed

lemma run_prompt_generation_outcome:
  assumes run: "run_prompt_generation e ge mf d r g = (res, g')"
    and st: "deck_status_of g d = Some Deck_generating" "pg_deck g d = {}"
    and fits: "\<And>cs m. invent_concepts_from_prompt (ge_type_name ge) (ge_client ge) (pg_region r) (pg_card_count r) zero_metrics
        = (Inr cs, m) \<Longrightarrow> env_fits ge cs"
  shows "run_outcome g' d"
proof -
  let ?ops = "postgres_publisher (ge_type_name ge) e"
  obtain r2 g2 where b: "build_deck_from_prompt ?ops ge (pg_region r) (pg_prompt r) (pg_card_count r) d Deck_ready g = (r2, g2)" by force
  then have m: "gateway_from_prompt ?ops ge (pg_region r) (pg_prompt r) (pg_card_count r) d g
      = (case r2 of Inl err \<Rightarrow> Inl err | Inr _ \<Rightarrow> Inr (), g2)"
    by (cases r2) (simp_all add: gateway_from_prompt_def bind_act_def)
  from prompt_build [OF b st fits]
  show ?thesis by (intro recorded_outcome [OF run [unfolded run_prompt_generation_def] m]) (cases r2; simp)+
qed

lemma run_same:
  assumes "j \<noteq> d"
  shows "keeps (same_deck j g0) (run_generation e ge mf d r)" "keeps (same_deck j g0) (run_prompt_generation e ge mf d pr)"
proof -
  let ?ops = "postgres_publisher (ge_type_name ge) e"
  have rec: "keeps (same_deck j g0) (recorded ge mf d m)" if "keeps (same_deck j g0) m" for m
  proof (rule keeps_run)
    fix g res g'
    assume g: "same_deck j g0 g" and run: "recorded ge mf d m g = (res, g')"
    obtain r1 g1 where m: "m g = (r1, g1)" by force
    have g1: "same_deck j g0 g1" using keepsD [OF that g m] .
    have "g' = g1 \<or> (\<exists>why. repo_mark_failed d why g1 = (Inr (), g'))" using recorded_cases [OF run m] by (auto split: sum.splits)
    then show "same_deck j g0 g'" using g1 keepsD [OF pg_operations_same(6) [OF assms] g1] by blast
  qed
  have build: "keeps (same_deck j g0) (build_deck ?ops ge br m0)" if "br_deck br = Some d" for br m0
    using build_deck_same [OF that assms] .
  have "keeps (same_deck j g0) (gateway_generate ?ops ge region rows d)" for region rows
    unfolding gateway_generate_def by (intro keeps_bind keeps_pure keeps_ret build) (simp add: operator_request_def)
  then show "keeps (same_deck j g0) (run_generation e ge mf d r)" unfolding run_generation_def by (rule rec)
  have "keeps (same_deck j g0) (build_deck_from_prompt ?ops ge region theme n d final)" for region theme n final
  proof (rule keeps_run)
    fix g res g'
    assume g: "same_deck j g0 g" and run: "build_deck_from_prompt ?ops ge region theme n d final g = (res, g')"
    have step: "keeps (\<lambda>p. same_deck j g0 (snd p)) (bind_act (on_snd (po_update_state ?ops d x y)) (\<lambda>_. on_fst f))" for x y f
      using pg_operations_same(2) [OF assms] by (intro keeps_bind keeps_on_snd keeps_on_fst) (simp add: postgres_publisher_def)
    have first: "same_deck j g0 b"
      if "bind_act (on_snd (po_update_state ?ops d x y)) (\<lambda>_. on_fst f) (m, g) = (r, (a, b))" for x y f m r a b
      using keepsD [OF step _ that] g by simp
    have mark: "same_deck j g0 (snd (po_mark_failed ?ops d why s))" if "same_deck j g0 s" for why s
      using pg_operations_same(5) [OF assms] that by (simp add: postgres_publisher_def keeps_def)
    have bld: "same_deck j g0 (snd (build_deck ?ops ge br m s))" if "same_deck j g0 s" "br_deck br = Some d" for br m s
      using build [OF that(2)] that(1) by (simp add: keeps_def)
    have "same_deck j g0 (snd (build_deck_from_prompt ?ops ge region theme n d final g))"
      unfolding build_deck_from_prompt_def using g
      by (auto split: sum.split prod.split simp: prompt_request_def dest!: first intro!: mark bld)
    then show "same_deck j g0 g'" using run by simp
  qed
  then have "keeps (same_deck j g0) (gateway_from_prompt ?ops ge region prompt n d)" for region prompt n
    unfolding gateway_from_prompt_def by (intro keeps_bind keeps_ret)
  then show "keeps (same_deck j g0) (run_prompt_generation e ge mf d pr)" unfolding run_prompt_generation_def by (rule rec)
qed

end
