(* ===== verification/Deck_Lifecycle.thy ===== *)
theory Deck_Lifecycle
  imports Deck_Admin_Laws
begin

text \<open>
  The life of decks under the deck control service, as a step relation over the tables and the
  scheduled background runs, and what every reachable state satisfies; then the safety of the
  review's media URLs.  A background run is one step: it touches its own deck only (\<open>run_same\<close>).
\<close>

section \<open>Steps\<close>

datatype scheduled = Run_concepts generate_request | Run_prompt prompt_generate_request

record admin_state =
  ad_db :: deck_db
  ad_runs :: "(uuid, scheduled) dict"

text \<open>The ids of new cards fit the concepts the run ends up with.\<close>

definition run_fits :: "gen_env \<Rightarrow> scheduled \<Rightarrow> bool" where
  "run_fits ge job =
     (case job of
        Run_concepts r \<Rightarrow> (case concepts_from_operator_mappings (JArr (map dump_concept (gr_concepts r))) of
            Inl _ \<Rightarrow> True | Inr cs \<Rightarrow> env_fits ge cs)
      | Run_prompt r \<Rightarrow> (case fst (invent_concepts_from_prompt (ge_type_name ge) (ge_client ge) (pg_region r)
            (pg_card_count r) zero_metrics) of Inl _ \<Rightarrow> True | Inr cs \<Rightarrow> env_fits ge cs))"

definition run_job :: "pub_env \<Rightarrow> gen_env \<Rightarrow> py_error option \<Rightarrow> uuid \<Rightarrow> scheduled \<Rightarrow> (deck_db, unit) act" where
  "run_job e ge mark_fault d job =
     (case job of
        Run_concepts r \<Rightarrow> run_generation e ge mark_fault d r
      | Run_prompt r \<Rightarrow> run_prompt_generation e ge mark_fault d r)"

inductive admin_step :: "admin_state \<Rightarrow> admin_state \<Rightarrow> bool" where
  start: "admin_step s \<lparr> ad_db = g', ad_runs = (d, Run_concepts r) # ad_runs s \<rparr>"
    if "generate_request_ok r" and "deck_status_of (ad_db s) fresh = None"
      and "start_generation fresh now r (ad_db s) = (Inr (d, st), g')"
| start_prompt: "admin_step s \<lparr> ad_db = g', ad_runs = (d, Run_prompt r') # ad_runs s \<rparr>"
    if "prompt_generate_request r = Inr r'" and "deck_status_of (ad_db s) fresh = None"
      and "start_prompt_generation fresh now r' (ad_db s) = (Inr (d, st), g')"
| finish: "admin_step s \<lparr> ad_db = g', ad_runs = AList.delete d (ad_runs s) \<rparr>"
    if "map_of (ad_runs s) d = Some job" and "run_fits ge job" and "run_job e ge mark_fault d job (ad_db s) = (res, g')"
| activate: "admin_step s (s\<lparr>ad_db := g'\<rparr>)"
    if "activate now d (ad_db s) = (res, g')"
| restart: "admin_step s (s\<lparr>ad_runs := []\<rparr>)"

inductive_cases admin_stepE: "admin_step s s'"

text \<open>The program starts on empty deck tables.\<close>

definition admin_start :: "admin_state \<Rightarrow> bool" where
  "admin_start s \<longleftrightarrow> dt_decks (ad_db s) = [] \<and> dt_cards (ad_db s) = [] \<and> ad_runs s = []"

inductive admin_reachable :: "admin_state \<Rightarrow> bool" where
  init: "admin_reachable s" if "admin_start s"
| step: "admin_reachable s'" if "admin_reachable s" and "admin_step s s'"

section \<open>Invariant\<close>

definition playable_status :: "deck_status \<Rightarrow> bool" where
  "playable_status st \<longleftrightarrow> st = Deck_ready \<or> st = Deck_live"

definition sole_live :: "deck_db \<Rightarrow> bool" where
  "sole_live g \<longleftrightarrow> (\<forall>i j. deck_status_of g i = Some Deck_live \<longrightarrow> deck_status_of g j = Some Deck_live \<longrightarrow> i = j)"

definition decks_playable :: "deck_db \<Rightarrow> bool" where
  "decks_playable g \<longleftrightarrow> (\<forall>i st. deck_status_of g i = Some st \<longrightarrow> playable_status st \<longrightarrow> playable_deck (pg_deck g i))"

definition no_orphans :: "deck_db \<Rightarrow> bool" where
  "no_orphans g \<longleftrightarrow> (\<forall>i. deck_status_of g i = None \<longrightarrow> pg_deck g i = {})"

definition runs_fresh :: "admin_state \<Rightarrow> bool" where
  "runs_fresh s \<longleftrightarrow> distinct (map fst (ad_runs s)) \<and> (\<forall>d job. map_of (ad_runs s) d = Some job \<longrightarrow>
     deck_status_of (ad_db s) d = Some Deck_generating \<and> pg_deck (ad_db s) d = {} \<and>
     (case job of Run_concepts r \<Rightarrow> generate_request_ok r | Run_prompt _ \<Rightarrow> True))"

definition admin_inv :: "admin_state \<Rightarrow> bool" where
  "admin_inv s \<longleftrightarrow> sole_live (ad_db s) \<and> decks_playable (ad_db s) \<and> no_orphans (ad_db s) \<and> runs_fresh s"

lemmas admin_inv_defs = admin_inv_def sole_live_def decks_playable_def no_orphans_def runs_fresh_def

lemma create_generating_spec:
  assumes "create_generating fresh now region inp g = (res, g')"
  shows "res = Inr fresh \<and> pg_deck g' = pg_deck g
    \<and> (\<forall>j. deck_status_of g' j = (if j = fresh then Some Deck_generating else deck_status_of g j))"
  using assms by (auto simp: create_generating_def)

lemma new_deck_inv:
  assumes inv: "admin_inv s" and fresh: "deck_status_of (ad_db s) d = None"
    and new: "create_generating d now region inp (ad_db s) = (res, g')"
    and job: "case job of Run_concepts r \<Rightarrow> generate_request_ok r | Run_prompt _ \<Rightarrow> True"
  shows "admin_inv \<lparr> ad_db = g', ad_runs = (d, job) # ad_runs s \<rparr>"
proof -
  note n = create_generating_spec [OF new]
  have "d \<notin> fst ` set (ad_runs s)"
  proof
    assume "d \<in> fst ` set (ad_runs s)"
    then obtain job' where "map_of (ad_runs s) d = Some job'" by (metis map_of_eq_None_iff not_None_eq)
    then show False using inv fresh unfolding admin_inv_def runs_fresh_def by (metis option.distinct(1))
  qed
  moreover have "sole_live g'" using inv n unfolding admin_inv_def sole_live_def
    by (metis deck_status.distinct(11) option.inject)
  moreover have "decks_playable g'" using inv n by (simp add: admin_inv_def decks_playable_def playable_status_def)
  moreover have "no_orphans g'" using inv n by (simp add: admin_inv_def no_orphans_def)
  moreover have "pg_deck (ad_db s) d = {}" using inv fresh by (simp add: admin_inv_def no_orphans_def)
  ultimately show ?thesis using inv n job by (auto simp: admin_inv_def runs_fresh_def)
qed

lemma run_job_outcome:
  assumes "run_job e ge mark_fault d job g = (res, g')" and "run_fits ge job"
    and "deck_status_of g d = Some Deck_generating" "pg_deck g d = {}"
    and "case job of Run_concepts r \<Rightarrow> generate_request_ok r | Run_prompt _ \<Rightarrow> True"
  shows "run_outcome g' d" "\<And>j. j \<noteq> d \<Longrightarrow> same_deck j g g'"
proof -
  show "run_outcome g' d"
  proof (cases job)
    case (Run_concepts r)
    then have fits: "env_fits ge cs" if "concepts_from_operator_mappings (JArr (map dump_concept (gr_concepts r))) = Inr cs" for cs
      using assms(2) that by (simp add: run_fits_def)
    from run_generation_outcome [OF _ assms(3,4) _ fits] assms(1,5) Run_concepts show ?thesis by (simp add: run_job_def)
  next
    case (Run_prompt r)
    then have fits: "env_fits ge cs" if "invent_concepts_from_prompt (ge_type_name ge) (ge_client ge) (pg_region r)
        (pg_card_count r) zero_metrics = (Inr cs, m)" for cs m
      using assms(2) that by (simp add: run_fits_def)
    from run_prompt_generation_outcome [OF _ assms(3,4) fits] assms(1) Run_prompt show ?thesis by (simp add: run_job_def)
  qed
  have "keeps (same_deck j g) (run_job e ge mark_fault d job)" if "j \<noteq> d" for j
    using run_same [OF that] by (cases job) (simp_all add: run_job_def)
  from keepsD [OF this _ assms(1)] show "same_deck j g g'" if "j \<noteq> d" for j using that by simp
qed

lemma run_job_inv:
  assumes inv: "admin_inv s" and job: "map_of (ad_runs s) d = Some job" and fits: "run_fits ge job"
    and run: "run_job e ge mark_fault d job (ad_db s) = (res, g')"
  shows "admin_inv \<lparr> ad_db = g', ad_runs = AList.delete d (ad_runs s) \<rparr>"
proof -
  have st: "deck_status_of (ad_db s) d = Some Deck_generating" "pg_deck (ad_db s) d = {}"
      and ok: "case job of Run_concepts r \<Rightarrow> generate_request_ok r | Run_prompt _ \<Rightarrow> True"
    using inv job unfolding admin_inv_def runs_fresh_def by blast+
  note out = run_job_outcome [OF run fits st ok]
  have other: "deck_status_of g' j = deck_status_of (ad_db s) j" "pg_deck g' j = pg_deck (ad_db s) j" if "j \<noteq> d" for j
    using out(2) [OF that] by (simp_all add: same_deck_def)
  have d: "deck_status_of g' d \<noteq> Some Deck_live" "deck_status_of g' d \<noteq> None"
    "deck_status_of g' d = Some Deck_ready \<Longrightarrow> playable_deck (pg_deck g' d)"
    using out(1) by (auto simp: run_outcome_def)
  have "sole_live g'" using inv other(1) d(1) unfolding admin_inv_def sole_live_def by metis
  moreover have "decks_playable g'"
    unfolding decks_playable_def
  proof (intro allI impI)
    fix i st
    assume "deck_status_of g' i = Some st" "playable_status st"
    then show "playable_deck (pg_deck g' i)"
      using inv other d by (cases "i = d") (auto simp: admin_inv_def decks_playable_def playable_status_def)
  qed
  moreover have "no_orphans g'" using inv other d(2) unfolding admin_inv_def no_orphans_def by metis
  moreover have "runs_fresh \<lparr> ad_db = g', ad_runs = AList.delete d (ad_runs s) \<rparr>"
    using inv other by (auto simp: admin_inv_def runs_fresh_def delete_conv' distinct_delete)
  ultimately show ?thesis by (simp add: admin_inv_def)
qed

definition activation_answer :: "uuid \<Rightarrow> py_error + (deck_status \<times> deck_row option) option \<Rightarrow> py_error + uuid \<times> deck_status" where
  "activation_answer d r =
     (case r of
        Inl err \<Rightarrow> Inl err
      | Inr None \<Rightarrow> Inl (AdminError 404 ''Deck not found'')
      | Inr (Some (st, None)) \<Rightarrow> Inl (AdminError 409
          (''Deck must be ready before activation (current: '' @ deck_status_text st @ '')''))
      | Inr (Some (st, Some row)) \<Rightarrow> Inr (d, Deck_live))"

lemma activate_runs: "repo_activate now d g = (r, g') \<Longrightarrow> activate now d g = (activation_answer d r, g')"
  by (simp add: activate_def activation_answer_def bind_act_def throw_def ret_def split: sum.split option.split prod.split)

text \<open>Activation either changes nothing or makes a ready or live deck the only live one.\<close>

lemma activate_spec:
  assumes "activate now d g = (res, g')"
  shows "(case res of Inl _ \<Rightarrow> g' = g
    | Inr out \<Rightarrow> out = (d, Deck_live) \<and> (\<exists>st. deck_status_of g d = Some st \<and> playable_status st) \<and> pg_deck g' = pg_deck g \<and>
        (\<forall>i. deck_status_of g' i = (if i = d then Some Deck_live
          else if deck_status_of g i = Some Deck_live then Some Deck_ready else deck_status_of g i)))"
proof -
  obtain r g1 where run: "repo_activate now d g = (r, g1)" by force
  with activate_runs [OF run] assms have res: "res = activation_answer d r" and run: "repo_activate now d g = (r, g')" by auto
  note spec = repo_activate_spec [OF run]
  show ?thesis
  proof (cases r)
    case (Inl err)
    then show ?thesis using spec by simp
  next
    case (Inr out)
    show ?thesis
    proof (cases out)
      case None
      then show ?thesis using spec res Inr by (simp add: activation_answer_def)
    next
      case (Some p)
      obtain st row where p: "p = (st, row)" by (cases p)
      show ?thesis
      proof (cases row)
        case None
        then show ?thesis using spec res Inr Some p by (simp add: activation_answer_def)
      next
        case (Some r')
        then have "res = Inr (d, Deck_live)" using res Inr \<open>out = Some p\<close> p by (simp add: activation_answer_def)
        moreover have "deck_status_of g' d = Some Deck_live" "deck_status_of g d = Some st" "playable_status st"
          "dt_cards g' = dt_cards g" "\<forall>i. i \<noteq> d \<longrightarrow> deck_status_of g' i =
            (if deck_status_of g i = Some Deck_live then Some Deck_ready else deck_status_of g i)"
          using spec Inr \<open>out = Some p\<close> p Some by (auto simp: deck_status_of_def playable_status_def)
        moreover from this have "pg_deck g' = pg_deck g" by (simp add: pg_deck_def fun_eq_iff)
        ultimately show ?thesis by simp
      qed
    qed
  qed
qed

lemma activate_inv:
  assumes inv: "admin_inv s" and run: "activate now d (ad_db s) = (res, g')"
  shows "admin_inv (s\<lparr>ad_db := g'\<rparr>)"
proof (cases res)
  case (Inl err)
  then show ?thesis using activate_spec [OF run] inv by simp
next
  case (Inr out)
  with activate_spec [OF run] obtain st where st: "deck_status_of (ad_db s) d = Some st" "playable_status st"
      and deck: "pg_deck g' = pg_deck (ad_db s)"
      and new: "\<forall>i. deck_status_of g' i = (if i = d then Some Deck_live
        else if deck_status_of (ad_db s) i = Some Deck_live then Some Deck_ready else deck_status_of (ad_db s) i)" by auto
  have play: "playable_deck (pg_deck (ad_db s) i)"
    if "deck_status_of (ad_db s) i = Some Deck_ready \<or> deck_status_of (ad_db s) i = Some Deck_live" for i
    using that inv by (auto simp: admin_inv_def decks_playable_def playable_status_def)
  have "sole_live g'" using new by (auto simp: sole_live_def split: if_splits)
  moreover have "decks_playable g'"
    using new deck play st by (auto simp: decks_playable_def playable_status_def split: if_splits)
  moreover have "no_orphans g'" using inv new deck by (auto simp: admin_inv_def no_orphans_def split: if_splits)
  moreover have "deck_status_of g' i = Some Deck_generating" if "deck_status_of (ad_db s) i = Some Deck_generating" for i
    using new st that by (auto simp: playable_status_def)
  then have "runs_fresh (s\<lparr>ad_db := g'\<rparr>)" using inv deck by (auto simp: admin_inv_def runs_fresh_def)
  ultimately show ?thesis by (simp add: admin_inv_def)
qed

lemma started:
  "bind_act (create_generating fresh now region inp) (\<lambda>i. ret (i, Deck_generating)) g = (Inr (d, st), g') \<Longrightarrow>
     d = fresh \<and> create_generating fresh now region inp g = (Inr fresh, g')"
  by (auto simp: bind_act_Inr create_generating_def)

lemma admin_step_inv: "admin_step s s' \<Longrightarrow> admin_inv s \<Longrightarrow> admin_inv s'"
proof (induction rule: admin_step.induct)
  case (start r s fresh now d st g')
  note run = started [OF start(3) [unfolded start_generation_def]]
  from new_deck_inv [OF start(4,2) conjunct2 [OF run], of "Run_concepts r"] start(1) run show ?case by simp
next
  case (start_prompt r r' s fresh now d st g')
  note run = started [OF start_prompt(3) [unfolded start_prompt_generation_def]]
  from new_deck_inv [OF start_prompt(4,2) conjunct2 [OF run], of "Run_prompt r'"] run show ?case by simp
next
  case (finish s d job ge e mark_fault res g')
  then show ?case using run_job_inv by blast
next
  case (activate now d s res g')
  then show ?case using activate_inv by blast
next
  case (restart s)
  then show ?case by (simp add: admin_inv_def runs_fresh_def)
qed

lemma admin_start_inv: "admin_start s \<Longrightarrow> admin_inv s"
  by (auto simp: admin_start_def admin_inv_defs deck_status_of_def pg_deck_def)

lemma admin_reachable_inv: "admin_reachable s \<Longrightarrow> admin_inv s"
  by (induction rule: admin_reachable.induct) (auto intro: admin_start_inv admin_step_inv)

end
