(* ===== verification/Deck_Healthy.thy ===== *)
theory Deck_Healthy
  imports Deck_Lifecycle
begin

text \<open>
  Liveness of generation: when the provider's answers pass the checks within the retry budget and the
  database takes the writes, a prompt run ends with the deck ready.
\<close>

section \<open>Steps that cannot fail\<close>

definition healthy :: "pub_env \<Rightarrow> bool" where
  "healthy e \<longleftrightarrow> pe_fault e = (\<lambda>site. None)"

lemma pg_persist_ok:
  assumes "healthy e" and "image_file_extension (cr_image c) = Inr ext"
    and st: "deck_status_of g d = Some Deck_generating" and new: "cr_id c \<notin> fst ` set (dt_cards g)"
  shows "\<exists>path g'. pg_persist_card e d c m g = (Inr path, g') \<and> deck_status_of g' = deck_status_of g
    \<and> fst ` set (dt_cards g') \<subseteq> insert (cr_id c) (fst ` set (dt_cards g))"
proof -
  obtain r where r: "map_of (dt_decks g) d = Some r" "dk_status r = Deck_generating"
    using st by (auto simp: deck_status_of_Some)
  have none: "map_of (dt_cards g) (cr_id c) = None" using new by (simp add: map_of_eq_None_iff)
  have cards: "dt_cards (set_metrics d m h) = dt_cards h" for h
    by (auto simp: set_metrics_def split: option.split)
  have dirs: "dt_cards (make_dir d h) = dt_cards h" "dt_decks (make_dir d h) = dt_decks h"
    "dt_cards (write_image d f img h) = dt_cards h" "dt_decks (write_image d f img h) = dt_decks h" for h f img
    by (simp_all add: make_dir_def write_image_def)
  obtain path g' where run: "pg_persist_card e d c m g = (Inr path, g')"
    using assms(1,2) r none
    by (cases "existing_card d (cr_concept c) (make_dir d g)")
      (auto simp: pg_persist_card_def healthy_def require_generating_def Let_def dirs)
  moreover have "fst ` set (dt_cards g') \<subseteq> insert (cr_id c) (fst ` set (dt_cards g))"
    using run assms(1,2) r none
    by (cases "existing_card d (cr_concept c) (make_dir d g)")
      (auto simp: pg_persist_card_def healthy_def require_generating_def Let_def cards dirs update_new [OF none] split: if_splits)
  ultimately show ?thesis using pg_persist_card_spec [OF run] by blast
qed

lemma pg_update_ok: "healthy e \<Longrightarrow> \<exists>g'. pg_update_state e d x y g = (Inr (), g')"
  by (simp add: pg_update_state_def healthy_def failing_def bind_act_def ret_def)

lemma pg_update_cards: "pg_update_state e d x y g = (res, g') \<Longrightarrow> dt_cards g' = dt_cards g"
  by (auto simp: pg_update_state_def bind_act_def failing_cases split: if_splits option.splits)

lemma pg_finalize_ok:
  "healthy e \<Longrightarrow> deck_status_of g d = Some Deck_generating \<Longrightarrow> final_status_ok final \<Longrightarrow>
     \<exists>r g'. pg_finalize e d dm md final g = (Inr r, g')"
  by (auto simp: pg_finalize_def healthy_def require_generating_def deck_status_of_Some Let_def)

lemma postgres_ops [simp]:
  "po_publish (postgres_publisher type_name e) = pg_publish type_name e"
  "po_mark_failed (postgres_publisher type_name e) = pg_mark_failed e"
  "po_update_state (postgres_publisher type_name e) = pg_update_state e"
  "po_persist_card (postgres_publisher type_name e) = pg_persist_card e"
  "po_finalize (postgres_publisher type_name e) = pg_finalize e"
  by (simp_all add: postgres_publisher_def)

section \<open>Provider answers\<close>

text \<open>The image a concept ends up with, whatever the counters show.\<close>

definition draws :: "gen_env \<Rightarrow> build_request \<Rightarrow> string \<Rightarrow> (string \<Rightarrow> bytes) \<Rightarrow> concept \<Rightarrow> bool" where
  "draws ge br ctx img c \<longleftrightarrow> (\<exists>ext. image_file_extension (img (co_id c)) = Inr ext) \<and>
     (\<forall>m. fst (generate_verified_image (ge_py_str ge) (ge_texts ge) (ge_client ge) c
       (case co_locale c of Some l \<Rightarrow> if l \<noteq> [] then l else ctx | None \<Rightarrow> ctx) (image_retries br) m) = Inr (img (co_id c)))"

definition card_built :: "gen_env \<Rightarrow> (string \<Rightarrow> bytes) \<Rightarrow> label_table \<Rightarrow> concept \<Rightarrow> built_card" where
  "card_built ge img translated c =
     \<lparr> bc_id = ge_card_id ge (co_id c), bc_concept = c, bc_image = img (co_id c),
       bc_labels = the (map_of translated (co_id c)), bc_decoys = [] \<rparr>"

lemma fst_translate: "fst (translate_labels_batch py_str cl cs m) = fst (translate_labels_batch py_str cl cs m')"
  by (simp add: translate_labels_batch_def split: sum.split)

lemma fst_select: "fst (select_decoys_batch py_str cl built n m) = fst (select_decoys_batch py_str cl built n m')"
  by (simp add: select_decoys_batch_def split: sum.split)

lemma build_card_ok:
  assumes "draws ge br ctx img c" and "map_of translated (co_id c) \<noteq> None"
  shows "\<exists>m'. build_card ge br ctx translated c m = (Inr (card_built ge img translated c), m')"
proof -
  let ?gen = "generate_verified_image (ge_py_str ge) (ge_texts ge) (ge_client ge) c
       (case co_locale c of Some l \<Rightarrow> if l \<noteq> [] then l else ctx | None \<Rightarrow> ctx) (image_retries br) m"
  have "fst ?gen = Inr (img (co_id c))" using assms(1) by (simp add: draws_def)
  then obtain m' where "?gen = (Inr (img (co_id c)), m')" by (cases ?gen) auto
  then show ?thesis using assms(2)
    by (cases "map_of translated (co_id c)") (simp_all add: build_card_def bind_act_def card_built_def ret_def)
qed

definition ids_new :: "gen_env \<Rightarrow> concept list \<Rightarrow> deck_db \<Rightarrow> bool" where
  "ids_new ge cs g \<longleftrightarrow> distinct (map (\<lambda>c. ge_card_id ge (co_id c)) cs)
     \<and> (\<lambda>c. ge_card_id ge (co_id c)) ` set cs \<inter> fst ` set (dt_cards g) = {}"

lemma disjoint_grown: "B \<subseteq> insert x K \<Longrightarrow> x \<notin> A \<Longrightarrow> A \<inter> K = {} \<Longrightarrow> A \<inter> B = {}"
  by blast

lemma build_cards_ok:
  "healthy e \<Longrightarrow> br_deck br = Some d \<Longrightarrow> br_progressive br \<Longrightarrow> deck_status_of g d = Some Deck_generating \<Longrightarrow>
     ids_new ge cs g \<Longrightarrow> \<forall>c \<in> set cs. draws ge br ctx img c \<and> map_of translated (co_id c) \<noteq> None \<Longrightarrow>
     \<exists>m' g'. build_cards (postgres_publisher type_name e) ge br ctx translated target ready cs (m, g)
       = (Inr (map (card_built ge img translated) cs), (m', g')) \<and> deck_status_of g' d = Some Deck_generating"
proof (induction cs arbitrary: ready m g)
  case (Cons c cs)
  let ?b = "card_built ge img translated c"
  let ?upd = "Some (progress_metrics (ge_round ge) (ge_counters ge (ready + 1)) (ge_elapsed ge (ready + 1))
    ''generating_images'' target (ready + 1))"
  obtain m1 where card: "build_card ge br ctx translated c m = (Inr ?b, m1)" using build_card_ok Cons.prems(6) by fastforce
  have id: "cr_id (record_of ?b []) = ge_card_id ge (co_id c)" "cr_image (record_of ?b []) = img (co_id c)"
    by (simp_all add: record_of_def card_built_def)
  obtain ext where ext: "image_file_extension (cr_image (record_of ?b [])) = Inr ext"
    using Cons.prems(6) id(2) by (auto simp: draws_def)
  have "cr_id (record_of ?b []) \<notin> fst ` set (dt_cards g)" using Cons.prems(5) id(1) by (auto simp: ids_new_def)
  from pg_persist_ok [OF Cons.prems(1) ext Cons.prems(4) this] obtain path g1 where
      persist: "pg_persist_card e d (record_of ?b []) ?upd g = (Inr path, g1)" "deck_status_of g1 = deck_status_of g"
      "fst ` set (dt_cards g1) \<subseteq> insert (ge_card_id ge (co_id c)) (fst ` set (dt_cards g))" using id(1) by fastforce
  have ids: "distinct (map (\<lambda>c. ge_card_id ge (co_id c)) cs)" "ge_card_id ge (co_id c) \<notin> (\<lambda>c. ge_card_id ge (co_id c)) ` set cs"
    "(\<lambda>c. ge_card_id ge (co_id c)) ` set cs \<inter> fst ` set (dt_cards g) = {}" using Cons.prems(5) by (auto simp: ids_new_def)
  have new: "ids_new ge cs g1" using ids(1) disjoint_grown [OF persist(3) ids(2,3)] by (simp add: ids_new_def)
  have st1: "deck_status_of g1 d = Some Deck_generating" using persist(2) Cons.prems(4) by simp
  have all: "\<forall>c \<in> set cs. draws ge br ctx img c \<and> map_of translated (co_id c) \<noteq> None" using Cons.prems(6) by simp
  obtain m' g' where
    rest: "build_cards (postgres_publisher type_name e) ge br ctx translated target (ready + 1) cs (m1, g1)
       = (Inr (map (card_built ge img translated) cs), (m', g'))" and st: "deck_status_of g' d = Some Deck_generating"
    using Cons.IH [OF Cons.prems(1-3) st1 new all] by blast
  have "build_cards (postgres_publisher type_name e) ge br ctx translated target ready (c # cs) (m, g)
      = (Inr (?b # map (card_built ge img translated) cs), (m', g'))"
    unfolding build_cards.simps Cons.prems(2) option.case if_P [OF Cons.prems(3)] bind_act_apply on_fst_def on_snd_def
      prod.case card sum.case postgres_ops persist(1) ret_apply rest by (rule refl)
  then show ?case using st by auto
qed (simp add: ret_def)

lemma map_err_total: "(\<And>x. x \<in> set xs \<Longrightarrow> \<exists>y. f x = Inr y) \<Longrightarrow> \<exists>ys. map_err f xs = Inr ys"
proof (induction xs)
  case (Cons x xs)
  obtain y where "f x = Inr y" using Cons.prems [of x] by auto
  moreover obtain ys where "map_err f xs = Inr ys" using Cons by auto
  ultimately show ?case by simp
qed simp

lemma set_update_subset: "set (AList.update k v m) \<subseteq> insert (k, v) (set m)"
  by (induction m) auto

lemma map_decoys_ok:
  assumes "check_decoys py_str n built raw = Inr by_card"
  shows "\<exists>uuids. map_decoy_concepts_to_card_uuids built by_card = Inr uuids"
proof -
  from assms obtain rows where rows: "decoy_rows py_str n built rows [] = Inr by_card"
    by (auto simp: check_decoys_def split: json.splits sum.splits if_splits)
  have known: "\<exists>s. map_of (card_of_concept built) x = Some s" if "x \<in> concept_str ` set built" for x
  proof -
    obtain b where "b \<in> set built" "x = concept_str b" using \<open>x \<in> concept_str ` set built\<close> by blast
    then have "List.find (\<lambda>b. co_id (bc_concept b) = x) (rev built) \<noteq> None"
      by (auto simp: find_None_iff concept_str_def)
    then show ?thesis by (auto simp: card_of_concept_def map_of_fold_update split: option.split)
  qed
  have all: "decoy_rows py_str n built rows mapping = Inr mapping' \<Longrightarrow>
      (\<forall>(i, ds) \<in> set mapping. set ds \<subseteq> concept_str ` set built) \<Longrightarrow>
      (\<forall>(i, ds) \<in> set mapping'. set ds \<subseteq> concept_str ` set built)" for mapping mapping'
  proof (induction rows arbitrary: mapping)
    case (Cons row rows)
    from Cons.prems(1) obtain i ds where row: "decoy_row py_str n built row = Inr (i, ds)"
        and rest: "decoy_rows py_str n built rows (AList.update i ds mapping) = Inr mapping'"
      by (cases "decoy_row py_str n built row") auto
    have "set ds \<subseteq> concept_str ` set built" using decoy_row_Inr [OF row] by (auto simp: decoys_ok_def)
    moreover have "set (AList.update i ds mapping) \<subseteq> insert (i, ds) (set mapping)" by (rule set_update_subset)
    ultimately show ?case using Cons.IH [OF rest] Cons.prems(2) by blast
  qed simp
  show ?thesis
    unfolding map_decoy_concepts_to_card_uuids_def
  proof (rule map_err_total)
    fix p
    assume p: "p \<in> set by_card"
    obtain i ds where p': "p = (i, ds)" by (cases p)
    have sub: "set ds \<subseteq> concept_str ` set built" using all [OF rows] p p' by auto
    have "\<exists>ss. map_err (\<lambda>x. case map_of (card_of_concept built) x of None \<Rightarrow> Inl KeyError | Some s \<Rightarrow> Inr s) ds = Inr ss"
    proof (intro map_err_total)
      fix x
      assume "x \<in> set ds"
      then obtain s where "map_of (card_of_concept built) x = Some s" using known sub by blast
      then show "\<exists>y. (case map_of (card_of_concept built) x of None \<Rightarrow> Inl KeyError | Some s \<Rightarrow> Inr s) = Inr y" by simp
    qed
    then show "\<exists>y. (\<lambda>(i, ds). try_in (map_err (\<lambda>x. case map_of (card_of_concept built) x of None \<Rightarrow> Inl KeyError
        | Some s \<Rightarrow> Inr s) ds) (\<lambda>ss. Inr (i, ss))) p = Inr y" using p' by auto
  qed
qed

section \<open>A whole run\<close>

text \<open>Good answers for the concepts of a run: images, translation and decoys.\<close>

definition answers_well :: "gen_env \<Rightarrow> build_request \<Rightarrow> string \<Rightarrow> (string \<Rightarrow> bytes) \<Rightarrow> concept list \<Rightarrow> bool" where
  "answers_well ge br ctx img cs \<longleftrightarrow> (\<forall>c \<in> set cs. draws ge br ctx img c) \<and>
     (\<exists>translated by_card.
        fst (translate_labels_batch (ge_py_str ge) (ge_client ge) cs zero_metrics) = Inr translated \<and>
        fst (select_decoys_batch (ge_py_str ge) (ge_client ge) (map (card_built ge img translated) cs) n_decoys zero_metrics)
          = Inr by_card)"

lemma in_order_built:
  assumes "env_fits ge cs"
  shows "in_order cs (map (card_built ge img translated) (ge_order ge cs)) = map (card_built ge img translated) cs"
proof -
  let ?f = "card_built ge img translated"
  let ?bs = "in_order cs (map ?f (ge_order ge cs))"
  have id: "map bc_concept (map ?f ds) = ds" for ds by (induction ds) (simp_all add: card_built_def)
  have o: "map bc_concept ?bs = cs" "set ?bs = ?f ` set (ge_order ge cs)"
    using in_order_spec [of cs "map ?f (ge_order ge cs)"] env_fits_order [OF assms] assms unfolding id env_fits_def by auto
  have "?f (bc_concept b) = b" if b: "b \<in> set ?bs" for b
  proof -
    from b o(2) obtain c where "b = ?f c" by blast
    then show ?thesis by (simp add: card_built_def)
  qed
  then have "map (?f \<circ> bc_concept) ?bs = ?bs" by (intro map_idI) simp
  then show ?thesis using o(1) by (metis map_map)
qed

lemma generation_input_ok:
  assumes "\<forall>c \<in> set cs. map_of (co_labels c) ''en'' \<noteq> None"
  shows "\<exists>gi. generation_input region cs seed operator_supplied source theme = Inr gi"
proof -
  have "\<exists>ys. map_err (\<lambda>c. try_in (label_en (co_labels c)) (\<lambda>t.
         Inr (JObj [(''concept_id'', JStr (co_id c)), (''label_en'', JStr t),
           (''locale'', (case co_locale c of None \<Rightarrow> JNull | Some l \<Rightarrow> JStr l)),
           (''cultural_hint'', (case co_hint c of None \<Rightarrow> JNull | Some h \<Rightarrow> JStr h))]))) cs = Inr ys"
  proof (rule map_err_total)
    fix c
    assume "c \<in> set cs"
    then obtain t where "label_en (co_labels c) = Inr t" using assms by (auto simp: label_en_def)
    then show "\<exists>y. try_in (label_en (co_labels c)) (\<lambda>t.
         Inr (JObj [(''concept_id'', JStr (co_id c)), (''label_en'', JStr t),
           (''locale'', (case co_locale c of None \<Rightarrow> JNull | Some l \<Rightarrow> JStr l)),
           (''cultural_hint'', (case co_hint c of None \<Rightarrow> JNull | Some h \<Rightarrow> JStr h))])) = Inr y" by simp
  qed
  then show ?thesis by (auto simp: generation_input_def)
qed

lemma translated_concepts:
  assumes "translate_labels_batch py_str cl cs m = (Inr t, m')"
  shows "\<forall>c \<in> set cs. map_of (co_labels c) ''en'' \<noteq> None"
proof -
  let ?f = "\<lambda>c. try_in (label_en (co_labels c)) (\<lambda>t. Inr (co_id c, t))"
  obtain payload where "map_err ?f cs = Inr payload"
    using assms by (cases "map_err ?f cs") (simp_all add: translate_labels_batch_def)
  then have "list_all2 (\<lambda>c y. ?f c = Inr y) cs payload" by (simp add: map_err_Inr)
  then show ?thesis
    by (induction rule: list_all2_induct) (auto simp: label_en_def split: option.splits)
qed

lemma build_deck_ok:
  assumes e: "healthy e" and d: "br_deck br = Some d" "br_progressive br" and st: "deck_status_of g d = Some Deck_generating"
    and final: "final_status_ok (br_final br)" and region: "resolve_region_context (py_lower (strip (br_region br))) = Inr ctx"
    and cs: "chosen_concepts ge br = Inr cs" and fits: "env_fits ge cs" and new: "ids_new ge (ge_order ge cs) g"
    and good: "answers_well ge br ctx img cs"
  shows "\<exists>r g'. build_deck (postgres_publisher type_name e) ge br m0 g = (Inr r, g')"
proof -
  let ?ops = "postgres_publisher type_name e" and ?region = "py_lower (strip (br_region br))"
  from good obtain translated by_card where
      draws: "\<forall>c \<in> set cs. draws ge br ctx img c"
      and t0: "fst (translate_labels_batch (ge_py_str ge) (ge_client ge) cs zero_metrics) = Inr translated"
      and s0: "fst (select_decoys_batch (ge_py_str ge) (ge_client ge) (map (card_built ge img translated) cs) n_decoys zero_metrics)
          = Inr by_card" unfolding answers_well_def by blast
  define built where "built = map (card_built ge img translated) cs"
  have tr: "\<exists>m'. translate_labels_batch (ge_py_str ge) (ge_client ge) cs m = (Inr translated, m')" for m
    using t0 fst_translate by (metis prod.collapse)
  have sel: "\<exists>m'. select_decoys_batch (ge_py_str ge) (ge_client ge) built n_decoys m = (Inr by_card, m')" for m
    using s0 fst_select unfolding built_def by (metis prod.collapse)
  obtain m1 where "translate_labels_batch (ge_py_str ge) (ge_client ge) cs m0 = (Inr translated, m1)" using tr by blast
  note tr0 = this and english = translated_concepts [OF this] and entries = translate_labels_batch_Inr [OF this]
  obtain gi where gi: "generation_input ?region cs (br_seed br) (br_concepts br \<noteq> None) (br_source br) (br_theme br) = Inr gi"
    using generation_input_ok [OF english] by blast
  obtain g1 where u1: "pg_update_state e d (Some gi)
      (Some (progress_metrics (ge_round ge) m0 (ge_elapsed ge 0) ''generating_images'' (length cs) 0)) g = (Inr (), g1)"
    using pg_update_ok [OF e] by blast
  have st1: "deck_status_of g1 d = Some Deck_generating" using pg_update_state_spec [OF u1] st by simp
  have new1: "ids_new ge (ge_order ge cs) g1" using new pg_update_cards [OF u1] by (simp add: ids_new_def)
  have all: "\<forall>c \<in> set (ge_order ge cs). draws ge br ctx img c \<and> map_of translated (co_id c) \<noteq> None"
    using draws entries env_fits_order(1) [OF fits] by simp
  obtain m2 g2 where cards: "build_cards ?ops ge br ctx translated (length cs) 0 (ge_order ge cs) (m1, g1)
      = (Inr (map (card_built ge img translated) (ge_order ge cs)), (m2, g2))" and st2: "deck_status_of g2 d = Some Deck_generating"
    using build_cards_ok [OF e d st1 new1 all] by blast
  note order = in_order_built [OF fits, of img translated, folded built_def]
  obtain g3 where u2: "pg_update_state e d None
      (Some (progress_metrics (ge_round ge) m2 (ge_elapsed ge (length cs + 1)) ''finalizing_decoys'' (length cs) (length built))) g2
      = (Inr (), g3)" using pg_update_ok [OF e] by blast
  have st3: "deck_status_of g3 d = Some Deck_generating" using pg_update_state_spec [OF u2] st2 by simp
  obtain m3 where sel2: "select_decoys_batch (ge_py_str ge) (ge_client ge) built n_decoys m2 = (Inr by_card, m3)" using sel by blast
  obtain raw where "check_decoys (ge_py_str ge) n_decoys built raw = Inr by_card" using select_decoys_batch_Inr [OF sel2] by blast
  from map_decoys_ok [OF this] obtain uuids where map: "map_decoy_concepts_to_card_uuids built by_card = Inr uuids" by blast
  obtain res g4 where fin: "pg_finalize e d uuids (Some (progress_metrics (ge_round ge) m3 (ge_total ge) ''ready'' (length cs)
      (length built))) (br_final br) g3 = (Inr res, g4)" using pg_finalize_ok [OF e st3 final] by blast
  have "build_body ?ops ge br ?region ctx (m0, g) = (Inr \<lparr> db_cards = map (\<lambda>b. b\<lparr>bc_decoys := decoys_of_card by_card b\<rparr>) built,
      db_metrics = m3, db_publish = res \<rparr>, (m3, g4))"
    unfolding build_body_def pure_err_def bind_act_apply on_fst_def on_snd_def gets_apply when_progressive_def d(1) option.case
      if_P [OF d(2)] postgres_ops cs gi prod.case sum.case fst_conv u1 tr0 cards order Let_def u2 sel2 map publish_built_def
    by (simp add: d fin)
  then show ?thesis using final d region by (simp add: build_deck_def)
qed

text \<open>Everything a prompt run depends on went well.\<close>

definition prompt_goes_well :: "pub_env \<Rightarrow> gen_env \<Rightarrow> uuid \<Rightarrow> prompt_generate_request \<Rightarrow> (string \<Rightarrow> bytes) \<Rightarrow> deck_db \<Rightarrow> bool" where
  "prompt_goes_well e ge d r img g \<longleftrightarrow> healthy e \<and>
     (case resolve_region_context (py_lower (strip (pg_region r))) of
        Inl _ \<Rightarrow> False
      | Inr ctx \<Rightarrow>
          (case fst (invent_concepts_from_prompt (ge_type_name ge) (ge_client ge) (pg_region r) (pg_card_count r) zero_metrics) of
             Inl _ \<Rightarrow> False
           | Inr cs \<Rightarrow> env_fits ge cs \<and> ids_new ge (ge_order ge cs) g
               \<and> answers_well ge (prompt_request (pg_region r) (pg_prompt r) cs d Deck_ready) ctx img cs))"

lemma prompt_run_ready:
  assumes well: "prompt_goes_well e ge d r img g" and st: "deck_status_of g d = Some Deck_generating" "pg_deck g d = {}"
  shows "\<exists>g'. run_prompt_generation e ge mf d r g = (Inr (), g') \<and> deck_status_of g' d = Some Deck_ready
    \<and> playable_deck (pg_deck g' d)"
proof -
  let ?ops = "postgres_publisher (ge_type_name ge) e" and ?n = "pg_card_count r"
  let ?invent = "invent_concepts_from_prompt (ge_type_name ge) (ge_client ge) (pg_region r) ?n zero_metrics"
  from well obtain ctx cs where e: "healthy e" and region: "resolve_region_context (py_lower (strip (pg_region r))) = Inr ctx"
      and inv0: "fst ?invent = Inr cs" and fits: "env_fits ge cs" and new: "ids_new ge (ge_order ge cs) g"
      and good: "answers_well ge (prompt_request (pg_region r) (pg_prompt r) cs d Deck_ready) ctx img cs"
    unfolding prompt_goes_well_def by (auto split: sum.splits)
  let ?br = "prompt_request (pg_region r) (pg_prompt r) cs d Deck_ready"
  obtain m1 where inv: "?invent = (Inr cs, m1)" using inv0 by (metis prod.collapse)
  obtain g1 where u: "pg_update_state e d
      (Some [(''region'', JStr (py_lower (strip (pg_region r)))), (''prompt'', JStr (pg_prompt r)),
         (''card_count'', JInt (int ?n)), (''source'', JStr ''prompt''), (''concepts'', JArr [])])
      (Some (progress_metrics (ge_round ge) zero_metrics (ge_elapsed ge 0) ''inventing_concepts'' ?n 0)) g = (Inr (), g1)"
    using pg_update_ok [OF e] by blast
  have st1: "deck_status_of g1 d = Some Deck_generating" "pg_deck g1 d = {}" using pg_update_state_spec [OF u] st by simp_all
  have new1: "ids_new ge (ge_order ge cs) g1" using new pg_update_cards [OF u] by (simp add: ids_new_def)
  have cs: "chosen_concepts ge ?br = Inr cs"
    using conjunct1 [OF conjunct2 [OF invent_concepts_Inr [OF inv]]] by (simp add: chosen_concepts_def prompt_request_def)
  have br: "br_deck ?br = Some d" "br_progressive ?br" "final_status_ok (br_final ?br)" "br_region ?br = pg_region r" "br_final ?br = Deck_ready"
    by (simp_all add: prompt_request_def final_status_ok_def)
  have region': "resolve_region_context (py_lower (strip (br_region ?br))) = Inr ctx" using region br(4) by simp
  obtain res g2 where build: "build_deck ?ops ge ?br m1 g1 = (Inr res, g2)"
    using build_deck_ok [OF e br(1,2) st1(1) br(3) region' cs fits new1 good] by blast
  have "build_deck_from_prompt ?ops ge (pg_region r) (pg_prompt r) ?n d Deck_ready g = (Inr res, g2)"
    unfolding build_deck_from_prompt_def bind_act_apply on_fst_def on_snd_def postgres_ops prod.case u sum.case inv by (rule build)
  then have run: "run_prompt_generation e ge mf d r g = (Inr (), g2)"
    by (simp add: run_prompt_generation_def recorded_def gateway_from_prompt_def bind_act_apply)
  note ended = progressive_build [OF build br(1,2) st1]
  have "deck_status_of g2 d = Some Deck_ready \<and> complete_deck n_decoys (db_cards res) (pg_deck g2 d) \<and> result_sound ge cs m1 res"
    using ended cs fits br(5) by auto
  moreover have "cs \<noteq> []" using invent_concepts_Inr [OF inv] by (auto simp: prompt_min_card_count_def)
  ultimately show ?thesis using run result_playable by blast
qed

end
