(* ===== verification/Media_Url_Laws.thy ===== *)
theory Media_Url_Laws
  imports Deck_Admin
begin

text \<open>
  The media URLs of a review (\<open>_safe_image_url\<close>): what is between the slashes of a URL is what was
  between the slashes of the stored path, escaped, and never climbs out of the media root.
\<close>

section \<open>Escaping\<close>

lemma char_of_digit: "d < 10 \<Longrightarrow> is_digit (char_of (48 + d :: nat))"
  by (simp add: is_digit_def)

lemma upper_hex_unreserved: "d < 16 \<Longrightarrow> unreserved (upper_hex d)"
  by (auto simp: upper_hex_def unreserved_def char_of_digit ascii_upper_def Let_def)

lemma utf8_bytes_bound: "b \<in> set (utf8_bytes c) \<Longrightarrow> b < 256"
proof -
  have "of_char c < (256 :: nat)" by (rule nat_of_char_less_256)
  then have "of_char c div 64 < (64 :: nat)" by linarith
  then show "b \<in> set (utf8_bytes c) \<Longrightarrow> b < 256" by (auto simp: utf8_bytes_def Let_def split: if_splits)
qed

lemma utf8_bytes_ne: "utf8_bytes c \<noteq> []"
  by (simp add: utf8_bytes_def Let_def)

definition url_char :: "char \<Rightarrow> bool" where
  "url_char c \<longleftrightarrow> unreserved c \<or> c = CHR ''%''"

lemma quote_char_url: "x \<in> set (quote_char c) \<Longrightarrow> url_char x"
proof (cases "unreserved c")
  case False
  assume "x \<in> set (quote_char c)"
  then obtain b where "b \<in> set (utf8_bytes c)" "x \<in> {CHR ''%'', upper_hex (b div 16), upper_hex (b mod 16)}"
    using False utf8_bytes_ne [of c] by (fastforce simp: quote_char_def neq_Nil_conv split: if_splits)
  moreover from this have "b div 16 < 16" "b mod 16 < 16" using utf8_bytes_bound [of b c] by auto
  ultimately show ?thesis using upper_hex_unreserved by (auto simp: url_char_def)
qed (simp add: quote_char_def url_char_def)

lemma quote_part_url: "x \<in> set (quote_part s) \<Longrightarrow> url_char x"
  by (auto simp: quote_part_def quote_char_url)

lemma quote_char_id: "CHR ''%'' \<notin> set (quote_char c) \<Longrightarrow> quote_char c = [c]"
  using utf8_bytes_ne [of c] by (cases "utf8_bytes c") (auto simp: quote_char_def split: if_splits)

lemma quote_part_id: "CHR ''%'' \<notin> set (quote_part s) \<Longrightarrow> quote_part s = s"
proof (induction s)
  case (Cons c s)
  then have "quote_char c = [c]" by (auto simp: quote_part_def intro!: quote_char_id)
  then show ?case using Cons by (simp add: quote_part_def)
qed (simp add: quote_part_def)

lemma quote_part_eq: "CHR ''%'' \<notin> set t \<Longrightarrow> quote_part s = t \<Longrightarrow> s = t"
  using quote_part_id by metis

lemma slash_not_url: "\<not> url_char (CHR ''/'')"
  by (simp add: url_char_def unreserved_def ascii_lower_def ascii_upper_def is_digit_def Let_def)

section \<open>Slashes\<close>

lemma split_slash_append: "CHR ''/'' \<notin> set p \<Longrightarrow> split_slash acc (p @ CHR ''/'' # s) = (rev acc @ p) # split_slash [] s"
  by (induction p arbitrary: acc) auto

lemma split_slash_single: "CHR ''/'' \<notin> set p \<Longrightarrow> split_slash acc p = [rev acc @ p]"
  by (induction p arbitrary: acc) auto

lemma split_join:
  "ps \<noteq> [] \<Longrightarrow> \<forall>p \<in> set ps. CHR ''/'' \<notin> set p \<Longrightarrow> split_slash [] (join_with ''/'' ps) = ps"
proof (induction "''/''" ps rule: join_with.induct)
  case (3 s t ts)
  then show ?case using split_slash_append [of s "[]" "join_with ''/'' (t # ts)"] by simp
qed (simp_all add: split_slash_single)

lemma split_slash_parts: "p \<in> set (split_slash acc s) \<Longrightarrow> CHR ''/'' \<notin> set acc \<Longrightarrow> CHR ''/'' \<notin> set p"
  by (induction acc s rule: split_slash.induct) (auto split: if_splits)

lemma path_parts_ok: "p \<in> set (path_parts s) \<Longrightarrow> p \<noteq> [] \<and> p \<noteq> ''.''"
  by (simp add: path_parts_def)

section \<open>URLs\<close>

text \<open>A segment of a URL path that names a file or directory below the one before it.\<close>

definition plain_segment :: "string \<Rightarrow> bool" where
  "plain_segment s \<longleftrightarrow> s \<noteq> [] \<and> s \<noteq> ''.'' \<and> s \<noteq> ''..'' \<and> list_all url_char s"

lemma plain_quote: "p \<noteq> [] \<Longrightarrow> p \<noteq> ''.'' \<Longrightarrow> p \<noteq> ''..'' \<Longrightarrow> plain_segment (quote_part p)"
  using quote_part_eq [of "[]" p] quote_part_eq [of "''.''" p] quote_part_eq [of "''..''" p]
  by (auto simp: plain_segment_def list_all_iff quote_part_url)

lemma safe_url_segments:
  assumes "safe_image_url relative stored = Inr url"
  shows "\<exists>segs. segs \<noteq> [] \<and> split_slash [] url = [] # ''media'' # segs \<and> list_all plain_segment segs"
proof -
  obtain candidate where c: "(if path_absolute stored then relative stored else Some stored) = Some candidate"
    using assms by (cases "if path_absolute stored then relative stored else Some stored") (simp_all add: safe_image_url_def)
  define parts where "parts = path_parts (py_replace_backslash (path_text candidate))"
  have parts: "parts \<noteq> []" "''..'' \<notin> set parts" and url: "url = ''/media/'' @ join_with ''/'' (map quote_part parts)"
    using assms c unfolding safe_image_url_def parts_def
    by (auto simp: Let_def media_url_prefix_def split: if_splits)
  let ?segs = "map quote_part parts"
  have plain: "\<forall>s \<in> set ?segs. plain_segment s"
    using parts(2) path_parts_ok plain_quote unfolding parts_def by fastforce
  then have "\<forall>s \<in> set ?segs. CHR ''/'' \<notin> set s"
    using slash_not_url by (auto simp: plain_segment_def list_all_iff)
  then have "split_slash [] (join_with ''/'' ?segs) = ?segs" using parts(1) by (intro split_join) auto
  then have "split_slash [] url = [] # ''media'' # ?segs" by (simp add: url)
  then show ?thesis using plain parts(1) by (auto simp: list_all_iff intro!: exI [of _ ?segs])
qed

text \<open>A stored path that climbs is refused.\<close>

lemma climbing_refused:
  "\<not> path_absolute stored \<Longrightarrow> ''..'' \<in> set (path_parts (py_replace_backslash (path_text stored))) \<Longrightarrow>
     safe_image_url relative stored = Inl invalid_image_path"
  by (simp add: safe_image_url_def Let_def)

end
