(* ===== verification/Deck_Demo.thy ===== *)
theory Deck_Demo
  imports Deck_Healthy Media_Url_Laws
begin

text \<open>
  A concrete run of the deck control service: a prompt deck of six cards is invented, generated with
  one rejected image, finalized and activated.  The witnesses of the deck properties evaluate it.
\<close>

definition demo_concept :: "string \<Rightarrow> string \<Rightarrow> json" where
  "demo_concept i label = JObj [(''concept_id'', JStr i), (''label_en'', JStr label), (''locale'', JStr ''goa''),
     (''cultural_hint'', JStr ''a scene'')]"

definition demo_rows :: "json list" where
  "demo_rows = map (\<lambda>(i, label). demo_concept i label)
     [(''c1'', ''boat''), (''c2'', ''bell''), (''c3'', ''kite''), (''c4'', ''lamp''), (''c5'', ''drum''), (''c6'', ''well'')]"

definition demo_image :: bytes where
  "demo_image = png_magic @ [0, 1]"

definition demo_client :: gen_client where
  "demo_client = \<lparr>
     gc_image = (\<lambda>i k p. Inr demo_image),
     gc_verify = (\<lambda>i k img. Inr (JObj [(''verdict'', JStr (if i = ''c3'' \<and> k = 0 then ''fail'' else ''pass'')),
        (''depicts_label'', JBool True), (''has_text'', JBool False), (''reason'', JStr ''blurred'')])),
     gc_translate = (\<lambda>rows. Inr (JArr [JObj [(''id'', JStr ''c1''), (''labels'', JObj [(''hi'', JStr ''naav'')])]])),
     gc_decoys = (\<lambda>block. Inr (JArr (map (\<lambda>(i, c, t). JObj [(''card_id'', JStr i),
        (''decoy_concept_ids'', JArr (map JStr (filter (\<lambda>x. x \<noteq> c) (map (fst \<circ> snd) block))))]) block))),
     gc_invent = (\<lambda>k. Inr (JObj [(''concepts'', JArr demo_rows)])) \<rparr>"

definition demo_texts :: prompt_texts where
  "demo_texts = \<lparr> pt_image = (\<lambda>a b c d. []), pt_emphasis = (\<lambda>r. []) \<rparr>"

definition demo_gen :: gen_env where
  "demo_gen = \<lparr> ge_pool = [], ge_draw = (\<lambda>k. 0), ge_client = demo_client, ge_texts = demo_texts,
     ge_py_str = (\<lambda>v. ''?''), ge_type_name = (\<lambda>err. ''Error''), ge_round = (\<lambda>k x. 0), ge_order = rev,
     ge_card_id = (\<lambda>i. of_char (last i)), ge_fresh = 90, ge_counters = (\<lambda>k. zero_metrics),
     ge_elapsed = (\<lambda>k. 1), ge_total = 2 \<rparr>"

definition demo_pub :: pub_env where
  "demo_pub = \<lparr> pe_fault = (\<lambda>site. None), pe_card_time = (\<lambda>i. 5), pe_now = 6 \<rparr>"

definition demo_request :: prompt_generate_request where
  "demo_request = \<lparr> pg_region = ''goa'', pg_prompt = ''by the sea'', pg_card_count = 6 \<rparr>"

definition demo_start :: admin_state where
  "demo_start = \<lparr> ad_db = \<lparr> dt_decks = [], dt_cards = [], dt_dirs = [] \<rparr>, ad_runs = [] \<rparr>"

definition demo_db1 :: deck_db where
  "demo_db1 = snd (start_prompt_generation 1 3 demo_request (ad_db demo_start))"

definition demo_concepts :: "concept list" where
  "demo_concepts = map (\<lambda>(i, label). \<lparr> co_id = i, co_phrase = ''a scene'', co_noun = label, co_labels = [(''en'', label)],
       co_category = ''operator'', co_locale = Some ''goa'', co_hint = Some ''a scene'' \<rparr>)
     [(''c1'', ''boat''), (''c2'', ''bell''), (''c3'', ''kite''), (''c4'', ''lamp''), (''c5'', ''drum''), (''c6'', ''well'')]"

definition demo_labels :: label_table where
  "demo_labels = map (\<lambda>c. (co_id c, (if co_id c = ''c1'' then [(''hi'', ''naav'')] else []) @ co_labels c)) demo_concepts"

definition demo_decoys :: "(string, string list) dict" where
  "demo_decoys = map (\<lambda>c. (uuid_str (of_char (last (co_id c))), filter (\<lambda>i. i \<noteq> co_id c) (map co_id demo_concepts))) demo_concepts"

definition demo_build :: build_request where
  "demo_build = prompt_request ''goa'' ''by the sea'' demo_concepts 1 Deck_ready"

lemma demo_invented:
  "fst (invent_concepts_from_prompt (ge_type_name demo_gen) (ge_client demo_gen) ''goa'' 6 zero_metrics) = Inr demo_concepts"
  by code_simp

lemma demo_region: "resolve_region_context (py_lower (strip ''goa'')) = Inr ''Goan coastal village and spice-market lanes''"
  by code_simp

lemma demo_uuids:
  "uuid_str 49 = ''00000000-0000-0000-0000-000000000031''"
  "uuid_str 50 = ''00000000-0000-0000-0000-000000000032''"
  "uuid_str 51 = ''00000000-0000-0000-0000-000000000033''"
  "uuid_str 52 = ''00000000-0000-0000-0000-000000000034''"
  "uuid_str 53 = ''00000000-0000-0000-0000-000000000035''"
  "uuid_str 54 = ''00000000-0000-0000-0000-000000000036''"
  by code_simp+

lemma demo_env: "env_fits demo_gen demo_concepts"
proof -
  have "distinct (map co_id demo_concepts)"
    "distinct (map (\<lambda>c. uuid_str (ge_card_id demo_gen (co_id c))) demo_concepts)"
    by (simp_all add: demo_concepts_def demo_gen_def demo_uuids)
  moreover have "ge_order demo_gen demo_concepts = rev demo_concepts" by (simp add: demo_gen_def)
  ultimately show ?thesis by (simp add: env_fits_def)
qed

lemma demo_new: "ids_new demo_gen (ge_order demo_gen demo_concepts) demo_db1"
proof -
  have "dt_cards demo_db1 = []"
    by (simp add: demo_db1_def demo_start_def start_prompt_generation_def create_generating_def bind_act_def ret_def)
  moreover have "distinct (map (\<lambda>c. ge_card_id demo_gen (co_id c)) (rev demo_concepts))" by code_simp
  moreover have "ge_order demo_gen demo_concepts = rev demo_concepts" by (simp add: demo_gen_def)
  ultimately show ?thesis by (simp add: ids_new_def)
qed

lemma demo_translated:
  "fst (translate_labels_batch (ge_py_str demo_gen) (ge_client demo_gen) demo_concepts zero_metrics) = Inr demo_labels"
  by code_simp

lemma demo_selected:
  "fst (select_decoys_batch (ge_py_str demo_gen) (ge_client demo_gen)
     (map (card_built demo_gen (\<lambda>i. demo_image) demo_labels) demo_concepts) n_decoys zero_metrics) = Inr demo_decoys"
  by (simp add: select_decoys_batch_def demo_gen_def demo_client_def card_built_def demo_concepts_def demo_labels_def
      label_en_def check_decoys_def decoy_row_def item_of_def text_of_def str_list_def concept_of_card_def n_decoys_def
      demo_decoys_def demo_uuids)

lemma demo_draws: "\<forall>c \<in> set demo_concepts. draws demo_gen demo_build ctx (\<lambda>i. demo_image) c"
proof -
  have "image_file_extension demo_image = Inr ''.png''" by code_simp
  then show ?thesis
    by (auto simp: draws_def demo_concepts_def demo_build_def demo_gen_def demo_client_def prompt_request_def image_retries_def
        prompt_max_image_retries_def generate_verified_image_def numeral_eq_Suc label_en_def verification_accepted_def
        jget_def Let_def)
qed

lemma demo_well: "prompt_goes_well demo_pub demo_gen 1 demo_request (\<lambda>i. demo_image) demo_db1"
proof -
  have "healthy demo_pub" by (simp add: healthy_def demo_pub_def)
  moreover have "answers_well demo_gen demo_build ctx (\<lambda>i. demo_image) demo_concepts" for ctx
    unfolding answers_well_def using demo_draws demo_translated demo_selected by blast
  ultimately show ?thesis using demo_invented demo_region demo_env demo_new
    by (simp add: prompt_goes_well_def demo_request_def demo_build_def)
qed

end
