(* ===== verification/Deck_Claims.thy ===== *)
theory Deck_Claims
  imports Deck_Demo
begin

text \<open>
  Properties of deck generation, publication and administration, each with the instance it is applied
  at.
\<close>

section \<open>Lifecycle\<close>

definition demo_ready :: deck_db where
  "demo_ready = snd (run_prompt_generation demo_pub demo_gen None 1 demo_request demo_db1)"

definition demo_activated :: deck_db where
  "demo_activated = snd (activate 9 1 demo_ready)"

lemma demo_created: "deck_status_of demo_db1 1 = Some Deck_generating" "pg_deck demo_db1 1 = {}"
  by (simp_all add: demo_db1_def demo_start_def start_prompt_generation_def create_generating_def bind_act_def ret_def
      pg_deck_def)

lemma demo_ready_status: "deck_status_of demo_ready 1 = Some Deck_ready"
  using prompt_run_ready [OF demo_well demo_created] unfolding demo_ready_def by (metis snd_conv)

lemma activate_ready:
  "deck_status_of g d = Some Deck_ready \<Longrightarrow> \<exists>g'. activate now d g = (Inr (d, Deck_live), g') \<and> deck_status_of g' d = Some Deck_live"
  by (auto simp: activate_def repo_activate_def bind_act_def ret_def deck_status_of_Some Let_def)

lemma demo_activated_status: "deck_status_of demo_activated 1 = Some Deck_live"
  using activate_ready [OF demo_ready_status, of 9] unfolding demo_activated_def by auto

lemma demo_reachable: "admin_reachable \<lparr> ad_db = demo_activated, ad_runs = [] \<rparr>"
proof -
  let ?s1 = "\<lparr> ad_db = demo_db1, ad_runs = [(1, Run_prompt demo_request)] \<rparr>"
  let ?s2 = "\<lparr> ad_db = demo_ready, ad_runs = [] \<rparr>"
  have "admin_reachable demo_start" by (rule admin_reachable.init) (simp add: admin_start_def demo_start_def)
  moreover have "prompt_generate_request demo_request = Inr demo_request" by code_simp
  moreover have "start_prompt_generation 1 3 demo_request (ad_db demo_start) = (Inr (1, Deck_generating), demo_db1)"
    by (simp add: demo_db1_def start_prompt_generation_def create_generating_def bind_act_def ret_def)
  ultimately have 1: "admin_reachable ?s1"
    using admin_step.start_prompt [of demo_request demo_request demo_start 1 3 1 Deck_generating demo_db1]
    by (auto intro: admin_reachable.step simp: demo_start_def deck_status_of_def)
  have "run_fits demo_gen (Run_prompt demo_request)"
    using demo_invented demo_env by (simp add: run_fits_def demo_request_def)
  moreover obtain res where "run_job demo_pub demo_gen None 1 (Run_prompt demo_request) demo_db1 = (res, demo_ready)"
    by (simp add: run_job_def demo_ready_def) (metis prod.collapse)
  ultimately have "admin_step ?s1 ?s2"
    using admin_step.finish [of ?s1 1 "Run_prompt demo_request" demo_gen demo_pub None res demo_ready] by simp
  with 1 have 2: "admin_reachable ?s2" by (rule admin_reachable.step)
  obtain res where "activate 9 1 (ad_db ?s2) = (res, demo_activated)"
    by (simp add: demo_activated_def) (metis prod.collapse)
  from admin_step.activate [OF this] 2 show ?thesis by (auto intro: admin_reachable.step)
qed

text \<open>
  C32.  In every state the deck control service can reach, whatever its runs, failures, activations
  and restarts, at most one deck is live, and every ready or live deck is playable: it has cards, and
  each is verified, has an English label and five different decoys among the other cards.
\<close>

theorem deck_lifecycle:
  assumes "admin_reachable s"
  shows "sole_live (ad_db s) \<and> decks_playable (ad_db s)"
  using admin_reachable_inv [OF assms] by (simp add: admin_inv_def)

theorem deck_lifecycle_witness:
  "sole_live demo_activated \<and> decks_playable demo_activated \<and> deck_status_of demo_activated 1 = Some Deck_live"
  using deck_lifecycle [OF demo_reachable] demo_activated_status by simp

section \<open>Generation\<close>

text \<open>
  C33.  When the region is known, the invented concepts, images, translations and decoys pass their
  checks within the retry budgets and the database takes the writes, a prompt run returns and leaves
  its deck ready and playable.
\<close>

theorem prompt_run_reaches_ready:
  assumes "prompt_goes_well e ge d r img g" and "deck_status_of g d = Some Deck_generating" and "pg_deck g d = {}"
  shows "\<exists>g'. run_prompt_generation e ge mf d r g = (Inr (), g') \<and> deck_status_of g' d = Some Deck_ready
    \<and> playable_deck (pg_deck g' d)"
  using prompt_run_ready [OF assms] .

theorem prompt_run_reaches_ready_witness:
  "\<exists>g'. run_prompt_generation demo_pub demo_gen None 1 demo_request demo_db1 = (Inr (), g')
    \<and> deck_status_of g' 1 = Some Deck_ready \<and> playable_deck (pg_deck g' 1)"
  by (rule prompt_run_reaches_ready [OF demo_well demo_created])

text \<open>
  C34.  A progressive build that returns has made one card for every concept, in order.  Each image
  was accepted by the verifier, each card has an English label, the counters account for every
  attempt, and the deck holds exactly these cards with five decoys each, in its final status.
\<close>

theorem progressive_build_complete:
  assumes "build_deck (postgres_publisher type_name e) ge br m0 g = (Inr r, g')"
    and "br_deck br = Some d" and "br_progressive br"
    and "deck_status_of g d = Some Deck_generating" and "pg_deck g d = {}"
    and "chosen_concepts ge br = Inr cs" and "env_fits ge cs"
  shows "deck_status_of g' d = Some (br_final br) \<and> complete_deck 5 (db_cards r) (pg_deck g' d)
    \<and> map bc_concept (db_cards r) = cs
    \<and> (\<forall>b \<in> set (db_cards r). image_accepted (ge_client ge) (bc_concept b) (bc_image b) \<and> map_of (bc_labels b) ''en'' \<noteq> None)
    \<and> images_accepted (db_metrics r) = images_accepted m0 + length cs
    \<and> images_attempted (db_metrics r) = images_attempted m0 + length cs + (images_rejected (db_metrics r) - images_rejected m0)"
  using pg_pub.build_deck_done [OF assms] by (auto simp: result_sound_def grew_def n_decoys_def)

theorem progressive_build_complete_witness:
  "\<exists>r g'. build_deck (postgres_publisher (\<lambda>err. ''Error'') demo_pub) demo_gen demo_build zero_metrics demo_db1 = (Inr r, g')
    \<and> complete_deck 5 (db_cards r) (pg_deck g' 1) \<and> length (db_cards r) = 6"
proof -
  have br: "br_deck demo_build = Some 1" "br_progressive demo_build" "final_status_ok (br_final demo_build)"
    "br_region demo_build = ''goa''" by (simp_all add: demo_build_def prompt_request_def final_status_ok_def)
  have cs: "chosen_concepts demo_gen demo_build = Inr demo_concepts"
    using demo_env by (simp add: chosen_concepts_def demo_build_def prompt_request_def env_fits_def)
  have good: "answers_well demo_gen demo_build ''Goan coastal village and spice-market lanes'' (\<lambda>i. demo_image) demo_concepts"
    unfolding answers_well_def using demo_draws demo_translated demo_selected by blast
  have "healthy demo_pub" by (simp add: healthy_def demo_pub_def)
  from build_deck_ok [OF this br(1,2) demo_created(1) br(3) demo_region [folded br(4)] cs demo_env demo_new good]
  obtain r g' where run: "build_deck (postgres_publisher (\<lambda>err. ''Error'') demo_pub) demo_gen demo_build zero_metrics demo_db1
      = (Inr r, g')" by blast
  from progressive_build_complete [OF run br(1,2) demo_created cs demo_env]
  have "complete_deck 5 (db_cards r) (pg_deck g' 1)" "length (map bc_concept (db_cards r)) = length demo_concepts" by auto
  then show ?thesis using run by (auto simp: demo_concepts_def)
qed

section \<open>Publication\<close>





section \<open>Operator requests\<close>

text \<open>What the converter needs beyond the request contract, and the concept it makes.\<close>

definition convertible :: "admin_concept \<Rightarrow> bool" where
  "convertible a \<longleftrightarrow> length (ac_id a) \<le> 64 \<and> strip (ac_label a) \<noteq> [] \<and> strip (ac_locale a) \<noteq> [] \<and> strip (ac_hint a) \<noteq> []"

definition concept_of :: "admin_concept \<Rightarrow> concept" where
  "concept_of a = \<lparr> co_id = ac_id a, co_phrase = strip (ac_hint a), co_noun = strip (ac_label a),
     co_labels = [(''en'', strip (ac_label a))], co_category = ''operator'', co_locale = Some (strip (ac_locale a)),
     co_hint = Some (strip (ac_hint a)) \<rparr>"

lemma slug_not_space: "ascii_lower c \<or> slug_char c \<Longrightarrow> \<not> py_space c"
  by (auto simp: ascii_lower_def slug_char_def is_digit_def py_space_def Let_def)

lemma admin_slug_strip: "admin_slug i \<Longrightarrow> strip i = i"
proof (rule strip_id)
  assume i: "admin_slug i"
  then have "\<forall>c \<in> set i. ascii_lower c \<or> slug_char c"
    by (cases i) (auto simp: admin_slug_def slug_char_def list_all_iff)
  then show "stripped i" using slug_not_space by (auto simp: stripped_def)
qed

lemma operator_concept_dump:
  assumes "admin_concept_ok a"
  shows "if convertible a \<and> ac_id a \<notin> set seen then operator_concept seen (dump_concept a) = Inr (concept_of a)
    else \<exists>err. operator_concept seen (dump_concept a) = Inl err"
proof -
  have id: "strip (ac_id a) = ac_id a" "ac_id a \<noteq> []" "length (ac_id a) \<le> 80" "operator_id_ok (ac_id a) \<longleftrightarrow> length (ac_id a) \<le> 64"
    using assms operator_id_of_admin admin_slug_strip by (auto simp: admin_concept_ok_def admin_slug_def operator_id_ok_def)
  have len: "length (strip (ac_label a)) \<le> 500" "length (strip (ac_locale a)) \<le> 500" "length (strip (ac_hint a)) \<le> 500"
    using assms length_strip_le [of "ac_label a"] length_strip_le [of "ac_locale a"] length_strip_le [of "ac_hint a"]
    by (auto simp: admin_concept_ok_def)
  show ?thesis using id len
    by (auto simp: operator_concept_def dump_concept_def operator_fields_def operator_field_def operator_max_text_def
        jget_def Let_def convertible_def concept_of_def)
qed

lemma operator_concepts_dump:
  "list_all admin_concept_ok as \<Longrightarrow> distinct (map ac_id as) \<Longrightarrow> set (map ac_id as) \<inter> set seen = {} \<Longrightarrow>
     if list_all convertible as then operator_concepts_from seen (map dump_concept as) = Inr (map concept_of as)
     else \<exists>err. operator_concepts_from seen (map dump_concept as) = Inl err"
proof (induction as arbitrary: seen)
  case (Cons a as)
  note one = operator_concept_dump [of a seen]
  have ok: "admin_concept_ok a" "ac_id a \<notin> set seen" using Cons.prems by auto
  show ?case
  proof (cases "convertible a")
    case True
    then have a: "operator_concept seen (dump_concept a) = Inr (concept_of a)" using one ok by simp
    have "co_id (concept_of a) = ac_id a" by (simp add: concept_of_def)
    moreover have "if list_all convertible as then operator_concepts_from (ac_id a # seen) (map dump_concept as) = Inr (map concept_of as)
        else \<exists>err. operator_concepts_from (ac_id a # seen) (map dump_concept as) = Inl err"
      by (rule Cons.IH) (use Cons.prems in auto)
    ultimately show ?thesis using a True by (auto split: if_splits)
  next
    case False
    then show ?thesis using one ok by auto
  qed
qed simp

text \<open>
  C36.  A request the API accepted is converted into concepts exactly when every concept id has at
  most 64 characters and no field is white space only; then the concepts keep the ids and the stripped
  fields in the order given.
\<close>

theorem operator_request_converts:
  assumes "generate_request_ok r"
  shows "if list_all convertible (gr_concepts r)
    then concepts_from_operator_mappings (JArr (map dump_concept (gr_concepts r))) = Inr (map concept_of (gr_concepts r))
    else \<exists>err. concepts_from_operator_mappings (JArr (map dump_concept (gr_concepts r))) = Inl err"
  using operator_concepts_dump [of "gr_concepts r" "[]"] assms
  by (simp add: concepts_from_operator_mappings_def generate_request_ok_def)

definition long_id :: string where
  "long_id = replicate 65 (CHR ''a'')"

definition plain_concept :: "string \<Rightarrow> admin_concept" where
  "plain_concept i = \<lparr> ac_id = i, ac_label = ''boat'', ac_locale = ''Goa'', ac_hint = ''a boat on the beach'' \<rparr>"

definition long_request :: generate_request where
  "long_request = \<lparr> gr_region = ''goa'', gr_concepts = map plain_concept [long_id, ''b'', ''c'', ''d'', ''e'', ''f''] \<rparr>"

theorem operator_request_converts_witness:
  "generate_request_ok long_request \<and>
   (\<exists>err. concepts_from_operator_mappings (JArr (map dump_concept (gr_concepts long_request))) = Inl err)"
proof -
  have ok: "generate_request_ok long_request" by code_simp
  have "\<not> list_all convertible (gr_concepts long_request)"
    by (simp add: long_request_def plain_concept_def convertible_def long_id_def)
  then show ?thesis using operator_request_converts [OF ok] ok by simp
qed

section \<open>Review\<close>

lemma map_err_same_error:
  "(\<And>x. x \<in> set xs \<Longrightarrow> f x = Inl err \<or> (\<exists>y. f x = Inr y)) \<Longrightarrow> \<exists>x \<in> set xs. f x = Inl err \<Longrightarrow> map_err f xs = Inl err"
proof (induction xs)
  case (Cons x xs)
  show ?case
  proof (cases "f x = Inl err")
    case False
    then obtain y where y: "f x = Inr y" using Cons.prems(1) [of x] by auto
    have "map_err f xs = Inl err"
    proof (rule Cons.IH)
      show "\<And>x. x \<in> set xs \<Longrightarrow> f x = Inl err \<or> (\<exists>y. f x = Inr y)" using Cons.prems(1) by simp
      show "\<exists>x \<in> set xs. f x = Inl err" using Cons.prems(2) y by auto
    qed
    then show ?thesis using y by simp
  qed simp
qed simp

lemma validate_cases: "validate_admin_concept v = Inl (ValueError ''validation error'') \<or> (\<exists>a. validate_admin_concept v = Inr a)"
  by (auto simp: validate_admin_concept_def split: json.split option.split)

lemma list_all2_in_set1: "list_all2 P xs ys \<Longrightarrow> x \<in> set xs \<Longrightarrow> \<exists>y \<in> set ys. P x y"
  by (induction rule: list_all2_induct) auto

text \<open>
  A deck built from curated concepts, which have no locale, cannot be reviewed once it is no
  longer generating: the stored input does not satisfy the contract the review validates it with,
  and the request fails instead of showing the deck.
\<close>

theorem curated_deck_review_fails:
  assumes "generation_input region cs seed supplied source theme = Inr inp" and "c \<in> set cs" and "co_locale c = None"
    and "map_of (dt_decks g) d = Some r" and "dk_input r = inp" and "dk_status r \<noteq> Deck_generating"
  shows "review_deck py_str relative d g = Inl (ValueError ''validation error'')"
proof -
  let ?row = "\<lambda>c. try_in (label_en (co_labels c)) (\<lambda>t.
         Inr (JObj [(''concept_id'', JStr (co_id c)), (''label_en'', JStr t),
           (''locale'', (case co_locale c of None \<Rightarrow> JNull | Some l \<Rightarrow> JStr l)),
           (''cultural_hint'', (case co_hint c of None \<Rightarrow> JNull | Some h \<Rightarrow> JStr h))]))"
  obtain rows where rows: "map_err ?row cs = Inr rows" using assms(1) by (cases "map_err ?row cs") (simp_all add: generation_input_def)
  have "map_of inp ''concepts'' = Some (JArr rows)"
    using assms(1) unfolding generation_input_def rows sum.case by (simp only: sum.inject) (erule subst, simp)
  then have stored: "stored_concepts inp = Inr rows" by (simp add: stored_concepts_def)
  obtain v where v: "v \<in> set rows" "?row c = Inr v"
    using list_all2_in_set1 [OF rows [unfolded map_err_Inr] assms(2)] by blast
  then have "validate_admin_concept v = Inl (ValueError ''validation error'')"
    using assms(3) by (cases "label_en (co_labels c)") (auto simp: validate_admin_concept_def jget_def constrained_text_def split: option.split)
  then have "map_err validate_admin_concept rows = Inl (ValueError ''validation error'')"
    using v(1) validate_cases by (intro map_err_same_error) auto
  then show ?thesis using stored assms(4-6) by (simp add: review_deck_def repo_get_deck_def)
qed

definition curated_boat :: concept where
  "curated_boat = \<lparr> co_id = ''boat'', co_phrase = ''a boat'', co_noun = ''boat'', co_labels = [(''en'', ''boat'')],
     co_category = ''transport'', co_locale = None, co_hint = None \<rparr>"

definition curated_db :: deck_db where
  "curated_db = \<lparr> dt_decks = [(1, \<lparr> dk_region = ''goa'', dk_status = Deck_live,
       dk_input = (case generation_input ''goa'' [curated_boat] None False None None of Inl _ \<Rightarrow> [] | Inr inp \<Rightarrow> inp),
       dk_metrics = None, dk_failure = None, dk_activated = Some 4, dk_created = 3 \<rparr>)], dt_cards = [], dt_dirs = [] \<rparr>"

theorem curated_deck_review_fails_witness:
  "review_deck (\<lambda>v. ''?'') (\<lambda>p. None) 1 curated_db = Inl (ValueError ''validation error'')"
proof -
  obtain inp where inp: "generation_input ''goa'' [curated_boat] None False None None = Inr inp"
    by (simp add: generation_input_def curated_boat_def label_en_def)
  let ?r = "\<lparr> dk_region = ''goa'', dk_status = Deck_live, dk_input = inp, dk_metrics = None, dk_failure = None,
    dk_activated = Some 4, dk_created = 3 \<rparr>"
  have "map_of (dt_decks curated_db) 1 = Some ?r" by (simp add: curated_db_def inp)
  then show ?thesis
    by (rule curated_deck_review_fails [OF inp, of curated_boat curated_db 1 ?r, rotated 2]) (simp_all add: curated_boat_def)
qed

text \<open>
  C38.  A media URL of a review has at least one segment below \<open>/media\<close>, and no segment is empty, a
  dot or two dots or holds anything but unreserved characters and percent escapes: whatever path is
  stored, the URL cannot leave the media root.
\<close>

theorem media_url_stays_below_root:
  assumes "safe_image_url relative stored = Inr url"
  shows "\<exists>segs. segs \<noteq> [] \<and> split_slash [] url = [] # ''media'' # segs \<and> list_all plain_segment segs"
  using safe_url_segments [OF assms] .

theorem media_url_stays_below_root_witness:
  "\<exists>url segs. safe_image_url (\<lambda>p. None) (''decks//a b'' @ CHR 0x5C # ''..c/.'') = Inr url \<and> segs \<noteq> []
     \<and> split_slash [] url = [] # ''media'' # segs \<and> list_all plain_segment segs"
proof -
  have "safe_image_url (\<lambda>p. None) (''decks//a b'' @ CHR 0x5C # ''..c/.'') = Inr ''/media/decks/a%20b/..c''" by code_simp
  from this media_url_stays_below_root [OF this] show ?thesis by blast
qed

end
