(* ===== verification/Gemini_Client.thy ===== *)
theory Gemini_Client
  imports Py_Text
begin

text \<open>
  The shared Gemini client (\<open>app/gemini_client.py\<close>): schema sanitising, redaction of what is logged,
  token counts and costs, the retry policy and the per-model gates.  The SDK is an argument: what a
  transport call returned or raised, the configuration object it builds, how long a call took.  A
  call runs to a list of events, the effects other tasks can see: taking a slot of the gate,
  entering its rate window, a stored \<open>api_calls\<close> row, a backoff sleep, giving the slot back.
\<close>

section \<open>Settings and models\<close>

definition GEMINI_FLASH :: string where "GEMINI_FLASH = ''gemini-3.5-flash''"
definition NANO_BANANA_LITE :: string where "NANO_BANANA_LITE = ''gemini-3.1-flash-lite-image''"
definition GEMINI_MODELS :: "string list" where "GEMINI_MODELS = [GEMINI_FLASH, NANO_BANANA_LITE]"

record settings =
  gemini_api_key :: string
  gemini_max_retries :: int
  gemini_retry_base_delay_s :: rat
  gemini_retry_max_delay_s :: rat
  gemini_flash_max_concurrency :: int
  gemini_flash_rpm :: int
  flash_input_usd_per_million :: rat
  flash_output_usd_per_million :: rat
  nano_banana_max_concurrency :: int
  nano_banana_rpm :: int
  nano_banana_cost_microusd_per_image :: int
  deck_admin_api_key :: string

definition default_settings :: settings where
  "default_settings = \<lparr>gemini_api_key = [], gemini_max_retries = 3, gemini_retry_base_delay_s = 1 / 2,
     gemini_retry_max_delay_s = 8, gemini_flash_max_concurrency = 4, gemini_flash_rpm = 60,
     flash_input_usd_per_million = 3 / 2, flash_output_usd_per_million = 9,
     nano_banana_max_concurrency = 4, nano_banana_rpm = 30,
     nano_banana_cost_microusd_per_image = 33600, deck_admin_api_key = []\<rparr>"

section \<open>Python values\<close>

text \<open>
  What reaches the logs: JSON values, bytes, the client's \<open>MediaBlob\<close>, the SDK's \<open>Blob\<close> and \<open>Image\<close>
  with their optional fields, other pydantic values with the outcome of \<open>model_dump(exclude_none=True)\<close>
  (\<open>None\<close> when it raises), and foreign objects by their type's name.  Keys of mappings are strings.
\<close>

datatype pyval =
    VNone
  | VBool bool
  | VInt int
  | VFloat pyfloat
  | VStr string
  | VBytes bytes
  | VMediaBlob bytes string
  | VBlob "bytes option" "string option" "string option" \<comment> \<open>data, MIME type, display name\<close>
  | VImage "bytes option" "string option" "string option" \<comment> \<open>bytes, MIME type, storage URI\<close>
  | VPart pyval
  | VModel string "pyval option"
  | VList "pyval list"
  | VDict "(string \<times> pyval) list"
  | VObject string

fun type_name :: "pyval \<Rightarrow> string" where
  "type_name VNone = ''NoneType''"
| "type_name (VBool _) = ''bool''"
| "type_name (VInt _) = ''int''"
| "type_name (VFloat _) = ''float''"
| "type_name (VStr _) = ''str''"
| "type_name (VBytes _) = ''bytes''"
| "type_name (VMediaBlob _ _) = ''MediaBlob''"
| "type_name (VBlob _ _ _) = ''Blob''"
| "type_name (VImage _ _ _) = ''Image''"
| "type_name (VPart _) = ''Part''"
| "type_name (VModel n _) = n"
| "type_name (VList _) = ''list''"
| "type_name (VDict _) = ''dict''"
| "type_name (VObject n) = n"

fun json_val :: "json \<Rightarrow> pyval" where
  "json_val JNull = VNone"
| "json_val (JBool b) = VBool b"
| "json_val (JInt i) = VInt i"
| "json_val (JFloat f) = VFloat f"
| "json_val (JStr s) = VStr s"
| "json_val (JArr xs) = VList (map json_val xs)"
| "json_val (JObj d) = VDict (map (\<lambda>(k, v). (k, json_val v)) d)"

definition opt_str :: "string option \<Rightarrow> pyval" where
  "opt_str s = (case s of None \<Rightarrow> VNone | Some t \<Rightarrow> VStr t)"

definition some_field :: "string \<Rightarrow> ('a \<Rightarrow> pyval) \<Rightarrow> 'a option \<Rightarrow> (string \<times> pyval) list" where
  "some_field k f x = (case x of None \<Rightarrow> [] | Some v \<Rightarrow> [(k, f v)])"

text \<open>\<open>value.model_dump(exclude_none=True)\<close> where the value has one: \<open>Some None\<close> when it raises.\<close>

fun model_dump :: "pyval \<Rightarrow> pyval option option" where
  "model_dump (VPart d) = Some (Some d)"
| "model_dump (VModel _ d) = Some d"
| "model_dump (VBlob b m n) =
     Some (Some (VDict (some_field ''data'' VBytes b @ some_field ''display_name'' VStr n @ some_field ''mime_type'' VStr m)))"
| "model_dump (VImage b m u) =
     Some (Some (VDict (some_field ''gcs_uri'' VStr u @ some_field ''image_bytes'' VBytes b @ some_field ''mime_type'' VStr m)))"
| "model_dump _ = None"

section \<open>Response schemas\<close>

definition unsupported_schema_keys :: "string list" where
  "unsupported_schema_keys = [''additionalProperties'', ''additional_properties'']"

fun sanitize_response_schema :: "pyval \<Rightarrow> pyval \<times> nat" where
  "sanitize_response_schema (VDict d) =
     (let kept = filter (\<lambda>(k, v). k \<notin> set unsupported_schema_keys) d;
          cleaned = map (\<lambda>(k, v). (k, sanitize_response_schema v)) kept in
      (VDict (map (\<lambda>(k, r). (k, fst r)) cleaned),
       (length d - length kept) + sum_list (map (\<lambda>(k, r). snd r) cleaned)))"
| "sanitize_response_schema (VList xs) =
     (let cleaned = map sanitize_response_schema xs in
      (VList (map fst cleaned), sum_list (map snd cleaned)))"
| "sanitize_response_schema v = (v, 0)"

section \<open>Redaction\<close>

definition secret_key_fragments :: "string list" where
  "secret_key_fragments = [''api_key'', ''apikey'', ''authorization'', ''password'', ''secret'', ''token'', ''credential'']"

definition media_key_fragments :: "string list" where
  "media_key_fragments =
     [''image_bytes'', ''inline_data'', ''data'', ''audio'', ''base64'', ''blob'', ''bytes'', ''file_data'']"

text \<open>\<open>frag in text\<close>.\<close>

fun has_part :: "string \<Rightarrow> string \<Rightarrow> bool" where
  "has_part frag [] = (frag = [])"
| "has_part frag (c # cs) = (take (length frag) (c # cs) = frag \<or> has_part frag cs)"

definition key_has :: "string list \<Rightarrow> string option \<Rightarrow> bool" where
  "key_has frags key = (case key of None \<Rightarrow> False | Some k \<Rightarrow> list_ex (\<lambda>f. has_part f (py_lower k)) frags)"

definition secret_key :: "string option \<Rightarrow> bool" where "secret_key = key_has secret_key_fragments"
definition media_key :: "string option \<Rightarrow> bool" where "media_key = key_has media_key_fragments"

definition base64_alphabet :: string where
  "base64_alphabet = ''ABCDEFGHIJKLMNOPQRSTUVWXYZabcdefghijklmnopqrstuvwxyz0123456789+/=''"

definition looks_like_base64 :: "string \<Rightarrow> bool" where
  "looks_like_base64 text =
     (if length text < 256 \<or> CHR '' '' \<in> set (take 64 text) then False
      else list_all (\<lambda>c. c \<in> set base64_alphabet) (filter (\<lambda>c. c \<noteq> CHR 0x0A) (take 80 text)))"

definition byte_length :: "bytes option \<Rightarrow> pyval" where
  "byte_length b = VInt (case b of None \<Rightarrow> 0 | Some d \<Rightarrow> int (length d))"

definition redact_secret :: "pyval \<Rightarrow> pyval" where
  "redact_secret v = (case v of
     VStr s \<Rightarrow> VDict [(''redacted'', VBool True), (''length'', VInt (int (length s)))]
   | _ \<Rightarrow> VDict [(''redacted'', VBool True), (''type'', VStr (type_name v))])"

definition redact_media :: "pyval \<Rightarrow> pyval" where
  "redact_media v = (case v of
     VStr s \<Rightarrow> VDict [(''type'', VStr ''media_string''), (''char_length'', VInt (int (length s))),
                (''looks_base64'', VBool (looks_like_base64 s))]
   | VDict d \<Rightarrow> VDict [(''type'', VStr ''dict''), (''keys'', VList (map VStr (sort (map fst d))))]
   | _ \<Rightarrow> VDict [(''type'', VStr (type_name v)), (''redacted_media'', VBool True)])"

definition log_str :: "string \<Rightarrow> pyval" where
  "log_str s = (if 4000 < length s
     then VDict [(''type'', VStr ''str''), (''char_length'', VInt (int (length s))), (''preview'', VStr (take 256 s))]
     else VStr s)"

lemma size_snd_in [termination_simp]: "(k, v) \<in> set d \<Longrightarrow> size v < Suc (size_list (size_prod (\<lambda>_. 0) size) d)"
  by (induction d) auto

fun sanitize_for_log :: "string option \<Rightarrow> pyval \<Rightarrow> pyval" where
  "sanitize_for_log key v =
     (if secret_key key then redact_secret v
      else (case v of
        VBytes b \<Rightarrow> VDict [(''type'', VStr ''bytes''), (''byte_length'', byte_length (Some b))]
      | VMediaBlob b m \<Rightarrow> VDict [(''type'', VStr ''MediaBlob''), (''mime_type'', VStr m), (''byte_length'', byte_length (Some b))]
      | VPart d \<Rightarrow> sanitize_for_log key d
      | VBlob b m n \<Rightarrow> VDict [(''type'', VStr ''Blob''), (''mime_type'', opt_str m), (''byte_length'', byte_length b),
          (''display_name'', opt_str n)]
      | VImage b m u \<Rightarrow> VDict [(''type'', VStr ''Image''), (''mime_type'', opt_str m), (''byte_length'', byte_length b),
          (''gcs_uri_present'', VBool (u \<noteq> None \<and> u \<noteq> Some []))]
      | _ \<Rightarrow>
        (if media_key key then redact_media v
         else (case v of
           VDict d \<Rightarrow> VDict (map (\<lambda>(k, x). (k, sanitize_for_log (Some k) x)) d)
         | VList xs \<Rightarrow> VList (map (\<lambda>x. sanitize_for_log None x) xs)
         | VModel n None \<Rightarrow> VDict [(''type'', VStr n)]
         | VModel n (Some d) \<Rightarrow> sanitize_for_log key d
         | VStr s \<Rightarrow> log_str s
         | _ \<Rightarrow> v))))"

declare sanitize_for_log.simps [simp del]

definition summarize_contents :: "pyval \<Rightarrow> pyval" where
  "summarize_contents contents = VDict [(''contents'', sanitize_for_log None contents)]"

section \<open>Errors of a call\<close>

datatype exc =
    Exc_timeout
  | Exc_connection
  | Exc_transport string \<comment> \<open>\<open>httpx.TransportError\<close>, by class name\<close>
  | Exc_api "int option" string \<comment> \<open>\<open>genai_errors.APIError\<close>: code if an integer, status text\<close>
  | Exc_value string
  | Exc_overflow
  | Exc_type
  | Exc_assertion
  | Exc_other string
  | Exc_cancelled \<comment> \<open>\<open>CancelledError\<close>, not an \<open>Exception\<close>\<close>

fun exc_name :: "exc \<Rightarrow> string" where
  "exc_name Exc_timeout = ''TimeoutError''"
| "exc_name Exc_connection = ''ConnectionError''"
| "exc_name (Exc_transport n) = n"
| "exc_name (Exc_api _ _) = ''APIError''"
| "exc_name (Exc_value _) = ''ValueError''"
| "exc_name Exc_overflow = ''OverflowError''"
| "exc_name Exc_type = ''TypeError''"
| "exc_name Exc_assertion = ''AssertionError''"
| "exc_name (Exc_other n) = n"
| "exc_name Exc_cancelled = ''CancelledError''"

definition transient_status_codes :: "int list" where
  "transient_status_codes = [408, 429, 500, 502, 503, 504]"

text \<open>\<open>upper\<close> on the ASCII letters; no other letter's upper case occurs in the words compared.\<close>

definition upper_char :: "char \<Rightarrow> char" where
  "upper_char c = (let n = (of_char c :: nat) in if 97 \<le> n \<and> n \<le> 122 then char_of (n - 32) else c)"

definition transient_statuses :: "string list" where
  "transient_statuses = [''RESOURCE_EXHAUSTED'', ''UNAVAILABLE'', ''DEADLINE_EXCEEDED'', ''ABORTED'']"

definition is_transient_error :: "exc \<Rightarrow> bool" where
  "is_transient_error e = (case e of
     Exc_timeout \<Rightarrow> True
   | Exc_connection \<Rightarrow> True
   | Exc_transport _ \<Rightarrow> True
   | Exc_api code status \<Rightarrow>
       (case code of Some c \<Rightarrow> c \<in> set transient_status_codes | None \<Rightarrow> False)
       \<or> map upper_char status \<in> set transient_statuses
   | _ \<Rightarrow> False)"

section \<open>Token usage and cost\<close>

text \<open>
  \<open>int(text)\<close>: white space around, a sign, and digits with single underscores between them.
\<close>

fun int_digits :: "string \<Rightarrow> bool" where
  "int_digits [] = False"
| "int_digits [c] = is_digit c"
| "int_digits (c # d # cs) = (is_digit c \<and> (if d = CHR ''_'' then int_digits cs else int_digits (d # cs)))"

definition int_of_text :: "string \<Rightarrow> int option" where
  "int_of_text s =
     (let neg = (s \<noteq> [] \<and> hd s = CHR ''-'');
          body = (if s \<noteq> [] \<and> (hd s = CHR ''-'' \<or> hd s = CHR ''+'') then tl s else s);
          digits = filter (\<lambda>c. c \<noteq> CHR ''_'') body in
      if int_digits body \<and> length digits \<le> 4300
      then Some (if neg then - int (read_nat digits) else int (read_nat digits)) else None)"

text \<open>\<open>int(data)\<close> of bytes reads them as ASCII and strips ASCII white space only.\<close>

definition ascii_space :: "char \<Rightarrow> bool" where
  "ascii_space c = (let n = (of_char c :: nat) in (9 \<le> n \<and> n \<le> 13) \<or> n = 32)"

definition ascii_strip :: "string \<Rightarrow> string" where
  "ascii_strip s = rev (dropWhile ascii_space (rev (dropWhile ascii_space s)))"

definition bytes_text :: "bytes \<Rightarrow> string" where
  "bytes_text b = map (\<lambda>w. char_of (unat w)) b"

text \<open>\<open>int(x)\<close> of a finite float truncates towards zero.\<close>

definition trunc :: "rat \<Rightarrow> int" where
  "trunc r = (if 0 \<le> r then \<lfloor>r\<rfloor> else \<lceil>r\<rceil>)"

definition non_negative :: "int \<Rightarrow> int option" where
  "non_negative n = (if 0 \<le> n then Some n else None)"

definition coerce_non_negative_int :: "pyval \<Rightarrow> exc + int option" where
  "coerce_non_negative_int v = (case v of
     VNone \<Rightarrow> Inr None
   | VBool _ \<Rightarrow> Inr None
   | VInt n \<Rightarrow> Inr (non_negative n)
   | VFloat (Fin r) \<Rightarrow> Inr (non_negative (trunc r))
   | VFloat NaN \<Rightarrow> Inr None
   | VFloat _ \<Rightarrow> Inl Exc_overflow
   | VStr s \<Rightarrow> Inr (case int_of_text (strip s) of None \<Rightarrow> None | Some n \<Rightarrow> non_negative n)
   | VBytes b \<Rightarrow> Inr (case int_of_text (ascii_strip (bytes_text b)) of None \<Rightarrow> None | Some n \<Rightarrow> non_negative n)
   | _ \<Rightarrow> Inr None)"

definition usage_metadata_mapping :: "pyval \<Rightarrow> (string \<times> pyval) list option" where
  "usage_metadata_mapping usage = (case usage of
     VDict d \<Rightarrow> Some d
   | _ \<Rightarrow> (case model_dump usage of Some (Some (VDict d)) \<Rightarrow> Some d | _ \<Rightarrow> None))"

fun usage_field_int :: "(string \<times> pyval) list \<Rightarrow> string list \<Rightarrow> exc + int option" where
  "usage_field_int data [] = Inr None"
| "usage_field_int data (k # ks) =
     (case map_of data k of
        None \<Rightarrow> usage_field_int data ks
      | Some v \<Rightarrow> (case coerce_non_negative_int v of
          Inl e \<Rightarrow> Inl e
        | Inr (Some n) \<Rightarrow> Inr (Some n)
        | Inr None \<Rightarrow> usage_field_int data ks))"

record token_usage_counts =
  tu_input :: int
  tu_output :: int
  tu_thoughts :: "int option"

definition extract_token_usage_counts :: "pyval \<Rightarrow> exc + token_usage_counts option" where
  "extract_token_usage_counts usage =
     (case usage_metadata_mapping usage of
        None \<Rightarrow> Inr None
      | Some data \<Rightarrow>
       (case usage_field_int data [''prompt_token_count'', ''promptTokenCount''] of Inl e \<Rightarrow> Inl e | Inr prompt \<Rightarrow>
       (case usage_field_int data [''response_token_count'', ''responseTokenCount'', ''candidates_token_count'',
              ''candidatesTokenCount''] of Inl e \<Rightarrow> Inl e | Inr response \<Rightarrow>
       (case usage_field_int data [''thoughts_token_count'', ''thoughtsTokenCount''] of Inl e \<Rightarrow> Inl e | Inr thoughts \<Rightarrow>
        (case (prompt, response) of
           (Some p, Some r) \<Rightarrow> Inr (Some \<lparr>tu_input = p,
             tu_output = r + (case thoughts of Some t \<Rightarrow> if 0 < t then t else 0 | None \<Rightarrow> 0), tu_thoughts = thoughts\<rparr>)
         | _ \<Rightarrow> Inr None)))))"

definition compute_gemini_flash_cost_microusd :: "token_usage_counts option \<Rightarrow> settings \<Rightarrow> int option" where
  "compute_gemini_flash_cost_microusd usage st =
     (case usage of None \<Rightarrow> None
      | Some u \<Rightarrow> Some (\<lceil>of_int (tu_input u) * flash_input_usd_per_million st\<rceil>
                    + \<lceil>of_int (tu_output u) * flash_output_usd_per_million st\<rceil>))"

definition usage_counts_response_meta :: "int option \<Rightarrow> int option \<Rightarrow> int option \<Rightarrow> (string \<times> pyval) list" where
  "usage_counts_response_meta i out t =
     some_field ''input_token_count'' VInt i @ some_field ''output_token_count'' VInt out
     @ some_field ''thoughts_token_count'' VInt t"

section \<open>Results\<close>

record content_result =
  cr_text :: string
  cr_parsed :: pyval
  cr_model :: string
  cr_operation :: string
  cr_latency_ms :: int
  cr_attempts :: nat
  cr_input_tokens :: "int option"
  cr_output_tokens :: "int option"
  cr_thoughts_tokens :: "int option"
  cr_cost :: "int option"

record image_result =
  im_images :: "(bytes \<times> string) list"
  im_model :: string
  im_operation :: string
  im_latency_ms :: int
  im_attempts :: nat

datatype client_result = Content content_result | Images image_result | Other_result string

definition image_summary :: "(bytes \<times> string) list \<Rightarrow> pyval" where
  "image_summary images = VDict [(''image_count'', VInt (int (length images))),
     (''images'', VList (map (\<lambda>(b, m). VDict [(''mime_type'', VStr m), (''byte_length'', VInt (int (length b)))]) images))]"

definition result_log_payload :: "client_result \<Rightarrow> pyval" where
  "result_log_payload result = (case result of
     Content r \<Rightarrow> (let usage = usage_counts_response_meta (cr_input_tokens r) (cr_output_tokens r) (cr_thoughts_tokens r) in
       VDict ([(''text'', VStr (cr_text r)), (''parsed'', cr_parsed r)]
         @ (if usage = [] then [] else [(''usage'', VDict usage)])
         @ some_field ''estimated_cost_microusd'' VInt (cr_cost r)))
   | Images r \<Rightarrow> image_summary (im_images r)
   | Other_result n \<Rightarrow> VDict [(''type'', VStr n)])"

definition success_response_usage_meta :: "client_result \<Rightarrow> (string \<times> pyval) list" where
  "success_response_usage_meta result = (case result of
     Content r \<Rightarrow> usage_counts_response_meta (cr_input_tokens r) (cr_output_tokens r) (cr_thoughts_tokens r)
   | _ \<Rightarrow> [])"

definition build_success_response_meta :: "client_result \<Rightarrow> nat \<Rightarrow> pyval" where
  "build_success_response_meta result attempt = (case result of
     Content _ \<Rightarrow> VDict ((''attempt'', VInt (int attempt)) # success_response_usage_meta result)
   | _ \<Rightarrow> VDict [(''attempt'', VInt (int attempt)), (''result'', sanitize_for_log None (result_log_payload result))])"

definition error_response_meta :: "exc \<Rightarrow> nat \<Rightarrow> pyval" where
  "error_response_meta e attempt = VDict [(''attempt'', VInt (int attempt)), (''error_type'', VStr (exc_name e)),
     (''transient'', VBool (is_transient_error e))]"

section \<open>Instrumentation\<close>

record api_call =
  ac_model :: string
  ac_operation :: string
  ac_request_meta :: pyval
  ac_response_meta :: pyval
  ac_success :: bool
  ac_latency_ms :: int
  ac_cost :: "int option"

text \<open>
  What \<open>json.dumps\<close> and the \<open>jsonb\<close> column accept together: JSON values without the floats JSON does
  not have and without the character NUL.
\<close>

definition jsonb_text :: "string \<Rightarrow> bool" where
  "jsonb_text s \<longleftrightarrow> CHR 0x00 \<notin> set s"

fun jsonb_ok :: "pyval \<Rightarrow> bool" where
  "jsonb_ok VNone = True"
| "jsonb_ok (VBool _) = True"
| "jsonb_ok (VInt _) = True"
| "jsonb_ok (VFloat f) = (f \<noteq> NaN \<and> f \<noteq> PInf \<and> f \<noteq> NInf)"
| "jsonb_ok (VStr s) = jsonb_text s"
| "jsonb_ok (VList xs) = list_all jsonb_ok xs"
| "jsonb_ok (VDict d) = list_all (\<lambda>(k, v). jsonb_text k \<and> jsonb_ok v) d"
| "jsonb_ok _ = False"

text \<open>
  \<open>PostgresApiCallRecorder.record\<close> stores the row when both metadata objects are such and the
  database is up; \<open>_safe_record\<close> swallows what it raises, and does nothing without a recorder.
\<close>

definition recorder_stores :: "bool \<Rightarrow> api_call \<Rightarrow> bool" where
  "recorder_stores up row \<longleftrightarrow> up \<and> jsonb_ok (ac_request_meta row) \<and> jsonb_ok (ac_response_meta row)"

section \<open>Gates\<close>

record gate =
  g_limit :: nat
  g_free :: nat \<comment> \<open>value of the semaphore\<close>
  g_rpm :: nat
  g_stamps :: "rat list"

definition model_gate :: "int \<Rightarrow> int \<Rightarrow> gate" where
  "model_gate max_concurrency rpm = \<lparr>g_limit = nat (max 1 max_concurrency), g_free = nat (max 1 max_concurrency),
     g_rpm = nat (max 1 rpm), g_stamps = []\<rparr>"

definition expire :: "rat \<Rightarrow> rat list \<Rightarrow> rat list" where
  "expire now stamps = dropWhile (\<lambda>t. 60 \<le> now - t) stamps"

text \<open>The sleep of \<open>acquire\<close> inside the lock, from the clock reading \<open>now\<close>: 0 when there is none.\<close>

definition rpm_wait :: "gate \<Rightarrow> rat \<Rightarrow> rat" where
  "rpm_wait g now =
     (let stamps = expire now (g_stamps g) in
      if g_rpm g \<le> length stamps then max (60 - (now - hd stamps) + 1 / 1000) 0 else 0)"

text \<open>
  The locked section of \<open>acquire\<close>: \<open>now\<close> is read on entry, \<open>woke\<close> after the sleep, \<open>stamp\<close> at the end.
\<close>

definition enter_window :: "rat \<Rightarrow> rat \<Rightarrow> rat \<Rightarrow> gate \<Rightarrow> gate" where
  "enter_window now woke stamp g =
     (let stamps = expire now (g_stamps g);
          stamps' = (if g_rpm g \<le> length stamps then expire woke stamps else stamps) in
      g\<lparr>g_stamps := stamps' @ [stamp]\<rparr>)"

definition take_slot :: "gate \<Rightarrow> gate" where "take_slot g = g\<lparr>g_free := g_free g - 1\<rparr>"
definition give_slot :: "gate \<Rightarrow> gate" where "give_slot g = g\<lparr>g_free := g_free g + 1\<rparr>"

definition client_gates :: "settings \<Rightarrow> (string, gate) dict" where
  "client_gates st =
     [(GEMINI_FLASH, model_gate (gemini_flash_max_concurrency st) (gemini_flash_rpm st)),
      (NANO_BANANA_LITE, model_gate (nano_banana_max_concurrency st) (nano_banana_rpm st))]"

section \<open>The retry policy\<close>

datatype event =
    Take_slot
  | Enter_window
  | Store_row api_call
  | Backoff rat
  | Give_slot

text \<open>
  What happens to one attempt: where the task is cancelled, if it is while it waits; what the call
  returned or raised; how long it took; whether the database stores a row; the random number drawn.
\<close>

datatype cancel_site = Waiting_slot | Waiting_window | Waiting_backoff

record 'r attempt =
  at_cancelled :: "cancel_site option"
  at_reply :: "exc + 'r"
  at_elapsed :: rat
  at_recorder_up :: bool
  at_random :: rat

definition map_reply :: "('a \<Rightarrow> exc + 'b) \<Rightarrow> 'a attempt \<Rightarrow> 'b attempt" where
  "map_reply f a = \<lparr>at_cancelled = at_cancelled a,
     at_reply = (case at_reply a of Inl e \<Rightarrow> Inl e | Inr r \<Rightarrow> f r),
     at_elapsed = at_elapsed a, at_recorder_up = at_recorder_up a, at_random = at_random a\<rparr>"

definition latency_ms :: "rat \<Rightarrow> int" where "latency_ms elapsed = trunc (elapsed * 1000)"

definition backoff_delay :: "settings \<Rightarrow> nat \<Rightarrow> rat \<Rightarrow> rat" where
  "backoff_delay st attempt random =
     min (gemini_retry_base_delay_s st * 2 ^ (attempt - 1)) (gemini_retry_max_delay_s st) * (1 / 2 + random)"

record api_request =
  rq_model :: string
  rq_operation :: string
  rq_meta :: pyval

definition safe_record :: "bool \<Rightarrow> bool \<Rightarrow> api_call \<Rightarrow> event list" where
  "safe_record recorder up row = (if recorder \<and> recorder_stores up row then [Store_row row] else [])"

definition success_row :: "api_request \<Rightarrow> (client_result \<Rightarrow> int option) \<Rightarrow> nat \<Rightarrow> client_result attempt \<Rightarrow> client_result \<Rightarrow> api_call" where
  "success_row rq cost_fn attempt a r = \<lparr>ac_model = rq_model rq, ac_operation = rq_operation rq,
     ac_request_meta = rq_meta rq, ac_response_meta = build_success_response_meta r attempt, ac_success = True,
     ac_latency_ms = latency_ms (at_elapsed a), ac_cost = cost_fn r\<rparr>"

definition error_row :: "api_request \<Rightarrow> nat \<Rightarrow> client_result attempt \<Rightarrow> exc \<Rightarrow> api_call" where
  "error_row rq attempt a e = \<lparr>ac_model = rq_model rq, ac_operation = rq_operation rq,
     ac_request_meta = rq_meta rq, ac_response_meta = error_response_meta e attempt, ac_success = False,
     ac_latency_ms = latency_ms (at_elapsed a), ac_cost = None\<rparr>"

text \<open>
  The loop of \<open>_run_with_policy\<close>; \<open>left\<close> counts the attempts of the range not yet made.  The slot is
  given back in \<open>finally\<close>, after the backoff sleep; a cancellation is no \<open>Exception\<close>, so it leaves no
  row, and one that hits \<open>acquire\<close> inside the window leaves the slot taken.
\<close>

fun policy_loop ::
  "settings \<Rightarrow> bool \<Rightarrow> api_request \<Rightarrow> (client_result \<Rightarrow> int option) \<Rightarrow> (nat \<Rightarrow> client_result attempt) \<Rightarrow> nat \<Rightarrow> nat
    \<Rightarrow> (exc + client_result \<times> int \<times> nat) \<times> event list" where
  "policy_loop st recorder rq cost_fn script attempt 0 = (Inl Exc_assertion, [])"
| "policy_loop st recorder rq cost_fn script attempt (Suc left) =
     (let a = script attempt; store = safe_record recorder (at_recorder_up a) in
      if at_cancelled a = Some Waiting_slot then (Inl Exc_cancelled, [])
      else if at_cancelled a = Some Waiting_window then (Inl Exc_cancelled, [Take_slot])
      else (case at_reply a of
        Inr r \<Rightarrow> (Inr (r, latency_ms (at_elapsed a), attempt),
           [Take_slot, Enter_window] @ store (success_row rq cost_fn attempt a r) @ [Give_slot])
      | Inl e \<Rightarrow>
         (if e = Exc_cancelled then (Inl e, [Take_slot, Enter_window, Give_slot])
          else (let evs = [Take_slot, Enter_window] @ store (error_row rq attempt a e) in
            if \<not> is_transient_error e \<or> gemini_max_retries st + 1 \<le> int attempt then (Inl e, evs @ [Give_slot])
            else (let evs' = evs @ [Backoff (backoff_delay st attempt (at_random a)), Give_slot] in
              if at_cancelled a = Some Waiting_backoff then (Inl Exc_cancelled, evs')
              else (let (res, rest) = policy_loop st recorder rq cost_fn script (Suc attempt) left in
                (res, evs' @ rest)))))))"

definition run_with_policy ::
  "settings \<Rightarrow> bool \<Rightarrow> api_request \<Rightarrow> (client_result \<Rightarrow> int option) \<Rightarrow> (nat \<Rightarrow> client_result attempt)
    \<Rightarrow> (exc + client_result \<times> int \<times> nat) \<times> event list" where
  "run_with_policy st recorder rq cost_fn script =
     policy_loop st recorder rq cost_fn script 1 (nat (gemini_max_retries st + 1))"

section \<open>Requests\<close>

definition inline_part :: "bytes \<Rightarrow> string \<Rightarrow> pyval" where
  "inline_part b m = VPart (VDict [(''inline_data'', VDict [(''data'', VBytes b), (''mime_type'', VStr m)])])"

definition normalize_item :: "pyval \<Rightarrow> pyval" where
  "normalize_item v = (case v of VMediaBlob b m \<Rightarrow> inline_part b m | _ \<Rightarrow> v)"

text \<open>Bytes are a sequence of integers; a mapping is no sequence and passes as it is.\<close>

definition normalize_contents :: "pyval \<Rightarrow> pyval" where
  "normalize_contents contents = (case contents of
     VMediaBlob b m \<Rightarrow> VList [inline_part b m]
   | VPart _ \<Rightarrow> VList [contents]
   | VList xs \<Rightarrow> VList (map normalize_item xs)
   | VBytes b \<Rightarrow> VList (map (\<lambda>w. VInt (int (unat w))) b)
   | _ \<Rightarrow> contents)"

definition require_model :: "string \<Rightarrow> exc + unit" where
  "require_model model =
     (if model \<in> set GEMINI_MODELS then Inr () else Inl (Exc_value ''model is not a canonical Gemini id''))"

fun py_true :: "pyval \<Rightarrow> bool" where
  "py_true VNone = False"
| "py_true (VBool b) = b"
| "py_true (VInt n) = (n \<noteq> 0)"
| "py_true (VFloat f) = (f \<noteq> Fin 0)"
| "py_true (VStr s) = (s \<noteq> [])"
| "py_true (VBytes b) = (b \<noteq> [])"
| "py_true (VList xs) = (xs \<noteq> [])"
| "py_true (VDict d) = (d \<noteq> [])"
| "py_true _ = True"

type_synonym config = "(string, pyval) dict"

definition set_default :: "string \<Rightarrow> pyval \<Rightarrow> config \<Rightarrow> config" where
  "set_default k v d = (if map_of d k = None then d @ [(k, v)] else d)"

text \<open>\<open>dict(existing)\<close> of the thinking configuration, a mapping or a \<open>ThinkingConfig\<close>.\<close>

definition thinking_dict :: "pyval \<Rightarrow> exc + config" where
  "thinking_dict existing =
     (if \<not> py_true existing then Inr []
      else (case existing of
        VDict d \<Rightarrow> Inr d
      | VModel n (Some (VDict d)) \<Rightarrow> if n = ''ThinkingConfig'' then Inr d else Inl Exc_type
      | _ \<Rightarrow> Inl Exc_type))"

definition with_schema :: "pyval option \<Rightarrow> config \<Rightarrow> config" where
  "with_schema response_schema data = (case response_schema of
     None \<Rightarrow> data
   | Some sch \<Rightarrow> set_default ''response_mime_type'' (VStr ''application/json'') (AList.update ''response_schema'' sch data))"

definition sanitize_schema_entry :: "config \<Rightarrow> config" where
  "sanitize_schema_entry data = (case map_of data ''response_schema'' of
     None \<Rightarrow> data
   | Some sch \<Rightarrow> AList.update ''response_schema'' (fst (sanitize_response_schema sch)) data)"

definition with_mime :: "string option \<Rightarrow> config \<Rightarrow> config" where
  "with_mime mime data = (case mime of None \<Rightarrow> data | Some m \<Rightarrow> AList.update ''response_mime_type'' (VStr m) data)"

definition with_thinking :: "string option \<Rightarrow> config \<Rightarrow> exc + config" where
  "with_thinking level data = (case level of
     None \<Rightarrow> Inr data
   | Some lv \<Rightarrow> (case thinking_dict (case map_of data ''thinking_config'' of None \<Rightarrow> VNone | Some v \<Rightarrow> v) of
       Inl e \<Rightarrow> Inl e
     | Inr th \<Rightarrow> Inr (AList.update ''thinking_config'' (VDict (AList.update ''thinking_level'' (VStr lv) th)) data)))"

text \<open>\<open>sdk\<close> is the constructor \<open>types.GenerateContentConfig(**data)\<close>, by what it dumps or raises.\<close>

definition resolve_content_config ::
  "(config \<Rightarrow> exc + config) \<Rightarrow> config option \<Rightarrow> pyval option \<Rightarrow> string option \<Rightarrow> string option \<Rightarrow> exc + config option" where
  "resolve_content_config sdk config response_schema mime thinking_level =
     (let data = (case config of None \<Rightarrow> [] | Some d \<Rightarrow> d);
          data = with_mime mime (sanitize_schema_entry (with_schema response_schema data)) in
      case with_thinking thinking_level data of
        Inl e \<Rightarrow> Inl e
      | Inr data \<Rightarrow> if data = [] then Inr None else (case sdk data of Inl e \<Rightarrow> Inl e | Inr d \<Rightarrow> Inr (Some d)))"

definition config_value :: "config option \<Rightarrow> pyval" where
  "config_value c = (case c of None \<Rightarrow> VNone | Some d \<Rightarrow> VDict d)"

definition content_request :: "string \<Rightarrow> string \<Rightarrow> pyval \<Rightarrow> config option \<Rightarrow> api_request" where
  "content_request model oper normalized resolved = \<lparr>rq_model = model, rq_operation = oper,
     rq_meta = VDict [(''operation'', VStr oper), (''prompt'', summarize_contents normalized),
       (''config'', sanitize_for_log None (config_value resolved))]\<rparr>"

text \<open>The response object of the SDK: \<open>text\<close>, \<open>parsed\<close> and \<open>usage_metadata\<close>, each absent or a value.\<close>

record content_response =
  rs_text :: "string option"
  rs_parsed :: pyval
  rs_usage :: pyval

definition content_reply :: "settings \<Rightarrow> string \<Rightarrow> string \<Rightarrow> content_response \<Rightarrow> exc + client_result" where
  "content_reply st model oper response =
     (case extract_token_usage_counts (rs_usage response) of
        Inl e \<Rightarrow> Inl e
      | Inr usage \<Rightarrow> Inr (Content \<lparr>cr_text = (case rs_text response of None \<Rightarrow> [] | Some t \<Rightarrow> t),
          cr_parsed = rs_parsed response, cr_model = model, cr_operation = oper, cr_latency_ms = 0, cr_attempts = 0,
          cr_input_tokens = map_option tu_input usage, cr_output_tokens = map_option tu_output usage,
          cr_thoughts_tokens = (case usage of None \<Rightarrow> None | Some u \<Rightarrow> tu_thoughts u),
          cr_cost = (if model = GEMINI_FLASH then compute_gemini_flash_cost_microusd usage st else None)\<rparr>))"

definition content_cost :: "string \<Rightarrow> client_result \<Rightarrow> int option" where
  "content_cost model result = (case result of
     Content r \<Rightarrow> if model = GEMINI_FLASH then cr_cost r else None
   | _ \<Rightarrow> None)"

definition generate_content ::
  "settings \<Rightarrow> bool \<Rightarrow> (config \<Rightarrow> exc + config) \<Rightarrow> (nat \<Rightarrow> content_response attempt) \<Rightarrow> string \<Rightarrow> string \<Rightarrow> pyval
    \<Rightarrow> config option \<Rightarrow> pyval option \<Rightarrow> string option \<Rightarrow> string option \<Rightarrow> (exc + content_result) \<times> event list" where
  "generate_content st recorder sdk script model oper contents config response_schema mime thinking_level =
     (case require_model model of Inl e \<Rightarrow> (Inl e, []) | Inr _ \<Rightarrow>
     (case resolve_content_config sdk config response_schema mime thinking_level of Inl e \<Rightarrow> (Inl e, []) | Inr resolved \<Rightarrow>
      (let rq = content_request model oper (normalize_contents contents) resolved;
           (res, evs) = run_with_policy st recorder rq (content_cost model)
             (\<lambda>n. map_reply (content_reply st model oper) (script n)) in
       (case res of
          Inl e \<Rightarrow> Inl e
        | Inr (Content r, latency, attempts) \<Rightarrow> Inr (r\<lparr>cr_latency_ms := latency, cr_attempts := attempts\<rparr>)
        | Inr _ \<Rightarrow> Inl Exc_type, evs))))"

text \<open>
  \<open>generate_json\<close>: \<open>loads\<close> is \<open>json.loads\<close>, \<open>full_dump\<close> the \<open>model_dump()\<close> of a pydantic value.
\<close>

definition json_object :: "(string \<Rightarrow> json option) \<Rightarrow> (pyval \<Rightarrow> exc + pyval) \<Rightarrow> content_result \<Rightarrow> exc + config" where
  "json_object loads full_dump r =
     (case cr_parsed r of
        VDict d \<Rightarrow> Inr d
      | parsed \<Rightarrow>
        (let from_text =
           (let text = strip (cr_text r) in
            if text = [] then Inl (Exc_value ''generate_json expected a JSON object'')
            else (case loads text of
              None \<Rightarrow> Inl (Exc_value ''JSONDecodeError'')
            | Some (JObj d) \<Rightarrow> Inr (map (\<lambda>(k, v). (k, json_val v)) d)
            | Some _ \<Rightarrow> Inl (Exc_value ''generate_json expected a JSON object''))) in
         if model_dump parsed = None then from_text
         else (case full_dump parsed of Inl e \<Rightarrow> Inl e | Inr (VDict d) \<Rightarrow> Inr d | Inr _ \<Rightarrow> from_text)))"

definition generate_json ::
  "settings \<Rightarrow> bool \<Rightarrow> (config \<Rightarrow> exc + config) \<Rightarrow> (string \<Rightarrow> json option) \<Rightarrow> (pyval \<Rightarrow> exc + pyval)
    \<Rightarrow> (nat \<Rightarrow> content_response attempt) \<Rightarrow> string \<Rightarrow> string \<Rightarrow> pyval \<Rightarrow> pyval \<Rightarrow> string \<Rightarrow> config option
    \<Rightarrow> (exc + config) \<times> event list" where
  "generate_json st recorder sdk loads full_dump script model oper contents response_schema thinking_level config =
     (let (res, evs) = generate_content st recorder sdk script model oper contents config
            (if response_schema = VNone then None else Some response_schema) (Some ''application/json'') (Some thinking_level) in
      (case res of Inl e \<Rightarrow> Inl e | Inr r \<Rightarrow> json_object loads full_dump r, evs))"

section \<open>Images\<close>

text \<open>
  The parts of a response: per candidate its inline data, and the images of the Imagen shape.  A missing
  collection reads as an empty one.
\<close>

record image_response =
  ir_candidates :: "(bytes option \<times> string option) option list list"
  ir_generated :: "(bytes option \<times> string option) option list"

definition mime_or_png :: "string option \<Rightarrow> string" where
  "mime_or_png m = (case m of None \<Rightarrow> ''image/png'' | Some s \<Rightarrow> if s = [] then ''image/png'' else s)"

definition bytes_or_empty :: "bytes option \<Rightarrow> bytes" where
  "bytes_or_empty b = (case b of None \<Rightarrow> [] | Some d \<Rightarrow> d)"

definition inline_image :: "(bytes option \<times> string option) option \<Rightarrow> (bytes \<times> string) list" where
  "inline_image part = (case part of
     None \<Rightarrow> []
   | Some (b, m) \<Rightarrow> (let raw = bytes_or_empty b; mime = mime_or_png m in
       if raw \<noteq> [] \<and> take 6 mime = ''image/'' then [(raw, mime)] else []))"

definition generated_image :: "(bytes option \<times> string option) option \<Rightarrow> (bytes \<times> string) list" where
  "generated_image part = (case part of None \<Rightarrow> [] | Some (b, m) \<Rightarrow> [(bytes_or_empty b, mime_or_png m)])"

definition images_of :: "image_response \<Rightarrow> (bytes \<times> string) list" where
  "images_of response = concat (map inline_image (concat (ir_candidates response)))
     @ concat (map generated_image (ir_generated response))"

definition image_reply :: "string \<Rightarrow> string \<Rightarrow> image_response \<Rightarrow> exc + client_result" where
  "image_reply model oper response = Inr (Images \<lparr>im_images = images_of response, im_model = model,
     im_operation = oper, im_latency_ms = 0, im_attempts = 0\<rparr>)"

definition image_cost :: "settings \<Rightarrow> string \<Rightarrow> client_result \<Rightarrow> int option" where
  "image_cost st model result = (case result of
     Images r \<Rightarrow> if model \<noteq> NANO_BANANA_LITE then None
       else Some (nano_banana_cost_microusd_per_image st * int (length (im_images r)))
   | _ \<Rightarrow> None)"

definition resolve_image_config :: "(config \<Rightarrow> exc + config) \<Rightarrow> config option \<Rightarrow> exc + config option" where
  "resolve_image_config sdk config = (case config of
     None \<Rightarrow> Inr None | Some d \<Rightarrow> (case sdk d of Inl e \<Rightarrow> Inl e | Inr c \<Rightarrow> Inr (Some c)))"

definition image_request :: "string \<Rightarrow> string \<Rightarrow> string \<Rightarrow> config option \<Rightarrow> api_request" where
  "image_request model oper prompt resolved = \<lparr>rq_model = model, rq_operation = oper,
     rq_meta = VDict [(''operation'', VStr oper), (''prompt'', VStr prompt),
       (''config'', sanitize_for_log None (config_value resolved))]\<rparr>"

definition generate_images ::
  "settings \<Rightarrow> bool \<Rightarrow> (config \<Rightarrow> exc + config) \<Rightarrow> (nat \<Rightarrow> image_response attempt) \<Rightarrow> string \<Rightarrow> string \<Rightarrow> string
    \<Rightarrow> config option \<Rightarrow> (exc + image_result) \<times> event list" where
  "generate_images st recorder sdk script model oper prompt config =
     (case require_model model of Inl e \<Rightarrow> (Inl e, []) | Inr _ \<Rightarrow>
     (case resolve_image_config sdk config of Inl e \<Rightarrow> (Inl e, []) | Inr resolved \<Rightarrow>
      (let (res, evs) = run_with_policy st recorder (image_request model oper prompt resolved) (image_cost st model)
             (\<lambda>n. map_reply (image_reply model oper) (script n)) in
       (case res of
          Inl e \<Rightarrow> Inl e
        | Inr (Images r, latency, attempts) \<Rightarrow> Inr (r\<lparr>im_latency_ms := latency, im_attempts := attempts\<rparr>)
        | Inr _ \<Rightarrow> Inl Exc_type, evs))))"

text \<open>The options \<open>GoogleGenaiTransport.generate_images\<close> passes on, from the dumped configuration.\<close>

definition native_image_keys :: "string list" where
  "native_image_keys = [''aspect_ratio'', ''image_size'', ''person_generation'']"

definition native_image_options :: "config option \<Rightarrow> exc + config option" where
  "native_image_options config = (case config of
     None \<Rightarrow> Inr None
   | Some values \<Rightarrow>
      (if (case map_of values ''number_of_images'' of None \<Rightarrow> False | Some n \<Rightarrow> n \<noteq> VInt 1)
       then Inl (Exc_value ''native Gemini image models support one image per call'')
       else (let rest = AList.delete ''number_of_images'' values;
                 supported = List.map_filter (\<lambda>k. map_option (\<lambda>v. (k, v)) (map_of rest k)) native_image_keys;
                 values' = filter (\<lambda>(k, v). k \<notin> set native_image_keys) rest in
         if values' \<noteq> []
         then Inl (Exc_value (''unsupported native Gemini image options: '' @ join_with '', '' (sort (map fst values'))))
         else Inr (if supported = [] then None else Some supported))))"

section \<open>Construction\<close>

text \<open>\<open>create_gemini_client\<close>: the gates of the new client, unless it has neither transport nor key.\<close>

definition create_gemini_client :: "settings \<Rightarrow> bool \<Rightarrow> exc + (string, gate) dict" where
  "create_gemini_client st transport_injected =
     (if \<not> transport_injected \<and> gemini_api_key st = []
      then Inl (Exc_value ''gemini_api_key is empty; set GEMINI_API_KEY or inject a transport'')
      else Inr (client_gates st))"

definition gemini_settings_log_meta :: "settings \<Rightarrow> config" where
  "gemini_settings_log_meta st =
     [(''key_configured'', VBool (gemini_api_key st \<noteq> [])),
      (''key_length'', VInt (int (length (gemini_api_key st)))),
      (''max_retries'', VInt (gemini_max_retries st)),
      (''retry_base_delay_s'', VFloat (Fin (gemini_retry_base_delay_s st))),
      (''retry_max_delay_s'', VFloat (Fin (gemini_retry_max_delay_s st))),
      (''flash_max_concurrency'', VInt (gemini_flash_max_concurrency st)),
      (''flash_rpm'', VInt (gemini_flash_rpm st)),
      (''flash_input_usd_per_million_tokens'', VFloat (Fin (flash_input_usd_per_million st))),
      (''flash_output_usd_per_million_tokens'', VFloat (Fin (flash_output_usd_per_million st))),
      (''nano_banana_max_concurrency'', VInt (nano_banana_max_concurrency st)),
      (''nano_banana_rpm'', VInt (nano_banana_rpm st)),
      (''nano_banana_cost_microusd_per_image'', VInt (nano_banana_cost_microusd_per_image st)),
      (''deck_admin_key_configured'', VBool (deck_admin_api_key st \<noteq> []))]"

end
