(* ===== verification/Gemini_Redaction.thy ===== *)
theory Gemini_Redaction
  imports Gemini_Client
begin

text \<open>
  What leaves the Gemini client: sanitised schemas hold no unsupported key, and logged metadata does
  not depend on secrets and media.  \<open>log_equiv\<close> relates two values an observer of the logs is not
  meant to tell apart; it is stated on the values alone, and sanitising maps related values to the
  same result.
\<close>

section \<open>Schemas\<close>

fun schema_clean :: "pyval \<Rightarrow> bool" where
  "schema_clean (VDict d) = list_all (\<lambda>(k, v). k \<notin> set unsupported_schema_keys \<and> schema_clean v) d"
| "schema_clean (VList xs) = list_all schema_clean xs"
| "schema_clean _ = True"

lemma schema_sanitized: "schema_clean (fst (sanitize_response_schema v))"
  by (induction v rule: sanitize_response_schema.induct) (auto simp: list_all_iff Let_def)

lemma sanitize_clean: "schema_clean v \<Longrightarrow> sanitize_response_schema v = (v, 0)"
proof (induction v rule: sanitize_response_schema.induct)
  case (1 d)
  then have keep: "filter (\<lambda>(k, v). k \<notin> set unsupported_schema_keys) d = d"
    by (auto simp: list_all_iff intro!: filter_True)
  have "\<forall>x \<in> set d. sanitize_response_schema (snd x) = (snd x, 0)"
    using 1 keep by (fastforce simp: list_all_iff)
  then have "map (\<lambda>x. (fst x, fst (sanitize_response_schema (snd x)))) d = d"
    and "map (\<lambda>x. snd (sanitize_response_schema (snd x))) d = map (\<lambda>x. 0) d"
    by (simp_all add: map_idI)
  then show ?case using keep by (simp add: Let_def comp_def case_prod_beta)
next
  case (2 xs)
  then have "\<forall>x \<in> set xs. sanitize_response_schema x = (x, 0)" by (auto simp: list_all_iff)
  then have "map (\<lambda>x. fst (sanitize_response_schema x)) xs = xs"
    and "map (\<lambda>x. snd (sanitize_response_schema x)) xs = map (\<lambda>x. 0) xs"
    by (simp_all add: map_idI)
  then show ?case by (simp add: Let_def comp_def)
qed simp_all

lemma sanitize_idempotent:
  "sanitize_response_schema (fst (sanitize_response_schema v)) = (fst (sanitize_response_schema v), 0)"
  by (rule sanitize_clean [OF schema_sanitized])

section \<open>Logs\<close>

text \<open>
  Under a secret key strings are alike by length, other values by type.  Under a media key strings
  are alike by length and by whether they look like base64, mappings by their keys.  Binary values
  are alike by length and labels.
\<close>

inductive log_equiv :: "string option \<Rightarrow> pyval \<Rightarrow> pyval \<Rightarrow> bool" where
  same: "log_equiv key v v"
| secret_text: "secret_key key \<Longrightarrow> length s = length t \<Longrightarrow> log_equiv key (VStr s) (VStr t)"
| secret_value: "secret_key key \<Longrightarrow> type_name v \<noteq> ''str'' \<Longrightarrow> type_name v = type_name w \<Longrightarrow> log_equiv key v w"
| media_text: "media_key key \<Longrightarrow> length s = length t \<Longrightarrow> looks_like_base64 s = looks_like_base64 t
    \<Longrightarrow> log_equiv key (VStr s) (VStr t)"
| media_dict: "media_key key \<Longrightarrow> map fst d = map fst e \<Longrightarrow> log_equiv key (VDict d) (VDict e)"
| binary: "length b = length c \<Longrightarrow> log_equiv key (VBytes b) (VBytes c)"
| media_blob: "length b = length c \<Longrightarrow> log_equiv key (VMediaBlob b m) (VMediaBlob c m)"
| blob: "length b = length c \<Longrightarrow> log_equiv key (VBlob (Some b) m n) (VBlob (Some c) m n)"
| image: "length b = length c \<Longrightarrow> u \<noteq> [] \<Longrightarrow> w \<noteq> []
    \<Longrightarrow> log_equiv key (VImage (Some b) m (Some u)) (VImage (Some c) m (Some w))"
| part: "log_equiv key v w \<Longrightarrow> log_equiv key (VPart v) (VPart w)"
| model: "log_equiv key v w \<Longrightarrow> log_equiv key (VModel n (Some v)) (VModel n (Some w))"
| list: "list_all2 (log_equiv None) xs ys \<Longrightarrow> log_equiv key (VList xs) (VList ys)"
| dict: "list_all2 (\<lambda>p q. fst p = fst q \<and> log_equiv (Some (fst p)) (snd p) (snd q)) d e \<Longrightarrow> log_equiv key (VDict d) (VDict e)"
| long_text: "4000 < length s \<Longrightarrow> length s = length t \<Longrightarrow> take 256 s = take 256 t \<Longrightarrow> \<not> media_key key
    \<Longrightarrow> log_equiv key (VStr s) (VStr t)"

lemma sanitize_secret: "secret_key key \<Longrightarrow> sanitize_for_log key v = redact_secret v"
  by (simp add: sanitize_for_log.simps [of key])

lemma sanitize_media:
  "\<not> secret_key key \<Longrightarrow> media_key key \<Longrightarrow>
     (case v of VStr _ \<Rightarrow> True | VDict _ \<Rightarrow> True | VList _ \<Rightarrow> True | VModel _ _ \<Rightarrow> True | _ \<Rightarrow> False) \<Longrightarrow>
     sanitize_for_log key v = redact_media v"
  by (cases v) (simp_all add: sanitize_for_log.simps [of key])

lemma sanitize_open:
  assumes "\<not> secret_key key" "\<not> media_key key"
  shows "sanitize_for_log key (VStr s) = log_str s"
    and "sanitize_for_log key (VDict d) = VDict (map (\<lambda>(k, x). (k, sanitize_for_log (Some k) x)) d)"
    and "sanitize_for_log key (VList xs) = VList (map (sanitize_for_log None) xs)"
    and "sanitize_for_log key (VModel n (Some v)) = sanitize_for_log key v"
  using assms by (simp_all add: sanitize_for_log.simps [of key "VStr s"] sanitize_for_log.simps [of key "VDict d"]
      sanitize_for_log.simps [of key "VList xs"] sanitize_for_log.simps [of key "VModel n (Some v)"])

lemma sanitize_binary:
  assumes "\<not> secret_key key"
  shows "sanitize_for_log key (VBytes b) = VDict [(''type'', VStr ''bytes''), (''byte_length'', byte_length (Some b))]"
    and "sanitize_for_log key (VMediaBlob b m) =
      VDict [(''type'', VStr ''MediaBlob''), (''mime_type'', VStr m), (''byte_length'', byte_length (Some b))]"
    and "sanitize_for_log key (VPart v) = sanitize_for_log key v"
    and "sanitize_for_log key (VBlob c m' n) = VDict [(''type'', VStr ''Blob''), (''mime_type'', opt_str m'),
      (''byte_length'', byte_length c), (''display_name'', opt_str n)]"
    and "sanitize_for_log key (VImage c m' u) = VDict [(''type'', VStr ''Image''), (''mime_type'', opt_str m'),
      (''byte_length'', byte_length c), (''gcs_uri_present'', VBool (u \<noteq> None \<and> u \<noteq> Some []))]"
  using assms by (simp_all add: sanitize_for_log.simps [of key "VBytes b"] sanitize_for_log.simps [of key "VMediaBlob b m"]
      sanitize_for_log.simps [of key "VPart v"] sanitize_for_log.simps [of key "VBlob c m' n"]
      sanitize_for_log.simps [of key "VImage c m' u"])

lemma redact_secret_eq: "type_name v \<noteq> ''str'' \<Longrightarrow> type_name v = type_name w \<Longrightarrow> redact_secret v = redact_secret w"
  by (cases v; cases w; simp add: redact_secret_def)

lemma sanitize_equiv: "log_equiv key v w \<Longrightarrow> sanitize_for_log key v = sanitize_for_log key w"
proof (induction rule: log_equiv.induct)
  case (secret_text key s t)
  then show ?case by (simp add: sanitize_secret redact_secret_def)
next
  case (secret_value key v w)
  show ?case unfolding sanitize_secret [OF secret_value(1)] by (rule redact_secret_eq [OF secret_value(2,3)])
next
  case (media_text key s t)
  then show ?case by (cases "secret_key key") (simp_all add: sanitize_secret sanitize_media redact_secret_def redact_media_def)
next
  case (media_dict key d e)
  then show ?case by (cases "secret_key key") (simp_all add: sanitize_secret sanitize_media redact_secret_def redact_media_def)
next
  case (binary b c key)
  then show ?case by (cases "secret_key key") (simp_all add: sanitize_secret redact_secret_def sanitize_binary byte_length_def)
next
  case (media_blob b c key m)
  then show ?case by (cases "secret_key key") (simp_all add: sanitize_secret redact_secret_def sanitize_binary byte_length_def)
next
  case (blob b c key m n)
  then show ?case by (cases "secret_key key") (simp_all add: sanitize_secret redact_secret_def sanitize_binary byte_length_def)
next
  case (image b c u w key m)
  then show ?case by (cases "secret_key key") (simp_all add: sanitize_secret redact_secret_def sanitize_binary byte_length_def)
next
  case (part key v w)
  then show ?case by (cases "secret_key key") (simp_all add: sanitize_secret redact_secret_def sanitize_binary)
next
  case (model key v w n)
  then show ?case
    by (cases "secret_key key"; cases "media_key key")
      (simp_all add: sanitize_secret redact_secret_def sanitize_media redact_media_def sanitize_open)
next
  case (list xs ys key)
  then have "map (sanitize_for_log None) xs = map (sanitize_for_log None) ys"
    by (induction xs ys rule: list_all2_induct) simp_all
  then show ?case
    by (cases "secret_key key"; cases "media_key key")
      (simp_all add: sanitize_secret redact_secret_def sanitize_media redact_media_def sanitize_open)
next
  case (dict d e key)
  then have "map (\<lambda>(k, x). (k, sanitize_for_log (Some k) x)) d = map (\<lambda>(k, x). (k, sanitize_for_log (Some k) x)) e"
    and keys: "map fst d = map fst e"
    by (induction d e rule: list_all2_induct) auto
  then show ?case
    by (cases "secret_key key"; cases "media_key key")
      (simp_all add: sanitize_secret redact_secret_def sanitize_media redact_media_def sanitize_open)
next
  case (long_text s t key)
  then show ?case
    by (cases "secret_key key") (simp_all add: sanitize_secret redact_secret_def sanitize_open log_str_def)
qed simp

text \<open>No value that carries bytes, and no SDK object, survives.\<close>

fun no_binary :: "pyval \<Rightarrow> bool" where
  "no_binary (VList xs) = list_all no_binary xs"
| "no_binary (VDict d) = list_all (\<lambda>(k, v). no_binary v) d"
| "no_binary (VBytes _) = False"
| "no_binary (VMediaBlob _ _) = False"
| "no_binary (VBlob _ _ _) = False"
| "no_binary (VImage _ _ _) = False"
| "no_binary (VPart _) = False"
| "no_binary (VModel _ _) = False"
| "no_binary _ = True"

lemma redacted_no_binary [simp]:
  "no_binary (log_str s)" "no_binary (opt_str n)" "no_binary (byte_length b)"
  by (simp_all add: log_str_def opt_str_def byte_length_def split: option.split)

lemma redact_secret_no_binary [simp]: "no_binary (redact_secret v)"
  by (cases v) (simp_all add: redact_secret_def)

lemma redact_media_no_binary [simp]: "no_binary (redact_media v)"
  by (cases v) (simp_all add: redact_media_def list_all_iff)

lemma sanitize_no_binary: "no_binary (sanitize_for_log key v)"
proof (induction v arbitrary: key)
  case (VModel n d)
  then show ?case
    by (cases d; cases "secret_key key"; cases "media_key key")
      (simp_all add: sanitize_for_log.simps [of key "VModel n None"] sanitize_for_log.simps [of key "VModel n (Some w)" for w])
next
  case (VList xs)
  then show ?case
    by (cases "secret_key key"; cases "media_key key") (simp_all add: sanitize_for_log.simps [of key "VList xs"] list_all_iff)
next
  case (VDict d)
  have "no_binary (sanitize_for_log (Some k) x)" if "(k, x) \<in> set d" for k x
    using VDict [OF that] by simp
  then show ?case
    by (cases "secret_key key"; cases "media_key key") (auto simp: sanitize_for_log.simps [of key "VDict d"] list_all_iff)
qed (simp_all add: sanitize_for_log.simps [of _ "VNone"] sanitize_for_log.simps [of _ "VBool b" for b]
    sanitize_for_log.simps [of _ "VInt n" for n] sanitize_for_log.simps [of _ "VFloat f" for f]
    sanitize_for_log.simps [of _ "VStr s" for s] sanitize_for_log.simps [of _ "VObject n" for n]
    sanitize_for_log.simps [of _ "VBytes b" for b] sanitize_for_log.simps [of _ "VMediaBlob b m" for b m]
    sanitize_for_log.simps [of _ "VBlob b m n" for b m n] sanitize_for_log.simps [of _ "VImage b m n" for b m n]
    sanitize_for_log.simps [of _ "VPart v" for v])

section \<open>Requests\<close>

lemma secret_key_None [simp]: "\<not> secret_key None" "\<not> media_key None"
  by (simp_all add: secret_key_def media_key_def key_has_def)

lemma inline_part_equiv: "log_equiv key (inline_part b m) (inline_part c m)"
proof -
  have key: "media_key (Some ''inline_data'')" by code_simp
  have "log_equiv (Some ''inline_data'') (VDict [(''data'', VBytes b), (''mime_type'', VStr m)])
          (VDict [(''data'', VBytes c), (''mime_type'', VStr m)])"
    by (rule log_equiv.media_dict [OF key]) simp
  then show ?thesis
    unfolding inline_part_def by (intro log_equiv.part log_equiv.dict) simp
qed

lemma normalize_item_equiv: "log_equiv None v w \<Longrightarrow> log_equiv None (normalize_item v) (normalize_item w)"
  by (erule log_equiv.cases)
    (simp_all add: normalize_item_def inline_part_equiv log_equiv.intros)

lemma normalize_items_equiv:
  "list_all2 (log_equiv None) xs ys \<Longrightarrow> list_all2 (log_equiv None) (map normalize_item xs) (map normalize_item ys)"
  by (induction xs ys rule: list_all2_induct) (simp_all add: normalize_item_equiv)

lemma normalize_equiv:
  assumes "log_equiv None v w" "\<forall>b. v \<noteq> VBytes b"
  shows "log_equiv None (normalize_contents v) (normalize_contents w)"
  using assms
  by (cases rule: log_equiv.cases)
    (simp_all add: normalize_contents_def inline_part_equiv normalize_items_equiv log_equiv.same log_equiv.intros)

lemma content_request_equiv:
  assumes "log_equiv None v w" "\<forall>b. v \<noteq> VBytes b"
  shows "content_request model oper (normalize_contents v) resolved = content_request model oper (normalize_contents w) resolved"
  using sanitize_equiv [OF normalize_equiv [OF assms]] by (simp add: content_request_def summarize_contents_def)

lemma generate_content_equiv:
  assumes "log_equiv None v w" "\<forall>b. v \<noteq> VBytes b"
  shows "generate_content st rec sdk script model oper v config sch mime th
       = generate_content st rec sdk script model oper w config sch mime th"
  unfolding generate_content_def content_request_equiv [OF assms] by (rule refl)

end
