(* ===== verification/Gemini_Policy.thy ===== *)
theory Gemini_Policy
  imports Gemini_Redaction
begin

text \<open>
  The retry policy, one call at a time: which attempt decides, what it leaves in \<open>api_calls\<close>, how
  long it sleeps; and the shape of its events, on which the gate's laws rest.
\<close>

section \<open>Reading a trace\<close>

fun rows_of :: "event list \<Rightarrow> api_call list" where
  "rows_of [] = []"
| "rows_of (Store_row r # evs) = r # rows_of evs"
| "rows_of (_ # evs) = rows_of evs"

fun delays_of :: "event list \<Rightarrow> rat list" where
  "delays_of [] = []"
| "delays_of (Backoff d # evs) = d # delays_of evs"
| "delays_of (_ # evs) = delays_of evs"

lemma rows_of_append [simp]: "rows_of (xs @ ys) = rows_of xs @ rows_of ys"
  by (induction xs rule: rows_of.induct) simp_all

lemma delays_of_append [simp]: "delays_of (xs @ ys) = delays_of xs @ delays_of ys"
  by (induction xs rule: delays_of.induct) simp_all

lemma in_rows_of: "Store_row r \<in> set evs \<longleftrightarrow> r \<in> set (rows_of evs)"
  by (induction evs rule: rows_of.induct) auto

lemma safe_record_parts [simp]:
  "rows_of (safe_record rec up row) = (if rec \<and> recorder_stores up row then [row] else [])"
  "delays_of (safe_record rec up row) = []"
  by (simp_all add: safe_record_def)

section \<open>The deciding attempt\<close>

text \<open>A script in which nobody cancels the task.\<close>

definition undisturbed :: "(nat \<Rightarrow> 'r attempt) \<Rightarrow> bool" where
  "undisturbed script \<longleftrightarrow> (\<forall>n. at_cancelled (script n) = None \<and> at_reply (script n) \<noteq> Inl Exc_cancelled)"

definition attempt_row :: "api_request \<Rightarrow> (client_result \<Rightarrow> int option) \<Rightarrow> (nat \<Rightarrow> client_result attempt) \<Rightarrow> nat \<Rightarrow> api_call" where
  "attempt_row rq cost_fn script n = (case at_reply (script n) of
     Inr r \<Rightarrow> success_row rq cost_fn n (script n) r
   | Inl e \<Rightarrow> error_row rq n (script n) e)"

definition stored_rows ::
  "bool \<Rightarrow> api_request \<Rightarrow> (client_result \<Rightarrow> int option) \<Rightarrow> (nat \<Rightarrow> client_result attempt) \<Rightarrow> nat list \<Rightarrow> api_call list" where
  "stored_rows rec rq cost_fn script ns =
     map (attempt_row rq cost_fn script)
       (filter (\<lambda>n. rec \<and> recorder_stores (at_recorder_up (script n)) (attempt_row rq cost_fn script n)) ns)"

definition retried :: "(nat \<Rightarrow> client_result attempt) \<Rightarrow> nat \<Rightarrow> bool" where
  "retried script m \<longleftrightarrow> (\<exists>e. at_reply (script m) = Inl e \<and> is_transient_error e)"

definition decided :: "settings \<Rightarrow> (nat \<Rightarrow> client_result attempt) \<Rightarrow> nat \<Rightarrow> exc + client_result \<times> int \<times> nat \<Rightarrow> bool" where
  "decided st script n res \<longleftrightarrow> (case at_reply (script n) of
     Inr r \<Rightarrow> res = Inr (r, latency_ms (at_elapsed (script n)), n)
   | Inl e \<Rightarrow> res = Inl e \<and> (is_transient_error e \<longrightarrow> gemini_max_retries st + 1 \<le> int n))"

definition slots_taken :: "event list \<Rightarrow> nat" where "slots_taken evs = length (filter ((=) Take_slot) evs)"

lemma slots_taken_simps [simp]:
  "slots_taken [] = 0" "slots_taken (Take_slot # evs) = Suc (slots_taken evs)"
  "slots_taken (Enter_window # evs) = slots_taken evs" "slots_taken (Store_row r # evs) = slots_taken evs"
  "slots_taken (Backoff d # evs) = slots_taken evs" "slots_taken (Give_slot # evs) = slots_taken evs"
  "slots_taken (xs @ ys) = slots_taken xs + slots_taken ys" "slots_taken (safe_record rec up row) = 0"
  by (simp_all add: slots_taken_def safe_record_def)

lemma upt_split: "a \<le> n \<Longrightarrow> [a..<Suc n] = a # [Suc a..<Suc n]"
  by (rule upt_conv_Cons) simp

lemma policy_last:
  assumes "undisturbed script" "\<not> retried script a \<or> gemini_max_retries st + 1 \<le> int a"
  shows "\<exists>res evs. policy_loop st rec rq cost_fn script a (Suc left) = (res, evs) \<and> decided st script a res
    \<and> rows_of evs = stored_rows rec rq cost_fn script [a..<Suc a] \<and> delays_of evs = [] \<and> slots_taken evs = 1"
proof (cases "at_reply (script a)")
  case (Inr r)
  then show ?thesis using assms
    by (simp add: undisturbed_def Let_def decided_def stored_rows_def attempt_row_def)
next
  case (Inl e)
  then show ?thesis using assms
    by (auto simp: undisturbed_def Let_def decided_def stored_rows_def attempt_row_def retried_def)
qed

lemma policy_retry:
  assumes "undisturbed script" "retried script a" "\<not> gemini_max_retries st + 1 \<le> int a"
    and "policy_loop st rec rq cost_fn script (Suc a) left = (res, evs)"
  shows "\<exists>evs'. policy_loop st rec rq cost_fn script a (Suc left) = (res, evs' @ evs)
    \<and> rows_of evs' = stored_rows rec rq cost_fn script [a] \<and> slots_taken evs' = 1
    \<and> delays_of evs' = [backoff_delay st a (at_random (script a))]"
proof -
  obtain e where e: "at_reply (script a) = Inl e" "is_transient_error e" using assms(2) by (auto simp: retried_def)
  have calm: "at_cancelled (script a) = None" "e \<noteq> Exc_cancelled" using assms(1) e(1) by (auto simp: undisturbed_def)
  show ?thesis using e calm assms(3,4)
    by (simp add: Let_def stored_rows_def attempt_row_def)
qed

lemma policy_loop_decides:
  assumes "undisturbed script" and "int a + int left = gemini_max_retries st + 2" "0 < left"
  shows "\<exists>n res evs. a \<le> n \<and> n < a + left \<and> policy_loop st rec rq cost_fn script a left = (res, evs)
    \<and> (\<forall>m. a \<le> m \<and> m < n \<longrightarrow> retried script m) \<and> decided st script n res
    \<and> rows_of evs = stored_rows rec rq cost_fn script [a..<Suc n]
    \<and> delays_of evs = map (\<lambda>m. backoff_delay st m (at_random (script m))) [a..<n] \<and> slots_taken evs = Suc n - a"
  using assms(2,3)
proof (induction left arbitrary: a)
  case (Suc left)
  show ?case
  proof (cases "\<not> retried script a \<or> gemini_max_retries st + 1 \<le> int a")
    case True
    obtain res evs where "policy_loop st rec rq cost_fn script a (Suc left) = (res, evs)" "decided st script a res"
      "rows_of evs = stored_rows rec rq cost_fn script [a..<Suc a]" "delays_of evs = []" "slots_taken evs = 1"
      using policy_last [OF assms(1) True] by blast
    then show ?thesis by (intro exI [of _ a] exI [of _ res] exI [of _ evs]) (auto simp del: policy_loop.simps)
  next
    case False
    then have go: "retried script a" "\<not> gemini_max_retries st + 1 \<le> int a" by simp_all
    then have "int (Suc a) + int left = gemini_max_retries st + 2" "0 < left" using Suc.prems by linarith+
    from Suc.IH [OF this] obtain n res evs where n: "Suc a \<le> n" "n < Suc a + left"
      and loop: "policy_loop st rec rq cost_fn script (Suc a) left = (res, evs)"
      and before: "\<forall>m. Suc a \<le> m \<and> m < n \<longrightarrow> retried script m" and dec: "decided st script n res"
      and rows: "rows_of evs = stored_rows rec rq cost_fn script [Suc a..<Suc n]"
      and delays: "delays_of evs = map (\<lambda>m. backoff_delay st m (at_random (script m))) [Suc a..<n]"
      and slots: "slots_taken evs = Suc n - Suc a" by blast
    obtain evs' where first: "policy_loop st rec rq cost_fn script a (Suc left) = (res, evs' @ evs)"
      "rows_of evs' = stored_rows rec rq cost_fn script [a]" "slots_taken evs' = 1"
      "delays_of evs' = [backoff_delay st a (at_random (script a))]"
      using policy_retry [OF assms(1) go loop] by blast
    have "\<forall>m. a \<le> m \<and> m < n \<longrightarrow> retried script m" using before go(1) by (metis Suc_leI le_neq_implies_less)
    moreover have "rows_of (evs' @ evs) = stored_rows rec rq cost_fn script [a..<Suc n]"
      using n(1) rows first(2) upt_split [of a n] by (simp add: stored_rows_def)
    moreover have "delays_of (evs' @ evs) = map (\<lambda>m. backoff_delay st m (at_random (script m))) [a..<n]"
      using n(1) delays first(4) upt_conv_Cons [of a n] by simp
    ultimately show ?thesis using n dec first slots
      by (intro exI [of _ n] exI [of _ res] exI [of _ "evs' @ evs"]) (simp del: policy_loop.simps)
  qed
qed simp

section \<open>Delays\<close>

lemma backoff_bounds:
  assumes "0 \<le> gemini_retry_base_delay_s st" "0 \<le> gemini_retry_max_delay_s st" "0 \<le> r" "r < 1"
  shows "0 \<le> backoff_delay st n r" "backoff_delay st n r \<le> gemini_retry_max_delay_s st * (3 / 2)"
proof -
  let ?m = "min (gemini_retry_base_delay_s st * 2 ^ (n - 1)) (gemini_retry_max_delay_s st)"
  have m: "0 \<le> ?m" "?m \<le> gemini_retry_max_delay_s st" using assms(1,2) by simp_all
  then show "0 \<le> backoff_delay st n r" using assms(3) by (simp add: backoff_delay_def)
  have "?m * (1 / 2 + r) \<le> gemini_retry_max_delay_s st * (3 / 2)" using m assms(3,4) by (intro mult_mono) simp_all
  then show "backoff_delay st n r \<le> gemini_retry_max_delay_s st * (3 / 2)" by (simp add: backoff_delay_def)
qed

section \<open>Rows carry no media\<close>

lemma error_meta_no_binary [simp]: "no_binary (error_response_meta e n)"
  by (simp add: error_response_meta_def)

lemma usage_meta_no_binary [simp]: "list_all (\<lambda>(k, v). no_binary v) (usage_counts_response_meta i out t)"
  by (cases i; cases out; cases t) (simp_all add: usage_counts_response_meta_def some_field_def)

lemma success_meta_no_binary [simp]: "no_binary (build_success_response_meta r n)"
  by (cases r) (simp_all add: build_success_response_meta_def success_response_usage_meta_def sanitize_no_binary)

lemma policy_rows_no_binary:
  assumes "no_binary (rq_meta rq)" "row \<in> set (rows_of (snd (policy_loop st rec rq cost_fn script a left)))"
  shows "no_binary (ac_request_meta row) \<and> no_binary (ac_response_meta row)"
  using assms(2)
proof (induction left arbitrary: a)
  case (Suc left)
  then show ?case using assms(1)
    by (auto simp: Let_def success_row_def error_row_def case_prod_beta split: sum.splits if_splits)
qed simp

section \<open>The shape of a call's events\<close>

text \<open>Between taking a slot and giving it back; \<open>holding\<close> says whether the rest starts in between.\<close>

fun bracketed :: "bool \<Rightarrow> event list \<Rightarrow> bool" where
  "bracketed h [] = (\<not> h)"
| "bracketed h (Take_slot # evs) = (\<not> h \<and> bracketed True evs)"
| "bracketed h (Give_slot # evs) = (h \<and> bracketed False evs)"
| "bracketed h (_ # evs) = (h \<and> bracketed h evs)"

lemma bracketed_append: "bracketed h xs \<Longrightarrow> bracketed False ys \<Longrightarrow> bracketed h (xs @ ys)"
  by (induction h xs rule: bracketed.induct) auto

lemma bracketed_record [simp]: "bracketed True (safe_record rec up row @ evs) = bracketed True evs"
  by (simp add: safe_record_def)

lemma policy_bracketed:
  assumes "\<forall>n. at_cancelled (script n) \<noteq> Some Waiting_window"
  shows "bracketed False (snd (policy_loop st rec rq cost_fn script a left))"
proof (induction left arbitrary: a)
  case (Suc left)
  show ?case using Suc [of "Suc a"] assms
    by (auto simp: Let_def case_prod_beta split: sum.splits)
qed simp

end
