(* ===== verification/Gemini_Gate.thy ===== *)
theory Gemini_Gate
  imports Gemini_Policy
begin

text \<open>
  Many calls over one gate.  Every call is the list of the events it still has to make; a step makes
  the first event of one call.  Taking a slot needs a free one; the locked section of \<open>acquire\<close>, its
  sleep included, is one step, since only its holder sees the time stamps, and sleeps at least as
  long as asked.  The lock makes the clock readings of successive sections grow.
\<close>

record gate_world =
  gw_gate :: gate
  gw_calls :: "event list list"
  gw_starts :: "rat list" \<comment> \<open>all stamps ever set\<close>
  gw_clock :: rat

inductive gate_step :: "gate_world \<Rightarrow> gate_world \<Rightarrow> bool" where
  take: "i < length (gw_calls w) \<Longrightarrow> gw_calls w ! i = Take_slot # evs \<Longrightarrow> 0 < g_free (gw_gate w) \<Longrightarrow>
    gate_step w (w\<lparr>gw_gate := take_slot (gw_gate w), gw_calls := (gw_calls w)[i := evs]\<rparr>)"
| enter: "i < length (gw_calls w) \<Longrightarrow> gw_calls w ! i = Enter_window # evs \<Longrightarrow>
    gw_clock w \<le> now \<Longrightarrow> now + rpm_wait (gw_gate w) now \<le> woke \<Longrightarrow> woke \<le> stamp \<Longrightarrow>
    gate_step w (w\<lparr>gw_gate := enter_window now woke stamp (gw_gate w), gw_calls := (gw_calls w)[i := evs],
      gw_starts := gw_starts w @ [stamp], gw_clock := stamp\<rparr>)"
| give: "i < length (gw_calls w) \<Longrightarrow> gw_calls w ! i = Give_slot # evs \<Longrightarrow>
    gate_step w (w\<lparr>gw_gate := give_slot (gw_gate w), gw_calls := (gw_calls w)[i := evs]\<rparr>)"
| row: "i < length (gw_calls w) \<Longrightarrow> gw_calls w ! i = Store_row r # evs \<Longrightarrow>
    gate_step w (w\<lparr>gw_calls := (gw_calls w)[i := evs]\<rparr>)"
| sleep: "i < length (gw_calls w) \<Longrightarrow> gw_calls w ! i = Backoff d # evs \<Longrightarrow>
    gate_step w (w\<lparr>gw_calls := (gw_calls w)[i := evs]\<rparr>)"

definition gate_start :: "int \<Rightarrow> int \<Rightarrow> rat \<Rightarrow> event list list \<Rightarrow> gate_world" where
  "gate_start max_concurrency rpm clock calls =
     \<lparr>gw_gate = model_gate max_concurrency rpm, gw_calls = calls, gw_starts = [], gw_clock = clock\<rparr>"

text \<open>A call that holds a slot: it has events left and the first is not to take one.\<close>

definition holding :: "event list \<Rightarrow> bool" where
  "holding evs \<longleftrightarrow> evs \<noteq> [] \<and> hd evs \<noteq> Take_slot"

definition in_flight :: "gate_world \<Rightarrow> nat" where
  "in_flight w = length (filter holding (gw_calls w))"

section \<open>Slots\<close>

definition slots_ok :: "gate_world \<Rightarrow> bool" where
  "slots_ok w \<longleftrightarrow> (\<forall>evs \<in> set (gw_calls w). bracketed (holding evs) evs)
     \<and> g_free (gw_gate w) + in_flight w = g_limit (gw_gate w)"

lemma bracketed_holding: "bracketed h evs \<Longrightarrow> holding evs = h"
  by (cases evs; cases "hd evs"; cases h) (auto simp: holding_def)

lemma bracketed_False_holding: "bracketed False evs \<Longrightarrow> bracketed (holding evs) evs"
  using bracketed_holding by metis

lemma filter_update:
  "i < length xs \<Longrightarrow> length (filter P (xs[i := y])) + (if P (xs ! i) then 1 else 0)
     = length (filter P xs) + (if P y then 1 else 0)"
proof (induction xs arbitrary: i)
  case (Cons x xs)
  then show ?case by (cases i) auto
qed simp

lemma bracketed_rest:
  assumes "bracketed (holding (e # evs)) (e # evs)"
  shows "bracketed (holding evs) evs" "holding evs \<longleftrightarrow> e \<noteq> Give_slot"
proof -
  have "bracketed (e \<noteq> Give_slot) evs" using assms by (cases e) (auto simp: holding_def)
  then show "bracketed (holding evs) evs" "holding evs \<longleftrightarrow> e \<noteq> Give_slot" using bracketed_holding by auto
qed

lemma slots_update:
  assumes ok: "slots_ok w" and i: "i < length (gw_calls w)" "gw_calls w ! i = e # evs"
  shows "\<forall>x \<in> set ((gw_calls w)[i := evs]). bracketed (holding x) x"
    and "length (filter holding ((gw_calls w)[i := evs])) + (if e = Take_slot then 0 else 1)
       = in_flight w + (if e = Give_slot then 0 else 1)"
proof -
  have all: "\<forall>x \<in> set (gw_calls w). bracketed (holding x) x" using ok by (simp add: slots_ok_def)
  then have "bracketed (holding (e # evs)) (e # evs)" using i nth_mem by metis
  note rest = bracketed_rest [OF this]
  show "\<forall>x \<in> set ((gw_calls w)[i := evs]). bracketed (holding x) x"
    using all rest(1) set_update_subset_insert [of "gw_calls w" i evs] by blast
  have "holding (gw_calls w ! i) \<longleftrightarrow> e \<noteq> Take_slot" using i(2) by (simp add: holding_def)
  then show "length (filter holding ((gw_calls w)[i := evs])) + (if e = Take_slot then 0 else 1)
       = in_flight w + (if e = Give_slot then 0 else 1)"
    using filter_update [OF i(1), of holding evs] rest(2) by (simp add: in_flight_def split: if_splits)
qed

lemma slots_step: "gate_step w w' \<Longrightarrow> slots_ok w \<Longrightarrow> slots_ok w'"
proof (induction rule: gate_step.induct)
  case (take i w evs)
  then show ?case using slots_update [OF take(4,1,2)] by (simp add: slots_ok_def in_flight_def take_slot_def)
next
  case (enter i w evs now woke stamp)
  then show ?case using slots_update [OF enter(6,1,2)] by (simp add: slots_ok_def in_flight_def enter_window_def Let_def)
next
  case (give i w evs)
  then show ?case using slots_update [OF give(3,1,2)] by (simp add: slots_ok_def in_flight_def give_slot_def)
next
  case (row i w r evs)
  then show ?case using slots_update [OF row(3,1,2)] by (simp add: slots_ok_def in_flight_def)
next
  case (sleep i w d evs)
  then show ?case using slots_update [OF sleep(3,1,2)] by (simp add: slots_ok_def in_flight_def)
qed

section \<open>The rolling window\<close>

text \<open>
  Every stamp no longer kept is a minute old; the kept ones are the last, at most \<open>rpm\<close> of them, and
  the start \<open>rpm\<close> places after another comes a minute later.
\<close>

definition rate_limited :: "nat \<Rightarrow> rat list \<Rightarrow> bool" where
  "rate_limited rpm starts \<longleftrightarrow> (\<forall>i. i + rpm < length starts \<longrightarrow> 60 \<le> starts ! (i + rpm) - starts ! i)"

definition window_ok :: "gate_world \<Rightarrow> bool" where
  "window_ok w \<longleftrightarrow> (\<exists>old. gw_starts w = old @ g_stamps (gw_gate w)
      \<and> (\<forall>t \<in> set old. t + 60 \<le> gw_clock w)) \<and> (\<forall>t \<in> set (gw_starts w). t \<le> gw_clock w)
     \<and> length (g_stamps (gw_gate w)) \<le> g_rpm (gw_gate w) \<and> 0 < g_rpm (gw_gate w)
     \<and> rate_limited (g_rpm (gw_gate w)) (gw_starts w)"

lemma expire_split: "\<exists>dropped. stamps = dropped @ expire now stamps \<and> (\<forall>t \<in> set dropped. t + 60 \<le> now)"
proof (intro exI conjI)
  show "stamps = takeWhile (\<lambda>t. 60 \<le> now - t) stamps @ expire now stamps" by (simp add: expire_def)
  show "\<forall>t \<in> set (takeWhile (\<lambda>t. 60 \<le> now - t) stamps). t + 60 \<le> now"
    using set_takeWhileD by fastforce
qed

lemma expire_length: "length (expire now stamps) \<le> length stamps"
  by (simp add: expire_def length_dropWhile_le)

text \<open>After the sleep the window has room.\<close>

lemma expire_room:
  assumes "length stamps \<le> rpm" "0 < rpm" "stamps \<noteq> [] \<Longrightarrow> hd stamps + 60 \<le> woke"
  shows "length (expire woke stamps) < rpm"
proof (cases stamps)
  case (Cons t ts)
  then have "expire woke stamps = expire woke ts" using assms(3) by (simp add: expire_def)
  then show ?thesis using expire_length [of woke ts] assms(1) Cons by simp
qed (use assms(2) in \<open>simp add: expire_def\<close>)

lemma enter_window_stamps:
  assumes "length (g_stamps g) \<le> g_rpm g" "0 < g_rpm g" "now + rpm_wait g now \<le> woke"
  shows "\<exists>dropped kept. g_stamps g = dropped @ kept \<and> g_stamps (enter_window now woke stamp g) = kept @ [stamp]
    \<and> (\<forall>t \<in> set dropped. t + 60 \<le> woke) \<and> length kept < g_rpm g"
proof -
  let ?s = "expire now (g_stamps g)"
  obtain d where d: "g_stamps g = d @ ?s" "\<forall>t \<in> set d. t + 60 \<le> now" using expire_split by blast
  have wait: "0 \<le> rpm_wait g now" by (simp add: rpm_wait_def Let_def)
  show ?thesis
  proof (cases "g_rpm g \<le> length ?s")
    case False
    then show ?thesis using d wait assms(3)
      by (intro exI [of _ d] exI [of _ ?s]) (fastforce simp: enter_window_def Let_def)
  next
    case True
    then have "60 - (now - hd ?s) \<le> rpm_wait g now" by (simp add: rpm_wait_def Let_def)
    then have "hd ?s + 60 \<le> woke" using assms(3) by linarith
    moreover have "length ?s \<le> g_rpm g" using expire_length [of now "g_stamps g"] assms(1) by linarith
    ultimately have room: "length (expire woke ?s) < g_rpm g" using assms(2) expire_room by blast
    obtain e where e: "?s = e @ expire woke ?s" "\<forall>t \<in> set e. t + 60 \<le> woke" using expire_split by blast
    have "\<forall>t \<in> set (d @ e). t + 60 \<le> woke" using d(2) e(2) wait assms(3) by fastforce
    moreover have "g_stamps g = (d @ e) @ expire woke ?s" using d(1) e(1) by (metis append_assoc)
    ultimately show ?thesis using room True
      by (intro exI [of _ "d @ e"] exI [of _ "expire woke ?s"]) (simp add: enter_window_def Let_def)
  qed
qed

lemma rate_limited_snoc:
  assumes "rate_limited rpm starts" "starts = old @ kept" "length kept < rpm" "\<forall>t \<in> set old. t + 60 \<le> stamp"
  shows "rate_limited rpm (starts @ [stamp])"
  unfolding rate_limited_def
proof (intro allI impI)
  fix i assume i: "i + rpm < length (starts @ [stamp])"
  show "60 \<le> (starts @ [stamp]) ! (i + rpm) - (starts @ [stamp]) ! i"
  proof (cases "i + rpm < length starts")
    case True
    then show ?thesis using assms(1) by (simp add: rate_limited_def nth_append)
  next
    case False
    then have last: "i + rpm = length starts" using i by simp
    then have "i < length old" using assms(2,3) by simp
    then have "starts ! i + 60 \<le> stamp" using assms(2,4) by (simp add: nth_append)
    then show ?thesis using last assms(3) by (simp add: nth_append)
  qed
qed

lemma window_step: "gate_step w w' \<Longrightarrow> window_ok w \<Longrightarrow> window_ok w'"
proof (induction rule: gate_step.induct)
  case (enter i w evs now woke stamp)
  let ?g = "gw_gate w"
  obtain old where old: "gw_starts w = old @ g_stamps ?g" "\<forall>t \<in> set old. t + 60 \<le> gw_clock w"
    and win: "\<forall>t \<in> set (gw_starts w). t \<le> gw_clock w" "length (g_stamps ?g) \<le> g_rpm ?g" "0 < g_rpm ?g"
      "rate_limited (g_rpm ?g) (gw_starts w)" using enter(6) unfolding window_ok_def by blast
  obtain d kept where k: "g_stamps ?g = d @ kept" "g_stamps (enter_window now woke stamp ?g) = kept @ [stamp]"
    "\<forall>t \<in> set d. t + 60 \<le> woke" "length kept < g_rpm ?g" using enter_window_stamps [OF win(2,3) enter(4)] by blast
  have "0 \<le> rpm_wait ?g now" by (simp add: rpm_wait_def Let_def)
  then have order: "gw_clock w \<le> stamp" "woke \<le> stamp" using enter(3,4,5) by linarith+
  have gone: "\<forall>t \<in> set (old @ d). t + 60 \<le> stamp" using old(2) k(3) order by fastforce
  have "rate_limited (g_rpm ?g) (gw_starts w @ [stamp])"
    by (rule rate_limited_snoc [OF win(4) _ k(4) gone]) (simp add: old(1) k(1))
  moreover have "\<forall>t \<in> set (gw_starts w @ [stamp]). t \<le> stamp" using win(1) order(1) by fastforce
  moreover have "gw_starts w @ [stamp] = (old @ d) @ kept @ [stamp]" using old(1) k(1) by simp
  moreover have "g_rpm (enter_window now woke stamp ?g) = g_rpm ?g" by (simp add: enter_window_def Let_def)
  ultimately show ?case using gone k(2,4) win(3) unfolding window_ok_def by (auto intro!: exI [of _ "old @ d"])
qed (simp_all add: window_ok_def take_slot_def give_slot_def)

section \<open>Progress\<close>

lemma remaining_step: "gate_step w w' \<Longrightarrow> Suc (sum_list (map length (gw_calls w'))) = sum_list (map length (gw_calls w))"
proof -
  have less: "Suc (sum_list (map length (xs[i := evs]))) = sum_list (map length xs)"
    if "i < length xs" "xs ! i = e # evs" for xs :: "event list list" and i e evs
    using that by (induction xs arbitrary: i) (auto split: nat.splits)
  assume "gate_step w w'"
  then show ?thesis by (cases rule: gate_step.cases) (simp_all add: less)
qed

lemma rpm_wait_ok: "\<exists>now woke stamp. gw_clock w \<le> now \<and> now + rpm_wait (gw_gate w) now \<le> woke \<and> woke \<le> stamp"
  by blast

lemma holding_step:
  assumes i: "i < length (gw_calls w)" "gw_calls w ! i = e # r" "e \<noteq> Take_slot"
  shows "\<exists>w'. gate_step w w'"
proof (cases e)
  case Take_slot
  then show ?thesis using i(3) by simp
next
  case Enter_window
  obtain now woke stamp where "gw_clock w \<le> now" "now + rpm_wait (gw_gate w) now \<le> woke" "woke \<le> stamp"
    using rpm_wait_ok by blast
  then show ?thesis using gate_step.enter [OF i(1) i(2) [unfolded Enter_window]] by blast
next
  case (Store_row row)
  then show ?thesis using gate_step.row [OF i(1)] i(2) by blast
next
  case (Backoff d)
  then show ?thesis using gate_step.sleep [OF i(1)] i(2) by blast
next
  case Give_slot
  then show ?thesis using gate_step.give [OF i(1)] i(2) by blast
qed

lemma in_calls: "evs \<in> set calls \<Longrightarrow> evs \<noteq> [] \<Longrightarrow> \<exists>i. i < length calls \<and> calls ! i = hd evs # tl evs"
  by (auto simp: in_set_conv_nth)

lemma gate_progress:
  assumes "slots_ok w" "0 < g_limit (gw_gate w)" "evs \<in> set (gw_calls w)" "evs \<noteq> []"
  shows "\<exists>w'. gate_step w w'"
proof (cases "\<exists>x \<in> set (gw_calls w). holding x")
  case True
  then obtain x where x: "x \<in> set (gw_calls w)" "x \<noteq> []" "hd x \<noteq> Take_slot" by (auto simp: holding_def)
  then show ?thesis using in_calls [OF x(1,2)] holding_step x(3) by blast
next
  case False
  then have "in_flight w = 0" by (simp add: in_flight_def)
  then have free: "0 < g_free (gw_gate w)" using assms(1,2) by (simp add: slots_ok_def)
  have "hd evs = Take_slot" using False assms(3,4) by (auto simp: holding_def)
  then show ?thesis using in_calls [OF assms(3,4)] gate_step.take [OF _ _ free] by metis
qed

section \<open>Runs\<close>

lemma limit_step: "gate_step w w' \<Longrightarrow> g_limit (gw_gate w') = g_limit (gw_gate w) \<and> g_rpm (gw_gate w') = g_rpm (gw_gate w)"
  by (induction rule: gate_step.induct) (simp_all add: take_slot_def give_slot_def enter_window_def Let_def)

definition gate_inv :: "int \<Rightarrow> int \<Rightarrow> nat \<Rightarrow> gate_world \<Rightarrow> bool" where
  "gate_inv max_concurrency rpm left w \<longleftrightarrow> slots_ok w \<and> window_ok w
     \<and> g_limit (gw_gate w) = nat (max 1 max_concurrency) \<and> g_rpm (gw_gate w) = nat (max 1 rpm)
     \<and> sum_list (map length (gw_calls w)) = left"

lemma gate_start_inv:
  assumes "\<forall>evs \<in> set calls. bracketed False evs"
  shows "gate_inv mc rpm (sum_list (map length calls)) (gate_start mc rpm clock calls)"
proof -
  have none: "filter holding calls = []" and b: "\<forall>evs \<in> set calls. bracketed (holding evs) evs"
    using assms bracketed_holding by (auto simp: filter_empty_conv)
  then show ?thesis
    by (simp add: gate_inv_def gate_start_def model_gate_def slots_ok_def window_ok_def in_flight_def rate_limited_def)
qed

lemma gate_inv_step: "gate_step w w' \<Longrightarrow> gate_inv mc rpm (Suc left) w \<Longrightarrow> gate_inv mc rpm left w'"
  using slots_step [of w w'] window_step [of w w'] limit_step [of w w'] remaining_step [of w w']
  by (simp add: gate_inv_def)

lemma gate_run_inv:
  assumes "(gate_step ^^ n) w w'" "gate_inv mc rpm (n + left) w"
  shows "gate_inv mc rpm left w'"
  using assms
proof (induction n arbitrary: w' left)
  case (Suc n)
  obtain v where v: "(gate_step ^^ n) w v" "gate_step v w'" using Suc.prems(1) by auto
  have "gate_inv mc rpm (n + Suc left) w" using Suc.prems(2) by simp
  then show ?case by (rule gate_inv_step [OF v(2) Suc.IH [OF v(1)]])
qed simp

lemma gate_run_bound: "(gate_step ^^ n) w w' \<Longrightarrow> n + sum_list (map length (gw_calls w')) = sum_list (map length (gw_calls w))"
proof (induction n arbitrary: w')
  case (Suc n)
  then obtain v where "(gate_step ^^ n) w v" "gate_step v w'" by auto
  then show ?case using Suc.IH [of v] remaining_step [of v w'] by simp
qed simp

end
