(* ===== verification/Gemini_Claims.thy ===== *)
theory Gemini_Claims
  imports Gemini_Gate
begin

text \<open>
  The properties of the Gemini client, with a small script of replies on which they are evaluated.
\<close>

section \<open>Costs and schemas\<close>

text \<open>The estimate in micro-dollars is never below the exact price and exceeds it by less than two.\<close>

lemma flash_cost_bounds:
  assumes "compute_gemini_flash_cost_microusd (Some u) st = Some cost"
  shows "let exact = of_int (tu_input u) * flash_input_usd_per_million st + of_int (tu_output u) * flash_output_usd_per_million st
    in exact \<le> of_int cost \<and> of_int cost < exact + 2"
proof -
  let ?i = "of_int (tu_input u) * flash_input_usd_per_million st"
  let ?o = "of_int (tu_output u) * flash_output_usd_per_million st"
  have "of_int cost = of_int \<lceil>?i\<rceil> + (of_int \<lceil>?o\<rceil> :: rat)"
    using assms by (simp add: compute_gemini_flash_cost_microusd_def)
  then show ?thesis using ceiling_correct [of ?i] ceiling_correct [of ?o] unfolding Let_def by linarith
qed

text \<open>The schema handed to the SDK holds no key its API rejects.\<close>

lemma with_mime_schema: "map_of (with_mime mime d) ''response_schema'' = map_of d ''response_schema''"
  by (cases mime) (simp_all add: with_mime_def)

lemma with_thinking_schema: "with_thinking th d = Inr d' \<Longrightarrow> map_of d' ''response_schema'' = map_of d ''response_schema''"
  by (auto simp: with_thinking_def split: option.splits sum.splits)

lemma entry_clean: "map_of (sanitize_schema_entry d) ''response_schema'' = Some sch \<Longrightarrow> schema_clean sch"
  by (auto simp: sanitize_schema_entry_def schema_sanitized split: option.splits)

lemma sdk_gets_clean_schema:
  assumes "\<And>d. \<forall>sch. map_of d ''response_schema'' = Some sch \<longrightarrow> schema_clean sch \<Longrightarrow> sdk d = sdk' d"
  shows "resolve_content_config sdk config response_schema mime th = resolve_content_config sdk' config response_schema mime th"
proof (cases "with_thinking th (with_mime mime (sanitize_schema_entry (with_schema response_schema
    (case config of None \<Rightarrow> [] | Some d \<Rightarrow> d))))")
  case (Inr d)
  have "schema_clean sch" if "map_of d ''response_schema'' = Some sch" for sch
    using that entry_clean unfolding with_thinking_schema [OF Inr] with_mime_schema by blast
  then have "sdk d = sdk' d" using assms by blast
  then show ?thesis using Inr by (simp add: resolve_content_config_def Let_def)
qed (simp add: resolve_content_config_def Let_def)

section \<open>A script\<close>

definition demo_reply :: "nat \<Rightarrow> content_response attempt" where
  "demo_reply n = \<lparr>at_cancelled = None,
     at_reply = (if n = 1 then Inl Exc_timeout else Inr \<lparr>rs_text = Some ''ok'', rs_parsed = VNone, rs_usage = VNone\<rparr>),
     at_elapsed = 1 / 4, at_recorder_up = True, at_random = 1 / 2\<rparr>"

definition demo_request :: api_request where
  "demo_request = content_request GEMINI_FLASH ''triage'' (VStr ''hello'') None"

definition demo_script :: "nat \<Rightarrow> client_result attempt" where
  "demo_script n = map_reply (content_reply default_settings GEMINI_FLASH ''triage'') (demo_reply n)"

definition demo_events :: "event list" where
  "demo_events = snd (run_with_policy default_settings False demo_request (content_cost GEMINI_FLASH) demo_script)"

lemma demo_script_simps [simp]:
  "at_cancelled (demo_script n) = None" "at_random (demo_script n) = 1 / 2"
  "at_reply (demo_script (Suc 0)) = Inl Exc_timeout" "at_recorder_up (demo_script n) = True"
  by (simp_all add: demo_script_def demo_reply_def map_reply_def)

lemma demo_script_later:
  "n \<noteq> 1 \<Longrightarrow> at_reply (demo_script n) = Inr (Content \<lparr>cr_text = ''ok'', cr_parsed = VNone, cr_model = GEMINI_FLASH,
     cr_operation = ''triage'', cr_latency_ms = 0, cr_attempts = 0, cr_input_tokens = None, cr_output_tokens = None,
     cr_thoughts_tokens = None, cr_cost = None\<rparr>)"
  by (simp add: demo_script_def demo_reply_def map_reply_def content_reply_def extract_token_usage_counts_def
      usage_metadata_mapping_def compute_gemini_flash_cost_microusd_def)

lemma demo_undisturbed: "undisturbed demo_script"
  unfolding undisturbed_def
proof (intro allI conjI)
  fix n show "at_reply (demo_script n) \<noteq> Inl Exc_cancelled"
    by (cases "n = 1") (simp_all add: demo_script_later)
qed simp

lemma demo_events_eq: "demo_events =
  [Take_slot, Enter_window, Backoff (1 / 2), Give_slot, Take_slot, Enter_window, Give_slot]"
  by (simp add: demo_events_def run_with_policy_def default_settings_def numeral_eq_Suc Let_def
      demo_script_later [of "Suc (Suc 0)"] is_transient_error_def safe_record_def backoff_delay_def)

section \<open>Properties\<close>




text \<open>C39: Any number of concurrent calls share a gate: at every moment of every interleaving at most
  \<open>max_concurrency\<close> of them hold a slot, of any \<open>rpm + 1\<close> successive starts the last is a minute after the
  first, the run takes no more steps than the calls have events, and while a call is unfinished some
  call can go on.  (No task is cancelled inside the rate window.)\<close>

theorem concurrent_calls_share_gate:
  assumes calls: "\<forall>evs \<in> set calls. \<exists>st rec rq cost_fn script.
        (\<forall>n. at_cancelled (script n) \<noteq> Some Waiting_window) \<and> evs = snd (run_with_policy st rec rq cost_fn script)"
    and run: "(gate_step ^^ n) (gate_start max_concurrency rpm clock calls) w"
  shows "in_flight w \<le> nat (max 1 max_concurrency) \<and> rate_limited (nat (max 1 rpm)) (gw_starts w)
    \<and> n + sum_list (map length (gw_calls w)) = sum_list (map length calls)
    \<and> (if \<forall>evs \<in> set (gw_calls w). evs = [] then g_free (gw_gate w) = nat (max 1 max_concurrency)
       else \<exists>w'. gate_step w w')"
proof -
  have b: "\<forall>evs \<in> set calls. bracketed False evs"
    using calls policy_bracketed unfolding run_with_policy_def by metis
  have steps: "n + sum_list (map length (gw_calls w)) = sum_list (map length calls)"
    using gate_run_bound [OF run] by (simp add: gate_start_def)
  have "gate_inv max_concurrency rpm (sum_list (map length (gw_calls w))) w"
    by (rule gate_run_inv [OF run]) (simp only: steps gate_start_inv [OF b])
  then have inv: "slots_ok w" "window_ok w" "g_limit (gw_gate w) = nat (max 1 max_concurrency)"
    "g_rpm (gw_gate w) = nat (max 1 rpm)" by (simp_all add: gate_inv_def)
  have free: "g_free (gw_gate w) = nat (max 1 max_concurrency)" if "\<forall>evs \<in> set (gw_calls w). evs = []"
    using inv(1,3) that by (auto simp: slots_ok_def in_flight_def holding_def filter_empty_conv)
  have "\<exists>w'. gate_step w w'" if "\<not> (\<forall>evs \<in> set (gw_calls w). evs = [])"
    using gate_progress [OF inv(1)] inv(3) that by auto
  then show ?thesis using free steps inv by (auto simp: slots_ok_def window_ok_def)
qed

definition demo_world :: gate_world where
  "demo_world = (gate_start 1 60 0 [demo_events, demo_events])
     \<lparr>gw_gate := take_slot (model_gate 1 60), gw_calls := [tl demo_events, demo_events]\<rparr>"

lemma demo_world_step: "gate_step (gate_start 1 60 0 [demo_events, demo_events]) demo_world"
  using gate_step.take [of 0 "gate_start 1 60 0 [demo_events, demo_events]" "tl demo_events"]
  by (simp add: demo_world_def gate_start_def demo_events_eq model_gate_def)

lemma concurrent_calls_share_gate_witness:
  "in_flight demo_world \<le> 1 \<and> g_free (gw_gate demo_world) = 0 \<and> Ex (gate_step demo_world)"
proof -
  have calls: "\<forall>evs \<in> set [demo_events, demo_events]. \<exists>st rec rq cost_fn script.
        (\<forall>n. at_cancelled (script n) \<noteq> Some Waiting_window) \<and> evs = snd (run_with_policy st rec rq cost_fn script)"
    unfolding demo_events_def
    by (intro ballI exI [of _ default_settings] exI [of _ False] exI [of _ demo_request]
        exI [of _ "content_cost GEMINI_FLASH"] exI [of _ demo_script]) simp
  have "(gate_step ^^ 1) (gate_start 1 60 0 [demo_events, demo_events]) demo_world" using demo_world_step by (simp add: eq_OO)
  from concurrent_calls_share_gate [OF calls this] show ?thesis
    by (simp add: demo_world_def demo_events_eq model_gate_def take_slot_def)
qed

text \<open>C40: A call that nobody cancels makes between one and \<open>max_retries + 1\<close> attempts, all but the last ended
  by transient errors; it returns the last reply, or raises its error, which is then not transient or
  the budget is used up.  Every attempt takes a slot and leaves its row with a recorder that can store
  it, and every backoff lies between 0 and one and a half times the maximal delay.\<close>

theorem retry_policy_outcome:
  assumes calm: "undisturbed script" and retries: "0 \<le> gemini_max_retries st"
    and delays: "0 \<le> gemini_retry_base_delay_s st" "0 \<le> gemini_retry_max_delay_s st"
    and random: "\<forall>n. 0 \<le> at_random (script n) \<and> at_random (script n) < 1"
  shows "\<exists>n res evs. run_with_policy st rec rq cost_fn script = (res, evs)
    \<and> 1 \<le> n \<and> int n \<le> gemini_max_retries st + 1
    \<and> (\<forall>m. 1 \<le> m \<and> m < n \<longrightarrow> (\<exists>e. at_reply (script m) = Inl e \<and> is_transient_error e))
    \<and> (case at_reply (script n) of
         Inr r \<Rightarrow> res = Inr (r, latency_ms (at_elapsed (script n)), n)
       | Inl e \<Rightarrow> res = Inl e \<and> (is_transient_error e \<longrightarrow> int n = gemini_max_retries st + 1))
    \<and> slots_taken evs = n \<and> rows_of evs = stored_rows rec rq cost_fn script [1..<Suc n]
    \<and> length (delays_of evs) = n - 1
    \<and> (\<forall>d \<in> set (delays_of evs). 0 \<le> d \<and> d \<le> gemini_retry_max_delay_s st * (3 / 2))"
proof -
  let ?left = "nat (gemini_max_retries st + 1)"
  have "int 1 + int ?left = gemini_max_retries st + 2" "0 < ?left" using retries by simp_all
  from policy_loop_decides [OF calm this, of rec rq cost_fn] obtain n res evs where
    n: "1 \<le> n" "n < 1 + ?left" and loop: "policy_loop st rec rq cost_fn script 1 ?left = (res, evs)"
    and before: "\<forall>m. 1 \<le> m \<and> m < n \<longrightarrow> retried script m" and dec: "decided st script n res"
    and rows: "rows_of evs = stored_rows rec rq cost_fn script [1..<Suc n]"
    and sleeps: "delays_of evs = map (\<lambda>m. backoff_delay st m (at_random (script m))) [1..<n]"
    and slots: "slots_taken evs = Suc n - 1" by blast
  have le: "int n \<le> gemini_max_retries st + 1" using n retries by linarith
  have "\<forall>d \<in> set (delays_of evs). 0 \<le> d \<and> d \<le> gemini_retry_max_delay_s st * (3 / 2)"
    using sleeps backoff_bounds [OF delays] random by auto
  moreover have "case at_reply (script n) of
         Inr r \<Rightarrow> res = Inr (r, latency_ms (at_elapsed (script n)), n)
       | Inl e \<Rightarrow> res = Inl e \<and> (is_transient_error e \<longrightarrow> int n = gemini_max_retries st + 1)"
    using dec le by (cases "at_reply (script n)") (auto simp: decided_def)
  moreover have "run_with_policy st rec rq cost_fn script = (res, evs)" using loop by (simp add: run_with_policy_def)
  ultimately show ?thesis using n(1) le before rows slots sleeps
    by (intro exI [of _ n] exI [of _ res] exI [of _ evs]) (simp add: retried_def)
qed

lemma retry_policy_outcome_witness:
  "slots_taken demo_events = 2 \<and> map (\<lambda>d. d \<le> 12) (delays_of demo_events) = [True]"
proof -
  have "\<exists>n res evs. run_with_policy default_settings False demo_request (content_cost GEMINI_FLASH) demo_script = (res, evs)
    \<and> slots_taken evs = n \<and> length (delays_of evs) = n - 1
    \<and> (\<forall>d \<in> set (delays_of evs). 0 \<le> d \<and> d \<le> gemini_retry_max_delay_s default_settings * (3 / 2))"
    using retry_policy_outcome [OF demo_undisturbed, of default_settings False demo_request "content_cost GEMINI_FLASH"]
    by (simp add: default_settings_def) blast
  then have "\<forall>d \<in> set (delays_of demo_events). d \<le> 12" by (auto simp: demo_events_def default_settings_def)
  then show ?thesis by (simp add: demo_events_eq)
qed

section \<open>A cancelled wait\<close>

text \<open>
  \<open>acquire\<close> gives its slot back for an \<open>Exception\<close> only, and a cancellation is none: after a task has
  been cancelled inside the rate window, a gate of concurrency one lets no other call start.
\<close>

definition cancelled_script :: "nat \<Rightarrow> client_result attempt" where
  "cancelled_script n = (demo_script n)\<lparr>at_cancelled := Some Waiting_window\<rparr>"

lemma cancelled_wait_blocks_gate:
  assumes "gate_step (gate_start 1 rpm clock [snd (run_with_policy st rec rq cost_fn cancelled_script), Take_slot # evs]) w"
    and "gw_calls w ! 0 = []" and "0 \<le> gemini_max_retries st"
  shows "gw_calls w = [[], Take_slot # evs] \<and> \<not> gate_step w w'"
proof -
  have ev: "snd (run_with_policy st rec rq cost_fn cancelled_script) = [Take_slot]"
    using assms(3) by (simp add: run_with_policy_def nat_add_distrib cancelled_script_def Let_def)
  have w: "gw_calls w = [[], Take_slot # evs] \<and> g_free (gw_gate w) = 0"
    using assms(1,2) unfolding ev
    by (cases rule: gate_step.cases) (auto simp: gate_start_def model_gate_def take_slot_def nth_Cons' less_Suc_eq split: if_splits)
  have "\<not> gate_step w w'"
  proof
    assume "gate_step w w'"
    then show False using w
      by (cases rule: gate_step.cases) (auto simp: nth_Cons' less_Suc_eq split: if_splits)
  qed
  then show ?thesis using w by blast
qed

end
