(* ===== verification/Tune_Text.thy ===== *)
theory Tune_Text
  imports Deck_Gen Gemini_Client
begin

text \<open>
  The text rules of the tuning demo: what the API (\<open>app/tune_admin/service.py\<close>) and the supervisor
  (\<open>scripts/tune_demo_supervisor.py\<close>) let through to a browser.  Regular expressions are written as
  the predicates they match, over code points below 256.
\<close>

section \<open>Words\<close>

definition py_split :: "string \<Rightarrow> string list" where
  "py_split s = words_from [] s"

text \<open>\<open>" ".join(value.split())\<close>.\<close>

definition single_line :: "string \<Rightarrow> string" where
  "single_line s = join_with '' '' (py_split s)"

definition ascii_letter :: "char \<Rightarrow> bool" where
  "ascii_letter c \<longleftrightarrow> ascii_lower c \<or> ascii_upper c"

definition alnum_ascii :: "char \<Rightarrow> bool" where
  "alnum_ascii c \<longleftrightarrow> ascii_letter c \<or> is_digit c"

text \<open>\<open>\w\<close> below 256: letters and numbers of Latin-1, and the underscore.\<close>

definition word_char :: "char \<Rightarrow> bool" where
  "word_char c \<longleftrightarrow> (let n = (of_char c :: nat) in
     alnum_ascii c \<or> c = CHR ''_'' \<or> n \<in> {170, 178, 179, 181, 185, 186, 188, 189, 190}
     \<or> (192 \<le> n \<and> n \<noteq> 215 \<and> n \<noteq> 247))"

section \<open>Paths\<close>

text \<open>
  \<open>ABSOLUTE_PATH_PATTERN.sub("[redacted-path]", text)\<close>: a slash after no letter, digit or colon, or a
  drive letter with colon and backslash, and the run of other characters up to the next white space,
  which must not be empty.
\<close>

definition starts_path :: "char option \<Rightarrow> string \<Rightarrow> bool" where
  "starts_path prev s = (case s of
     c # d # cs \<Rightarrow>
       (c = CHR ''/'' \<and> \<not> py_space d \<and> (case prev of None \<Rightarrow> True | Some p \<Rightarrow> \<not> alnum_ascii p \<and> p \<noteq> CHR '':''))
       \<or> (ascii_letter c \<and> d = CHR '':'' \<and> (case cs of b # e # es \<Rightarrow> b = CHR 0x5C \<and> \<not> py_space e | _ \<Rightarrow> False))
   | _ \<Rightarrow> False)"

function redact_paths :: "char option \<Rightarrow> string \<Rightarrow> string" where
  "redact_paths prev [] = []"
| "redact_paths prev (c # cs) =
     (if starts_path prev (c # cs)
      then ''[redacted-path]'' @ redact_paths (Some CHR ''x'') (dropWhile (\<lambda>d. \<not> py_space d) cs)
      else c # redact_paths (Some c) cs)"
  by pat_completeness auto
termination
  by (relation "measure (\<lambda>(p, s). length s)") (auto simp: le_imp_less_Suc length_dropWhile_le)

definition max_public_text :: nat where "max_public_text = 500"

definition bounded_text :: "string \<Rightarrow> nat \<Rightarrow> string" where
  "bounded_text s limit = take limit (redact_paths None (single_line s))"

section \<open>Sensitive text\<close>

definition lower_ascii :: "string \<Rightarrow> string" where
  "lower_ascii s = map (\<lambda>c. if ascii_upper c then char_of ((of_char c :: nat) + 32) else c) s"

definition sensitive_dirs :: "string list" where
  "sensitive_dirs = [''/home/'', ''/root/'', ''/etc/'', ''/var/'', ''/data/'', ''/tmp/'']"

definition sensitive_words :: "string list" where
  "sensitive_words = [''apikey'', ''api_key'', ''api-key'', ''token'', ''secret'', ''stderr'', ''stdout'', ''command'']"

definition starts_with :: "string \<Rightarrow> string \<Rightarrow> bool" where
  "starts_with p s \<longleftrightarrow> take (length p) s = p"

text \<open>A word of the list here, with a boundary before (\<open>prev\<close> is no word character) and after.\<close>

definition word_here :: "string \<Rightarrow> string \<Rightarrow> bool" where
  "word_here w s \<longleftrightarrow> starts_with w s
     \<and> (case drop (length w) s of [] \<Rightarrow> True | c # cs \<Rightarrow> \<not> word_char c)"

definition sensitive_here :: "char option \<Rightarrow> string \<Rightarrow> bool" where
  "sensitive_here prev s \<longleftrightarrow> list_ex (\<lambda>d. starts_with d s) sensitive_dirs
     \<or> (case s of c # d # e # cs \<Rightarrow> ascii_letter c \<and> d = CHR '':'' \<and> e = CHR 0x5C | _ \<Rightarrow> False)
     \<or> starts_with ''traceback'' s
     \<or> ((case prev of None \<Rightarrow> True | Some p \<Rightarrow> \<not> word_char p) \<and> list_ex (\<lambda>w. word_here w s) sensitive_words)"

fun sensitive_from :: "char option \<Rightarrow> string \<Rightarrow> bool" where
  "sensitive_from prev [] = False"
| "sensitive_from prev (c # cs) = (sensitive_here prev (c # cs) \<or> sensitive_from (Some c) cs)"

text \<open>\<open>_SENSITIVE_TEXT.search(text)\<close>, which ignores case.\<close>

definition sensitive_text :: "string \<Rightarrow> bool" where
  "sensitive_text s = sensitive_from None (lower_ascii s)"

definition safe_text :: "json \<Rightarrow> nat \<Rightarrow> string \<Rightarrow> string" where
  "safe_text v maximum fallback = (case v of
     JStr s \<Rightarrow> (let normalized = single_line s in
       if normalized = [] \<or> sensitive_text normalized then fallback else take maximum normalized)
   | _ \<Rightarrow> fallback)"

definition safe_optional_text :: "json \<Rightarrow> nat \<Rightarrow> string option" where
  "safe_optional_text v maximum =
     (if v = JNull then None else Some (safe_text v maximum ''[redacted]''))"

section \<open>Identifiers\<close>

text \<open>\<open>[A-Za-z0-9][chars]{0,n}\<close>, matched in full.\<close>

definition ident :: "(char \<Rightarrow> bool) \<Rightarrow> nat \<Rightarrow> string \<Rightarrow> bool" where
  "ident ok n s \<longleftrightarrow> s \<noteq> [] \<and> alnum_ascii (hd s) \<and> length s \<le> Suc n \<and> list_all ok (tl s)"

definition ident_char :: "char \<Rightarrow> bool" where
  "ident_char c \<longleftrightarrow> alnum_ascii c \<or> c = CHR ''_'' \<or> c = CHR ''-''"

definition dotted_char :: "char \<Rightarrow> bool" where
  "dotted_char c \<longleftrightarrow> ident_char c \<or> c = CHR ''.''"

definition job_id_ok :: "string \<Rightarrow> bool" where "job_id_ok = ident ident_char 63"
definition sample_id_ok :: "string \<Rightarrow> bool" where "sample_id_ok = ident ident_char 79"
definition upload_name_ok :: "string \<Rightarrow> bool" where "upload_name_ok = ident dotted_char 127"

definition safe_model_id :: "json \<Rightarrow> string option" where
  "safe_model_id v = (case v of
     JStr s \<Rightarrow> if ident (\<lambda>c. dotted_char c \<or> c = CHR ''/'') 159 s \<and> \<not> has_part ''..'' s
         \<and> length (filter (\<lambda>c. c = CHR ''/'') s) \<le> 2 then Some s else None
   | _ \<Rightarrow> None)"

definition hash_char :: "char \<Rightarrow> bool" where
  "hash_char c \<longleftrightarrow> is_digit c \<or> c \<in> set ''abcdef''"

definition hash_ok :: "string \<Rightarrow> bool" where
  "hash_ok s \<longleftrightarrow> length s = 64 \<and> list_all hash_char s"

definition safe_hash :: "json \<Rightarrow> string option" where
  "safe_hash v = (case v of JStr s \<Rightarrow> if hash_ok s then Some s else None | _ \<Rightarrow> None)"

text \<open>\<open>_LANGUAGE\<close>: word characters, spaces, dots, parentheses, apostrophes and hyphens.\<close>

definition language_ok :: "string \<Rightarrow> bool" where
  "language_ok s \<longleftrightarrow> s \<noteq> [] \<and> list_all (\<lambda>c. word_char c \<or> c \<in> set '' .()-'' \<or> c = CHR 0x27) s"

section \<open>File names\<close>

definition ends_with :: "string \<Rightarrow> string \<Rightarrow> bool" where
  "ends_with suf s \<longleftrightarrow> length suf \<le> length s \<and> drop (length s - length suf) s = suf"

definition remove_suffix :: "string \<Rightarrow> string \<Rightarrow> string" where
  "remove_suffix suf s = (if suf \<noteq> [] \<and> ends_with suf s then take (length s - length suf) s else s)"

text \<open>\<open>Path(name).suffix.lower()\<close> of a base name: from the last dot, unless it is first or last.\<close>

definition path_suffix :: "string \<Rightarrow> string" where
  "path_suffix s =
     (let ext = takeWhile (\<lambda>c. c \<noteq> CHR ''.'') (rev s); stem = drop (Suc (length ext)) (rev s) in
      if length ext = length s \<or> ext = [] \<or> stem = [] then [] else CHR ''.'' # rev ext)"

definition upload_suffixes :: "string list" where
  "upload_suffixes = [''.flac'', ''.wav'', ''.webm'', ''.ogg'', ''.mp3'', ''.m4a'']"

section \<open>Laws of text\<close>

lemma bounded_text_length: "length (bounded_text s n) \<le> n"
  by (simp add: bounded_text_def)

lemma safe_text_cases:
  "safe_text v n fb = fb \<or> (\<exists>s. safe_text v n fb = take n s \<and> s \<noteq> [] \<and> \<not> sensitive_text s)"
  by (cases v) (auto simp: safe_text_def Let_def)

lemma ident_no_slash:
  assumes "ident ok n s" "\<And>c. ok c \<Longrightarrow> c \<noteq> CHR ''/''"
  shows "CHR ''/'' \<notin> set s" "s \<noteq> ''.''" "s \<noteq> ''..''" "s \<noteq> []"
proof -
  have "alnum_ascii (hd s)" "s \<noteq> []" "\<forall>c \<in> set (tl s). c \<noteq> CHR ''/''"
    using assms by (auto simp: ident_def list_all_iff)
  moreover have "\<not> alnum_ascii (CHR ''/'')" "\<not> alnum_ascii (CHR ''.'')" by code_simp+
  ultimately show "CHR ''/'' \<notin> set s" "s \<noteq> ''.''" "s \<noteq> ''..''" "s \<noteq> []" by (cases s; auto)+
qed

lemma upload_name_no_slash:
  assumes "upload_name_ok s"
  shows "CHR ''/'' \<notin> set s" "s \<noteq> ''.''" "s \<noteq> ''..''" "s \<noteq> []"
proof -
  have "\<not> dotted_char (CHR ''/'')" by code_simp
  then have "\<And>c. dotted_char c \<Longrightarrow> c \<noteq> CHR ''/''" by blast
  from ident_no_slash [OF assms [unfolded upload_name_ok_def] this]
  show "CHR ''/'' \<notin> set s" "s \<noteq> ''.''" "s \<noteq> ''..''" "s \<noteq> []" by simp_all
qed

end
