(* ===== verification/Tune_Protocol.thy ===== *)
theory Tune_Protocol
  imports Tune_Text
begin

text \<open>
  The documents of the tuning supervisor (\<open>scripts/tune_demo_supervisor.py\<close>): validation of a request,
  shaping of events, predictions and artifacts, status documents and the two command templates.
  \<open>py_str\<close> is \<open>str\<close> of a value that is no string, \<open>parse_iso\<close> is \<open>datetime.fromisoformat\<close> (\<open>None\<close>
  when it raises, else whether the result has a time zone).
\<close>

section \<open>Settings and requests\<close>

record tune_settings =
  ts_prepared :: string
  ts_full_adapter :: string
  ts_artifact_manifest :: string
  ts_run_root :: string
  ts_uploads :: string
  ts_approved_ids :: "string list"
  ts_preflight_timeout :: nat
  ts_train_timeout :: nat
  ts_infer_timeout :: nat
  ts_processing_stale :: rat
  ts_upload_ttl :: rat

definition max_language_chars :: nat where "max_language_chars = 80"
definition max_events :: nat where "max_events = 100"
definition max_predictions :: nat where "max_predictions = 10"

datatype tune_kind = Train_smoke | Infer_live

fun kind_text :: "tune_kind \<Rightarrow> string" where
  "kind_text Train_smoke = ''train_smoke''"
| "kind_text Infer_live = ''infer_live''"

datatype tune_status = Tune_queued | Tune_running | Tune_completed | Tune_failed

fun status_text :: "tune_status \<Rightarrow> string" where
  "status_text Tune_queued = ''queued''"
| "status_text Tune_running = ''running''"
| "status_text Tune_completed = ''completed''"
| "status_text Tune_failed = ''failed''"

text \<open>\<open>tr_upload\<close> holds the upload's name and the language, for live inference only.\<close>

record tune_request =
  tr_job_id :: string
  tr_kind :: tune_kind
  tr_created_at :: string
  tr_upload :: "(string \<times> string) option"

definition replace_Z :: "string \<Rightarrow> string" where
  "replace_Z s = concat (map (\<lambda>c. if c = CHR ''Z'' then ''+00:00'' else [c]) s)"

definition parse_created_at :: "(string \<Rightarrow> bool option) \<Rightarrow> json \<Rightarrow> py_error + string" where
  "parse_created_at parse_iso v = (case v of
     JStr s \<Rightarrow> (case parse_iso (replace_Z s) of
         None \<Rightarrow> Inl (ValueError ''Invalid isoformat string'')
       | Some False \<Rightarrow> Inl (ValueError ''created_at must include a timezone'')
       | Some True \<Rightarrow> Inr s)
   | _ \<Rightarrow> Inl (ValueError ''created_at must be an ISO timestamp''))"

text \<open>\<open>kind not in SUPPORTED_KINDS\<close> hashes the value.\<close>

definition request_kind :: "json \<Rightarrow> py_error + tune_kind" where
  "request_kind v = (case v of
     JStr s \<Rightarrow> if s = ''train_smoke'' then Inr Train_smoke else if s = ''infer_live'' then Inr Infer_live
       else Inl (ValueError ''unsupported request kind'')
   | JArr _ \<Rightarrow> Inl (TypeError ''unhashable type'')
   | JObj _ \<Rightarrow> Inl (TypeError ''unhashable type'')
   | _ \<Rightarrow> Inl (ValueError ''unsupported request kind''))"

definition request_upload :: "(string \<times> json) list \<Rightarrow> py_error + string \<times> string" where
  "request_upload payload =
     (case jget payload ''upload_name'' of
        JStr u \<Rightarrow>
          (if upload_name_ok u \<and> py_lower (path_suffix u) \<in> set upload_suffixes then
             (case jget payload ''native_language'' of
                JStr l \<Rightarrow> (if bounded_text l max_language_chars = [] then Inl (ValueError ''native_language must be non-empty'')
                           else Inr (u, bounded_text l max_language_chars))
              | _ \<Rightarrow> Inl (ValueError ''native_language must be non-empty''))
           else Inl (ValueError ''invalid upload_name''))
      | _ \<Rightarrow> Inl (ValueError ''invalid upload_name''))"

definition claimed_id :: "string \<Rightarrow> string" where
  "claimed_id file_name = remove_suffix ''.json'' (remove_suffix ''.processing.json'' file_name)"

definition allowed_fields :: "tune_kind \<Rightarrow> string list" where
  "allowed_fields k = [''job_id'', ''kind'', ''created_at'']
     @ (case k of Train_smoke \<Rightarrow> [] | Infer_live \<Rightarrow> [''upload_name'', ''native_language''])"

definition validate_request ::
  "(string \<Rightarrow> bool option) \<Rightarrow> (string \<times> json) list \<Rightarrow> string \<Rightarrow> py_error + tune_request" where
  "validate_request parse_iso payload file_name =
     (case jget payload ''job_id'' of
        JStr i \<Rightarrow>
          (if \<not> job_id_ok i then Inl (ValueError ''invalid job_id'')
           else if claimed_id file_name \<noteq> i then Inl (ValueError ''request filename must match job_id'')
           else try_in (request_kind (jget payload ''kind'')) (\<lambda>k.
                try_in (parse_created_at parse_iso (jget payload ''created_at'')) (\<lambda>c.
                try_in (case k of Train_smoke \<Rightarrow> Inr None
                        | Infer_live \<Rightarrow> try_in (request_upload payload) (\<lambda>u. Inr (Some u))) (\<lambda>u.
                if set (map fst payload) \<noteq> set (allowed_fields k) then Inl (ValueError ''request contains unsupported fields'')
                else Inr \<lparr>tr_job_id = i, tr_kind = k, tr_created_at = c, tr_upload = u\<rparr>))))
      | _ \<Rightarrow> Inl (ValueError ''invalid job_id''))"

section \<open>Events\<close>

definition round_half_even :: "rat \<Rightarrow> int" where
  "round_half_even r =
     (let f = \<lfloor>r\<rfloor>; d = r - of_int f in
      if d < 1 / 2 then f else if 1 / 2 < d then f + 1 else if even f then f else f + 1)"

definition round4 :: "rat \<Rightarrow> rat" where
  "round4 r = of_int (round_half_even (r * 10000)) / 10000"

text \<open>\<open>float(n)\<close> of an integer raises from half an ulp above the largest float on.\<close>

definition float_overflow :: int where "float_overflow = 2 ^ 1024 - 2 ^ 970"

definition unit_progress :: "json \<Rightarrow> py_error + rat option" where
  "unit_progress v = (case v of
     JBool b \<Rightarrow> Inr (Some (if b then 1 else 0))
   | JInt n \<Rightarrow> if float_overflow \<le> \<bar>n\<bar> then Inl OverflowError
       else Inr (if 0 \<le> n \<and> n \<le> 1 then Some (of_int n) else None)
   | JFloat (Fin r) \<Rightarrow> Inr (if 0 \<le> r \<and> r \<le> 1 then Some r else None)
   | _ \<Rightarrow> Inr None)"

definition bounded :: "(json \<Rightarrow> string) \<Rightarrow> json \<Rightarrow> nat \<Rightarrow> string" where
  "bounded py_str v limit = bounded_text (text_of py_str v) limit"

definition get_or :: "(string \<times> json) list \<Rightarrow> string \<Rightarrow> json \<Rightarrow> json" where
  "get_or d k v = (case map_of d k of None \<Rightarrow> v | Some x \<Rightarrow> x)"

definition scalar_field :: "(string \<times> json) list \<Rightarrow> string \<Rightarrow> (string \<times> json) list" where
  "scalar_field event k = (case jget event k of
     JStr s \<Rightarrow> [(k, JStr (bounded_text s 80))]
   | JInt n \<Rightarrow> [(k, JInt n)]
   | JFloat f \<Rightarrow> [(k, JFloat f)]
   | JBool b \<Rightarrow> [(k, JBool b)]
   | _ \<Rightarrow> [])"

definition safe_event ::
  "(json \<Rightarrow> string) \<Rightarrow> string \<Rightarrow> (string \<times> json) list \<Rightarrow> py_error + (string \<times> json) list option" where
  "safe_event py_str now event = (case jget event ''stage'' of
     JStr stage \<Rightarrow>
       try_in (unit_progress (jget event ''progress'')) (\<lambda>p. case p of
         None \<Rightarrow> Inr None
       | Some r \<Rightarrow> Inr (Some
          ([(''timestamp'', JStr (bounded py_str (get_or event ''timestamp'' (JStr now)) 64)),
            (''stage'', JStr (bounded_text stage 64)),
            (''progress'', JFloat (Fin (round4 r))),
            (''message'', JStr (bounded py_str
              (if truthy (jget event ''message'') then jget event ''message'' else JStr stage) 240))]
           @ scalar_field event ''profile'' @ scalar_field event ''sample_count'')))
   | _ \<Rightarrow> Inr None)"

definition last_n :: "nat \<Rightarrow> 'a list \<Rightarrow> 'a list" where
  "last_n n xs = drop (length xs - n) xs"

text \<open>
  The event file as the list of its lines: \<open>None\<close> for a line that is no JSON.
\<close>

fun shape_events :: "(json \<Rightarrow> string) \<Rightarrow> string \<Rightarrow> json option list \<Rightarrow> py_error + (string \<times> json) list list" where
  "shape_events py_str now [] = Inr []"
| "shape_events py_str now (l # ls) = (case l of
     Some (JObj d) \<Rightarrow> try_in (safe_event py_str now d) (\<lambda>e.
        try_in (shape_events py_str now ls) (\<lambda>es. Inr (case e of None \<Rightarrow> es | Some x \<Rightarrow> x # es)))
   | _ \<Rightarrow> shape_events py_str now ls)"

definition read_events :: "(json \<Rightarrow> string) \<Rightarrow> string \<Rightarrow> json option list option \<Rightarrow> py_error + (string \<times> json) list list" where
  "read_events py_str now file = (case file of
     None \<Rightarrow> Inr [] | Some ls \<Rightarrow> shape_events py_str now (last_n max_events ls))"

section \<open>Results\<close>

definition prediction_fields :: "string list" where
  "prediction_fields = [''utterance_id'', ''target'', ''base'', ''tuned'']"

definition safe_predictions :: "(json \<Rightarrow> string) \<Rightarrow> (string \<times> json) list \<Rightarrow> (string \<times> json) list list" where
  "safe_predictions py_str payload = (case jget payload ''predictions'' of
     JArr rows \<Rightarrow> List.map_filter (\<lambda>row. case row of
         JObj d \<Rightarrow> Some (map (\<lambda>k. (k, JStr (bounded py_str (get_or d k (JStr [])) max_public_text))) prediction_fields)
       | _ \<Rightarrow> None) (take max_predictions rows)
   | _ \<Rightarrow> [])"

definition safe_aggregate_mapping :: "json \<Rightarrow> (string, json) dict" where
  "safe_aggregate_mapping v = (case v of
     JObj d \<Rightarrow> fold (\<lambda>(k, n) acc. case n of
         JInt i \<Rightarrow> if 0 \<le> i then AList.update (bounded_text k 80) (JInt i) acc else acc
       | _ \<Rightarrow> acc) (take 50 d) []
   | _ \<Rightarrow> [])"

definition nonneg_int_or :: "json \<Rightarrow> json \<Rightarrow> json" where
  "nonneg_int_or v other = (case v of JInt n \<Rightarrow> if 0 \<le> n then JInt n else other | _ \<Rightarrow> other)"

definition safe_sample_counts :: "json \<Rightarrow> (string \<times> json) list" where
  "safe_sample_counts v = (let raw = (case v of JObj d \<Rightarrow> d | _ \<Rightarrow> []) in
     map (\<lambda>k. (k, nonneg_int_or (jget raw k) (JInt 0))) [''total'', ''train'', ''holdout''])"

text \<open>\<open>bounded_text(value, n) or None\<close>.\<close>

definition text_or_null :: "string \<Rightarrow> json" where
  "text_or_null s = (if s = [] then JNull else JStr s)"

definition number_or_null :: "json \<Rightarrow> json" where
  "number_or_null v = (case v of JInt n \<Rightarrow> JInt n | JFloat f \<Rightarrow> JFloat f | _ \<Rightarrow> JNull)"

definition short_text_or_null :: "json \<Rightarrow> json" where
  "short_text_or_null v = (case v of JStr s \<Rightarrow> JStr (bounded_text s 128) | _ \<Rightarrow> JNull)"

definition safe_artifact_payload :: "(json \<Rightarrow> string) \<Rightarrow> json \<Rightarrow> (string \<times> json) list option" where
  "safe_artifact_payload py_str payload = (case payload of
     JObj d \<Rightarrow> Some
       ([(''available'', JBool (truthy (jget d ''available''))),
         (''compatible'', JBool (truthy (jget d ''compatible''))),
         (''status'', JStr (bounded py_str (get_or d ''status'' (JStr ''unavailable'')) 40)),
         (''profile'', text_or_null (bounded py_str (get_or d ''profile'' (JStr [])) 20)),
         (''model_id'', text_or_null (bounded py_str (get_or d ''model_id'' (JStr [])) 160)),
         (''input_mode'', text_or_null (bounded py_str (get_or d ''input_mode'' (JStr [])) 20)),
         (''sample_counts'', JObj (safe_sample_counts (jget d ''sample_counts''))),
         (''language_counts'', JObj (safe_aggregate_mapping (jget d ''language_counts'')))]
        @ map (\<lambda>k. (k, nonneg_int_or (jget d k) JNull)) [''lora_rank'', ''completed_steps'']
        @ map (\<lambda>k. (k, number_or_null (jget d k))) [''final_loss'', ''duration_seconds'', ''peak_vram_gib'']
        @ map (\<lambda>k. (k, short_text_or_null (jget d k))) [''source_corpus_sha256'', ''adapter_sha256'', ''created_at''])
   | _ \<Rightarrow> None)"

definition output_text :: "json \<Rightarrow> json" where
  "output_text v = (case v of JStr s \<Rightarrow> JStr (bounded_text s 2000) | _ \<Rightarrow> JNull)"

definition safe_child_result :: "(json \<Rightarrow> string) \<Rightarrow> (string \<times> json) list \<Rightarrow> (string \<times> json) list" where
  "safe_child_result py_str payload =
     (if jget payload ''kind'' = JStr ''train'' then
        (case safe_artifact_payload py_str (jget payload ''training_proof'') of
           None \<Rightarrow> [] | Some proof \<Rightarrow> [(''training_proof'', JObj proof)])
      else (let first = (case safe_predictions py_str payload of [] \<Rightarrow> [] | p # ps \<Rightarrow> p) in
        [(''base_output'', output_text (get_or payload ''base_output'' (jget first ''base''))),
         (''tuned_output'', output_text (get_or payload ''tuned_output'' (jget first ''tuned'')))]))"

section \<open>Status documents\<close>

definition build_status ::
  "string \<Rightarrow> tune_request \<Rightarrow> tune_status \<Rightarrow> string \<Rightarrow> rat \<Rightarrow> (string \<times> json) list list \<Rightarrow> (string \<times> json) list option
    \<Rightarrow> string \<Rightarrow> (string \<times> json) list option \<Rightarrow> py_error + (string \<times> json) list" where
  "build_status now rq st stage progress events result failure previous =
     (if \<not> (0 \<le> progress \<and> progress \<le> 1) then Inl (ValueError ''invalid status transition'')
      else (let prior = (case previous of None \<Rightarrow> [] | Some p \<Rightarrow> p) in Inr
       [(''job_id'', JStr (tr_job_id rq)),
        (''kind'', JStr (kind_text (tr_kind rq))),
        (''status'', JStr (status_text st)),
        (''stage'', JStr (bounded_text stage 64)),
        (''progress'', JFloat (Fin (round4 progress))),
        (''events'', JArr (map JObj (last_n max_events events))),
        (''result'', case result of None \<Rightarrow> JNull | Some r \<Rightarrow> JObj r),
        (''failure_reason'', if failure = [] then JNull else JStr (bounded_text failure max_public_text)),
        (''created_at'', get_or prior ''created_at'' (JStr (tr_created_at rq))),
        (''queued_at'', get_or prior ''queued_at'' (JStr now)),
        (''started_at'', if truthy (jget prior ''started_at'') then jget prior ''started_at''
           else if st = Tune_running then JStr now else JNull),
        (''completed_at'', if st = Tune_completed \<or> st = Tune_failed then JStr now else JNull),
        (''updated_at'', JStr now)]))"

section \<open>Commands\<close>

definition tune_module :: "string list" where
  "tune_module = [''uv'', ''run'', ''--project'', ''tune'', ''python'', ''-m'']"

definition below :: "string \<Rightarrow> string \<Rightarrow> string" where
  "below d name = d @ ''/'' @ name"

definition job_root :: "tune_settings \<Rightarrow> string \<Rightarrow> string" where
  "job_root ts i = below (ts_run_root ts) i"

definition event_args :: "tune_settings \<Rightarrow> tune_request \<Rightarrow> string list" where
  "event_args ts rq = [''--events'', below (job_root ts (tr_job_id rq)) ''events.jsonl'',
     ''--result'', below (job_root ts (tr_job_id rq)) ''result.json'']"

text \<open>\<open>has_upload\<close> says whether the upload is a regular file; the result is the argument list and its
  time limit.\<close>

definition build_command :: "tune_settings \<Rightarrow> (string \<Rightarrow> bool) \<Rightarrow> tune_request \<Rightarrow> py_error + string list \<times> nat" where
  "build_command ts has_upload rq = (case (tr_kind rq, tr_upload rq) of
     (Train_smoke, _) \<Rightarrow> Inr (tune_module @ [''tune.train'', ''--train'', below (ts_prepared ts) ''train.jsonl'',
         ''--dataset-manifest'', below (ts_prepared ts) ''dataset_manifest.json'',
         ''--output'', below (job_root ts (tr_job_id rq)) ''artifacts'', ''--max-steps'', ''1'']
         @ event_args ts rq, ts_train_timeout ts)
   | (Infer_live, None) \<Rightarrow> Inl KeyError
   | (Infer_live, Some (upload, language)) \<Rightarrow>
       (if \<not> has_upload upload then Inl (ValueError ''temporary upload does not exist'')
        else Inr (tune_module @ [''tune.compare'', ''--holdout'', below (ts_prepared ts) ''holdout.jsonl'',
         ''--dataset-manifest'', below (ts_prepared ts) ''dataset_manifest.json'',
         ''--adapter'', ts_full_adapter ts, ''--artifact-manifest'', ts_artifact_manifest ts,
         ''--samples'', ''1'', ''--live-audio'', below (ts_uploads ts) upload,
         ''--native-language'', language] @ event_args ts rq, ts_infer_timeout ts)))"

end
