(* ===== verification/Tune_Queue.thy ===== *)
theory Tune_Queue
  imports Tune_Protocol
begin

text \<open>
  The runtime directory the API and the supervisor share, and the API's repository
  (\<open>app/tune_admin/repository.py\<close>).  A directory is a dictionary from file names to files; a JSON file
  holds its parsed value, or \<open>None\<close> when it cannot be read.  Replacing a file is atomic; whether a
  write succeeds is an argument.
\<close>

section \<open>The runtime directory\<close>

record tune_file =
  tf_mtime :: rat
  tf_doc :: "json option"

record upload_file =
  uf_mtime :: rat
  uf_regular :: bool
  uf_data :: bytes

text \<open>An entry of the published audio directory, with what resolving it gives.\<close>

datatype audio_entry = Audio_file | Audio_link string | Audio_outside | Audio_directory

record tune_fs =
  fs_requests :: "(string, tune_file) dict"
  fs_jobs :: "(string, tune_file) dict"
  fs_uploads :: "(string, upload_file) dict"
  fs_runs :: "string list"
  fs_overview :: "tune_file option"
  fs_audio :: "(string, audio_entry) dict"
  fs_lock :: "rat option"

definition empty_fs :: tune_fs where
  "empty_fs = \<lparr>fs_requests = [], fs_jobs = [], fs_uploads = [], fs_runs = [], fs_overview = None, fs_audio = [], fs_lock = None\<rparr>"

definition json_file :: "string \<Rightarrow> string" where "json_file i = i @ ''.json''"

definition json_name :: "string \<Rightarrow> bool" where "json_name n = ends_with ''.json'' n"

definition stem :: "string \<Rightarrow> string" where "stem n = remove_suffix ''.json'' n"

text \<open>\<open>UUID(stem)\<close> succeeds; names in braces or with a \<open>urn:\<close> prefix do not occur in the directory.\<close>

definition hex_digit :: "char \<Rightarrow> bool" where
  "hex_digit c \<longleftrightarrow> is_digit c \<or> c \<in> set ''abcdefABCDEF''"

definition uuid_text :: "string \<Rightarrow> bool" where
  "uuid_text s \<longleftrightarrow> (let h = filter (\<lambda>c. c \<noteq> CHR ''-'') s in length h = 32 \<and> list_all hex_digit h)"

definition file_object :: "tune_file \<Rightarrow> (string \<times> json) list option" where
  "file_object f = (case tf_doc f of Some (JObj d) \<Rightarrow> Some d | _ \<Rightarrow> None)"

definition put_file :: "string \<Rightarrow> rat \<Rightarrow> (string \<times> json) list \<Rightarrow> (string, tune_file) dict \<Rightarrow> (string, tune_file) dict" where
  "put_file name now doc d = AList.update name \<lparr>tf_mtime = now, tf_doc = Some (JObj doc)\<rparr> d"

section \<open>Reading\<close>

datatype repo_error = Busy | Unavailable | Uncaught py_error

definition read_overview :: "tune_fs \<Rightarrow> repo_error + (string \<times> json) list option" where
  "read_overview fs = (case fs_overview fs of
     None \<Rightarrow> Inr None
   | Some f \<Rightarrow> (case file_object f of None \<Rightarrow> Inl Unavailable | Some d \<Rightarrow> Inr (Some d)))"

definition read_job :: "uuid \<Rightarrow> tune_fs \<Rightarrow> repo_error + (string \<times> json) list option" where
  "read_job u fs = (case map_of (fs_jobs fs) (json_file (uuid_str u)) of
     None \<Rightarrow> Inr None
   | Some f \<Rightarrow> (case file_object f of None \<Rightarrow> Inl Unavailable | Some d \<Rightarrow> Inr (Some d)))"

text \<open>\<open>payload.get("status") in {"queued", "running"}\<close>, which hashes the value.\<close>

definition status_active :: "(string \<times> json) list \<Rightarrow> py_error + bool" where
  "status_active d = (case jget d ''status'' of
     JStr s \<Rightarrow> Inr (s = ''queued'' \<or> s = ''running'')
   | JArr _ \<Rightarrow> Inl (TypeError ''unhashable type'')
   | JObj _ \<Rightarrow> Inl (TypeError ''unhashable type'')
   | _ \<Rightarrow> Inr False)"

fun scan_active :: "(string \<times> tune_file) list \<Rightarrow> repo_error + (string \<times> json) list option" where
  "scan_active [] = Inr None"
| "scan_active ((n, f) # rest) =
     (if \<not> uuid_text (stem n) then scan_active rest
      else (case file_object f of
        None \<Rightarrow> Inl Unavailable
      | Some d \<Rightarrow> (case status_active d of
          Inl e \<Rightarrow> Inl (Uncaught e)
        | Inr True \<Rightarrow> Inr (Some d)
        | Inr False \<Rightarrow> scan_active rest)))"

definition job_files :: "tune_fs \<Rightarrow> (string \<times> tune_file) list" where
  "job_files fs = filter (\<lambda>(n, f). json_name n) (fs_jobs fs)"

definition newest_first :: "(string \<times> tune_file) list \<Rightarrow> (string \<times> tune_file) list" where
  "newest_first fl = sort_desc (\<lambda>(n, f). tf_mtime f) fl"

definition read_active_job :: "tune_fs \<Rightarrow> repo_error + (string \<times> json) list option" where
  "read_active_job fs = scan_active (newest_first (job_files fs))"

definition active_job_exists :: "tune_fs \<Rightarrow> repo_error + bool" where
  "active_job_exists fs = (case scan_active (job_files fs) of Inl e \<Rightarrow> Inl e | Inr r \<Rightarrow> Inr (r \<noteq> None))"

section \<open>Queueing\<close>

text \<open>A fresh lock is respected, a stale one removed and taken.\<close>

definition take_lock :: "rat \<Rightarrow> rat \<Rightarrow> tune_fs \<Rightarrow> tune_fs option" where
  "take_lock stale now fs = (case fs_lock fs of
     None \<Rightarrow> Some (fs\<lparr>fs_lock := Some now\<rparr>)
   | Some m \<Rightarrow> if stale < now - m then Some (fs\<lparr>fs_lock := Some now\<rparr>) else None)"

definition put_job :: "string \<Rightarrow> rat \<Rightarrow> (string \<times> json) list \<Rightarrow> tune_fs \<Rightarrow> tune_fs" where
  "put_job i now doc fs = fs\<lparr>fs_jobs := put_file (json_file i) now doc (fs_jobs fs)\<rparr>"

definition put_request :: "string \<Rightarrow> rat \<Rightarrow> (string \<times> json) list \<Rightarrow> tune_fs \<Rightarrow> tune_fs" where
  "put_request i now doc fs = fs\<lparr>fs_requests := put_file (json_file i) now doc (fs_requests fs)\<rparr>"

definition drop_pair :: "string \<Rightarrow> tune_fs \<Rightarrow> tune_fs" where
  "drop_pair i fs = fs\<lparr>fs_requests := AList.delete (json_file i) (fs_requests fs),
     fs_jobs := AList.delete (json_file i) (fs_jobs fs)\<rparr>"

definition publish_pair ::
  "bool \<Rightarrow> bool \<Rightarrow> string \<Rightarrow> rat \<Rightarrow> (string \<times> json) list \<Rightarrow> (string \<times> json) list \<Rightarrow> tune_fs \<Rightarrow> (repo_error + unit) \<times> tune_fs" where
  "publish_pair job_written request_written i now request_doc job_doc fs =
     (if \<not> job_written then (Inl Unavailable, drop_pair i fs)
      else if \<not> request_written then (Inl Unavailable, drop_pair i (put_job i now job_doc fs))
      else (Inr (), put_request i now request_doc (put_job i now job_doc fs)))"

definition enqueue ::
  "rat \<Rightarrow> bool \<Rightarrow> bool \<Rightarrow> string \<Rightarrow> rat \<Rightarrow> (string \<times> json) list \<Rightarrow> (string \<times> json) list \<Rightarrow> tune_fs \<Rightarrow> (repo_error + unit) \<times> tune_fs" where
  "enqueue stale job_written request_written i now request_doc job_doc fs =
     (case take_lock stale now fs of
        None \<Rightarrow> (Inl Busy, fs)
      | Some held \<Rightarrow>
         (let (res, fs') = (case active_job_exists held of
              Inl e \<Rightarrow> (Inl e, held)
            | Inr True \<Rightarrow> (Inl Busy, held)
            | Inr False \<Rightarrow> publish_pair job_written request_written i now request_doc job_doc held) in
          (res, fs'\<lparr>fs_lock := None\<rparr>)))"

section \<open>Uploads and published audio\<close>

text \<open>\<open>Path(name).name == name\<close>.\<close>

definition base_name :: "string \<Rightarrow> bool" where
  "base_name s \<longleftrightarrow> CHR ''/'' \<notin> set s \<and> s \<noteq> ''.''"

definition stage_upload :: "bool \<Rightarrow> string \<Rightarrow> rat \<Rightarrow> bytes \<Rightarrow> tune_fs \<Rightarrow> (repo_error + unit) \<times> tune_fs" where
  "stage_upload ok name now data fs =
     (if \<not> base_name name then (Inl Unavailable, fs)
      else if \<not> ok then (Inl Unavailable, fs)
      else (Inr (), fs\<lparr>fs_uploads := AList.update name \<lparr>uf_mtime = now, uf_regular = True, uf_data = data\<rparr> (fs_uploads fs)\<rparr>))"

definition remove_upload :: "string \<Rightarrow> tune_fs \<Rightarrow> tune_fs" where
  "remove_upload name fs = (if base_name name then fs\<lparr>fs_uploads := AList.delete name (fs_uploads fs)\<rparr> else fs)"

text \<open>The audio name of the first approved row of the sample.\<close>

fun approved_audio :: "string \<Rightarrow> json list \<Rightarrow> string option" where
  "approved_audio i [] = None"
| "approved_audio i (row # rows) = (case row of
     JObj d \<Rightarrow> if jget d ''sample_id'' = JStr i \<and> jget d ''approved'' = JBool True
       then (case jget d ''audio_name'' of JStr a \<Rightarrow> Some a | _ \<Rightarrow> None) else approved_audio i rows
   | _ \<Rightarrow> approved_audio i rows)"

text \<open>
  \<open>(root / name).resolve()\<close> of a base name: \<open>None\<close> when it leaves the published directory, else the
  name it has there.  The empty name is the directory itself.
\<close>

definition resolve_audio :: "tune_fs \<Rightarrow> string \<Rightarrow> string option" where
  "resolve_audio fs name =
     (if name = [] \<or> name = ''..'' then None
      else (case map_of (fs_audio fs) name of
         Some (Audio_link target) \<Rightarrow> Some target
       | Some Audio_outside \<Rightarrow> None
       | _ \<Rightarrow> Some name))"

definition audio_is_file :: "tune_fs \<Rightarrow> string \<Rightarrow> bool" where
  "audio_is_file fs name = (map_of (fs_audio fs) name = Some Audio_file)"

definition resolve_published_audio :: "string \<Rightarrow> tune_fs \<Rightarrow> repo_error + string option" where
  "resolve_published_audio i fs =
     (if \<not> sample_id_ok i then Inr None
      else (case read_overview fs of
        Inl e \<Rightarrow> Inl e
      | Inr None \<Rightarrow> Inr None
      | Inr (Some ov) \<Rightarrow> (case jget ov ''heldout_samples'' of
          JArr rows \<Rightarrow> (case approved_audio i rows of
            None \<Rightarrow> Inr None
          | Some name \<Rightarrow>
             (if \<not> base_name name then Inr None
              else (case resolve_audio fs name of
                None \<Rightarrow> Inl Unavailable
              | Some path \<Rightarrow>
                 (if py_lower (path_suffix path) \<in> set upload_suffixes \<and> audio_is_file fs path
                  then Inr (Some path) else Inr None))))
        | _ \<Rightarrow> Inl Unavailable)))"

end
