(* ===== verification/Tune_Supervisor.thy ===== *)
theory Tune_Supervisor
  imports Tune_Queue
begin

text \<open>
  The host supervisor (\<open>scripts/tune_demo_supervisor.py\<close>) over the shared directory: recovery, claiming,
  publication, execution with the production runner, and one polling iteration.  \<open>tune_host\<close> is what
  it reads of the host's own files, \<open>child_run\<close> what the commands do and what the tick shows.
  Files of the host are given by their parsed content and their hashes.
\<close>

section \<open>Queue files\<close>

definition replace_at :: "string \<Rightarrow> string \<Rightarrow> string \<Rightarrow> bool" where
  "replace_at old new s \<longleftrightarrow> old \<noteq> [] \<and> take (length old) s = old"

text \<open>\<open>s.replace(old, new)\<close>.\<close>

function py_replace :: "string \<Rightarrow> string \<Rightarrow> string \<Rightarrow> string" where
  "py_replace old new [] = []"
| "py_replace old new (c # cs) =
     (if replace_at old new (c # cs) then new @ py_replace old new (drop (length old) (c # cs))
      else c # py_replace old new cs)"
  by pat_completeness auto
termination
  by (relation "measure (\<lambda>(a, b, s). length s)") (auto simp: replace_at_def)

definition processing_name :: "string \<Rightarrow> string" where
  "processing_name n = remove_suffix ''.json'' n @ ''.processing.json''"

definition move_file :: "string \<Rightarrow> string \<Rightarrow> (string, 'f) dict \<Rightarrow> (string, 'f) dict" where
  "move_file a b d = (case map_of d a of None \<Rightarrow> d | Some f \<Rightarrow> AList.update b f (AList.delete a d))"

definition recover_one :: "rat \<Rightarrow> rat \<Rightarrow> string \<Rightarrow> (string, tune_file) dict \<Rightarrow> (string, tune_file) dict" where
  "recover_one stale now n d = (case map_of d n of
     None \<Rightarrow> d
   | Some f \<Rightarrow> if now - tf_mtime f < stale then d
       else (let target = py_replace ''.processing.json'' ''.json'' n in
         if map_of d target \<noteq> None then AList.delete n d else move_file n target d))"

definition processing_files :: "(string, tune_file) dict \<Rightarrow> string list" where
  "processing_files d = sort (filter (ends_with ''.processing.json'') (keys d))"

definition recover_stale_processing :: "tune_settings \<Rightarrow> rat \<Rightarrow> tune_fs \<Rightarrow> tune_fs" where
  "recover_stale_processing ts now fs = fs\<lparr>fs_requests :=
     fold (recover_one (ts_processing_stale ts) now) (processing_files (fs_requests fs)) (fs_requests fs)\<rparr>"

definition delete_expired_uploads :: "tune_settings \<Rightarrow> rat \<Rightarrow> tune_fs \<Rightarrow> tune_fs" where
  "delete_expired_uploads ts now fs = fs\<lparr>fs_uploads :=
     filter (\<lambda>(n, u). \<not> (uf_regular u \<and> ts_upload_ttl ts \<le> now - uf_mtime u)) (fs_uploads fs)\<rparr>"

text \<open>The oldest request, by modification time and name; its name after the claim.\<close>

definition queued_requests :: "tune_fs \<Rightarrow> (string \<times> tune_file) list" where
  "queued_requests fs = sort_key (\<lambda>(n, f). (tf_mtime f, n)) (filter (\<lambda>(n, f). json_name n) (fs_requests fs))"

definition claim_next :: "tune_fs \<Rightarrow> string option \<times> tune_fs" where
  "claim_next fs = (case queued_requests fs of
     [] \<Rightarrow> (None, fs)
   | (n, f) # rest \<Rightarrow> (Some (processing_name n), fs\<lparr>fs_requests := move_file n (processing_name n) (fs_requests fs)\<rparr>))"

section \<open>What the host holds\<close>

record tune_host =
  ho_dataset :: "json option option" \<comment> \<open>dataset manifest: no file, unreadable, or its content\<close>
  ho_dataset_hash :: string
  ho_train_hash :: "string option" \<comment> \<open>\<open>None\<close>: no file\<close>
  ho_holdout_hash :: "string option"
  ho_artifact :: "json option option"
  ho_adapter_dir :: bool
  ho_adapter_hash :: "string option" \<comment> \<open>\<open>None\<close>: hashing raises\<close>
  ho_metrics :: "json option option"
  ho_holdout :: "json option list" \<comment> \<open>lines of \<open>holdout.jsonl\<close>, \<open>None\<close> for no JSON\<close>
  ho_predictions :: "json option list option"
  ho_audio :: "string \<Rightarrow> bool" \<comment> \<open>a regular file, no link\<close>

text \<open>Equality of two JSON values in Python: numbers and Booleans compare by value.\<close>

definition num_val :: "json \<Rightarrow> rat option" where
  "num_val v = (case v of JBool b \<Rightarrow> Some (if b then 1 else 0) | JInt n \<Rightarrow> Some (of_int n)
     | JFloat (Fin r) \<Rightarrow> Some r | _ \<Rightarrow> None)"

definition py_equal :: "json \<Rightarrow> json \<Rightarrow> bool" where
  "py_equal v w = (case (num_val v, num_val w) of (Some a, Some b) \<Rightarrow> a = b | _ \<Rightarrow> v = w \<and> v \<noteq> JFloat NaN)"

definition object_doc :: "json option \<Rightarrow> py_error + (string \<times> json) list" where
  "object_doc doc = (case doc of
     None \<Rightarrow> Inl JSONDecodeError
   | Some (JObj d) \<Rightarrow> Inr d
   | Some _ \<Rightarrow> Inl (ValueError ''JSON document must be an object''))"

definition read_json_object :: "tune_file \<Rightarrow> py_error + (string \<times> json) list" where
  "read_json_object f = object_doc (tf_doc f)"

text \<open>\<open>tune/manifest.py\<close>.\<close>

definition hash_is :: "(string \<times> json) list \<Rightarrow> string \<Rightarrow> string option \<Rightarrow> py_error + unit" where
  "hash_is d field h = (case h of
     None \<Rightarrow> Inl (ValueError ''manifest input file does not exist'')
   | Some s \<Rightarrow> if jget d field = JStr s then Inr () else Inl (ValueError ''file does not match its manifest''))"

definition validate_dataset_files :: "(string \<times> json) list \<Rightarrow> string option \<Rightarrow> string option \<Rightarrow> py_error + unit" where
  "validate_dataset_files d train holdout =
     (if jget d ''kind'' \<noteq> JStr ''dataset'' \<or> jget d ''status'' \<noteq> JStr ''frozen''
      then Inl (ValueError ''dataset manifest is not frozen'')
      else try_in (hash_is d ''train_sha256'' train) (\<lambda>_. hash_is d ''holdout_sha256'' holdout))"

definition identity_fields :: "string list" where
  "identity_fields = [''model_id'', ''source_corpus_sha256'', ''train_sha256'', ''holdout_sha256'', ''split_seed'']"

definition validate_artifact_compatibility ::
  "(string \<times> json) list \<Rightarrow> (string \<times> json) list \<Rightarrow> string option \<Rightarrow> py_error + unit" where
  "validate_artifact_compatibility dataset artifact adapter_hash =
     (if jget artifact ''kind'' \<noteq> JStr ''adapter'' \<or> jget artifact ''status'' \<noteq> JStr ''completed''
      then Inl (ValueError ''adapter manifest is incomplete'')
      else if \<not> list_all (\<lambda>k. py_equal (jget artifact k) (jget dataset k)) identity_fields
      then Inl (ValueError ''adapter is incompatible with dataset manifest'')
      else hash_is artifact ''adapter_sha256'' adapter_hash)"

section \<open>Publications\<close>

definition zero_counts :: json where
  "zero_counts = JObj [(''total'', JInt 0), (''train'', JInt 0), (''holdout'', JInt 0)]"

definition no_corpus :: "string \<Rightarrow> (string \<times> json) list" where
  "no_corpus st = [(''ready'', JBool False), (''status'', JStr st), (''input_mode'', JNull), (''model_id'', JNull),
     (''sample_counts'', zero_counts), (''language_counts'', JObj []), (''source_corpus_sha256'', JNull),
     (''dataset_manifest_sha256'', JNull)]"

definition hash_value :: "json \<Rightarrow> bool" where
  "hash_value v = (case v of JStr s \<Rightarrow> hash_ok s | _ \<Rightarrow> False)"

definition corpus_publication ::
  "(json \<Rightarrow> string) \<Rightarrow> tune_host \<Rightarrow> (string \<times> json) list \<times> (string \<times> json) list option" where
  "corpus_publication py_str ho = (case ho_dataset ho of
     None \<Rightarrow> (no_corpus ''unavailable'', None)
   | Some doc \<Rightarrow>
      (case try_in (object_doc doc) (\<lambda>d. try_in (validate_dataset_files d (ho_train_hash ho) (ho_holdout_hash ho)) (\<lambda>_. Inr d)) of
         Inl _ \<Rightarrow> (no_corpus ''invalid'', None)
       | Inr d \<Rightarrow>
         ([(''ready'', JBool (jget d ''status'' = JStr ''frozen'' \<and> hash_value (jget d ''source_corpus_sha256''))),
           (''status'', JStr (bounded py_str (get_or d ''status'' (JStr ''invalid'')) 40)),
           (''input_mode'', text_or_null (bounded py_str (get_or d ''input_mode'' (JStr [])) 20)),
           (''model_id'', text_or_null (bounded py_str (get_or d ''model_id'' (JStr [])) 160)),
           (''sample_counts'', JObj (safe_sample_counts (jget d ''sample_counts''))),
           (''language_counts'', JObj (safe_aggregate_mapping (jget d ''language_counts''))),
           (''source_corpus_sha256'', jget d ''source_corpus_sha256''),
           (''dataset_manifest_sha256'', JStr (ho_dataset_hash ho))], Some d)))"

definition no_artifact :: "string \<Rightarrow> (string \<times> json) list" where
  "no_artifact st = [(''available'', JBool False), (''compatible'', JBool False), (''status'', JStr st), (''profile'', JNull),
     (''model_id'', JNull), (''input_mode'', JNull), (''sample_counts'', zero_counts), (''language_counts'', JObj []),
     (''lora_rank'', JNull), (''completed_steps'', JNull), (''final_loss'', JNull), (''duration_seconds'', JNull),
     (''peak_vram_gib'', JNull), (''source_corpus_sha256'', JNull), (''adapter_sha256'', JNull), (''created_at'', JNull)]"

definition sub_object :: "(string \<times> json) list \<Rightarrow> string \<Rightarrow> (string \<times> json) list" where
  "sub_object d k = (case jget d k of JObj o' \<Rightarrow> o' | _ \<Rightarrow> [])"

definition artifact_compatible :: "tune_host \<Rightarrow> (string \<times> json) list option \<Rightarrow> (string \<times> json) list \<Rightarrow> bool" where
  "artifact_compatible ho dataset artifact = (case dataset of
     None \<Rightarrow> False
   | Some d \<Rightarrow> validate_artifact_compatibility d artifact (ho_adapter_hash ho) = Inr ()
       \<and> jget artifact ''dataset_manifest_sha256'' = JStr (ho_dataset_hash ho)
       \<and> hash_value (jget artifact ''source_corpus_sha256''))"

definition full_artifact_publication ::
  "(json \<Rightarrow> string) \<Rightarrow> tune_host \<Rightarrow> (string \<times> json) list option \<Rightarrow> (string \<times> json) list" where
  "full_artifact_publication py_str ho dataset =
     (if ho_artifact ho = None \<or> \<not> ho_adapter_dir ho then no_artifact ''unavailable''
      else (case object_doc (the (ho_artifact ho)) of
        Inl _ \<Rightarrow> no_artifact ''invalid''
      | Inr artifact \<Rightarrow>
         (let training = sub_object artifact ''training'';
              metrics = (case ho_metrics ho of None \<Rightarrow> [] | Some doc \<Rightarrow> (case object_doc doc of Inl _ \<Rightarrow> [] | Inr m \<Rightarrow> m));
              trainer = sub_object metrics ''trainer_metrics'';
              dataset_mode = (case dataset of Some d \<Rightarrow> if d = [] then JStr [] else get_or d ''input_mode'' (JStr []) | None \<Rightarrow> JStr []) in
          case safe_artifact_payload py_str (JObj
            [(''available'', JBool (jget artifact ''status'' = JStr ''completed'' \<and> ho_adapter_hash ho \<noteq> None)),
             (''compatible'', JBool (artifact_compatible ho dataset artifact)),
             (''status'', JStr (bounded py_str (get_or artifact ''status'' (JStr ''invalid'')) 40)),
             (''profile'', text_or_null (bounded py_str (get_or training ''profile'' (get_or metrics ''profile'' (JStr []))) 20)),
             (''model_id'', text_or_null (bounded py_str (get_or artifact ''model_id'' (JStr [])) 160)),
             (''input_mode'', text_or_null (bounded py_str (get_or metrics ''input_mode'' dataset_mode) 20)),
             (''sample_counts'', JObj (safe_sample_counts (jget artifact ''sample_counts''))),
             (''language_counts'', JObj (safe_aggregate_mapping (jget artifact ''language_counts''))),
             (''lora_rank'', jget (sub_object artifact ''lora'') ''rank''),
             (''completed_steps'', get_or trainer ''global_step'' (get_or training ''completed_steps''
                (get_or metrics ''completed_steps'' (jget training ''max_steps'')))),
             (''final_loss'', get_or trainer ''train_loss'' (get_or training ''final_loss'' (jget metrics ''final_loss''))),
             (''duration_seconds'', get_or training ''duration_seconds'' (jget metrics ''duration_seconds'')),
             (''peak_vram_gib'', get_or training ''peak_vram_gib'' (jget metrics ''peak_vram_gib'')),
             (''source_corpus_sha256'', jget artifact ''source_corpus_sha256''),
             (''adapter_sha256'', case ho_adapter_hash ho of None \<Rightarrow> JNull | Some h \<Rightarrow> JStr h),
             (''created_at'', jget artifact ''created_at'')])
          of None \<Rightarrow> no_artifact ''unavailable'' | Some p \<Rightarrow> p)))"

text \<open>The newest completed smoke training with its proof; reading a malformed status raises.\<close>

fun newest_smoke :: "(json \<Rightarrow> string) \<Rightarrow> (string \<times> tune_file) list \<Rightarrow> py_error + (string \<times> json) list option" where
  "newest_smoke py_str [] = Inr None"
| "newest_smoke py_str ((n, f) # rest) =
     try_in (read_json_object f) (\<lambda>d.
       if jget d ''status'' \<noteq> JStr ''completed'' \<or> jget d ''kind'' \<noteq> JStr ''train_smoke'' then newest_smoke py_str rest
       else Inr (safe_artifact_payload py_str (jget (sub_object d ''result'') ''training_proof'')))"

definition smoke_artifact_publication :: "(json \<Rightarrow> string) \<Rightarrow> tune_fs \<Rightarrow> py_error + (string \<times> json) list option" where
  "smoke_artifact_publication py_str fs = newest_smoke py_str (newest_first (job_files fs))"

definition summary_fields :: "string list" where
  "summary_fields = [''job_id'', ''kind'', ''status'', ''stage'', ''progress'', ''created_at'', ''started_at'', ''completed_at'']"

fun newest_active :: "(string \<times> tune_file) list \<Rightarrow> py_error + (string \<times> json) list option" where
  "newest_active [] = Inr None"
| "newest_active ((n, f) # rest) =
     try_in (read_json_object f) (\<lambda>d. try_in (status_active d) (\<lambda>a.
       if \<not> a then newest_active rest else Inr (Some (map (\<lambda>k. (k, jget d k)) summary_fields))))"

definition current_job :: "tune_fs \<Rightarrow> py_error + (string \<times> json) list option" where
  "current_job fs = newest_active (newest_first (job_files fs))"

section \<open>Approved samples\<close>

definition jsonl_objects :: "json option list \<Rightarrow> (string \<times> json) list list" where
  "jsonl_objects ls = List.map_filter (\<lambda>l. case l of Some (JObj d) \<Rightarrow> Some d | _ \<Rightarrow> None) ls"

text \<open>The rows of approved samples by their id; a later row replaces an earlier one, and an id that
  cannot be hashed raises.\<close>

definition row_id :: "(string \<times> json) list \<Rightarrow> json" where
  "row_id row = get_or row ''sample_id'' (jget row ''utterance_id'')"

fun rows_by_id :: "((string \<times> json) list \<Rightarrow> json) \<Rightarrow> string list \<Rightarrow> (string \<times> json) list list
    \<Rightarrow> (string, (string \<times> json) list) dict \<Rightarrow> py_error + (string, (string \<times> json) list) dict" where
  "rows_by_id key ids [] acc = Inr acc"
| "rows_by_id key ids (r # rs) acc = (case key r of
     JStr i \<Rightarrow> rows_by_id key ids rs (if i \<in> set ids then AList.update i r acc else acc)
   | JArr _ \<Rightarrow> Inl (TypeError ''unhashable type'')
   | JObj _ \<Rightarrow> Inl (TypeError ''unhashable type'')
   | _ \<Rightarrow> rows_by_id key ids rs acc)"

definition last_part :: "string \<Rightarrow> string" where
  "last_part s = rev (takeWhile (\<lambda>c. c \<noteq> CHR ''/'') (dropWhile (\<lambda>c. c = CHR ''/'') (rev s)))"

definition audio_item :: "(string \<times> json) list \<Rightarrow> ((string \<times> json) list \<times> string) option" where
  "audio_item row = (case jget row ''messages'' of
     JArr (JObj m # _) \<Rightarrow> (case jget m ''content'' of
       JArr (JObj item # _) \<Rightarrow> (case jget item ''audio'' of JStr a \<Rightarrow> Some (item, a) | _ \<Rightarrow> None)
     | _ \<Rightarrow> None)
   | _ \<Rightarrow> None)"

definition holdout_audio_path :: "tune_host \<Rightarrow> (string \<times> json) list \<Rightarrow> string option" where
  "holdout_audio_path ho row = (case audio_item row of
     None \<Rightarrow> None
   | Some (item, path) \<Rightarrow>
       if jget row ''input_mode'' = JStr ''audio'' \<and> jget item ''type'' = JStr ''audio'' \<and> starts_with ''/'' path
          \<and> ho_audio ho path \<and> py_lower (path_suffix (last_part path)) \<in> set upload_suffixes
       then Some path else None)"

definition approved_one ::
  "(json \<Rightarrow> string) \<Rightarrow> tune_host \<Rightarrow> (string, (string \<times> json) list) dict \<Rightarrow> (string, (string \<times> json) list) dict \<Rightarrow> string
    \<Rightarrow> (string \<times> (string \<times> json) list \<times> (string \<times> json) list) option" where
  "approved_one py_str ho holdout predictions i =
     (case (map_of holdout i, map_of predictions i) of
        (Some row, Some pred) \<Rightarrow> (case holdout_audio_path ho row of
           None \<Rightarrow> None
         | Some path \<Rightarrow>
            (let audio_name = i @ py_lower (path_suffix (last_part path));
                 target = bounded py_str (get_or row ''target'' (get_or pred ''target'' (JStr []))) max_public_text in
             Some (audio_name,
               [(''approved'', JBool True), (''sample_id'', JStr i),
                (''native_language'', JStr (bounded py_str (get_or row ''native_lang_tag'' (JStr ''Unknown'')) max_language_chars)),
                (''target'', JStr target), (''audio_name'', JStr audio_name)],
               [(''approved'', JBool True), (''sample_id'', JStr i), (''target'', JStr target),
                (''base_output'', JStr (bounded py_str (get_or pred ''base_output'' (get_or pred ''base'' (JStr []))) 2000)),
                (''tuned_output'', JStr (bounded py_str (get_or pred ''tuned_output'' (get_or pred ''tuned'' (JStr []))) 2000))])))
      | _ \<Rightarrow> None)"

text \<open>Regular files that are not approved go; copies of the approved ones are there.\<close>

definition remove_unapproved_audio :: "string list \<Rightarrow> (string, audio_entry) dict \<Rightarrow> (string, audio_entry) dict" where
  "remove_unapproved_audio names d = filter (\<lambda>(n, a). a = Audio_file \<longrightarrow> n \<in> set names) d"

definition approved_publications ::
  "(json \<Rightarrow> string) \<Rightarrow> tune_settings \<Rightarrow> tune_host \<Rightarrow> (tune_fs, (string \<times> json) list list \<times> (string \<times> json) list list) act" where
  "approved_publications py_str ts ho fs =
     (case ho_predictions ho of
        None \<Rightarrow> (Inr ([], []), fs\<lparr>fs_audio := remove_unapproved_audio [] (fs_audio fs)\<rparr>)
      | Some preds \<Rightarrow>
         (if ts_approved_ids ts = [] then (Inr ([], []), fs\<lparr>fs_audio := remove_unapproved_audio [] (fs_audio fs)\<rparr>)
          else (case rows_by_id (\<lambda>r. jget r ''utterance_id'') (ts_approved_ids ts) (jsonl_objects (ho_holdout ho)) [] of
            Inl e \<Rightarrow> (Inl e, fs)
          | Inr holdout \<Rightarrow> (case rows_by_id row_id (ts_approved_ids ts) (jsonl_objects preds) [] of
              Inl e \<Rightarrow> (Inl e, fs)
            | Inr predictions \<Rightarrow>
               (let found = List.map_filter (approved_one py_str ho holdout predictions)
                      (take max_predictions (sort (remdups (ts_approved_ids ts))));
                    names = map fst found;
                    audio = fold (\<lambda>n d. AList.update n Audio_file d) names (fs_audio fs) in
                (Inr (map (fst \<circ> snd) found, map (snd \<circ> snd) found),
                 fs\<lparr>fs_audio := remove_unapproved_audio names audio\<rparr>))))))"

section \<open>The overview\<close>

definition raise_or :: "py_error + 'a \<Rightarrow> ('s, 'a) act" where
  "raise_or r = (case r of Inl e \<Rightarrow> throw e | Inr x \<Rightarrow> ret x)"

definition opt_obj :: "(string \<times> json) list option \<Rightarrow> json" where
  "opt_obj v = (case v of None \<Rightarrow> JNull | Some d \<Rightarrow> JObj d)"

definition write_overview :: "rat \<Rightarrow> (string \<times> json) list \<Rightarrow> (tune_fs, unit) act" where
  "write_overview now doc = (\<lambda>fs. (Inr (), fs\<lparr>fs_overview := Some \<lparr>tf_mtime = now, tf_doc = Some (JObj doc)\<rparr>\<rparr>))"

definition overview_doc ::
  "string \<Rightarrow> (string \<times> json) list option \<Rightarrow> (string \<times> json) list \<Rightarrow> (string \<times> json) list option \<Rightarrow> (string \<times> json) list
    \<Rightarrow> (string \<times> json) list list \<Rightarrow> (string \<times> json) list list \<Rightarrow> (string \<times> json) list" where
  "overview_doc stamp current corpus smoke full samples comparisons =
     [(''supervisor'', JObj [(''status'', JStr (if current \<noteq> None then ''running'' else ''idle'')), (''heartbeat_at'', JStr stamp),
        (''message'', JStr (if current \<noteq> None then ''GPU job in progress'' else ''Supervisor ready''))]),
      (''corpus'', JObj corpus), (''smoke_artifact'', opt_obj smoke), (''full_artifact'', JObj full),
      (''heldout_samples'', JArr (map JObj samples)), (''heldout_comparisons'', JArr (map JObj comparisons)),
      (''current_job'', opt_obj current)]"

definition publish_overview ::
  "(json \<Rightarrow> string) \<Rightarrow> tune_settings \<Rightarrow> tune_host \<Rightarrow> rat \<times> string \<Rightarrow> (tune_fs, unit) act" where
  "publish_overview py_str ts ho tick =
     bind_act (gets current_job) (\<lambda>r. bind_act (raise_or r) (\<lambda>current.
     bind_act (approved_publications py_str ts ho) (\<lambda>(samples, comparisons).
     bind_act (gets (smoke_artifact_publication py_str)) (\<lambda>r. bind_act (raise_or r) (\<lambda>smoke.
       (let (corpus, dataset) = corpus_publication py_str ho in
        write_overview (fst tick) (overview_doc (snd tick) current corpus smoke
          (full_artifact_publication py_str ho dataset) samples comparisons)))))))"

section \<open>Execution\<close>

text \<open>
  What happens during one job: the clock at its \<open>k\<close>-th publication (modification time and time stamp), how
  often the preflight reports a heartbeat, what it returns (exit code and standard output), what the
  event file shows whenever the streaming runner reports, how the command ends, the event file and
  the result document after it.  A command that exceeds its time raises.
\<close>

record child_run =
  ch_tick :: "nat \<Rightarrow> rat \<times> string"
  ch_beats :: nat
  ch_preflight :: "py_error + int \<times> json option"
  ch_before :: "json option list option"
  ch_observed :: "json option list option list"
  ch_exit :: "py_error + int"
  ch_final :: "json option list option"
  ch_result :: "json option option"

definition write_job :: "string \<Rightarrow> rat \<Rightarrow> (string \<times> json) list \<Rightarrow> (tune_fs, unit) act" where
  "write_job i now doc = (\<lambda>fs. (Inr (), put_job i now doc fs))"

definition make_run_dir :: "string \<Rightarrow> (tune_fs, unit) act" where
  "make_run_dir i = (\<lambda>fs. if i \<in> set (fs_runs fs) then (Inl FileExistsError, fs) else (Inr (), fs\<lparr>fs_runs := i # fs_runs fs\<rparr>))"

text \<open>Building and writing a status; the result is the document written.\<close>

definition write_status ::
  "rat \<times> string \<Rightarrow> tune_request \<Rightarrow> tune_status \<Rightarrow> string \<Rightarrow> rat \<Rightarrow> (string \<times> json) list list \<Rightarrow> (string \<times> json) list option
    \<Rightarrow> string \<Rightarrow> (string \<times> json) list option \<Rightarrow> (tune_fs, (string \<times> json) list) act" where
  "write_status tick rq st stage progress events result failure previous =
     bind_act (raise_or (build_status (snd tick) rq st stage progress events result failure previous)) (\<lambda>doc.
     bind_act (write_job (tr_job_id rq) (fst tick) doc) (\<lambda>_. ret doc))"

definition doc_events :: "(string \<times> json) list \<Rightarrow> (string \<times> json) list list" where
  "doc_events d = (case jget d ''events'' of
     JArr es \<Rightarrow> List.map_filter (\<lambda>e. case e of JObj x \<Rightarrow> Some x | _ \<Rightarrow> None) es | _ \<Rightarrow> [])"

definition doc_progress :: "(string \<times> json) list \<Rightarrow> rat" where
  "doc_progress d = (case jget d ''progress'' of JFloat (Fin r) \<Rightarrow> r | _ \<Rightarrow> 0)"

definition doc_stage :: "(string \<times> json) list \<Rightarrow> string" where
  "doc_stage d = (case jget d ''stage'' of JStr s \<Rightarrow> s | _ \<Rightarrow> [])"

text \<open>\<open>heartbeat_preflight\<close>, \<open>n\<close> times from publication \<open>k\<close> on.\<close>

fun preflight_beats ::
  "(json \<Rightarrow> string) \<Rightarrow> tune_settings \<Rightarrow> tune_host \<Rightarrow> child_run \<Rightarrow> tune_request \<Rightarrow> nat \<Rightarrow> nat \<Rightarrow> (string \<times> json) list
    \<Rightarrow> (tune_fs, (string \<times> json) list) act" where
  "preflight_beats py_str ts ho ch rq k 0 running = ret running"
| "preflight_beats py_str ts ho ch rq k (Suc n) running =
     bind_act (write_status (ch_tick ch k) rq Tune_running ''preflight'' (doc_progress running) (doc_events running) None [] (Some running))
       (\<lambda>running. bind_act (publish_overview py_str ts ho (ch_tick ch k)) (\<lambda>_.
          preflight_beats py_str ts ho ch rq (Suc k) n running))"

definition preflight_passed :: "json \<Rightarrow> bool" where
  "preflight_passed v = (case v of
     JArr xs \<Rightarrow> list_all (\<lambda>x. case x of JObj d \<Rightarrow> jget d ''passed'' = JBool True | _ \<Rightarrow> False) xs | _ \<Rightarrow> False)"

definition preflight_result :: "child_run \<Rightarrow> py_error + unit" where
  "preflight_result ch = (case ch_preflight ch of
     Inl e \<Rightarrow> Inl e
   | Inr (code, out) \<Rightarrow>
      (if code \<noteq> 0 then Inl (RuntimeError ''tuning preflight failed'')
       else (case out of None \<Rightarrow> Inl JSONDecodeError
         | Some v \<Rightarrow> if preflight_passed v then Inr ()
             else Inl (RuntimeError ''tuning preflight returned invalid or failing checks''))))"

definition mapped_progress :: "rat \<Rightarrow> rat" where
  "mapped_progress p = min (95 / 100) (1 / 10 + 85 / 100 * p)"

text \<open>\<open>update_running\<close> on what the event file showed at one report.\<close>

definition update_running ::
  "(json \<Rightarrow> string) \<Rightarrow> tune_settings \<Rightarrow> tune_host \<Rightarrow> rat \<times> string \<Rightarrow> tune_request \<Rightarrow> (string \<times> json) list list
    \<Rightarrow> (string \<times> json) list \<Rightarrow> (tune_fs, (string \<times> json) list) act" where
  "update_running py_str ts ho tick rq events running =
     (let stage = (if events = [] then ''executing'' else doc_stage (last events));
          p = (if events = [] then 0 else doc_progress (last events)) in
      bind_act (write_status tick rq Tune_running stage (mapped_progress p) events None [] (Some running)) (\<lambda>doc.
      bind_act (publish_overview py_str ts ho tick) (\<lambda>_. ret doc)))"

fun stream_events ::
  "(json \<Rightarrow> string) \<Rightarrow> tune_settings \<Rightarrow> tune_host \<Rightarrow> child_run \<Rightarrow> tune_request \<Rightarrow> nat \<Rightarrow> json option list option list
    \<Rightarrow> (string \<times> json) list \<Rightarrow> (tune_fs, nat \<times> (string \<times> json) list) act" where
  "stream_events py_str ts ho ch rq k [] running = ret (k, running)"
| "stream_events py_str ts ho ch rq k (file # files) running =
     bind_act (raise_or (read_events py_str (snd (ch_tick ch k)) file)) (\<lambda>events.
     bind_act (update_running py_str ts ho (ch_tick ch k) rq events running) (\<lambda>running.
       stream_events py_str ts ho ch rq (Suc k) files running))"

definition upload_is_file :: "tune_fs \<Rightarrow> string \<Rightarrow> bool" where
  "upload_is_file fs n = (case map_of (fs_uploads fs) n of None \<Rightarrow> False | Some u \<Rightarrow> uf_regular u)"

text \<open>The start of \<open>execute\<close>: a fresh run directory, the queued and the running status.\<close>

definition begin_job :: "child_run \<Rightarrow> tune_request \<Rightarrow> (tune_fs, (string \<times> json) list) act" where
  "begin_job ch rq =
     bind_act (make_run_dir (tr_job_id rq)) (\<lambda>_.
     bind_act (write_status (ch_tick ch 0) rq Tune_queued ''queued'' 0 [] None [] None) (\<lambda>queued.
       write_status (ch_tick ch 1) rq Tune_running ''preflight'' (2 / 100) [] None [] (Some queued)))"

definition exit_reason :: "tune_request \<Rightarrow> int \<Rightarrow> string" where
  "exit_reason rq code = kind_text (tr_kind rq) @ '' command exited with code '' @ int_str code"

text \<open>The end of \<open>execute\<close>: the events left, the exit code and the result document decide.\<close>

definition finish_job ::
  "(json \<Rightarrow> string) \<Rightarrow> child_run \<Rightarrow> tune_request \<Rightarrow> nat \<Rightarrow> (string \<times> json) list \<Rightarrow> (tune_fs, (string \<times> json) list) act" where
  "finish_job py_str ch rq k running =
     bind_act (raise_or (ch_exit ch)) (\<lambda>code.
     bind_act (raise_or (read_events py_str (snd (ch_tick ch k)) (ch_final ch))) (\<lambda>events.
       if code \<noteq> 0 then write_status (ch_tick ch k) rq Tune_failed ''failed'' 1 events None (exit_reason rq code) (Some running)
       else (case ch_result ch of
          None \<Rightarrow> throw (RuntimeError ''tuning command completed without a result document'')
        | Some doc \<Rightarrow> bind_act (raise_or (object_doc doc)) (\<lambda>payload.
            write_status (ch_tick ch k) rq Tune_completed ''completed'' 1 events (Some (safe_child_result py_str payload)) []
              (Some running)))))"

definition run_command ::
  "(json \<Rightarrow> string) \<Rightarrow> tune_settings \<Rightarrow> tune_host \<Rightarrow> child_run \<Rightarrow> tune_request \<Rightarrow> (string \<times> json) list
    \<Rightarrow> (tune_fs, nat \<times> (string \<times> json) list) act" where
  "run_command py_str ts ho ch rq running =
     bind_act (preflight_beats py_str ts ho ch rq 2 (ch_beats ch) running) (\<lambda>running.
     bind_act (raise_or (preflight_result ch)) (\<lambda>_.
     bind_act (gets upload_is_file) (\<lambda>present.
     bind_act (raise_or (build_command ts present rq)) (\<lambda>_.
     (let k = 2 + ch_beats ch in
     bind_act (raise_or (read_events py_str (snd (ch_tick ch k)) (ch_before ch))) (\<lambda>events.
     bind_act (write_status (ch_tick ch k) rq Tune_running ''executing'' (1 / 10) events None [] (Some running)) (\<lambda>running.
       stream_events py_str ts ho ch rq (Suc k) (ch_observed ch) running)))))))"

definition execute ::
  "(json \<Rightarrow> string) \<Rightarrow> tune_settings \<Rightarrow> tune_host \<Rightarrow> child_run \<Rightarrow> tune_request \<Rightarrow> (tune_fs, (string \<times> json) list) act" where
  "execute py_str ts ho ch rq =
     bind_act (begin_job ch rq) (\<lambda>running.
     bind_act (publish_overview py_str ts ho (ch_tick ch 1)) (\<lambda>_.
     bind_act (run_command py_str ts ho ch rq running) (\<lambda>(k, running).
       finish_job py_str ch rq k running)))"

section \<open>One claimed request\<close>

fun exc_class :: "py_error \<Rightarrow> string" where
  "exc_class KeyError = ''KeyError''"
| "exc_class (ValueError _) = ''ValueError''"
| "exc_class (RuntimeError _) = ''RuntimeError''"
| "exc_class (TypeError _) = ''TypeError''"
| "exc_class LookupError = ''LookupError''"
| "exc_class OSError = ''OSError''"
| "exc_class AttributeError = ''AttributeError''"
| "exc_class TimeoutExpired = ''TimeoutExpired''"
| "exc_class FileExistsError = ''FileExistsError''"
| "exc_class OverflowError = ''OverflowError''"
| "exc_class JSONDecodeError = ''JSONDecodeError''"
| "exc_class (DatabaseError _) = ''DatabaseError''"
| "exc_class (GameError _ _) = ''GameError''"
| "exc_class (AdminError _ _) = ''TuneAdminServiceError''"

text \<open>The request a claimed file holds; the file is there unless something removed it.\<close>

definition read_claim :: "(string \<Rightarrow> bool option) \<Rightarrow> string \<Rightarrow> tune_fs \<Rightarrow> py_error + tune_request" where
  "read_claim parse_iso name fs = (case map_of (fs_requests fs) name of
     None \<Rightarrow> Inl OSError
   | Some f \<Rightarrow> try_in (read_json_object f) (\<lambda>payload. validate_request parse_iso payload name))"

text \<open>What stands in for a request that could not be read; \<open>seconds\<close> is \<open>int(time.time())\<close>.\<close>

definition inferred_request :: "string \<Rightarrow> nat \<Rightarrow> string \<Rightarrow> tune_request" where
  "inferred_request stamp seconds name =
     (let i = remove_suffix ''.processing.json'' name in
      \<lparr>tr_job_id = (if job_id_ok i then i else ''invalid-'' @ nat_str seconds), tr_kind = Infer_live,
       tr_created_at = stamp, tr_upload = None\<rparr>)"

definition failed_job :: "rat \<times> string \<Rightarrow> tune_request \<Rightarrow> py_error \<Rightarrow> (tune_fs, (string \<times> json) list) act" where
  "failed_job tick rq e = (\<lambda>fs.
     (case (case map_of (fs_jobs fs) (json_file (tr_job_id rq)) of
          None \<Rightarrow> Inr None | Some f \<Rightarrow> try_in (read_json_object f) (\<lambda>d. Inr (Some d))) of
        Inl err \<Rightarrow> (Inl err, fs)
      | Inr previous \<Rightarrow> write_status tick rq Tune_failed ''failed'' 1 [] None
          (exc_class e @ '': job could not be completed'') previous fs))"

definition clean_claim :: "string \<Rightarrow> tune_request \<Rightarrow> tune_fs \<Rightarrow> tune_fs" where
  "clean_claim name rq fs = fs\<lparr>fs_requests := AList.delete name (fs_requests fs),
     fs_uploads := (case (tr_kind rq, tr_upload rq) of (Infer_live, Some (u, l)) \<Rightarrow> AList.delete u (fs_uploads fs) | _ \<Rightarrow> fs_uploads fs)\<rparr>"

record sup_env =
  se_py_str :: "json \<Rightarrow> string"
  se_parse_iso :: "string \<Rightarrow> bool option"
  se_child :: child_run
  se_fail_tick :: "rat \<times> string" \<comment> \<open>the clock in the failure branch\<close>
  se_seconds :: nat
  se_last_tick :: "rat \<times> string" \<comment> \<open>the clock at the last publication\<close>

definition attempt_claim :: "sup_env \<Rightarrow> tune_settings \<Rightarrow> tune_host \<Rightarrow> string \<Rightarrow> (tune_fs, (string \<times> json) list) act" where
  "attempt_claim en ts ho name =
     bind_act (gets (read_claim (se_parse_iso en) name)) (\<lambda>r. bind_act (raise_or r) (\<lambda>rq.
       execute (se_py_str en) ts ho (se_child en) rq))"

text \<open>The request known after the attempt, for the failure status and the cleanup.\<close>

definition known_request :: "sup_env \<Rightarrow> string \<Rightarrow> tune_fs \<Rightarrow> tune_request" where
  "known_request en name fs = (case read_claim (se_parse_iso en) name fs of
     Inr rq \<Rightarrow> rq | Inl _ \<Rightarrow> inferred_request (snd (se_fail_tick en)) (se_seconds en) name)"

definition settle_claim :: "sup_env \<Rightarrow> tune_settings \<Rightarrow> tune_host \<Rightarrow> string \<Rightarrow> (tune_fs, (string \<times> json) list) act" where
  "settle_claim en ts ho name = (\<lambda>fs.
     (let rq = known_request en name fs;
          (res, fs1) = (case attempt_claim en ts ho name fs of
             (Inr final, fs1) \<Rightarrow> (Inr final, fs1)
           | (Inl e, fs1) \<Rightarrow> failed_job (se_fail_tick en) rq e fs1) in
      (res, clean_claim name rq fs1)))"

definition process_claim :: "sup_env \<Rightarrow> tune_settings \<Rightarrow> tune_host \<Rightarrow> string \<Rightarrow> (tune_fs, (string \<times> json) list) act" where
  "process_claim en ts ho name =
     bind_act (settle_claim en ts ho name) (\<lambda>final.
     bind_act (publish_overview (se_py_str en) ts ho (se_last_tick en)) (\<lambda>_. ret final))"

text \<open>One polling iteration at time \<open>now\<close>: the result says whether a request was processed.\<close>

definition run_once :: "sup_env \<Rightarrow> tune_settings \<Rightarrow> tune_host \<Rightarrow> rat \<Rightarrow> (tune_fs, bool) act" where
  "run_once en ts ho now fs =
     (let fs1 = delete_expired_uploads ts now (recover_stale_processing ts now fs) in
      case claim_next fs1 of
        (None, fs2) \<Rightarrow> bind_act (publish_overview (se_py_str en) ts ho (se_last_tick en)) (\<lambda>_. ret False) fs2
      | (Some name, fs2) \<Rightarrow> bind_act (process_claim en ts ho name) (\<lambda>_. ret True) fs2)"

definition dry_run_valid :: "(string \<Rightarrow> bool option) \<Rightarrow> tune_fs \<Rightarrow> py_error + nat" where
  "dry_run_valid parse_iso fs = fold (\<lambda>(n, f) acc. try_in acc (\<lambda>k.
       case try_in (read_json_object f) (\<lambda>payload. validate_request parse_iso payload n) of
         Inr _ \<Rightarrow> Inr (Suc k)
       | Inl (TypeError m) \<Rightarrow> Inl (TypeError m)
       | Inl _ \<Rightarrow> Inr k)) (filter (\<lambda>(n, f). json_name n) (fs_requests fs)) (Inr 0)"

end
