(* ===== verification/Tune_Admin.thy ===== *)
theory Tune_Admin
  imports Tune_Queue
begin

text \<open>
  The tuning service of the API (\<open>app/tune_admin/service.py\<close>) over the shared directory: what it lets a
  browser see of the supervisor's documents, and the two requests it may queue.  A pydantic
  validation error is a \<open>ValueError\<close>.  Parsers of the standard library and pydantic are arguments.
\<close>

section \<open>Configuration and parsers\<close>

record tune_config =
  tc_max_upload_bytes :: nat
  tc_allowed_types :: "string list"
  tc_extensions :: "(string \<times> string) list"
  tc_default_extension :: string
  tc_heartbeat_stale :: rat
  tc_lock_stale :: rat
  tc_max_events :: nat
  tc_max_samples :: nat
  tc_max_language :: nat

definition default_tune_config :: tune_config where
  "default_tune_config = \<lparr>tc_max_upload_bytes = 2 * 1024 * 1024,
     tc_allowed_types = [''audio/flac'', ''audio/x-flac'', ''audio/wav'', ''audio/x-wav'', ''audio/webm'', ''audio/ogg'',
       ''audio/mp4'', ''audio/mpeg''],
     tc_extensions = [(''audio/flac'', ''.flac''), (''audio/x-flac'', ''.flac''), (''audio/wav'', ''.wav''),
       (''audio/x-wav'', ''.wav''), (''audio/webm'', ''.webm''), (''audio/ogg'', ''.ogg''), (''audio/mp4'', ''.m4a''),
       (''audio/mpeg'', ''.mp3'')],
     tc_default_extension = ''.webm'', tc_heartbeat_stale = 30, tc_lock_stale = 10, tc_max_events = 100,
     tc_max_samples = 10, tc_max_language = 80\<rparr>"

definition extension_for :: "tune_config \<Rightarrow> string \<Rightarrow> string" where
  "extension_for cfg content_type = (case map_of (rev (tc_extensions cfg)) content_type of
     None \<Rightarrow> tc_default_extension cfg | Some e \<Rightarrow> e)"

text \<open>
  \<open>ps_dt\<close> and \<open>ps_uuid\<close>: pydantic's reading of a date and of a UUID; \<open>ps_iso\<close>: \<open>datetime.fromisoformat\<close>
  with UTC for a missing zone; \<open>ps_float\<close>: \<open>float\<close> of a text; \<open>ps_str\<close>: \<open>str\<close> of a value.
\<close>

record parsers =
  ps_dt :: "json \<Rightarrow> time option"
  ps_uuid :: "json \<Rightarrow> uuid option"
  ps_iso :: "string \<Rightarrow> time option"
  ps_float :: "string \<Rightarrow> pyfloat option"
  ps_str :: "json \<Rightarrow> string"

abbreviation invalid :: "py_error + 'a" where "invalid \<equiv> Inl (ValueError ''validation error'')"

section \<open>Numbers\<close>

definition as_nonnegative_int :: "json \<Rightarrow> py_error + int option" where
  "as_nonnegative_int v = (case v of
     JInt n \<Rightarrow> Inr (non_negative n)
   | JFloat (Fin r) \<Rightarrow> Inr (non_negative (trunc r))
   | JFloat PInf \<Rightarrow> Inl OverflowError
   | JFloat NInf \<Rightarrow> Inl OverflowError
   | JStr s \<Rightarrow> Inr (case int_of_text (strip s) of None \<Rightarrow> None | Some n \<Rightarrow> non_negative n)
   | _ \<Rightarrow> Inr None)"

definition finite_nonneg :: "pyfloat \<Rightarrow> rat option" where
  "finite_nonneg f = (case f of Fin r \<Rightarrow> if 0 \<le> r then Some r else None | _ \<Rightarrow> None)"

definition as_nonnegative_float :: "parsers \<Rightarrow> json \<Rightarrow> py_error + rat option" where
  "as_nonnegative_float ps v = (case v of
     JInt n \<Rightarrow> if float_overflow \<le> \<bar>n\<bar> then Inl OverflowError else Inr (finite_nonneg (Fin (of_int n)))
   | JFloat f \<Rightarrow> Inr (finite_nonneg f)
   | JStr s \<Rightarrow> Inr (case ps_float ps s of None \<Rightarrow> None | Some f \<Rightarrow> finite_nonneg f)
   | _ \<Rightarrow> Inr None)"

definition or_zero :: "int option \<Rightarrow> int" where
  "or_zero n = (case n of None \<Rightarrow> 0 | Some k \<Rightarrow> k)"

definition as_dict :: "json \<Rightarrow> (string \<times> json) list" where
  "as_dict v = (case v of JObj d \<Rightarrow> d | _ \<Rightarrow> [])"

section \<open>Shapes\<close>

record sample_counts =
  sc_total :: int
  sc_train :: int
  sc_holdout :: int

definition shape_sample_counts :: "json \<Rightarrow> py_error + sample_counts" where
  "shape_sample_counts v = (let raw = as_dict v in
     try_in (as_nonnegative_int (jget raw ''total'')) (\<lambda>t.
     try_in (as_nonnegative_int (jget raw ''train'')) (\<lambda>r.
     try_in (as_nonnegative_int (jget raw ''holdout'')) (\<lambda>h.
       Inr \<lparr>sc_total = or_zero t, sc_train = or_zero r, sc_holdout = or_zero h\<rparr>))))"

fun shape_languages :: "(string \<times> json) list \<Rightarrow> (string, int) dict \<Rightarrow> py_error + (string, int) dict" where
  "shape_languages [] acc = Inr acc"
| "shape_languages ((k, v) # rest) acc =
     (let label = safe_text (JStr k) 80 [] in
      try_in (as_nonnegative_int v) (\<lambda>n. shape_languages rest
        (case n of None \<Rightarrow> acc | Some c \<Rightarrow> if label = [] then acc else AList.update label c acc)))"

definition language_counts :: "json \<Rightarrow> py_error + (string, int) dict" where
  "language_counts v = (case v of JObj d \<Rightarrow> shape_languages (take 50 d) [] | _ \<Rightarrow> Inr [])"

record corpus_meta =
  cm_ready :: bool
  cm_status :: string
  cm_input_mode :: "string option"
  cm_model_id :: "string option"
  cm_counts :: sample_counts
  cm_languages :: "(string, int) dict"
  cm_source_hash :: "string option"
  cm_manifest_hash :: "string option"

definition shape_corpus :: "json \<Rightarrow> py_error + corpus_meta" where
  "shape_corpus v = (let raw = as_dict v; st = safe_text (jget raw ''status'') 40 ''unavailable'' in
     try_in (shape_sample_counts (jget raw ''sample_counts'')) (\<lambda>counts.
     try_in (language_counts (jget raw ''language_counts'')) (\<lambda>languages.
       Inr \<lparr>cm_ready = truthy (get_or raw ''ready'' (JBool (st = ''frozen''))) \<and> st \<in> {''frozen'', ''ready''},
         cm_status = st, cm_input_mode = safe_optional_text (jget raw ''input_mode'') 20,
         cm_model_id = safe_model_id (jget raw ''model_id''), cm_counts = counts, cm_languages = languages,
         cm_source_hash = safe_hash (jget raw ''source_corpus_sha256''),
         cm_manifest_hash = safe_hash (jget raw ''dataset_manifest_sha256'')\<rparr>)))"

datatype artifact_profile = Smoke | Full

record artifact_meta =
  am_available :: bool
  am_compatible :: bool
  am_status :: string
  am_profile :: "artifact_profile option"
  am_model_id :: "string option"
  am_input_mode :: "string option"
  am_counts :: sample_counts
  am_languages :: "(string, int) dict"
  am_lora_rank :: "int option"
  am_steps :: "int option"
  am_loss :: "rat option"
  am_duration :: "rat option"
  am_vram :: "rat option"
  am_source_hash :: "string option"
  am_adapter_hash :: "string option"
  am_created :: "time option"

definition profile_of :: "json \<Rightarrow> artifact_profile option" where
  "profile_of v = (if v = JStr ''smoke'' then Some Smoke else if v = JStr ''full'' then Some Full else None)"

text \<open>An optional date: null passes, anything else must be a date.\<close>

definition opt_date :: "parsers \<Rightarrow> json \<Rightarrow> py_error + time option" where
  "opt_date ps v = (if v = JNull then Inr None else (case ps_dt ps v of None \<Rightarrow> invalid | Some t \<Rightarrow> Inr (Some t)))"

definition rank_ok :: "int option \<Rightarrow> bool" where
  "rank_ok r = (case r of None \<Rightarrow> True | Some n \<Rightarrow> 1 \<le> n \<and> n \<le> 4096)"

definition shape_artifact :: "parsers \<Rightarrow> json \<Rightarrow> py_error + artifact_meta option" where
  "shape_artifact ps v = (case v of
     JObj d \<Rightarrow>
      (let training = as_dict (jget d ''training''); lora = as_dict (jget d ''lora'');
           st = safe_text (jget d ''status'') 40 ''unavailable'' in
       try_in (shape_sample_counts (jget d ''sample_counts'')) (\<lambda>counts.
       try_in (language_counts (jget d ''language_counts'')) (\<lambda>languages.
       try_in (as_nonnegative_int (get_or d ''lora_rank'' (jget lora ''rank''))) (\<lambda>rank.
       try_in (as_nonnegative_int (get_or d ''completed_steps'' (get_or d ''max_steps''
          (get_or training ''completed_steps'' (jget training ''max_steps''))))) (\<lambda>steps.
       try_in (as_nonnegative_float ps (get_or d ''final_loss'' (jget training ''final_loss''))) (\<lambda>loss.
       try_in (as_nonnegative_float ps (get_or d ''duration_seconds'' (jget training ''duration_seconds''))) (\<lambda>duration.
       try_in (as_nonnegative_float ps (get_or d ''peak_vram_gib'' (jget training ''peak_vram_gib''))) (\<lambda>vram.
       try_in (opt_date ps (jget d ''created_at'')) (\<lambda>created.
       if \<not> rank_ok rank then invalid
       else Inr (Some \<lparr>am_available = truthy (get_or d ''available'' (JBool (st = ''completed''))),
         am_compatible = truthy (jget d ''compatible''), am_status = st,
         am_profile = profile_of (get_or d ''profile'' (jget training ''profile'')),
         am_model_id = safe_model_id (jget d ''model_id''), am_input_mode = safe_optional_text (jget d ''input_mode'') 20,
         am_counts = counts, am_languages = languages, am_lora_rank = rank, am_steps = steps, am_loss = loss,
         am_duration = duration, am_vram = vram, am_source_hash = safe_hash (jget d ''source_corpus_sha256''),
         am_adapter_hash = safe_hash (jget d ''adapter_sha256''), am_created = created\<rparr>))))))))))
   | _ \<Rightarrow> Inr None)"

record supervisor_meta =
  sv_healthy :: bool
  sv_stale :: bool
  sv_status :: string
  sv_heartbeat :: "time option"
  sv_message :: "string option"

definition shape_supervisor :: "parsers \<Rightarrow> time \<Rightarrow> rat \<Rightarrow> json \<Rightarrow> supervisor_meta" where
  "shape_supervisor ps now stale_after v =
     (let raw = as_dict v; st = safe_text (jget raw ''status'') 40 ''unavailable'';
          heartbeat = ps_iso ps (replace_Z (text_of (ps_str ps) (jget raw ''heartbeat_at'')));
          stale = (case heartbeat of None \<Rightarrow> True
            | Some h \<Rightarrow> now < h \<or> stale_after * 1000000 < of_int (now - h)) in
      \<lparr>sv_healthy = (\<not> stale \<and> st \<in> {''ready'', ''idle'', ''running'', ''healthy''}), sv_stale = stale, sv_status = st,
       sv_heartbeat = heartbeat, sv_message = safe_optional_text (jget raw ''message'') 200\<rparr>)"

record job_summary =
  js_job_id :: uuid
  js_kind :: tune_kind
  js_status :: tune_status
  js_stage :: string
  js_progress :: rat
  js_created :: time
  js_started :: "time option"
  js_completed :: "time option"

definition kind_of :: "json \<Rightarrow> tune_kind option" where
  "kind_of v = (if v = JStr ''train_smoke'' then Some Train_smoke else if v = JStr ''infer_live'' then Some Infer_live else None)"

definition status_of :: "json \<Rightarrow> tune_status option" where
  "status_of v = (if v = JStr ''queued'' then Some Tune_queued else if v = JStr ''running'' then Some Tune_running
     else if v = JStr ''completed'' then Some Tune_completed else if v = JStr ''failed'' then Some Tune_failed else None)"

definition shape_summary :: "parsers \<Rightarrow> (string \<times> json) list \<Rightarrow> py_error + job_summary" where
  "shape_summary ps raw =
     try_in (as_nonnegative_float ps (jget raw ''progress'')) (\<lambda>p.
       case (ps_uuid ps (jget raw ''job_id''), kind_of (jget raw ''kind''), status_of (jget raw ''status''),
             ps_dt ps (jget raw ''created_at'')) of
         (Some i, Some k, Some st, Some created) \<Rightarrow>
           try_in (opt_date ps (jget raw ''started_at'')) (\<lambda>started.
           try_in (opt_date ps (jget raw ''completed_at'')) (\<lambda>completed.
           (let progress = (case p of None \<Rightarrow> 0 | Some r \<Rightarrow> r) in
            if 1 < progress then invalid
            else Inr \<lparr>js_job_id = i, js_kind = k, js_status = st, js_stage = safe_text (jget raw ''stage'') 80 ''unknown'',
              js_progress = progress, js_created = created, js_started = started, js_completed = completed\<rparr>)))
       | _ \<Rightarrow> invalid)"

record job_event =
  je_timestamp :: time
  je_stage :: string
  je_message :: string
  je_progress :: "rat option"
  je_step :: "int option"
  je_loss :: "rat option"
  je_elapsed :: "rat option"
  je_vram :: "rat option"

text \<open>A malformed event is skipped; a number out of range of a float raises.\<close>

definition shape_event :: "parsers \<Rightarrow> json \<Rightarrow> py_error + job_event option" where
  "shape_event ps v = (case v of
     JObj d \<Rightarrow>
       try_in (as_nonnegative_float ps (jget d ''progress'')) (\<lambda>p.
       try_in (as_nonnegative_int (jget d ''step'')) (\<lambda>st.
       try_in (as_nonnegative_float ps (jget d ''loss'')) (\<lambda>loss.
       try_in (as_nonnegative_float ps (jget d ''elapsed_seconds'')) (\<lambda>elapsed.
       try_in (as_nonnegative_float ps (jget d ''peak_vram_gib'')) (\<lambda>vram.
         Inr (case ps_dt ps (get_or d ''timestamp'' (jget d ''created_at'')) of
            None \<Rightarrow> None
          | Some t \<Rightarrow> if (case p of None \<Rightarrow> False | Some r \<Rightarrow> 1 < r) then None
              else Some \<lparr>je_timestamp = t, je_stage = safe_text (jget d ''stage'') 80 ''update'',
                je_message = safe_text (jget d ''message'') 240 ''Progress update'', je_progress = p, je_step = st,
                je_loss = loss, je_elapsed = elapsed, je_vram = vram\<rparr>))))))
   | _ \<Rightarrow> Inr None)"

record job_result =
  jr_proof :: "artifact_meta option"
  jr_base :: "string option"
  jr_tuned :: "string option"

definition shape_result :: "parsers \<Rightarrow> tune_kind \<Rightarrow> json \<Rightarrow> py_error + job_result option" where
  "shape_result ps kind v = (case v of
     JObj d \<Rightarrow> (case kind of
        Train_smoke \<Rightarrow>
          try_in (shape_artifact ps (get_or d ''training_proof'' (get_or d ''artifact'' v))) (\<lambda>proof. Inr (case proof of
            None \<Rightarrow> None
          | Some a \<Rightarrow> Some \<lparr>jr_proof = Some (a\<lparr>am_profile := Some Smoke\<rparr>), jr_base = None, jr_tuned = None\<rparr>))
      | Infer_live \<Rightarrow>
          (let p = (case jget d ''predictions'' of JArr (JObj first # _) \<Rightarrow> first | _ \<Rightarrow> d) in
           Inr (Some \<lparr>jr_proof = None, jr_base = safe_optional_text (get_or p ''base_output'' (jget p ''base'')) 2000,
             jr_tuned = safe_optional_text (get_or p ''tuned_output'' (jget p ''tuned'')) 2000\<rparr>)))
   | _ \<Rightarrow> Inr None)"

section \<open>Held-out samples\<close>

record heldout_sample =
  hs_id :: string
  hs_language :: string
  hs_target :: string
  hs_audio :: bool

text \<open>The loop stops once \<open>limit\<close> samples are found; at least one is kept.\<close>

fun heldout_from :: "nat \<Rightarrow> heldout_sample list \<Rightarrow> json list \<Rightarrow> heldout_sample list" where
  "heldout_from limit acc [] = acc"
| "heldout_from limit acc (row # rows) = (case row of
     JObj d \<Rightarrow> (case jget d ''sample_id'' of
       JStr i \<Rightarrow>
        (if jget d ''approved'' = JBool True \<and> i \<notin> set (map hs_id acc) \<and> sample_id_ok i then
           (let acc' = acc @ [\<lparr>hs_id = i,
                hs_language = safe_text (get_or d ''native_language'' (jget d ''native_lang_tag'')) 80 ''Unknown'',
                hs_target = safe_text (jget d ''target'') 500 ''[redacted]'', hs_audio = truthy (jget d ''audio_name'')\<rparr>] in
            if limit \<le> length acc' then acc' else heldout_from limit acc' rows)
         else heldout_from limit acc rows)
     | _ \<Rightarrow> heldout_from limit acc rows)
   | _ \<Rightarrow> heldout_from limit acc rows)"

definition heldout_samples :: "nat \<Rightarrow> json \<Rightarrow> heldout_sample list" where
  "heldout_samples limit v = (case v of JArr rows \<Rightarrow> heldout_from limit [] rows | _ \<Rightarrow> [])"

record heldout_comparison =
  hc_id :: string
  hc_target :: string
  hc_base :: string
  hc_tuned :: string

text \<open>A row that shapes to an approved comparison; an id that cannot be hashed raises.\<close>

definition comparison_row ::
  "(string, string) dict \<Rightarrow> (string \<times> json) list \<Rightarrow> py_error + heldout_comparison option" where
  "comparison_row approved d = (case get_or d ''sample_id'' (jget d ''utterance_id'') of
     JStr i \<Rightarrow> (case map_of approved i of
        None \<Rightarrow> Inr None
      | Some expected \<Rightarrow>
         (let target = safe_text (jget d ''target'') 500 ''[redacted]'';
              base = safe_text (get_or d ''base_output'' (jget d ''base'')) 2000 ''[redacted]'';
              tuned = safe_text (get_or d ''tuned_output'' (jget d ''tuned'')) 2000 ''[redacted]'' in
          Inr (if target \<noteq> expected \<or> ''[redacted]'' \<in> {target, base, tuned} then None
               else Some \<lparr>hc_id = i, hc_target = target, hc_base = base, hc_tuned = tuned\<rparr>)))
   | JArr _ \<Rightarrow> Inl (TypeError ''unhashable type'')
   | JObj _ \<Rightarrow> Inl (TypeError ''unhashable type'')
   | _ \<Rightarrow> Inr None)"

fun comparisons_from ::
  "nat \<Rightarrow> (string, string) dict \<Rightarrow> heldout_comparison list \<Rightarrow> json list \<Rightarrow> py_error + heldout_comparison list" where
  "comparisons_from limit approved acc [] = Inr acc"
| "comparisons_from limit approved acc (row # rows) = (case row of
     JObj d \<Rightarrow>
       (if jget d ''approved'' \<noteq> JBool True then comparisons_from limit approved acc rows
        else try_in (comparison_row approved d) (\<lambda>r. case r of
          None \<Rightarrow> comparisons_from limit approved acc rows
        | Some c \<Rightarrow> if limit \<le> Suc (length acc) then Inr (acc @ [c]) else comparisons_from limit approved (acc @ [c]) rows))
   | _ \<Rightarrow> comparisons_from limit approved acc rows)"

definition heldout_comparisons :: "nat \<Rightarrow> heldout_sample list \<Rightarrow> json \<Rightarrow> py_error + heldout_comparison list" where
  "heldout_comparisons limit samples v = (case v of
     JArr rows \<Rightarrow> comparisons_from limit (map (\<lambda>s. (hs_id s, hs_target s)) samples) [] rows
   | _ \<Rightarrow> Inr [])"

section \<open>Overview\<close>

record tune_overview =
  ov_supervisor :: supervisor_meta
  ov_corpus :: corpus_meta
  ov_smoke :: "artifact_meta option"
  ov_full :: "artifact_meta option"
  ov_full_ready :: bool
  ov_reason :: "string option"
  ov_current :: "job_summary option"
  ov_samples :: "heldout_sample list"
  ov_comparisons :: "heldout_comparison list"

definition no_supervisor :: supervisor_meta where
  "no_supervisor = \<lparr>sv_healthy = False, sv_stale = True, sv_status = ''unavailable'', sv_heartbeat = None, sv_message = None\<rparr>"

definition empty_corpus :: corpus_meta where
  "empty_corpus = \<lparr>cm_ready = False, cm_status = ''unavailable'', cm_input_mode = None, cm_model_id = None,
     cm_counts = \<lparr>sc_total = 0, sc_train = 0, sc_holdout = 0\<rparr>, cm_languages = [], cm_source_hash = None, cm_manifest_hash = None\<rparr>"

definition full_artifact_ready :: "corpus_meta \<Rightarrow> artifact_meta option \<Rightarrow> bool" where
  "full_artifact_ready corpus artifact = (case artifact of
     None \<Rightarrow> False
   | Some a \<Rightarrow> cm_ready corpus \<and> am_available a \<and> am_compatible a \<and> am_status a = ''completed'' \<and> am_profile a = Some Full
       \<and> am_model_id a \<noteq> None \<and> am_model_id a = cm_model_id corpus
       \<and> am_source_hash a \<noteq> None \<and> am_source_hash a = cm_source_hash corpus \<and> am_adapter_hash a \<noteq> None)"

definition readiness_reason :: "supervisor_meta \<Rightarrow> corpus_meta \<Rightarrow> bool \<Rightarrow> heldout_comparison list \<Rightarrow> string option" where
  "readiness_reason sv corpus artifact_ready comparisons =
     (if \<not> sv_healthy sv then Some ''Local GPU supervisor is unavailable''
      else if \<not> cm_ready corpus then Some ''Frozen tuning corpus is unavailable''
      else if \<not> artifact_ready then Some ''Compatible full adapter is unavailable''
      else if comparisons = [] then Some ''No approved qualitative comparison is available'' else None)"

definition supervisor_raw :: "(string \<times> json) list \<Rightarrow> json" where
  "supervisor_raw raw = (case jget raw ''supervisor'' of
     JObj d \<Rightarrow> JObj d
   | v \<Rightarrow> if jget raw ''updated_at'' \<noteq> JNull
       then JObj [(''status'', JStr ''ready''), (''heartbeat_at'', jget raw ''updated_at'')] else v)"

definition full_raw :: "(string \<times> json) list \<Rightarrow> json" where
  "full_raw raw = (case (jget raw ''full_artifact'', jget raw ''artifact'') of
     (JObj d, _) \<Rightarrow> JObj d
   | (v, JObj a) \<Rightarrow> (let training = as_dict (jget raw ''training'') in
       JObj (fold (\<lambda>(k, x) d. AList.update k x d)
         [(''training'', jget raw ''training''), (''profile'', jget training ''profile''), (''input_mode'', jget training ''input_mode''),
          (''duration_seconds'', jget training ''duration_seconds''), (''peak_vram_gib'', jget training ''peak_vram_gib''),
          (''available'', JBool (jget a ''status'' = JStr ''completed'')),
          (''compatible'', get_or a ''compatible'' (JBool False))] a))
   | (v, _) \<Rightarrow> v)"

definition opt_summary :: "parsers \<Rightarrow> json \<Rightarrow> py_error + job_summary option" where
  "opt_summary ps v = (if v = JNull then Inr None else try_in (shape_summary ps (as_dict v)) (\<lambda>j. Inr (Some j)))"

text \<open>\<open>active_raw or raw.get("current_job")\<close>.\<close>

definition current_raw :: "(string \<times> json) list option \<Rightarrow> (string \<times> json) list \<Rightarrow> json" where
  "current_raw active raw = (case active of
     None \<Rightarrow> jget raw ''current_job'' | Some d \<Rightarrow> if d = [] then jget raw ''current_job'' else JObj d)"

definition shape_overview ::
  "tune_config \<Rightarrow> parsers \<Rightarrow> time \<Rightarrow> (string \<times> json) list option \<Rightarrow> (string \<times> json) list \<Rightarrow> py_error + tune_overview" where
  "shape_overview cfg ps now active raw =
     (let sv = shape_supervisor ps now (tc_heartbeat_stale cfg) (supervisor_raw raw) in
      try_in (shape_corpus (get_or raw ''corpus'' (jget raw ''dataset''))) (\<lambda>corpus.
      try_in (shape_artifact ps (jget raw ''smoke_artifact'')) (\<lambda>smoke.
      try_in (shape_artifact ps (full_raw raw)) (\<lambda>full.
      try_in (opt_summary ps (current_raw active raw)) (\<lambda>current.
      (let samples = heldout_samples (tc_max_samples cfg) (jget raw ''heldout_samples''); ready = full_artifact_ready corpus full in
      try_in (heldout_comparisons (tc_max_samples cfg) samples (jget raw ''heldout_comparisons'')) (\<lambda>comparisons.
       if 20 < length samples \<or> (ready \<and> 20 < length comparisons) then invalid
       else Inr \<lparr>ov_supervisor = sv, ov_corpus = corpus, ov_smoke = smoke, ov_full = full,
         ov_full_ready = (ready \<and> comparisons \<noteq> []), ov_reason = readiness_reason sv corpus ready comparisons,
         ov_current = current, ov_samples = samples,
         ov_comparisons = (if ready \<and> comparisons \<noteq> [] then comparisons else [])\<rparr>)))))))"

definition opt_json :: "(string \<times> json) list option \<Rightarrow> json" where
  "opt_json v = (case v of None \<Rightarrow> JNull | Some d \<Rightarrow> JObj d)"

definition unpublished_overview :: "parsers \<Rightarrow> (string \<times> json) list option \<Rightarrow> py_error + tune_overview" where
  "unpublished_overview ps active =
     try_in (opt_summary ps (opt_json active)) (\<lambda>current.
       Inr \<lparr>ov_supervisor = no_supervisor, ov_corpus = empty_corpus, ov_smoke = None, ov_full = None, ov_full_ready = False,
         ov_reason = Some ''Tune supervisor has not published readiness'', ov_current = current, ov_samples = [],
         ov_comparisons = []\<rparr>)"

text \<open>\<open>except (TuneAdminRepositoryError, ValidationError, TypeError, ValueError)\<close> as a service error.\<close>

definition malformed :: "string \<Rightarrow> py_error \<Rightarrow> py_error" where
  "malformed detail e = (case e of ValueError _ \<Rightarrow> AdminError 503 detail | TypeError _ \<Rightarrow> AdminError 503 detail | _ \<Rightarrow> e)"

definition repo_malformed :: "string \<Rightarrow> repo_error \<Rightarrow> py_error" where
  "repo_malformed detail e = (case e of Uncaught err \<Rightarrow> malformed detail err | _ \<Rightarrow> AdminError 503 detail)"

definition overview :: "tune_config \<Rightarrow> parsers \<Rightarrow> time \<Rightarrow> tune_fs \<Rightarrow> py_error + tune_overview" where
  "overview cfg ps now fs =
     (case read_overview fs of
        Inl e \<Rightarrow> Inl (repo_malformed ''Tune runtime metadata is unavailable'' e)
      | Inr raw \<Rightarrow> (case read_active_job fs of
          Inl e \<Rightarrow> Inl (repo_malformed ''Tune runtime metadata is unavailable'' e)
        | Inr active \<Rightarrow> (case (case raw of None \<Rightarrow> unpublished_overview ps active | Some d \<Rightarrow> shape_overview cfg ps now active d) of
            Inl e \<Rightarrow> Inl (malformed ''Tune runtime metadata is unavailable'' e)
          | Inr ov \<Rightarrow> Inr ov)))"

section \<open>Requests\<close>

text \<open>What a request draws from its surroundings: clocks, a new identifier, which writes succeed.\<close>

record admin_env =
  ae_now :: time
  ae_iso :: string
  ae_mtime :: rat
  ae_uuid :: uuid
  ae_job_written :: bool
  ae_request_written :: bool
  ae_upload_written :: bool

definition request_doc :: "admin_env \<Rightarrow> tune_kind \<Rightarrow> (string \<times> json) list \<Rightarrow> (string \<times> json) list" where
  "request_doc ae kind extra = [(''job_id'', JStr (uuid_str (ae_uuid ae))), (''kind'', JStr (kind_text kind)),
     (''created_at'', JStr (ae_iso ae))] @ extra"

definition queued_doc :: "admin_env \<Rightarrow> tune_kind \<Rightarrow> (string \<times> json) list" where
  "queued_doc ae kind = [(''job_id'', JStr (uuid_str (ae_uuid ae))), (''kind'', JStr (kind_text kind)),
     (''status'', JStr ''queued''), (''stage'', JStr ''queued''), (''progress'', JFloat (Fin 0)), (''events'', JArr []),
     (''result'', JNull), (''failure_reason'', JNull), (''created_at'', JStr (ae_iso ae)), (''started_at'', JNull),
     (''completed_at'', JNull)]"

definition enqueue_job ::
  "tune_config \<Rightarrow> admin_env \<Rightarrow> tune_kind \<Rightarrow> (string \<times> json) list \<Rightarrow> (tune_fs, uuid) act" where
  "enqueue_job cfg ae kind extra fs =
     (let (res, fs') = enqueue (tc_lock_stale cfg) (ae_job_written ae) (ae_request_written ae) (uuid_str (ae_uuid ae))
            (ae_mtime ae) (request_doc ae kind extra) (queued_doc ae kind) fs in
      (case res of
         Inl Busy \<Rightarrow> Inl (AdminError 409 ''A tune GPU job is already active'')
       | Inl Unavailable \<Rightarrow> Inl (AdminError 503 ''Tune runtime storage is unavailable'')
       | Inl (Uncaught e) \<Rightarrow> Inl e
       | Inr _ \<Rightarrow> Inr (ae_uuid ae), fs'))"

definition start_smoke_training :: "tune_config \<Rightarrow> parsers \<Rightarrow> admin_env \<Rightarrow> (tune_fs, uuid) act" where
  "start_smoke_training cfg ps ae fs =
     (case overview cfg ps (ae_now ae) fs of
        Inl e \<Rightarrow> (Inl e, fs)
      | Inr ov \<Rightarrow>
         (if \<not> sv_healthy (ov_supervisor ov) then (Inl (AdminError 503 ''Local GPU supervisor is unavailable''), fs)
          else if \<not> cm_ready (ov_corpus ov) then (Inl (AdminError 503 ''Frozen tuning corpus is unavailable''), fs)
          else enqueue_job cfg ae Train_smoke [] fs))"

definition media_type :: "string \<Rightarrow> string" where
  "media_type content_type = py_lower (strip (takeWhile (\<lambda>c. c \<noteq> CHR '';'') content_type))"

text \<open>The upload is removed again for the service's and the repository's errors, not for others.\<close>

definition stage_and_enqueue ::
  "tune_config \<Rightarrow> admin_env \<Rightarrow> bytes \<Rightarrow> string \<Rightarrow> string \<Rightarrow> (tune_fs, uuid) act" where
  "stage_and_enqueue cfg ae audio upload language fs =
     (case stage_upload (ae_upload_written ae) upload (ae_mtime ae) audio fs of
        (Inl _, fs1) \<Rightarrow> (Inl (AdminError 503 ''Tune runtime storage is unavailable''), remove_upload upload fs1)
      | (Inr _, fs1) \<Rightarrow>
         (case enqueue_job cfg ae Infer_live [(''upload_name'', JStr upload), (''native_language'', JStr language)] fs1 of
            (Inl (AdminError c d), fs2) \<Rightarrow> (Inl (AdminError c d), remove_upload upload fs2)
          | (res, fs2) \<Rightarrow> (res, fs2)))"

definition start_live_inference ::
  "tune_config \<Rightarrow> parsers \<Rightarrow> admin_env \<Rightarrow> bytes \<Rightarrow> string \<Rightarrow> string \<Rightarrow> (tune_fs, uuid) act" where
  "start_live_inference cfg ps ae audio content_type native_language fs =
     (let mtype = media_type content_type; language = single_line native_language in
      if mtype \<notin> set (tc_allowed_types cfg) then (Inl (AdminError 415 ''Unsupported audio content type''), fs)
      else if audio = [] then (Inl (AdminError 400 ''Audio upload is empty''), fs)
      else if tc_max_upload_bytes cfg < length audio then (Inl (AdminError 413 ''Audio upload exceeds configured limit''), fs)
      else if language = [] \<or> tc_max_language cfg < length language \<or> \<not> language_ok language
      then (Inl (AdminError 422 ''native_language is invalid''), fs)
      else (case overview cfg ps (ae_now ae) fs of
        Inl e \<Rightarrow> (Inl e, fs)
      | Inr ov \<Rightarrow>
         (if \<not> sv_healthy (ov_supervisor ov) then (Inl (AdminError 503 ''Local GPU supervisor is unavailable''), fs)
          else if \<not> ov_full_ready ov
          then (Inl (AdminError 503 (case ov_reason ov of None \<Rightarrow> ''Tuned inference is unavailable'' | Some r \<Rightarrow> r)), fs)
          else stage_and_enqueue cfg ae audio (uuid_str (ae_uuid ae) @ extension_for cfg mtype) language fs)))"

section \<open>Jobs and audio\<close>

record job_detail =
  jd_summary :: job_summary
  jd_events :: "job_event list"
  jd_result :: "job_result option"
  jd_failure :: "string option"

fun shape_event_list :: "parsers \<Rightarrow> json list \<Rightarrow> py_error + job_event list" where
  "shape_event_list ps [] = Inr []"
| "shape_event_list ps (v # vs) = try_in (shape_event ps v) (\<lambda>e. try_in (shape_event_list ps vs) (\<lambda>es.
     Inr (case e of None \<Rightarrow> es | Some x \<Rightarrow> x # es)))"

definition shape_detail :: "tune_config \<Rightarrow> parsers \<Rightarrow> uuid \<Rightarrow> (string \<times> json) list \<Rightarrow> py_error + job_detail" where
  "shape_detail cfg ps u raw =
     try_in (shape_summary ps raw) (\<lambda>summary.
       if js_job_id summary \<noteq> u then Inl (ValueError ''job identifier mismatch'')
       else try_in (case jget raw ''events'' of JArr vs \<Rightarrow> shape_event_list ps vs | _ \<Rightarrow> Inr []) (\<lambda>events.
            try_in (shape_result ps (js_kind summary) (jget raw ''result'')) (\<lambda>result.
            (let shown = last_n (tc_max_events cfg) events in
             if 200 < length shown then invalid
             else Inr \<lparr>jd_summary = summary, jd_events = shown, jd_result = result,
               jd_failure = (if js_status summary = Tune_failed then Some (safe_text (jget raw ''failure_reason'') 240 ''Tune job failed'')
                 else None)\<rparr>))))"

definition get_job :: "tune_config \<Rightarrow> parsers \<Rightarrow> uuid \<Rightarrow> tune_fs \<Rightarrow> py_error + job_detail" where
  "get_job cfg ps u fs =
     (case read_job u fs of
        Inl e \<Rightarrow> Inl (repo_malformed ''Tune job status is unavailable'' e)
      | Inr None \<Rightarrow> Inl (AdminError 404 ''Tune job not found'')
      | Inr (Some raw) \<Rightarrow> (case shape_detail cfg ps u raw of
          Inl e \<Rightarrow> Inl (malformed ''Tune job status is unavailable'' e) | Inr d \<Rightarrow> Inr d))"

definition get_sample_audio :: "string \<Rightarrow> tune_fs \<Rightarrow> py_error + string" where
  "get_sample_audio i fs =
     (case resolve_published_audio i fs of
        Inl (Uncaught e) \<Rightarrow> Inl e
      | Inl _ \<Rightarrow> Inl (AdminError 503 ''Held-out audio is unavailable'')
      | Inr None \<Rightarrow> Inl (AdminError 404 ''Held-out sample audio not found'')
      | Inr (Some path) \<Rightarrow> Inr path)"

end
