(* ===== verification/Tune_Names.thy ===== *)
theory Tune_Names
  imports Tune_Supervisor Tune_Admin
begin

text \<open>
  Laws of names and texts: the names a queue file goes through, that a supervisor reads back the
  identifiers and languages the API writes, and the words of a single line.
\<close>

section \<open>Suffixes\<close>

lemma ends_with_iff: "ends_with suf s \<longleftrightarrow> (\<exists>p. s = p @ suf)"
proof
  assume "ends_with suf s"
  then have "s = take (length s - length suf) s @ suf"
    unfolding ends_with_def by (metis append_take_drop_id)
  then show "\<exists>p. s = p @ suf" by blast
qed (auto simp: ends_with_def)

lemma ends_with_append [simp]: "ends_with suf (p @ suf)"
  by (auto simp: ends_with_iff)

lemma remove_suffix_append [simp]: "suf \<noteq> [] \<Longrightarrow> remove_suffix suf (p @ suf) = p"
  by (simp add: remove_suffix_def)

lemma remove_suffix_other: "\<not> ends_with suf s \<Longrightarrow> remove_suffix suf s = s"
  by (simp add: remove_suffix_def)

text \<open>The name of a queue file of job \<open>i\<close> that has been claimed \<open>k\<close> times.\<close>

definition queue_name :: "string \<Rightarrow> nat \<Rightarrow> string" where
  "queue_name i k = i @ concat (replicate k ''.processing'') @ ''.json''"

definition plain_id :: "string \<Rightarrow> bool" where
  "plain_id i \<longleftrightarrow> CHR ''.'' \<notin> set i"

lemma queue_name_0: "queue_name i 0 = json_file i"
  by (simp add: queue_name_def json_file_def)

lemma concat_replicate_snoc: "concat (replicate (Suc k) xs) = concat (replicate k xs) @ xs"
  by (induction k) simp_all

lemma queue_name_Suc: "queue_name i (Suc k) = i @ concat (replicate k ''.processing'') @ ''.processing.json''"
  by (simp only: queue_name_def concat_replicate_snoc) simp

lemma processing_queue_name: "processing_name (queue_name i k) = queue_name i (Suc k)"
proof -
  have "queue_name i k = (i @ concat (replicate k ''.processing'')) @ ''.json''" by (simp add: queue_name_def)
  then have "remove_suffix ''.json'' (queue_name i k) = i @ concat (replicate k ''.processing'')"
    by (metis remove_suffix_append list.distinct(1))
  then show ?thesis unfolding processing_name_def queue_name_Suc by simp
qed

lemma json_queue_name: "json_name (queue_name i k)"
  using ends_with_append [of "''.json''" "i @ concat (replicate k ''.processing'')"]
  by (simp add: json_name_def queue_name_def)

lemma last_processing: "concat (replicate k ''.processing'') = [] \<or> last (concat (replicate k ''.processing'')) = CHR ''g''"
  by (cases k) (simp_all only: concat_replicate_snoc, simp_all)

lemma processing_queue_iff: "plain_id i \<Longrightarrow> ends_with ''.processing.json'' (queue_name i k) \<longleftrightarrow> 0 < k"
proof (cases k)
  case 0
  assume i: "plain_id i"
  have "\<not> ends_with ''.processing.json'' (i @ ''.json'')"
  proof
    assume "ends_with ''.processing.json'' (i @ ''.json'')"
    then obtain p where "i @ ''.json'' = (p @ ''.processing'') @ ''.json''" by (auto simp: ends_with_iff)
    then have "i = p @ ''.processing''" by (simp only: append_same_eq)
    then show False using i by (simp add: plain_id_def)
  qed
  then show ?thesis using 0 by (simp add: queue_name_0 json_file_def)
next
  case (Suc n)
  have "ends_with ''.processing.json'' (queue_name i (Suc n))"
    unfolding queue_name_Suc append_assoc [symmetric] by (rule ends_with_append)
  then show ?thesis using Suc by simp
qed

lemma take_plain: "plain_id i \<Longrightarrow> takeWhile (\<lambda>c. c \<noteq> CHR ''.'') (i @ CHR ''.'' # s) = i"
  by (induction i) (auto simp: plain_id_def)

lemma plain_append_eq:
  assumes "plain_id i" "plain_id j" "i @ CHR ''.'' # s = j @ CHR ''.'' # t"
  shows "i = j" "s = t"
proof -
  show "i = j" using take_plain [OF assms(1)] take_plain [OF assms(2)] assms(3) by metis
  then show "s = t" using assms(3) by simp
qed

lemma queue_name_dot: "\<exists>s. queue_name i k = i @ CHR ''.'' # s \<and> length s = 4 + 11 * k"
proof (cases k)
  case (Suc n)
  have "length (concat (replicate n ''.processing'')) = 11 * n" by (induction n) simp_all
  then show ?thesis using Suc by (simp add: queue_name_def)
qed (simp add: queue_name_def)

lemma queue_name_inj:
  assumes "plain_id i" "plain_id j" "queue_name i k = queue_name j l"
  shows "i = j \<and> k = l"
proof -
  obtain s t where s: "queue_name i k = i @ CHR ''.'' # s" "length s = 4 + 11 * k"
    and t: "queue_name j l = j @ CHR ''.'' # t" "length t = 4 + 11 * l" using queue_name_dot by blast
  have "i @ CHR ''.'' # s = j @ CHR ''.'' # t" using assms(3) s(1) t(1) by simp
  from plain_append_eq [OF assms(1,2) this] show ?thesis using s(2) t(2) by simp
qed

lemma replace_at_plain: "CHR ''.'' \<noteq> c \<Longrightarrow> \<not> replace_at ''.processing.json'' new (c # cs)"
  by (simp add: replace_at_def)

lemma py_replace_plain:
  "plain_id i \<Longrightarrow> py_replace ''.processing.json'' new (i @ s) = i @ py_replace ''.processing.json'' new s"
proof (induction i)
  case (Cons c i)
  then have "CHR ''.'' \<noteq> c" "plain_id i" by (simp_all add: plain_id_def)
  then show ?case using Cons.IH replace_at_plain [of c new "i @ s"] by simp
qed simp

lemma py_replace_id: "plain_id s \<Longrightarrow> py_replace ''.processing.json'' new s = s"
  using py_replace_plain [of s new "[]"] by simp

lemma not_here:
  "\<not> replace_at ''.processing.json'' ''.json'' (''.processing'' @ concat (replicate k ''.processing'') @ ''.processing.json'')"
  by (cases k) (simp_all add: replace_at_def)

lemma py_replace_queue:
  "py_replace ''.processing.json'' ''.json'' (concat (replicate k ''.processing'') @ ''.processing.json'')
     = concat (replicate k ''.processing'') @ ''.json''"
proof (induction k)
  case 0
  show ?case by (simp add: replace_at_def)
next
  case (Suc k)
  let ?rest = "concat (replicate k ''.processing'') @ ''.processing.json''"
  have "py_replace ''.processing.json'' ''.json'' (CHR ''.'' # (''processing'' @ ?rest))
      = CHR ''.'' # py_replace ''.processing.json'' ''.json'' (''processing'' @ ?rest)"
    using not_here [of k] by (simp del: replicate.simps)
  also have "py_replace ''.processing.json'' ''.json'' (''processing'' @ ?rest)
      = ''processing'' @ py_replace ''.processing.json'' ''.json'' ?rest"
    by (rule py_replace_plain) (simp add: plain_id_def)
  finally show ?case using Suc by simp
qed

lemma recover_queue_name: "plain_id i \<Longrightarrow> py_replace ''.processing.json'' ''.json'' (queue_name i (Suc k)) = queue_name i k"
  by (simp only: queue_name_Suc py_replace_plain py_replace_queue) (simp add: queue_name_def)

lemma last_json: "ends_with ''.json'' s \<Longrightarrow> last s = CHR ''n''"
  by (auto simp: ends_with_iff)

lemma strip_queue_name:
  "remove_suffix ''.processing.json'' (queue_name i (Suc k)) = i @ concat (replicate k ''.processing'')"
proof -
  have "queue_name i (Suc k) = (i @ concat (replicate k ''.processing'')) @ ''.processing.json''"
    by (simp only: queue_name_Suc append_assoc)
  then show ?thesis by (metis remove_suffix_append list.distinct(1))
qed

text \<open>The identifier in a claimed name; from the second claim on it has a dot.\<close>

lemma claimed_id_queue:
  assumes "plain_id i"
  shows "claimed_id (queue_name i 0) = i"
    "claimed_id (queue_name i (Suc k)) = i @ concat (replicate k ''.processing'')"
proof -
  have no: "\<not> ends_with ''.processing.json'' (i @ ''.json'')"
    using processing_queue_iff [OF assms, of 0] by (simp add: queue_name_0 json_file_def)
  show "claimed_id (queue_name i 0) = i"
    by (simp add: claimed_id_def queue_name_0 json_file_def remove_suffix_other [OF no])
  have "\<not> ends_with ''.json'' (i @ concat (replicate k ''.processing''))"
  proof (cases k)
    case 0
    then show ?thesis using assms by (auto simp: ends_with_iff plain_id_def)
  next
    case (Suc m)
    have "last (i @ concat (replicate (Suc m) ''.processing'')) = CHR ''g''" unfolding concat_replicate_snoc by simp
    then show ?thesis using last_json [of "i @ concat (replicate (Suc m) ''.processing'')"] Suc by fastforce
  qed
  then show "claimed_id (queue_name i (Suc k)) = i @ concat (replicate k ''.processing'')"
    unfolding claimed_id_def strip_queue_name by (rule remove_suffix_other)
qed

lemma dotted_not_job_id: "CHR ''.'' \<in> set s \<Longrightarrow> \<not> job_id_ok s"
proof
  assume dot: "CHR ''.'' \<in> set s" and ok: "job_id_ok s"
  have no: "\<not> ident_char (CHR ''.'')" "\<not> alnum_ascii (CHR ''.'')" by code_simp+
  from dot obtain c cs where s: "s = c # cs" by (cases s) auto
  with ok have "alnum_ascii c" "list_all ident_char cs" by (simp_all add: job_id_ok_def ident_def)
  with dot s no show False by (auto simp: list_all_iff)
qed

lemma twice_claimed_not_ok:
  "0 < k \<Longrightarrow> \<not> job_id_ok (i @ concat (replicate k ''.processing''))"
  by (rule dotted_not_job_id, cases k) simp_all

section \<open>Words of a line\<close>

lemma words_from_plain: "\<forall>c \<in> set w. \<not> py_space c \<Longrightarrow> words_from a (w @ s) = words_from (rev w @ a) s"
  by (induction w arbitrary: a) auto

definition plain_words :: "string list \<Rightarrow> bool" where
  "plain_words ws \<longleftrightarrow> (\<forall>w \<in> set ws. w \<noteq> [] \<and> (\<forall>c \<in> set w. \<not> py_space c))"

lemma words_from_words: "\<forall>c \<in> set a. \<not> py_space c \<Longrightarrow> plain_words (words_from a s)"
proof (induction s arbitrary: a)
  case (Cons c s)
  have "plain_words (words_from [] s)" using Cons.IH [of "[]"] by simp
  moreover have "\<not> py_space c \<Longrightarrow> plain_words (words_from (c # a) s)" using Cons.IH [of "c # a"] Cons.prems by simp
  ultimately show ?case using Cons.prems by (simp add: plain_words_def)
qed (simp add: plain_words_def)

lemma py_space_blank: "py_space CHR '' ''"
  by code_simp

lemma words_from_join: "plain_words ws \<Longrightarrow> words_from [] (join_with '' '' ws) = ws"
proof (induction "'' ''" ws rule: join_with.induct)
  case (2 s)
  then show ?case using words_from_plain [of s "[]" "[]"] by (simp add: plain_words_def)
next
  case (3 s t ts)
  have "words_from [] (s @ '' '' @ join_with '' '' (t # ts)) = words_from (rev s) ('' '' @ join_with '' '' (t # ts))"
    using 3(2) words_from_plain [of s "[]"] by (simp add: plain_words_def)
  also have "\<dots> = s # words_from [] (join_with '' '' (t # ts))"
    using 3(2) by (simp add: plain_words_def py_space_blank)
  also have "\<dots> = s # t # ts" using 3 by (simp add: plain_words_def)
  finally show ?case by simp
qed simp

lemma single_line_idem: "single_line (single_line s) = single_line s"
  by (simp add: single_line_def py_split_def words_from_join words_from_words)

lemma redact_plain:
  "\<forall>c \<in> set s. c \<noteq> CHR ''/'' \<and> c \<noteq> CHR '':'' \<Longrightarrow> redact_paths prev s = s"
proof (induction s arbitrary: prev)
  case (Cons c s)
  then have "\<not> starts_path prev (c # s)" by (cases s) (auto simp: starts_path_def)
  then show ?case using Cons by simp
qed simp

lemma language_plain:
  assumes "language_ok l" shows "\<forall>c \<in> set l. c \<noteq> CHR ''/'' \<and> c \<noteq> CHR '':''"
proof -
  have "\<not> (word_char (CHR ''/'') \<or> CHR ''/'' \<in> set '' .()-'' \<or> CHR ''/'' = CHR 0x27)"
    "\<not> (word_char (CHR '':'') \<or> CHR '':'' \<in> set '' .()-'' \<or> CHR '':'' = CHR 0x27)" by code_simp+
  then show ?thesis using assms unfolding language_ok_def list_all_iff by metis
qed

text \<open>The language the API accepts is what the supervisor reads.\<close>

lemma bounded_language:
  "language_ok (single_line s) \<Longrightarrow> length (single_line s) \<le> n \<Longrightarrow> bounded_text (single_line s) n = single_line s"
  by (simp add: bounded_text_def single_line_idem redact_plain language_plain)

section \<open>Identifiers the API draws\<close>

definition hex_lower :: "char \<Rightarrow> bool" where
  "hex_lower c \<longleftrightarrow> c \<in> set ''0123456789abcdef''"

lemma hex_char_lower: "d < 16 \<Longrightarrow> hex_lower (hex_char d)"
proof -
  assume "d < 16"
  then have "d \<in> set [0..<16]" by simp
  moreover have "list_all (\<lambda>d. hex_lower (hex_char d)) [0..<16]" by code_simp
  ultimately show ?thesis unfolding list_all_iff by blast
qed

lemma hex_fixed_chars: "c \<in> set (hex_fixed w n) \<Longrightarrow> hex_lower c"
  by (induction w n rule: hex_fixed.induct) (auto intro: hex_char_lower)

lemma hex_fixed_length: "length (hex_fixed w n) = w"
  by (induction w n rule: hex_fixed.induct) auto

lemma hex_lower_facts:
  "hex_lower c \<Longrightarrow> alnum_ascii c" "hex_lower c \<Longrightarrow> hex_digit c" "hex_lower c \<Longrightarrow> c \<noteq> CHR ''.''"
  "hex_lower c \<Longrightarrow> c \<noteq> CHR ''/''" "hex_lower c \<Longrightarrow> c \<noteq> CHR ''-''"
proof -
  have "list_all (\<lambda>c. alnum_ascii c \<and> hex_digit c \<and> c \<notin> set ''./-'') ''0123456789abcdef''" by code_simp
  then have "hex_lower c \<Longrightarrow> alnum_ascii c \<and> hex_digit c \<and> c \<notin> set ''./-''"
    unfolding list_all_iff hex_lower_def by blast
  then show "hex_lower c \<Longrightarrow> alnum_ascii c" "hex_lower c \<Longrightarrow> hex_digit c" "hex_lower c \<Longrightarrow> c \<noteq> CHR ''.''"
    "hex_lower c \<Longrightarrow> c \<noteq> CHR ''/''" "hex_lower c \<Longrightarrow> c \<noteq> CHR ''-''" by auto
qed

lemma uuid_chars: "c \<in> set (uuid_str u) \<Longrightarrow> hex_lower c \<or> c = CHR ''-''"
  by (auto simp: uuid_str_def Let_def dest: in_set_takeD in_set_dropD hex_fixed_chars)

lemma uuid_length: "length (uuid_str u) = 36"
  by (simp add: uuid_str_def Let_def hex_fixed_length)

lemma uuid_hd: "hex_lower (hd (uuid_str u))"
proof -
  obtain c h where h: "hex_fixed 32 u = c # h" using hex_fixed_length [of 32 u] by (cases "hex_fixed 32 u") auto
  then have "hd (uuid_str u) = c" by (simp add: uuid_str_def)
  then show ?thesis using h hex_fixed_chars [of c 32 u] by simp
qed

lemma job_id_uuid: "job_id_ok (uuid_str u)"
proof -
  have "ident_char (CHR ''-'')" by code_simp
  then have "ident_char c" if "c \<in> set (uuid_str u)" for c
    using uuid_chars [OF that] hex_lower_facts(1) [of c] by (auto simp: ident_char_def)
  moreover have "uuid_str u \<noteq> []" using uuid_length [of u] by auto
  ultimately show ?thesis using uuid_length [of u] uuid_hd [of u] hex_lower_facts(1)
    by (auto simp: job_id_ok_def ident_def list_all_iff dest: list.set_sel(2))
qed

lemma plain_id_uuid: "plain_id (uuid_str u)"
proof -
  have "c \<noteq> CHR ''.''" if "c \<in> set (uuid_str u)" for c
    using uuid_chars [OF that] hex_lower_facts(3) [of c] by auto
  then show ?thesis unfolding plain_id_def by blast
qed

lemma filter_hex: "\<forall>c \<in> set h. hex_lower c \<Longrightarrow> filter (\<lambda>c. c \<noteq> CHR ''-'') h = h"
  using hex_lower_facts(5) by (simp add: filter_id_conv)

lemma uuid_text_uuid: "uuid_text (uuid_str u)"
proof -
  let ?h = "hex_fixed 32 u"
  have h: "\<forall>c \<in> set ?h. hex_lower c" using hex_fixed_chars by blast
  then have parts: "\<forall>c \<in> set (take m (drop n ?h)). hex_lower c" "\<forall>c \<in> set (drop n ?h). hex_lower c"
    "\<forall>c \<in> set (take m ?h). hex_lower c" for m n
    by (meson in_set_takeD in_set_dropD)+
  have "filter (\<lambda>c. c \<noteq> CHR ''-'') (uuid_str u)
      = take 8 ?h @ take 4 (drop 8 ?h) @ take 4 (drop 12 ?h) @ take 4 (drop 16 ?h) @ drop 20 ?h"
    unfolding uuid_str_def Let_def
    using filter_hex [OF parts(3)] filter_hex [OF parts(1)] filter_hex [OF parts(2)] by simp
  moreover have "length (take 8 ?h @ take 4 (drop 8 ?h) @ take 4 (drop 12 ?h) @ take 4 (drop 16 ?h) @ drop 20 ?h) = 32"
    by (simp add: hex_fixed_length)
  moreover have "list_all hex_digit (take 8 ?h @ take 4 (drop 8 ?h) @ take 4 (drop 12 ?h) @ take 4 (drop 16 ?h) @ drop 20 ?h)"
    using parts hex_lower_facts(2) by (auto simp: list_all_iff)
  ultimately show ?thesis by (simp add: uuid_text_def Let_def)
qed

lemma uuid_str_filled: "uuid_str u \<noteq> []"
  using uuid_length [of u] by auto

text \<open>The upload name the API builds: identifier and extension.\<close>

lemma path_suffix_plain:
  assumes "plain_id i" "i \<noteq> []" "e \<noteq> []" "plain_id e"
  shows "path_suffix (i @ CHR ''.'' # e) = CHR ''.'' # e"
proof -
  have "takeWhile (\<lambda>c. c \<noteq> CHR ''.'') (rev e @ CHR ''.'' # rev i) = rev e"
    using take_plain [of "rev e" "rev i"] assms(4) by (simp add: plain_id_def)
  then show ?thesis using assms(2,3) by (simp add: path_suffix_def Let_def)
qed

lemma upload_name_uuid:
  assumes "e \<in> set [''flac'', ''wav'', ''webm'', ''ogg'', ''m4a'', ''mp3'']"
  shows "upload_name_ok (uuid_str u @ CHR ''.'' # e)" "path_suffix (uuid_str u @ CHR ''.'' # e) = CHR ''.'' # e"
    "py_lower (CHR ''.'' # e) \<in> set upload_suffixes"
proof -
  have "list_all (\<lambda>e. length e \<le> 4 \<and> e \<noteq> [] \<and> plain_id e \<and> list_all dotted_char e \<and> py_lower (CHR ''.'' # e) \<in> set upload_suffixes)
      [''flac'', ''wav'', ''webm'', ''ogg'', ''m4a'', ''mp3'']" by code_simp
  then have e: "length e \<le> 4" "e \<noteq> []" "plain_id e" "list_all dotted_char e" "py_lower (CHR ''.'' # e) \<in> set upload_suffixes"
    using assms unfolding list_all_iff by blast+
  show "path_suffix (uuid_str u @ CHR ''.'' # e) = CHR ''.'' # e"
    by (rule path_suffix_plain [OF plain_id_uuid uuid_str_filled e(2,3)])
  show "py_lower (CHR ''.'' # e) \<in> set upload_suffixes" by (rule e(5))
  have ch: "dotted_char (CHR ''-'')" "dotted_char (CHR ''.'')" by code_simp+
  then have "dotted_char c" if "c \<in> set (uuid_str u)" for c
    using uuid_chars [OF that] hex_lower_facts(1) [of c] by (auto simp: dotted_char_def ident_char_def)
  then have "\<forall>c \<in> set (uuid_str u @ CHR ''.'' # e). dotted_char c" using e(4) ch by (auto simp: list_all_iff)
  then have "list_all dotted_char (tl (uuid_str u @ CHR ''.'' # e))"
    unfolding list_all_iff using uuid_str_filled [of u] by (meson append_is_Nil_conv list.set_sel(2))
  moreover have "alnum_ascii (hd (uuid_str u @ CHR ''.'' # e))"
    using uuid_str_filled [of u] uuid_hd [of u] hex_lower_facts(1) by (simp add: hd_append)
  ultimately show "upload_name_ok (uuid_str u @ CHR ''.'' # e)"
    using uuid_length [of u] e(1) by (simp add: upload_name_ok_def ident_def)
qed

end
