(* ===== verification/Tune_Life.thy ===== *)
theory Tune_Life
  imports Tune_Names
begin

text \<open>
  The supervisor and the API at work on one runtime directory, in steps as small as the files they
  replace; each of the two may stop between any two steps.  The invariant holds in every reachable
  state; a complete \<open>run_once\<close> and a complete \<open>enqueue\<close> are paths of steps.
\<close>

section \<open>Dictionaries of files\<close>

lemma set_update: "x \<in> set (AList.update k v d) \<Longrightarrow> x = (k, v) \<or> x \<in> set d"
  by (induction d) (auto split: if_splits)

lemma set_delete: "x \<in> set (AList.delete k d) \<Longrightarrow> x \<in> set d"
  by (auto simp: AList.delete_eq)

lemma map_of_move:
  "map_of d a = Some f \<Longrightarrow> map_of (move_file a b d) = ((map_of d)(a := None))(b \<mapsto> f)"
  by (simp add: move_file_def map_of_update map_of_delete)

lemma json_file_inj [simp]: "json_file i = json_file j \<longleftrightarrow> i = j"
  by (simp add: json_file_def)

lemma json_name_json_file [simp]: "json_name (json_file i)"
  using ends_with_append [of "''.json''" i] by (simp add: json_name_def json_file_def)

lemma stem_json_file [simp]: "stem (json_file i) = i"
  using remove_suffix_append [of "''.json''" i] by (simp add: stem_def json_file_def)

section \<open>Active jobs\<close>

definition job_active :: "tune_fs \<Rightarrow> string \<Rightarrow> bool" where
  "job_active fs i = (case map_of (fs_jobs fs) (json_file i) of
     None \<Rightarrow> False
   | Some f \<Rightarrow> (case file_object f of None \<Rightarrow> False | Some d \<Rightarrow> status_active d = Inr True))"

text \<open>Every job file is named after a job and holds one of the four states.\<close>

definition job_file_ok :: "string \<times> tune_file \<Rightarrow> bool" where
  "job_file_ok e \<longleftrightarrow> (\<exists>i d st. fst e = json_file i \<and> file_object (snd e) = Some d
     \<and> jget d ''status'' = JStr (status_text st))"

definition tune_jobs_ok :: "tune_fs \<Rightarrow> bool" where
  "tune_jobs_ok fs \<longleftrightarrow> distinct (map fst (fs_jobs fs)) \<and> (\<forall>e \<in> set (fs_jobs fs). job_file_ok e)"

lemma status_active_text: "jget d ''status'' = JStr (status_text st) \<Longrightarrow> status_active d = Inr (st = Tune_queued \<or> st = Tune_running)"
  by (cases st) (simp_all add: status_active_def)

lemma scan_none:
  "scan_active fl = Inr None \<Longrightarrow> (n, f) \<in> set fl \<Longrightarrow> uuid_text (stem n) \<Longrightarrow> file_object f = Some d \<Longrightarrow> status_active d \<noteq> Inr True"
proof (induction fl)
  case (Cons e fl)
  obtain m g where e: "e = (m, g)" by fastforce
  show ?case
  proof (cases "uuid_text (stem m)")
    case False
    then show ?thesis using Cons e by auto
  next
    case True
    then obtain d' where d': "file_object g = Some d'" using Cons.prems(1) e by (cases "file_object g") simp_all
    then obtain b where b: "status_active d' = Inr b" using Cons.prems(1) e True by (cases "status_active d'") simp_all
    then have "\<not> b" "scan_active fl = Inr None" using Cons.prems(1) e True d' by (cases b; simp)+
    then show ?thesis using Cons e d' b by auto
  qed
qed simp

lemma scan_some:
  "\<forall>e \<in> set fl. job_file_ok e \<Longrightarrow> (n, f) \<in> set fl \<Longrightarrow> uuid_text (stem n) \<Longrightarrow> file_object f = Some d
    \<Longrightarrow> status_active d = Inr True \<Longrightarrow> \<exists>d'. scan_active fl = Inr (Some d')"
proof (induction fl)
  case (Cons e fl)
  obtain m g where e: "e = (m, g)" by fastforce
  have "job_file_ok (m, g)" using Cons.prems(1) e by simp
  then obtain d' st where g: "file_object g = Some d'" "jget d' ''status'' = JStr (status_text st)"
    unfolding job_file_ok_def by auto
  note act = status_active_text [OF g(2)]
  show ?case
  proof (cases "uuid_text (stem m) \<and> (st = Tune_queued \<or> st = Tune_running)")
    case True
    then show ?thesis using e g(1) act by simp
  next
    case False
    then have "(m, g) \<noteq> (n, f)" using Cons.prems(3,4,5) g(1) act by auto
    then have "(n, f) \<in> set fl" using Cons.prems(2) e by auto
    then have "\<exists>d'. scan_active fl = Inr (Some d')" using Cons.IH Cons.prems by simp
    then show ?thesis using e g(1) act False by auto
  qed
qed simp

lemma scan_total: "\<forall>e \<in> set fl. job_file_ok e \<Longrightarrow> \<exists>r. scan_active fl = Inr r"
proof (induction fl)
  case (Cons e fl)
  obtain m g where e: "e = (m, g)" by fastforce
  have "job_file_ok (m, g)" using Cons.prems(1) e by simp
  then obtain d' st where g: "file_object g = Some d'" "jget d' ''status'' = JStr (status_text st)"
    unfolding job_file_ok_def by auto
  have "\<exists>r. scan_active fl = Inr r" using Cons by simp
  moreover obtain b where "status_active d' = Inr b" using status_active_text [OF g(2)] by blast
  ultimately show ?case using e g(1) by (cases b) auto
qed simp

lemma idle_no_active:
  "active_job_exists fs = Inr False \<Longrightarrow> uuid_text i \<Longrightarrow> \<not> job_active fs i"
proof
  assume none: "active_job_exists fs = Inr False" and u: "uuid_text i" and a: "job_active fs i"
  from a obtain f d where f: "map_of (fs_jobs fs) (json_file i) = Some f" "file_object f = Some d" "status_active d = Inr True"
    by (auto simp: job_active_def split: option.splits)
  have "(json_file i, f) \<in> set (job_files fs)" using map_of_SomeD [OF f(1)] by (simp add: job_files_def)
  moreover have "scan_active (job_files fs) = Inr None"
    using none by (auto simp: active_job_exists_def split: sum.splits)
  ultimately show False using scan_none f(2,3) u by fastforce
qed

lemma active_exists:
  assumes "tune_jobs_ok fs"
  shows "active_job_exists fs = Inr True \<or> active_job_exists fs = Inr False"
    "job_active fs i \<Longrightarrow> uuid_text i \<Longrightarrow> active_job_exists fs = Inr True"
proof -
  have ok: "\<forall>e \<in> set (job_files fs). job_file_ok e" using assms by (auto simp: tune_jobs_ok_def job_files_def)
  from scan_total [OF ok] show "active_job_exists fs = Inr True \<or> active_job_exists fs = Inr False"
    by (auto simp: active_job_exists_def)
  assume a: "job_active fs i" and u: "uuid_text i"
  from a obtain f d where f: "map_of (fs_jobs fs) (json_file i) = Some f" "file_object f = Some d" "status_active d = Inr True"
    by (auto simp: job_active_def split: option.splits)
  have "(json_file i, f) \<in> set (job_files fs)" using map_of_SomeD [OF f(1)] by (simp add: job_files_def)
  from scan_some [OF ok this] f(2,3) u show "active_job_exists fs = Inr True" by (auto simp: active_job_exists_def)
qed

lemma scan_found:
  "scan_active fl = Inr (Some d) \<Longrightarrow> \<exists>n f. (n, f) \<in> set fl \<and> file_object f = Some d \<and> status_active d = Inr True"
proof (induction fl)
  case (Cons e fl)
  obtain m g where e: "e = (m, g)" by fastforce
  show ?case
  proof (cases "uuid_text (stem m)")
    case False
    then show ?thesis using Cons e by auto
  next
    case True
    then obtain d' where d': "file_object g = Some d'" using Cons.prems e by (cases "file_object g") simp_all
    then obtain b where b: "status_active d' = Inr b" using Cons.prems e True by (cases "status_active d'") simp_all
    show ?thesis
    proof (cases b)
      case True
      then have "d' = d" using Cons.prems e \<open>uuid_text (stem m)\<close> d' b by simp
      then show ?thesis using e d' b True by auto
    next
      case False
      then have "scan_active fl = Inr (Some d)" using Cons.prems e \<open>uuid_text (stem m)\<close> d' b by simp
      then show ?thesis using Cons.IH by auto
    qed
  qed
qed simp

lemma exists_active:
  assumes "tune_jobs_ok fs" "active_job_exists fs = Inr True"
  shows "\<exists>i. job_active fs i"
proof -
  obtain d where "scan_active (job_files fs) = Inr (Some d)"
    using assms(2) by (auto simp: active_job_exists_def split: sum.splits)
  then obtain n f where f: "(n, f) \<in> set (fs_jobs fs)" "file_object f = Some d" "status_active d = Inr True"
    using scan_found [of "job_files fs"] by (auto simp: job_files_def)
  then obtain i where "n = json_file i" using assms(1) by (fastforce simp: tune_jobs_ok_def job_file_ok_def)
  moreover have "map_of (fs_jobs fs) n = Some f" using f(1) assms(1) by (simp add: tune_jobs_ok_def)
  ultimately have "job_active fs i" using f(2,3) by (simp add: job_active_def)
  then show ?thesis by blast
qed

text \<open>Writing a status.\<close>

lemma job_active_put:
  "job_active (put_job i now doc fs) j = (if j = i then status_active doc = Inr True else job_active fs j)"
  by (simp add: job_active_def put_job_def put_file_def map_of_update file_object_def)

lemma put_job_frame [simp]:
  "fs_requests (put_job i now doc fs) = fs_requests fs" "fs_runs (put_job i now doc fs) = fs_runs fs"
  "fs_uploads (put_job i now doc fs) = fs_uploads fs" "fs_lock (put_job i now doc fs) = fs_lock fs"
  by (simp_all add: put_job_def)

lemma tune_jobs_ok_put: "tune_jobs_ok fs \<Longrightarrow> jget doc ''status'' = JStr (status_text st) \<Longrightarrow> tune_jobs_ok (put_job i now doc fs)"
  unfolding tune_jobs_ok_def put_job_def put_file_def
  by (auto simp: job_file_ok_def file_object_def AList.distinct_update dest!: set_update)

lemma build_status_status:
  "build_status now rq st stage p events result failure previous = Inr doc \<Longrightarrow> jget doc ''status'' = JStr (status_text st)"
  by (auto simp: build_status_def Let_def jget_def split: if_splits)

text \<open>A status write is a job file with that status, or nothing.\<close>

lemma write_status_ok:
  assumes "write_status tick rq st stage p events result failure previous fs = (res, fs')"
  shows "(\<exists>doc. res = Inr doc \<and> fs' = put_job (tr_job_id rq) (fst tick) doc fs \<and> jget doc ''status'' = JStr (status_text st))
    \<or> (\<exists>e. res = Inl e \<and> fs' = fs)"
proof (cases "build_status (snd tick) rq st stage p events result failure previous")
  case (Inl e)
  show ?thesis using assms unfolding write_status_def Inl by (auto simp: bind_act_def raise_or_def throw_def)
next
  case (Inr doc)
  then show ?thesis using assms build_status_status [OF Inr]
    by (auto simp: write_status_def bind_act_def raise_or_def write_job_def ret_def)
qed

section \<open>The queue\<close>

text \<open>A request file that is accepted under the name of job \<open>i\<close>.\<close>

definition valid_doc :: "(string \<Rightarrow> bool option) \<Rightarrow> tune_file \<Rightarrow> string \<Rightarrow> bool" where
  "valid_doc parse_iso f i =
     (case try_in (read_json_object f) (\<lambda>d. validate_request parse_iso d (json_file i)) of Inl _ \<Rightarrow> False | Inr _ \<Rightarrow> True)"

definition request_of :: "(string, tune_file) dict \<Rightarrow> string \<Rightarrow> nat \<Rightarrow> tune_file option" where
  "request_of d i k = map_of d (queue_name i k)"

text \<open>Names are those of claimed or unclaimed requests of drawn identifiers, one per job, and the job
  of an acceptable request is active or has a run directory.\<close>

definition queue_ok ::
  "(string \<Rightarrow> bool option) \<Rightarrow> (string \<Rightarrow> bool) \<Rightarrow> string list \<Rightarrow> (string, tune_file) dict \<Rightarrow> bool" where
  "queue_ok parse_iso act runs d \<longleftrightarrow>
     (\<forall>n \<in> dom (map_of d). \<exists>u k. n = queue_name (uuid_str u) k)
     \<and> (\<forall>u k l. request_of d (uuid_str u) k \<noteq> None \<longrightarrow> request_of d (uuid_str u) l \<noteq> None \<longrightarrow> k = l)
     \<and> (\<forall>u k f. request_of d (uuid_str u) k = Some f \<longrightarrow> valid_doc parse_iso f (uuid_str u)
          \<longrightarrow> uuid_str u \<in> set runs \<or> act (uuid_str u))"

lemma queue_name_uuid_inj:
  "queue_name (uuid_str u) k = queue_name (uuid_str v) l \<longleftrightarrow> uuid_str u = uuid_str v \<and> k = l"
  using queue_name_inj [OF plain_id_uuid plain_id_uuid] by metis

lemma request_of_delete:
  "request_of (AList.delete (queue_name (uuid_str v) l) d) (uuid_str u) k
     = (if uuid_str u = uuid_str v \<and> k = l then None else request_of d (uuid_str u) k)"
  by (auto simp: request_of_def map_of_delete queue_name_uuid_inj)

lemma request_of_move:
  assumes "request_of d (uuid_str v) m = Some g"
  shows "request_of (move_file (queue_name (uuid_str v) m) (queue_name (uuid_str v) l) d) (uuid_str u) k
     = (if uuid_str u = uuid_str v \<and> k = l then Some g
        else if uuid_str u = uuid_str v \<and> k = m then None else request_of d (uuid_str u) k)"
  using assms by (auto simp: request_of_def map_of_move queue_name_uuid_inj)

lemma queue_okD:
  assumes "queue_ok parse_iso act runs d"
  shows "n \<in> dom (map_of d) \<Longrightarrow> \<exists>u k. n = queue_name (uuid_str u) k"
    "request_of d (uuid_str u) k \<noteq> None \<Longrightarrow> request_of d (uuid_str u) l \<noteq> None \<Longrightarrow> k = l"
    "request_of d (uuid_str u) k = Some f \<Longrightarrow> valid_doc parse_iso f (uuid_str u) \<Longrightarrow> uuid_str u \<in> set runs \<or> act (uuid_str u)"
  using assms unfolding queue_ok_def by blast+

lemma queue_ok_delete:
  "queue_ok parse_iso act runs d \<Longrightarrow> queue_ok parse_iso act runs (AList.delete n d)"
  unfolding queue_ok_def request_of_def map_of_delete by (auto split: if_splits)

lemma queue_ok_move:
  assumes ok: "queue_ok parse_iso act runs d" and g: "request_of d (uuid_str v) m = Some g"
  shows "queue_ok parse_iso act runs (move_file (queue_name (uuid_str v) m) (queue_name (uuid_str v) l) d)" (is "queue_ok _ _ _ ?d")
  unfolding queue_ok_def
proof (intro conjI allI ballI impI)
  fix n assume "n \<in> dom (map_of ?d)"
  then have "n = queue_name (uuid_str v) l \<or> n \<in> dom (map_of d)"
    using g by (auto simp: request_of_def map_of_move split: if_splits)
  then show "\<exists>u k. n = queue_name (uuid_str u) k" using queue_okD(1) [OF ok] by blast
next
  fix u k k'
  assume "request_of ?d (uuid_str u) k \<noteq> None" "request_of ?d (uuid_str u) k' \<noteq> None"
  then show "k = k'" unfolding request_of_move [OF g]
    using queue_okD(2) [OF ok, of v] g queue_okD(2) [OF ok, of u] by (metis option.distinct(1))
next
  fix u k f
  assume r: "request_of ?d (uuid_str u) k = Some f" and v: "valid_doc parse_iso f (uuid_str u)"
  then have "\<exists>k. request_of d (uuid_str u) k = Some f" unfolding request_of_move [OF g]
    using g by (metis option.distinct(1) option.inject)
  then show "uuid_str u \<in> set runs \<or> act (uuid_str u)" using queue_okD(3) [OF ok _ v] by blast
qed

text \<open>Recovery and claiming move a request to its next or previous name.\<close>

definition unrequested :: "string \<Rightarrow> (string, tune_file) dict \<Rightarrow> bool" where
  "unrequested i d \<longleftrightarrow> (\<forall>k. request_of d i k = None)"

lemma unrequested_delete: "unrequested i d \<Longrightarrow> unrequested i (AList.delete n d)"
  by (simp add: unrequested_def request_of_def map_of_delete)

lemma unrequested_move:
  "unrequested (uuid_str u) d \<Longrightarrow> request_of d (uuid_str v) m = Some g
    \<Longrightarrow> unrequested (uuid_str u) (move_file (queue_name (uuid_str v) m) (queue_name (uuid_str v) l) d)"
  unfolding unrequested_def request_of_move by (metis option.distinct(1))

lemma recover_one_ok:
  assumes ok: "queue_ok parse_iso act runs d" and n: "ends_with ''.processing.json'' n"
  shows "queue_ok parse_iso act runs (recover_one stale now n d)
    \<and> (\<forall>v. unrequested (uuid_str v) d \<longrightarrow> unrequested (uuid_str v) (recover_one stale now n d))"
proof (cases "map_of d n")
  case None
  then show ?thesis using ok by (simp add: recover_one_def)
next
  case (Some f)
  then obtain u k where u: "n = queue_name (uuid_str u) k" using queue_okD(1) [OF ok] by blast
  then have "0 < k" using n processing_queue_iff [OF plain_id_uuid] by simp
  then obtain m where m: "n = queue_name (uuid_str u) (Suc m)" using u by (metis Suc_pred)
  have t: "py_replace ''.processing.json'' ''.json'' n = queue_name (uuid_str u) m"
    unfolding m by (rule recover_queue_name [OF plain_id_uuid])
  have r: "request_of d (uuid_str u) (Suc m) = Some f" using Some m by (simp add: request_of_def)
  have "recover_one stale now n d \<in> {d, AList.delete n d, move_file n (queue_name (uuid_str u) m) d}"
    using Some by (simp add: recover_one_def Let_def t del: py_replace.simps)
  then show ?thesis
    using ok queue_ok_move [OF ok r, of m] queue_ok_delete [OF ok, of n]
      unrequested_delete unrequested_move [OF _ r, of _ m] by (auto simp: m [symmetric])
qed

lemma recover_ok:
  "queue_ok parse_iso act runs d \<Longrightarrow> \<forall>n \<in> set ns. ends_with ''.processing.json'' n
    \<Longrightarrow> queue_ok parse_iso act runs (fold (recover_one stale now) ns d)
      \<and> (\<forall>v. unrequested (uuid_str v) d \<longrightarrow> unrequested (uuid_str v) (fold (recover_one stale now) ns d))"
proof (induction ns arbitrary: d)
  case (Cons n ns)
  then show ?case using recover_one_ok [of parse_iso act runs d n stale now] by simp
qed simp

lemma claim_next_ok:
  assumes ok: "queue_ok parse_iso act runs (fs_requests fs)" and c: "claim_next fs = (Some n, fs')"
  shows "queue_ok parse_iso act runs (fs_requests fs')"
    "\<exists>u k. n = queue_name (uuid_str u) (Suc k) \<and> request_of (fs_requests fs') (uuid_str u) (Suc k) \<noteq> None"
    "fs' = fs\<lparr>fs_requests := fs_requests fs'\<rparr>"
    "unrequested (uuid_str v) (fs_requests fs) \<Longrightarrow> unrequested (uuid_str v) (fs_requests fs')"
proof -
  obtain m f rest where q: "queued_requests fs = (m, f) # rest"
    using c by (auto simp: claim_next_def split: list.splits)
  then have n: "n = processing_name m" and fs': "fs' = fs\<lparr>fs_requests := move_file m n (fs_requests fs)\<rparr>"
    using c by (auto simp: claim_next_def)
  have "(m, f) \<in> set (queued_requests fs)" using q by simp
  then have "m \<in> dom (map_of (fs_requests fs))" by (auto simp: queued_requests_def dom_map_of_conv_image_fst intro: rev_image_eqI)
  then obtain g u k where g: "map_of (fs_requests fs) m = Some g" and u: "m = queue_name (uuid_str u) k"
    using queue_okD(1) [OF ok] by blast
  then have r: "request_of (fs_requests fs) (uuid_str u) k = Some g" by (simp add: request_of_def)
  have nn: "n = queue_name (uuid_str u) (Suc k)" using n u processing_queue_name by simp
  from queue_ok_move [OF ok r, of "Suc k"] show "queue_ok parse_iso act runs (fs_requests fs')" using fs' nn u by simp
  have "request_of (fs_requests fs') (uuid_str u) (Suc k) = Some g"
    using request_of_move [OF r, of "Suc k" u "Suc k"] fs' nn u by simp
  then show "\<exists>u k. n = queue_name (uuid_str u) (Suc k) \<and> request_of (fs_requests fs') (uuid_str u) (Suc k) \<noteq> None"
    using nn by blast
  show "fs' = fs\<lparr>fs_requests := fs_requests fs'\<rparr>" using fs' by simp
  assume "unrequested (uuid_str v) (fs_requests fs)"
  from unrequested_move [OF this r, of "Suc k"] show "unrequested (uuid_str v) (fs_requests fs')"
    using fs' nn u by simp
qed

section \<open>Steps\<close>

text \<open>
  Where the supervisor is: polling, with a claimed file, working on its request, or with a final
  status written.  \<open>tw_api\<close>: the request the API is publishing, its job file written.
\<close>

datatype sup_phase = Sup_idle | Sup_claimed string | Sup_working string tune_request | Sup_settled string tune_request

record tune_world =
  tw_fs :: tune_fs
  tw_sup :: sup_phase
  tw_api :: "(admin_env \<times> tune_kind \<times> (string \<times> json) list) option"

record tune_setup =
  tp_settings :: tune_settings
  tp_host :: tune_host
  tp_config :: tune_config
  tp_str :: "json \<Rightarrow> string"
  tp_iso :: "string \<Rightarrow> bool option"

text \<open>An identifier that nothing in the runtime directory names.\<close>

definition fresh_job :: "string \<Rightarrow> tune_fs \<Rightarrow> bool" where
  "fresh_job i fs \<longleftrightarrow> json_file i \<notin> set (map fst (fs_jobs fs)) \<and> i \<notin> set (fs_runs fs)
     \<and> (\<forall>k. queue_name i k \<notin> set (map fst (fs_requests fs)))"

text \<open>The request a failure is written for, before the work on it began: one that was refused, or one whose run
  directory exists.\<close>

definition refused_claim :: "(string \<Rightarrow> bool option) \<Rightarrow> string \<Rightarrow> nat \<Rightarrow> string \<Rightarrow> tune_fs \<Rightarrow> tune_request \<Rightarrow> bool" where
  "refused_claim parse_iso stamp seconds n fs rq = (case read_claim parse_iso n fs of
     Inl _ \<Rightarrow> rq = inferred_request stamp seconds n
   | Inr r \<Rightarrow> rq = r \<and> tr_job_id r \<in> set (fs_runs fs))"

inductive tune_step :: "tune_setup \<Rightarrow> tune_world \<Rightarrow> tune_world \<Rightarrow> bool" for tp where
  recover: "tw_sup w = Sup_idle \<Longrightarrow>
    tune_step tp w (w\<lparr>tw_fs := recover_stale_processing (tp_settings tp) now (tw_fs w)\<rparr>)"
| claim: "tw_sup w = Sup_idle \<Longrightarrow> claim_next (tw_fs w) = (Some n, fs') \<Longrightarrow>
    tune_step tp w (w\<lparr>tw_fs := fs', tw_sup := Sup_claimed n\<rparr>)"
| start: "tw_sup w = Sup_claimed n \<Longrightarrow> read_claim (tp_iso tp) n (tw_fs w) = Inr rq \<Longrightarrow>
    make_run_dir (tr_job_id rq) (tw_fs w) = (Inr (), fs') \<Longrightarrow>
    tune_step tp w (w\<lparr>tw_fs := fs', tw_sup := Sup_working n rq\<rparr>)"
| report: "tw_sup w = Sup_working n rq \<Longrightarrow> st = Tune_queued \<or> st = Tune_running \<Longrightarrow>
    write_status tick rq st stage p events result failure previous (tw_fs w) = (Inr doc, fs') \<Longrightarrow>
    tune_step tp w (w\<lparr>tw_fs := fs'\<rparr>)"
| finish: "tw_sup w = Sup_working n rq \<Longrightarrow> st = Tune_completed \<or> st = Tune_failed \<Longrightarrow>
    write_status tick rq st stage p events result failure previous (tw_fs w) = (Inr doc, fs') \<Longrightarrow>
    tune_step tp w (w\<lparr>tw_fs := fs', tw_sup := Sup_settled n rq\<rparr>)"
| give_up: "tw_sup w = Sup_working n rq \<or> tw_sup w = Sup_claimed n \<and> refused_claim (tp_iso tp) stamp seconds n (tw_fs w) rq \<Longrightarrow>
    failed_job tick rq e (tw_fs w) = (res, fs') \<Longrightarrow>
    tune_step tp w (w\<lparr>tw_fs := fs', tw_sup := Sup_settled n rq\<rparr>)"
| clean: "tw_sup w = Sup_settled n rq \<Longrightarrow>
    tune_step tp w (w\<lparr>tw_fs := clean_claim n rq (tw_fs w), tw_sup := Sup_idle\<rparr>)"
| publish: "publish_overview (tp_str tp) (tp_settings tp) (tp_host tp) tick (tw_fs w) = (res, fs') \<Longrightarrow>
    tune_step tp w (w\<lparr>tw_fs := fs'\<rparr>)"
| stop: "tune_step tp w (w\<lparr>tw_sup := Sup_idle\<rparr>)"
| uploads: "tune_step tp w (w\<lparr>tw_fs := (tw_fs w)\<lparr>fs_uploads := ups\<rparr>\<rparr>)"
| api_job: "tw_api w = None \<Longrightarrow> fresh_job (uuid_str (ae_uuid ae)) (tw_fs w) \<Longrightarrow>
    take_lock (tc_lock_stale (tp_config tp)) (ae_mtime ae) (tw_fs w) = Some held \<Longrightarrow> active_job_exists held = Inr False \<Longrightarrow>
    tune_step tp w (w\<lparr>tw_fs := put_job (uuid_str (ae_uuid ae)) (ae_mtime ae) (queued_doc ae kind) held, tw_api := Some (ae, kind, extra)\<rparr>)"
| api_request: "tw_api w = Some (ae, kind, extra) \<Longrightarrow>
    tune_step tp w (w\<lparr>tw_fs := (put_request (uuid_str (ae_uuid ae)) (ae_mtime ae) (request_doc ae kind extra) (tw_fs w))\<lparr>fs_lock := None\<rparr>,
      tw_api := None\<rparr>)"
| api_undo: "tw_api w = Some (ae, kind, extra) \<Longrightarrow>
    tune_step tp w (w\<lparr>tw_fs := (drop_pair (uuid_str (ae_uuid ae)) (tw_fs w))\<lparr>fs_lock := None\<rparr>, tw_api := None\<rparr>)"
| api_stop: "tune_step tp w (w\<lparr>tw_api := None\<rparr>)"
| api_refused: "tune_step tp w (w\<lparr>tw_fs := (tw_fs w)\<lparr>fs_lock := lock\<rparr>\<rparr>)"

definition first_world :: tune_world where
  "first_world = \<lparr>tw_fs = empty_fs, tw_sup = Sup_idle, tw_api = None\<rparr>"

definition tune_reachable :: "tune_setup \<Rightarrow> tune_world \<Rightarrow> bool" where
  "tune_reachable tp w \<longleftrightarrow> (tune_step tp)\<^sup>*\<^sup>* first_world w"

section \<open>The invariant\<close>

definition one_active :: "tune_fs \<Rightarrow> bool" where
  "one_active fs \<longleftrightarrow> (\<forall>i j. job_active fs i \<longrightarrow> job_active fs j \<longrightarrow> i = j) \<and> (\<forall>i. job_active fs i \<longrightarrow> (\<exists>u. i = uuid_str u))"

fun phase_ok :: "tune_fs \<Rightarrow> sup_phase \<Rightarrow> bool" where
  "phase_ok fs Sup_idle = True"
| "phase_ok fs (Sup_claimed n) = (\<exists>u k. n = queue_name (uuid_str u) (Suc k) \<and> request_of (fs_requests fs) (uuid_str u) (Suc k) \<noteq> None)"
| "phase_ok fs (Sup_working n rq) = (\<exists>u. n = queue_name (uuid_str u) 1 \<and> tr_job_id rq = uuid_str u
     \<and> uuid_str u \<in> set (fs_runs fs) \<and> job_active fs (uuid_str u))"
| "phase_ok fs (Sup_settled n rq) = True"

definition api_ok :: "tune_fs \<Rightarrow> (admin_env \<times> tune_kind \<times> (string \<times> json) list) option \<Rightarrow> bool" where
  "api_ok fs api = (case api of None \<Rightarrow> True | Some (ae, kind, extra) \<Rightarrow>
     job_active fs (uuid_str (ae_uuid ae)) \<and> uuid_str (ae_uuid ae) \<notin> set (fs_runs fs)
     \<and> unrequested (uuid_str (ae_uuid ae)) (fs_requests fs))"

definition tune_inv :: "tune_setup \<Rightarrow> tune_world \<Rightarrow> bool" where
  "tune_inv tp w \<longleftrightarrow> tune_jobs_ok (tw_fs w) \<and> one_active (tw_fs w)
     \<and> queue_ok (tp_iso tp) (job_active (tw_fs w)) (fs_runs (tw_fs w)) (fs_requests (tw_fs w))
     \<and> phase_ok (tw_fs w) (tw_sup w) \<and> api_ok (tw_fs w) (tw_api w)"

lemma tune_inv_first: "tune_inv tp first_world"
  by (simp add: tune_inv_def first_world_def empty_fs_def tune_jobs_ok_def one_active_def job_active_def queue_ok_def
      request_of_def api_ok_def)

text \<open>Steps that leave jobs, requests and run directories as they are.\<close>

definition same_queue :: "tune_fs \<Rightarrow> tune_fs \<Rightarrow> bool" where
  "same_queue fs fs' \<longleftrightarrow> fs_jobs fs' = fs_jobs fs \<and> fs_requests fs' = fs_requests fs \<and> fs_runs fs' = fs_runs fs"

lemma job_active_same: "fs_jobs fs' = fs_jobs fs \<Longrightarrow> job_active fs' = job_active fs"
  by (rule ext) (simp add: job_active_def)

lemma tune_inv_same:
  assumes "tune_inv tp w" "same_queue (tw_fs w) (tw_fs w')" "tw_sup w' = tw_sup w \<or> tw_sup w' = Sup_idle"
    "tw_api w' = tw_api w \<or> tw_api w' = None"
  shows "tune_inv tp w'"
proof -
  have a: "job_active (tw_fs w') = job_active (tw_fs w)" using assms(2) job_active_same unfolding same_queue_def by blast
  have "phase_ok (tw_fs w') p = phase_ok (tw_fs w) p" for p
    using assms(2) a by (cases p) (simp_all add: same_queue_def)
  moreover have "phase_ok (tw_fs w) Sup_idle" by simp
  moreover have "api_ok (tw_fs w') x = api_ok (tw_fs w) x" for x using assms(2) a by (cases x) (auto simp: api_ok_def same_queue_def)
  moreover have "api_ok (tw_fs w) None" by (simp add: api_ok_def)
  ultimately show ?thesis using assms a
    by (auto simp: tune_inv_def tune_jobs_ok_def one_active_def same_queue_def)
qed

lemma publish_same: "publish_overview py_str ts ho tick fs = (res, fs') \<Longrightarrow> same_queue fs fs'"
proof -
  assume p: "publish_overview py_str ts ho tick fs = (res, fs')"
  have "keeps (same_queue fs) (approved_publications py_str ts ho)"
    unfolding keeps_def approved_publications_def same_queue_def
    by (auto simp: Let_def split: option.splits sum.splits)
  moreover have "keeps (same_queue fs) (raise_or r)" for r :: "py_error + 'x"
    by (cases r) (simp_all add: raise_or_def keeps_rules)
  moreover have "keeps (same_queue fs) (write_overview now doc)" for now doc
    by (simp add: keeps_def write_overview_def same_queue_def)
  ultimately have "keeps (same_queue fs) (publish_overview py_str ts ho tick)"
    unfolding publish_overview_def Let_def
    by (auto intro!: keeps_rules simp: raise_or_def keeps_rules split: prod.splits sum.splits)
  from keepsD [OF this _ p] show ?thesis by (simp add: same_queue_def)
qed

section \<open>Preservation\<close>

lemma queue_ok_mono:
  "queue_ok parse_iso act runs d \<Longrightarrow> (\<And>i. act i \<Longrightarrow> act' i \<or> i \<in> set runs') \<Longrightarrow> set runs \<subseteq> set runs'
    \<Longrightarrow> queue_ok parse_iso act' runs' d"
  unfolding queue_ok_def by blast

lemma validate_name:
  "claimed_id a = claimed_id b \<Longrightarrow> validate_request parse_iso d a = validate_request parse_iso d b"
  by (cases "jget d ''job_id''") (simp_all add: validate_request_def)

lemma validate_id:
  "validate_request parse_iso d n = Inr rq \<Longrightarrow> job_id_ok (claimed_id n) \<and> tr_job_id rq = claimed_id n"
  by (auto simp: validate_request_def split: json.splits if_splits sum.splits)

lemma read_claim_valid:
  assumes "map_of (fs_requests fs) (queue_name i 1) = Some f" "plain_id i"
  shows "valid_doc parse_iso f i \<longleftrightarrow> (\<exists>rq. read_claim parse_iso (queue_name i 1) fs = Inr rq)"
proof -
  have "claimed_id (json_file i) = claimed_id (queue_name i 1)"
    using claimed_id_queue(1) [OF assms(2)] claimed_id_queue(2) [OF assms(2), of 0] by (simp add: queue_name_0)
  from validate_name [OF this] show ?thesis using assms(1)
    by (auto simp: valid_doc_def read_claim_def split: sum.splits)
qed

lemma read_claim_id:
  assumes "read_claim parse_iso (queue_name (uuid_str u) (Suc k)) fs = Inr rq"
  shows "k = 0" "tr_job_id rq = uuid_str u"
proof -
  let ?n = "queue_name (uuid_str u) (Suc k)"
  obtain d where "validate_request parse_iso d ?n = Inr rq"
    using assms by (auto simp: read_claim_def split: option.splits sum.splits)
  from validate_id [OF this] have id: "job_id_ok (claimed_id ?n)" "tr_job_id rq = claimed_id ?n" by auto
  have c: "claimed_id ?n = uuid_str u @ concat (replicate k ''.processing'')"
    by (rule claimed_id_queue(2) [OF plain_id_uuid])
  then show "k = 0" using id(1) twice_claimed_not_ok by (metis gr0I)
  then show "tr_job_id rq = uuid_str u" using c id(2) by simp
qed

lemma invalid_not_uuid: "''invalid-'' @ s \<noteq> uuid_str u"
proof
  assume "''invalid-'' @ s = uuid_str u"
  then have "hd (uuid_str u) = CHR ''i''" by (metis append_Cons list.sel(1))
  then show False using uuid_hd [of u] by (simp add: hex_lower_def)
qed

lemma inferred_id:
  "tr_job_id (inferred_request stamp seconds (queue_name (uuid_str u) (Suc k)))
     = (if k = 0 then uuid_str u else ''invalid-'' @ nat_str seconds)"
  unfolding inferred_request_def Let_def strip_queue_name
  using job_id_uuid [of u] twice_claimed_not_ok [of k "uuid_str u"] by (cases k) simp_all

lemma failed_job_ok:
  assumes "tune_jobs_ok fs" "failed_job tick rq e fs = (res, fs')"
  shows "\<exists>doc. res = Inr doc \<and> fs' = put_job (tr_job_id rq) (fst tick) doc fs \<and> jget doc ''status'' = JStr (status_text Tune_failed)"
proof -
  obtain previous where p: "(case map_of (fs_jobs fs) (json_file (tr_job_id rq)) of None \<Rightarrow> Inr None
      | Some f \<Rightarrow> try_in (read_json_object f) (\<lambda>d. Inr (Some d))) = (Inr previous :: py_error + (string \<times> json) list option)"
  proof (cases "map_of (fs_jobs fs) (json_file (tr_job_id rq))")
    case (Some f)
    then have "job_file_ok (json_file (tr_job_id rq), f)" using assms(1) by (auto simp: tune_jobs_ok_def dest: map_of_SomeD)
    then obtain d where "file_object f = Some d" by (auto simp: job_file_ok_def)
    then have "read_json_object f = Inr d"
      by (auto simp: file_object_def read_json_object_def object_doc_def split: option.splits json.splits)
    then show ?thesis using that Some by simp
  qed (use that in simp)
  obtain doc where b: "build_status (snd tick) rq Tune_failed ''failed'' 1 [] None (exc_class e @ '': job could not be completed'') previous = Inr doc"
    by (simp add: build_status_def Let_def)
  have "failed_job tick rq e fs = (Inr doc, put_job (tr_job_id rq) (fst tick) doc fs)"
    unfolding failed_job_def p write_status_def by (simp add: b bind_act_def raise_or_def write_job_def ret_def)
  then show ?thesis using assms(2) build_status_status [OF b] by simp
qed

text \<open>A status that ends a job: nothing may still ask for a run of it.\<close>

lemma inv_deactivate:
  assumes inv: "tune_inv tp w" and fs': "fs' = put_job i now doc (tw_fs w)"
    and st: "jget doc ''status'' = JStr (status_text st)" "st = Tune_completed \<or> st = Tune_failed"
    and q: "i \<in> set (fs_runs (tw_fs w)) \<or> (\<forall>u k f. uuid_str u = i \<longrightarrow> request_of (fs_requests (tw_fs w)) i k = Some f
              \<longrightarrow> \<not> valid_doc (tp_iso tp) f i)"
    and api: "\<And>ae kind extra. tw_api w = Some (ae, kind, extra) \<Longrightarrow> uuid_str (ae_uuid ae) \<noteq> i"
  shows "tune_inv tp (w\<lparr>tw_fs := fs', tw_sup := Sup_settled n rq\<rparr>)"
proof -
  have act: "job_active fs' j \<longleftrightarrow> j \<noteq> i \<and> job_active (tw_fs w) j" for j
    using st status_active_text [OF st(1)] by (auto simp: fs' job_active_put)
  have "tune_jobs_ok fs'" using inv tune_jobs_ok_put [OF _ st(1)] by (simp add: fs' tune_inv_def)
  moreover have "one_active fs'" using inv act by (auto simp: tune_inv_def one_active_def)
  moreover have "queue_ok (tp_iso tp) (job_active fs') (fs_runs fs') (fs_requests fs')"
    using inv q unfolding tune_inv_def queue_ok_def fs' put_job_frame act [unfolded fs'] by blast
  moreover have "api_ok fs' (tw_api w)"
    using inv api act unfolding tune_inv_def api_ok_def fs' put_job_frame by (auto split: option.splits)
  ultimately show ?thesis by (simp add: tune_inv_def)
qed

lemma tune_invD:
  assumes "tune_inv tp w"
  shows "tune_jobs_ok (tw_fs w)" "one_active (tw_fs w)"
    "queue_ok (tp_iso tp) (job_active (tw_fs w)) (fs_runs (tw_fs w)) (fs_requests (tw_fs w))"
    "phase_ok (tw_fs w) (tw_sup w)" "api_ok (tw_fs w) (tw_api w)"
  using assms by (simp_all add: tune_inv_def)

lemma api_okD:
  "api_ok fs (Some (ae, kind, extra)) \<Longrightarrow> job_active fs (uuid_str (ae_uuid ae))"
  "api_ok fs (Some (ae, kind, extra)) \<Longrightarrow> uuid_str (ae_uuid ae) \<notin> set (fs_runs fs)"
  "api_ok fs (Some (ae, kind, extra)) \<Longrightarrow> request_of (fs_requests fs) (uuid_str (ae_uuid ae)) k = None"
  by (simp_all add: api_ok_def unrequested_def)

text \<open>Steps that only rename or delete requests.\<close>

lemma inv_requests:
  assumes inv: "tune_inv tp w" and fs': "fs_jobs fs' = fs_jobs (tw_fs w)" "fs_runs fs' = fs_runs (tw_fs w)"
    and q: "queue_ok (tp_iso tp) (job_active (tw_fs w)) (fs_runs (tw_fs w)) (fs_requests fs')"
    and un: "\<And>v. unrequested (uuid_str v) (fs_requests (tw_fs w)) \<Longrightarrow> unrequested (uuid_str v) (fs_requests fs')"
    and ph: "phase_ok fs' p"
  shows "tune_inv tp (w\<lparr>tw_fs := fs', tw_sup := p\<rparr>)"
proof -
  have a: "job_active fs' = job_active (tw_fs w)" using fs'(1) job_active_same by blast
  have "api_ok fs' (tw_api w)" using tune_invD(5) [OF inv] un fs'(2) a by (auto simp: api_ok_def split: option.splits)
  then show ?thesis using tune_invD(1,2) [OF inv] q ph fs' a by (simp add: tune_inv_def tune_jobs_ok_def one_active_def)
qed

lemma inv_recover:
  assumes inv: "tune_inv tp w" and "tw_sup w = Sup_idle"
  shows "tune_inv tp (w\<lparr>tw_fs := recover_stale_processing ts now (tw_fs w)\<rparr>)"
proof -
  let ?fs = "recover_stale_processing ts now (tw_fs w)"
  have names: "\<forall>n \<in> set (processing_files (fs_requests (tw_fs w))). ends_with ''.processing.json'' n"
    by (simp add: processing_files_def)
  note r = recover_ok [OF tune_invD(3) [OF inv] names, of "ts_processing_stale ts" now]
  have "tune_inv tp (w\<lparr>tw_fs := ?fs, tw_sup := Sup_idle\<rparr>)"
    by (rule inv_requests [OF inv]) (use r in \<open>simp_all add: recover_stale_processing_def\<close>)
  moreover have "w\<lparr>tw_fs := ?fs, tw_sup := Sup_idle\<rparr> = w\<lparr>tw_fs := ?fs\<rparr>" using assms(2) by simp
  ultimately show ?thesis by simp
qed

lemma inv_claim:
  assumes inv: "tune_inv tp w" and c: "claim_next (tw_fs w) = (Some n, fs')"
  shows "tune_inv tp (w\<lparr>tw_fs := fs', tw_sup := Sup_claimed n\<rparr>)"
proof -
  note k = claim_next_ok [OF tune_invD(3) [OF inv] c]
  have "fs_jobs fs' = fs_jobs (tw_fs w)" "fs_runs fs' = fs_runs (tw_fs w)" by (subst k(3), simp)+
  then show ?thesis using inv_requests [OF inv _ _ k(1) k(4), of "Sup_claimed n"] k(2) by simp
qed

lemma inv_clean:
  assumes inv: "tune_inv tp w"
  shows "tune_inv tp (w\<lparr>tw_fs := clean_claim n rq (tw_fs w), tw_sup := Sup_idle\<rparr>)"
  by (rule inv_requests [OF inv])
     (simp_all add: clean_claim_def queue_ok_delete [OF tune_invD(3) [OF inv]] unrequested_delete)

lemma inv_start:
  assumes inv: "tune_inv tp w" and p: "tw_sup w = Sup_claimed n" and r: "read_claim (tp_iso tp) n (tw_fs w) = Inr rq"
    and m: "make_run_dir (tr_job_id rq) (tw_fs w) = (Inr (), fs')"
  shows "tune_inv tp (w\<lparr>tw_fs := fs', tw_sup := Sup_working n rq\<rparr>)"
proof -
  obtain u k where n: "n = queue_name (uuid_str u) (Suc k)" and some: "request_of (fs_requests (tw_fs w)) (uuid_str u) (Suc k) \<noteq> None"
    using tune_invD(4) [OF inv] p by auto
  have k: "k = 0" "tr_job_id rq = uuid_str u" using read_claim_id r n by auto
  have fs': "fs' = (tw_fs w)\<lparr>fs_runs := uuid_str u # fs_runs (tw_fs w)\<rparr>" and new: "uuid_str u \<notin> set (fs_runs (tw_fs w))"
    using m k(2) by (auto simp: make_run_dir_def split: if_splits)
  obtain f where f: "request_of (fs_requests (tw_fs w)) (uuid_str u) 1 = Some f" using some k(1) by auto
  then have "valid_doc (tp_iso tp) f (uuid_str u)"
    using read_claim_valid [OF _ plain_id_uuid, of "tw_fs w"] r n k(1) by (auto simp: request_of_def)
  with queue_okD(3) [OF tune_invD(3) [OF inv] f] new have active: "job_active (tw_fs w) (uuid_str u)" by blast
  have a: "job_active fs' = job_active (tw_fs w)" by (rule job_active_same) (simp add: fs')
  have "queue_ok (tp_iso tp) (job_active (tw_fs w)) (uuid_str u # fs_runs (tw_fs w)) (fs_requests (tw_fs w))"
    by (rule queue_ok_mono [OF tune_invD(3) [OF inv]]) auto
  moreover have "api_ok fs' (tw_api w)"
  proof (cases "tw_api w")
    case (Some x)
    then obtain ae kind extra where x: "tw_api w = Some (ae, kind, extra)" by (cases x) auto
    then have ok: "api_ok (tw_fs w) (Some (ae, kind, extra))" using tune_invD(5) [OF inv] by simp
    then have "uuid_str (ae_uuid ae) \<noteq> uuid_str u" using f api_okD(3) by (metis option.distinct(1))
    then show ?thesis using ok x a by (simp add: api_ok_def fs')
  qed (simp add: api_ok_def)
  ultimately show ?thesis using tune_invD(1,2) [OF inv] a active n k
    by (auto simp: tune_inv_def tune_jobs_ok_def one_active_def fs')
qed

lemma inv_report:
  assumes inv: "tune_inv tp w" and p: "tw_sup w = Sup_working n rq" and st: "st = Tune_queued \<or> st = Tune_running"
    and wr: "write_status tick rq st stage pr events result failure previous (tw_fs w) = (Inr doc, fs')"
  shows "tune_inv tp (w\<lparr>tw_fs := fs'\<rparr>)"
proof -
  have fs': "fs' = put_job (tr_job_id rq) (fst tick) doc (tw_fs w)" and d: "jget doc ''status'' = JStr (status_text st)"
    using write_status_ok [OF wr] by auto
  have "job_active (tw_fs w) (tr_job_id rq)" using tune_invD(4) [OF inv] p by auto
  then have a: "job_active fs' = job_active (tw_fs w)"
    using status_active_text [OF d] st by (intro ext) (simp add: fs' job_active_put)
  have "phase_ok fs' (tw_sup w)" using tune_invD(4) [OF inv] p a by (auto simp: fs')
  moreover have "api_ok fs' (tw_api w)" using tune_invD(5) [OF inv] a by (auto simp: api_ok_def fs' split: option.splits)
  ultimately show ?thesis using tune_invD(1,2,3) [OF inv] a tune_jobs_ok_put [OF _ d]
    by (simp add: tune_inv_def one_active_def fs')
qed

lemma working_other:
  assumes inv: "tune_inv tp w" and p: "tw_sup w = Sup_working n rq"
  shows "tr_job_id rq \<in> set (fs_runs (tw_fs w))" "tw_api w = Some (ae, kind, extra) \<Longrightarrow> uuid_str (ae_uuid ae) \<noteq> tr_job_id rq"
  using tune_invD(4,5) [OF inv] p api_okD(2) by fastforce+

lemma inv_finish:
  assumes inv: "tune_inv tp w" and p: "tw_sup w = Sup_working n rq" and st: "st = Tune_completed \<or> st = Tune_failed"
    and wr: "write_status tick rq st stage pr events result failure previous (tw_fs w) = (Inr doc, fs')"
  shows "tune_inv tp (w\<lparr>tw_fs := fs', tw_sup := Sup_settled n rq\<rparr>)"
proof -
  have fs': "fs' = put_job (tr_job_id rq) (fst tick) doc (tw_fs w)" and d: "jget doc ''status'' = JStr (status_text st)"
    using write_status_ok [OF wr] by auto
  show ?thesis by (rule inv_deactivate [OF inv fs' d st]) (use working_other [OF inv p] in auto)
qed

lemma inv_give_up:
  assumes inv: "tune_inv tp w"
    and p: "tw_sup w = Sup_working n rq \<or> tw_sup w = Sup_claimed n \<and> refused_claim (tp_iso tp) stamp seconds n (tw_fs w) rq"
    and fj: "failed_job tick rq e (tw_fs w) = (res, fs')"
  shows "tune_inv tp (w\<lparr>tw_fs := fs', tw_sup := Sup_settled n rq\<rparr>)"
proof -
  obtain doc where fs': "fs' = put_job (tr_job_id rq) (fst tick) doc (tw_fs w)" and d: "jget doc ''status'' = JStr (status_text Tune_failed)"
    using failed_job_ok [OF tune_invD(1) [OF inv] fj] by blast
  have "(tr_job_id rq \<in> set (fs_runs (tw_fs w)) \<or> (\<forall>u k f. uuid_str u = tr_job_id rq
        \<longrightarrow> request_of (fs_requests (tw_fs w)) (tr_job_id rq) k = Some f \<longrightarrow> \<not> valid_doc (tp_iso tp) f (tr_job_id rq)))
      \<and> (\<forall>ae kind extra. tw_api w = Some (ae, kind, extra) \<longrightarrow> uuid_str (ae_uuid ae) \<noteq> tr_job_id rq)" (is ?ok)
  proof (cases "tr_job_id rq \<in> set (fs_runs (tw_fs w))")
    case True
    then show ?thesis using tune_invD(5) [OF inv] api_okD(2) by fastforce
  next
    case False
    then have c: "tw_sup w = Sup_claimed n" "refused_claim (tp_iso tp) stamp seconds n (tw_fs w) rq"
      using p working_other(1) [OF inv] by auto
    then obtain u k where n: "n = queue_name (uuid_str u) (Suc k)" and some: "request_of (fs_requests (tw_fs w)) (uuid_str u) (Suc k) \<noteq> None"
      using tune_invD(4) [OF inv] by auto
    obtain err where err: "read_claim (tp_iso tp) n (tw_fs w) = Inl err" and rq: "rq = inferred_request stamp seconds n"
      using c(2) False by (auto simp: refused_claim_def split: sum.splits)
    have id: "tr_job_id rq = (if k = 0 then uuid_str u else ''invalid-'' @ nat_str seconds)"
      unfolding rq n by (rule inferred_id)
    show ?thesis
    proof (cases "k = 0")
      case True
      then obtain g where g: "request_of (fs_requests (tw_fs w)) (uuid_str u) 1 = Some g" using some by auto
      then have bad: "\<not> valid_doc (tp_iso tp) g (uuid_str u)"
        using read_claim_valid [OF _ plain_id_uuid, of "tw_fs w"] err n True by (auto simp: request_of_def)
      have "f = g" if "request_of (fs_requests (tw_fs w)) (uuid_str u) l = Some f" for l f
        using queue_okD(2) [OF tune_invD(3) [OF inv], of u l 1] that g by auto
      moreover have "uuid_str (ae_uuid ae) \<noteq> uuid_str u" if "tw_api w = Some (ae, kind, extra)" for ae kind extra
        using api_okD(3) tune_invD(5) [OF inv] that g by (metis option.distinct(1))
      ultimately show ?thesis using id True bad by auto
    next
      case False
      then have "tr_job_id rq \<noteq> uuid_str v" for v using id invalid_not_uuid by simp
      then show ?thesis by metis
    qed
  qed
  then show ?thesis using inv_deactivate [OF inv fs' d] by blast
qed

text \<open>The API.\<close>

lemma job_active_lock [simp]: "job_active (fs\<lparr>fs_lock := l\<rparr>) = job_active fs"
  by (rule job_active_same) simp

lemma take_lock_held: "take_lock stale now fs = Some held \<Longrightarrow> held = fs\<lparr>fs_lock := Some now\<rparr>"
  by (auto simp: take_lock_def split: option.splits if_splits)

lemma active_exists_lock [simp]: "active_job_exists (fs\<lparr>fs_lock := l\<rparr>) = active_job_exists fs"
  by (simp add: active_job_exists_def job_files_def)

lemma queued_doc_status: "jget (queued_doc ae kind) ''status'' = JStr (status_text Tune_queued)"
  by (simp add: queued_doc_def jget_def)

lemma fresh_unrequested: "fresh_job i fs \<Longrightarrow> unrequested i (fs_requests fs)"
  by (auto simp: fresh_job_def unrequested_def request_of_def map_of_eq_None_iff)

lemma inv_api_job:
  assumes inv: "tune_inv tp w" and fresh: "fresh_job (uuid_str (ae_uuid ae)) (tw_fs w)"
    and held: "take_lock stale now (tw_fs w) = Some held" "active_job_exists held = Inr False"
  shows "tune_inv tp (w\<lparr>tw_fs := put_job (uuid_str (ae_uuid ae)) t (queued_doc ae kind) held, tw_api := Some (ae, kind, extra)\<rparr>)"
proof -
  let ?i = "uuid_str (ae_uuid ae)" and ?fs' = "put_job (uuid_str (ae_uuid ae)) t (queued_doc ae kind) held"
  note h = take_lock_held [OF held(1)]
  have none: "\<not> job_active (tw_fs w) j" for j
    using idle_no_active [of "tw_fs w"] held(2) h tune_invD(2) [OF inv] uuid_text_uuid by (auto simp: one_active_def)
  have a: "job_active ?fs' = (\<lambda>j. j = ?i)"
    using status_active_text [OF queued_doc_status, of ae kind] none by (intro ext) (simp add: job_active_put h)
  have "queue_ok (tp_iso tp) (\<lambda>j. j = ?i) (fs_runs (tw_fs w)) (fs_requests (tw_fs w))"
    by (rule queue_ok_mono [OF tune_invD(3) [OF inv]]) (use none in auto)
  moreover have "phase_ok ?fs' (tw_sup w)" using tune_invD(4) [OF inv] none by (cases "tw_sup w") (auto simp: h)
  moreover have "api_ok ?fs' (Some (ae, kind, extra))"
    using fresh_unrequested [OF fresh] fresh a by (simp add: api_ok_def fresh_job_def h)
  moreover have "tune_jobs_ok held" using tune_invD(1) [OF inv] by (simp add: tune_jobs_ok_def h)
  ultimately show ?thesis using a tune_jobs_ok_put [OF _ queued_doc_status, of held ?i t ae kind]
    by (auto simp: tune_inv_def one_active_def h)
qed

lemma request_of_put:
  "request_of (put_file (json_file (uuid_str v)) now doc d) (uuid_str u) k
     = (if uuid_str u = uuid_str v \<and> k = 0 then Some \<lparr>tf_mtime = now, tf_doc = Some (JObj doc)\<rparr> else request_of d (uuid_str u) k)"
  by (auto simp: request_of_def put_file_def map_of_update queue_name_0 [symmetric] queue_name_uuid_inj)

lemma inv_api_request:
  assumes inv: "tune_inv tp w" and api: "tw_api w = Some (ae, kind, extra)"
  shows "tune_inv tp (w\<lparr>tw_fs := (put_request (uuid_str (ae_uuid ae)) t doc (tw_fs w))\<lparr>fs_lock := None\<rparr>, tw_api := None\<rparr>)"
proof -
  let ?v = "ae_uuid ae" and ?d = "fs_requests (tw_fs w)"
  let ?fs' = "(put_request (uuid_str ?v) t doc (tw_fs w))\<lparr>fs_lock := None\<rparr>"
  have ok: "job_active (tw_fs w) (uuid_str ?v)" "\<And>k. request_of ?d (uuid_str ?v) k = None"
    using api_okD tune_invD(5) [OF inv] api by metis+
  have a: "job_active ?fs' = job_active (tw_fs w)" by (rule job_active_same) (simp add: put_request_def)
  note q = tune_invD(3) [OF inv]
  have r: "fs_requests ?fs' = put_file (json_file (uuid_str ?v)) t doc ?d" by (simp add: put_request_def)
  have "queue_ok (tp_iso tp) (job_active (tw_fs w)) (fs_runs (tw_fs w)) (put_file (json_file (uuid_str ?v)) t doc ?d)"
    unfolding queue_ok_def request_of_put
  proof (intro conjI ballI allI impI)
    fix n assume "n \<in> dom (map_of (put_file (json_file (uuid_str ?v)) t doc ?d))"
    then have "n = queue_name (uuid_str ?v) 0 \<or> n \<in> dom (map_of ?d)"
      by (auto simp: put_file_def map_of_update queue_name_0 split: if_splits)
    then show "\<exists>u k. n = queue_name (uuid_str u) k" using queue_okD(1) [OF q] by blast
  next
    fix u k l
    show "(if uuid_str u = uuid_str ?v \<and> k = 0 then Some \<lparr>tf_mtime = t, tf_doc = Some (JObj doc)\<rparr> else request_of ?d (uuid_str u) k) \<noteq> None
      \<Longrightarrow> (if uuid_str u = uuid_str ?v \<and> l = 0 then Some \<lparr>tf_mtime = t, tf_doc = Some (JObj doc)\<rparr> else request_of ?d (uuid_str u) l) \<noteq> None
      \<Longrightarrow> k = l" using ok(2) queue_okD(2) [OF q, of u k l] by (cases "uuid_str u = uuid_str ?v") (auto split: if_splits)
  next
    fix u k f
    assume "(if uuid_str u = uuid_str ?v \<and> k = 0 then Some \<lparr>tf_mtime = t, tf_doc = Some (JObj doc)\<rparr> else request_of ?d (uuid_str u) k) = Some f"
      "valid_doc (tp_iso tp) f (uuid_str u)"
    then show "uuid_str u \<in> set (fs_runs (tw_fs w)) \<or> job_active (tw_fs w) (uuid_str u)"
      using ok(1) queue_okD(3) [OF q] by (auto split: if_splits)
  qed
  moreover have "phase_ok ?fs' (tw_sup w)"
  proof (cases "tw_sup w")
    case (Sup_claimed n)
    then obtain u k where n: "n = queue_name (uuid_str u) (Suc k)" "request_of ?d (uuid_str u) (Suc k) \<noteq> None"
      using tune_invD(4) [OF inv] by auto
    then have "request_of (fs_requests ?fs') (uuid_str u) (Suc k) \<noteq> None" unfolding r request_of_put by simp
    then show ?thesis using Sup_claimed n(1) unfolding Sup_claimed phase_ok.simps by blast
  next
    case (Sup_working n rq)
    then show ?thesis using tune_invD(4) [OF inv] a by (auto simp: put_request_def)
  qed simp_all
  ultimately show ?thesis using tune_invD(1,2) [OF inv] a r
    by (simp add: tune_inv_def one_active_def tune_jobs_ok_def api_ok_def put_request_def)
qed

lemma inv_api_undo:
  assumes inv: "tune_inv tp w" and api: "tw_api w = Some (ae, kind, extra)"
  shows "tune_inv tp (w\<lparr>tw_fs := (drop_pair (uuid_str (ae_uuid ae)) (tw_fs w))\<lparr>fs_lock := None\<rparr>, tw_api := None\<rparr>)"
proof -
  let ?i = "uuid_str (ae_uuid ae)" and ?d = "fs_requests (tw_fs w)"
  let ?fs' = "(drop_pair ?i (tw_fs w))\<lparr>fs_lock := None\<rparr>"
  have ok: "?i \<notin> set (fs_runs (tw_fs w))" "\<And>k. request_of ?d ?i k = None"
    using api_okD tune_invD(5) [OF inv] api by metis+
  have a: "job_active ?fs' j \<longleftrightarrow> j \<noteq> ?i \<and> job_active (tw_fs w) j" for j
    by (simp add: job_active_def drop_pair_def map_of_delete)
  have r: "request_of (fs_requests ?fs') (uuid_str u) k = request_of ?d (uuid_str u) k" for u k
    using ok(2) request_of_delete [of "ae_uuid ae" 0 ?d u k] by (auto simp: drop_pair_def queue_name_0)
  have q: "queue_ok (tp_iso tp) (job_active (tw_fs w)) (fs_runs (tw_fs w)) (fs_requests ?fs')"
    using queue_ok_delete [OF tune_invD(3) [OF inv]] by (simp add: drop_pair_def)
  have "queue_ok (tp_iso tp) (job_active ?fs') (fs_runs (tw_fs w)) (fs_requests ?fs')"
    unfolding queue_ok_def
  proof (intro conjI ballI allI impI)
    show "\<exists>u k. n = queue_name (uuid_str u) k" if "n \<in> dom (map_of (fs_requests ?fs'))" for n
      using queue_okD(1) [OF q that] .
    show "k = l" if "request_of (fs_requests ?fs') (uuid_str u) k \<noteq> None" "request_of (fs_requests ?fs') (uuid_str u) l \<noteq> None" for u k l
      using queue_okD(2) [OF q that] .
    fix u k f assume f: "request_of (fs_requests ?fs') (uuid_str u) k = Some f" and v: "valid_doc (tp_iso tp) f (uuid_str u)"
    have "uuid_str u \<noteq> ?i" using f ok(2) unfolding r by (metis option.distinct(1))
    then show "uuid_str u \<in> set (fs_runs (tw_fs w)) \<or> job_active ?fs' (uuid_str u)"
      using queue_okD(3) [OF q f v] a by blast
  qed
  moreover have "phase_ok ?fs' (tw_sup w)"
  proof (cases "tw_sup w")
    case (Sup_claimed n)
    then show ?thesis using tune_invD(4) [OF inv] unfolding Sup_claimed phase_ok.simps r by blast
  next
    case (Sup_working n rq)
    then obtain u where u: "n = queue_name (uuid_str u) 1" "tr_job_id rq = uuid_str u"
      "uuid_str u \<in> set (fs_runs (tw_fs w))" "job_active (tw_fs w) (uuid_str u)"
      using tune_invD(4) [OF inv] by auto
    then have "uuid_str u \<noteq> ?i" using ok(1) by metis
    then have "job_active ?fs' (uuid_str u)" "fs_runs ?fs' = fs_runs (tw_fs w)"
      using u(4) a [of "uuid_str u"] by (blast, simp add: drop_pair_def)
    then show ?thesis using u(1,2,3) unfolding Sup_working phase_ok.simps by metis
  qed simp_all
  moreover have "tune_jobs_ok ?fs'" using tune_invD(1) [OF inv] by (auto simp: tune_jobs_ok_def drop_pair_def AList.distinct_delete dest: set_delete)
  ultimately show ?thesis using tune_invD(2) [OF inv] a
    by (auto simp: tune_inv_def one_active_def api_ok_def drop_pair_def)
qed

theorem tune_inv_step: "tune_step tp w w' \<Longrightarrow> tune_inv tp w \<Longrightarrow> tune_inv tp w'"
proof (induction rule: tune_step.induct)
  case (publish tick w res fs')
  show ?case by (rule tune_inv_same [OF publish(2)]) (use publish_same [OF publish(1)] in simp_all)
next
  case (stop w)
  show ?case by (rule tune_inv_same [OF stop]) (simp_all add: same_queue_def)
next
  case (uploads w ups)
  show ?case by (rule tune_inv_same [OF uploads]) (simp_all add: same_queue_def)
next
  case (api_stop w)
  show ?case by (rule tune_inv_same [OF api_stop]) (simp_all add: same_queue_def)
next
  case (api_refused w lock)
  show ?case by (rule tune_inv_same [OF api_refused]) (simp_all add: same_queue_def)
qed (simp_all add: inv_recover inv_claim inv_clean inv_start inv_report inv_finish inv_give_up inv_api_job inv_api_request inv_api_undo)

lemma tune_inv_reachable: "tune_reachable tp w \<Longrightarrow> tune_inv tp w"
  unfolding tune_reachable_def by (induction rule: rtranclp_induct) (simp_all add: tune_inv_first tune_inv_step)

end
