(* ===== verification/Tune_Paths.thy ===== *)
theory Tune_Paths
  imports Tune_Life
begin

text \<open>
  The operations as paths of steps: whatever a complete \<open>run_once\<close> of the supervisor or \<open>enqueue\<close> of the
  API does to the runtime directory, the steps of \<open>Tune_Life\<close> do.
\<close>

section \<open>Paths\<close>

abbreviation tune_path :: "tune_setup \<Rightarrow> tune_world \<Rightarrow> tune_world \<Rightarrow> bool" where
  "tune_path tp \<equiv> (tune_step tp)\<^sup>*\<^sup>*"

definition world_at :: "tune_fs \<Rightarrow> sup_phase \<Rightarrow> (admin_env \<times> tune_kind \<times> (string \<times> json) list) option \<Rightarrow> tune_world" where
  "world_at fs p api = \<lparr>tw_fs = fs, tw_sup = p, tw_api = api\<rparr>"

lemma world_at_simps [simp]:
  "tw_fs (world_at fs p api) = fs" "tw_sup (world_at fs p api) = p" "tw_api (world_at fs p api) = api"
  "(world_at fs p api)\<lparr>tw_fs := fs'\<rparr> = world_at fs' p api"
  "(world_at fs p api)\<lparr>tw_fs := fs', tw_sup := p'\<rparr> = world_at fs' p' api"
  "(world_at fs p api)\<lparr>tw_sup := p'\<rparr> = world_at fs p' api"
  "(world_at fs p api)\<lparr>tw_api := api'\<rparr> = world_at fs p api'"
  by (simp_all add: world_at_def)

text \<open>An action of the working supervisor, whether it returns or raises.\<close>

definition works :: "tune_setup \<Rightarrow> string \<Rightarrow> tune_request \<Rightarrow> (tune_fs, 'a) act \<Rightarrow> bool" where
  "works tp n rq m \<longleftrightarrow> (\<forall>fs api. tune_path tp (world_at fs (Sup_working n rq) api) (world_at (snd (m fs)) (Sup_working n rq) api))"

named_theorems works_rules \<open>actions that are paths of the working supervisor\<close>

lemma works_ret [works_rules]: "works tp n rq (ret x)"
  by (simp add: works_def)

lemma works_throw [works_rules]: "works tp n rq (throw e)"
  by (simp add: works_def)

lemma works_gets [works_rules]: "works tp n rq (gets f)"
  by (simp add: works_def)

lemma works_raise_or [works_rules]: "works tp n rq (raise_or r)"
  by (cases r) (simp_all add: raise_or_def works_rules)

lemma works_bind [works_rules]:
  assumes "works tp n rq m" "\<And>x. works tp n rq (f x)"
  shows "works tp n rq (bind_act m f)"
  unfolding works_def
proof (intro allI)
  fix fs api
  obtain r fs1 where m: "m fs = (r, fs1)" by fastforce
  have p: "tune_path tp (world_at fs (Sup_working n rq) api) (world_at fs1 (Sup_working n rq) api)"
    using assms(1) m unfolding works_def by (metis snd_conv)
  show "tune_path tp (world_at fs (Sup_working n rq) api) (world_at (snd (bind_act m f fs)) (Sup_working n rq) api)"
  proof (cases r)
    case (Inl e)
    then show ?thesis using p m by (simp add: bind_act_def)
  next
    case (Inr x)
    have "tune_path tp (world_at fs1 (Sup_working n rq) api) (world_at (snd (f x fs1)) (Sup_working n rq) api)"
      using assms(2) unfolding works_def by blast
    then show ?thesis using p m Inr by (simp add: bind_act_def)
  qed
qed

lemma works_publish [works_rules]: "works tp n rq (publish_overview (tp_str tp) (tp_settings tp) (tp_host tp) tick)"
  unfolding works_def
proof (intro allI)
  fix fs api
  obtain res fs' where p: "publish_overview (tp_str tp) (tp_settings tp) (tp_host tp) tick fs = (res, fs')" by fastforce
  show "tune_path tp (world_at fs (Sup_working n rq) api)
      (world_at (snd (publish_overview (tp_str tp) (tp_settings tp) (tp_host tp) tick fs)) (Sup_working n rq) api)"
    using tune_step.publish [of tp tick "world_at fs (Sup_working n rq) api" res fs'] p by auto
qed

lemma works_report [works_rules]:
  assumes "st = Tune_queued \<or> st = Tune_running"
  shows "works tp n rq (write_status tick rq st stage p events result failure previous)"
  unfolding works_def
proof (intro allI)
  fix fs api
  obtain res fs' where w: "write_status tick rq st stage p events result failure previous fs = (res, fs')" by fastforce
  show "tune_path tp (world_at fs (Sup_working n rq) api)
      (world_at (snd (write_status tick rq st stage p events result failure previous fs)) (Sup_working n rq) api)"
    using write_status_ok [OF w]
  proof (elim disjE exE conjE)
    fix doc assume "res = Inr doc"
    then show ?thesis using tune_step.report [of "world_at fs (Sup_working n rq) api" n rq st tick stage p events result failure
        previous doc fs' tp] assms w by auto
  next
    fix e assume "fs' = fs"
    then show ?thesis using w by simp
  qed
qed

lemma works_beats [works_rules]:
  "works tp n rq (preflight_beats (tp_str tp) (tp_settings tp) (tp_host tp) ch rq k m running)"
  by (induction m arbitrary: k running) (auto intro!: works_rules)

lemma works_update [works_rules]:
  "works tp n rq (update_running (tp_str tp) (tp_settings tp) (tp_host tp) tick rq events running)"
  unfolding update_running_def Let_def by (intro works_rules) simp

lemma works_stream [works_rules]:
  "works tp n rq (stream_events (tp_str tp) (tp_settings tp) (tp_host tp) ch rq k files running)"
  by (induction files arbitrary: k running) (auto intro!: works_rules)

lemma works_command [works_rules]:
  "works tp n rq (run_command (tp_str tp) (tp_settings tp) (tp_host tp) ch rq running)"
  unfolding run_command_def Let_def by (intro works_rules) simp

section \<open>One job\<close>

lemma bind_assoc: "bind_act (bind_act m f) g = bind_act m (\<lambda>x. bind_act (f x) g)"
  by (rule ext) (simp add: bind_act_def split: prod.split sum.split)

text \<open>What follows the creation of the run directory.\<close>

definition after_mkdir ::
  "(json \<Rightarrow> string) \<Rightarrow> tune_settings \<Rightarrow> tune_host \<Rightarrow> child_run \<Rightarrow> tune_request \<Rightarrow> (tune_fs, nat \<times> (string \<times> json) list) act" where
  "after_mkdir py_str ts ho ch rq =
     bind_act (write_status (ch_tick ch 0) rq Tune_queued ''queued'' 0 [] None [] None) (\<lambda>queued.
     bind_act (write_status (ch_tick ch 1) rq Tune_running ''preflight'' (2 / 100) [] None [] (Some queued)) (\<lambda>running.
     bind_act (publish_overview py_str ts ho (ch_tick ch 1)) (\<lambda>_. run_command py_str ts ho ch rq running)))"

lemma execute_split:
  "execute py_str ts ho ch rq = bind_act (make_run_dir (tr_job_id rq)) (\<lambda>_.
     bind_act (after_mkdir py_str ts ho ch rq) (\<lambda>(k, running). finish_job py_str ch rq k running))"
  by (simp add: execute_def begin_job_def after_mkdir_def bind_assoc)

lemma works_after_mkdir: "works tp n rq (after_mkdir (tp_str tp) (tp_settings tp) (tp_host tp) ch rq)"
  unfolding after_mkdir_def by (intro works_rules) simp_all

lemma finish_job_cases:
  assumes "finish_job py_str ch rq k running fs = (res, fs')"
  shows "(\<exists>e. res = Inl e \<and> fs' = fs)
    \<or> (\<exists>doc st stage p events result failure. res = Inr doc \<and> (st = Tune_completed \<or> st = Tune_failed)
        \<and> write_status (ch_tick ch k) rq st stage p events result failure (Some running) fs = (Inr doc, fs'))"
proof -
  have ends: "(\<exists>e. res = Inl e \<and> fs' = fs)
    \<or> (\<exists>doc st stage p events result failure. res = Inr doc \<and> (st = Tune_completed \<or> st = Tune_failed)
        \<and> write_status (ch_tick ch k) rq st stage p events result failure (Some running) fs = (Inr doc, fs'))"
    if "write_status (ch_tick ch k) rq st stage p events result failure (Some running) fs = (res, fs')" "st = Tune_completed \<or> st = Tune_failed"
    for st stage p events result failure
    using write_status_ok [OF that(1)] that by blast
  show ?thesis
  proof (cases "ch_exit ch")
    case (Inl e)
    then show ?thesis using assms by (auto simp: finish_job_def bind_act_def raise_or_def throw_def)
  next
    case (Inr code)
    note c = this
    show ?thesis
    proof (cases "read_events py_str (snd (ch_tick ch k)) (ch_final ch)")
      case (Inl e)
      then show ?thesis using assms c by (auto simp: finish_job_def bind_act_def raise_or_def throw_def ret_def)
    next
      case (Inr events)
      note red = finish_job_def c Inr raise_or_def sum.case
      show ?thesis
      proof (cases "code = 0")
        case False
        then show ?thesis using assms ends unfolding red by (simp add: bind_act_def ret_def)
      next
        case True
        then show ?thesis
        proof (cases "ch_result ch")
          case None
          then show ?thesis using assms True unfolding red by (auto simp: bind_act_def ret_def throw_def)
        next
          case (Some doc)
          show ?thesis
          proof (cases "object_doc doc")
            case (Inl e)
            have "finish_job py_str ch rq k running fs = (Inl e, fs)"
              unfolding red by (simp add: True Some Inl bind_act_def ret_def throw_def)
            then show ?thesis using assms by simp
          next
            case (Inr payload)
            then show ?thesis using assms True Some ends unfolding red by (simp add: bind_act_def ret_def)
          qed
        qed
      qed
    qed
  qed
qed

text \<open>How one attempt at a claimed request ends: settled; an error before or after work on it began.\<close>

lemma attempt_path:
  assumes tp: "tp_str tp = se_py_str en" "tp_iso tp = se_parse_iso en"
    and at: "attempt_claim en (tp_settings tp) (tp_host tp) n fs = (res, fs')"
  shows "(\<exists>final fs1 tick st stage p events result failure previous. res = Inr final \<and> (st = Tune_completed \<or> st = Tune_failed)
        \<and> tune_path tp (world_at fs (Sup_claimed n) api) (world_at fs1 (Sup_working n (known_request en n fs)) api)
        \<and> write_status tick (known_request en n fs) st stage p events result failure previous fs1 = (Inr final, fs'))
    \<or> (\<exists>e. res = Inl e \<and> (tune_path tp (world_at fs (Sup_claimed n) api) (world_at fs' (Sup_working n (known_request en n fs)) api)
        \<or> fs' = fs \<and> refused_claim (tp_iso tp) (snd (se_fail_tick en)) (se_seconds en) n fs (known_request en n fs)))"
proof (cases "read_claim (se_parse_iso en) n fs")
  case (Inl e)
  then show ?thesis using at
    by (auto simp: attempt_claim_def bind_act_def raise_or_def throw_def refused_claim_def known_request_def tp)
next
  case (Inr rq)
  then have rq: "known_request en n fs = rq" by (simp add: known_request_def)
  have ex: "execute (se_py_str en) (tp_settings tp) (tp_host tp) (se_child en) rq fs = (res, fs')"
    using at Inr by (simp add: attempt_claim_def bind_act_def raise_or_def ret_def)
  show ?thesis
  proof (cases "tr_job_id rq \<in> set (fs_runs fs)")
    case True
    then have "res = Inl FileExistsError" "fs' = fs"
      using ex by (simp_all add: execute_split bind_act_def make_run_dir_def)
    moreover have "refused_claim (tp_iso tp) (snd (se_fail_tick en)) (se_seconds en) n fs rq"
      using True Inr by (simp add: refused_claim_def tp)
    ultimately show ?thesis using rq by simp
  next
    case False
    define fs0 where "fs0 = fs\<lparr>fs_runs := tr_job_id rq # fs_runs fs\<rparr>"
    have mk: "make_run_dir (tr_job_id rq) fs = (Inr (), fs0)" using False by (simp add: make_run_dir_def fs0_def)
    obtain r fs1 where m: "after_mkdir (se_py_str en) (tp_settings tp) (tp_host tp) (se_child en) rq fs0 = (r, fs1)" by fastforce
    have "tune_path tp (world_at fs0 (Sup_working n rq) api) (world_at fs1 (Sup_working n rq) api)"
      using works_after_mkdir [of tp n rq "se_child en"] m unfolding works_def tp by (metis snd_conv)
    moreover have "tune_step tp (world_at fs (Sup_claimed n) api) (world_at fs0 (Sup_working n rq) api)"
      using tune_step.start [of "world_at fs (Sup_claimed n) api" n tp rq fs0] Inr mk tp by simp
    ultimately have work: "tune_path tp (world_at fs (Sup_claimed n) api) (world_at fs1 (Sup_working n rq) api)"
      by (rule converse_rtranclp_into_rtranclp [rotated])
    show ?thesis
    proof (cases r)
      case (Inl e)
      then have "res = Inl e" "fs' = fs1" using ex mk m by (simp_all add: execute_split bind_act_def)
      then show ?thesis using work rq by blast
    next
      case (Inr x)
      obtain k running where x: "x = (k, running)" by fastforce
      have fin: "finish_job (se_py_str en) (se_child en) rq k running fs1 = (res, fs')"
        using ex mk m Inr x by (simp add: execute_split bind_act_def)
      from finish_job_cases [OF this] show ?thesis
      proof (elim disjE exE)
        fix e assume "res = Inl e \<and> fs' = fs1"
        then show ?thesis using work rq by blast
      next
        fix doc st stage p events result failure
        assume "res = Inr doc \<and> (st = Tune_completed \<or> st = Tune_failed)
          \<and> write_status (ch_tick (se_child en) k) rq st stage p events result failure (Some running) fs1 = (Inr doc, fs')"
        then show ?thesis unfolding rq using work by blast
      qed
    qed
  qed
qed

text \<open>A settled claim: the final status comes after a path to a state in which the job was worked on or refused.\<close>

lemma settle_cases:
  assumes tp: "tp_str tp = se_py_str en" "tp_iso tp = se_parse_iso en"
    and st: "settle_claim en (tp_settings tp) (tp_host tp) n fs = (res, fs')"
  obtains final fs1 fs2 tick st stage p events result failure previous where
      "fs' = clean_claim n (known_request en n fs) fs2" "res = Inr final" "st = Tune_completed \<or> st = Tune_failed"
      "tune_path tp (world_at fs (Sup_claimed n) api) (world_at fs1 (Sup_working n (known_request en n fs)) api)"
      "write_status tick (known_request en n fs) st stage p events result failure previous fs1 = (Inr final, fs2)"
  | fs1 fs2 e where
      "fs' = clean_claim n (known_request en n fs) fs2"
      "tune_path tp (world_at fs (Sup_claimed n) api) (world_at fs1 (Sup_working n (known_request en n fs)) api)"
      "failed_job (se_fail_tick en) (known_request en n fs) e fs1 = (res, fs2)"
  | fs2 e where
      "fs' = clean_claim n (known_request en n fs) fs2"
      "refused_claim (tp_iso tp) (snd (se_fail_tick en)) (se_seconds en) n fs (known_request en n fs)"
      "failed_job (se_fail_tick en) (known_request en n fs) e fs = (res, fs2)"
proof -
  obtain r fs1 where at: "attempt_claim en (tp_settings tp) (tp_host tp) n fs = (r, fs1)" by fastforce
  show thesis
  proof (cases r)
    case (Inr final)
    then have "fs' = clean_claim n (known_request en n fs) fs1" "res = Inr final"
      using st at by (simp_all add: settle_claim_def Let_def)
    moreover from attempt_path [OF tp at, of api, unfolded Inr sum.inject sum.distinct] obtain g tick st stage p events result failure previous where
        "st = Tune_completed \<or> st = Tune_failed"
        "tune_path tp (world_at fs (Sup_claimed n) api) (world_at g (Sup_working n (known_request en n fs)) api)"
        "write_status tick (known_request en n fs) st stage p events result failure previous g = (Inr final, fs1)"
      by blast
    ultimately show thesis by (rule that(1))
  next
    case (Inl e)
    obtain r2 fs2 where fj: "failed_job (se_fail_tick en) (known_request en n fs) e fs1 = (r2, fs2)" by fastforce
    then have "fs' = clean_claim n (known_request en n fs) fs2" "res = r2"
      using st at Inl by (simp_all add: settle_claim_def Let_def)
    then show thesis using attempt_path [OF tp at, of api] Inl fj that(2,3) by auto
  qed
qed

lemma settle_path:
  assumes tp: "tp_str tp = se_py_str en" "tp_iso tp = se_parse_iso en"
  shows "tune_path tp (world_at fs (Sup_claimed n) api)
     (world_at (snd (settle_claim en (tp_settings tp) (tp_host tp) n fs)) Sup_idle api)"
proof -
  let ?rq = "known_request en n fs"
  obtain res fs' where st: "settle_claim en (tp_settings tp) (tp_host tp) n fs = (res, fs')" by fastforce
  have clean: "tune_step tp (world_at g (Sup_settled n ?rq) api) (world_at (clean_claim n ?rq g) Sup_idle api)" for g
    using tune_step.clean [of "world_at g (Sup_settled n ?rq) api" n ?rq tp] by simp
  from settle_cases [OF tp st, of api] show ?thesis
  proof cases
    case (1 final fs1 fs2 tick st' stage p events result failure previous)
    have "tune_step tp (world_at fs1 (Sup_working n ?rq) api) (world_at fs2 (Sup_settled n ?rq) api)"
      using tune_step.finish [of "world_at fs1 (Sup_working n ?rq) api" n ?rq st' tick stage p events result failure previous final fs2 tp]
        1(3,5) by simp
    then show ?thesis using 1(1,4) st clean [of fs2] by simp
  next
    case (2 fs1 fs2 e)
    have "tune_step tp (world_at fs1 (Sup_working n ?rq) api) (world_at fs2 (Sup_settled n ?rq) api)"
      using tune_step.give_up [of "world_at fs1 (Sup_working n ?rq) api" n ?rq tp _ _ _ e res fs2] 2(3) by simp
    then show ?thesis using 2(1,2) st clean [of fs2] by simp
  next
    case (3 fs2 e)
    then have "tune_step tp (world_at fs (Sup_claimed n) api) (world_at fs2 (Sup_settled n ?rq) api)"
      using tune_step.give_up [of "world_at fs (Sup_claimed n) api" n ?rq tp _ _ _ e res fs2] by simp
    then show ?thesis using 3(1) st clean [of fs2] by simp
  qed
qed

section \<open>The supervisor and the API\<close>

lemma publish_path:
  "tune_path tp (world_at fs p api) (world_at (snd (publish_overview (tp_str tp) (tp_settings tp) (tp_host tp) tick fs)) p api)"
  using tune_step.publish [of tp tick "world_at fs p api"]
  by (cases "publish_overview (tp_str tp) (tp_settings tp) (tp_host tp) tick fs") auto

lemma run_once_path:
  assumes tp: "tp_str tp = se_py_str en" "tp_iso tp = se_parse_iso en"
  shows "tune_path tp (world_at fs Sup_idle api) (world_at (snd (run_once en (tp_settings tp) (tp_host tp) now fs)) Sup_idle api)"
proof -
  let ?fs0 = "recover_stale_processing (tp_settings tp) now fs"
  let ?fs1 = "delete_expired_uploads (tp_settings tp) now ?fs0"
  have "tune_step tp (world_at fs Sup_idle api) (world_at ?fs0 Sup_idle api)"
    using tune_step.recover [of "world_at fs Sup_idle api" tp now] by simp
  moreover have "tune_step tp (world_at ?fs0 Sup_idle api) (world_at ?fs1 Sup_idle api)"
    using tune_step.uploads [of tp "world_at ?fs0 Sup_idle api"] by (simp add: delete_expired_uploads_def)
  ultimately have start: "tune_path tp (world_at fs Sup_idle api) (world_at ?fs1 Sup_idle api)" by simp
  obtain c fs2 where c: "claim_next ?fs1 = (c, fs2)" by fastforce
  show ?thesis
  proof (cases c)
    case None
    then have "fs2 = ?fs1" using c by (auto simp: claim_next_def split: list.splits)
    then have "snd (run_once en (tp_settings tp) (tp_host tp) now fs)
        = snd (publish_overview (tp_str tp) (tp_settings tp) (tp_host tp) (se_last_tick en) ?fs1)"
      using c None by (auto simp: run_once_def Let_def bind_act_def tp ret_def split: prod.splits sum.splits)
    then show ?thesis using start publish_path by (metis rtranclp_trans)
  next
    case (Some n)
    have "tune_step tp (world_at ?fs1 Sup_idle api) (world_at fs2 (Sup_claimed n) api)"
      using tune_step.claim [of "world_at ?fs1 Sup_idle api" n fs2 tp] c Some by simp
    with start have claimed: "tune_path tp (world_at fs Sup_idle api) (world_at fs2 (Sup_claimed n) api)" by simp
    obtain r fs3 where st: "settle_claim en (tp_settings tp) (tp_host tp) n fs2 = (r, fs3)" by fastforce
    have settled: "tune_path tp (world_at fs Sup_idle api) (world_at fs3 Sup_idle api)"
      using claimed settle_path [OF tp, of fs2 n api] st by (metis rtranclp_trans snd_conv)
    have "snd (run_once en (tp_settings tp) (tp_host tp) now fs) = (case r of Inl e \<Rightarrow> fs3
        | Inr final \<Rightarrow> snd (publish_overview (tp_str tp) (tp_settings tp) (tp_host tp) (se_last_tick en) fs3))"
      using c Some st
      by (auto simp: run_once_def Let_def process_claim_def bind_act_def tp ret_def split: prod.splits sum.splits)
    then show ?thesis using settled publish_path by (cases r) (simp, metis rtranclp_trans sum.case(2))
  qed
qed

lemma enqueue_path:
  assumes fresh: "fresh_job (uuid_str (ae_uuid ae)) fs"
  shows "tune_path tp (world_at fs p None) (world_at (snd (enqueue (tc_lock_stale (tp_config tp)) job_written request_written
     (uuid_str (ae_uuid ae)) (ae_mtime ae) (request_doc ae kind extra) (queued_doc ae kind) fs)) p None)"
    (is "tune_path tp ?w (world_at (snd ?enq) p None)")
proof (cases "take_lock (tc_lock_stale (tp_config tp)) (ae_mtime ae) fs")
  case None
  then show ?thesis by (simp add: enqueue_def)
next
  case (Some held)
  let ?i = "uuid_str (ae_uuid ae)"
  have unlock: "tune_path tp ?w (world_at (held\<lparr>fs_lock := None\<rparr>) p None)"
    using tune_step.api_refused [of tp ?w None] take_lock_held [OF Some] by auto
  show ?thesis
  proof (cases "active_job_exists held = Inr False")
    case False
    then have "snd ?enq = held\<lparr>fs_lock := None\<rparr>"
      using Some by (auto simp: enqueue_def Let_def split: sum.splits bool.splits)
    then show ?thesis using unlock by simp
  next
    case True
    let ?job = "world_at (put_job ?i (ae_mtime ae) (queued_doc ae kind) held) p (Some (ae, kind, extra))"
    have j: "tune_step tp ?w ?job"
      using tune_step.api_job [of ?w ae tp held kind extra] fresh Some True by simp
    have pub: "snd ?enq = (snd (publish_pair job_written request_written ?i (ae_mtime ae) (request_doc ae kind extra)
        (queued_doc ae kind) held))\<lparr>fs_lock := None\<rparr>"
      using Some True by (simp add: enqueue_def split: prod.splits)
    have undo: "tune_step tp ?job (world_at ((drop_pair ?i (put_job ?i (ae_mtime ae) (queued_doc ae kind) held))\<lparr>fs_lock := None\<rparr>) p None)"
      using tune_step.api_undo [of ?job ae kind extra tp] by simp
    have again: "drop_pair ?i (put_job ?i t doc held) = drop_pair ?i held" for t doc
      by (simp add: drop_pair_def put_job_def put_file_def AList.delete_update_same)
    show ?thesis
    proof (cases "job_written \<and> request_written")
      case True
      have "tune_step tp ?job (world_at ((put_request ?i (ae_mtime ae) (request_doc ae kind extra)
          (put_job ?i (ae_mtime ae) (queued_doc ae kind) held))\<lparr>fs_lock := None\<rparr>) p None)"
        using tune_step.api_request [of ?job ae kind extra tp] by simp
      then show ?thesis using j pub True by (simp add: publish_pair_def)
    next
      case False
      then have "snd ?enq = (drop_pair ?i (put_job ?i (ae_mtime ae) (queued_doc ae kind) held))\<lparr>fs_lock := None\<rparr>"
        using pub again by (auto simp: publish_pair_def)
      then show ?thesis using j undo by simp
    qed
  qed
qed

end
