(* ===== verification/Tune_Claims.thy ===== *)
theory Tune_Claims
  imports Tune_Paths
begin

text \<open>
  What the tuning demo promises: at most one active job however API and supervisor interleave or
  stop, a claimed job that always ends, what a crash in the middle of a job leads to, and that a
  request the API accepts is one the supervisor runs.
\<close>

section \<open>Laws of the invariant\<close>

lemma reachable_path: "tune_reachable tp w \<Longrightarrow> tune_path tp w w' \<Longrightarrow> tune_reachable tp w'"
  unfolding tune_reachable_def by (rule rtranclp_trans)

lemma world_at_id: "world_at (tw_fs w) (tw_sup w) (tw_api w) = w"
  by (simp add: world_at_def)

lemma enqueue_busy:
  assumes "tune_jobs_ok fs" "job_active fs i" "uuid_text i"
  shows "fst (enqueue stale job_written request_written j t rd jd fs) = Inl Busy"
proof (cases "take_lock stale t fs")
  case (Some held)
  then have "active_job_exists held = Inr True"
    using active_exists(2) [OF assms] take_lock_held [OF Some] by simp
  then show ?thesis using Some by (simp add: enqueue_def)
qed (simp add: enqueue_def)

lemma enqueue_free:
  assumes "active_job_exists fs = Inr False" "fs_lock fs = None"
  shows "fst (enqueue stale True True j t rd jd fs) = Inr ()"
  using assms by (simp add: enqueue_def take_lock_def publish_pair_def)

lemma active_only:
  assumes "tune_reachable tp w" "job_active (tw_fs w) i"
  shows "job_active (tw_fs w) j \<Longrightarrow> j = i" "\<exists>u. i = uuid_str u" "uuid_text i"
  using tune_invD(2) [OF tune_inv_reachable [OF assms(1)]] assms(2) uuid_text_uuid by (auto simp: one_active_def)

lemma reachable_run_once:
  assumes "tune_reachable tp w" "tw_sup w = Sup_idle" "tp_str tp = se_py_str en" "tp_iso tp = se_parse_iso en"
  shows "tune_reachable tp (w\<lparr>tw_fs := snd (run_once en (tp_settings tp) (tp_host tp) now (tw_fs w))\<rparr>)"
proof -
  have "world_at (tw_fs w) Sup_idle (tw_api w) = w" using world_at_id [of w] assms(2) by simp
  moreover have "world_at (snd (run_once en (tp_settings tp) (tp_host tp) now (tw_fs w))) Sup_idle (tw_api w)
      = w\<lparr>tw_fs := snd (run_once en (tp_settings tp) (tp_host tp) now (tw_fs w))\<rparr>"
    using assms(2) by (simp add: world_at_def)
  ultimately show ?thesis using reachable_path [OF assms(1)] run_once_path [OF assms(3,4), of "tw_fs w" "tw_api w" now] by metis
qed

lemma reachable_enqueue:
  assumes "tune_reachable tp w" "tw_api w = None" "fresh_job (uuid_str (ae_uuid ae)) (tw_fs w)"
  shows "tune_reachable tp (w\<lparr>tw_fs := snd (enqueue (tc_lock_stale (tp_config tp)) job_written request_written (uuid_str (ae_uuid ae))
     (ae_mtime ae) (request_doc ae kind extra) (queued_doc ae kind) (tw_fs w))\<rparr>)"
proof -
  let ?fs = "snd (enqueue (tc_lock_stale (tp_config tp)) job_written request_written (uuid_str (ae_uuid ae))
     (ae_mtime ae) (request_doc ae kind extra) (queued_doc ae kind) (tw_fs w))"
  have "world_at (tw_fs w) (tw_sup w) None = w" "world_at ?fs (tw_sup w) None = w\<lparr>tw_fs := ?fs\<rparr>"
    using world_at_id [of w] assms(2) by (simp_all add: world_at_def)
  then show ?thesis using reachable_path [OF assms(1)] enqueue_path [OF assms(3), of tp "tw_sup w"] by metis
qed

text \<open>Once settled, no job is active, and the document written last is a final one of the job.\<close>

lemma jget_job_id: "build_status now rq st stage p events result failure previous = Inr doc \<Longrightarrow> jget doc ''job_id'' = JStr (tr_job_id rq)"
  by (auto simp: build_status_def Let_def jget_def split: if_splits)

lemma written_doc:
  assumes "write_status tick rq st stage p events result failure previous fs = (Inr doc, fs')"
  shows "fs' = put_job (tr_job_id rq) (fst tick) doc fs" "jget doc ''status'' = JStr (status_text st)"
    "jget doc ''job_id'' = JStr (tr_job_id rq)"
proof -
  show "fs' = put_job (tr_job_id rq) (fst tick) doc fs" "jget doc ''status'' = JStr (status_text st)"
    using write_status_ok [OF assms] by auto
  have "build_status (snd tick) rq st stage p events result failure previous = Inr doc"
    using assms by (cases "build_status (snd tick) rq st stage p events result failure previous")
      (auto simp: write_status_def bind_act_def raise_or_def write_job_def throw_def ret_def)
  then show "jget doc ''job_id'' = JStr (tr_job_id rq)" by (rule jget_job_id)
qed

lemma failed_doc:
  assumes "tune_jobs_ok fs" "failed_job tick rq e fs = (res, fs')"
  obtains doc where "res = Inr doc" "fs' = put_job (tr_job_id rq) (fst tick) doc fs"
    "jget doc ''status'' = JStr (status_text Tune_failed)" "jget doc ''job_id'' = JStr (tr_job_id rq)"
    "jget doc ''failure_reason'' = JStr (bounded_text (exc_class e @ '': job could not be completed'') max_public_text)"
proof -
  obtain doc where doc: "res = Inr doc" "fs' = put_job (tr_job_id rq) (fst tick) doc fs" "jget doc ''status'' = JStr (status_text Tune_failed)"
    using failed_job_ok [OF assms] by blast
  have "(case (case map_of (fs_jobs fs) (json_file (tr_job_id rq)) of None \<Rightarrow> Inr None
      | Some f \<Rightarrow> try_in (read_json_object f) (\<lambda>d. Inr (Some d))) of Inl err \<Rightarrow> (Inl err, fs)
      | Inr previous \<Rightarrow> write_status tick rq Tune_failed ''failed'' 1 [] None (exc_class e @ '': job could not be completed'') previous fs) = (Inr doc, fs')"
    using assms(2) doc(1) by (simp add: failed_job_def)
  then obtain previous where w: "write_status tick rq Tune_failed ''failed'' 1 [] None (exc_class e @ '': job could not be completed'') previous fs = (Inr doc, fs')"
    by (auto split: sum.splits)
  have "build_status (snd tick) rq Tune_failed ''failed'' 1 [] None (exc_class e @ '': job could not be completed'') previous = Inr doc"
    using w by (cases "build_status (snd tick) rq Tune_failed ''failed'' 1 [] None (exc_class e @ '': job could not be completed'') previous")
      (auto simp: write_status_def bind_act_def raise_or_def write_job_def throw_def ret_def)
  then have "jget doc ''failure_reason'' = JStr (bounded_text (exc_class e @ '': job could not be completed'') max_public_text)"
    by (auto simp: build_status_def Let_def jget_def)
  with doc written_doc(3) [OF w] that show thesis by blast
qed

lemma no_active_after:
  assumes "one_active fs" "job_active fs i" "jget doc ''status'' = JStr (status_text st)" "st = Tune_completed \<or> st = Tune_failed"
  shows "\<not> job_active (put_job i t doc fs) j"
  using assms status_active_text [OF assms(3)] by (auto simp: job_active_put one_active_def)

lemma known_id:
  assumes "n = queue_name (uuid_str u) 1"
  shows "tr_job_id (known_request en n fs) = uuid_str u"
proof (cases "read_claim (se_parse_iso en) n fs")
  case (Inl e)
  then show ?thesis using inferred_id [of _ _ u 0] assms by (simp add: known_request_def)
next
  case (Inr rq)
  then show ?thesis using read_claim_id(2) [of "se_parse_iso en" u 0 fs rq] assms by (simp add: known_request_def)
qed

lemma clean_claim_fields [simp]:
  "fs_jobs (clean_claim n rq fs) = fs_jobs fs" "fs_requests (clean_claim n rq fs) = AList.delete n (fs_requests fs)"
  "fs_lock (clean_claim n rq fs) = fs_lock fs"
  by (simp_all add: clean_claim_def)

lemma settled_jobs:
  assumes tp: "tp_str tp = se_py_str en" "tp_iso tp = se_parse_iso en"
    and w: "tune_reachable tp w" "tw_sup w = Sup_claimed n" and n: "n = queue_name i 1" and act: "job_active (tw_fs w) i"
    and st: "settle_claim en (tp_settings tp) (tp_host tp) n (tw_fs w) = (res, fs')"
  shows "\<exists>final. res = Inr final \<and> jget final ''job_id'' = JStr i \<and> jget final ''status'' \<in> {JStr ''completed'', JStr ''failed''}
      \<and> (\<exists>t. map_of (fs_jobs fs') (json_file i) = Some \<lparr>tf_mtime = t, tf_doc = Some (JObj final)\<rparr>)" (is "?final")
    and "\<And>j. \<not> job_active fs' j" "n \<notin> dom (map_of (fs_requests fs'))"
proof -
  let ?rq = "known_request en n (tw_fs w)"
  have wid: "world_at (tw_fs w) (Sup_claimed n) (tw_api w) = w" using world_at_id [of w] w(2) by simp
  obtain u where u: "i = uuid_str u" using active_only(2) [OF w(1) act] by blast
  have id: "tr_job_id ?rq = i" using known_id [of n u] n u by simp
  have inv: "tune_inv tp w" by (rule tune_inv_reachable [OF w(1)])
  have work: "tune_jobs_ok fs1 \<and> one_active fs1 \<and> job_active fs1 i"
    if "tune_path tp (world_at (tw_fs w) (Sup_claimed n) (tw_api w)) (world_at fs1 (Sup_working n ?rq) (tw_api w))" for fs1
  proof -
    have "tune_inv tp (world_at fs1 (Sup_working n ?rq) (tw_api w))"
      using tune_inv_reachable reachable_path [OF w(1)] that wid by metis
    from tune_invD(1,2,4) [OF this] show ?thesis using id by auto
  qed
  have "?final \<and> (\<forall>j. \<not> job_active fs' j) \<and> n \<notin> dom (map_of (fs_requests fs'))"
    using settle_cases [OF tp st, of "tw_api w"]
  proof cases
    case (1 final fs1 fs2 tick st' stage p events result failure previous)
    note d = written_doc [OF 1(5)] and ok = work [OF 1(4)]
    have "\<not> job_active fs2 j" for j
      unfolding d(1) id using no_active_after [OF _ _ d(2) 1(3)] ok by blast
    then show ?thesis using 1(1,2,3) d id
      by (auto simp: map_of_delete put_job_def put_file_def map_of_update job_active_def)
  next
    case (2 fs1 fs2 e)
    note ok = work [OF 2(2)]
    from failed_doc [OF conjunct1 [OF ok] 2(3)] obtain doc where doc: "res = Inr doc" "fs2 = put_job i (fst (se_fail_tick en)) doc fs1"
      "jget doc ''status'' = JStr (status_text Tune_failed)" "jget doc ''job_id'' = JStr i" using id by metis
    have "\<not> job_active fs2 j" for j unfolding doc(2) using no_active_after [OF _ _ doc(3)] ok by blast
    then show ?thesis using 2(1) doc
      by (auto simp: map_of_delete put_job_def put_file_def map_of_update job_active_def)
  next
    case (3 fs2 e)
    from failed_doc [OF tune_invD(1) [OF inv] 3(3)] obtain doc where doc: "res = Inr doc" "fs2 = put_job i (fst (se_fail_tick en)) doc (tw_fs w)"
      "jget doc ''status'' = JStr (status_text Tune_failed)" "jget doc ''job_id'' = JStr i" using id by metis
    have "\<not> job_active fs2 j" for j unfolding doc(2) using no_active_after [OF tune_invD(2) [OF inv] act doc(3)] by blast
    then show ?thesis using 3(1) doc
      by (auto simp: map_of_delete put_job_def put_file_def map_of_update job_active_def)
  qed
  then show ?final "\<And>j. \<not> job_active fs' j" "n \<notin> dom (map_of (fs_requests fs'))" by blast+
qed

section \<open>One active job\<close>

text \<open>
  C22. In every state that API and supervisor reach, whatever the child processes do and wherever
  either of them stops, at most one job is queued or running, it has an identifier the API drew, a
  job being worked on is that job, and while there is one every further request is refused as busy.
  A complete polling iteration and a complete publication of a fresh request stay among these states.
\<close>

theorem one_active_tune_job:
  assumes "tune_reachable tp w"
  shows "(\<forall>i. job_active (tw_fs w) i \<longrightarrow> (\<forall>j. job_active (tw_fs w) j \<longrightarrow> j = i) \<and> (\<exists>u. i = uuid_str u)
        \<and> fst (enqueue stale job_written request_written j t rd jd (tw_fs w)) = Inl Busy)
    \<and> (\<forall>n rq. tw_sup w = Sup_working n rq \<longrightarrow> job_active (tw_fs w) (tr_job_id rq))
    \<and> (tw_sup w = Sup_idle \<and> tp_str tp = se_py_str en \<and> tp_iso tp = se_parse_iso en
        \<longrightarrow> tune_reachable tp (w\<lparr>tw_fs := snd (run_once en (tp_settings tp) (tp_host tp) now (tw_fs w))\<rparr>))
    \<and> (tw_api w = None \<and> fresh_job (uuid_str (ae_uuid ae)) (tw_fs w)
        \<longrightarrow> tune_reachable tp (w\<lparr>tw_fs := snd (enqueue (tc_lock_stale (tp_config tp)) job_written request_written (uuid_str (ae_uuid ae))
              (ae_mtime ae) (request_doc ae kind extra) (queued_doc ae kind) (tw_fs w))\<rparr>))"
proof (intro conjI allI impI)
  fix i assume a: "job_active (tw_fs w) i"
  show "j = i" if "job_active (tw_fs w) j" for j using active_only(1) [OF assms a that] .
  show "\<exists>u. i = uuid_str u" by (rule active_only(2) [OF assms a])
  show "fst (enqueue stale job_written request_written j t rd jd (tw_fs w)) = Inl Busy"
    by (rule enqueue_busy [OF tune_invD(1) [OF tune_inv_reachable [OF assms]] a active_only(3) [OF assms a]])
next
  fix n rq assume "tw_sup w = Sup_working n rq"
  then show "job_active (tw_fs w) (tr_job_id rq)" using tune_invD(4) [OF tune_inv_reachable [OF assms]] by auto
qed (auto intro: reachable_run_once [OF assms] reachable_enqueue [OF assms])

section \<open>A claimed job ends\<close>

text \<open>
  C28. Whatever the preflight, the command and its files do, processing the claimed request of an
  active job returns a completed or failed status that is the job's file, deletes the request and
  the upload of a live inference, and leaves no job active: the API can queue the next one.
\<close>

theorem claimed_job_settles:
  assumes "tp_str tp = se_py_str en" "tp_iso tp = se_parse_iso en"
    and "tune_reachable tp w" "tw_sup w = Sup_claimed n" "n = queue_name i 1" "job_active (tw_fs w) i"
    and "settle_claim en (tp_settings tp) (tp_host tp) n (tw_fs w) = (res, fs')"
  shows "(\<exists>final. res = Inr final \<and> jget final ''job_id'' = JStr i \<and> jget final ''status'' \<in> {JStr ''completed'', JStr ''failed''}
        \<and> (\<exists>t. map_of (fs_jobs fs') (json_file i) = Some \<lparr>tf_mtime = t, tf_doc = Some (JObj final)\<rparr>))
    \<and> n \<notin> dom (map_of (fs_requests fs'))
    \<and> (\<forall>up. tr_kind (known_request en n (tw_fs w)) = Infer_live \<and> map_option fst (tr_upload (known_request en n (tw_fs w))) = Some up
        \<longrightarrow> up \<notin> dom (map_of (fs_uploads fs')))
    \<and> (\<forall>j. \<not> job_active fs' j)
    \<and> (fs_lock fs' = None \<longrightarrow> fst (enqueue stale True True j t rd jd fs') = Inr ())"
proof (intro conjI)
  note s = settled_jobs [OF assms]
  show "\<exists>final. res = Inr final \<and> jget final ''job_id'' = JStr i \<and> jget final ''status'' \<in> {JStr ''completed'', JStr ''failed''}
        \<and> (\<exists>t. map_of (fs_jobs fs') (json_file i) = Some \<lparr>tf_mtime = t, tf_doc = Some (JObj final)\<rparr>)"
    by (rule s(1))
  show "n \<notin> dom (map_of (fs_requests fs'))" by (rule s(3))
  show "\<forall>j. \<not> job_active fs' j" using s(2) by blast
  have "tune_path tp w (world_at fs' Sup_idle (tw_api w))"
    using settle_path [OF assms(1,2), of "tw_fs w" n "tw_api w", unfolded assms(4) [symmetric] world_at_id assms(7) snd_conv] .
  then have "tune_jobs_ok fs'" using tune_invD(1) [OF tune_inv_reachable [OF reachable_path [OF assms(3)]]] by fastforce
  then have "active_job_exists fs' = Inr False" using active_exists(1) exists_active s(2) by blast
  then show "fs_lock fs' = None \<longrightarrow> fst (enqueue stale True True j t rd jd fs') = Inr ()" using enqueue_free by blast
  obtain fs2 where "fs' = clean_claim n (known_request en n (tw_fs w)) fs2"
    using assms(7) by (auto simp: settle_claim_def Let_def split: prod.splits sum.splits)
  then show "\<forall>up. tr_kind (known_request en n (tw_fs w)) = Infer_live \<and> map_option fst (tr_upload (known_request en n (tw_fs w))) = Some up
        \<longrightarrow> up \<notin> dom (map_of (fs_uploads fs'))"
    by (auto simp: clean_claim_def map_of_delete)
qed

section \<open>After a crash\<close>

lemma run_once_jobs:
  assumes "claim_next (delete_expired_uploads ts now (recover_stale_processing ts now fs)) = (Some n, fs2)"
  shows "same_queue (snd (settle_claim en ts ho n fs2)) (snd (run_once en ts ho now fs))"
proof -
  obtain r fs3 where st: "settle_claim en ts ho n fs2 = (r, fs3)" by fastforce
  obtain r4 fs4 where pub: "publish_overview (se_py_str en) ts ho (se_last_tick en) fs3 = (r4, fs4)" by fastforce
  have "snd (run_once en ts ho now fs) = (case r of Inl e \<Rightarrow> fs3 | Inr final \<Rightarrow> fs4)"
    using assms st pub by (auto simp: run_once_def Let_def process_claim_def bind_act_def ret_def split: sum.splits)
  then show ?thesis using st publish_same [OF pub] by (cases r) (simp_all add: same_queue_def)
qed

lemma recover_nothing: "fs_requests fs = [] \<Longrightarrow> recover_stale_processing ts now fs = fs"
  by (simp add: recover_stale_processing_def processing_files_def)

lemma run_once_idle:
  assumes "fs_requests fs = []"
  shows "fs_requests (snd (run_once en ts ho now fs)) = [] \<and> fs_jobs (snd (run_once en ts ho now fs)) = fs_jobs fs"
proof -
  let ?fs1 = "delete_expired_uploads ts now fs"
  obtain r fs2 where pub: "publish_overview (se_py_str en) ts ho (se_last_tick en) ?fs1 = (r, fs2)" by fastforce
  have "claim_next ?fs1 = (None, ?fs1)" using assms by (simp add: claim_next_def queued_requests_def delete_expired_uploads_def)
  then have "snd (run_once en ts ho now fs) = fs2"
    using pub by (auto simp: run_once_def Let_def recover_nothing [OF assms] bind_act_def ret_def split: sum.splits)
  then show ?thesis using publish_same [OF pub] assms by (simp add: same_queue_def delete_expired_uploads_def)
qed

lemma runs_idle:
  "fs_requests fs = [] \<Longrightarrow> fs_requests (fold (\<lambda>(en, now) fs. snd (run_once en ts ho now fs)) later fs) = []
    \<and> fs_jobs (fold (\<lambda>(en, now) fs. snd (run_once en ts ho now fs)) later fs) = fs_jobs fs"
proof (induction later arbitrary: fs)
  case (Cons x later)
  obtain en now where x: "x = (en, now)" by fastforce
  from Cons.IH [of "snd (run_once en ts ho now fs)"] run_once_idle [OF Cons.prems, of en ts ho now] show ?case
    unfolding x by simp
qed simp

lemma claim_single:
  assumes "fs_requests fs = [(queue_name (uuid_str u) k, f)]"
  shows "claim_next fs = (Some (queue_name (uuid_str u) (Suc k)), fs\<lparr>fs_requests := [(queue_name (uuid_str u) (Suc k), f)]\<rparr>)"
proof -
  have "queue_name (uuid_str u) k \<noteq> queue_name (uuid_str u) (Suc k)" unfolding queue_name_uuid_inj by simp
  then show ?thesis using assms
    by (simp add: claim_next_def queued_requests_def json_queue_name processing_queue_name move_file_def)
qed

lemma recover_single:
  assumes "fs_requests fs = [(queue_name (uuid_str u) 1, f)]"
  shows "fs_requests (recover_stale_processing ts now fs)
    = (if now - tf_mtime f < ts_processing_stale ts then fs_requests fs else [(queue_name (uuid_str u) 0, f)])"
proof -
  have "ends_with ''.processing.json'' (queue_name (uuid_str u) 1)" using processing_queue_iff [OF plain_id_uuid, of u 1] by simp
  then have names: "processing_files (fs_requests fs) = [queue_name (uuid_str u) 1]" using assms by (simp add: processing_files_def)
  have "py_replace ''.processing.json'' ''.json'' (queue_name (uuid_str u) 1) = queue_name (uuid_str u) 0"
    using recover_queue_name [OF plain_id_uuid, of u 0] by simp
  moreover have "queue_name (uuid_str u) 1 \<noteq> queue_name (uuid_str u) 0" unfolding queue_name_uuid_inj by simp
  ultimately show ?thesis using assms names
    by (simp add: recover_stale_processing_def recover_one_def move_file_def del: py_replace.simps)
qed

lemma same_queue_frames:
  "fs_jobs (recover_stale_processing ts now fs) = fs_jobs fs" "fs_runs (recover_stale_processing ts now fs) = fs_runs fs"
  "fs_jobs (delete_expired_uploads ts now fs) = fs_jobs fs" "fs_runs (delete_expired_uploads ts now fs) = fs_runs fs"
  "fs_requests (delete_expired_uploads ts now fs) = fs_requests fs"
  by (simp_all add: recover_stale_processing_def delete_expired_uploads_def)

text \<open>An attempt that ends before any status is written.\<close>

lemma settle_error:
  assumes "attempt_claim en ts ho n fs = (Inl e, fs)" "tune_jobs_ok fs"
  shows "\<exists>doc. settle_claim en ts ho n fs = (Inr doc, clean_claim n (known_request en n fs)
        (put_job (tr_job_id (known_request en n fs)) (fst (se_fail_tick en)) doc fs))
    \<and> jget doc ''status'' = JStr ''failed''
    \<and> jget doc ''failure_reason'' = JStr (bounded_text (exc_class e @ '': job could not be completed'') max_public_text)"
proof -
  obtain r fs2 where fj: "failed_job (se_fail_tick en) (known_request en n fs) e fs = (r, fs2)" by fastforce
  from failed_doc [OF assms(2) fj] obtain doc where doc: "r = Inr doc"
    "fs2 = put_job (tr_job_id (known_request en n fs)) (fst (se_fail_tick en)) doc fs" "jget doc ''status'' = JStr (status_text Tune_failed)"
    "jget doc ''failure_reason'' = JStr (bounded_text (exc_class e @ '': job could not be completed'') max_public_text)" by blast
  have "settle_claim en ts ho n fs = (r, clean_claim n (known_request en n fs) fs2)"
    by (simp add: settle_claim_def Let_def assms(1) fj)
  then show ?thesis using doc by simp
qed

text \<open>A restart over one claimed file that is not stale: the second claim is refused and removed.\<close>

lemma fresh_claim_lost:
  assumes u: "fs_requests fs = [(queue_name (uuid_str u) 1, f)]" "job_active fs (uuid_str u)" "tune_jobs_ok fs"
    and fresh: "now - tf_mtime f < ts_processing_stale ts"
  shows "fs_requests (snd (run_once en ts ho now fs)) = []
    \<and> job_active (snd (run_once en ts ho now fs)) (uuid_str u) \<and> tune_jobs_ok (snd (run_once en ts ho now fs))"
proof -
  let ?fs1 = "delete_expired_uploads ts now (recover_stale_processing ts now fs)"
  let ?out = "snd (run_once en ts ho now fs)"
  let ?n2 = "queue_name (uuid_str u) (Suc 1)"
  have req: "fs_requests ?fs1 = [(queue_name (uuid_str u) 1, f)]"
    using recover_single [of fs u f ts now] u(1) fresh by (simp add: same_queue_frames)
  define fs2 where "fs2 = ?fs1\<lparr>fs_requests := [(?n2, f)]\<rparr>"
  have c: "claim_next ?fs1 = (Some ?n2, fs2)" unfolding fs2_def by (rule claim_single) (rule req)
  obtain err where err: "read_claim (se_parse_iso en) ?n2 fs2 = Inl err"
    using read_claim_id(1) [of "se_parse_iso en" u 1 fs2] by (cases "read_claim (se_parse_iso en) ?n2 fs2") auto
  have at: "attempt_claim en ts ho ?n2 fs2 = (Inl err, fs2)"
    unfolding attempt_claim_def bind_act_def gets_def prod.case sum.case err raise_or_def throw_def by simp
  have ok2: "tune_jobs_ok fs2" using u(3) by (simp add: fs2_def tune_jobs_ok_def same_queue_frames)
  have act2: "job_active fs2 = job_active fs" by (rule job_active_same) (simp add: fs2_def same_queue_frames)
  from settle_error [OF at ok2] obtain doc where st: "settle_claim en ts ho ?n2 fs2 = (Inr doc, clean_claim ?n2 (known_request en ?n2 fs2)
      (put_job (tr_job_id (known_request en ?n2 fs2)) (fst (se_fail_tick en)) doc fs2))" and d: "jget doc ''status'' = JStr (status_text Tune_failed)"
    by auto
  have known: "known_request en ?n2 fs2 = inferred_request (snd (se_fail_tick en)) (se_seconds en) ?n2"
    by (simp only: known_request_def err sum.case)
  have other: "tr_job_id (known_request en ?n2 fs2) \<noteq> uuid_str u"
    unfolding known inferred_id using invalid_not_uuid by simp
  note sq = run_once_jobs [OF c, of en ho, unfolded st snd_conv]
  have "job_active ?out (uuid_str u)"
    using sq act2 u(2) other job_active_same [of ?out "put_job (tr_job_id (known_request en ?n2 fs2)) (fst (se_fail_tick en)) doc fs2"]
    by (auto simp: same_queue_def job_active_put)
  moreover have "tune_jobs_ok ?out" using tune_jobs_ok_put [OF ok2 d] sq by (simp add: same_queue_def tune_jobs_ok_def)
  ultimately show ?thesis using sq by (simp add: same_queue_def fs2_def)
qed

text \<open>A restart over one stale claimed file: the file is claimed again, and its run directory exists.\<close>

lemma stale_claim_fails:
  assumes u: "fs_requests fs = [(queue_name (uuid_str u) 1, f)]" "tune_jobs_ok fs" "uuid_str u \<in> set (fs_runs fs)"
    and r: "read_claim (se_parse_iso en) (queue_name (uuid_str u) 1) fs = Inr rq" "tr_job_id rq = uuid_str u"
    and stale: "\<not> now - tf_mtime f < ts_processing_stale ts"
  shows "\<exists>doc t. map_of (fs_jobs (snd (run_once en ts ho now fs))) (json_file (tr_job_id rq)) = Some \<lparr>tf_mtime = t, tf_doc = Some (JObj doc)\<rparr>
    \<and> jget doc ''status'' = JStr ''failed''
    \<and> jget doc ''failure_reason'' = JStr ''FileExistsError: job could not be completed''"
proof -
  let ?fs1 = "delete_expired_uploads ts now (recover_stale_processing ts now fs)"
  let ?n1 = "queue_name (uuid_str u) 1"
  have req: "fs_requests ?fs1 = [(queue_name (uuid_str u) 0, f)]"
    using recover_single [of fs u f ts now] u(1) stale by (simp add: same_queue_frames)
  define fs2 where "fs2 = ?fs1\<lparr>fs_requests := [(?n1, f)]\<rparr>"
  have c: "claim_next ?fs1 = (Some ?n1, fs2)"
    unfolding fs2_def using claim_single [of ?fs1 u 0 f] req by simp
  have rd: "read_claim (se_parse_iso en) ?n1 fs2 = Inr rq"
    using r(1) u(1) by (simp add: read_claim_def fs2_def)
  have run: "tr_job_id rq \<in> set (fs_runs fs2)" using u(3) r(2) by (simp add: fs2_def same_queue_frames)
  have at: "attempt_claim en ts ho ?n1 fs2 = (Inl FileExistsError, fs2)"
    unfolding attempt_claim_def bind_act_def gets_def prod.case sum.case rd raise_or_def ret_def
    by (simp add: execute_split bind_act_def make_run_dir_def run)
  have known: "known_request en ?n1 fs2 = rq" by (simp only: known_request_def rd sum.case)
  have ok2: "tune_jobs_ok fs2" using u(2) by (simp add: fs2_def tune_jobs_ok_def same_queue_frames)
  from settle_error [OF at ok2] obtain doc where st: "settle_claim en ts ho ?n1 fs2 = (Inr doc, clean_claim ?n1 rq
      (put_job (tr_job_id rq) (fst (se_fail_tick en)) doc fs2))" and d: "jget doc ''status'' = JStr ''failed''"
      "jget doc ''failure_reason'' = JStr (bounded_text (exc_class FileExistsError @ '': job could not be completed'') max_public_text)"
    unfolding known by blast
  note sq = run_once_jobs [OF c, of en ho, unfolded st snd_conv]
  have "bounded_text (exc_class FileExistsError @ '': job could not be completed'') max_public_text
      = ''FileExistsError: job could not be completed''" by code_simp
  then show ?thesis using d sq by (auto simp: same_queue_def put_job_def put_file_def)
qed

text \<open>
  C31. A supervisor that stops while it works on a job and is restarted before the claimed file is
  stale claims that file a second time, under a name its own validation refuses, and deletes it:
  the job stays active without a request, and whatever later polling iterations do, every further
  request of the API is refused as busy.  Restarted later, it fails the job with FileExistsError.
\<close>

theorem crash_leaves_job_active:
  assumes tp: "tp_iso tp = se_parse_iso en"
    and w: "tune_reachable tp w" "tw_sup w = Sup_working n rq" "read_claim (tp_iso tp) n (tw_fs w) = Inr rq"
    and f: "fs_requests (tw_fs w) = [(n, f)]"
  shows "if now - tf_mtime f < ts_processing_stale ts
    then fs_requests (snd (run_once en ts ho now (tw_fs w))) = []
      \<and> job_active (fold (\<lambda>(en, now) fs. snd (run_once en ts ho now fs)) later (snd (run_once en ts ho now (tw_fs w)))) (tr_job_id rq)
      \<and> fst (enqueue stale job_written request_written j t rd jd
          (fold (\<lambda>(en, now) fs. snd (run_once en ts ho now fs)) later (snd (run_once en ts ho now (tw_fs w))))) = Inl Busy
    else \<exists>doc t. map_of (fs_jobs (snd (run_once en ts ho now (tw_fs w)))) (json_file (tr_job_id rq)) = Some \<lparr>tf_mtime = t, tf_doc = Some (JObj doc)\<rparr>
      \<and> jget doc ''status'' = JStr ''failed''
      \<and> jget doc ''failure_reason'' = JStr ''FileExistsError: job could not be completed''"
proof -
  note inv = tune_inv_reachable [OF w(1)]
  obtain u where u: "n = queue_name (uuid_str u) 1" "tr_job_id rq = uuid_str u" "uuid_str u \<in> set (fs_runs (tw_fs w))"
      "job_active (tw_fs w) (uuid_str u)"
    using tune_invD(4) [OF inv] w(2) by auto
  let ?out = "snd (run_once en ts ho now (tw_fs w))"
  let ?later = "fold (\<lambda>(en, now) fs. snd (run_once en ts ho now fs)) later ?out"
  note one = f [unfolded u(1)]
  show ?thesis
  proof (cases "now - tf_mtime f < ts_processing_stale ts")
    case True
    from fresh_claim_lost [OF one u(4) tune_invD(1) [OF inv] True, of en ho] have out: "fs_requests ?out = []"
      "job_active ?out (uuid_str u)" "tune_jobs_ok ?out" by blast+
    have "fs_jobs ?later = fs_jobs ?out" using runs_idle [OF out(1)] by blast
    then have l: "job_active ?later (uuid_str u)" "tune_jobs_ok ?later" using out(2,3) by (simp_all add: tune_jobs_ok_def job_active_def)
    show ?thesis using True out(1) u(2) l(1) enqueue_busy [OF l(2,1) uuid_text_uuid] by simp
  next
    case False
    from stale_claim_fails [OF one tune_invD(1) [OF inv] u(3) w(3) [unfolded u(1) tp] u(2) False]
    show ?thesis using False by simp
  qed
qed

section \<open>What the API queues\<close>

lemma overview_ready:
  assumes "overview cfg ps now fs = Inr ov" "ov_full_ready ov"
  shows "full_artifact_ready (ov_corpus ov) (ov_full ov)" "ov_comparisons ov \<noteq> []"
proof -
  obtain raw active where r: "(case raw of None \<Rightarrow> unpublished_overview ps active | Some d \<Rightarrow> shape_overview cfg ps now active d) = Inr ov"
    using assms(1) by (auto simp: overview_def split: sum.splits)
  show "full_artifact_ready (ov_corpus ov) (ov_full ov)" "ov_comparisons ov \<noteq> []"
  proof (atomize (full), cases raw)
    case None
    then have "unpublished_overview ps active = Inr ov" using r by simp
    then have "ov_full_ready ov = False" by (auto simp: unpublished_overview_def split: sum.splits)
    then show "full_artifact_ready (ov_corpus ov) (ov_full ov) \<and> ov_comparisons ov \<noteq> []" using assms(2) by simp
  next
    case (Some d)
    then have "shape_overview cfg ps now active d = Inr ov" using r by simp
    then show "full_artifact_ready (ov_corpus ov) (ov_full ov) \<and> ov_comparisons ov \<noteq> []"
      using assms(2) by (auto simp: shape_overview_def Let_def split: sum.splits if_splits)
  qed
qed

lemma claimed_id_json: "plain_id i \<Longrightarrow> claimed_id (queue_name i 1) = i"
  using claimed_id_queue(2) [of i 0] by simp

lemma smoke_request_valid:
  assumes "parse_iso (replace_Z (ae_iso ae)) = Some True"
  shows "validate_request parse_iso (request_doc ae Train_smoke []) (queue_name (uuid_str (ae_uuid ae)) 1)
     = Inr \<lparr>tr_job_id = uuid_str (ae_uuid ae), tr_kind = Train_smoke, tr_created_at = ae_iso ae, tr_upload = None\<rparr>"
  using assms claimed_id_json [OF plain_id_uuid, of "ae_uuid ae"] job_id_uuid [of "ae_uuid ae"]
  by (simp add: validate_request_def request_doc_def jget_def request_kind_def parse_created_at_def allowed_fields_def)

lemma live_request_valid:
  assumes "parse_iso (replace_Z (ae_iso ae)) = Some True" "upload_name_ok up" "py_lower (path_suffix up) \<in> set upload_suffixes"
    "bounded_text l 80 = l" "l \<noteq> []"
  shows "validate_request parse_iso (request_doc ae Infer_live [(''upload_name'', JStr up), (''native_language'', JStr l)])
       (queue_name (uuid_str (ae_uuid ae)) 1)
     = Inr \<lparr>tr_job_id = uuid_str (ae_uuid ae), tr_kind = Infer_live, tr_created_at = ae_iso ae, tr_upload = Some (up, l)\<rparr>"
  using assms claimed_id_json [OF plain_id_uuid, of "ae_uuid ae"] job_id_uuid [of "ae_uuid ae"]
  by (auto simp: validate_request_def request_doc_def jget_def request_kind_def parse_created_at_def allowed_fields_def
      request_upload_def max_language_chars_def)

lemma default_extension: "\<exists>e \<in> set [''flac'', ''wav'', ''webm'', ''ogg'', ''m4a'', ''mp3'']. extension_for default_tune_config t = CHR ''.'' # e"
  by (auto simp: extension_for_def default_tune_config_def)

lemma enqueue_ok:
  assumes "fst (enqueue stale job_written request_written i t rd jd fs) = Inr ()"
  shows "snd (enqueue stale job_written request_written i t rd jd fs)
    = (put_request i t rd (put_job i t jd (fs\<lparr>fs_lock := Some t\<rparr>)))\<lparr>fs_lock := None\<rparr>"
proof (cases "take_lock stale t fs")
  case None
  then show ?thesis using assms by (simp add: enqueue_def)
next
  case (Some held)
  note h = take_lock_held [OF Some]
  show ?thesis
  proof (cases "active_job_exists held")
    case (Inl e)
    then show ?thesis using assms Some by (simp add: enqueue_def)
  next
    case (Inr b)
    then show ?thesis using assms Some h
      by (cases b; cases job_written; cases request_written) (simp_all add: enqueue_def publish_pair_def)
  qed
qed

lemma enqueue_written:
  assumes "enqueue_job cfg ae kind extra fs = (Inr u, fs')"
  shows "u = ae_uuid ae" "fs_uploads fs' = fs_uploads fs"
    "map_of (fs_requests fs') (json_file (uuid_str u)) = Some \<lparr>tf_mtime = ae_mtime ae, tf_doc = Some (JObj (request_doc ae kind extra))\<rparr>"
proof -
  let ?e = "enqueue (tc_lock_stale cfg) (ae_job_written ae) (ae_request_written ae) (uuid_str (ae_uuid ae)) (ae_mtime ae)
    (request_doc ae kind extra) (queued_doc ae kind) fs"
  obtain r g where e: "?e = (r, g)" by fastforce
  then have "fs' = g" "(case r of Inl Busy \<Rightarrow> Inl (AdminError 409 ''A tune GPU job is already active'')
       | Inl Unavailable \<Rightarrow> Inl (AdminError 503 ''Tune runtime storage is unavailable'')
       | Inl (Uncaught e) \<Rightarrow> Inl e | Inr _ \<Rightarrow> Inr (ae_uuid ae)) = Inr u"
    using assms by (simp_all add: enqueue_job_def)
  then have r: "r = Inr ()" and u: "u = ae_uuid ae" by (auto split: sum.splits repo_error.splits)
  have "fs' = snd ?e" using e \<open>fs' = g\<close> by simp
  also have "\<dots> = (put_request (uuid_str (ae_uuid ae)) (ae_mtime ae) (request_doc ae kind extra) (put_job (uuid_str (ae_uuid ae)) (ae_mtime ae)
      (queued_doc ae kind) (fs\<lparr>fs_lock := Some (ae_mtime ae)\<rparr>)))\<lparr>fs_lock := None\<rparr>"
    by (rule enqueue_ok) (simp add: e r)
  finally show "u = ae_uuid ae" "fs_uploads fs' = fs_uploads fs"
    "map_of (fs_requests fs') (json_file (uuid_str u)) = Some \<lparr>tf_mtime = ae_mtime ae, tf_doc = Some (JObj (request_doc ae kind extra))\<rparr>"
    using u by (simp_all add: put_request_def put_file_def map_of_update)
qed

text \<open>
  C37. A live inference the API accepts was asked for while the supervisor was healthy and a completed
  full adapter of the frozen corpus with an approved comparison was published; its upload is stored
  under a name without separators, the supervisor accepts the published request with exactly the
  fields sent, and the command it builds is the fixed comparison template.
\<close>

theorem live_inference_runs:
  assumes "start_live_inference default_tune_config ps ae audio content_type native_language fs = (Inr u, fs')"
    and "parse_iso (replace_Z (ae_iso ae)) = Some True"
  shows "(\<exists>ov a. overview default_tune_config ps (ae_now ae) fs = Inr ov \<and> sv_healthy (ov_supervisor ov) \<and> cm_ready (ov_corpus ov)
      \<and> ov_full ov = Some a \<and> am_status a = ''completed'' \<and> am_profile a = Some Full \<and> am_compatible a
      \<and> am_model_id a = cm_model_id (ov_corpus ov) \<and> am_source_hash a = cm_source_hash (ov_corpus ov) \<and> ov_comparisons ov \<noteq> [])
    \<and> (\<exists>up f rq. up = uuid_str u @ extension_for default_tune_config (media_type content_type) \<and> CHR ''/'' \<notin> set up
      \<and> map_of (fs_uploads fs') up = Some \<lparr>uf_mtime = ae_mtime ae, uf_regular = True, uf_data = audio\<rparr>
      \<and> map_of (fs_requests fs') (json_file (uuid_str u)) = Some f
      \<and> try_in (read_json_object f) (\<lambda>d. validate_request parse_iso d (processing_name (json_file (uuid_str u)))) = Inr rq
      \<and> rq = \<lparr>tr_job_id = uuid_str u, tr_kind = Infer_live, tr_created_at = ae_iso ae, tr_upload = Some (up, single_line native_language)\<rparr>
      \<and> build_command ts (upload_is_file fs') rq = Inr (tune_module @ [''tune.compare'', ''--holdout'', below (ts_prepared ts) ''holdout.jsonl'',
          ''--dataset-manifest'', below (ts_prepared ts) ''dataset_manifest.json'', ''--adapter'', ts_full_adapter ts,
          ''--artifact-manifest'', ts_artifact_manifest ts, ''--samples'', ''1'', ''--live-audio'', below (ts_uploads ts) up,
          ''--native-language'', single_line native_language] @ event_args ts rq, ts_infer_timeout ts))"
proof (rule conjI)
  let ?lang = "single_line native_language" and ?up = "uuid_str (ae_uuid ae) @ extension_for default_tune_config (media_type content_type)"
  obtain ov where ov: "overview default_tune_config ps (ae_now ae) fs = Inr ov" "sv_healthy (ov_supervisor ov)" "ov_full_ready ov"
    and lang: "?lang \<noteq> []" "length ?lang \<le> 80" "language_ok ?lang"
    and st: "stage_and_enqueue default_tune_config ae audio ?up ?lang fs = (Inr u, fs')"
    using assms(1) by (auto simp: start_live_inference_def Let_def not_less default_tune_config_def [THEN arg_cong, of tc_max_language]
        split: if_splits sum.splits)
  show "\<exists>ov a. overview default_tune_config ps (ae_now ae) fs = Inr ov \<and> sv_healthy (ov_supervisor ov) \<and> cm_ready (ov_corpus ov)
      \<and> ov_full ov = Some a \<and> am_status a = ''completed'' \<and> am_profile a = Some Full \<and> am_compatible a
      \<and> am_model_id a = cm_model_id (ov_corpus ov) \<and> am_source_hash a = cm_source_hash (ov_corpus ov) \<and> ov_comparisons ov \<noteq> []"
    using ov overview_ready [OF ov(1,3)] by (auto simp: full_artifact_ready_def split: option.splits)
  obtain fs1 where s1: "stage_upload (ae_upload_written ae) ?up (ae_mtime ae) audio fs = (Inr (), fs1)"
    and q: "enqueue_job default_tune_config ae Infer_live [(''upload_name'', JStr ?up), (''native_language'', JStr ?lang)] fs1 = (Inr u, fs')"
    using st by (auto simp: stage_and_enqueue_def split: prod.splits sum.splits py_error.splits)
  note w = enqueue_written [OF q]
  obtain e where e: "e \<in> set [''flac'', ''wav'', ''webm'', ''ogg'', ''m4a'', ''mp3'']"
    and x: "extension_for default_tune_config (media_type content_type) = CHR ''.'' # e" using default_extension by blast
  note name = upload_name_uuid(1,2) [OF e, of "ae_uuid ae"] upload_name_uuid(3) [OF e]
  have "map_of (fs_uploads fs1) ?up = Some \<lparr>uf_mtime = ae_mtime ae, uf_regular = True, uf_data = audio\<rparr>"
    using s1 by (auto simp: stage_upload_def map_of_update split: if_splits)
  then have up: "map_of (fs_uploads fs') ?up = Some \<lparr>uf_mtime = ae_mtime ae, uf_regular = True, uf_data = audio\<rparr>" using w(2) by simp
  have "bounded_text ?lang 80 = ?lang" by (rule bounded_language [OF lang(3,2)])
  from live_request_valid [of parse_iso ae ?up ?lang, OF assms(2) _ _ this lang(1)] name x
  have v: "validate_request parse_iso (request_doc ae Infer_live [(''upload_name'', JStr ?up), (''native_language'', JStr ?lang)])
       (processing_name (json_file (uuid_str u)))
     = Inr \<lparr>tr_job_id = uuid_str u, tr_kind = Infer_live, tr_created_at = ae_iso ae, tr_upload = Some (?up, ?lang)\<rparr>"
    using w(1) processing_queue_name [of "uuid_str (ae_uuid ae)" 0] by (simp add: queue_name_0)
  have "CHR ''/'' \<notin> set ?up" using upload_name_no_slash(1) [OF name(1)] x by simp
  then show "\<exists>up f rq. up = uuid_str u @ extension_for default_tune_config (media_type content_type) \<and> CHR ''/'' \<notin> set up
      \<and> map_of (fs_uploads fs') up = Some \<lparr>uf_mtime = ae_mtime ae, uf_regular = True, uf_data = audio\<rparr>
      \<and> map_of (fs_requests fs') (json_file (uuid_str u)) = Some f
      \<and> try_in (read_json_object f) (\<lambda>d. validate_request parse_iso d (processing_name (json_file (uuid_str u)))) = Inr rq
      \<and> rq = \<lparr>tr_job_id = uuid_str u, tr_kind = Infer_live, tr_created_at = ae_iso ae, tr_upload = Some (up, single_line native_language)\<rparr>
      \<and> build_command ts (upload_is_file fs') rq = Inr (tune_module @ [''tune.compare'', ''--holdout'', below (ts_prepared ts) ''holdout.jsonl'',
          ''--dataset-manifest'', below (ts_prepared ts) ''dataset_manifest.json'', ''--adapter'', ts_full_adapter ts,
          ''--artifact-manifest'', ts_artifact_manifest ts, ''--samples'', ''1'', ''--live-audio'', below (ts_uploads ts) up,
          ''--native-language'', single_line native_language] @ event_args ts rq, ts_infer_timeout ts)"
    using w(1,3) v up by (simp add: read_json_object_def object_doc_def build_command_def upload_is_file_def)
qed

section \<open>A run of the demo\<close>

text \<open>A smoke training request, published by the API and claimed by the supervisor.\<close>

definition demo_settings :: tune_settings where
  "demo_settings = \<lparr>ts_prepared = ''/demo/prepared'', ts_full_adapter = ''/demo/full/adapter'',
     ts_artifact_manifest = ''/demo/full/artifact_manifest.json'', ts_run_root = ''/demo/runs'', ts_uploads = ''/demo/uploads'',
     ts_approved_ids = [], ts_preflight_timeout = 120, ts_train_timeout = 1800, ts_infer_timeout = 600,
     ts_processing_stale = 2100, ts_upload_ttl = 3600\<rparr>"

definition demo_host :: tune_host where
  "demo_host = \<lparr>ho_dataset = None, ho_dataset_hash = [], ho_train_hash = None, ho_holdout_hash = None, ho_artifact = None,
     ho_adapter_dir = False, ho_adapter_hash = None, ho_metrics = None, ho_holdout = [], ho_predictions = None,
     ho_audio = (\<lambda>_. False)\<rparr>"

definition demo_iso :: "string \<Rightarrow> bool option" where
  "demo_iso s = (if s = ''2026-07-01T10:00:00+00:00'' then Some True else None)"

definition demo_child :: child_run where
  "demo_child = \<lparr>ch_tick = (\<lambda>k. (of_nat (10 + k), ''2026-07-01T10:00:05+00:00'')), ch_beats = 0, ch_preflight = Inr (0, Some (JArr [])),
     ch_before = None, ch_observed = [], ch_exit = Inr 1, ch_final = None, ch_result = None\<rparr>"

definition demo_sup :: sup_env where
  "demo_sup = \<lparr>se_py_str = (\<lambda>_. []), se_parse_iso = demo_iso, se_child = demo_child, se_fail_tick = (20, ''2026-07-01T10:00:20+00:00''),
     se_seconds = 1782900020, se_last_tick = (21, ''2026-07-01T10:00:21+00:00'')\<rparr>"

definition demo_setup :: tune_setup where
  "demo_setup = \<lparr>tp_settings = demo_settings, tp_host = demo_host, tp_config = default_tune_config, tp_str = (\<lambda>_. []), tp_iso = demo_iso\<rparr>"

definition demo_admin :: admin_env where
  "demo_admin = \<lparr>ae_now = 0, ae_iso = ''2026-07-01T10:00:00+00:00'', ae_mtime = 1, ae_uuid = 49, ae_job_written = True,
     ae_request_written = True, ae_upload_written = True\<rparr>"

definition demo_published :: tune_fs where
  "demo_published = snd (enqueue 10 True True (uuid_str 49) 1 (request_doc demo_admin Train_smoke []) (queued_doc demo_admin Train_smoke) empty_fs)"

definition demo_claimed :: tune_world where
  "demo_claimed = world_at (snd (claim_next demo_published)) (Sup_claimed (queue_name (uuid_str 49) 1)) None"

lemma demo_published_eq:
  "demo_published = empty_fs\<lparr>fs_requests := [(queue_name (uuid_str 49) 0, \<lparr>tf_mtime = 1, tf_doc = Some (JObj (request_doc demo_admin Train_smoke []))\<rparr>)],
     fs_jobs := [(json_file (uuid_str 49), \<lparr>tf_mtime = 1, tf_doc = Some (JObj (queued_doc demo_admin Train_smoke))\<rparr>)]\<rparr>"
  by (simp add: demo_published_def enqueue_def take_lock_def empty_fs_def active_job_exists_def job_files_def publish_pair_def
      put_request_def put_job_def put_file_def queue_name_0)

lemma demo_claimed_eq:
  "claim_next demo_published = (Some (queue_name (uuid_str 49) 1), demo_published\<lparr>fs_requests :=
     [(queue_name (uuid_str 49) 1, \<lparr>tf_mtime = 1, tf_doc = Some (JObj (request_doc demo_admin Train_smoke []))\<rparr>)]\<rparr>)"
proof -
  have "queue_name (uuid_str 49) 0 \<noteq> queue_name (uuid_str 49) (Suc 0)" unfolding queue_name_uuid_inj by simp
  then show ?thesis
    by (simp add: claim_next_def queued_requests_def demo_published_eq json_queue_name processing_queue_name move_file_def)
qed

lemma demo_active: "job_active demo_published (uuid_str 49)"
  by (simp add: job_active_def demo_published_eq file_object_def status_active_text [OF queued_doc_status])

lemma tune_demo_reachable: "tune_reachable demo_setup demo_claimed" "job_active (tw_fs demo_claimed) (uuid_str 49)"
proof -
  have first: "first_world = world_at empty_fs Sup_idle None" by (simp add: first_world_def world_at_def)
  have "fresh_job (uuid_str (ae_uuid demo_admin)) empty_fs" by (simp add: fresh_job_def empty_fs_def)
  from enqueue_path [OF this, of demo_setup Sup_idle True True Train_smoke "[]"]
  have p: "tune_path demo_setup (world_at empty_fs Sup_idle None) (world_at demo_published Sup_idle None)"
    by (simp add: demo_published_def demo_setup_def demo_admin_def default_tune_config_def)
  have "tune_step demo_setup (world_at demo_published Sup_idle None) demo_claimed"
    using tune_step.claim [of "world_at demo_published Sup_idle None" _ _ demo_setup] demo_claimed_eq
    by (simp add: demo_claimed_def)
  with p show "tune_reachable demo_setup demo_claimed" by (simp add: tune_reachable_def first)
  show "job_active (tw_fs demo_claimed) (uuid_str 49)"
    using demo_active by (simp add: demo_claimed_def demo_claimed_eq job_active_def)
qed

theorem one_active_tune_job_witness:
  "tune_reachable demo_setup demo_claimed
   \<and> fst (enqueue 10 True True (uuid_str 50) 5 (request_doc demo_admin Train_smoke []) (queued_doc demo_admin Train_smoke) (tw_fs demo_claimed)) = Inl Busy"
  using one_active_tune_job [OF tune_demo_reachable(1)] tune_demo_reachable by blast

theorem claimed_job_settles_witness:
  "\<not> job_active (snd (settle_claim demo_sup demo_settings demo_host (queue_name (uuid_str 49) 1) (tw_fs demo_claimed))) (uuid_str 49)
   \<and> queue_name (uuid_str 49) 1 \<notin> dom (map_of (fs_requests (snd (settle_claim demo_sup demo_settings demo_host (queue_name (uuid_str 49) 1) (tw_fs demo_claimed)))))"
proof -
  have tp: "tp_str demo_setup = se_py_str demo_sup" "tp_iso demo_setup = se_parse_iso demo_sup"
    "tp_settings demo_setup = demo_settings" "tp_host demo_setup = demo_host"
    by (simp_all add: demo_setup_def demo_sup_def)
  have "tw_sup demo_claimed = Sup_claimed (queue_name (uuid_str 49) 1)" by (simp add: demo_claimed_def)
  from claimed_job_settles [OF tp(1,2) tune_demo_reachable(1) this refl tune_demo_reachable(2) surjective_pairing] show ?thesis
    unfolding tp(3,4) by blast
qed

text \<open>The same demo when the supervisor stops in the middle of the job.\<close>

lemma demo_iso_ok: "demo_iso (replace_Z (ae_iso demo_admin)) = Some True"
  by code_simp

definition demo_request :: tune_request where
  "demo_request = \<lparr>tr_job_id = uuid_str 49, tr_kind = Train_smoke, tr_created_at = ''2026-07-01T10:00:00+00:00'', tr_upload = None\<rparr>"

definition demo_working :: tune_world where
  "demo_working = world_at ((tw_fs demo_claimed)\<lparr>fs_runs := [uuid_str 49]\<rparr>) (Sup_working (queue_name (uuid_str 49) 1) demo_request) None"

lemma demo_read: "read_claim demo_iso (queue_name (uuid_str 49) 1) (tw_fs demo_claimed) = Inr demo_request"
  using smoke_request_valid [of demo_iso demo_admin, OF demo_iso_ok]
  by (simp add: read_claim_def demo_claimed_def demo_claimed_eq read_json_object_def object_doc_def demo_admin_def demo_request_def)

lemma demo_working_reachable: "tune_reachable demo_setup demo_working"
    "read_claim demo_iso (queue_name (uuid_str 49) 1) (tw_fs demo_working) = Inr demo_request"
    "fs_requests (tw_fs demo_working) = [(queue_name (uuid_str 49) 1, \<lparr>tf_mtime = 1, tf_doc = Some (JObj (request_doc demo_admin Train_smoke []))\<rparr>)]"
proof -
  have "fs_runs demo_published = []" by (simp add: demo_published_eq empty_fs_def)
  then have "fs_runs (tw_fs demo_claimed) = []" by (simp add: demo_claimed_def demo_claimed_eq)
  then have "make_run_dir (tr_job_id demo_request) (tw_fs demo_claimed) = (Inr (), (tw_fs demo_claimed)\<lparr>fs_runs := [uuid_str 49]\<rparr>)"
    by (simp add: make_run_dir_def demo_request_def)
  moreover have "tw_sup demo_claimed = Sup_claimed (queue_name (uuid_str 49) 1)" by (simp add: demo_claimed_def)
  moreover have "read_claim (tp_iso demo_setup) (queue_name (uuid_str 49) 1) (tw_fs demo_claimed) = Inr demo_request"
    using demo_read by (simp add: demo_setup_def)
  ultimately have "tune_step demo_setup demo_claimed demo_working"
    using tune_step.start [of demo_claimed "queue_name (uuid_str 49) 1" demo_setup demo_request]
    by (simp add: demo_working_def demo_claimed_def world_at_def)
  then show "tune_reachable demo_setup demo_working"
    using reachable_path [OF tune_demo_reachable(1)] by blast
  show "read_claim demo_iso (queue_name (uuid_str 49) 1) (tw_fs demo_working) = Inr demo_request"
    using demo_read by (simp add: demo_working_def read_claim_def)
  show "fs_requests (tw_fs demo_working) = [(queue_name (uuid_str 49) 1, \<lparr>tf_mtime = 1, tf_doc = Some (JObj (request_doc demo_admin Train_smoke []))\<rparr>)]"
    by (simp add: demo_working_def demo_claimed_def demo_claimed_eq)
qed

theorem crash_leaves_job_active_witness:
  "fs_requests (snd (run_once demo_sup demo_settings demo_host 60 (tw_fs demo_working))) = []
   \<and> fst (enqueue 10 True True (uuid_str 50) 9000 (request_doc demo_admin Train_smoke []) (queued_doc demo_admin Train_smoke)
       (snd (run_once demo_sup demo_settings demo_host 8000 (snd (run_once demo_sup demo_settings demo_host 60 (tw_fs demo_working)))))) = Inl Busy"
proof -
  have tp: "tp_iso demo_setup = se_parse_iso demo_sup" "tp_iso demo_setup = demo_iso" by (simp_all add: demo_setup_def demo_sup_def)
  have w: "tw_sup demo_working = Sup_working (queue_name (uuid_str 49) 1) demo_request" by (simp add: demo_working_def)
  show ?thesis
    using crash_leaves_job_active [OF tp(1) demo_working_reachable(1) w demo_working_reachable(2) [folded tp(2)] demo_working_reachable(3),
        of 60 demo_settings demo_host "[(demo_sup, 8000)]" 10 True True "uuid_str 50" 9000 "request_doc demo_admin Train_smoke []"
           "queued_doc demo_admin Train_smoke"]
    by (simp add: demo_settings_def [THEN arg_cong, of ts_processing_stale])
qed

text \<open>A live inference while everything is published.\<close>

definition demo_digest :: string where
  "demo_digest = replicate 64 CHR ''a''"

definition demo_sample :: "(string \<times> json) list" where
  "demo_sample = [(''approved'', JBool True), (''sample_id'', JStr ''s1''), (''native_language'', JStr ''Hindi''),
     (''target'', JStr ''lotus''), (''audio_name'', JStr ''s1.flac''), (''base_output'', JStr ''flower''), (''tuned_output'', JStr ''lotus'')]"

definition demo_corpus :: "(string \<times> json) list" where
  "demo_corpus = [(''ready'', JBool True), (''status'', JStr ''frozen''), (''model_id'', JStr ''gemma''), (''source_corpus_sha256'', JStr demo_digest)]"

definition demo_full :: "(string \<times> json) list" where
  "demo_full = [(''available'', JBool True), (''compatible'', JBool True), (''status'', JStr ''completed''), (''profile'', JStr ''full''),
     (''model_id'', JStr ''gemma''), (''source_corpus_sha256'', JStr demo_digest), (''adapter_sha256'', JStr demo_digest)]"

definition demo_heartbeat :: "(string \<times> json) list" where
  "demo_heartbeat = [(''status'', JStr ''idle''), (''heartbeat_at'', JStr ''2026-07-01T10:00:00+00:00'')]"

definition demo_overview :: "(string \<times> json) list" where
  "demo_overview = [(''supervisor'', JObj demo_heartbeat), (''corpus'', JObj demo_corpus), (''full_artifact'', JObj demo_full),
     (''heldout_samples'', JArr [JObj demo_sample]), (''heldout_comparisons'', JArr [JObj demo_sample])]"

definition demo_parsers :: parsers where
  "demo_parsers = \<lparr>ps_dt = (\<lambda>_. Some 0), ps_uuid = (\<lambda>_. Some 49), ps_iso = (\<lambda>_. Some 0), ps_float = (\<lambda>_. None), ps_str = (\<lambda>_. [])\<rparr>"

definition demo_ready :: tune_fs where
  "demo_ready = empty_fs\<lparr>fs_overview := Some \<lparr>tf_mtime = 0, tf_doc = Some (JObj demo_overview)\<rparr>\<rparr>"

lemma demo_texts:
  "safe_text (JStr ''idle'') 40 ''unavailable'' = ''idle''" "safe_text (JStr ''completed'') 40 ''unavailable'' = ''completed''"
  "safe_model_id (JStr ''gemma'') = Some ''gemma''" "safe_hash (JStr demo_digest) = Some demo_digest"
  by code_simp+

lemma demo_corpus_shape: "shape_corpus (JObj demo_corpus) = Inr \<lparr>cm_ready = True, cm_status = ''frozen'', cm_input_mode = None,
   cm_model_id = Some ''gemma'', cm_counts = \<lparr>sc_total = 0, sc_train = 0, sc_holdout = 0\<rparr>, cm_languages = [],
   cm_source_hash = Some demo_digest, cm_manifest_hash = None\<rparr>"
  by code_simp

lemma demo_samples_shape:
  "heldout_samples 10 (JArr [JObj demo_sample]) = [\<lparr>hs_id = ''s1'', hs_language = ''Hindi'', hs_target = ''lotus'', hs_audio = True\<rparr>]"
  "heldout_comparisons 10 [\<lparr>hs_id = ''s1'', hs_language = ''Hindi'', hs_target = ''lotus'', hs_audio = True\<rparr>] (JArr [JObj demo_sample])
     = Inr [\<lparr>hc_id = ''s1'', hc_target = ''lotus'', hc_base = ''flower'', hc_tuned = ''lotus''\<rparr>]"
  by code_simp+

lemma demo_full_shape: "\<exists>a. shape_artifact demo_parsers (JObj demo_full) = Inr (Some a) \<and> am_available a \<and> am_compatible a
   \<and> am_status a = ''completed'' \<and> am_profile a = Some Full \<and> am_model_id a = Some ''gemma'' \<and> am_source_hash a = Some demo_digest
   \<and> am_adapter_hash a = Some demo_digest"
  by (simp add: shape_artifact_def demo_full_def Let_def jget_def get_or_def as_dict_def demo_texts shape_sample_counts_def
      as_nonnegative_int_def language_counts_def as_nonnegative_float_def opt_date_def rank_ok_def profile_of_def or_zero_def)

lemma demo_supervisor_shape: "sv_healthy (shape_supervisor demo_parsers 0 30 (JObj demo_heartbeat))"
  by (simp add: shape_supervisor_def demo_heartbeat_def as_dict_def jget_def demo_texts demo_parsers_def)

lemma demo_ready_overview:
  "\<exists>ov. overview default_tune_config demo_parsers 0 demo_ready = Inr ov \<and> sv_healthy (ov_supervisor ov) \<and> ov_full_ready ov"
proof -
  obtain a where a: "shape_artifact demo_parsers (JObj demo_full) = Inr (Some a)" "am_available a" "am_compatible a"
    "am_status a = ''completed''" "am_profile a = Some Full" "am_model_id a = Some ''gemma''" "am_source_hash a = Some demo_digest"
    "am_adapter_hash a = Some demo_digest" using demo_full_shape by blast
  have fields: "supervisor_raw demo_overview = JObj demo_heartbeat" "full_raw demo_overview = JObj demo_full"
    "get_or demo_overview ''corpus'' (jget demo_overview ''dataset'') = JObj demo_corpus" "jget demo_overview ''smoke_artifact'' = JNull"
    "jget demo_overview ''heldout_samples'' = JArr [JObj demo_sample]" "jget demo_overview ''heldout_comparisons'' = JArr [JObj demo_sample]"
    "jget demo_overview ''current_job'' = JNull"
    by (simp_all add: supervisor_raw_def full_raw_def demo_overview_def jget_def get_or_def)
  have none: "shape_artifact demo_parsers JNull = Inr None" by (simp add: shape_artifact_def)
  have "tc_max_samples default_tune_config = 10" "tc_heartbeat_stale default_tune_config = 30" by (simp_all add: default_tune_config_def)
  then have "\<exists>ov. shape_overview default_tune_config demo_parsers 0 None demo_overview = Inr ov \<and> sv_healthy (ov_supervisor ov) \<and> ov_full_ready ov"
    using demo_supervisor_shape
    by (simp add: shape_overview_def Let_def fields demo_corpus_shape a demo_samples_shape current_raw_def opt_summary_def
        full_artifact_ready_def none)
  moreover have "read_overview demo_ready = Inr (Some demo_overview)" "read_active_job demo_ready = Inr None"
    by (simp_all add: demo_ready_def read_overview_def file_object_def read_active_job_def job_files_def empty_fs_def newest_first_def sort_desc_def)
  ultimately show ?thesis by (auto simp: overview_def)
qed

definition demo_live :: "(py_error + uuid) \<times> tune_fs" where
  "demo_live = start_live_inference default_tune_config demo_parsers demo_admin [1, 2, 3] ''audio/webm;codecs=opus'' ''  Hindi '' demo_ready"

lemma demo_words:
  "media_type ''audio/webm;codecs=opus'' = ''audio/webm''" "single_line ''  Hindi '' = ''Hindi''" "language_ok ''Hindi''"
  by code_simp+

lemma demo_extension: "extension_for default_tune_config ''audio/webm'' = ''.webm''"
  by (simp add: extension_for_def default_tune_config_def)

lemma demo_live_queued: "demo_live = (Inr 49, snd demo_live)"
proof -
  obtain ov where ov: "overview default_tune_config demo_parsers (ae_now demo_admin) demo_ready = Inr ov" "sv_healthy (ov_supervisor ov)" "ov_full_ready ov"
    using demo_ready_overview by (auto simp: demo_admin_def)
  note t = demo_words
  have b: "base_name (uuid_str 49 @ ''.webm'')"
    using upload_name_no_slash(1,2) [OF upload_name_uuid(1) [of "''webm''" 49]] by (simp add: base_name_def)
  have c: "''audio/webm'' \<in> set (tc_allowed_types default_tune_config)" "tc_max_upload_bytes default_tune_config = 2097152"
    "tc_max_language default_tune_config = 80" "tc_lock_stale default_tune_config = 10" by (simp_all add: default_tune_config_def)
  have d: "ae_upload_written demo_admin" "ae_job_written demo_admin" "ae_request_written demo_admin" "ae_uuid demo_admin = 49" "ae_mtime demo_admin = 1"
    by (simp_all add: demo_admin_def)
  have "fst demo_live = Inr 49"
    by (simp add: demo_live_def start_live_inference_def Let_def t demo_extension b c ov stage_and_enqueue_def stage_upload_def d enqueue_job_def
        enqueue_def take_lock_def demo_ready_def [THEN arg_cong, of fs_lock] demo_ready_def [THEN arg_cong, of fs_jobs] empty_fs_def
        active_job_exists_def job_files_def publish_pair_def split: prod.split)
  then show ?thesis by (metis prod.collapse)
qed

theorem live_inference_runs_witness:
  "ov_comparisons (case overview default_tune_config demo_parsers 0 demo_ready of Inr ov \<Rightarrow> ov) \<noteq> []
   \<and> map_of (fs_uploads (snd demo_live)) (uuid_str 49 @ ''.webm'') = Some \<lparr>uf_mtime = 1, uf_regular = True, uf_data = [1, 2, 3]\<rparr>"
proof -
  have "extension_for default_tune_config (media_type ''audio/webm;codecs=opus'') = ''.webm''"
    by (simp add: demo_words demo_extension)
  moreover have "ae_now demo_admin = 0" "ae_mtime demo_admin = 1" by (simp_all add: demo_admin_def)
  moreover have "start_live_inference default_tune_config demo_parsers demo_admin [1, 2, 3] ''audio/webm;codecs=opus'' ''  Hindi '' demo_ready
      = (Inr 49, snd demo_live)" unfolding demo_live_def [symmetric] by (rule demo_live_queued)
  note live_inference_runs [OF this, of demo_iso demo_settings, OF demo_iso_ok]
  ultimately show ?thesis by (elim conjE exE) simp
qed

end
