(* ===== verification/Spec2Isabelle.thy ===== *)
theory Spec2Isabelle
  imports Component_Laws Deck_Claims Gemini_Claims Tune_Claims
begin

text \<open>
  A verification development for Neva, a game in which two players with different mother tongues
  describe pictures to each other, and whose recordings are triaged and packaged into a speech
  corpus.  Sources are named relative to \<open>src/\<close>.

  \<^bold>\<open>The program.\<close>  The API process (\<open>app/\<close>) serves the game: \<open>GameService\<close> checks each request and
  calls a store, either \<open>MemoryGameStore\<close> or \<open>PostgresGameStore\<close>; polling composes a view from a
  bundle of rows.  An accepted recording leaves a triage job, a scored turn with known quality a
  package job.  The worker process (\<open>worker/\<close>) claims jobs from the same tables, fingerprints and
  judges recordings, writes the verdict back to the turn, and exports eligible turns to the JSONL
  shards of the corpus.  Decks are generated by \<open>deckgen/\<close>, started, reviewed and activated through
  \<open>app/deck_admin/\<close>: a provider invents concepts and draws, verifies and translates cards, a publisher
  writes them to the tables the game deals from.  The tuning demo shares a runtime directory between
  the API (\<open>app/tune_admin/\<close>), which queues one smoke training or live inference at a time, and a
  supervisor on the GPU host (\<open>scripts/tune_demo_supervisor.py\<close>), which claims the request, runs one of
  two fixed commands and publishes status and overview files.

  \<^bold>\<open>Theories.\<close>
  \<^item> \<open>Prelude\<close>, \<open>Py_Text\<close>: dictionaries as association lists with distinct keys, Python's stable sort
    and \<open>max\<close>, the state-and-error monad \<open>act\<close>; strings, floats and JSON values.
  \<^item> \<open>Game_Config\<close>, \<open>Game_Types\<close>, \<open>Languages\<close>, \<open>Metrics\<close>, \<open>Nicknames\<close>, \<open>Audio_Checks\<close>: the modules
    \<open>app/game/config.py\<close>, \<open>types.py\<close>, \<open>nicknames.py\<close>, \<open>audio_checks.py\<close>.
  \<^item> \<open>Store\<close>: the tables (\<open>game_db\<close>), the environment of a request (\<open>env\<close>: clock readings, new
    identifiers, random draws, locked rows) and the invariants \<open>game_inv\<close> and \<open>matching_ok\<close>.
    \<open>Store_Interface\<close>: the protocol of \<open>app/game/store.py\<close> as a record of operations and the locale
    \<open>game_store\<close> with the laws the service relies on.
  \<^item> \<open>Memory_Store\<close> and \<open>Pg_Store\<close>: the two stores, one definition per method, every SQL statement as
    a function of the tables.  \<open>Memory_Laws\<close> and \<open>Pg_Laws\<close> interpret \<open>game_store\<close> with them.
  \<^item> \<open>Service\<close>: the handlers of \<open>app/game/service.py\<close> over any store.  \<open>Service_Laws\<close>: what each
    handler does on every branch, proved once in the locale.
  \<^item> \<open>State_View\<close>: \<open>app/game/state.py\<close>.  \<open>Views\<close>: polling over a store (\<open>bundle_store\<close>, interpreted by
    both), and that the phase shown invites a request that is accepted.
  \<^item> \<open>Fingerprint\<close>, \<open>Corpus\<close>, \<open>Jobs\<close>, \<open>Gauntlet\<close>: the worker modules \<open>fingerprint.py\<close>, \<open>corpus.py\<close>,
    \<open>repository.py\<close>, \<open>models.py\<close>, \<open>service.py\<close>; \<open>Gauntlet_Laws\<close>: the corpus agrees with the records.
  \<^item> \<open>System\<close>: the step relation of API requests and worker transactions over either store, and the
    invariant of its reachable states.  \<open>Races\<close>: transactions of a guess and a triage interleaved.
  \<^item> \<open>Demo\<close>: a game of two players, evaluated; the witnesses are taken from it.
  \<^item> \<open>Deck_Tables\<close>, \<open>Deck_Publish\<close>: \<open>app/deck_admin/repository.py\<close> and \<open>deckgen/publish.py\<close>, the
    publisher protocol as a record of operations.  \<open>Deck_Publish_Laws\<close>: its contract as the locale
    \<open>deck_publisher\<close>, interpreted by the Postgres and the in-memory publisher, and atomic publication.
  \<^item> \<open>Deck_Concepts\<close>, \<open>Deck_Gen\<close>: \<open>deckgen/concepts.py\<close>, \<open>concept_gen.py\<close>, \<open>metrics.py\<close> and
    \<open>pipeline.py\<close> over any publisher and provider.  \<open>Deck_Gen_Laws\<close>: what a finished or failed run
    leaves, proved in the locale.  \<open>Deck_Healthy\<close>: runs that cannot fail.
  \<^item> \<open>Deck_Admin\<close>: \<open>app/deck_admin/service.py\<close> and \<open>generation.py\<close>.  \<open>Deck_Admin_Laws\<close>: a run touches its
    own deck only and ends ready and playable or unfinished.  \<open>Deck_Lifecycle\<close>: the step relation of
    the service and its invariant.  \<open>Media_Url_Laws\<close>: media URLs.  \<open>Deck_Demo\<close>: an evaluated run.
  \<^item> \<open>Gemini_Client\<close>: \<open>app/gemini_client.py\<close>, a call as its outcome and the list of events other tasks see.
    \<open>Gemini_Redaction\<close>: schemas and logs; \<open>Gemini_Policy\<close>: the retry loop; \<open>Gemini_Gate\<close>: any number of
    calls interleaved over one gate.
  \<^item> \<open>Tune_Text\<close>, \<open>Tune_Protocol\<close>: text rules and the documents of requests, events, results and
    status.  \<open>Tune_Queue\<close>: the runtime directory and \<open>app/tune_admin/repository.py\<close>.  \<open>Tune_Supervisor\<close>:
    \<open>scripts/tune_demo_supervisor.py\<close> and the checks of \<open>tune/manifest.py\<close> it calls.  \<open>Tune_Admin\<close>:
    \<open>app/tune_admin/service.py\<close>.  \<open>Tune_Names\<close>: the names a queue file goes through.  \<open>Tune_Life\<close>: both
    sides as a step relation that can stop between any two file replacements, and its invariant.
    \<open>Tune_Paths\<close>: complete operations are paths of steps.
  \<^item> \<open>Component_Laws\<close>, \<open>Deck_Claims\<close>, \<open>Gemini_Claims\<close>, \<open>Tune_Claims\<close> and this theory: the properties.

  \<^bold>\<open>Conventions.\<close>  A request is a function of the state returning an error or a value with the next
  state; an exception is \<open>Inl\<close>.  Times are microseconds, identifiers numbers, strings lists of
  Latin-1 characters, floats exact rationals with the infinities and NaN, so rounding is not
  modelled.  Requests run to completion one after another in \<open>System\<close>; every SQL transaction is one
  step in \<open>Races\<close> and in the claims on concurrent requests.  There is no fuel: all loops of the
  program run over finite data and are structural recursions or have a measure; the one search with a
  bound, for a free nickname, is shown to succeed within it.  The concurrent card tasks of a deck
  run finish in an arbitrary order; a background run is one step of the deck lifecycle.

  \<^bold>\<open>Parameters.\<close>  Session token hashing, \<open>random.Random(seed)\<close>, \<open>ffprobe\<close>, \<open>ffmpeg\<close>, SHA-256, the
  language model's answer, \<open>json.dumps\<close> and \<open>json.loads\<close> (with a round trip where needed), and
  Postgres's \<open>lower\<close>, collation and \<open>NUMERIC\<close> rounding are arguments; so are the image provider, the
  prompt texts, the curated concept table, and where the database or file system fails.  For the
  tuning demo: what a child process does and shows (exit, events, result, errors), the host's data
  files by content and hash, \<open>fromisoformat\<close>, pydantic's reading of dates and UUIDs, and the clocks.

  \<^bold>\<open>Not modelled.\<close>  HTTP routing, logging and the asyncio loops; the Google SDK; the trainer of \<open>tune/\<close>,
  load tools, deployment scripts and the frontend.  Shard files are taken to hold what the writer
  wrote, so a carriage return does not occur in them.  In the tuning demo the queue lock is
  exclusive while its holder runs (a holder slower than the stale limit is not modelled), the
  supervisor's own file writes succeed, and polling and killing of child processes is left out.
\<close>

section \<open>Reachable states\<close>

text \<open>What a job of a kind says of its turn.\<close>

definition job_kind_ok :: "job_kind \<Rightarrow> turn \<Rightarrow> bool" where
  "job_kind_ok k t \<longleftrightarrow> (case k of Triage \<Rightarrow> t_status t \<noteq> Awaiting_audio
     | Package \<Rightarrow> t_status t = Scored \<and> quality t \<noteq> None)"

lemma job_kind_ok_simps [simp]:
  "job_kind_ok Triage t \<longleftrightarrow> t_status t \<noteq> Awaiting_audio"
  "job_kind_ok Package t \<longleftrightarrow> t_status t = Scored \<and> quality t \<noteq> None"
  by (simp_all add: job_kind_ok_def)

lemma job_ok_kind: "job_ok g j \<longleftrightarrow> (\<exists>t. map_of (turns g) (j_turn_id j) = Some t \<and> job_kind_ok (j_kind j) t)"
  by (simp add: job_ok_def job_kind_ok_def)

lemma has_job_iff: "has_job k i g \<longleftrightarrow> (\<exists>j \<in> set (jobs g). j_kind j = k \<and> j_turn_id j = i)"
  by (auto simp: has_job_def)



text \<open>C2: In every reachable state the two sides of a stored turn are the two members of its pair; its
  outcome is set exactly when it is scored, its audio exactly once it left the recording phase, its
  attempts stay within the limit; and a pair has at most one open turn.\<close>

theorem reachable_turns:
  assumes "backend ops nf dur"
    and "reachable ops cap hash_token (\<lambda>b. check_audio_file (ffprobe b) (ffmpeg b)) s"
    and t: "map_of (turns (db s)) i = Some t"
  shows "(\<exists>p. map_of (pairs (db s)) (t_pair_id t) = Some p \<and> player_a p \<noteq> player_b p
        \<and> {speaker_id t, guesser_id t} = {player_a p, player_b p})
    \<and> (t_status t = Scored \<longleftrightarrow> t_outcome t \<noteq> Pending) \<and> t_outcome t \<noteq> Wrong
    \<and> (audio_path t = None \<longleftrightarrow> t_status t = Awaiting_audio)
    \<and> attempts t \<le> max_guess_attempts get_game_config
    \<and> (t_outcome t = Unclear \<longrightarrow> attempts t = max_guess_attempts get_game_config)
    \<and> (t_outcome t = Validated \<longrightarrow> 1 \<le> attempts t)
    \<and> (\<forall>j u. map_of (turns (db s)) j = Some u \<longrightarrow> t_pair_id u = t_pair_id t \<longrightarrow> is_open t \<longrightarrow> is_open u \<longrightarrow> j = i)"
proof -
  have "system_inv nf s"
    using game_store.reachable_inv [OF backend_store [OF assms(1)] rejection_has_reason assms(2)] .
  then have inv: "game_inv nf (db s)" by (simp add: system_inv_def svc_inv_def)
  obtain p where p: "map_of (pairs (db s)) (t_pair_id t) = Some p" "roles_ok p t" using inv_turn(3) [OF inv t] by blast
  have "player_a p \<noteq> player_b p" using inv_pair(1) [OF inv p(1)] pair_ok_distinct by blast
  moreover have "{speaker_id t, guesser_id t} = {player_a p, player_b p}" using p(2) by (auto simp: roles_ok_def)
  moreover have "is_open t \<Longrightarrow> is_open u \<Longrightarrow> map_of (turns (db s)) j = Some u \<Longrightarrow> t_pair_id u = t_pair_id t \<Longrightarrow> j = i"
    for j u using game_invD(5) [OF inv] t unfolding one_open_def by metis
  ultimately show ?thesis using p(1) inv_turn(1) [OF inv t] unfolding turn_ok_def by blast
qed

lemma reachable_turns_witness:
  "{speaker_id turn_next, guesser_id turn_next} = {11, 12} \<and> t_outcome turn_scored \<noteq> Pending"
proof -
  have t: "map_of (turns (db s_scored)) 38 = Some turn_next" "map_of (turns (db s_scored)) 34 = Some turn_scored"
    by (simp_all add: s_scored_def demo_db_def)
  have p: "map_of (pairs (db s_scored)) (t_pair_id turn_next) = Some demo_pair" "t_status turn_scored = Scored"
    "{player_a demo_pair, player_b demo_pair} = {11, 12}"
    by (simp_all add: s_scored_def demo_db_def turn_next_def turn_scored_def demo_pair_def)
  note run = mem_reachable(6) [unfolded demo_checker_def [abs_def]]
  show ?thesis
    using reachable_turns [OF backend_memory run t(1)] reachable_turns [OF backend_memory run t(2)] p by auto
qed

text \<open>C3: In every reachable state a turn has a triage job exactly when it has a recording, and a package
  job exactly when it is scored and its quality is known; no two jobs have the same kind and turn.\<close>

theorem reachable_jobs:
  assumes "backend ops nf dur"
    and "reachable ops cap hash_token (\<lambda>b. check_audio_file (ffprobe b) (ffmpeg b)) s"
    and t: "map_of (turns (db s)) i = Some t"
  shows "(has_job Triage i (db s) \<longleftrightarrow> t_status t \<noteq> Awaiting_audio)
    \<and> (has_job Package i (db s) \<longleftrightarrow> t_status t = Scored \<and> quality t \<noteq> None)
    \<and> distinct (map (\<lambda>j. (j_kind j, j_turn_id j)) (jobs (db s)))"
proof -
  have "system_inv nf s"
    using game_store.reachable_inv [OF backend_store [OF assms(1)] rejection_has_reason assms(2)] .
  then have inv: "jobs_ok (db s)" and follow: "jobs_follow (db s)"
    by (simp_all add: system_inv_def svc_inv_def game_inv_def)
  have "job_ok (db s) j" if "j \<in> set (jobs (db s))" for j using inv that by (simp add: jobs_ok_def)
  then have says: "job_kind_ok k t" if "has_job k i (db s)" for k
    using that t unfolding has_job_iff job_ok_kind by fastforce
  have fwd: "t_status t \<noteq> Awaiting_audio \<Longrightarrow> has_job Triage i (db s)" "settled t \<Longrightarrow> has_job Package i (db s)"
    using follow t unfolding jobs_follow_iff by blast+
  have "has_job Triage i (db s) \<longleftrightarrow> t_status t \<noteq> Awaiting_audio"
    using fwd(1) says [of Triage, unfolded job_kind_ok_simps] by blast
  moreover have "has_job Package i (db s) \<longleftrightarrow> t_status t = Scored \<and> quality t \<noteq> None"
    using fwd(2) [unfolded settled_def] says [of Package, unfolded job_kind_ok_simps] by blast
  ultimately show ?thesis using inv unfolding jobs_ok_def by blast
qed

lemma reachable_jobs_witness: "has_job Triage 34 (db s_scored) \<and> \<not> has_job Package 34 (db s_scored)"
proof -
  have t: "map_of (turns (db s_scored)) 34 = Some turn_scored" "t_status turn_scored = Scored" "quality turn_scored = None"
    by (simp_all add: s_scored_def demo_db_def turn_scored_def turn_confirmed_def turn_recorded_def turn_new_def take_audio_def)
  show ?thesis using reachable_jobs [OF backend_memory mem_reachable(6) [unfolded demo_checker_def [abs_def]] t(1)] t by auto
qed

text \<open>C4: In every reachable state display names differ under the store's folding and have 1 to 32
  characters, a session token leads to the player it was issued to, and the counter of validated
  pairs is the number of validated turns.\<close>

theorem reachable_accounts:
  assumes "backend ops nf dur"
    and "reachable ops cap hash_token (\<lambda>b. check_audio_file (ffprobe b) (ffmpeg b)) s"
  shows "(\<forall>i p j q. map_of (players (db s)) i = Some p \<longrightarrow> map_of (players (db s)) j = Some q \<longrightarrow>
        nf (nickname p) = nf (nickname q) \<longrightarrow> i = j)
    \<and> (\<forall>i p. map_of (players (db s)) i = Some p \<longrightarrow> 1 \<le> length (nickname p) \<and> length (nickname p) \<le> NICKNAME_MAX_LEN)
    \<and> (\<forall>h i. map_of (players_by_hash (db s)) h = Some i \<longrightarrow>
        (\<exists>p. map_of (players (db s)) i = Some p \<and> session_token_hash p = h))
    \<and> counter ''validated_pairs'' (db s) = n_validated (db s)"
proof -
  have "system_inv nf s"
    using game_store.reachable_inv [OF backend_store [OF assms(1)] rejection_has_reason assms(2)] .
  then have "rows_ok (db s)" "names_ok nf (db s)" "counters_ok (db s)"
    by (simp_all add: system_inv_def svc_inv_def game_inv_def)
  then show ?thesis unfolding rows_ok_def names_ok_def counters_ok_def by blast
qed

lemma reachable_accounts_witness: "n_validated (db s_scored) = 1"
  using reachable_accounts [OF backend_memory mem_reachable(6) [unfolded demo_checker_def [abs_def]]]
  by (simp add: counter_def s_scored_def demo_db_def)

section \<open>Requests\<close>



text \<open>C6: A request for a partner is refused at the round cap, is answered \<open>matched\<close> when the player
  already is in an active pair, and otherwise queues the player and makes one match step: wait, or
  create one active pair of compatible players with its first turn when there is a live card.  It
  never fails in another way.\<close>

theorem request_pair_outcomes:
  assumes "backend ops nf dur" and "svc_inv nf s" and "fresh_env e (db s)"
    and "map_of (players (db s)) (p_id me) \<noteq> None"
    and "svc_request_pair ops cap e me s = (r, s')"
  shows "svc_inv nf s' \<and>
    (if cap \<le> int (rounds_of (p_id me) (db s))
     then s' = s \<and> r = Inl (GameError 409 ''session round cap reached'')
     else if in_active (db s) (p_id me) then s' = s \<and> r = Inr ''matched''
     else \<exists>found g'. s' = s\<lparr>db := g'\<rparr> \<and> r = Inr (if found \<noteq> None then ''matched'' else ''queued'')
       \<and> match_step e (p_id me)
           (db s\<lparr>queue := AList.update (p_id me) (clock e At_enqueue) (queue (db s))\<rparr>) (Inr found) g')"
  by (rule game_store.request_pair_spec [OF backend_store [OF assms(1)] assms(2-5)])

lemma request_pair_outcomes_witness:
  "svc_inv casefold s_paired \<and> \<not> in_active (db s_queued) 12 \<and> in_active (db s_paired) 12"
proof -
  have not: "\<not> in_active (db s_queued) 12" by (simp add: in_active_def s_queued_def demo_db_def)
  have me: "map_of (players (db s_queued)) (p_id ravi) \<noteq> None"
    by (simp add: s_queued_def demo_db_def both_def ravi_def)
  have "map_of (pairs (db s_paired)) 24 = Some demo_pair" "pr_status demo_pair = Active" "is_member 12 demo_pair"
    by (simp_all add: s_paired_def demo_db_def demo_pair_def is_member_def)
  then show ?thesis
    using request_pair_outcomes [OF backend_memory demo_inv(2) demo_fresh(4) me mem_paired] not
    by (auto simp: in_active_def)
qed

text \<open>C7: Whatever a player uploads, the tables change only when the recording is accepted: the payload is
  within the size limit, the measured duration and volume are within bounds, the player is the speaker of the
  turn and the turn awaits audio.  Then the turn awaits confirmation, the payload is the stored
  file, and one triage job of the turn exists.\<close>

theorem upload_accepts:
  assumes "backend ops nf dur" and "svc_inv nf s"
    and "svc_upload_audio ops e (\<lambda>b. check_audio_file (ffprobe b) (ffmpeg b)) me payload s = (r, s')"
  shows "svc_inv nf s' \<and>
    (if r = Inr None
     then \<exists>t l v d. map_of (turns (db s)) (t_id t) = Some t \<and> speaker_id t = p_id me \<and> t_status t = Awaiting_audio
       \<and> int (length payload) \<le> max_audio_bytes get_game_config
       \<and> probe_duration_seconds (ffprobe payload) = Inr l \<and> \<not> py_less l (Fin 1) \<and> \<not> py_less (Fin 8) l
       \<and> probe_mean_volume_db (ffmpeg payload) = Inr v \<and> \<not> py_less v (Fin (- 40))
       \<and> map_of (files s') (audio_rel_path (t_id t)) = Some payload
       \<and> ensure_job Triage (t_id t)
           (put_turn (take_audio (py_replace_backslash (audio_rel_path (t_id t))) d t) (db s)) (db s')
     else db s' = db s)"
proof -
  let ?ch = "\<lambda>b. check_audio_file (ffprobe b) (ffmpeg b)"
  note spec = game_store.upload_audio_spec [OF backend_store [OF assms(1)] assms(2,3)]
  have law: "check_audio_file p q = Inr res \<Longrightarrow> accepted res \<longleftrightarrow> ac_reason res = None" for p q res
    by (rule rejection_has_reason)
  show ?thesis
  proof (cases "r = Inr None")
    case True
    then obtain t res d where t: "map_of (turns (db s)) (t_id t) = Some t" "speaker_id t = p_id me"
        "t_status t = Awaiting_audio" "?ch payload = Inr res" "accepted res"
        "int (length payload) \<le> max_audio_bytes get_game_config"
        "map_of (files s') (audio_rel_path (t_id t)) = Some payload"
        "ensure_job Triage (t_id t)
           (put_turn (take_audio (py_replace_backslash (audio_rel_path (t_id t))) d t) (db s)) (db s')"
      using spec(1) law by blast
    from accepted_bounds [OF t(4)] t(5) obtain l v where
      "probe_duration_seconds (ffprobe payload) = Inr l" "probe_mean_volume_db (ffmpeg payload) = Inr v"
      "\<not> py_less l (Fin 1)" "\<not> py_less (Fin 8) l" "\<not> py_less v (Fin (- 40))" by blast
    then show ?thesis using t spec(2) True by auto
  next
    case False
    then show ?thesis using spec law by auto
  qed
qed

lemma upload_accepts_witness:
  "(\<exists>t. map_of (turns (db s_paired)) (t_id t) = Some t \<and> speaker_id t = 11 \<and> t_status t = Awaiting_audio)
    \<and> svc_inv casefold s_recorded"
  using upload_accepts [OF backend_memory demo_inv(3) mem_recorded [unfolded demo_checker_def [abs_def]]]
  by (auto simp: ana_def)

text \<open>C8: Confirming the label moves exactly the caller's turn from the label phase to the guessing phase;
  any other confirmation is refused without effect.\<close>

theorem confirm_opens_guessing:
  assumes "backend ops nf dur" and "svc_inv nf s" and "svc_confirm_label ops me s = (r, s')"
  shows "svc_inv nf s' \<and>
    (case r of
       Inl err \<Rightarrow> s' = s \<and> \<not> (\<exists>t. playing (db s) (p_id me) t \<and> speaker_id t = p_id me \<and> t_status t = Awaiting_label_confirm)
     | Inr _ \<Rightarrow> \<exists>t. map_of (turns (db s)) (t_id t) = Some t \<and> speaker_id t = p_id me \<and> t_status t = Awaiting_label_confirm
         \<and> s' = s\<lparr>db := put_turn (t\<lparr>t_status := Awaiting_guess\<rparr>) (db s)\<rparr>)"
proof -
  note spec = game_store.confirm_label_spec [OF backend_store [OF assms(1)] assms(2,3)]
  have "\<not> (\<exists>t. playing (db s) (p_id me) t \<and> speaker_id t = p_id me \<and> t_status t = Awaiting_label_confirm)"
    if "r = Inl err" for err
    using bundle_store.confirm_accepted [OF backend_view [OF assms(1)] assms(2)] that assms(3) by fastforce
  then show ?thesis using spec by (auto split: sum.split)
qed

lemma confirm_opens_guessing_witness:
  "\<exists>t. speaker_id t = 11 \<and> s_confirmed = s_recorded\<lparr>db := put_turn (t\<lparr>t_status := Awaiting_guess\<rparr>) (db s_recorded)\<rparr>"
  using confirm_opens_guessing [OF backend_memory demo_inv(4) mem_confirmed] by (auto simp: ana_def)

text \<open>C9: A guess by the guesser of an open turn awaiting it succeeds: it uses one attempt, validates the
  turn and bumps the counter when the option is the card, makes it unclear at the last attempt, and
  leaves every other player's guess refused without effect.\<close>

theorem guess_outcomes:
  assumes "backend ops nf dur" and "svc_inv nf s" and "map_of (turns (db s)) (new_turn e) = None"
    and "svc_guess ops cap e me option_id s = (r, s')"
  shows "svc_inv nf s' \<and>
    (case r of
       Inl err \<Rightarrow> s' = s \<and> \<not> (\<exists>t. playing (db s) (p_id me) t \<and> guesser_id t = p_id me \<and> t_status t = Awaiting_guess)
     | Inr _ \<Rightarrow> \<exists>t u. map_of (turns (db s)) (t_id t) = Some t \<and> guesser_id t = p_id me \<and> t_status t = Awaiting_guess
         \<and> map_of (turns (db s')) (t_id t) = Some u \<and> attempts u = attempts t + 1
         \<and> (t_outcome u, t_status u) = (if option_id = t_card_id t then (Validated, Scored)
              else if attempts t + 1 = max_guess_attempts get_game_config then (Unclear, Scored)
              else (Pending, Awaiting_guess))
         \<and> counter ''validated_pairs'' (db s') = counter ''validated_pairs'' (db s) + (if option_id = t_card_id t then 1 else 0))"
  by (rule bundle_store.guess_summary [OF backend_view [OF assms(1)] assms(2-4)])

lemma guess_outcomes_witness:
  "\<exists>(t :: turn) u. guesser_id t = 12 \<and> map_of (turns (db s_scored)) (t_id t) = Some u \<and> attempts u = attempts t + 1"
proof -
  have p: "p_id ravi = 12" by (simp add: ravi_def)
  have "map_of (turns (db s_confirmed)) (new_turn (demo_env 8)) = None" using demo_fresh(5) by (simp add: fresh_env_def)
  then show ?thesis using guess_outcomes [OF backend_memory demo_inv(5) _ mem_scored] unfolding sum.case p by blast
qed

text \<open>C10: A guess that scores a turn leaves the pair in one of three ways: completed, when one of its
  players has played the capped number of rounds; as it was, when no live card exists; or with one new
  turn on a live card in which speaker and guesser have swapped.  A turn whose quality is known gets
  its package job.\<close>

theorem scoring_starts_next_round:
  assumes "backend ops nf dur" and "svc_inv nf s" and "map_of (turns (db s)) (new_turn e) = None"
    and "svc_guess ops cap e me option_id s = (r, s')"
    and "map_of (turns (db s)) i = Some t" and "t_status t = Awaiting_guess"
    and "map_of (turns (db s')) i = Some u" and "t_status u = Scored"
  shows "\<exists>p g1. map_of (pairs (db s)) (t_pair_id t) = Some p \<and> turns g1 = AList.update i u (turns (db s))
    \<and> (quality t \<noteq> None \<longrightarrow> has_job Package i (db s'))
    \<and> (if capped cap p g1 then map_of (pairs (db s')) (pr_id p) = Some (p\<lparr>pr_status := Completed\<rparr>)
         \<and> turns (db s') = turns g1
       else if live_cards (db s) = [] then turns (db s') = turns g1 \<and> pairs (db s') = pairs (db s)
       else \<exists>c \<in> set (live_cards (db s)). turns (db s') = AList.update (new_turn e)
         (mk_turn (new_turn e) (pr_id p) (guesser_id t) (speaker_id t) (c_id c) (clock e At_turn)) (turns g1))"
  by (rule game_store.scored_summary [OF backend_store [OF assms(1)] assms(2-8)])

lemma scoring_starts_next_round_witness:
  "\<exists>c \<in> set (live_cards (db s_confirmed)). turns (db s_scored) = AList.update 38
     (mk_turn 38 24 12 11 (c_id c) 8000000) (AList.update 34 turn_scored (turns (db s_confirmed)))"
proof -
  have t: "map_of (turns (db s_confirmed)) 34 = Some turn_confirmed" "t_status turn_confirmed = Awaiting_guess"
    "map_of (turns (db s_scored)) 34 = Some turn_scored" "t_status turn_scored = Scored"
    by (simp_all add: s_confirmed_def s_scored_def demo_db_def turn_confirmed_def turn_scored_def)
  have p: "map_of (pairs (db s_confirmed)) (t_pair_id turn_confirmed) = Some demo_pair" "pr_id demo_pair = 24"
    "guesser_id turn_confirmed = 12" "speaker_id turn_confirmed = 11" "new_turn (demo_env 8) = 38"
    "clock (demo_env 8) At_turn = 8000000" "new_turn (demo_env 8) = 38"
    by (simp_all add: s_confirmed_def demo_db_def turn_confirmed_def turn_recorded_def turn_new_def take_audio_def
        mk_turn_def demo_pair_def demo_env_def)
  have st: "map_of (pairs (db s_scored)) 24 = Some demo_pair" "demo_pair \<noteq> demo_pair\<lparr>pr_status := Completed\<rparr>"
    "live_cards (db s_confirmed) \<noteq> []"
    by (simp_all add: s_scored_def demo_db_def demo_pair_def live_cards_def s_confirmed_def demo_card_def demo_deck_def)
  have "map_of (turns (db s_confirmed)) (new_turn (demo_env 8)) = None" using demo_fresh(5) by (simp add: fresh_env_def)
  from scoring_starts_next_round [OF backend_memory demo_inv(5) this mem_scored t] p st t(3) show ?thesis
    by (auto split: if_splits)
qed

section \<open>Polling\<close>



text \<open>C12: The view leaks nothing: the label is shown only to the speaker of a turn of the active pair
  that awaits its confirmation, the image only to its speaker, and the options only to its guesser,
  while it awaits a guess; then the right card is one of them.\<close>

theorem poll_keeps_secrets:
  assumes "backend ops nf dur" and "svc_inv nf s" and "map_of (players (db s)) (p_id me) \<noteq> None"
    and "svc_get_state ops draw cap e me s = (Inr v, s')" and "sr_turn v = Some ts"
  shows "\<exists>t p. playing (db s) (p_id me) t \<and> map_of (pairs (db s)) (t_pair_id t) = Some p \<and>
    (\<forall>lab. ts_label ts = Some lab \<longrightarrow> speaker_id t = p_id me \<and> t_status t = Awaiting_label_confirm \<and>
      (\<exists>c. map_of (cards (db s)) (t_card_id t) = Some c \<and> lab = label_of_dict (label_common c) (common_lang p))) \<and>
    (ts_card_image_url ts \<noteq> None \<longrightarrow> speaker_id t = p_id me) \<and>
    (\<forall>opts. ts_options ts = Some opts \<longrightarrow> guesser_id t = p_id me \<and> t_status t = Awaiting_guess \<and>
      t_card_id t \<in> fst ` set opts)"
  by (rule bundle_store.get_state_secrets [OF backend_view [OF assms(1)] assms(2-5)])

lemma poll_keeps_secrets_witness:
  "\<exists>t. playing (db s_confirmed) 12 t \<and> guesser_id t = 12 \<and> t_status t = Awaiting_guess"
proof -
  have me: "map_of (players (db s_confirmed)) (p_id ravi) \<noteq> None"
    by (simp add: s_confirmed_def demo_db_def both_def ravi_def)
  from poll_keeps_secrets [OF backend_memory demo_inv(5) me mem_poll(1,2)] mem_poll(3) show ?thesis
    by (auto simp: ravi_def)
qed

text \<open>C13: View and service agree: the request that the phase shown invites is accepted.  A speaker asked
  to confirm can confirm, a guesser can guess, a speaker's admissible recording is accepted, and a
  player who is onboarding or queued can ask for a partner.\<close>

theorem poll_invites_requests:
  assumes "backend ops nf dur" and "svc_inv nf s" and "map_of (players (db s)) (p_id me) \<noteq> None"
    and "fresh_env e (db s)" and "svc_get_state ops draw cap e me s = (Inr v, s')"
  shows "(sr_phase v = SPEAKING_CONFIRM_LABEL \<longrightarrow> (\<exists>s1. svc_confirm_label ops me s = (Inr ''ok'', s1)))
    \<and> (sr_phase v = GUESSING \<longrightarrow> (\<exists>s1. svc_guess ops cap e me option_id s = (Inr ''ok'', s1)))
    \<and> (sr_phase v = SPEAKING_VIEW_IMAGE \<longrightarrow> int (length payload) \<le> max_audio_bytes get_game_config \<longrightarrow>
         checker payload = Inr res \<longrightarrow> accepted res \<longrightarrow> (\<exists>s1. svc_upload_audio ops e checker me payload s = (Inr None, s1)))
    \<and> (sr_phase v = ONBOARDING \<or> sr_phase v = QUEUED \<longrightarrow> (\<exists>a s1. svc_request_pair ops cap e me s = (Inr a, s1)))"
proof -
  note store = backend_view [OF assms(1)]
  have "shows_phase cap (p_id me) (db s) (sr_phase v)"
    using bundle_store.get_state_phase [OF store assms(2,3), of draw cap e] assms(5) by auto
  note invited = bundle_store.invited_accepted [OF store assms(2) this assms(4,3)]
  show ?thesis using invited(1,2,4) invited(3) [where checker = checker] by blast
qed

lemma poll_invites_requests_witness: "\<exists>s1. svc_guess memory_ops 10 (demo_env 6) ravi 8 s_confirmed = (Inr ''ok'', s1)"
proof -
  have me: "map_of (players (db s_confirmed)) (p_id ravi) \<noteq> None"
    by (simp add: s_confirmed_def demo_db_def both_def ravi_def)
  have "fresh_env (demo_env 6) (db s_confirmed)" by code_simp
  from poll_invites_requests [OF backend_memory demo_inv(5) me this mem_poll(1)] mem_poll(3) show ?thesis by blast
qed

section \<open>Scores\<close>

text \<open>C14: Over either store the leaderboard has the requested number of rows, or one per player when
  there are fewer; every row is a player's name with ten points for each validated turn they took
  part in; the rows are ordered by score, and no player left out has more points than one shown.
  A player's own statistics agree with it.\<close>

theorem leaderboard_ranks:
  assumes "backend ops nf dur" and "game_inv nf g"
  shows "(\<exists>rows. op_leaderboard ops limit g = Inr rows \<and> length rows = min limit (length (players g))
      \<and> set rows \<subseteq> set (board_rows g) \<and> sorted (map (\<lambda>r. - lb_score r) rows)
      \<and> (\<forall>r \<in> set (board_rows g). r \<notin> set rows \<longrightarrow> (\<forall>q \<in> set rows. lb_score r \<le> lb_score q)))
    \<and> (map_of (players g) i \<noteq> None \<longrightarrow> (\<exists>st. op_player_stats ops i g = Inr st \<and> score st = points_of i g
         \<and> rounds_played st = rounds_of i g))"
  using game_store.leaderboard [OF backend_store [OF assms(1)] assms(2)]
    game_store.player_stats [OF backend_store [OF assms(1)] assms(2)] by blast

lemma leaderboard_ranks_witness:
  "\<exists>st. op_player_stats demo_pg 12 (db s_scored) = Inr st \<and> score st = 10"
proof -
  have "backend demo_pg py_lower (\<lambda>d. d)" unfolding demo_pg_def by (rule backend_postgres)
  moreover have "game_inv py_lower (db s_scored)" using demo_pg_inv(6) by (simp add: svc_inv_def)
  moreover have "map_of (players (db s_scored)) 12 \<noteq> None" by (simp add: s_scored_def demo_db_def both_def)
  moreover have "points_of 12 (db s_scored) = 10" by code_simp
  ultimately show ?thesis using leaderboard_ranks [of demo_pg py_lower "\<lambda>d. d" "db s_scored" _ 12] by metis
qed

section \<open>Interleaved transactions\<close>

text \<open>C15: However the transactions of the last guess and of the triage of a turn interleave, the turn
  ends with exactly one package job.\<close>

theorem package_job_never_lost:
  assumes "game_inv nf g" and "map_of (turns g) i = Some t" and "t_status t = Awaiting_guess"
    and "t_status (take_guess correct t) = Scored"
    and "steps \<in> shuffles [Apply_guess, Reread_turn, Enqueue_package] [Persist_triage]"
  shows "n_packages i (race_run e i correct flac q steps g) = 1"
  by (rule race_package [OF assms])

lemma package_job_never_lost_witness:
  "n_packages 34 (race_run (demo_env 9) 34 True ''a.flac'' [] [Apply_guess, Persist_triage, Reread_turn, Enqueue_package]
     (db s_confirmed)) = 1"
proof (rule package_job_never_lost [where t = turn_confirmed and nf = py_lower])
  show "game_inv py_lower (db s_confirmed)" using demo_pg_inv(5) by (simp add: svc_inv_def)
qed (simp_all add: s_confirmed_def demo_db_def turn_confirmed_def take_guess_def)

end
